(* ===== verification/Geo_Prelude.thy ===== *)
theory Geo_Prelude
  imports Main "HOL-Library.Word" "HOL-Library.Multiset"
begin

text \<open>
  What every component of the geo service shares: Go's fixed-width integers and truncated
  division, ASCII strings (trimming, decimal rendering and reading), results of fallible calls,
  and the interface of a state machine whose invariant is kept by every operation.

  Strings are byte strings. \<open>trim_space\<close> removes the ASCII white space that
  \<open>strings.TrimSpace\<close> removes; the multi-byte Unicode spaces are not modelled.
  A \<open>time.Time\<close> is the number of nanoseconds since the Unix epoch, a \<open>time.Duration\<close> a
  number of nanoseconds.
\<close>

named_theorems go_int \<open>fixed-width integer arithmetic that does not leave its range\<close>
named_theorems step_intros \<open>introduction rules of the step relations\<close>

section \<open>Fixed-width integers\<close>

definition wrap_int32 :: "int \<Rightarrow> int" where
  "wrap_int32 x = (x + 2147483648) mod 4294967296 - 2147483648"

definition wrap_int64 :: "int \<Rightarrow> int" where
  "wrap_int64 x = (x + 9223372036854775808) mod 18446744073709551616 - 9223372036854775808"

definition wrap_uint32 :: "int \<Rightarrow> int" where
  "wrap_uint32 x = x mod 4294967296"

definition wrap_uint64 :: "int \<Rightarrow> int" where
  "wrap_uint64 x = x mod 18446744073709551616"

definition in_int32 :: "int \<Rightarrow> bool" where
  "in_int32 x \<longleftrightarrow> - 2147483648 \<le> x \<and> x < 2147483648"

definition in_int64 :: "int \<Rightarrow> bool" where
  "in_int64 x \<longleftrightarrow> - 9223372036854775808 \<le> x \<and> x < 9223372036854775808"

definition in_uint32 :: "int \<Rightarrow> bool" where
  "in_uint32 x \<longleftrightarrow> 0 \<le> x \<and> x < 4294967296"

definition in_uint64 :: "int \<Rightarrow> bool" where
  "in_uint64 x \<longleftrightarrow> 0 \<le> x \<and> x < 18446744073709551616"

text \<open>Go's integer division truncates towards zero.\<close>

definition quot :: "int \<Rightarrow> int \<Rightarrow> int" where
  "quot a b = sgn a * sgn b * (\<bar>a\<bar> div \<bar>b\<bar>)"

text \<open>\<open>Time.Sub\<close> saturates at the limits of a 64-bit duration; \<open>Time.Unix\<close> is the floor in seconds.\<close>

definition time_sub :: "int \<Rightarrow> int \<Rightarrow> int" where
  "time_sub t u = max (- 9223372036854775808) (min 9223372036854775807 (t - u))"

definition second :: int where
  "second = 1000000000"

definition unix :: "int \<Rightarrow> int" where
  "unix t = t div second"

section \<open>Strings\<close>

definition is_space :: "char \<Rightarrow> bool" where
  "is_space c \<longleftrightarrow> (let n = (of_char c :: nat) in n = 32 \<or> (9 \<le> n \<and> n \<le> 13))"

definition trim_left :: "string \<Rightarrow> string" where
  "trim_left s = dropWhile is_space s"

definition trim_space :: "string \<Rightarrow> string" where
  "trim_space s = rev (trim_left (rev (trim_left s)))"

definition is_digit :: "char \<Rightarrow> bool" where
  "is_digit c \<longleftrightarrow> (let n = (of_char c :: nat) in 48 \<le> n \<and> n \<le> 57)"

definition alnum :: "char \<Rightarrow> bool" where
  "alnum c \<longleftrightarrow> (let n = of_char c :: nat in (48 \<le> n \<and> n \<le> 57) \<or> (65 \<le> n \<and> n \<le> 90) \<or> (97 \<le> n \<and> n \<le> 122))"

text \<open>The identifier pattern \<open>^[A-Za-z0-9][A-Za-z0-9._:-]{0,n}$\<close> of handlers and tables.\<close>

definition id_text :: "nat \<Rightarrow> string \<Rightarrow> bool" where
  "id_text n s \<longleftrightarrow> s \<noteq> [] \<and> alnum (hd s) \<and> length s \<le> Suc n
     \<and> list_all (\<lambda>c. alnum c \<or> c \<in> {CHR ''.'', CHR ''_'', CHR '':'', CHR ''-''}) (tl s)"

definition digit_char :: "nat \<Rightarrow> char" where
  "digit_char d = char_of (48 + d)"

definition digit_val :: "char \<Rightarrow> nat" where
  "digit_val c = of_char c - 48"

text \<open>The verb \<open>%d\<close> on a non-negative number, and reading it back.\<close>

fun show_nat :: "nat \<Rightarrow> string" where
  "show_nat n = (if n < 10 then [digit_char n] else show_nat (n div 10) @ [digit_char (n mod 10)])"

declare show_nat.simps [simp del]

definition read_nat :: "string \<Rightarrow> nat" where
  "read_nat s = foldl (\<lambda>acc c. 10 * acc + digit_val c) 0 s"

definition show_int :: "int \<Rightarrow> string" where
  "show_int i = (if i < 0 then ''-'' @ show_nat (nat (- i)) else show_nat (nat i))"

text \<open>The verb \<open>%0wd\<close> on a non-negative number.\<close>

definition show_padded :: "nat \<Rightarrow> nat \<Rightarrow> string" where
  "show_padded w n = (let s = show_nat n in replicate (w - length s) CHR ''0'' @ s)"

section \<open>State machines\<close>

text \<open>
  A component whose operations step a state. An operation returns the next state; the invariant
  holds at the start and every operation keeps it.
\<close>

fun run_steps :: "('s \<Rightarrow> 'op \<Rightarrow> 's) \<Rightarrow> 's \<Rightarrow> 'op list \<Rightarrow> 's" where
  "run_steps f s [] = s"
| "run_steps f s (x # xs) = run_steps f (f s x) xs"

locale kept_invariant =
  fixes step :: "'s \<Rightarrow> 'op \<Rightarrow> 's"
    and inv :: "'s \<Rightarrow> bool"
  assumes inv_step: "inv s \<Longrightarrow> inv (step s x)"
begin

lemma inv_run: "inv s \<Longrightarrow> inv (run_steps step s xs)"
  by (induction xs arbitrary: s) (auto intro: inv_step)

end

text \<open>A predicate on single items that, once true, no operation undoes.\<close>

locale absorbing_state =
  fixes step :: "'s \<Rightarrow> 'op \<Rightarrow> 's"
    and absorbed :: "'s \<Rightarrow> bool"
  assumes absorbed_step: "absorbed s \<Longrightarrow> absorbed (step s x)"

sublocale absorbing_state \<subseteq> kept_invariant step absorbed
  by unfold_locales (rule absorbed_step)

lemma run_steps_append: "run_steps f s (xs @ ys) = run_steps f (run_steps f s xs) ys"
  by (induction xs arbitrary: s) auto

section \<open>Facts about fixed-width integers\<close>

lemma wrap_int32_id [go_int]: "- 2147483648 \<le> x \<Longrightarrow> x < 2147483648 \<Longrightarrow> wrap_int32 x = x"
  by (simp add: wrap_int32_def)

lemma wrap_int64_id [go_int]:
  "- 9223372036854775808 \<le> x \<Longrightarrow> x < 9223372036854775808 \<Longrightarrow> wrap_int64 x = x"
  by (simp add: wrap_int64_def)

lemma wrap_uint32_id [go_int]: "0 \<le> x \<Longrightarrow> x < 4294967296 \<Longrightarrow> wrap_uint32 x = x"
  by (simp add: wrap_uint32_def)

lemma wrap_uint64_id [go_int]: "0 \<le> x \<Longrightarrow> x < 18446744073709551616 \<Longrightarrow> wrap_uint64 x = x"
  by (simp add: wrap_uint64_def)

lemma wrap_uint64_range: "0 \<le> wrap_uint64 x" "wrap_uint64 x < 18446744073709551616"
  by (simp_all add: wrap_uint64_def)

lemma quot_nonneg: "0 \<le> a \<Longrightarrow> 0 < b \<Longrightarrow> quot a b = a div b"
  by (cases "a = 0") (auto simp: quot_def)

lemma quot_nonpos: "a \<le> 0 \<Longrightarrow> 0 < b \<Longrightarrow> quot a b = - ((- a) div b)"
  by (cases "a = 0") (auto simp: quot_def)

lemma quot_neg_neg: "quot (- a) (- b) = quot a b"
  by (simp add: quot_def)

section \<open>Facts about strings\<close>

lemma trim_left_idem [simp]: "trim_left (trim_left s) = trim_left s"
  by (simp add: trim_left_def)

lemma trim_left_Cons: "\<not> is_space c \<Longrightarrow> trim_left (c # s) = c # s"
  by (simp add: trim_left_def)

lemma trim_left_Nil_iff: "trim_left s = [] \<longleftrightarrow> (\<forall>c\<in>set s. is_space c)"
  by (simp add: trim_left_def dropWhile_eq_Nil_conv)

lemma trim_space_Nil [simp]: "trim_space [] = []"
  by (simp add: trim_space_def trim_left_def)

text \<open>A string with no white space at either end is its own trimming.\<close>

lemma trim_space_id:
  assumes "s \<noteq> [] \<Longrightarrow> \<not> is_space (hd s)" and "s \<noteq> [] \<Longrightarrow> \<not> is_space (last s)"
  shows "trim_space s = s"
proof (cases "s = []")
  case False
  then have l: "trim_left s = s"
    using assms(1) by (cases s) (auto simp: trim_left_def)
  have "rev s = last s # rev (butlast s)"
    using False by (metis append_butlast_last_id rev_eq_Cons_iff rev_rev_ident)
  then have "trim_left (rev s) = rev s"
    using False assms(2) by (metis trim_left_Cons)
  with l show ?thesis by (simp add: trim_space_def)
qed simp

lemma digit_char_facts:
  assumes "d < 10"
  shows "of_char (digit_char d) = 48 + d" "is_digit (digit_char d)" "digit_val (digit_char d) = d"
proof -
  have "of_char (digit_char d) = (48 + d) mod 256"
    by (simp add: digit_char_def)
  then show "of_char (digit_char d) = 48 + d" using assms by simp
  then show "is_digit (digit_char d)" "digit_val (digit_char d) = d"
    using assms by (simp_all add: is_digit_def digit_val_def)
qed

lemma show_nat_digits: "\<forall>c\<in>set (show_nat n). is_digit c"
proof (induction n rule: show_nat.induct)
  case (1 n)
  then show ?case
    by (subst show_nat.simps) (auto simp: digit_char_facts)
qed

lemma show_nat_nonempty [simp]: "show_nat n \<noteq> []"
  by (subst show_nat.simps) simp

lemma read_nat_append:
  "read_nat (s @ [c]) = 10 * read_nat s + digit_val c"
  by (simp add: read_nat_def)

lemma read_show_nat [simp]: "read_nat (show_nat n) = n"
proof (induction n rule: show_nat.induct)
  case (1 n)
  show ?case
  proof (cases "n < 10")
    case True
    then show ?thesis by (subst show_nat.simps) (simp add: read_nat_def digit_char_facts)
  next
    case False
    with 1 show ?thesis
      by (subst show_nat.simps) (simp add: read_nat_append digit_char_facts)
  qed
qed

lemma show_nat_inject [simp]: "show_nat m = show_nat n \<longleftrightarrow> m = n"
  by (metis read_show_nat)

lemma read_nat_zeros: "read_nat (replicate k (CHR ''0'') @ s) = read_nat s"
proof (induction k)
  case (Suc k)
  then show ?case by (simp add: read_nat_def digit_val_def)
qed simp

lemma read_show_padded [simp]: "read_nat (show_padded w n) = n"
  by (simp add: show_padded_def Let_def read_nat_zeros)

end
