(* ===== verification/Classification.thy ===== *)
theory Classification
  imports Geo_Prelude
begin

text \<open>
  The classification ladder (\<open>internal/sign/classification.go\<close>), the clearance of an
  authenticated principal (\<open>validatedClearance\<close> in \<open>internal/auth/auth.go\<close>) and the labels a
  clearance covers (\<open>clearedLabels\<close> in \<open>internal/api/server.go\<close>).

  A Go \<open>Classification\<close> is a string, so the model keeps strings. The type \<open>label\<close> is the
  specification: the five rungs with their linear order. Clients that filter rows or events by the
  covered labels do so through the interface \<open>clearance_filter\<close>.
\<close>

section \<open>The ladder\<close>

datatype label = Public | Internal | Restricted | Confidential | Secret

fun label_rank :: "label \<Rightarrow> nat" where
  "label_rank Public = 0"
| "label_rank Internal = 1"
| "label_rank Restricted = 2"
| "label_rank Confidential = 3"
| "label_rank Secret = 4"

lemma label_rank_inject [simp]: "label_rank a = label_rank b \<longleftrightarrow> a = b"
  by (cases a; cases b) auto

instantiation label :: linorder
begin

definition less_eq_label :: "label \<Rightarrow> label \<Rightarrow> bool" where
  "less_eq_label a b \<longleftrightarrow> label_rank a \<le> label_rank b"

definition less_label :: "label \<Rightarrow> label \<Rightarrow> bool" where
  "less_label a b \<longleftrightarrow> label_rank a < label_rank b"

instance
  by intro_classes (auto simp: less_eq_label_def less_label_def)

end

section \<open>Definitions from the source\<close>

datatype classification_error = ErrInvalidClassification

definition ClassificationPublic :: string where
  "ClassificationPublic = ''PUBLIC''"

definition ClassificationInternal :: string where
  "ClassificationInternal = ''INTERNAL''"

definition ClassificationRestricted :: string where
  "ClassificationRestricted = ''RESTRICTED''"

definition ClassificationConfidential :: string where
  "ClassificationConfidential = ''CONFIDENTIAL''"

definition ClassificationSecret :: string where
  "ClassificationSecret = ''SECRET''"

lemmas classification_strings =
  ClassificationPublic_def ClassificationInternal_def ClassificationRestricted_def
  ClassificationConfidential_def ClassificationSecret_def

lemma classification_neq [simp]:
  "ClassificationPublic \<noteq> ClassificationInternal"
  "ClassificationPublic \<noteq> ClassificationRestricted"
  "ClassificationPublic \<noteq> ClassificationConfidential"
  "ClassificationPublic \<noteq> ClassificationSecret"
  "ClassificationInternal \<noteq> ClassificationPublic"
  "ClassificationInternal \<noteq> ClassificationRestricted"
  "ClassificationInternal \<noteq> ClassificationConfidential"
  "ClassificationInternal \<noteq> ClassificationSecret"
  "ClassificationRestricted \<noteq> ClassificationPublic"
  "ClassificationRestricted \<noteq> ClassificationInternal"
  "ClassificationRestricted \<noteq> ClassificationConfidential"
  "ClassificationRestricted \<noteq> ClassificationSecret"
  "ClassificationConfidential \<noteq> ClassificationPublic"
  "ClassificationConfidential \<noteq> ClassificationInternal"
  "ClassificationConfidential \<noteq> ClassificationRestricted"
  "ClassificationConfidential \<noteq> ClassificationSecret"
  "ClassificationSecret \<noteq> ClassificationPublic"
  "ClassificationSecret \<noteq> ClassificationInternal"
  "ClassificationSecret \<noteq> ClassificationRestricted"
  "ClassificationSecret \<noteq> ClassificationConfidential"
  by (simp_all add: classification_strings)

definition ladder :: "string list" where
  "ladder = [ClassificationPublic, ClassificationInternal, ClassificationRestricted,
             ClassificationConfidential, ClassificationSecret]"

definition ParseClassification :: "string \<Rightarrow> classification_error + string" where
  "ParseClassification raw =
     (let t = trim_space raw in if t \<in> set ladder then Inr t else Inl ErrInvalidClassification)"

text \<open>\<open>MustClassification\<close> panics outside the approved set; a panic is \<open>None\<close>.\<close>

definition MustClassification :: "string \<Rightarrow> string option" where
  "MustClassification value =
     (case ParseClassification value of Inl e \<Rightarrow> None | Inr t \<Rightarrow> Some value)"

definition Rank :: "string \<Rightarrow> nat" where
  "Rank l =
     (if l = ClassificationPublic then 0
      else if l = ClassificationInternal then 1
      else if l = ClassificationRestricted then 2
      else if l = ClassificationConfidential then 3
      else 4)"

definition Covers :: "string \<Rightarrow> string \<Rightarrow> bool" where
  "Covers l event =
     (case ParseClassification l of Inl e \<Rightarrow> False | Inr t \<Rightarrow>
      (case ParseClassification event of Inl e \<Rightarrow> False | Inr t \<Rightarrow> Rank event \<le> Rank l))"

definition MaxClassification :: "string \<Rightarrow> string \<Rightarrow> string" where
  "MaxClassification a b = (if Rank b \<le> Rank a then a else b)"

definition clearedLabels :: "string \<Rightarrow> string list" where
  "clearedLabels clearance =
     (case ParseClassification clearance of
        Inl e \<Rightarrow> []
      | Inr l \<Rightarrow> filter (\<lambda>candidate. case MustClassification candidate of
                           None \<Rightarrow> False | Some c \<Rightarrow> Covers l c) ladder)"

datatype auth_error =
    SubjectRequired
  | RolesInvalid
  | ClearanceInvalid

definition validatedClearance :: "string \<Rightarrow> auth_error + string" where
  "validatedClearance value =
     (let clearance = trim_space value in
      if clearance = '''' then Inr ClassificationPublic
      else if clearance \<in> set ladder then Inr clearance
      else Inl ClearanceInvalid)"

section \<open>Specification: labels of strings\<close>

definition label_of :: "string \<Rightarrow> label option" where
  "label_of s =
     (if s = ClassificationPublic then Some Public
      else if s = ClassificationInternal then Some Internal
      else if s = ClassificationRestricted then Some Restricted
      else if s = ClassificationConfidential then Some Confidential
      else if s = ClassificationSecret then Some Secret
      else None)"

lemma label_of_ladder: "label_of s \<noteq> None \<longleftrightarrow> s \<in> set ladder"
  by (auto simp: label_of_def ladder_def)

lemma ladder_cases:
  assumes "s \<in> set ladder"
  obtains "s = ClassificationPublic" | "s = ClassificationInternal" | "s = ClassificationRestricted" | "s = ClassificationConfidential"
  | "s = ClassificationSecret"
  using assms unfolding ladder_def by auto

lemma Rank_label_of: "label_of s = Some l \<Longrightarrow> Rank s = label_rank l"
  by (auto simp: label_of_def Rank_def split: if_splits)

lemma trim_space_Public [simp]: "trim_space ClassificationPublic = ClassificationPublic"
  by (rule trim_space_id) (simp_all add: classification_strings is_space_def)

lemma trim_space_ladder [simp]: "s \<in> set ladder \<Longrightarrow> trim_space s = s"
  by (erule ladder_cases; rule trim_space_id; simp add: classification_strings is_space_def)

lemma ParseClassification_ladder [simp]: "s \<in> set ladder \<Longrightarrow> ParseClassification s = Inr s"
  by (simp add: ParseClassification_def)

lemma ParseClassification_Inr:
  "ParseClassification raw = Inr t \<longleftrightarrow> t = trim_space raw \<and> t \<in> set ladder"
  by (auto simp: ParseClassification_def Let_def)

lemma Covers_ladder [simp]:
  "a \<in> set ladder \<Longrightarrow> b \<in> set ladder \<Longrightarrow> Covers a b \<longleftrightarrow> Rank b \<le> Rank a"
  by (simp add: Covers_def)

lemma Covers_label:
  assumes "label_of a = Some x" and "label_of b = Some y"
  shows "Covers a b \<longleftrightarrow> y \<le> x"
proof -
  from assms have "a \<in> set ladder" "b \<in> set ladder"
    using label_of_ladder by (metis option.distinct(1))+
  with assms show ?thesis
    by (simp add: Rank_label_of less_eq_label_def)
qed

lemma set_clearedLabels:
  "set (clearedLabels c) =
     {l. l \<in> set ladder \<and> trim_space c \<in> set ladder \<and> Rank l \<le> Rank (trim_space c)}"
  by (auto simp: clearedLabels_def MustClassification_def ParseClassification_Inr
      ParseClassification_def Let_def split: sum.splits option.splits if_splits)

section \<open>The interface readers use\<close>

text \<open>
  A reader filters rows (or events) by membership of the row's label in the list computed from the
  principal's clearance. The two lemmas are what the clearance floor promises every reader.
\<close>

locale clearance_filter =
  fixes cleared :: "string \<Rightarrow> string list"
    and rank :: "string \<Rightarrow> nat"
  assumes cleared_floor: "l \<in> set (cleared c) \<Longrightarrow> rank l \<le> rank (trim_space c)"
    and cleared_downward:
      "l \<in> set (cleared c) \<Longrightarrow> l' \<in> set ladder \<Longrightarrow> rank l' \<le> rank l \<Longrightarrow> l' \<in> set (cleared c)"
    and cleared_mono:
      "trim_space c' \<in> set ladder \<Longrightarrow> rank (trim_space c) \<le> rank (trim_space c') \<Longrightarrow>
       l \<in> set (cleared c) \<Longrightarrow> l \<in> set (cleared c')"
begin

lemma rows_below_clearance:
  "r \<in> set (filter (\<lambda>r. cls r \<in> set (cleared c)) rows) \<Longrightarrow> rank (cls r) \<le> rank (trim_space c)"
  by (auto intro: cleared_floor)

lemma rows_grow_with_clearance:
  assumes "trim_space c' \<in> set ladder" and "rank (trim_space c) \<le> rank (trim_space c')"
  shows "set (filter (\<lambda>r. cls r \<in> set (cleared c)) rows)
           \<subseteq> set (filter (\<lambda>r. cls r \<in> set (cleared c')) rows)"
  using assms by (auto intro: cleared_mono)

end

interpretation geo_ladder: clearance_filter clearedLabels Rank
  by unfold_locales (auto simp: set_clearedLabels)

section \<open>Properties\<close>

text \<open>
  On valid labels the ladder is the linear order PUBLIC < INTERNAL < RESTRICTED <
  CONFIDENTIAL < SECRET: \<open>Covers\<close> is exactly "not above", and the labels computed for a clearance
  are exactly the rungs at or below the (trimmed) clearance; an unknown clearance gets none.
\<close>

theorem clearedLabels_exact:
  "set (map label_of (clearedLabels c)) =
     (case label_of (trim_space c) of None \<Rightarrow> {} | Some hi \<Rightarrow> Some ` {l. l \<le> hi})
   \<and> distinct (clearedLabels c)"
proof -
  have d: "distinct (clearedLabels c)"
    by (auto simp: clearedLabels_def ladder_def split: sum.splits)
  have "set (map label_of (clearedLabels c)) =
      (case label_of (trim_space c) of None \<Rightarrow> {} | Some hi \<Rightarrow> Some ` {l. l \<le> hi})"
  proof (cases "label_of (trim_space c)")
    case None
    then have "trim_space c \<notin> set ladder" using label_of_ladder by blast
    with None show ?thesis by (auto simp: set_clearedLabels)
  next
    case (Some hi)
    then have t: "trim_space c \<in> set ladder" using label_of_ladder by (metis option.distinct(1))
    have "label_of ` {l \<in> set ladder. Rank l \<le> label_rank hi} = Some ` {l. l \<le> hi}"
    proof
      show "label_of ` {l \<in> set ladder. Rank l \<le> label_rank hi} \<subseteq> Some ` {l. l \<le> hi}"
        by (auto simp: label_of_def ladder_def Rank_def less_eq_label_def)
      show "Some ` {l. l \<le> hi} \<subseteq> label_of ` {l \<in> set ladder. Rank l \<le> label_rank hi}"
      proof
        fix x assume "x \<in> Some ` {l. l \<le> hi}"
        then obtain l where l: "x = Some l" "l \<le> hi" by auto
        then show "x \<in> label_of ` {l \<in> set ladder. Rank l \<le> label_rank hi}"
          by (cases l) (force simp: label_of_def ladder_def Rank_def less_eq_label_def)+
      qed
    qed
    with Some t show ?thesis by (simp add: set_clearedLabels Rank_label_of)
  qed
  with d show ?thesis by blast
qed

text \<open>
  A clearance admitted by authentication reads nothing above itself: every row that survives
  the covered-label filter is at or below the authenticated clearance, and an absent clearance
  reads PUBLIC rows only.
\<close>

theorem authenticated_clearance_floor:
  assumes "validatedClearance v = Inr c"
    and "r \<in> set (filter (\<lambda>r. cls r \<in> set (clearedLabels c)) rows)"
  shows "Rank (cls r) \<le> Rank c \<and> cls r \<in> set ladder
         \<and> (trim_space v = '''' \<longrightarrow> cls r = ClassificationPublic)"
proof -
  from assms(1) have c: "c \<in> set ladder" "trim_space v = '''' \<longrightarrow> c = ClassificationPublic"
    by (auto simp: validatedClearance_def ladder_def Let_def split: if_splits)
  have r: "Rank (cls r) \<le> Rank (trim_space c)"
    using geo_ladder.rows_below_clearance [OF assms(2)] .
  have m: "cls r \<in> set ladder"
    using assms(2) by (auto simp: set_clearedLabels)
  with r c show ?thesis by (auto simp: Rank_def ladder_def)
qed

theorem authenticated_clearance_floor_witness:
  "Rank ClassificationInternal \<le> Rank ClassificationRestricted"
  using authenticated_clearance_floor
      [where v = ClassificationRestricted and c = ClassificationRestricted and cls = snd
         and r = "(0::nat, ClassificationInternal)"
         and rows = "[(0, ClassificationInternal), (1, ClassificationSecret)]"]
  by (simp add: validatedClearance_def ladder_def set_clearedLabels Rank_def)

text \<open>
  \<open>Covers\<close> validates the trimmed label but ranks the untrimmed one, and an unknown label ranks
  as SECRET: a padded clearance that passes validation covers every valid label, whatever rung it
  names. The callers in this service trim first, so they never pass one.
\<close>

theorem Covers_padded_clearance:
  assumes "trim_space c \<in> set ladder" and "c \<notin> set ladder" and "e \<in> set ladder"
  shows "Covers c e"
proof -
  from assms(2) have "Rank c = 4" by (auto simp: Rank_def ladder_def)
  moreover have "Rank e \<le> 4" by (simp add: Rank_def)
  ultimately show ?thesis
    using assms by (simp add: Covers_def ParseClassification_def)
qed

theorem Covers_padded_clearance_witness: "Covers '' PUBLIC'' ClassificationSecret"
  by (rule Covers_padded_clearance)
     (simp_all add: ladder_def classification_strings trim_space_def trim_left_def is_space_def)

end
