(* ===== verification/Envelope.thy ===== *)
theory Envelope
  imports Classification
begin

text \<open>
  Event payloads and the signed envelope (\<open>internal/sign/payload.go\<close>,
  \<open>internal/sign/envelope.go\<close>, \<open>internal/sign/signing.go\<close>).

  A payload is a struct; \<open>json.Marshal\<close> of it is the list of its members in declaration order,
  with \<open>omitempty\<close> members left out when empty. Parameters stand for code outside the repository:
  the JCS canonicalizer \<open>jcs\<close>, Ed25519 (\<open>ed_sign\<close>, \<open>ed_verify\<close>, \<open>ed_public\<close>), the decoding of
  the JWS header object \<open>parse_header\<close>, and the identifiers of \<open>uuid.NewString\<close>. Base64 (raw,
  URL alphabet) is modelled in full, since the shape of a compact JWS depends on it.
\<close>

section \<open>JSON values and payloads\<close>

text \<open>\<open>JRaw\<close> is a \<open>json.RawMessage\<close>: JSON text carried as it came.\<close>

datatype json =
    JStr string
  | JInt int
  | JTime int
  | JList "json list"
  | JObj "(string \<times> json) list"
  | JRaw string

type_synonym fields = "(string \<times> json) list"

text \<open>Members with \<open>omitempty\<close>: an empty string, a nil pointer.\<close>

definition omit_str :: "string \<Rightarrow> string \<Rightarrow> fields" where
  "omit_str k v = (if v = [] then [] else [(k, JStr v)])"

definition omit_int :: "string \<Rightarrow> int option \<Rightarrow> fields" where
  "omit_int k v = (case v of None \<Rightarrow> [] | Some i \<Rightarrow> [(k, JInt i)])"

definition omit_time :: "string \<Rightarrow> int option \<Rightarrow> fields" where
  "omit_time k v = (case v of None \<Rightarrow> [] | Some t \<Rightarrow> [(k, JTime t)])"

record VesselPositionReported =
  vp_PositionReportID :: string
  vp_MMSI :: string
  vp_SourceClass :: string
  vp_LatitudeMicros :: int
  vp_LongitudeMicros :: int
  vp_SpeedOverGroundMilliknots :: int
  vp_CourseOverGroundMillidegrees :: int
  vp_HeadingMillidegrees :: "int option"
  vp_NavStatus :: "int option"
  vp_PositionAccuracy :: string
  vp_ObservedAt :: int
  vp_ReceiverID :: string
  vp_AISMessageType :: "int option"
  vp_Classification :: string
  vp_IMO :: string
  vp_Callsign :: string
  vp_ShipName :: string

record VesselStaticReported =
  vs_StaticReportID :: string
  vs_MMSI :: string
  vs_IMO :: string
  vs_Callsign :: string
  vs_ShipName :: string
  vs_ShipTypeCode :: int
  vs_DimensionBowM :: int
  vs_DimensionSternM :: int
  vs_DimensionPortM :: int
  vs_DimensionStarboardM :: int
  vs_DraughtMillimetres :: int
  vs_Destination :: string
  vs_ETA :: "int option"
  vs_EpfsType :: string
  vs_ObservedAt :: int
  vs_SourceClass :: string
  vs_Classification :: string

record GeofenceEventRecorded =
  ge_GeofenceEventID :: string
  ge_ZoneID :: string
  ge_ZoneName :: string
  ge_Event :: string
  ge_MMSI :: string
  ge_TrackReference :: string
  ge_LatitudeMicros :: int
  ge_LongitudeMicros :: int
  ge_OccurredAt :: int
  ge_Classification :: string
  ge_ZoneCategory :: string
  ge_Alert :: string

record AppPositionReported =
  ap_PositionReportID :: string
  ap_ReporterID :: string
  ap_VesselReference :: string
  ap_LatitudeMicros :: int
  ap_LongitudeMicros :: int
  ap_AccuracyM :: int
  ap_SpeedMillimetresPerSecond :: "int option"
  ap_RecordedAt :: int
  ap_OutboxID :: string
  ap_Classification :: string

record SosAlertRaised =
  sr_SosAlertID :: string
  sr_ReporterID :: string
  sr_VesselReference :: string
  sr_LatitudeMicros :: int
  sr_LongitudeMicros :: int
  sr_RecordedAt :: int
  sr_OutboxID :: string
  sr_FreeText :: string
  sr_Classification :: string

text \<open>The acknowledged and resolved payloads have the same shape, with their own member names.\<close>

record SosAlertAcknowledged =
  sa_SosAlertID :: string
  sa_ReporterID :: string
  sa_VesselReference :: string
  sa_AcknowledgedBy :: string
  sa_AcknowledgedAt :: int
  sa_Note :: string
  sa_Classification :: string

record SosAlertResolved =
  sx_SosAlertID :: string
  sx_ReporterID :: string
  sx_VesselReference :: string
  sx_ResolvedBy :: string
  sx_ResolvedAt :: int
  sx_Note :: string
  sx_Classification :: string

record SafetyInspectionLifecycle =
  il_InspectionID :: string
  il_Regime :: string
  il_VesselReference :: string
  il_PortCode :: string
  il_Action :: string
  il_State :: string
  il_Actor :: string
  il_OccurredAt :: int
  il_Note :: string
  il_Classification :: string

record SafetySarLifecycle =
  rl_IncidentID :: string
  rl_SosAlertID :: string
  rl_Action :: string
  rl_Phase :: string
  rl_Actor :: string
  rl_OccurredAt :: int
  rl_ResourceName :: string
  rl_Note :: string
  rl_Classification :: string

record SafetyInvestigationLifecycle =
  nl_CaseID :: string
  nl_CasualtyType :: string
  nl_Action :: string
  nl_State :: string
  nl_Actor :: string
  nl_OccurredAt :: int
  nl_EvidenceID :: string
  nl_ChainHash :: string
  nl_Classification :: string

datatype payload =
    PVesselPosition VesselPositionReported
  | PVesselStatic VesselStaticReported
  | PGeofenceEvent GeofenceEventRecorded
  | PAppPosition AppPositionReported
  | PSosRaised SosAlertRaised
  | PSosAcknowledged SosAlertAcknowledged
  | PSosResolved SosAlertResolved
  | PSafetyInspection SafetyInspectionLifecycle
  | PSafetySar SafetySarLifecycle
  | PSafetyInvestigation SafetyInvestigationLifecycle

fun payload_json :: "payload \<Rightarrow> fields" where
  "payload_json (PVesselPosition p) =
     [(''positionReportId'', JStr (vp_PositionReportID p)), (''mmsi'', JStr (vp_MMSI p)),
      (''sourceClass'', JStr (vp_SourceClass p)), (''latitudeMicros'', JInt (vp_LatitudeMicros p)),
      (''longitudeMicros'', JInt (vp_LongitudeMicros p)),
      (''speedOverGroundMilliknots'', JInt (vp_SpeedOverGroundMilliknots p)),
      (''courseOverGroundMillidegrees'', JInt (vp_CourseOverGroundMillidegrees p))]
     @ omit_int ''headingMillidegrees'' (vp_HeadingMillidegrees p)
     @ omit_int ''navStatus'' (vp_NavStatus p)
     @ [(''positionAccuracy'', JStr (vp_PositionAccuracy p)), (''observedAt'', JTime (vp_ObservedAt p)),
        (''receiverId'', JStr (vp_ReceiverID p))]
     @ omit_int ''aisMessageType'' (vp_AISMessageType p)
     @ [(''classification'', JStr (vp_Classification p))]
     @ omit_str ''imo'' (vp_IMO p) @ omit_str ''callsign'' (vp_Callsign p)
     @ omit_str ''shipName'' (vp_ShipName p)"
| "payload_json (PVesselStatic p) =
     [(''staticReportId'', JStr (vs_StaticReportID p)), (''mmsi'', JStr (vs_MMSI p))]
     @ omit_str ''imo'' (vs_IMO p) @ omit_str ''callsign'' (vs_Callsign p)
     @ omit_str ''shipName'' (vs_ShipName p)
     @ [(''shipTypeCode'', JInt (vs_ShipTypeCode p)), (''dimensionBowM'', JInt (vs_DimensionBowM p)),
        (''dimensionSternM'', JInt (vs_DimensionSternM p)), (''dimensionPortM'', JInt (vs_DimensionPortM p)),
        (''dimensionStarboardM'', JInt (vs_DimensionStarboardM p)),
        (''draughtMillimetres'', JInt (vs_DraughtMillimetres p))]
     @ omit_str ''destination'' (vs_Destination p) @ omit_time ''eta'' (vs_ETA p)
     @ [(''epfsType'', JStr (vs_EpfsType p)), (''observedAt'', JTime (vs_ObservedAt p)),
        (''sourceClass'', JStr (vs_SourceClass p)), (''classification'', JStr (vs_Classification p))]"
| "payload_json (PGeofenceEvent p) =
     [(''geofenceEventId'', JStr (ge_GeofenceEventID p)), (''zoneId'', JStr (ge_ZoneID p)),
      (''zoneName'', JStr (ge_ZoneName p)), (''event'', JStr (ge_Event p))]
     @ omit_str ''mmsi'' (ge_MMSI p) @ omit_str ''trackReference'' (ge_TrackReference p)
     @ [(''latitudeMicros'', JInt (ge_LatitudeMicros p)), (''longitudeMicros'', JInt (ge_LongitudeMicros p)),
        (''occurredAt'', JTime (ge_OccurredAt p)), (''classification'', JStr (ge_Classification p))]
     @ omit_str ''zoneCategory'' (ge_ZoneCategory p) @ omit_str ''alert'' (ge_Alert p)"
| "payload_json (PAppPosition p) =
     [(''positionReportId'', JStr (ap_PositionReportID p)), (''reporterId'', JStr (ap_ReporterID p)),
      (''vesselReference'', JStr (ap_VesselReference p)), (''latitudeMicros'', JInt (ap_LatitudeMicros p)),
      (''longitudeMicros'', JInt (ap_LongitudeMicros p)), (''accuracyM'', JInt (ap_AccuracyM p))]
     @ omit_int ''speedMillimetresPerSecond'' (ap_SpeedMillimetresPerSecond p)
     @ [(''recordedAt'', JTime (ap_RecordedAt p)), (''outboxId'', JStr (ap_OutboxID p)),
        (''classification'', JStr (ap_Classification p))]"
| "payload_json (PSosRaised p) =
     [(''sosAlertId'', JStr (sr_SosAlertID p)), (''reporterId'', JStr (sr_ReporterID p)),
      (''vesselReference'', JStr (sr_VesselReference p)), (''latitudeMicros'', JInt (sr_LatitudeMicros p)),
      (''longitudeMicros'', JInt (sr_LongitudeMicros p)), (''recordedAt'', JTime (sr_RecordedAt p)),
      (''outboxId'', JStr (sr_OutboxID p))]
     @ omit_str ''freeText'' (sr_FreeText p) @ [(''classification'', JStr (sr_Classification p))]"
| "payload_json (PSosAcknowledged p) =
     [(''sosAlertId'', JStr (sa_SosAlertID p)), (''reporterId'', JStr (sa_ReporterID p)),
      (''vesselReference'', JStr (sa_VesselReference p)), (''acknowledgedBy'', JStr (sa_AcknowledgedBy p)),
      (''acknowledgedAt'', JTime (sa_AcknowledgedAt p))]
     @ omit_str ''note'' (sa_Note p) @ [(''classification'', JStr (sa_Classification p))]"
| "payload_json (PSosResolved p) =
     [(''sosAlertId'', JStr (sx_SosAlertID p)), (''reporterId'', JStr (sx_ReporterID p)),
      (''vesselReference'', JStr (sx_VesselReference p)), (''resolvedBy'', JStr (sx_ResolvedBy p)),
      (''resolvedAt'', JTime (sx_ResolvedAt p))]
     @ omit_str ''note'' (sx_Note p) @ [(''classification'', JStr (sx_Classification p))]"
| "payload_json (PSafetyInspection p) =
     [(''inspectionId'', JStr (il_InspectionID p)), (''regime'', JStr (il_Regime p)),
      (''vesselReference'', JStr (il_VesselReference p)), (''portCode'', JStr (il_PortCode p)),
      (''action'', JStr (il_Action p)), (''state'', JStr (il_State p)), (''actor'', JStr (il_Actor p)),
      (''occurredAt'', JTime (il_OccurredAt p))]
     @ omit_str ''note'' (il_Note p) @ [(''classification'', JStr (il_Classification p))]"
| "payload_json (PSafetySar p) =
     [(''incidentId'', JStr (rl_IncidentID p))] @ omit_str ''sosAlertId'' (rl_SosAlertID p)
     @ [(''action'', JStr (rl_Action p)), (''phase'', JStr (rl_Phase p)), (''actor'', JStr (rl_Actor p)),
        (''occurredAt'', JTime (rl_OccurredAt p))]
     @ omit_str ''resourceName'' (rl_ResourceName p) @ omit_str ''note'' (rl_Note p)
     @ [(''classification'', JStr (rl_Classification p))]"
| "payload_json (PSafetyInvestigation p) =
     [(''caseId'', JStr (nl_CaseID p)), (''casualtyType'', JStr (nl_CasualtyType p)), (''action'', JStr (nl_Action p)),
      (''state'', JStr (nl_State p)), (''actor'', JStr (nl_Actor p)), (''occurredAt'', JTime (nl_OccurredAt p))]
     @ omit_str ''evidenceId'' (nl_EvidenceID p) @ omit_str ''chainHash'' (nl_ChainHash p)
     @ [(''classification'', JStr (nl_Classification p))]"

fun payload_classification :: "payload \<Rightarrow> string" where
  "payload_classification (PVesselPosition p) = vp_Classification p"
| "payload_classification (PVesselStatic p) = vs_Classification p"
| "payload_classification (PGeofenceEvent p) = ge_Classification p"
| "payload_classification (PAppPosition p) = ap_Classification p"
| "payload_classification (PSosRaised p) = sr_Classification p"
| "payload_classification (PSosAcknowledged p) = sa_Classification p"
| "payload_classification (PSosResolved p) = sx_Classification p"
| "payload_classification (PSafetyInspection p) = il_Classification p"
| "payload_classification (PSafetySar p) = rl_Classification p"
| "payload_classification (PSafetyInvestigation p) = nl_Classification p"

section \<open>The envelope\<close>

record Provenance =
  pv_PrincipalID :: string
  pv_PrincipalRole :: string
  pv_LedgerCommitHash :: string
  pv_Signature :: string

record fhirBundle =
  fb_BundleID :: string
  fb_FullURL :: string
  fb_Resource :: fields

record Envelope =
  en_EnvelopeVersion :: string
  en_EventID :: string
  en_EventType :: string
  en_OccurredAt :: int
  en_Producer :: string
  en_CorrelationID :: string
  en_Classification :: string
  en_RecordClassification :: string
  en_FHIR :: fhirBundle
  en_Provenance :: Provenance

datatype EventKind =
    EventVesselPosition
  | EventVesselStatic
  | EventGeofenceEvent
  | EventAppPositionReport
  | EventSOS
  | EventSOSAcknowledged
  | EventSOSResolved
  | EventTrackWindow
  | EventPortApproachEta
  | EventSafetyInspection
  | EventSafetySAR
  | EventSafetyInvestigation

fun event_type_name :: "EventKind \<Rightarrow> string" where
  "event_type_name EventVesselPosition = ''geo.vessel-position.v1''"
| "event_type_name EventVesselStatic = ''geo.vessel-static.v1''"
| "event_type_name EventGeofenceEvent = ''geo.geofence-event.v1''"
| "event_type_name EventAppPositionReport = ''geo.app-position-report.v1''"
| "event_type_name EventSOS = ''geo.sos.v1''"
| "event_type_name EventSOSAcknowledged = ''geo.sos-acknowledged.v1''"
| "event_type_name EventSOSResolved = ''geo.sos-resolved.v1''"
| "event_type_name EventTrackWindow = ''geo.track-window.v1''"
| "event_type_name EventPortApproachEta = ''geo.port-approach-eta.v1''"
| "event_type_name EventSafetyInspection = ''safety.inspection.v1''"
| "event_type_name EventSafetySAR = ''safety.sar.v1''"
| "event_type_name EventSafetyInvestigation = ''safety.investigation.v1''"

fun eventResourceType :: "EventKind \<Rightarrow> string" where
  "eventResourceType EventVesselPosition = ''VesselPositionReported''"
| "eventResourceType EventVesselStatic = ''VesselStaticReported''"
| "eventResourceType EventGeofenceEvent = ''GeofenceEventRecorded''"
| "eventResourceType EventAppPositionReport = ''AppPositionReported''"
| "eventResourceType EventSOS = ''SosAlertRaised''"
| "eventResourceType EventSOSAcknowledged = ''SosAlertAcknowledged''"
| "eventResourceType EventSOSResolved = ''SosAlertResolved''"
| "eventResourceType EventTrackWindow = ''VesselTrackWindow''"
| "eventResourceType EventPortApproachEta = ''PortApproachEta''"
| "eventResourceType EventSafetyInspection = ''SafetyInspectionLifecycle''"
| "eventResourceType EventSafetySAR = ''SafetySarLifecycle''"
| "eventResourceType EventSafetyInvestigation = ''SafetyInvestigationLifecycle''"

fun sosEventTypes :: "EventKind \<Rightarrow> bool" where
  "sosEventTypes EventSOS = True"
| "sosEventTypes EventSOSAcknowledged = True"
| "sosEventTypes EventSOSResolved = True"
| "sosEventTypes EventSafetyInspection = True"
| "sosEventTypes EventSafetySAR = True"
| "sosEventTypes EventSafetyInvestigation = True"
| "sosEventTypes _ = False"

definition all_event_kinds :: "EventKind list" where
  "all_event_kinds =
     [EventVesselPosition, EventVesselStatic, EventGeofenceEvent, EventAppPositionReport, EventSOS,
      EventSOSAcknowledged, EventSOSResolved, EventTrackWindow, EventPortApproachEta,
      EventSafetyInspection, EventSafetySAR, EventSafetyInvestigation]"

text \<open>The map lookups are by the event type string.\<close>

definition event_kind_of :: "string \<Rightarrow> EventKind option" where
  "event_kind_of s = map_of (map (\<lambda>k. (event_type_name k, k)) all_event_kinds) s"

section \<open>Base64, raw URL alphabet\<close>

text \<open>
  \<open>base64.RawURLEncoding\<close>: six bits per character, no padding. The decoder skips line breaks,
  ignores surplus bits of the last character, and rejects foreign characters and a dangling one.
\<close>

definition b64_char :: "nat \<Rightarrow> char" where
  "b64_char n =
     (if n < 26 then char_of (65 + n)
      else if n < 52 then char_of (71 + n)
      else if n < 62 then char_of (n - 4)
      else if n = 62 then CHR ''-'' else CHR ''_'')"

definition b64_val :: "char \<Rightarrow> nat option" where
  "b64_val c =
     (let n = (of_char c :: nat) in
      if 65 \<le> n \<and> n \<le> 90 then Some (n - 65)
      else if 97 \<le> n \<and> n \<le> 122 then Some (n - 71)
      else if 48 \<le> n \<and> n \<le> 57 then Some (n + 4)
      else if n = 45 then Some 62
      else if n = 95 then Some 63
      else None)"

fun b64_enc :: "nat list \<Rightarrow> nat list" where
  "b64_enc [] = []"
| "b64_enc [a] = [a div 4, (a mod 4) * 16]"
| "b64_enc [a, b] = [a div 4, (a mod 4) * 16 + b div 16, (b mod 16) * 4]"
| "b64_enc (a # b # c # xs) =
     a div 4 # ((a mod 4) * 16 + b div 16) # ((b mod 16) * 4 + c div 64) # (c mod 64) # b64_enc xs"

fun b64_dec :: "nat list \<Rightarrow> nat list option" where
  "b64_dec [] = Some []"
| "b64_dec [p] = None"
| "b64_dec [p, q] = Some [p * 4 + q div 16]"
| "b64_dec [p, q, r] = Some [p * 4 + q div 16, (q mod 16) * 16 + r div 4]"
| "b64_dec (p # q # r # s # xs) =
     (case b64_dec xs of
        None \<Rightarrow> None
      | Some ys \<Rightarrow> Some ((p * 4 + q div 16) # ((q mod 16) * 16 + r div 4) # ((r mod 4) * 64 + s) # ys))"

fun all_some :: "'a option list \<Rightarrow> 'a list option" where
  "all_some [] = Some []"
| "all_some (None # xs) = None"
| "all_some (Some x # xs) = (case all_some xs of None \<Rightarrow> None | Some ys \<Rightarrow> Some (x # ys))"

definition base64_encode :: "string \<Rightarrow> string" where
  "base64_encode s = map b64_char (b64_enc (map of_char s))"

definition base64_decode :: "string \<Rightarrow> string option" where
  "base64_decode s =
     (case all_some (map b64_val (filter (\<lambda>c. c \<noteq> CHR 0x0A \<and> c \<noteq> CHR 0x0D) s)) of
        None \<Rightarrow> None
      | Some vs \<Rightarrow> (case b64_dec vs of None \<Rightarrow> None | Some bs \<Rightarrow> Some (map char_of bs)))"

text \<open>\<open>strings.Split(s, ".")\<close>.\<close>

fun split_dots :: "string \<Rightarrow> string list" where
  "split_dots [] = [[]]"
| "split_dots (c # cs) =
     (if c = CHR ''.'' then [] # split_dots cs
      else (c # hd (split_dots cs)) # tl (split_dots cs))"

section \<open>Signing\<close>

record crypto =
  cr_jcs :: "json \<Rightarrow> string option"
  cr_sign :: "string \<Rightarrow> string \<Rightarrow> string"
  cr_verify :: "string \<Rightarrow> string \<Rightarrow> string \<Rightarrow> bool"
  cr_public :: "string \<Rightarrow> string"
  cr_parse_header :: "string \<Rightarrow> (string \<times> string) option"

record Signer =
  sg_privateKey :: string
  sg_kid :: string

datatype sign_error =
    SignerRequired
  | KeySize
  | NoPublicHalf
  | ProducerRequired
  | ProducerCharacter
  | EpochRequired
  | EpochDigits
  | NotContractType
  | CorrelationRequired
  | PrincipalRequired
  | PayloadNotObject
  | PayloadTypeKey
  | PayloadClassificationInvalid
  | PayloadClassificationMissing
  | SosFloor
  | OccurredAtRequired
  | ProvenanceMissing
  | JcsFailed
  | EmptyPayload
  | NotCompact
  | HeaderEncoding
  | HeaderUnparsable
  | WrongAlg
  | WrongKid
  | SignatureEncoding
  | PayloadMismatch
  | BadSignature

definition producer_char :: "char \<Rightarrow> bool" where
  "producer_char c \<longleftrightarrow> (let n = (of_char c :: nat) in
     (97 \<le> n \<and> n \<le> 122) \<or> (48 \<le> n \<and> n \<le> 57) \<or> n = 45 \<or> n = 46 \<or> n = 95)"

definition NewSignerForProducer ::
  "crypto \<Rightarrow> string \<Rightarrow> string \<Rightarrow> string \<Rightarrow> sign_error + Signer" where
  "NewSignerForProducer X privateKey keyEpoch producer =
     (if length privateKey \<noteq> 64 then Inl KeySize
      else if length (cr_public X privateKey) \<noteq> 32 then Inl NoPublicHalf
      else let producer = trim_space producer; keyEpoch = trim_space keyEpoch in
        if length producer = 0 \<or> length producer > 128 then Inl ProducerRequired
        else if \<not> list_all producer_char producer then Inl ProducerCharacter
        else if keyEpoch = [] then Inl EpochRequired
        else if \<not> list_all is_digit keyEpoch then Inl EpochDigits
        else Inr \<lparr>sg_privateKey = privateKey, sg_kid = producer @ ''-'' @ keyEpoch\<rparr>)"

definition Producer :: string where
  "Producer = ''blueeconomy-geo-service''"

definition keyIDPrefix :: string where
  "keyIDPrefix = ''blueeconomy-geo-service-''"

definition NewSigner :: "crypto \<Rightarrow> string \<Rightarrow> string \<Rightarrow> sign_error + Signer" where
  "NewSigner X privateKey keyEpoch = NewSignerForProducer X privateKey keyEpoch Producer"

definition protectedHeaderJSON :: "string \<Rightarrow> string" where
  "protectedHeaderJSON kid =
     [CHR 0x7B, CHR 0x22] @ ''alg'' @ [CHR 0x22, CHR 0x3A, CHR 0x22] @ ''EdDSA'' @ [CHR 0x22, CHR 0x2C, CHR 0x22]
     @ ''kid'' @ [CHR 0x22, CHR 0x3A, CHR 0x22] @ kid @ [CHR 0x22, CHR 0x7D]"

definition provenance_json :: "Provenance \<Rightarrow> fields" where
  "provenance_json p =
     [(''principalId'', JStr (pv_PrincipalID p)), (''principalRole'', JStr (pv_PrincipalRole p)),
      (''ledgerCommitHash'', JStr (pv_LedgerCommitHash p)), (''signature'', JStr (pv_Signature p))]"

definition bundle_json :: "fhirBundle \<Rightarrow> fields" where
  "bundle_json b =
     [(''resourceType'', JStr ''Bundle''), (''type'', JStr ''message''), (''bundleId'', JStr (fb_BundleID b)),
      (''entry'', JList [JObj [(''fullUrl'', JStr (fb_FullURL b)), (''resource'', JObj (fb_Resource b))]])]"

definition envelope_json :: "Envelope \<Rightarrow> fields" where
  "envelope_json e =
     [(''envelopeVersion'', JStr (en_EnvelopeVersion e)), (''eventId'', JStr (en_EventID e)),
      (''eventType'', JStr (en_EventType e)), (''occurredAt'', JTime (en_OccurredAt e)),
      (''producer'', JStr (en_Producer e)), (''correlationId'', JStr (en_CorrelationID e)),
      (''classification'', JStr (en_Classification e))]
     @ omit_str ''recordClassification'' (en_RecordClassification e)
     @ [(''fhir'', JObj (bundle_json (en_FHIR e))), (''provenance'', JObj (provenance_json (en_Provenance e)))]"

text \<open>The decoded envelope with the member \<open>signature\<close> deleted from its provenance block.\<close>

definition strip_signature :: "fields \<Rightarrow> fields option" where
  "strip_signature generic =
     (case map_of generic ''provenance'' of
        Some (JObj p) \<Rightarrow>
          Some (map (\<lambda>(k, v). if k = ''provenance''
                              then (k, JObj (filter (\<lambda>(k, v). k \<noteq> ''signature'') p)) else (k, v)) generic)
      | _ \<Rightarrow> None)"

definition canonicalPayload :: "crypto \<Rightarrow> Envelope \<Rightarrow> sign_error + string" where
  "canonicalPayload X envelope =
     (case strip_signature (envelope_json envelope) of
        None \<Rightarrow> Inl ProvenanceMissing
      | Some stripped \<Rightarrow> (case cr_jcs X (JObj stripped) of None \<Rightarrow> Inl JcsFailed | Some s \<Rightarrow> Inr s))"

definition jws_compact :: "crypto \<Rightarrow> Signer \<Rightarrow> string \<Rightarrow> string" where
  "jws_compact X signer payload =
     (let signingInput = base64_encode (protectedHeaderJSON (sg_kid signer)) @ ''.'' @ base64_encode payload
      in signingInput @ ''.'' @ base64_encode (cr_sign X (sg_privateKey signer) signingInput))"

definition Sign :: "crypto \<Rightarrow> Signer \<Rightarrow> Envelope \<Rightarrow> sign_error + string" where
  "Sign X signer envelope =
     (case canonicalPayload X envelope of Inl e \<Rightarrow> Inl e | Inr c \<Rightarrow> Inr (jws_compact X signer c))"

definition Verify :: "crypto \<Rightarrow> Envelope \<Rightarrow> string \<Rightarrow> sign_error option" where
  "Verify X envelope publicKey =
     (if length publicKey \<noteq> 32 then Some KeySize
      else case split_dots (pv_Signature (en_Provenance envelope)) of
        [p0, p1, p2] \<Rightarrow>
          (case base64_decode p0 of
             None \<Rightarrow> Some HeaderEncoding
           | Some header \<Rightarrow>
             (case cr_parse_header X header of
                None \<Rightarrow> Some HeaderUnparsable
              | Some (alg, kid) \<Rightarrow>
                if alg \<noteq> ''EdDSA'' then Some WrongAlg
                else if take (length keyIDPrefix) kid \<noteq> keyIDPrefix then Some WrongKid
                else case base64_decode p2 of
                  None \<Rightarrow> Some SignatureEncoding
                | Some signature \<Rightarrow>
                  (case canonicalPayload X envelope of
                     Inl e \<Rightarrow> Some e
                   | Inr canonical \<Rightarrow>
                     if base64_encode canonical \<noteq> p1 then Some PayloadMismatch
                     else if \<not> cr_verify X publicKey (p0 @ ''.'' @ p1) signature then Some BadSignature
                     else None)))
      | _ \<Rightarrow> Some NotCompact)"

section \<open>Building an envelope\<close>

text \<open>
  The payload arrives as its JSON object; the three identifiers are those \<open>uuid.NewString\<close> returns
  for the bundle, the entry and the event. The zero \<open>time.Time\<close> is the instant the source rejects.
\<close>

definition typeURLPrefix :: string where
  "typeURLPrefix = ''type.googleapis.com/blueeconomy.contracts.v1.''"

definition zero_time :: int where
  "zero_time = - 62135596800000000000"

definition contentClassification :: "EventKind \<Rightarrow> fields \<Rightarrow> sign_error + string" where
  "contentClassification kind resource =
     (case map_of resource ''classification'' of
        None \<Rightarrow> Inl PayloadClassificationMissing
      | Some (JStr text) \<Rightarrow>
          (case ParseClassification text of
             Inl e \<Rightarrow> Inl PayloadClassificationInvalid
           | Inr contentClass \<Rightarrow>
               if sosEventTypes kind \<and> Rank contentClass < Rank ClassificationRestricted
               then Inl SosFloor else Inr contentClass)
      | Some _ \<Rightarrow> Inl PayloadClassificationInvalid)"

definition unsigned_envelope ::
  "string \<times> string \<times> string \<Rightarrow> string \<Rightarrow> string \<Rightarrow> EventKind \<Rightarrow> fields \<Rightarrow> string \<Rightarrow> int \<Rightarrow> Provenance
     \<Rightarrow> Envelope" where
  "unsigned_envelope uuids eventType correlationID kind resource contentClass occurredAt prin =
     \<lparr>en_EnvelopeVersion = ''1.0'', en_EventID = snd (snd uuids), en_EventType = eventType,
      en_OccurredAt = occurredAt, en_Producer = Producer, en_CorrelationID = correlationID,
      en_Classification = contentClass, en_RecordClassification = [],
      en_FHIR = \<lparr>fb_BundleID = ''bdl-'' @ fst uuids, fb_FullURL = ''urn:uuid:'' @ fst (snd uuids),
                 fb_Resource = (''@type'', JStr (typeURLPrefix @ eventResourceType kind)) # resource\<rparr>,
      en_Provenance = prin\<rparr>"

definition NewEnvelope ::
  "crypto \<Rightarrow> string \<times> string \<times> string \<Rightarrow> string \<Rightarrow> string \<Rightarrow> fields \<Rightarrow> int \<Rightarrow> Provenance \<Rightarrow> Signer option
     \<Rightarrow> sign_error + Envelope" where
  "NewEnvelope X uuids eventType correlationID resource occurredAt prin signer =
     (case signer of
        None \<Rightarrow> Inl SignerRequired
      | Some sg \<Rightarrow>
        (case event_kind_of eventType of
           None \<Rightarrow> Inl NotContractType
         | Some kind \<Rightarrow>
           if trim_space correlationID = [] then Inl CorrelationRequired
           else if trim_space (pv_PrincipalID prin) = [] \<or> trim_space (pv_PrincipalRole prin) = []
           then Inl PrincipalRequired
           else if resource = [] then Inl PayloadNotObject
           else if map_of resource ''@type'' \<noteq> None then Inl PayloadTypeKey
           else case contentClassification kind resource of
             Inl e \<Rightarrow> Inl e
           | Inr contentClass \<Rightarrow>
             if occurredAt = zero_time then Inl OccurredAtRequired
             else let envelope = unsigned_envelope uuids eventType correlationID kind resource contentClass occurredAt prin
               in case Sign X sg envelope of
                    Inl e \<Rightarrow> Inl e
                  | Inr signature \<Rightarrow>
                      Inr (envelope\<lparr>en_Provenance := prin\<lparr>pv_Signature := signature\<rparr>\<rparr>)))"

section \<open>Facts about Base64 and compact serializations\<close>

lemma b64_val_char:
  assumes "n < 64"
  shows "b64_val (b64_char n) = Some n" "of_char (b64_char n) \<noteq> (46::nat)"
    "of_char (b64_char n) \<noteq> (10::nat)" "of_char (b64_char n) \<noteq> (13::nat)"
proof -
  have o: "of_char (b64_char n) =
     (if n < 26 then 65 + n else if n < 52 then 71 + n else if n < 62 then n - 4
      else if n = 62 then 45 else (95::nat))"
    using assms by (simp add: b64_char_def)
  show "b64_val (b64_char n) = Some n" unfolding b64_val_def o Let_def using assms by simp arith
  show "of_char (b64_char n) \<noteq> (46::nat)" "of_char (b64_char n) \<noteq> (10::nat)"
    "of_char (b64_char n) \<noteq> (13::nat)"
    unfolding o using assms by auto
qed

lemma b64_enc_range: "\<forall>b\<in>set bs. b < 256 \<Longrightarrow> \<forall>v\<in>set (b64_enc bs). v < 64"
proof (induction bs rule: b64_enc.induct)
  case (2 a)
  then show ?case by auto
next
  case (3 a b)
  then have "a < 256" "b < 256" by auto
  then have "a div 4 < 64" "a mod 4 * 16 + b div 16 < 64" "b mod 16 * 4 < 64" by linarith+
  then show ?case by simp
next
  case (4 a b c xs)
  then have "a < 256" "b < 256" "c < 256" by auto
  then have "a div 4 < 64" "a mod 4 * 16 + b div 16 < 64" "b mod 16 * 4 + c div 64 < 64" "c mod 64 < 64"
    by linarith+
  with 4 show ?case by simp
qed simp

lemma b64_dec_enc: "\<forall>b\<in>set bs. b < 256 \<Longrightarrow> b64_dec (b64_enc bs) = Some bs"
proof (induction bs rule: b64_enc.induct)
  case (2 a)
  then have "a div 4 * 4 + a mod 4 * 16 div 16 = a" by simp
  then show ?case by simp
next
  case (3 a b)
  then have b: "b < 256" by simp
  have "(a mod 4 * 16 + b div 16) div 16 = a mod 4 + b div 16 div 16" by simp
  moreover have "(a mod 4 * 16 + b div 16) mod 16 = b div 16" using b by simp
  ultimately show ?case using b by simp
next
  case (4 a b c xs)
  then have b: "b < 256" "c < 256" by auto
  have "(a mod 4 * 16 + b div 16) div 16 = a mod 4" "(a mod 4 * 16 + b div 16) mod 16 = b div 16"
    "(b mod 16 * 4 + c div 64) div 4 = b mod 16" "(b mod 16 * 4 + c div 64) mod 4 = c div 64"
    using b by simp_all
  with 4 show ?case by simp
qed simp

lemma all_some_map: "all_some (map (\<lambda>x. Some (f x)) xs) = Some (map f xs)"
  by (induction xs) auto

lemma base64_chars:
  "c \<in> set (base64_encode s) \<Longrightarrow> c \<noteq> CHR ''.'' \<and> c \<noteq> CHR 0x0A \<and> c \<noteq> CHR 0x0D"
proof -
  assume "c \<in> set (base64_encode s)"
  moreover have "\<forall>b\<in>set (map of_char s). b < (256::nat)" by auto
  ultimately obtain n where "c = b64_char n" "n < 64"
    using b64_enc_range by (fastforce simp: base64_encode_def)
  with b64_val_char(2-4) [of n] show ?thesis by auto
qed

lemma base64_round_trip: "base64_decode (base64_encode s) = Some s"
proof -
  let ?vs = "b64_enc (map of_char s :: nat list)"
  have lt: "\<forall>b\<in>set (map of_char s). b < (256::nat)" by auto
  have "filter (\<lambda>c. c \<noteq> CHR 0x0A \<and> c \<noteq> CHR 0x0D) (base64_encode s) = base64_encode s"
    using base64_chars by (auto simp: filter_id_conv)
  moreover have "map b64_val (base64_encode s) = map Some ?vs"
    using b64_enc_range [OF lt] b64_val_char(1) by (simp add: base64_encode_def)
  ultimately show ?thesis
    using b64_dec_enc [OF lt] all_some_map [of "\<lambda>x. x" ?vs] by (simp add: base64_decode_def comp_def)
qed

lemma base64_inject [simp]: "base64_encode s = base64_encode t \<longleftrightarrow> s = t"
  by (metis base64_round_trip option.inject)

lemma split_dots_plain: "CHR ''.'' \<notin> set s \<Longrightarrow> split_dots s = [s]"
  by (induction s) auto

lemma split_dots_join: "CHR ''.'' \<notin> set s \<Longrightarrow> split_dots (s @ CHR ''.'' # t) = s # split_dots t"
  by (induction s) auto

lemma split_dots_compact:
  "split_dots (base64_encode a @ ''.'' @ base64_encode b @ ''.'' @ base64_encode c)
     = [base64_encode a, base64_encode b, base64_encode c]"
proof -
  have "CHR ''.'' \<notin> set (base64_encode x)" for x using base64_chars by blast
  then show ?thesis by (simp add: split_dots_join split_dots_plain)
qed

section \<open>Facts about signing\<close>

text \<open>The signature does not enter the canonical payload.\<close>

lemma canonicalPayload_signature [simp]:
  "canonicalPayload X (e\<lparr>en_Provenance := p\<lparr>pv_Signature := s\<rparr>\<rparr>)
     = canonicalPayload X (e\<lparr>en_Provenance := p\<rparr>)"
  by (simp add: canonicalPayload_def strip_signature_def envelope_json_def provenance_json_def omit_str_def)

definition known_kid :: "string \<Rightarrow> bool" where
  "known_kid kid \<longleftrightarrow> take (length keyIDPrefix) kid = keyIDPrefix"

text \<open>What is relied on of Ed25519 and of the header codec, for one signer.\<close>

definition crypto_laws :: "crypto \<Rightarrow> Signer \<Rightarrow> bool" where
  "crypto_laws X sg \<longleftrightarrow>
     length (cr_public X (sg_privateKey sg)) = 32
     \<and> (\<forall>m. cr_verify X (cr_public X (sg_privateKey sg)) m (cr_sign X (sg_privateKey sg) m))
     \<and> cr_parse_header X (protectedHeaderJSON (sg_kid sg)) = Some (''EdDSA'', sg_kid sg)"

lemma Verify_accepts:
  "Verify X e pk = None \<longleftrightarrow> length pk = 32 \<and> (\<exists>p0 p1 p2 header kid sig c.
     split_dots (pv_Signature (en_Provenance e)) = [p0, p1, p2] \<and> base64_decode p0 = Some header
     \<and> cr_parse_header X header = Some (''EdDSA'', kid) \<and> known_kid kid
     \<and> base64_decode p2 = Some sig \<and> canonicalPayload X e = Inr c \<and> base64_encode c = p1
     \<and> cr_verify X pk (p0 @ ''.'' @ p1) sig)"
  unfolding Verify_def known_kid_def
  by (auto split: list.splits option.splits sum.splits if_splits prod.splits)

lemma Verify_Sign:
  assumes "crypto_laws X sg" "known_kid (sg_kid sg)"
    and "Sign X sg (e\<lparr>en_Provenance := p\<rparr>) = Inr s"
  shows "Verify X (e\<lparr>en_Provenance := p\<lparr>pv_Signature := s\<rparr>\<rparr>) (cr_public X (sg_privateKey sg)) = None"
proof -
  obtain c where c: "canonicalPayload X (e\<lparr>en_Provenance := p\<rparr>) = Inr c" "s = jws_compact X sg c"
    using assms(3) by (auto simp: Sign_def split: sum.splits)
  let ?h = "protectedHeaderJSON (sg_kid sg)"
  let ?m = "base64_encode ?h @ ''.'' @ base64_encode c"
  have "split_dots s = [base64_encode ?h, base64_encode c, base64_encode (cr_sign X (sg_privateKey sg) ?m)]"
    unfolding c(2) jws_compact_def Let_def using split_dots_compact by simp
  then show ?thesis
    unfolding Verify_accepts using assms(1,2) c(1) by (auto simp: crypto_laws_def base64_round_trip)
qed

lemma unsigned_envelope_sel [simp]:
  "en_Provenance (unsigned_envelope uu ty corr kind res cls t prin) = prin"
  "en_Classification (unsigned_envelope uu ty corr kind res cls t prin) = cls"
  "en_EventType (unsigned_envelope uu ty corr kind res cls t prin) = ty"
  "en_OccurredAt (unsigned_envelope uu ty corr kind res cls t prin) = t"
  "en_CorrelationID (unsigned_envelope uu ty corr kind res cls t prin) = corr"
  "en_FHIR (unsigned_envelope uu ty corr kind res cls t prin) =
     \<lparr>fb_BundleID = ''bdl-'' @ fst uu, fb_FullURL = ''urn:uuid:'' @ fst (snd uu),
      fb_Resource = (''@type'', JStr (typeURLPrefix @ eventResourceType kind)) # res\<rparr>"
  "unsigned_envelope uu ty corr kind res cls t prin\<lparr>en_Provenance := prin\<rparr>
     = unsigned_envelope uu ty corr kind res cls t prin"
  by (simp_all add: unsigned_envelope_def)

lemma NewEnvelope_Inr:
  assumes "NewEnvelope X uu ty corr res t prin signer = Inr env"
  obtains sg kind cls s where "signer = Some sg" "event_kind_of ty = Some kind" "trim_space corr \<noteq> []"
    "contentClassification kind res = Inr cls" "t \<noteq> zero_time" "map_of res ''@type'' = None"
    "Sign X sg (unsigned_envelope uu ty corr kind res cls t prin) = Inr s"
    "env = unsigned_envelope uu ty corr kind res cls t prin\<lparr>en_Provenance := prin\<lparr>pv_Signature := s\<rparr>\<rparr>"
  using assms unfolding NewEnvelope_def Let_def
  by (simp split: option.splits if_splits sum.splits)

lemma contentClassification_Inr:
  assumes "contentClassification kind res = Inr cls"
  shows "cls \<in> set ladder \<and> (\<exists>text. map_of res ''classification'' = Some (JStr text) \<and> cls = trim_space text)
    \<and> (sosEventTypes kind \<longrightarrow> Rank ClassificationRestricted \<le> Rank cls)"
  using assms unfolding contentClassification_def
  by (auto simp: ParseClassification_Inr split: option.splits json.splits sum.splits if_splits)

section \<open>Properties\<close>

text \<open>
  C22. Every envelope the service builds verifies under the signer's public key: the provenance
  signature is a three-part compact JWS whose header decodes to EdDSA with the service's key id and
  whose payload is the canonical form of the envelope without its signature. Relied on: Ed25519
  verifies what it signed, and the header object decodes to what was encoded.
\<close>

theorem NewEnvelope_verifies:
  assumes "crypto_laws X sg" and "known_kid (sg_kid sg)"
    and "NewEnvelope X uu ty corr res t prin (Some sg) = Inr env"
  shows "Verify X env (cr_public X (sg_privateKey sg)) = None"
proof -
  from assms(3) obtain kind cls s where s:
    "Sign X sg (unsigned_envelope uu ty corr kind res cls t prin\<lparr>en_Provenance := prin\<rparr>) = Inr s"
    and env: "env = unsigned_envelope uu ty corr kind res cls t prin\<lparr>en_Provenance := prin\<lparr>pv_Signature := s\<rparr>\<rparr>"
    by (rule NewEnvelope_Inr) auto
  show ?thesis unfolding env by (rule Verify_Sign [OF assms(1,2) s])
qed

text \<open>
  A concrete instance of the parameters: signing prefixes the message with the key, verification
  checks it, and the canonical form is a constant.
\<close>

definition sample_crypto :: crypto where
  "sample_crypto =
     \<lparr>cr_jcs = (\<lambda>j. Some ''canonical''), cr_sign = (\<lambda>k m. take 32 k @ m),
      cr_verify = (\<lambda>k m s. s = k @ m), cr_public = take 32,
      cr_parse_header = (\<lambda>h. Some (''EdDSA'', take (length h - 24) (drop 22 h)))\<rparr>"

definition sample_signer :: Signer where
  "sample_signer = \<lparr>sg_privateKey = replicate 64 (CHR ''k''), sg_kid = ''blueeconomy-geo-service-7''\<rparr>"

definition sample_principal :: Provenance where
  "sample_principal = \<lparr>pv_PrincipalID = ''svc'', pv_PrincipalRole = ''ingest'',
     pv_LedgerCommitHash = [], pv_Signature = []\<rparr>"

lemma sample_crypto_laws: "crypto_laws sample_crypto sample_signer" "known_kid (sg_kid sample_signer)"
  by (simp_all add: crypto_laws_def sample_crypto_def sample_signer_def protectedHeaderJSON_def
      known_kid_def keyIDPrefix_def)

lemma trim_space_short:
  "trim_space ''svc'' = ''svc''" "trim_space ''ingest'' = ''ingest''" "trim_space ''c-1'' = ''c-1''"
  by (simp_all add: trim_space_def trim_left_def is_space_def)

lemma event_kind_of_name [simp]: "event_kind_of (event_type_name k) = Some k"
  by (cases k) (simp_all add: event_kind_of_def all_event_kinds_def)

lemma strip_signature_envelope: "\<exists>s. strip_signature (envelope_json e) = Some s"
  by (simp add: strip_signature_def envelope_json_def omit_str_def)

lemma sample_sign: "Sign sample_crypto sg e = Inr (jws_compact sample_crypto sg ''canonical'')"
  using strip_signature_envelope [of e] by (auto simp: Sign_def canonicalPayload_def sample_crypto_def)

lemma sample_envelope:
  "\<exists>env. NewEnvelope sample_crypto (''a'', ''b'', ''c'') (event_type_name EventSOS) ''c-1''
     [(''classification'', JStr ClassificationRestricted)] 0 sample_principal (Some sample_signer) = Inr env"
  by (simp add: NewEnvelope_def sample_principal_def trim_space_short contentClassification_def
      ladder_def sample_sign Let_def zero_time_def del: event_type_name.simps)

theorem NewEnvelope_verifies_witness:
  "\<exists>env. NewEnvelope sample_crypto (''a'', ''b'', ''c'') (event_type_name EventSOS) ''c-1''
      [(''classification'', JStr ClassificationRestricted)] 0 sample_principal (Some sample_signer) = Inr env
    \<and> Verify sample_crypto env (cr_public sample_crypto (sg_privateKey sample_signer)) = None"
  using sample_envelope NewEnvelope_verifies [OF sample_crypto_laws] by blast

text \<open>
  The envelope asserts the classification of its content: it is one of the five labels, equal to
  the (trimmed) classification member of the payload, at least RESTRICTED for every SOS and safety
  event, and the carried resource is the payload with its governing type added.
\<close>

theorem NewEnvelope_classification:
  assumes "NewEnvelope X uu ty corr res t prin signer = Inr env"
  shows "en_Classification env \<in> set ladder
    \<and> (\<exists>text. map_of res ''classification'' = Some (JStr text) \<and> en_Classification env = trim_space text)
    \<and> (\<exists>kind. event_kind_of ty = Some kind
         \<and> (sosEventTypes kind \<longrightarrow> Rank ClassificationRestricted \<le> Rank (en_Classification env))
         \<and> fb_Resource (en_FHIR env) = (''@type'', JStr (typeURLPrefix @ eventResourceType kind)) # res)
    \<and> en_EventType env = ty \<and> en_CorrelationID env = corr \<and> en_OccurredAt env = t"
  using assms
proof (rule NewEnvelope_Inr)
  fix sg kind cls s
  assume k: "event_kind_of ty = Some kind" "contentClassification kind res = Inr cls"
    and env: "env = unsigned_envelope uu ty corr kind res cls t prin\<lparr>en_Provenance := prin\<lparr>pv_Signature := s\<rparr>\<rparr>"
  show ?thesis using contentClassification_Inr [OF k(2)] k(1) by (simp add: env)
qed

theorem NewEnvelope_classification_witness:
  "\<exists>env. NewEnvelope sample_crypto (''a'', ''b'', ''c'') (event_type_name EventSOS) ''c-1''
      [(''classification'', JStr ClassificationRestricted)] 0 sample_principal (Some sample_signer) = Inr env
    \<and> Rank ClassificationRestricted \<le> Rank (en_Classification env)"
proof -
  obtain env where e: "NewEnvelope sample_crypto (''a'', ''b'', ''c'') (event_type_name EventSOS) ''c-1''
      [(''classification'', JStr ClassificationRestricted)] 0 sample_principal (Some sample_signer) = Inr env"
    using sample_envelope by blast
  have "sosEventTypes EventSOS" by simp
  with NewEnvelope_classification [OF e] e show ?thesis
    unfolding event_kind_of_name by blast
qed

end
