(* ===== verification/Effects.thy ===== *)
theory Effects
  imports Geo_Prelude
begin

text \<open>
  Calls that read and change the world and may return an error: a Go call is a function from the
  world to the world it leaves and its result, \<open>Inl\<close> the error. An early return on error is
  \<open>bindA\<close>; the world the failed call left stays (only a database transaction undoes its part).

  \<open>triple\<close> is the usual pre/postcondition statement with a second postcondition for errors, and
  \<open>keeps\<close> an invariant of both outcomes. Their rules are collected in \<open>keeps_rules\<close>, so that a
  component proves one fact per primitive and composes.
\<close>

named_theorems wp_simps \<open>symbolic execution of calls\<close>
named_theorems keeps_rules \<open>an invariant through the combinators and the primitives\<close>

type_synonym ('w, 'e, 'a) act = "'w \<Rightarrow> 'w \<times> ('e + 'a)"

section \<open>Combinators\<close>

definition ret :: "'a \<Rightarrow> ('w, 'e, 'a) act" where
  "ret x w = (w, Inr x)"

definition raise :: "'e \<Rightarrow> ('w, 'e, 'a) act" where
  "raise e w = (w, Inl e)"

definition bindA :: "('w, 'e, 'a) act \<Rightarrow> ('a \<Rightarrow> ('w, 'e, 'b) act) \<Rightarrow> ('w, 'e, 'b) act" where
  "bindA m f w = (case m w of (w', Inl e) \<Rightarrow> (w', Inl e) | (w', Inr x) \<Rightarrow> f x w')"

definition seqA :: "('w, 'e, 'a) act \<Rightarrow> ('w, 'e, 'b) act \<Rightarrow> ('w, 'e, 'b) act" where
  "seqA m n = bindA m (\<lambda>_. n)"

text \<open>\<open>if err := m(); err != nil \<dots>\<close>: the outcome as a value.\<close>

definition attempt :: "('w, 'e, 'a) act \<Rightarrow> ('w, 'e, 'e + 'a) act" where
  "attempt m w = (case m w of (w', r) \<Rightarrow> (w', Inr r))"

text \<open>\<open>fmt.Errorf("\<dots>: %w", err)\<close> around a call.\<close>

definition wrapA :: "('e \<Rightarrow> 'e) \<Rightarrow> ('w, 'e, 'a) act \<Rightarrow> ('w, 'e, 'a) act" where
  "wrapA g m w = (case m w of (w', Inl e) \<Rightarrow> (w', Inl (g e)) | (w', Inr x) \<Rightarrow> (w', Inr x))"

definition reads :: "('w \<Rightarrow> 'a) \<Rightarrow> ('w, 'e, 'a) act" where
  "reads f w = (w, Inr (f w))"

definition modifies :: "('w \<Rightarrow> 'w) \<Rightarrow> ('w, 'e, unit) act" where
  "modifies f w = (f w, Inr ())"

fun eachA :: "('a \<Rightarrow> ('w, 'e, unit) act) \<Rightarrow> 'a list \<Rightarrow> ('w, 'e, unit) act" where
  "eachA f [] = ret ()"
| "eachA f (x # xs) = seqA (f x) (eachA f xs)"

definition whenA :: "bool \<Rightarrow> ('w, 'e, unit) act \<Rightarrow> ('w, 'e, unit) act" where
  "whenA b m = (if b then m else ret ())"

section \<open>Statements\<close>

definition triple ::
  "('w \<Rightarrow> bool) \<Rightarrow> ('w, 'e, 'a) act \<Rightarrow> ('a \<Rightarrow> 'w \<Rightarrow> bool) \<Rightarrow> ('e \<Rightarrow> 'w \<Rightarrow> bool) \<Rightarrow> bool" where
  "triple P m Q E \<longleftrightarrow>
     (\<forall>w. P w \<longrightarrow> (case m w of (w', Inr x) \<Rightarrow> Q x w' | (w', Inl e) \<Rightarrow> E e w'))"

definition keeps :: "('w \<Rightarrow> bool) \<Rightarrow> ('w, 'e, 'a) act \<Rightarrow> bool" where
  "keeps I m \<longleftrightarrow> (\<forall>w. I w \<longrightarrow> I (fst (m w)))"

lemma keeps_triple: "keeps I m \<longleftrightarrow> triple I m (\<lambda>_. I) (\<lambda>_. I)"
  by (simp add: keeps_def triple_def case_prod_beta sum.case_eq_if)

lemma tripleD:
  "triple P m Q E \<Longrightarrow> P w \<Longrightarrow> m w = (w', Inr x) \<Longrightarrow> Q x w'"
  "triple P m Q E \<Longrightarrow> P w \<Longrightarrow> m w = (w', Inl e) \<Longrightarrow> E e w'"
  by (auto simp: triple_def split: prod.splits sum.splits)

lemma keepsD: "keeps I m \<Longrightarrow> I w \<Longrightarrow> m w = (w', r) \<Longrightarrow> I w'"
  by (auto simp: keeps_def)

lemma triple_ret: "(\<And>w. P w \<Longrightarrow> Q x w) \<Longrightarrow> triple P (ret x) Q E"
  by (simp add: triple_def ret_def)

lemma triple_raise: "(\<And>w. P w \<Longrightarrow> E e w) \<Longrightarrow> triple P (raise e) Q E"
  by (simp add: triple_def raise_def)

lemma triple_bind:
  "triple P m R E \<Longrightarrow> (\<And>x. triple (R x) (f x) Q E) \<Longrightarrow> triple P (bindA m f) Q E"
  unfolding triple_def bindA_def by (fastforce split: prod.splits sum.splits)

lemma triple_seq: "triple P m (\<lambda>_. R) E \<Longrightarrow> triple R n Q E \<Longrightarrow> triple P (seqA m n) Q E"
  unfolding seqA_def by (rule triple_bind)

lemma triple_attempt:
  "triple P m (\<lambda>x. Q (Inr x)) (\<lambda>e. Q (Inl e)) \<Longrightarrow> triple P (attempt m) Q E"
  unfolding triple_def attempt_def by (fastforce split: prod.splits sum.splits)

lemma triple_wrap: "triple P m Q (\<lambda>e. E (g e)) \<Longrightarrow> triple P (wrapA g m) Q E"
  unfolding triple_def wrapA_def by (fastforce split: prod.splits sum.splits)

lemma triple_reads: "(\<And>w. P w \<Longrightarrow> Q (f w) w) \<Longrightarrow> triple P (reads f) Q E"
  by (simp add: triple_def reads_def)

lemma triple_modifies: "(\<And>w. P w \<Longrightarrow> Q () (f w)) \<Longrightarrow> triple P (modifies f) Q E"
  by (simp add: triple_def modifies_def)

lemma triple_weaken:
  "triple P m Q E \<Longrightarrow> (\<And>w. P' w \<Longrightarrow> P w) \<Longrightarrow> (\<And>x w. Q x w \<Longrightarrow> Q' x w)
     \<Longrightarrow> (\<And>e w. E e w \<Longrightarrow> E' e w) \<Longrightarrow> triple P' m Q' E'"
  unfolding triple_def by (fastforce split: prod.splits sum.splits)

lemma keeps_ret [keeps_rules]: "keeps I (ret x)"
  by (simp add: keeps_def ret_def)

lemma keeps_raise [keeps_rules]: "keeps I (raise e)"
  by (simp add: keeps_def raise_def)

lemma keeps_bind [keeps_rules]: "keeps I m \<Longrightarrow> (\<And>x. keeps I (f x)) \<Longrightarrow> keeps I (bindA m f)"
  unfolding keeps_triple by (rule triple_bind)

lemma keeps_seq [keeps_rules]: "keeps I m \<Longrightarrow> keeps I n \<Longrightarrow> keeps I (seqA m n)"
  unfolding seqA_def by (rule keeps_bind)

lemma keeps_attempt [keeps_rules]: "keeps I m \<Longrightarrow> keeps I (attempt m)"
  unfolding keeps_triple by (rule triple_attempt)

lemma keeps_wrap [keeps_rules]: "keeps I m \<Longrightarrow> keeps I (wrapA g m)"
  unfolding keeps_triple by (rule triple_wrap)

lemma keeps_reads [keeps_rules]: "keeps I (reads f)"
  by (simp add: keeps_def reads_def)

lemma keeps_modifies: "(\<And>w. I w \<Longrightarrow> I (f w)) \<Longrightarrow> keeps I (modifies f)"
  by (simp add: keeps_def modifies_def)

lemma keeps_when [keeps_rules]: "keeps I m \<Longrightarrow> keeps I (whenA b m)"
  by (simp add: whenA_def keeps_ret)

lemma keeps_each [keeps_rules]: "(\<And>x. keeps I (f x)) \<Longrightarrow> keeps I (eachA f xs)"
  by (induction xs) (simp_all add: keeps_ret keeps_seq)

lemma keeps_if [keeps_rules]: "(b \<Longrightarrow> keeps I m) \<Longrightarrow> (\<not> b \<Longrightarrow> keeps I n) \<Longrightarrow> keeps I (if b then m else n)"
  by simp

lemma keeps_option [keeps_rules]:
  "keeps I m \<Longrightarrow> (\<And>x. keeps I (f x)) \<Longrightarrow> keeps I (case v of None \<Rightarrow> m | Some x \<Rightarrow> f x)"
  by (cases v) auto

lemma keeps_sum [keeps_rules]:
  "(\<And>x. keeps I (f x)) \<Longrightarrow> (\<And>x. keeps I (g x)) \<Longrightarrow> keeps I (case v of Inl x \<Rightarrow> f x | Inr x \<Rightarrow> g x)"
  by (cases v) auto

lemma keeps_let [keeps_rules]: "(\<And>x. keeps I (f x)) \<Longrightarrow> keeps I (let x = v in f x)"
  by simp

section \<open>Symbolic execution\<close>

text \<open>
  \<open>wp m Q E w\<close>: the call made in \<open>w\<close> ends in a world satisfying \<open>Q\<close> with its result, or \<open>E\<close> with
  its error. A call is a function, so \<open>wp\<close> commutes with every combinator by an equation; the
  collection \<open>wp_simps\<close> executes a body symbolically.
\<close>

definition wp :: "('w, 'e, 'a) act \<Rightarrow> ('a \<Rightarrow> 'w \<Rightarrow> bool) \<Rightarrow> ('e \<Rightarrow> 'w \<Rightarrow> bool) \<Rightarrow> 'w \<Rightarrow> bool" where
  "wp m Q E w = (case m w of (w', Inr x) \<Rightarrow> Q x w' | (w', Inl e) \<Rightarrow> E e w')"

lemma wp_Inr: "wp m Q E w \<Longrightarrow> m w = (w', Inr x) \<Longrightarrow> Q x w'"
  by (simp add: wp_def)

lemma wp_Inl: "wp m Q E w \<Longrightarrow> m w = (w', Inl e) \<Longrightarrow> E e w'"
  by (simp add: wp_def)

lemma wp_mono:
  "wp m Q E w \<Longrightarrow> (\<And>x w. Q x w \<Longrightarrow> Q' x w) \<Longrightarrow> (\<And>e w. E e w \<Longrightarrow> E' e w) \<Longrightarrow> wp m Q' E' w"
  by (simp add: wp_def split: prod.splits sum.splits)

lemma triple_wp: "triple P m Q E \<longleftrightarrow> (\<forall>w. P w \<longrightarrow> wp m Q E w)"
  by (simp add: triple_def wp_def)

lemma wp_ret [wp_simps]: "wp (ret x) Q E = (\<lambda>w. Q x w)"
  by (simp add: fun_eq_iff wp_def ret_def)

lemma wp_raise [wp_simps]: "wp (raise e) Q E = (\<lambda>w. E e w)"
  by (simp add: fun_eq_iff wp_def raise_def)

lemma wp_bind [wp_simps]: "wp (bindA m f) Q E = (\<lambda>w. wp m (\<lambda>x. wp (f x) Q E) E w)"
  by (simp add: fun_eq_iff wp_def bindA_def split: prod.split sum.split)

lemma wp_seq [wp_simps]: "wp (seqA m n) Q E = (\<lambda>w. wp m (\<lambda>x. wp n Q E) E w)"
  by (simp add: fun_eq_iff seqA_def wp_bind)

lemma wp_attempt [wp_simps]: "wp (attempt m) Q E = (\<lambda>w. wp m (\<lambda>x. Q (Inr x)) (\<lambda>e. Q (Inl e)) w)"
  by (simp add: fun_eq_iff wp_def attempt_def split: prod.split sum.split)

lemma wp_wrap [wp_simps]: "wp (wrapA g m) Q E = (\<lambda>w. wp m Q (\<lambda>e. E (g e)) w)"
  by (simp add: fun_eq_iff wp_def wrapA_def split: prod.split sum.split)

lemma wp_reads [wp_simps]: "wp (reads f) Q E = (\<lambda>w. Q (f w) w)"
  by (simp add: fun_eq_iff wp_def reads_def)

lemma wp_modifies [wp_simps]: "wp (modifies f) Q E = (\<lambda>w. Q () (f w))"
  by (simp add: fun_eq_iff wp_def modifies_def)

lemma wp_when [wp_simps]: "wp (whenA b m) Q E = (\<lambda>w. (if b then wp m Q E w else Q () w))"
  by (simp add: fun_eq_iff whenA_def wp_ret)

lemma wp_if [wp_simps]: "wp (if b then m else n) Q E = (\<lambda>w. (if b then wp m Q E w else wp n Q E w))"
  by simp

lemma wp_option [wp_simps]:
  "wp (case v of None \<Rightarrow> m | Some x \<Rightarrow> f x) Q E = (\<lambda>w. (case v of None \<Rightarrow> wp m Q E w | Some x \<Rightarrow> wp (f x) Q E w))"
  by (simp add: fun_eq_iff split: option.split)

lemma wp_sum [wp_simps]:
  "wp (case v of Inl x \<Rightarrow> f x | Inr y \<Rightarrow> g y) Q E = (\<lambda>w. (case v of Inl x \<Rightarrow> wp (f x) Q E w | Inr y \<Rightarrow> wp (g y) Q E w))"
  by (simp add: fun_eq_iff split: sum.split)

lemma wp_let [wp_simps]: "wp (let x = v in f x) Q E = (\<lambda>w. (let x = v in wp (f x) Q E w))"
  by simp

lemma wp_pair [wp_simps]: "wp (case v of (x, y) \<Rightarrow> f x y) Q E = (\<lambda>w. (case v of (x, y) \<Rightarrow> wp (f x y) Q E w))"
  by (simp add: fun_eq_iff split: prod.split)

text \<open>How a sequence ends: the first error stops it.\<close>

lemma bindA_Inr:
  "bindA m f w = (w', Inr y) \<longleftrightarrow> (\<exists>w1 x. m w = (w1, Inr x) \<and> f x w1 = (w', Inr y))"
  by (auto simp: bindA_def split: prod.splits sum.splits)

lemma bindA_Inl:
  "bindA m f w = (w', Inl e) \<longleftrightarrow>
     m w = (w', Inl e) \<or> (\<exists>w1 x. m w = (w1, Inr x) \<and> f x w1 = (w', Inl e))"
  by (auto simp: bindA_def split: prod.splits sum.splits)

lemma seqA_Inr: "seqA m n w = (w', Inr y) \<longleftrightarrow> (\<exists>w1 x. m w = (w1, Inr x) \<and> n w1 = (w', Inr y))"
  by (simp add: seqA_def bindA_Inr)

lemmas run_simps = ret_def raise_def bindA_def seqA_def attempt_def wrapA_def reads_def modifies_def
  whenA_def

end
