(* ===== verification/Auth.thy ===== *)
theory Auth
  imports Envelope Effects
begin

text \<open>
  Authentication (\<open>internal/auth/auth.go\<close>): the principal of a request from a trusted proxy or from a
  Keycloak JWT, the cached key set of the realm, and the role gate in front of every handler.

  Parsing of addresses, the decoding of JSON documents, RSA and the key endpoint are code of other
  packages: they are the records \<open>net_ext\<close> and \<open>jwt_ext\<close>. The key cache is the state of the OIDC
  authenticator.
\<close>

section \<open>Principals\<close>

record Principal =
  pn_Subject :: string
  pn_Roles :: "string set"
  pn_Clearance :: string
  pn_TenantID :: string

definition HasRole :: "Principal \<Rightarrow> string \<Rightarrow> bool" where
  "HasRole p role \<longleftrightarrow> role \<in> pn_Roles p"

text \<open>A request as the authenticators see it; a missing header reads as the empty string.\<close>

record request =
  rq_RemoteAddr :: string
  rq_Header :: "string \<Rightarrow> string"

definition PrincipalFrom :: "Principal option \<Rightarrow> Principal option" where
  "PrincipalFrom ctx = (case ctx of None \<Rightarrow> None | Some p \<Rightarrow> if pn_Subject p \<noteq> [] then Some p else None)"

definition validatedSubject :: "string \<Rightarrow> string + string" where
  "validatedSubject value =
     (let subject = trim_space value in
      if subject = [] \<or> length subject > 512 then Inl ''authenticated subject is required'' else Inr subject)"

fun split_on :: "char \<Rightarrow> string \<Rightarrow> string list" where
  "split_on d [] = [[]]"
| "split_on d (c # s) =
     (if c = d then [] # split_on d s
      else case split_on d s of [] \<Rightarrow> [[c]] | x # xs \<Rightarrow> (c # x) # xs)"

definition role_char_bad :: "char \<Rightarrow> bool" where
  "role_char_bad c \<longleftrightarrow> of_char c \<in> {0 :: nat, 10, 13}"

fun collect_roles :: "string list \<Rightarrow> string set \<Rightarrow> string + string set" where
  "collect_roles [] roles = Inr roles"
| "collect_roles (raw # rest) roles =
     (let role = trim_space raw in
      if role = [] then collect_roles rest roles
      else if length role > 128 \<or> list_ex role_char_bad role then Inl ''authenticated roles header is invalid''
      else collect_roles rest (insert role roles))"

definition validatedRoles :: "string \<Rightarrow> string + string set" where
  "validatedRoles value = collect_roles (split_on (CHR '','') value) {}"

definition clearance_of :: "string \<Rightarrow> string + string" where
  "clearance_of value = (case validatedClearance value of
     Inl _ \<Rightarrow> Inl ''authenticated clearance is invalid'' | Inr c \<Rightarrow> Inr c)"

section \<open>The trusted proxy\<close>

text \<open>The address parsers of the \<open>net\<close> package; a network is the set of addresses it contains.\<close>

record net_ext =
  nx_split :: "string \<Rightarrow> string option"
  nx_parse :: "string \<Rightarrow> nat option"

record TrustedProxyAuthenticator =
  tp_CIDRs :: "(nat \<Rightarrow> bool) list"
  tp_Identity :: string

definition remote_host :: "net_ext \<Rightarrow> request \<Rightarrow> string" where
  "remote_host N r = (case nx_split N (trim_space (rq_RemoteAddr r)) of
     Some host \<Rightarrow> host | None \<Rightarrow> trim_space (rq_RemoteAddr r))"

definition proxy_principal :: "request \<Rightarrow> string + Principal" where
  "proxy_principal r =
     (case validatedSubject (rq_Header r ''X-Blueeconomy-Authenticated-Subject'') of
        Inl e \<Rightarrow> Inl e
      | Inr subject \<Rightarrow>
          (case validatedRoles (rq_Header r ''X-Blueeconomy-Authenticated-Roles'') of
             Inl e \<Rightarrow> Inl e
           | Inr roles \<Rightarrow>
               (case clearance_of (rq_Header r ''X-Blueeconomy-Authenticated-Clearance'') of
                  Inl e \<Rightarrow> Inl e
                | Inr clearance \<Rightarrow>
                    Inr \<lparr>pn_Subject = subject, pn_Roles = roles, pn_Clearance = clearance,
                         pn_TenantID = trim_space (rq_Header r ''X-Blueeconomy-Tenant-Id'')\<rparr>)))"

definition proxy_Authenticate :: "net_ext \<Rightarrow> TrustedProxyAuthenticator \<Rightarrow> request \<Rightarrow> string + Principal" where
  "proxy_Authenticate N a r =
     (case nx_parse N (remote_host N r) of
        None \<Rightarrow> Inl ''trusted proxy source address is invalid''
      | Some ip \<Rightarrow>
          if \<not> list_ex (\<lambda>network. network ip) (tp_CIDRs a)
          then Inl ''request source is not an approved trusted proxy''
          else if trim_space (rq_Header r ''X-Blueeconomy-Authenticated-By'') \<noteq> tp_Identity a
          then Inl ''trusted proxy identity is missing or invalid''
          else proxy_principal r)"

section \<open>The realm keys\<close>

record rsa_key =
  rk_N :: nat
  rk_E :: nat

record jwk =
  jk_Kty :: string
  jk_Kid :: string
  jk_Use :: string
  jk_Alg :: string
  jk_N :: string
  jk_E :: string

record key_cache =
  kc_keys :: "string \<rightharpoonup> rsa_key"
  kc_loadedAt :: int

datatype audience = AudSingle string | AudMany "string list" | AudOther

text \<open>Decoded claims. \<open>cl_Expires\<close> is \<open>None\<close> and \<open>cl_NotBefore\<close> is \<open>Some None\<close> when the number is not an
  int64; an absent \<open>nbf\<close> is \<open>None\<close>.\<close>

record claims =
  cl_Issuer :: string
  cl_Subject :: string
  cl_Audience :: audience
  cl_Expires :: "int option"
  cl_NotBefore :: "int option option"
  cl_RealmRoles :: "string list"
  cl_ResourceRoles :: "string list list"
  cl_Clearance :: string
  cl_TenantID :: string

text \<open>The header decoder gives the algorithm and the key identifier; \<open>jx_verify\<close> is PKCS 1 v1.5 over the
  SHA-256 of the message; \<open>jx_jwks\<close> is what the key endpoint answers; the clock is read at most four
  times per request.\<close>

record jwt_ext =
  jx_header :: "string \<Rightarrow> (string \<times> string) option"
  jx_claims :: "string \<Rightarrow> claims option"
  jx_verify :: "rsa_key \<Rightarrow> string \<Rightarrow> string \<Rightarrow> bool"
  jx_jwks :: "jwk list option"
  jx_now :: "nat \<Rightarrow> int"

definition bytes_nat :: "string \<Rightarrow> nat" where
  "bytes_nat s = foldl (\<lambda>n c. n * 256 + of_char c) 0 s"

definition approved_key :: "jwk \<Rightarrow> rsa_key option" where
  "approved_key item =
     (if jk_Kty item \<noteq> ''RSA'' \<or> jk_Use item \<noteq> ''sig'' \<or> jk_Alg item \<noteq> ''RS256''
         \<or> jk_Kid item = [] \<or> jk_N item = [] \<or> jk_E item = [] then None
      else case base64_decode (jk_N item) of
        None \<Rightarrow> None
      | Some modulus \<Rightarrow>
          (case base64_decode (jk_E item) of
             None \<Rightarrow> None
           | Some e \<Rightarrow>
               if length e = 0 \<or> length e > 4 then None
               else if bytes_nat e < 3 \<or> even (bytes_nat e) then None
               else if bytes_nat modulus < 2 ^ 2047 then None
               else Some \<lparr>rk_N = bytes_nat modulus, rk_E = bytes_nat e\<rparr>))"

fun collect_keys :: "jwk list \<Rightarrow> (string \<rightharpoonup> rsa_key) \<Rightarrow> (string \<rightharpoonup> rsa_key)" where
  "collect_keys [] loaded = loaded"
| "collect_keys (item # rest) loaded =
     (case approved_key item of
        None \<Rightarrow> collect_keys rest loaded
      | Some key \<Rightarrow> collect_keys rest (loaded(jk_Kid item \<mapsto> key)))"

definition loadKeys :: "jwt_ext \<Rightarrow> (key_cache, string, unit) act" where
  "loadKeys J =
     (case jx_jwks J of
        None \<Rightarrow> raise ''load OIDC JWKS''
      | Some document \<Rightarrow>
          if list_all (\<lambda>item. approved_key item = None) document
          then raise ''load OIDC JWKS: JWKS contains no approved RSA signing keys''
          else modifies (\<lambda>c. \<lparr>kc_keys = collect_keys document Map.empty, kc_loadedAt = jx_now J 2\<rparr>))"

definition fresh_keys :: "int \<Rightarrow> key_cache \<Rightarrow> bool" where
  "fresh_keys now c \<longleftrightarrow> time_sub now (kc_loadedAt c) < 300 * second"

definition trusted_key :: "jwt_ext \<Rightarrow> string \<Rightarrow> (key_cache, string, rsa_key) act" where
  "trusted_key J kid =
     bindA (reads (\<lambda>c. kc_keys c kid)) (\<lambda>cached.
     bindA (reads (fresh_keys (jx_now J 0))) (\<lambda>fresh.
     bindA (reads (\<lambda>c. kc_keys c kid \<noteq> None \<and> fresh_keys (jx_now J 1) c)) (\<lambda>again.
       if cached \<noteq> None \<and> fresh then ret (the cached)
       else seqA (whenA (\<not> again) (loadKeys J))
           (bindA (reads (\<lambda>c. kc_keys c kid)) (\<lambda>loaded.
              case loaded of Some key \<Rightarrow> ret key | None \<Rightarrow> raise ''JWT key ID is not trusted'')))))"

section \<open>A bearer token\<close>

definition to_lower :: "char \<Rightarrow> char" where
  "to_lower c = (if 65 \<le> (of_char c :: nat) \<and> of_char c \<le> (90 :: nat) then char_of (of_char c + 32 :: nat) else c)"

text \<open>\<open>strings.SplitN(value, " ", 2)\<close> with the checks on its parts.\<close>

definition bearer_token :: "string \<Rightarrow> string option" where
  "bearer_token header =
     (let value = trim_space header;
          scheme = takeWhile (\<lambda>c. c \<noteq> CHR '' '') value;
          rest = dropWhile (\<lambda>c. c \<noteq> CHR '' '') value
      in if rest = [] \<or> map to_lower scheme \<noteq> ''bearer'' \<or> trim_space (tl rest) = [] then None
         else Some (trim_space (tl rest)))"

definition audienceContains :: "audience \<Rightarrow> string \<Rightarrow> bool" where
  "audienceContains raw expected =
     (case raw of AudSingle a \<Rightarrow> a = expected | AudMany xs \<Rightarrow> expected \<in> set xs | AudOther \<Rightarrow> False)"

record OIDCAuthenticator =
  oa_Issuer :: string
  oa_Audience :: string

definition claim_roles :: "claims \<Rightarrow> string set" where
  "claim_roles c = set (filter (\<lambda>r. r \<noteq> []) (map trim_space (cl_RealmRoles c @ concat (cl_ResourceRoles c))))"

definition claims_principal :: "OIDCAuthenticator \<Rightarrow> int \<Rightarrow> claims \<Rightarrow> string + Principal" where
  "claims_principal a now c =
     (if cl_Issuer c \<noteq> oa_Issuer a \<or> \<not> audienceContains (cl_Audience c) (oa_Audience a)
      then Inl ''JWT issuer or audience is invalid''
      else case cl_Expires c of
        None \<Rightarrow> Inl ''JWT is expired or has no valid expiry''
      | Some expires \<Rightarrow>
          if expires \<le> unix now then Inl ''JWT is expired or has no valid expiry''
          else if (case cl_NotBefore c of None \<Rightarrow> False | Some None \<Rightarrow> True | Some (Some t) \<Rightarrow> unix now < t)
          then Inl ''JWT is not yet valid''
          else (case validatedSubject (cl_Subject c) of
              Inl e \<Rightarrow> Inl e
            | Inr subject \<Rightarrow>
                (case clearance_of (cl_Clearance c) of
                   Inl e \<Rightarrow> Inl e
                 | Inr clearance \<Rightarrow>
                     Inr \<lparr>pn_Subject = subject, pn_Roles = claim_roles c, pn_Clearance = clearance,
                          pn_TenantID = trim_space (cl_TenantID c)\<rparr>)))"

definition verified_claims :: "jwt_ext \<Rightarrow> OIDCAuthenticator \<Rightarrow> string list \<Rightarrow> rsa_key \<Rightarrow> string + Principal" where
  "verified_claims J a segments key =
     (case base64_decode (segments ! 2) of
        None \<Rightarrow> Inl ''JWT signature is invalid''
      | Some signature \<Rightarrow>
          if \<not> jx_verify J key (segments ! 0 @ ''.'' @ segments ! 1) signature
          then Inl ''JWT signature verification failed''
          else case Option.bind (base64_decode (segments ! 1)) (jx_claims J) of
            None \<Rightarrow> Inl ''JWT claims are invalid''
          | Some c \<Rightarrow> claims_principal a (jx_now J 3) c)"

definition oidc_Authenticate :: "jwt_ext \<Rightarrow> OIDCAuthenticator \<Rightarrow> request \<Rightarrow> (key_cache, string, Principal) act" where
  "oidc_Authenticate J a r =
     (case bearer_token (rq_Header r ''Authorization'') of
        None \<Rightarrow> raise ''Bearer authorization is required''
      | Some token \<Rightarrow>
          let segments = split_dots token in
          if length segments \<noteq> 3 \<or> [] \<in> set segments then raise ''JWT compact serialization is invalid''
          else case base64_decode (segments ! 0) of
            None \<Rightarrow> raise ''JWT header is invalid''
          | Some header \<Rightarrow>
              (case jx_header J header of
                 None \<Rightarrow> raise ''JWT algorithm or key ID is invalid''
               | Some (alg, kid) \<Rightarrow>
                   if alg \<noteq> ''RS256'' \<or> trim_space kid = [] then raise ''JWT algorithm or key ID is invalid''
                   else bindA (trusted_key J kid) (\<lambda>key.
                     case verified_claims J a segments key of Inl e \<Rightarrow> raise e | Inr p \<Rightarrow> ret p)))"

section \<open>The gates\<close>

text \<open>What a gate writes instead of calling the next handler.\<close>

datatype refusal = Unauthenticated | Forbidden

definition Middleware :: "string + Principal \<Rightarrow> (Principal option \<Rightarrow> 'r) \<Rightarrow> (refusal \<Rightarrow> 'r) \<Rightarrow> 'r" where
  "Middleware authenticated next refuse =
     (case authenticated of Inl _ \<Rightarrow> refuse Unauthenticated | Inr p \<Rightarrow> next (Some p))"

definition RequireRoles :: "string list \<Rightarrow> (Principal option \<Rightarrow> 'r) \<Rightarrow> (refusal \<Rightarrow> 'r) \<Rightarrow> Principal option \<Rightarrow> 'r" where
  "RequireRoles roles next refuse ctx =
     (case PrincipalFrom ctx of
        None \<Rightarrow> refuse Forbidden
      | Some p \<Rightarrow> if list_ex (HasRole p) roles then next ctx else refuse Forbidden)"

section \<open>Facts about keys and tokens\<close>

definition strong_key :: "rsa_key \<Rightarrow> bool" where
  "strong_key key \<longleftrightarrow> 2 ^ 2047 \<le> rk_N key \<and> 3 \<le> rk_E key \<and> odd (rk_E key)"

definition trusted_keys :: "key_cache \<Rightarrow> bool" where
  "trusted_keys c \<longleftrightarrow> (\<forall>kid key. kc_keys c kid = Some key \<longrightarrow> strong_key key)"

lemma approved_key_strong: "approved_key item = Some key \<Longrightarrow> strong_key key"
  by (auto simp: approved_key_def strong_key_def split: if_splits option.splits)

lemma collect_keys_strong:
  "(\<And>kid key. loaded kid = Some key \<Longrightarrow> strong_key key) \<Longrightarrow> collect_keys items loaded kid = Some key \<Longrightarrow> strong_key key"
proof (induction items arbitrary: loaded)
  case (Cons item items)
  show ?case
  proof (cases "approved_key item")
    case None
    have "collect_keys items loaded kid = Some key" using Cons.prems(2) None by simp
    from Cons.IH [OF Cons.prems(1) this] show ?thesis by simp
  next
    case (Some k)
    have "strong_key v" if "(loaded(jk_Kid item \<mapsto> k)) i = Some v" for i v
      using that Cons.prems(1) approved_key_strong [OF Some] by (auto split: if_splits)
    from Cons.IH [OF this] Cons.prems(2) Some show ?thesis by (simp del: fun_upd_apply)
  qed
qed simp

lemma trusted_key_wp:
  assumes "trusted_keys c"
  shows "wp (trusted_key J kid)
     (\<lambda>key c'. trusted_keys c' \<and> kc_keys c' kid = Some key
        \<and> ((c' = c \<and> (fresh_keys (jx_now J 0) c \<or> fresh_keys (jx_now J 1) c)) \<or> kc_loadedAt c' = jx_now J 2))
     (\<lambda>_ c'. trusted_keys c') c"
  using assms collect_keys_strong [of Map.empty]
  by (auto simp: trusted_key_def loadKeys_def wp_simps trusted_keys_def split: option.split)

lemma split_dots_glue: "hd (split_dots t) @ concat (map (\<lambda>x. CHR ''.'' # x) (tl (split_dots t))) = t"
proof (induction t)
  case (Cons c t)
  have "split_dots t \<noteq> []" by (cases t) simp_all
  then obtain x xs where "split_dots t = x # xs" by (cases "split_dots t") simp_all
  with Cons show ?case by auto
qed simp

lemma split_dots_three: "split_dots t = [h, b, s] \<Longrightarrow> t = h @ ''.'' @ b @ ''.'' @ s"
  using split_dots_glue [of t] by simp

text \<open>What an accepted set of claims says.\<close>

lemma claims_principal_Inr:
  assumes "claims_principal a now c = Inr p"
  shows "cl_Issuer c = oa_Issuer a" "audienceContains (cl_Audience c) (oa_Audience a)"
    "\<exists>ex. cl_Expires c = Some ex \<and> unix now < ex" "\<forall>nb. cl_NotBefore c = Some nb \<longrightarrow> (\<exists>t. nb = Some t \<and> t \<le> unix now)"
    "pn_Subject p = trim_space (cl_Subject c)" "pn_Subject p \<noteq> []" "pn_Roles p = claim_roles c"
    "pn_Clearance p \<in> set ladder" "pn_TenantID p = trim_space (cl_TenantID c)"
  using assms
  by (auto simp: claims_principal_def validatedSubject_def clearance_of_def validatedClearance_def Let_def ladder_def
      split: if_splits option.splits sum.splits)

lemma verified_claims_Inr:
  assumes "verified_claims J a [h, b, s] key = Inr p"
  obtains c sig where "base64_decode s = Some sig" "jx_verify J key (h @ ''.'' @ b) sig"
    "Option.bind (base64_decode b) (jx_claims J) = Some c" "claims_principal a (jx_now J 3) c = Inr p"
  using assms by (auto simp: verified_claims_def split: option.splits if_splits)

lemma lift_result: "(case v of Inl e \<Rightarrow> raise e | Inr x \<Rightarrow> ret x) c = (c', Inr y) \<longleftrightarrow> v = Inr y \<and> c' = c"
  by (auto simp: raise_def ret_def split: sum.split)

lemma length_three: "length xs = 3 \<Longrightarrow> \<exists>a b c. xs = [a, b, c]"
  by (auto simp: length_Suc_conv numeral_3_eq_3)

lemma oidc_Authenticate_split:
  assumes "oidc_Authenticate J a r c = (c', Inr p)"
  obtains h b s kid key where "bearer_token (rq_Header r ''Authorization'') = Some (h @ ''.'' @ b @ ''.'' @ s)"
    "Option.bind (base64_decode h) (jx_header J) = Some (''RS256'', kid)"
    "trusted_key J kid c = (c', Inr key)" "verified_claims J a [h, b, s] key = Inr p"
proof -
  obtain token where token: "bearer_token (rq_Header r ''Authorization'') = Some token"
    using assms by (auto simp: oidc_Authenticate_def raise_def split: option.splits)
  have three: "length (split_dots token) = 3"
    using assms by (auto simp: oidc_Authenticate_def token raise_def Let_def split: if_splits)
  from length_three [OF three] obtain h b s where seg: "split_dots token = [h, b, s]" by blast
  obtain kid key where "Option.bind (base64_decode h) (jx_header J) = Some (''RS256'', kid)"
    "trusted_key J kid c = (c', Inr key)" "verified_claims J a [h, b, s] key = Inr p"
    using assms
    by (auto simp: oidc_Authenticate_def token seg raise_def lift_result bindA_Inr Let_def
        split: option.splits if_splits prod.splits)
  with that token split_dots_three [OF seg] show ?thesis by blast
qed

section \<open>Properties\<close>

definition sample_jwt :: jwt_ext where
  "sample_jwt = \<lparr>jx_header = (\<lambda>h. if h = ''a'' then Some (''RS256'', ''k1'') else None),
     jx_claims = (\<lambda>b. if b = ''b'' then Some \<lparr>cl_Issuer = ''iss'', cl_Subject = ''ada'', cl_Audience = AudMany [''geo''],
        cl_Expires = Some 60, cl_NotBefore = None, cl_RealmRoles = [''geo-reader''], cl_ResourceRoles = [],
        cl_Clearance = '''', cl_TenantID = ''t1''\<rparr> else None),
     jx_verify = (\<lambda>key message signature. message = ''YQ.Yg'' \<and> signature = ''c''), jx_jwks = None, jx_now = (\<lambda>_. 0)\<rparr>"

definition sample_keys :: "rsa_key \<Rightarrow> key_cache" where
  "sample_keys key = \<lparr>kc_keys = [''k1'' \<mapsto> key], kc_loadedAt = 0\<rparr>"

definition sample_bearer :: request where
  "sample_bearer = \<lparr>rq_RemoteAddr = '''', rq_Header = (\<lambda>h. if h = ''Authorization'' then ''Bearer YQ.Yg.Yw'' else [])\<rparr>"

lemma sample_authenticated:
  "\<not> isl (snd (oidc_Authenticate sample_jwt \<lparr>oa_Issuer = ''iss'', oa_Audience = ''geo''\<rparr> sample_bearer (sample_keys k)))"
  by code_simp

text \<open>C23. A JWT authenticates a principal only when its first two segments carry a valid RS256 signature by
  the key its header names, that key is in the realm's set and has at least 2048 bits and an odd exponent
  from 3, the set was younger than five minutes when it was consulted or has just been fetched, and the
  claims name this issuer and audience, are in their validity time and give the principal its trimmed,
  non-empty subject, a clearance of the ladder, and no role but the listed ones. The key set stays strong.\<close>

theorem oidc_Authenticate_sound:
  assumes "trusted_keys c" "oidc_Authenticate J a r c = (c', Inr p)"
  shows "trusted_keys c' \<and> (\<exists>h b s kid key sig cl.
      bearer_token (rq_Header r ''Authorization'') = Some (h @ ''.'' @ b @ ''.'' @ s)
    \<and> Option.bind (base64_decode h) (jx_header J) = Some (''RS256'', kid)
    \<and> kc_keys c' kid = Some key \<and> 2 ^ 2047 \<le> rk_N key \<and> 3 \<le> rk_E key \<and> odd (rk_E key)
    \<and> (c' = c \<and> (fresh_keys (jx_now J 0) c \<or> fresh_keys (jx_now J 1) c) \<or> kc_loadedAt c' = jx_now J 2)
    \<and> base64_decode s = Some sig \<and> jx_verify J key (h @ ''.'' @ b) sig
    \<and> Option.bind (base64_decode b) (jx_claims J) = Some cl
    \<and> cl_Issuer cl = oa_Issuer a \<and> audienceContains (cl_Audience cl) (oa_Audience a)
    \<and> (\<exists>ex. cl_Expires cl = Some ex \<and> unix (jx_now J 3) < ex)
    \<and> (\<forall>nb. cl_NotBefore cl = Some nb \<longrightarrow> (\<exists>t. nb = Some t \<and> t \<le> unix (jx_now J 3)))
    \<and> pn_Subject p = trim_space (cl_Subject cl) \<and> pn_Subject p \<noteq> []
    \<and> pn_Roles p = claim_roles cl \<and> pn_Clearance p \<in> set ladder)"
proof -
  from assms(2) obtain h b s kid key where t: "bearer_token (rq_Header r ''Authorization'') = Some (h @ ''.'' @ b @ ''.'' @ s)"
    "Option.bind (base64_decode h) (jx_header J) = Some (''RS256'', kid)"
    and k: "trusted_key J kid c = (c', Inr key)" and v: "verified_claims J a [h, b, s] key = Inr p"
    by (rule oidc_Authenticate_split)
  from v obtain cl sig where s: "base64_decode s = Some sig" "jx_verify J key (h @ ''.'' @ b) sig"
    "Option.bind (base64_decode b) (jx_claims J) = Some cl" and cl: "claims_principal a (jx_now J 3) cl = Inr p"
    by (rule verified_claims_Inr)
  from wp_Inr [OF trusted_key_wp [OF assms(1)] k]
  have key: "trusted_keys c'" "kc_keys c' kid = Some key"
    "c' = c \<and> (fresh_keys (jx_now J 0) c \<or> fresh_keys (jx_now J 1) c) \<or> kc_loadedAt c' = jx_now J 2" by blast+
  then have "strong_key key" by (auto simp: trusted_keys_def)
  then have strong: "2 ^ 2047 \<le> rk_N key" "3 \<le> rk_E key" "odd (rk_E key)" by (simp_all add: strong_key_def)
  note p = claims_principal_Inr [OF cl]
  show ?thesis
    by (intro conjI exI [of _ h] exI [of _ b] exI [of _ s] exI [of _ kid] exI [of _ key] exI [of _ sig] exI [of _ cl])
      (fact key t s strong p)+
qed

theorem oidc_Authenticate_sound_witness:
  "\<exists>c' p. oidc_Authenticate sample_jwt \<lparr>oa_Issuer = ''iss'', oa_Audience = ''geo''\<rparr> sample_bearer
       (sample_keys \<lparr>rk_N = 2 ^ 2047, rk_E = 65537\<rparr>) = (c', Inr p)
     \<and> trusted_keys c' \<and> pn_Clearance p \<in> set ladder"
proof -
  let ?k = "\<lparr>rk_N = 2 ^ 2047, rk_E = 65537\<rparr> :: rsa_key"
  let ?run = "\<lambda>k. oidc_Authenticate sample_jwt \<lparr>oa_Issuer = ''iss'', oa_Audience = ''geo''\<rparr> sample_bearer (sample_keys k)"
  obtain c' p where run: "?run ?k = (c', Inr p)"
    using sample_authenticated [of ?k] by (cases "?run ?k"; cases "snd (?run ?k)") auto
  have "trusted_keys (sample_keys ?k)" by (auto simp: trusted_keys_def sample_keys_def strong_key_def split: if_splits)
  from oidc_Authenticate_sound [OF this run] run show ?thesis by blast
qed

lemma gate_exact:
  "Middleware auth (RequireRoles roles h refuse) refuse =
    (case auth of
       Inl e \<Rightarrow> refuse Unauthenticated
     | Inr p \<Rightarrow> if pn_Subject p \<noteq> [] \<and> pn_Roles p \<inter> set roles \<noteq> {} then h (Some p) else refuse Forbidden)"
  by (auto simp: Middleware_def RequireRoles_def PrincipalFrom_def HasRole_def list_ex_iff split: sum.split)

end
