(* ===== verification/Validate.thy ===== *)
theory Validate
  imports Complex_Main Geo_Prelude
begin

text \<open>
  The sanity filter between decoding and the bus (\<open>internal/validate/validate.go\<close> and
  \<open>internal/validate/geo.go\<close>): the stateless checks of one report, and the per-vessel tracker that
  compares consecutive fixes. The great-circle distance is floating-point in the source and real
  arithmetic here; nothing else in this component is rounded.
\<close>

section \<open>Reports and findings\<close>

datatype Verdict = VerdictOK | VerdictQuarantine

datatype Reason =
    ReasonLatitudeBounds
  | ReasonLongitudeBounds
  | ReasonSentinelLatitude
  | ReasonSentinelLongitude
  | ReasonNullIsland
  | ReasonImpossibleSpeed
  | ReasonMMSIFormat
  | ReasonCourseBounds
  | ReasonSpeedSentinel
  | ReasonBifurcation

fun reason_code :: "Reason \<Rightarrow> string" where
  "reason_code ReasonLatitudeBounds = ''latitude-out-of-bounds''"
| "reason_code ReasonLongitudeBounds = ''longitude-out-of-bounds''"
| "reason_code ReasonSentinelLatitude = ''sentinel-latitude-91''"
| "reason_code ReasonSentinelLongitude = ''sentinel-longitude-181''"
| "reason_code ReasonNullIsland = ''null-island''"
| "reason_code ReasonImpossibleSpeed = ''impossible-speed''"
| "reason_code ReasonMMSIFormat = ''mmsi-format''"
| "reason_code ReasonCourseBounds = ''course-out-of-bounds''"
| "reason_code ReasonSpeedSentinel = ''speed-not-available-sentinel''"
| "reason_code ReasonBifurcation = ''same-mmsi-bifurcation''"

record PositionReport =
  pr_MMSI :: string
  pr_SourceClass :: string
  pr_LatitudeMicros :: int
  pr_LongitudeMicros :: int
  pr_SpeedOverGroundMilliknots :: int
  pr_CourseOverGroundMillidegrees :: int
  pr_ObservedAt :: int
  pr_ReceiverID :: string

text \<open>
  The detail of a finding is its text; the bifurcation text is kept as the arguments of its format
  (implied knots, elapsed seconds, the two receivers), since \<open>%.0f\<close> is not modelled.
\<close>

datatype Detail =
    DetailText string
  | DetailBifurcation real real string string

record Finding =
  fd_Verdict :: Verdict
  fd_Reason :: Reason
  fd_Detail :: Detail

section \<open>Stateless checks\<close>

definition maxLatitudeMicros :: int where "maxLatitudeMicros = 90000000"
definition maxLongitudeMicros :: int where "maxLongitudeMicros = 180000000"
definition sentinelLatitudeMicros :: int where "sentinelLatitudeMicros = 91000000"
definition sentinelLongitudeMicros :: int where "sentinelLongitudeMicros = 181000000"
definition speedNotAvailableMilliknots :: int where "speedNotAvailableMilliknots = 102300"
definition maxPlausibleSpeedMilliknots :: int where "maxPlausibleSpeedMilliknots = 60000"
definition maxCourseMillidegrees :: int where "maxCourseMillidegrees = 360000"
definition bifurcationSpeedMilliknots :: real where "bifurcationSpeedMilliknots = 60000"

lemmas validate_consts =
  maxLatitudeMicros_def maxLongitudeMicros_def sentinelLatitudeMicros_def
  sentinelLongitudeMicros_def speedNotAvailableMilliknots_def maxPlausibleSpeedMilliknots_def
  maxCourseMillidegrees_def

text \<open>The pattern \<open>^[0-9]{9}$\<close>; the error carries its message.\<close>

definition mmsiPattern :: "string \<Rightarrow> bool" where
  "mmsiPattern s \<longleftrightarrow> length s = 9 \<and> list_all is_digit s"

definition CheckMMSI :: "string \<Rightarrow> string option" where
  "CheckMMSI mmsi =
     (if \<not> mmsiPattern mmsi then Some ''MMSI must be exactly 9 decimal digits'' else None)"

definition IsNigerianFlagged :: "string \<Rightarrow> bool" where
  "IsNigerianFlagged mmsi \<longleftrightarrow> length mmsi = 9 \<and> take 3 mmsi = ''657''"

definition APP_REPORT :: string where
  "APP_REPORT = ''APP_REPORT''"

definition quarantine_finding :: "Reason \<Rightarrow> string \<Rightarrow> Finding" where
  "quarantine_finding r d =
     \<lparr>fd_Verdict = VerdictQuarantine, fd_Reason = r, fd_Detail = DetailText d\<rparr>"

definition plus_minus :: string where
  "plus_minus = [CHR 0xC2, CHR 0xB1]"

definition StaticChecks :: "PositionReport \<Rightarrow> Finding list" where
  "StaticChecks report =
     (let lat = pr_LatitudeMicros report; lon = pr_LongitudeMicros report;
          sog = pr_SpeedOverGroundMilliknots report; cog = pr_CourseOverGroundMillidegrees report
      in
        (if pr_SourceClass report \<noteq> APP_REPORT
         then (case CheckMMSI (pr_MMSI report) of
                 Some err \<Rightarrow> [quarantine_finding ReasonMMSIFormat err] | None \<Rightarrow> [])
         else if pr_MMSI report \<noteq> ''''
         then (case CheckMMSI (pr_MMSI report) of
                 Some err \<Rightarrow> [quarantine_finding ReasonMMSIFormat err] | None \<Rightarrow> [])
         else [])
      @ (if lat = sentinelLatitudeMicros \<or> lat = - sentinelLatitudeMicros
         then [quarantine_finding ReasonSentinelLatitude ''AIS 91-degree latitude sentinel'']
         else if lat > maxLatitudeMicros \<or> lat < - maxLatitudeMicros
         then [quarantine_finding ReasonLatitudeBounds
                 (''latitude '' @ show_int lat @ '' micro-degrees outside '' @ plus_minus @ ''90 degrees'')]
         else [])
      @ (if lon = sentinelLongitudeMicros \<or> lon = - sentinelLongitudeMicros
         then [quarantine_finding ReasonSentinelLongitude ''AIS 181-degree longitude sentinel'']
         else if lon > maxLongitudeMicros \<or> lon < - maxLongitudeMicros
         then [quarantine_finding ReasonLongitudeBounds
                 (''longitude '' @ show_int lon @ '' micro-degrees outside '' @ plus_minus @ ''180 degrees'')]
         else [])
      @ (if lat = 0 \<and> lon = 0
         then [quarantine_finding ReasonNullIsland ''(0,0) null-island position''] else [])
      @ (if sog = speedNotAvailableMilliknots
         then [quarantine_finding ReasonSpeedSentinel ''AIS 102.3 knot speed-not-available sentinel'']
         else if sog > maxPlausibleSpeedMilliknots
         then [quarantine_finding ReasonImpossibleSpeed
                 (''reported speed '' @ show_int sog @ '' milliknots exceeds 60 knots'')]
         else [])
      @ (if cog > maxCourseMillidegrees
         then [quarantine_finding ReasonCourseBounds
                 (''course '' @ show_int cog @ '' millidegrees outside 0..360000'')]
         else []))"

section \<open>The tracker\<close>

record lastFix =
  lf_latitudeMicros :: int
  lf_longitudeMicros :: int
  lf_observedAt :: int
  lf_receiverID :: string

type_synonym Tracker = "string \<rightharpoonup> lastFix"

definition NewTracker :: Tracker where
  "NewTracker = Map.empty"

definition vesselKey :: "PositionReport \<Rightarrow> string" where
  "vesselKey report =
     (if pr_MMSI report \<noteq> '''' then ''mmsi:'' @ pr_MMSI report
      else ''ref:'' @ pr_SourceClass report @ '':'' @ pr_ReceiverID report)"

text \<open>\<open>math.Atan2\<close> on the non-negative arguments the distance passes.\<close>

definition atan2_nonneg :: "real \<Rightarrow> real \<Rightarrow> real" where
  "atan2_nonneg y x = (if x = 0 then (if y = 0 then 0 else pi / 2) else arctan (y / x))"

definition micro_rad :: "int \<Rightarrow> real" where
  "micro_rad m = real_of_int m / 1000000 * pi / 180"

definition haversineMetres :: "int \<Rightarrow> int \<Rightarrow> int \<Rightarrow> int \<Rightarrow> real" where
  "haversineMetres lat1Micros lon1Micros lat2Micros lon2Micros =
     (let lat1 = micro_rad lat1Micros;
          lat2 = micro_rad lat2Micros;
          dLat = micro_rad (wrap_int32 (lat2Micros - lat1Micros));
          dLon = micro_rad (wrap_int32 (lon2Micros - lon1Micros));
          a = sin (dLat / 2) * sin (dLat / 2)
              + cos lat1 * cos lat2 * sin (dLon / 2) * sin (dLon / 2)
      in 2 * 6371008.8 * atan2_nonneg (sqrt a) (sqrt (1 - a)))"

definition impliedMilliknots :: "lastFix \<Rightarrow> PositionReport \<Rightarrow> int \<Rightarrow> real" where
  "impliedMilliknots previous report elapsed =
     haversineMetres (lf_latitudeMicros previous) (lf_longitudeMicros previous)
        (pr_LatitudeMicros report) (pr_LongitudeMicros report)
     / (real_of_int elapsed / real_of_int second) * 1943.8445"

definition fix_of :: "PositionReport \<Rightarrow> lastFix" where
  "fix_of report =
     \<lparr>lf_latitudeMicros = pr_LatitudeMicros report, lf_longitudeMicros = pr_LongitudeMicros report,
      lf_observedAt = pr_ObservedAt report, lf_receiverID = pr_ReceiverID report\<rparr>"

definition CheckConsecutive :: "Tracker \<Rightarrow> PositionReport \<Rightarrow> Tracker \<times> Finding option" where
  "CheckConsecutive tracker report =
     (let key = vesselKey report;
          tracker' = tracker(key \<mapsto> fix_of report)
      in case tracker key of
           None \<Rightarrow> (tracker', None)
         | Some previous \<Rightarrow>
             let elapsed = time_sub (pr_ObservedAt report) (lf_observedAt previous) in
             if elapsed \<le> 0 then (tracker', None)
             else if impliedMilliknots previous report elapsed > bifurcationSpeedMilliknots
             then (tracker', Some
                    \<lparr>fd_Verdict = VerdictQuarantine, fd_Reason = ReasonBifurcation,
                     fd_Detail = DetailBifurcation
                       (impliedMilliknots previous report elapsed / 1000)
                       (real_of_int elapsed / real_of_int second)
                       (lf_receiverID previous) (pr_ReceiverID report)\<rparr>)
             else (tracker', None))"

definition Reset :: "Tracker \<Rightarrow> Tracker" where
  "Reset tracker = Map.empty"

section \<open>Facts about the checks\<close>

definition admissible_mmsi :: "PositionReport \<Rightarrow> bool" where
  "admissible_mmsi r \<longleftrightarrow>
     mmsiPattern (pr_MMSI r) \<or> (pr_SourceClass r = APP_REPORT \<and> pr_MMSI r = '''')"

text \<open>The condition each reason stands for, stated on the report alone.\<close>

fun reason_applies :: "Reason \<Rightarrow> PositionReport \<Rightarrow> bool" where
  "reason_applies ReasonMMSIFormat r = (\<not> admissible_mmsi r)"
| "reason_applies ReasonSentinelLatitude r = (\<bar>pr_LatitudeMicros r\<bar> = 91000000)"
| "reason_applies ReasonLatitudeBounds r =
     (\<bar>pr_LatitudeMicros r\<bar> > 90000000 \<and> \<bar>pr_LatitudeMicros r\<bar> \<noteq> 91000000)"
| "reason_applies ReasonSentinelLongitude r = (\<bar>pr_LongitudeMicros r\<bar> = 181000000)"
| "reason_applies ReasonLongitudeBounds r =
     (\<bar>pr_LongitudeMicros r\<bar> > 180000000 \<and> \<bar>pr_LongitudeMicros r\<bar> \<noteq> 181000000)"
| "reason_applies ReasonNullIsland r = (pr_LatitudeMicros r = 0 \<and> pr_LongitudeMicros r = 0)"
| "reason_applies ReasonSpeedSentinel r = (pr_SpeedOverGroundMilliknots r = 102300)"
| "reason_applies ReasonImpossibleSpeed r =
     (pr_SpeedOverGroundMilliknots r > 60000 \<and> pr_SpeedOverGroundMilliknots r \<noteq> 102300)"
| "reason_applies ReasonCourseBounds r = (pr_CourseOverGroundMillidegrees r > 360000)"
| "reason_applies ReasonBifurcation r = False"

lemma quarantine_finding_sel [simp]:
  "fd_Verdict (quarantine_finding r d) = VerdictQuarantine"
  "fd_Reason (quarantine_finding r d) = r"
  by (simp_all add: quarantine_finding_def)

lemma CheckMMSI_case:
  "(case CheckMMSI m of None \<Rightarrow> [] | Some e \<Rightarrow> [quarantine_finding ReasonMMSIFormat e])
     = (if mmsiPattern m then [] else
         [quarantine_finding ReasonMMSIFormat ''MMSI must be exactly 9 decimal digits''])"
  by (simp add: CheckMMSI_def)

lemma StaticChecks_reasons:
  "map fd_Reason (StaticChecks r) = filter (\<lambda>x. reason_applies x r)
     [ReasonMMSIFormat, ReasonSentinelLatitude, ReasonLatitudeBounds, ReasonSentinelLongitude,
      ReasonLongitudeBounds, ReasonNullIsland, ReasonSpeedSentinel, ReasonImpossibleSpeed,
      ReasonCourseBounds]"
proof -
  have m: "\<not> mmsiPattern []" by (simp add: mmsiPattern_def)
  have sym: "x = n \<or> x = - n \<longleftrightarrow> \<bar>x\<bar> = n" "x > n \<or> x < - n \<longleftrightarrow> \<bar>x\<bar> > n"
    if "0 < n" for x n :: int using that by linarith+
  show ?thesis
    unfolding StaticChecks_def Let_def CheckMMSI_case validate_consts map_append
    by (simp add: sym m admissible_mmsi_def del: append.simps)
qed

lemma StaticChecks_verdicts: "\<forall>f\<in>set (StaticChecks r). fd_Verdict f = VerdictQuarantine"
  unfolding StaticChecks_def Let_def CheckMMSI_case by (simp add: ball_Un)

lemma StaticChecks_reason_iff:
  "x \<in> fd_Reason ` set (StaticChecks r) \<longleftrightarrow> reason_applies x r"
proof -
  have "x \<in> fd_Reason ` set (StaticChecks r) \<longleftrightarrow> x \<in> set (map fd_Reason (StaticChecks r))"
    by simp
  also have "\<dots> \<longleftrightarrow> reason_applies x r"
    unfolding StaticChecks_reasons by (cases x) auto
  finally show ?thesis .
qed

lemma StaticChecks_empty_iff:
  "StaticChecks r = [] \<longleftrightarrow> (\<forall>x. \<not> reason_applies x r)"
  using StaticChecks_reason_iff by (metis empty_iff image_empty list.set(1) image_is_empty set_empty2 ex_in_conv)

section \<open>Facts about the distance\<close>

lemma haversineMetres_same [simp]: "haversineMetres a b a b = 0"
  by (simp add: haversineMetres_def micro_rad_def wrap_int32_def atan2_nonneg_def)

lemma atan2_nonneg_bounds:
  assumes "0 \<le> y" "0 \<le> x"
  shows "0 \<le> atan2_nonneg y x" "atan2_nonneg y x \<le> pi / 2"
proof -
  have "0 \<le> y / x" using assms by simp
  then show "0 \<le> atan2_nonneg y x" by (simp add: atan2_nonneg_def)
  show "atan2_nonneg y x \<le> pi / 2"
    using arctan_ubound [of "y / x"] by (simp add: atan2_nonneg_def)
qed

text \<open>The haversine term lies between 0 and 1 when both latitudes are physical.\<close>

lemma micro_rad_cos:
  assumes "- 90000000 \<le> m" "m \<le> 90000000"
  shows "0 \<le> cos (micro_rad m)"
proof (rule cos_ge_zero)
  have "- 90 \<le> real_of_int m / 1000000" "real_of_int m / 1000000 \<le> 90" using assms by simp_all
  then have "- 90 * pi / 180 \<le> real_of_int m / 1000000 * pi / 180"
    "real_of_int m / 1000000 * pi / 180 \<le> 90 * pi / 180"
    by (intro divide_right_mono mult_right_mono; simp)+
  then show "- (pi / 2) \<le> micro_rad m" "micro_rad m \<le> pi / 2" by (simp_all add: micro_rad_def)
qed

lemma haversine_term_bounds:
  assumes "0 \<le> cos p" "0 \<le> cos q"
  shows "0 \<le> sin ((q - p) / 2) * sin ((q - p) / 2) + cos p * cos q * sin d * sin d"
    and "sin ((q - p) / 2) * sin ((q - p) / 2) + cos p * cos q * sin d * sin d \<le> (1::real)"
proof -
  have c: "0 \<le> cos p * cos q" using assms by simp
  have "0 \<le> cos p * cos q * (sin d * sin d)" by (intro mult_nonneg_nonneg c zero_le_square)
  then show "0 \<le> sin ((q - p) / 2) * sin ((q - p) / 2) + cos p * cos q * sin d * sin d"
    by (simp add: mult.assoc)
  have "sin d * sin d \<le> 1" using sin_cos_squared_add [of d] by (simp add: power2_eq_square) (metis le_add_same_cancel1 zero_le_square)
  then have "cos p * cos q * (sin d * sin d) \<le> cos p * cos q * 1" by (intro mult_left_mono c)
  then have "cos p * cos q * sin d * sin d \<le> cos p * cos q" by (simp add: mult.assoc)
  moreover have "sin ((q - p) / 2) * sin ((q - p) / 2) = (1 - cos (q - p)) / 2"
  proof -
    have "2 * ((q - p) / 2) = q - p" by simp
    with cos_double_sin [of "(q - p) / 2"] have "cos (q - p) = 1 - 2 * (sin ((q - p) / 2))\<^sup>2" by metis
    then show ?thesis by (simp add: power2_eq_square)
  qed
  moreover have "cos p * cos q = (cos (q - p) + cos (p + q)) / 2"
    by (simp add: cos_diff cos_add)
  ultimately show "sin ((q - p) / 2) * sin ((q - p) / 2) + cos p * cos q * sin d * sin d \<le> 1"
    using cos_le_one [of "p + q"] by (simp only: add_divide_distrib diff_divide_distrib)
qed

definition physical_latitude :: "int \<Rightarrow> bool" where
  "physical_latitude m \<longleftrightarrow> - 90000000 \<le> m \<and> m \<le> 90000000"

lemma haversineMetres_bounds:
  assumes "physical_latitude a" "physical_latitude c"
  shows "0 \<le> haversineMetres a b c d" "haversineMetres a b c d \<le> 6371008.8 * pi"
proof -
  let ?t = "sin (micro_rad (wrap_int32 (c - a)) / 2) * sin (micro_rad (wrap_int32 (c - a)) / 2)
     + cos (micro_rad a) * cos (micro_rad c)
       * sin (micro_rad (wrap_int32 (d - b)) / 2) * sin (micro_rad (wrap_int32 (d - b)) / 2)"
  have w: "wrap_int32 (c - a) = c - a"
    using assms by (intro wrap_int32_id) (auto simp: physical_latitude_def)
  have m: "micro_rad (c - a) = micro_rad c - micro_rad a" by (simp add: micro_rad_def diff_divide_distrib left_diff_distrib)
  have "0 \<le> ?t" "?t \<le> 1"
    using haversine_term_bounds [of "micro_rad a" "micro_rad c"] assms
    by (auto simp: w m physical_latitude_def micro_rad_cos)
  then have "0 \<le> sqrt ?t" "0 \<le> sqrt (1 - ?t)" by simp_all
  from atan2_nonneg_bounds [OF this] show "0 \<le> haversineMetres a b c d"
    "haversineMetres a b c d \<le> 6371008.8 * pi"
    by (simp_all add: haversineMetres_def Let_def)
qed

text \<open>
  Half the circumference is at most 25 484 040 m (with pi below 4), so a vessel silent for 864 000 s (10 days) cannot
  have exceeded 60 knots.
\<close>

lemma implied_after_week:
  assumes "physical_latitude (lf_latitudeMicros p)" "physical_latitude (pr_LatitudeMicros r)"
    and "864000 * second \<le> e"
  shows "impliedMilliknots p r e \<le> 60000"
proof -
  let ?h = "haversineMetres (lf_latitudeMicros p) (lf_longitudeMicros p)
     (pr_LatitudeMicros r) (pr_LongitudeMicros r)"
  let ?s = "real_of_int e / real_of_int second"
  have "?h \<le> 6371008.8 * pi" "0 \<le> ?h" using haversineMetres_bounds assms by simp_all
  moreover have "6371008.8 * pi \<le> (25484040::real)" using pi_less_4 by simp
  ultimately have h: "?h \<le> 25484040" "0 \<le> ?h" by linarith+
  have s: "864000 \<le> ?s" using assms(3) by (simp add: second_def)
  have "?h / ?s \<le> 25484040 / 864000" using h s by (intro frac_le) auto
  then have "?h / ?s * 1943.8445 \<le> 25484040 / 864000 * 1943.8445" by (rule mult_right_mono) simp
  also have "25484040 / 864000 * 1943.8445 \<le> (60000::real)" by simp
  finally show ?thesis by (simp only: impliedMilliknots_def)
qed

definition sample_report :: "int \<Rightarrow> PositionReport" where
  "sample_report t =
     \<lparr>pr_MMSI = ''657123456'', pr_SourceClass = ''AIS'', pr_LatitudeMicros = 6400000,
      pr_LongitudeMicros = 3400000, pr_SpeedOverGroundMilliknots = 12000,
      pr_CourseOverGroundMillidegrees = 90000, pr_ObservedAt = t, pr_ReceiverID = ''rx-1''\<rparr>"

section \<open>Properties\<close>

text \<open>
  C29. The stateless checks are complete: a reason is reported exactly when its condition holds of the
  report, each at most once, every finding is a quarantine verdict, and so a report is admitted
  exactly when its identity is well formed and its position, speed and course are physical.
\<close>

theorem StaticChecks_sound_complete:
  "(\<forall>x. x \<in> fd_Reason ` set (StaticChecks r) \<longleftrightarrow> reason_applies x r)
   \<and> distinct (map fd_Reason (StaticChecks r))
   \<and> fd_Verdict ` set (StaticChecks r) \<subseteq> {VerdictQuarantine}
   \<and> (StaticChecks r = [] \<longleftrightarrow>
        admissible_mmsi r \<and> \<bar>pr_LatitudeMicros r\<bar> \<le> 90000000 \<and> \<bar>pr_LongitudeMicros r\<bar> \<le> 180000000
        \<and> (pr_LatitudeMicros r, pr_LongitudeMicros r) \<noteq> (0, 0)
        \<and> pr_SpeedOverGroundMilliknots r \<le> 60000 \<and> pr_CourseOverGroundMillidegrees r \<le> 360000)"
proof (intro conjI allI)
  show "x \<in> fd_Reason ` set (StaticChecks r) \<longleftrightarrow> reason_applies x r" for x
    by (rule StaticChecks_reason_iff)
  show "distinct (map fd_Reason (StaticChecks r))"
    unfolding StaticChecks_reasons by (rule distinct_filter) simp
  show "fd_Verdict ` set (StaticChecks r) \<subseteq> {VerdictQuarantine}"
    using StaticChecks_verdicts by auto
  show "StaticChecks r = [] \<longleftrightarrow>
        admissible_mmsi r \<and> \<bar>pr_LatitudeMicros r\<bar> \<le> 90000000 \<and> \<bar>pr_LongitudeMicros r\<bar> \<le> 180000000
        \<and> (pr_LatitudeMicros r, pr_LongitudeMicros r) \<noteq> (0, 0)
        \<and> pr_SpeedOverGroundMilliknots r \<le> 60000 \<and> pr_CourseOverGroundMillidegrees r \<le> 360000"
    (is "_ \<longleftrightarrow> ?adm")
  proof
    assume "StaticChecks r = []"
    then have n: "\<not> reason_applies x r" for x by (simp add: StaticChecks_empty_iff)
    show ?adm
      using n [of ReasonMMSIFormat] n [of ReasonSentinelLatitude] n [of ReasonLatitudeBounds]
        n [of ReasonSentinelLongitude] n [of ReasonLongitudeBounds] n [of ReasonNullIsland]
        n [of ReasonSpeedSentinel] n [of ReasonImpossibleSpeed] n [of ReasonCourseBounds]
      by auto
  next
    assume ?adm
    then have "\<not> reason_applies x r" for x by (cases x) auto
    then show "StaticChecks r = []" by (simp add: StaticChecks_empty_iff)
  qed
qed

text \<open>
  The bifurcation check flags a report exactly when the tracker holds a strictly older fix of the
  same vessel key and the implied speed exceeds 60 knots. It never flags a vessel that has not
  moved, nor (for physical latitudes) one whose previous fix is more than 10 days old; it records
  the report as the new fix in every case, and leaves every other vessel's fix alone.
\<close>

theorem CheckConsecutive_behaviour:
  assumes "CheckConsecutive t report = (t', f)"
  shows "(f \<noteq> None \<longleftrightarrow> (\<exists>p. t (vesselKey report) = Some p \<and> 0 < time_sub (pr_ObservedAt report) (lf_observedAt p)
            \<and> 60000 < impliedMilliknots p report (time_sub (pr_ObservedAt report) (lf_observedAt p))))
    \<and> t' = t(vesselKey report \<mapsto> fix_of report)
    \<and> (\<forall>p. t (vesselKey report) = Some p \<and> lf_latitudeMicros p = pr_LatitudeMicros report
            \<and> lf_longitudeMicros p = pr_LongitudeMicros report \<longrightarrow> f = None)
    \<and> (\<forall>p. t (vesselKey report) = Some p \<and> physical_latitude (lf_latitudeMicros p)
            \<and> physical_latitude (pr_LatitudeMicros report)
            \<and> 864000 * second \<le> time_sub (pr_ObservedAt report) (lf_observedAt p) \<longrightarrow> f = None)"
proof -
  have t': "t' = t(vesselKey report \<mapsto> fix_of report)"
    using assms by (auto simp: CheckConsecutive_def Let_def split: option.splits if_splits)
  have iff: "f \<noteq> None \<longleftrightarrow> (\<exists>p. t (vesselKey report) = Some p \<and> 0 < time_sub (pr_ObservedAt report) (lf_observedAt p)
            \<and> 60000 < impliedMilliknots p report (time_sub (pr_ObservedAt report) (lf_observedAt p)))"
    using assms
    by (auto simp: CheckConsecutive_def Let_def bifurcationSpeedMilliknots_def
        split: option.splits if_splits)
  have same: "f = None" if "t (vesselKey report) = Some p" "lf_latitudeMicros p = pr_LatitudeMicros report"
    "lf_longitudeMicros p = pr_LongitudeMicros report" for p
    using iff that by (auto simp: impliedMilliknots_def)
  have old: "f = None" if p: "t (vesselKey report) = Some p" "physical_latitude (lf_latitudeMicros p)"
    "physical_latitude (pr_LatitudeMicros report)"
    "864000 * second \<le> time_sub (pr_ObservedAt report) (lf_observedAt p)" for p
    using iff p implied_after_week [OF p(2-4)] by auto
  from t' iff same old show ?thesis by blast
qed

theorem CheckConsecutive_behaviour_witness:
  "CheckConsecutive [vesselKey (sample_report 0) \<mapsto> fix_of (sample_report 0)]
       (sample_report (60 * second))
     = ([vesselKey (sample_report 0) \<mapsto> fix_of (sample_report (60 * second))], None)"
proof (cases "CheckConsecutive [vesselKey (sample_report 0) \<mapsto> fix_of (sample_report 0)]
       (sample_report (60 * second))")
  case (Pair t f)
  have k: "vesselKey (sample_report (60 * second)) = vesselKey (sample_report 0)"
    by (simp add: vesselKey_def sample_report_def)
  show ?thesis
    using CheckConsecutive_behaviour [OF Pair] Pair unfolding k
    by (simp add: fix_of_def sample_report_def)
qed

end
