(* ===== verification/Fence_Engine.thy ===== *)
theory Fence_Engine
  imports Complex_Main Geo_Prelude "HOL-Library.List_Lexorder" "HOL-Library.Char_ord"
begin

text \<open>
  The geofence transition engine (\<open>internal/fence/engine.go\<close>), the zone categories
  (\<open>internal/fence/zone_category.go\<close>) and the loader of seed zones
  (\<open>internal/fence/geojson.go\<close>).

  The geometry is exact: every int32 difference and every int64 product is written with its wrap.
  The engine's two Go maps are maps here; a per-fence record of a vessel is created on first use,
  as in the source. \<open>sort.Slice\<close> is a sort by fence id (a stable one; the ids of ACTIVE versions
  are unique, so stability is not observable).
\<close>

section \<open>Geometry\<close>

record Point =
  LatMicros :: int
  LonMicros :: int

record Fence =
  GeofenceID :: string
  Version :: int
  Vertices :: "Point list"
  DwellThresholdSeconds :: int
  DwellSpeedGateMilliknots :: int

datatype geometry_error =
    TooFewVertices nat
  | VertexLatitude nat int
  | VertexLongitude nat int
  | RingNotClosed

fun vertex_range :: "nat \<Rightarrow> Point list \<Rightarrow> geometry_error option" where
  "vertex_range i [] = None"
| "vertex_range i (v # vs) =
     (if LatMicros v < - 90000000 \<or> LatMicros v > 90000000 then Some (VertexLatitude i (LatMicros v))
      else if LonMicros v < - 180000000 \<or> LonMicros v > 180000000
      then Some (VertexLongitude i (LonMicros v))
      else vertex_range (Suc i) vs)"

definition ValidateGeometry :: "Point list \<Rightarrow> geometry_error option" where
  "ValidateGeometry vertices =
     (if length vertices < 4 then Some (TooFewVertices (length vertices))
      else case vertex_range 0 vertices of
             Some e \<Rightarrow> Some e
           | None \<Rightarrow> if hd vertices \<noteq> last vertices then Some RingNotClosed else None)"

definition min32 :: "int \<Rightarrow> int \<Rightarrow> int" where
  "min32 a b = (if a < b then a else b)"

definition max32 :: "int \<Rightarrow> int \<Rightarrow> int" where
  "max32 a b = (if a > b then a else b)"

definition onSegment :: "Point \<Rightarrow> Point \<Rightarrow> Point \<Rightarrow> bool" where
  "onSegment a b p =
     (let cross = wrap_int64
            (wrap_int64 (wrap_int32 (LonMicros b - LonMicros a) * wrap_int32 (LatMicros p - LatMicros a))
             - wrap_int64 (wrap_int32 (LatMicros b - LatMicros a) * wrap_int32 (LonMicros p - LonMicros a)))
      in if cross \<noteq> 0 then False
         else LonMicros p \<ge> min32 (LonMicros a) (LonMicros b)
            \<and> LonMicros p \<le> max32 (LonMicros a) (LonMicros b)
            \<and> LatMicros p \<ge> min32 (LatMicros a) (LatMicros b)
            \<and> LatMicros p \<le> max32 (LatMicros a) (LatMicros b))"

text \<open>The longitude at which the edge crosses the parallel of the point, rounded by the division.\<close>

definition crossing_lon :: "Point \<Rightarrow> Point \<Rightarrow> Point \<Rightarrow> int" where
  "crossing_lon vi vj p =
     (let num = wrap_int64 (wrap_int32 (LatMicros p - LatMicros vi) * wrap_int32 (LonMicros vj - LonMicros vi));
          den = wrap_int32 (LatMicros vj - LatMicros vi)
      in if den > 0
         then wrap_int64 (LonMicros vi + quot (wrap_int64 (num + quot den 2)) den)
         else wrap_int64 (LonMicros vi + quot (wrap_int64 (num - quot den 2)) den))"

definition straddles :: "Point \<Rightarrow> Point \<Rightarrow> Point \<Rightarrow> bool" where
  "straddles vi vj p \<longleftrightarrow> (LatMicros vi > LatMicros p) \<noteq> (LatMicros vj > LatMicros p)"

fun contains_loop :: "Point \<Rightarrow> Point list \<Rightarrow> Point \<Rightarrow> bool \<Rightarrow> bool" where
  "contains_loop vj [] p inside = inside"
| "contains_loop vj (vi # vs) p inside =
     (if onSegment vj vi p then True
      else contains_loop vi vs p
             (if straddles vi vj p \<and> LonMicros p < crossing_lon vi vj p then \<not> inside else inside))"

definition Contains :: "Point list \<Rightarrow> Point \<Rightarrow> bool" where
  "Contains vertices p =
     (if length vertices < 4 then False else contains_loop (last vertices) vertices p False)"

section \<open>The engine\<close>

datatype EventType = EventEnter | EventExit | EventDwell

record Event =
  ev_GeofenceID :: string
  ev_Version :: int
  ev_Type :: EventType
  ev_OccurredAtUnix :: int

record vesselFenceState =
  st_inside :: bool
  st_enteredAt :: int
  st_dwellEmitted :: bool
  st_slowSince :: int

record Engine =
  en_state :: "string \<rightharpoonup> (string \<rightharpoonup> vesselFenceState)"
  en_last :: "string \<rightharpoonup> int"

definition NewEngine :: Engine where
  "NewEngine = \<lparr>en_state = Map.empty, en_last = Map.empty\<rparr>"

definition zero_state :: vesselFenceState where
  "zero_state = \<lparr>st_inside = False, st_enteredAt = 0, st_dwellEmitted = False, st_slowSince = 0\<rparr>"

definition mk_event :: "Fence \<Rightarrow> EventType \<Rightarrow> int \<Rightarrow> Event" where
  "mk_event f k t =
     \<lparr>ev_GeofenceID = GeofenceID f, ev_Version = Version f, ev_Type = k, ev_OccurredAtUnix = t\<rparr>"

text \<open>The body of the loop over the sorted fences: the switch, then the dwell clock.\<close>

definition switch_membership ::
  "bool \<Rightarrow> int \<Rightarrow> Fence \<Rightarrow> vesselFenceState \<Rightarrow> vesselFenceState \<times> Event list" where
  "switch_membership inside atUnix f st =
     (if inside \<and> \<not> st_inside st
      then (st\<lparr>st_inside := True, st_enteredAt := atUnix, st_dwellEmitted := False, st_slowSince := 0\<rparr>,
            [mk_event f EventEnter atUnix])
      else if \<not> inside \<and> st_inside st
      then (st\<lparr>st_inside := False, st_slowSince := 0\<rparr>, [mk_event f EventExit atUnix])
      else (st, []))"

definition dwell_clock ::
  "bool \<Rightarrow> int \<Rightarrow> int \<Rightarrow> Fence \<Rightarrow> vesselFenceState \<Rightarrow> vesselFenceState \<times> Event list" where
  "dwell_clock inside speedMilliknots atUnix f st =
     (if inside \<and> DwellThresholdSeconds f > 0 \<and> \<not> st_dwellEmitted st \<and> speedMilliknots \<ge> 0
         \<and> speedMilliknots \<le> DwellSpeedGateMilliknots f
      then (let st1 = (if st_slowSince st = 0 then st\<lparr>st_slowSince := atUnix\<rparr> else st)
            in if wrap_int64 (atUnix - st_slowSince st1) \<ge> DwellThresholdSeconds f
               then (st1\<lparr>st_dwellEmitted := True\<rparr>, [mk_event f EventDwell atUnix])
               else (st1, []))
      else if inside \<and> speedMilliknots > DwellSpeedGateMilliknots f \<and> speedMilliknots \<ge> 0
      then (st\<lparr>st_slowSince := 0\<rparr>, [])
      else (st, []))"

definition fence_step ::
  "bool \<Rightarrow> int \<Rightarrow> int \<Rightarrow> Fence \<Rightarrow> vesselFenceState \<Rightarrow> vesselFenceState \<times> Event list" where
  "fence_step inside speedMilliknots atUnix f st =
     (let (st1, e1) = switch_membership inside atUnix f st;
          (st2, e2) = dwell_clock inside speedMilliknots atUnix f st1
      in (st2, e1 @ e2))"

definition state_at :: "(string \<rightharpoonup> vesselFenceState) \<Rightarrow> string \<Rightarrow> vesselFenceState" where
  "state_at perVessel g = (case perVessel g of None \<Rightarrow> zero_state | Some st \<Rightarrow> st)"

fun observe_fences ::
  "Point \<Rightarrow> int \<Rightarrow> int \<Rightarrow> Fence list \<Rightarrow> (string \<rightharpoonup> vesselFenceState)
     \<Rightarrow> (string \<rightharpoonup> vesselFenceState) \<times> Event list" where
  "observe_fences p speed t [] perVessel = (perVessel, [])"
| "observe_fences p speed t (f # fs) perVessel =
     (let (st', es) = fence_step (Contains (Vertices f) p) speed t f (state_at perVessel (GeofenceID f));
          (pv, es') = observe_fences p speed t fs (perVessel(GeofenceID f \<mapsto> st'))
      in (pv, es @ es'))"

definition Observe ::
  "Engine \<Rightarrow> string \<Rightarrow> Point \<Rightarrow> int \<Rightarrow> int \<Rightarrow> Fence list \<Rightarrow> Engine \<times> Event list" where
  "Observe engine vesselKey p speedMilliknots atUnix fences =
     (let key = trim_space vesselKey in
      if key = '''' \<or> atUnix \<le> 0 then (engine, [])
      else if (case en_last engine key of Some lastSeen \<Rightarrow> atUnix < lastSeen | None \<Rightarrow> False)
      then (engine, [])
      else let perVessel = (case en_state engine key of Some m \<Rightarrow> m | None \<Rightarrow> Map.empty);
               (pv, events) = observe_fences p speedMilliknots atUnix (sort_key GeofenceID fences) perVessel
           in (\<lparr>en_state = (en_state engine)(key \<mapsto> pv), en_last = (en_last engine)(key \<mapsto> atUnix)\<rparr>,
               events))"

section \<open>Zone categories\<close>

datatype ZoneCategory =
    CategoryGeneral
  | CategoryMPA
  | CategoryEEZRestricted
  | CategoryTrafficSeparation
  | CategoryFishingClosure
  | CategoryAnchorage

definition category_table :: "(string \<times> ZoneCategory) list" where
  "category_table =
     [(''general'', CategoryGeneral), (''mpa'', CategoryMPA),
      (''eez_restricted'', CategoryEEZRestricted), (''traffic_separation'', CategoryTrafficSeparation),
      (''fishing_closure'', CategoryFishingClosure), (''anchorage'', CategoryAnchorage)]"

definition AdmittedZoneCategory :: "string \<Rightarrow> bool" where
  "AdmittedZoneCategory category \<longleftrightarrow> map_of category_table category \<noteq> None"

definition NormalizeZoneCategory :: "string \<Rightarrow> ZoneCategory option" where
  "NormalizeZoneCategory category =
     (if category = '''' then Some CategoryGeneral
      else if AdmittedZoneCategory category then map_of category_table category
      else None)"

fun protectedCategory :: "ZoneCategory \<Rightarrow> bool" where
  "protectedCategory CategoryMPA = True"
| "protectedCategory CategoryEEZRestricted = True"
| "protectedCategory CategoryTrafficSeparation = True"
| "protectedCategory CategoryFishingClosure = True"
| "protectedCategory CategoryGeneral = False"
| "protectedCategory CategoryAnchorage = False"

definition ZoneAlert :: "ZoneCategory \<Rightarrow> EventType \<Rightarrow> string" where
  "ZoneAlert category eventType =
     (if \<not> protectedCategory category then ''''
      else case eventType of
             EventEnter \<Rightarrow> ''PROTECTED_ZONE_ENTRY''
           | EventExit \<Rightarrow> ''PROTECTED_ZONE_EXIT''
           | EventDwell \<Rightarrow> '''')"

section \<open>Seed zones\<close>

text \<open>
  The document after \<open>json.Unmarshal\<close>: a coordinate is the rational its float64 denotes, and the
  product with \<open>1e6\<close> is exact here. \<open>None\<close> for the rings is a coordinates member that does not
  decode; \<open>None\<close> for the document is a file that cannot be read or parsed.
\<close>

record geoJSONFeature =
  gj_Type :: string
  gj_ID :: string
  gj_GeofenceID :: string
  gj_Name :: string
  gj_Category :: string
  gj_Classification :: string
  gj_GeometryType :: string
  gj_Coordinates :: "(rat \<times> rat) list list option"

record geoJSONDocument =
  gd_Type :: string
  gd_Features :: "geoJSONFeature list"

record SeedZone =
  sz_GeofenceID :: string
  sz_Name :: string
  sz_Category :: ZoneCategory
  sz_Classification :: string
  sz_VerticesMicros :: "(int \<times> int) list"

datatype seed_error =
    Unreadable
  | NotFeatureCollection
  | NoFeatures
  | NotPolygon nat
  | CoordinatesUnreadable nat
  | HolesNotAdmitted nat
  | RingTooShort nat
  | PositionOutOfRange nat nat
  | BadGeometry nat geometry_error
  | IdRequired nat
  | DuplicateId nat
  | NameRequired nat
  | CategoryNotAdmitted nat

text \<open>\<open>math.Round\<close>: to the nearest integer, halves away from zero.\<close>

definition math_round :: "rat \<Rightarrow> int" where
  "math_round x = (if 0 \<le> x then \<lfloor>x + 1/2\<rfloor> else \<lceil>x - 1/2\<rceil>)"

fun micro_positions :: "nat \<Rightarrow> nat \<Rightarrow> (rat \<times> rat) list \<Rightarrow> seed_error + (int \<times> int) list" where
  "micro_positions idx i [] = Inr []"
| "micro_positions idx i ((lon, lat) # cs) =
     (if lat < - 90 \<or> lat > 90 \<or> lon < - 180 \<or> lon > 180 then Inl (PositionOutOfRange idx i)
      else case micro_positions idx (Suc i) cs of
             Inl e \<Rightarrow> Inl e
           | Inr r \<Rightarrow> Inr ((wrap_int32 (math_round (lat * 1000000)), wrap_int32 (math_round (lon * 1000000))) # r))"

definition microRing :: "nat \<Rightarrow> (rat \<times> rat) list \<Rightarrow> seed_error + (int \<times> int) list" where
  "microRing idx coords =
     (if length coords < 3 then Inl (RingTooShort idx)
      else case micro_positions idx 0 coords of
             Inl e \<Rightarrow> Inl e
           | Inr ring \<Rightarrow> if hd ring \<noteq> last ring then Inr (ring @ [hd ring]) else Inr ring)"

definition pointsOf :: "(int \<times> int) list \<Rightarrow> Point list" where
  "pointsOf ring = map (\<lambda>(a, b). \<lparr>LatMicros = a, LonMicros = b\<rparr>) ring"

definition load_feature :: "nat \<Rightarrow> string set \<Rightarrow> geoJSONFeature \<Rightarrow> seed_error + SeedZone" where
  "load_feature idx seen feature =
     (if gj_Type feature \<noteq> ''Feature'' \<or> gj_GeometryType feature \<noteq> ''Polygon''
      then Inl (NotPolygon idx)
      else case gj_Coordinates feature of
        None \<Rightarrow> Inl (CoordinatesUnreadable idx)
      | Some rings \<Rightarrow>
        if length rings \<noteq> 1 then Inl (HolesNotAdmitted idx)
        else case microRing idx (hd rings) of
          Inl e \<Rightarrow> Inl e
        | Inr ring \<Rightarrow>
          (case ValidateGeometry (pointsOf ring) of
             Some e \<Rightarrow> Inl (BadGeometry idx e)
           | None \<Rightarrow>
             let ident = (if gj_GeofenceID feature = '''' then gj_ID feature else gj_GeofenceID feature) in
             if ident = '''' then Inl (IdRequired idx)
             else if ident \<in> seen then Inl (DuplicateId idx)
             else if gj_Name feature = '''' then Inl (NameRequired idx)
             else case NormalizeZoneCategory (gj_Category feature) of
               None \<Rightarrow> Inl (CategoryNotAdmitted idx)
             | Some category \<Rightarrow>
               Inr \<lparr>sz_GeofenceID = ident, sz_Name = gj_Name feature, sz_Category = category,
                    sz_Classification =
                      (if gj_Classification feature = '''' then ''INTERNAL'' else gj_Classification feature),
                    sz_VerticesMicros = ring\<rparr>))"

fun load_features :: "nat \<Rightarrow> string set \<Rightarrow> geoJSONFeature list \<Rightarrow> seed_error + SeedZone list" where
  "load_features idx seen [] = Inr []"
| "load_features idx seen (f # fs) =
     (case load_feature idx seen f of
        Inl e \<Rightarrow> Inl e
      | Inr z \<Rightarrow> (case load_features (Suc idx) (insert (sz_GeofenceID z) seen) fs of
                  Inl e \<Rightarrow> Inl e
                | Inr zs \<Rightarrow> Inr (z # zs)))"

definition LoadSeedZones :: "geoJSONDocument option \<Rightarrow> seed_error + SeedZone list" where
  "LoadSeedZones parsed =
     (case parsed of
        None \<Rightarrow> Inl Unreadable
      | Some doc \<Rightarrow>
          if gd_Type doc \<noteq> ''FeatureCollection'' then Inl NotFeatureCollection
          else if gd_Features doc = [] then Inl NoFeatures
          else load_features 0 {} (gd_Features doc))"

section \<open>The geometry without wrap-around\<close>

definition physical_point :: "Point \<Rightarrow> bool" where
  "physical_point p \<longleftrightarrow> \<bar>LatMicros p\<bar> \<le> 90000000 \<and> \<bar>LonMicros p\<bar> \<le> 180000000"

text \<open>The edges in the order of the loop: each vertex with its predecessor, cyclically.\<close>

fun edges_from :: "Point \<Rightarrow> Point list \<Rightarrow> (Point \<times> Point) list" where
  "edges_from vj [] = []"
| "edges_from vj (vi # vs) = (vj, vi) # edges_from vi vs"

definition ring_edges :: "Point list \<Rightarrow> (Point \<times> Point) list" where
  "ring_edges vs = edges_from (last vs) vs"

definition on_edge :: "Point \<Rightarrow> Point \<times> Point \<Rightarrow> bool" where
  "on_edge p e \<longleftrightarrow> (case e of (a, b) \<Rightarrow>
     (LonMicros b - LonMicros a) * (LatMicros p - LatMicros a)
       = (LatMicros b - LatMicros a) * (LonMicros p - LonMicros a)
     \<and> min (LonMicros a) (LonMicros b) \<le> LonMicros p \<and> LonMicros p \<le> max (LonMicros a) (LonMicros b)
     \<and> min (LatMicros a) (LatMicros b) \<le> LatMicros p \<and> LatMicros p \<le> max (LatMicros a) (LatMicros b))"

text \<open>
  The offset of the point from the exact crossing, times the height of the edge: positive when the
  crossing lies east of the point, for an edge taken upwards.
\<close>

definition east_offset :: "Point \<Rightarrow> Point \<times> Point \<Rightarrow> int" where
  "east_offset p e = (case e of (vj, vi) \<Rightarrow>
     sgn (LatMicros vj - LatMicros vi)
     * ((LatMicros p - LatMicros vi) * (LonMicros vj - LonMicros vi)
        - (LonMicros p - LonMicros vi) * (LatMicros vj - LatMicros vi)))"

definition crosses_east :: "Point \<Rightarrow> Point \<times> Point \<Rightarrow> bool" where
  "crosses_east p e \<longleftrightarrow> straddles (snd e) (fst e) p \<and> 0 < east_offset p e"

text \<open>The crossing is at least one and a half micro-degrees away from the point.\<close>

definition clear_of_edge :: "Point \<Rightarrow> Point \<times> Point \<Rightarrow> bool" where
  "clear_of_edge p e \<longleftrightarrow>
     3 * \<bar>LatMicros (fst e) - LatMicros (snd e)\<bar> \<le> 2 * \<bar>east_offset p e\<bar>"

lemma abs_mult_le: "\<bar>a\<bar> \<le> m \<Longrightarrow> \<bar>b\<bar> \<le> n \<Longrightarrow> \<bar>a * b\<bar> \<le> m * (n::int)"
  unfolding abs_mult by (intro mult_mono) auto

lemma physical_diff:
  assumes "physical_point a" "physical_point b"
  shows "\<bar>LatMicros a - LatMicros b\<bar> \<le> 180000000" "\<bar>LonMicros a - LonMicros b\<bar> \<le> 360000000"
    "wrap_int32 (LatMicros a - LatMicros b) = LatMicros a - LatMicros b"
    "wrap_int32 (LonMicros a - LonMicros b) = LonMicros a - LonMicros b"
  using assms by (auto simp: physical_point_def intro!: wrap_int32_id)

lemma physical_product:
  assumes "physical_point a" "physical_point b" "physical_point c" "physical_point d"
  shows "\<bar>(LatMicros a - LatMicros b) * (LonMicros c - LonMicros d)\<bar> \<le> 64800000000000000"
  using abs_mult_le [OF physical_diff(1) [OF assms(1,2)] physical_diff(2) [OF assms(3,4)]] by simp

lemma wrap_int64_small: "\<bar>x\<bar> \<le> 1000000000000000000 \<Longrightarrow> wrap_int64 x = x"
  by (intro wrap_int64_id) auto

lemma onSegment_exact:
  assumes "physical_point a" "physical_point b" "physical_point p"
  shows "onSegment a b p \<longleftrightarrow> on_edge p (a, b)"
proof -
  let ?x = "(LonMicros b - LonMicros a) * (LatMicros p - LatMicros a)"
  let ?y = "(LatMicros b - LatMicros a) * (LonMicros p - LonMicros a)"
  have x: "\<bar>?x\<bar> \<le> 64800000000000000"
    using physical_product [OF assms(3,1,2,1)] by (simp add: mult.commute)
  have y: "\<bar>?y\<bar> \<le> 64800000000000000" using physical_product [OF assms(2,1,3,1)] .
  have "wrap_int64 ?x = ?x" "wrap_int64 ?y = ?y" "wrap_int64 (?x - ?y) = ?x - ?y"
    using x y by (intro wrap_int64_small; linarith)+
  then show ?thesis
    by (simp add: onSegment_def on_edge_def physical_diff assms Let_def min32_def max32_def min_def max_def)
qed

text \<open>
  Both branches of the rounded division add half the height before truncating towards zero: the
  result is less than one and a half heights away from the exact numerator.
\<close>

lemma rounded_quot:
  assumes "0 < d"
  shows "2 * \<bar>quot (n + d div 2) d * d - n\<bar> < 3 * d"
proof -
  have h: "0 \<le> d div 2" "2 * (d div 2) \<le> d" using assms by simp_all
  have "\<exists>m. 0 \<le> m \<and> m < d \<and>
      (quot (n + d div 2) d * d = n + d div 2 - m \<or> quot (n + d div 2) d * d = n + d div 2 + m \<and> n + d div 2 < 0)"
  proof (cases "0 \<le> n + d div 2")
    case True
    then show ?thesis
      using assms by (intro exI [of _ "(n + d div 2) mod d"]) (simp add: quot_nonneg minus_mod_eq_div_mult)
  next
    case False
    let ?n = "- (n + d div 2)"
    have "quot (n + d div 2) d * d = - (?n div d * d)" using False assms by (simp add: quot_nonpos)
    also have "?n div d * d = ?n - ?n mod d" by (simp add: minus_mod_eq_div_mult)
    finally show ?thesis
      using False assms by (intro exI [of _ "?n mod d"]) simp
  qed
  then obtain m where "0 \<le> m" "m < d"
    "quot (n + d div 2) d * d = n + d div 2 - m \<or> quot (n + d div 2) d * d = n + d div 2 + m" by blast
  with h show ?thesis by (elim disjE) (auto simp: abs_if)
qed

lemma crossing_lon_exact:
  assumes "physical_point vi" "physical_point vj" "physical_point p" "LatMicros vi \<noteq> LatMicros vj"
  defines "den \<equiv> LatMicros vj - LatMicros vi"
  defines "n \<equiv> (LatMicros p - LatMicros vi) * (LonMicros vj - LonMicros vi)"
  shows "crossing_lon vi vj p = LonMicros vi + sgn den * quot (n + \<bar>den\<bar> div 2) \<bar>den\<bar>"
proof -
  have n: "\<bar>n\<bar> \<le> 64800000000000000" unfolding n_def using physical_product [OF assms(3,1,2,1)] .
  have d: "\<bar>den\<bar> \<le> 180000000" unfolding den_def by (rule physical_diff(1) [OF assms(2,1)])
  have d0: "0 < \<bar>den\<bar>" using assms(4) by (simp add: den_def)
  have v: "\<bar>LonMicros vi\<bar> \<le> 180000000" using assms(1) by (simp add: physical_point_def)
  let ?q = "quot (n + \<bar>den\<bar> div 2) \<bar>den\<bar>"
  have "\<bar>?q\<bar> * 1 \<le> \<bar>?q\<bar> * \<bar>den\<bar>" using d0 by (intro mult_left_mono) auto
  then have "\<bar>?q\<bar> \<le> \<bar>?q * \<bar>den\<bar>\<bar>" by (simp add: abs_mult)
  also have "\<bar>?q * \<bar>den\<bar>\<bar> \<le> 64800000400000000"
  proof -
    have "\<bar>?q * \<bar>den\<bar>\<bar> \<le> \<bar>?q * \<bar>den\<bar> - n\<bar> + \<bar>n\<bar>"
      using abs_triangle_ineq [of "?q * \<bar>den\<bar> - n" n] by simp
    with rounded_quot [OF d0, of n] n d show ?thesis by linarith
  qed
  finally have q: "\<bar>?q\<bar> \<le> 64800000400000000" .
  have w: "wrap_int64 (LonMicros vi + ?q) = LonMicros vi + ?q"
    "wrap_int64 (LonMicros vi - ?q) = LonMicros vi - ?q"
    using q v by (intro wrap_int64_small; linarith)+
  have half: "0 \<le> \<bar>den\<bar> div 2" "\<bar>den\<bar> div 2 \<le> 180000000" using d by simp_all
  have wn: "wrap_int64 (n + \<bar>den\<bar> div 2) = n + \<bar>den\<bar> div 2" "wrap_int64 n = n"
    using n half by (intro wrap_int64_small; linarith)+
  have c: "crossing_lon vi vj p =
      (if den > 0 then wrap_int64 (LonMicros vi + quot (wrap_int64 (wrap_int64 n + quot den 2)) den)
       else wrap_int64 (LonMicros vi + quot (wrap_int64 (wrap_int64 n - quot den 2)) den))"
    unfolding crossing_lon_def Let_def n_def den_def
    by (simp only: physical_diff(3,4) [OF assms(2,1)] physical_diff(3,4) [OF assms(3,1)])
  show ?thesis
  proof (cases "0 < den")
    case True
    then show ?thesis unfolding c using w wn by (simp add: quot_nonneg)
  next
    case False
    then have "quot den 2 = - (\<bar>den\<bar> div 2)" by (simp add: quot_nonpos)
    moreover have "quot (n + \<bar>den\<bar> div 2) den = - ?q" "sgn den = -1"
      using False d0 by (simp_all add: quot_def)
    ultimately show ?thesis unfolding c using False w wn by simp
  qed
qed

text \<open>Away from the crossing, the rounded comparison and the exact one agree.\<close>

lemma crossing_lon_east:
  assumes ph: "physical_point vi" "physical_point vj" "physical_point p"
    and st: "straddles vi vj p" and clear: "clear_of_edge p (vj, vi)"
  shows "LonMicros p < crossing_lon vi vj p \<longleftrightarrow> 0 < east_offset p (vj, vi)"
proof -
  define den where "den = LatMicros vj - LatMicros vi"
  define n where "n = (LatMicros p - LatMicros vi) * (LonMicros vj - LonMicros vi)"
  define k where "k = LonMicros p - LonMicros vi"
  define r where "r = sgn den * quot (n + \<bar>den\<bar> div 2) \<bar>den\<bar>"
  have ne: "LatMicros vi \<noteq> LatMicros vj" using st by (auto simp: straddles_def)
  then have d0: "0 < \<bar>den\<bar>" and s: "\<bar>sgn den\<bar> = 1" "den = sgn den * \<bar>den\<bar>"
    by (simp_all add: den_def abs_sgn_eq sgn_mult_abs)
  have x: "crossing_lon vi vj p = LonMicros vi + r"
    using crossing_lon_exact [OF ph ne] by (simp add: r_def den_def n_def)
  have "\<bar>r * \<bar>den\<bar> - sgn den * n\<bar> = \<bar>sgn den * (quot (n + \<bar>den\<bar> div 2) \<bar>den\<bar> * \<bar>den\<bar> - n)\<bar>"
    by (simp add: r_def algebra_simps)
  also have "\<dots> = \<bar>quot (n + \<bar>den\<bar> div 2) \<bar>den\<bar> * \<bar>den\<bar> - n\<bar>" using s(1) by (simp add: abs_mult)
  finally have near: "2 * \<bar>r * \<bar>den\<bar> - sgn den * n\<bar> < 3 * \<bar>den\<bar>"
    using rounded_quot [OF d0, of n] by simp
  have off: "east_offset p (vj, vi) = sgn den * n - k * \<bar>den\<bar>"
  proof -
    have "east_offset p (vj, vi) = sgn den * (n - k * den)"
      by (simp add: east_offset_def den_def n_def k_def)
    also have "\<dots> = sgn den * n - k * (den * sgn den)" by (simp add: algebra_simps)
    finally show ?thesis by (simp only: abs_sgn)
  qed
  have far: "3 * \<bar>den\<bar> \<le> 2 * \<bar>sgn den * n - k * \<bar>den\<bar>\<bar>"
    using clear by (simp add: clear_of_edge_def off den_def)
  have "LonMicros p < crossing_lon vi vj p \<longleftrightarrow> k < r" by (simp add: x k_def) linarith
  also have "\<dots> \<longleftrightarrow> k * \<bar>den\<bar> < r * \<bar>den\<bar>" using d0 by (simp add: mult_less_cancel_right)
  also have "\<dots> \<longleftrightarrow> 0 < sgn den * n - k * \<bar>den\<bar>" using near far by arith
  finally show ?thesis by (simp add: off)
qed

lemma contains_loop_parity:
  "contains_loop vj vs p inside \<longleftrightarrow>
     (\<exists>(a, b)\<in>set (edges_from vj vs). onSegment a b p)
     \<or> (inside \<noteq> odd (length (filter (\<lambda>(a, b). straddles b a p \<and> LonMicros p < crossing_lon b a p)
                             (edges_from vj vs))))"
  by (induction vs arbitrary: vj inside) auto

lemma edges_from_physical:
  "physical_point vj \<Longrightarrow> \<forall>v\<in>set vs. physical_point v \<Longrightarrow> (a, b) \<in> set (edges_from vj vs)
     \<Longrightarrow> physical_point a \<and> physical_point b"
  by (induction vs arbitrary: vj) auto

lemma vertex_range_None: "vertex_range i vs = None \<longleftrightarrow> (\<forall>v\<in>set vs. physical_point v)"
  by (induction vs arbitrary: i) (auto simp: physical_point_def abs_le_iff)

lemma ValidateGeometry_None:
  "ValidateGeometry vs = None \<longleftrightarrow>
     4 \<le> length vs \<and> (\<forall>v\<in>set vs. physical_point v) \<and> hd vs = last vs"
  using vertex_range_None [of 0 vs] by (auto simp: ValidateGeometry_def split: option.splits)

section \<open>Properties of the geometry\<close>

text \<open>
  C28. On an accepted ring and a physical position no step of \<open>Contains\<close> overflows, a boundary point
  is inside, and off the boundary, when every edge that straddles the point's parallel crosses it at
  least one and a half micro-degrees (about 17 cm) away, the answer is the exact even-odd rule: an
  odd number of edges crosses the parallel strictly east of the point. Nearer than that the
  truncated division may move the crossing past the point.
\<close>

theorem Contains_even_odd:
  assumes "ValidateGeometry vs = None" and "physical_point p"
  shows "((\<exists>e\<in>set (ring_edges vs). on_edge p e) \<longrightarrow> Contains vs p)
    \<and> ((\<forall>e\<in>set (ring_edges vs). \<not> on_edge p e
          \<and> (straddles (snd e) (fst e) p \<longrightarrow> clear_of_edge p e)) \<longrightarrow>
        Contains vs p = odd (length (filter (crosses_east p) (ring_edges vs))))"
proof -
  have vs: "4 \<le> length vs" "\<forall>v\<in>set vs. physical_point v"
    using assms(1) by (simp_all add: ValidateGeometry_None)
  then have last: "physical_point (last vs)" by (intro bspec [OF vs(2)] last_in_set) auto
  have ph: "physical_point a \<and> physical_point b" if "(a, b) \<in> set (ring_edges vs)" for a b
    using edges_from_physical [OF last vs(2)] that by (simp add: ring_edges_def)
  have seg: "onSegment a b p \<longleftrightarrow> on_edge p (a, b)" if "(a, b) \<in> set (ring_edges vs)" for a b
    using ph [OF that] assms(2) onSegment_exact by blast
  have c: "Contains vs p \<longleftrightarrow> (\<exists>e\<in>set (ring_edges vs). on_edge p e)
     \<or> odd (length (filter (\<lambda>(a, b). straddles b a p \<and> LonMicros p < crossing_lon b a p) (ring_edges vs)))"
    using vs(1) seg by (fastforce simp: Contains_def contains_loop_parity ring_edges_def)
  have "filter (\<lambda>(a, b). straddles b a p \<and> LonMicros p < crossing_lon b a p) (ring_edges vs)
      = filter (crosses_east p) (ring_edges vs)"
    if "\<forall>e\<in>set (ring_edges vs). straddles (snd e) (fst e) p \<longrightarrow> clear_of_edge p e"
  proof (rule filter_cong [OF refl], clarify)
    fix a b assume e: "(a, b) \<in> set (ring_edges vs)"
    show "(straddles b a p \<and> LonMicros p < crossing_lon b a p) = crosses_east p (a, b)"
      using that e ph [OF e] assms(2) crossing_lon_east [of b a p] by (force simp: crosses_east_def)
  qed
  then show ?thesis using c by auto
qed

definition sample_ring :: "Point list" where
  "sample_ring = pointsOf [(0, 0), (0, 100), (100, 100), (100, 0), (0, 0)]"

theorem Contains_even_odd_witness:
  "Contains sample_ring \<lparr>LatMicros = 50, LonMicros = 0\<rparr>
   \<and> Contains sample_ring \<lparr>LatMicros = 50, LonMicros = 50\<rparr>
   \<and> \<not> Contains sample_ring \<lparr>LatMicros = 50, LonMicros = 150\<rparr>"
proof -
  have v: "ValidateGeometry sample_ring = None"
    by (simp add: ValidateGeometry_def sample_ring_def pointsOf_def)
  have e: "ring_edges sample_ring =
     (let P = \<lambda>a b. \<lparr>LatMicros = a, LonMicros = b\<rparr>
      in [(P 0 0, P 0 0), (P 0 0, P 0 100), (P 0 100, P 100 100), (P 100 100, P 100 0), (P 100 0, P 0 0)])"
    by (simp add: ring_edges_def sample_ring_def pointsOf_def Let_def)
  have p: "physical_point \<lparr>LatMicros = 50, LonMicros = x\<rparr>" if "\<bar>x\<bar> \<le> 150" for x
    using that by (simp add: physical_point_def)
  note defs = e Let_def on_edge_def straddles_def clear_of_edge_def east_offset_def crosses_east_def
  show ?thesis
    using Contains_even_odd [OF v p [of 0]] Contains_even_odd [OF v p [of 50]]
      Contains_even_odd [OF v p [of 150]]
    by (simp add: defs)
qed

section \<open>The life of one vessel at one fence\<close>

text \<open>
  What the engine promises for one vessel and one fence, as an automaton over the emitted kinds: a
  stay opens with ENTER, has at most one DWELL and closes with EXIT.
\<close>

datatype stay = Outside | Inside | Dwelled

fun stay_next :: "stay \<Rightarrow> EventType \<Rightarrow> stay option" where
  "stay_next Outside EventEnter = Some Inside"
| "stay_next Inside EventDwell = Some Dwelled"
| "stay_next Inside EventExit = Some Outside"
| "stay_next Dwelled EventExit = Some Outside"
| "stay_next _ _ = None"

fun stay_run :: "stay \<Rightarrow> EventType list \<Rightarrow> stay option" where
  "stay_run s [] = Some s"
| "stay_run s (k # ks) = (case stay_next s k of None \<Rightarrow> None | Some s' \<Rightarrow> stay_run s' ks)"

text \<open>The abstraction of the record the engine keeps.\<close>

definition stay_of :: "vesselFenceState \<Rightarrow> stay" where
  "stay_of st = (if \<not> st_inside st then Outside else if st_dwellEmitted st then Dwelled else Inside)"

lemma stay_run_append:
  "stay_run s (xs @ ys) = (case stay_run s xs of None \<Rightarrow> None | Some s' \<Rightarrow> stay_run s' ys)"
  by (induction xs arbitrary: s) (auto split: option.splits)

lemma mk_event_sel [simp]:
  "ev_GeofenceID (mk_event f k t) = GeofenceID f" "ev_Type (mk_event f k t) = k"
  "ev_Version (mk_event f k t) = Version f" "ev_OccurredAtUnix (mk_event f k t) = t"
  by (simp_all add: mk_event_def)

text \<open>One step of the engine is a run of the automaton on the kinds it emits.\<close>

lemma fence_step_stay:
  "fence_step inside speed t f st = (st', es) \<Longrightarrow>
     stay_run (stay_of st) (map ev_Type es) = Some (stay_of st')"
  by (auto simp: fence_step_def switch_membership_def dwell_clock_def stay_of_def Let_def
      split: if_splits)

lemma fence_step_inside:
  "fence_step inside speed t f st = (st', es) \<Longrightarrow> st_inside st' = inside"
  by (auto simp: fence_step_def switch_membership_def dwell_clock_def Let_def split: if_splits)

lemma fence_step_events:
  "fence_step inside speed t f st = (st', es) \<Longrightarrow> e \<in> set es \<Longrightarrow>
     ev_GeofenceID e = GeofenceID f \<and> ev_Version e = Version f \<and> ev_OccurredAtUnix e = t"
  by (auto simp: fence_step_def switch_membership_def dwell_clock_def Let_def split: if_splits)

definition fence_events :: "string \<Rightarrow> Event list \<Rightarrow> EventType list" where
  "fence_events g es = map ev_Type (filter (\<lambda>e. ev_GeofenceID e = g) es)"

lemma fence_events_append [simp]: "fence_events g (xs @ ys) = fence_events g xs @ fence_events g ys"
  by (simp add: fence_events_def)

lemma fence_step_fence_events:
  assumes "fence_step inside speed t f st = (st', es)"
  shows "fence_events g es = (if g = GeofenceID f then map ev_Type es else [])"
proof -
  have "\<forall>e\<in>set es. ev_GeofenceID e = GeofenceID f" using fence_step_events [OF assms] by blast
  then show ?thesis by (auto simp: fence_events_def filter_id_conv filter_empty_conv)
qed

lemma observe_fences_stay:
  "observe_fences p speed t fs pv = (pv', es) \<Longrightarrow>
     stay_run (stay_of (state_at pv g)) (fence_events g es) = Some (stay_of (state_at pv' g))"
proof (induction fs arbitrary: pv es)
  case Nil
  then show ?case by (simp add: fence_events_def)
next
  case (Cons f fs)
  obtain st' e1 where s: "fence_step (Contains (Vertices f) p) speed t f (state_at pv (GeofenceID f)) = (st', e1)"
    by fastforce
  obtain e2 where r: "observe_fences p speed t fs (pv(GeofenceID f \<mapsto> st')) = (pv', e2)" and es: "es = e1 @ e2"
    using Cons.prems s by (auto split: prod.splits)
  have at: "state_at (pv(GeofenceID f \<mapsto> st')) g = (if g = GeofenceID f then st' else state_at pv g)"
    by (simp add: state_at_def)
  show ?case
    using Cons.IH [OF r, unfolded at] fence_step_stay [OF s]
    by (simp add: es fence_step_fence_events [OF s] stay_run_append split: if_splits)
qed

section \<open>Runs of the engine\<close>

record Observation =
  ob_vessel :: string
  ob_point :: Point
  ob_speed :: int
  ob_at :: int
  ob_fences :: "Fence list"

definition observe_step :: "Engine \<Rightarrow> Observation \<Rightarrow> Engine \<times> Event list" where
  "observe_step en ob = Observe en (ob_vessel ob) (ob_point ob) (ob_speed ob) (ob_at ob) (ob_fences ob)"

text \<open>The events of a run that concern one vessel, in the order of emission.\<close>

fun vessel_events :: "string \<Rightarrow> Engine \<Rightarrow> Observation list \<Rightarrow> Event list" where
  "vessel_events v en [] = []"
| "vessel_events v en (ob # obs) =
     (case observe_step en ob of (en', es) \<Rightarrow>
        (if trim_space (ob_vessel ob) = v then es else []) @ vessel_events v en' obs)"

definition vessel_state :: "Engine \<Rightarrow> string \<Rightarrow> string \<Rightarrow> vesselFenceState" where
  "vessel_state en v g = state_at (case en_state en v of None \<Rightarrow> Map.empty | Some m \<Rightarrow> m) g"

lemma Observe_cases:
  assumes "Observe en v p speed t fs = (en', es)"
  obtains (ignored) "en' = en" "es = []"
  | (taken) pv where "trim_space v \<noteq> ''''" "0 < t"
      "\<forall>l. en_last en (trim_space v) = Some l \<longrightarrow> l \<le> t"
      "observe_fences p speed t (sort_key GeofenceID fs)
         (case en_state en (trim_space v) of Some m \<Rightarrow> m | None \<Rightarrow> Map.empty) = (pv, es)"
      "en' = \<lparr>en_state = (en_state en)(trim_space v \<mapsto> pv), en_last = (en_last en)(trim_space v \<mapsto> t)\<rparr>"
proof (cases "(en', es) = (en, [])")
  case False
  let ?pv = "(case en_state en (trim_space v) of Some m \<Rightarrow> m | None \<Rightarrow> Map.empty)"
  obtain pv es0 where o: "observe_fences p speed t (sort_key GeofenceID fs) ?pv = (pv, es0)" by fastforce
  from False assms have "trim_space v \<noteq> ''''" "0 < t"
    "\<forall>l. en_last en (trim_space v) = Some l \<longrightarrow> l \<le> t"
    "en' = \<lparr>en_state = (en_state en)(trim_space v \<mapsto> pv), en_last = (en_last en)(trim_space v \<mapsto> t)\<rparr>"
    "es = es0"
    by (auto simp: Observe_def Let_def o split: if_splits option.splits)
  with o taken show ?thesis by blast
qed (use ignored in auto)

lemma Observe_stay:
  assumes "Observe en v p speed t fs = (en', es)"
  shows "stay_run (stay_of (vessel_state en w g)) (if trim_space v = w then fence_events g es else [])
     = Some (stay_of (vessel_state en' w g))"
  using assms
proof (cases rule: Observe_cases)
  case ignored
  then show ?thesis by (simp add: fence_events_def)
next
  case (taken pv)
  have m: "vessel_state en' (trim_space v) g = state_at pv g"
    "w \<noteq> trim_space v \<Longrightarrow> vessel_state en' w g = vessel_state en w g"
    using taken(5) by (simp_all add: vessel_state_def)
  show ?thesis
    using observe_fences_stay [OF taken(4), of g] m by (auto simp: vessel_state_def option.case_eq_if)
qed

lemma vessel_events_stay:
  "\<exists>s'. stay_run (stay_of (vessel_state en v g)) (fence_events g (vessel_events v en obs)) = Some s'"
proof (induction obs arbitrary: en)
  case Nil
  show ?case by (simp add: fence_events_def)
next
  case (Cons ob obs)
  obtain en' es where s: "observe_step en ob = (en', es)" by fastforce
  show ?case
    using Observe_stay [OF s [unfolded observe_step_def], of v g] Cons.IH [of en'] s
    by (auto simp: stay_run_append fence_events_def)
qed

section \<open>The invariant of the engine\<close>

definition state_ok :: "int \<Rightarrow> vesselFenceState \<Rightarrow> bool" where
  "state_ok l st \<longleftrightarrow> (\<not> st_inside st \<longrightarrow> st_slowSince st = 0)
     \<and> 0 \<le> st_slowSince st \<and> st_slowSince st \<le> l \<and> 0 \<le> st_enteredAt st \<and> st_enteredAt st \<le> l"

definition engine_ok :: "Engine \<Rightarrow> bool" where
  "engine_ok en \<longleftrightarrow> (\<forall>v m. en_state en v = Some m \<longrightarrow>
     (\<exists>l. en_last en v = Some l \<and> 0 < l \<and> (\<forall>g st. m g = Some st \<longrightarrow> state_ok l st)))"

lemma fence_step_ok:
  "fence_step inside speed t f st = (st', es) \<Longrightarrow> state_ok l st \<Longrightarrow> l \<le> t \<Longrightarrow> 0 < t \<Longrightarrow> state_ok t st'"
  by (auto simp: fence_step_def switch_membership_def dwell_clock_def state_ok_def Let_def
      split: if_splits)

lemma zero_state_ok: "0 \<le> l \<Longrightarrow> state_ok l zero_state"
  by (simp add: state_ok_def zero_state_def)

lemma state_ok_mono: "state_ok l st \<Longrightarrow> l \<le> t \<Longrightarrow> state_ok t st"
  by (auto simp: state_ok_def)

lemma observe_fences_ok:
  "observe_fences p speed t fs pv = (pv', es) \<Longrightarrow> 0 < t \<Longrightarrow>
     (\<forall>g st. pv g = Some st \<longrightarrow> state_ok t st) \<Longrightarrow> \<forall>g st. pv' g = Some st \<longrightarrow> state_ok t st"
proof (induction fs arbitrary: pv es)
  case (Cons f fs)
  obtain st' e1 where s: "fence_step (Contains (Vertices f) p) speed t f (state_at pv (GeofenceID f)) = (st', e1)"
    by fastforce
  obtain e2 where r: "observe_fences p speed t fs (pv(GeofenceID f \<mapsto> st')) = (pv', e2)"
    using Cons.prems s by (auto split: prod.splits)
  have "state_ok t (state_at pv (GeofenceID f))"
    using Cons.prems(2,3) by (auto simp: state_at_def zero_state_ok split: option.split)
  then have "state_ok t st'" using fence_step_ok [OF s] Cons.prems(2) by blast
  then have "\<forall>g st. (pv(GeofenceID f \<mapsto> st')) g = Some st \<longrightarrow> state_ok t st"
    using Cons.prems(3) by simp
  from Cons.IH [OF r Cons.prems(2) this] show ?case .
qed auto

lemma Observe_ok: "engine_ok en \<Longrightarrow> engine_ok (fst (Observe en v p speed t fs))"
proof -
  assume ok: "engine_ok en"
  obtain en' es where o: "Observe en v p speed t fs = (en', es)" by fastforce
  then show ?thesis
  proof (cases rule: Observe_cases)
    case ignored
    with ok o show ?thesis by simp
  next
    case (taken pv)
    have "\<forall>g st. pv g = Some st \<longrightarrow> state_ok t st"
    proof (rule observe_fences_ok [OF taken(4) taken(2)], intro allI impI)
      fix g st assume "(case en_state en (trim_space v) of Some m \<Rightarrow> m | None \<Rightarrow> Map.empty) g = Some st"
      then obtain m where "en_state en (trim_space v) = Some m" "m g = Some st"
        by (auto split: option.splits)
      with ok taken(3) show "state_ok t st" unfolding engine_ok_def by (blast intro: state_ok_mono)
    qed
    with ok taken o show ?thesis by (auto simp: engine_ok_def)
  qed
qed

interpretation engine_run: kept_invariant "\<lambda>en ob. fst (observe_step en ob)" engine_ok
  by unfold_locales (simp add: observe_step_def Observe_ok)

lemma NewEngine_ok: "engine_ok NewEngine"
  by (simp add: engine_ok_def NewEngine_def)

section \<open>Dwell\<close>

text \<open>
  One fence version observed over a sequence of samples (membership, speed, time) of one vessel: the
  engine's step for that fence, with the state threaded through.
\<close>

fun fence_run ::
  "Fence \<Rightarrow> vesselFenceState \<Rightarrow> (bool \<times> int \<times> int) list \<Rightarrow> vesselFenceState \<times> Event list" where
  "fence_run f st [] = (st, [])"
| "fence_run f st ((inside, speed, t) # xs) =
     (let (st', es) = fence_step inside speed t f st; (st'', es') = fence_run f st' xs
      in (st'', es @ es'))"

text \<open>A stretch that counts: inside throughout, starting at a known speed within the gate, never known above it.\<close>

definition slow_stretch :: "Fence \<Rightarrow> (bool \<times> int \<times> int) list \<Rightarrow> bool" where
  "slow_stretch f ys \<longleftrightarrow> ys \<noteq> [] \<and> (\<forall>(inside, speed, t)\<in>set ys. inside \<and> speed \<le> max (-1) (DwellSpeedGateMilliknots f))
     \<and> 0 \<le> fst (snd (hd ys))"

definition stretch_since :: "Fence \<Rightarrow> (bool \<times> int \<times> int) list \<Rightarrow> int \<Rightarrow> bool" where
  "stretch_since f seen since \<longleftrightarrow>
     (\<exists>xs ys. seen = xs @ ys \<and> slow_stretch f ys \<and> snd (snd (hd ys)) = since)"

definition clock_justified :: "Fence \<Rightarrow> (bool \<times> int \<times> int) list \<Rightarrow> vesselFenceState \<Rightarrow> bool" where
  "clock_justified f seen st \<longleftrightarrow>
     (st_slowSince st \<noteq> 0 \<longrightarrow> st_inside st \<and> (st_dwellEmitted st \<or> stretch_since f seen (st_slowSince st)))"

lemma fence_run_append:
  "fence_run f st (xs @ ys) =
     (case fence_run f st xs of (st', es) \<Rightarrow> case fence_run f st' ys of (st'', es') \<Rightarrow> (st'', es @ es'))"
  by (induction f st xs rule: fence_run.induct) (auto simp: Let_def split: prod.splits)

lemma stretch_start:
  "0 \<le> speed \<Longrightarrow> speed \<le> DwellSpeedGateMilliknots f \<Longrightarrow> stretch_since f (seen @ [(True, speed, t)]) t"
  unfolding stretch_since_def slow_stretch_def
  by (intro exI [of _ seen] exI [of _ "[(True, speed, t)]"]) auto

lemma stretch_extend:
  assumes "stretch_since f seen since" "\<not> (DwellSpeedGateMilliknots f < speed \<and> 0 \<le> speed)"
  shows "stretch_since f (seen @ [(True, speed, t)]) since"
proof -
  obtain xs ys where "seen = xs @ ys" "slow_stretch f ys" "snd (snd (hd ys)) = since"
    using assms(1) by (auto simp: stretch_since_def)
  then show ?thesis unfolding stretch_since_def slow_stretch_def using assms(2)
    by (intro exI [of _ xs] exI [of _ "ys @ [(True, speed, t)]"]) auto
qed

lemma fence_step_clock:
  assumes "clock_justified f seen st" "fence_step inside speed t f st = (st', es)" "t \<noteq> 0"
  shows "clock_justified f (seen @ [(inside, speed, t)]) st'"
    and "e \<in> set es \<Longrightarrow> ev_Type e = EventDwell \<Longrightarrow>
      inside \<and> 0 \<le> speed \<and> speed \<le> DwellSpeedGateMilliknots f \<and> 0 < DwellThresholdSeconds f
      \<and> (\<exists>since. stretch_since f (seen @ [(inside, speed, t)]) since
              \<and> DwellThresholdSeconds f \<le> wrap_int64 (t - since))"
  using assms
  by (auto simp: fence_step_def switch_membership_def dwell_clock_def clock_justified_def Let_def
      intro: stretch_start split: if_splits)
     (auto intro!: stretch_extend exI [of _ "st_slowSince st"])

lemma fence_run_dwell:
  assumes "clock_justified f seen st" "\<forall>(i, s, t)\<in>set samples. t \<noteq> 0"
    and "e \<in> set (snd (fence_run f st samples))" "ev_Type e = EventDwell"
  shows "\<exists>ps inside speed qs since. samples = ps @ (inside, speed, ev_OccurredAtUnix e) # qs
     \<and> stretch_since f (seen @ ps @ [(inside, speed, ev_OccurredAtUnix e)]) since
     \<and> DwellThresholdSeconds f \<le> wrap_int64 (ev_OccurredAtUnix e - since)"
  using assms
proof (induction samples arbitrary: seen st)
  case (Cons x xs)
  obtain i s t where x: "x = (i, s, t)" by (cases x)
  obtain st' es where st: "fence_step i s t f st = (st', es)" by fastforce
  have t: "t \<noteq> 0" using Cons.prems(2) x by auto
  consider "e \<in> set es" | "e \<in> set (snd (fence_run f st' xs))"
    using Cons.prems(3) st by (auto simp: x Let_def split: prod.splits)
  then show ?case
  proof cases
    case 1
    have "ev_OccurredAtUnix e = t" using fence_step_events [OF st 1] by simp
    with fence_step_clock(2) [OF Cons.prems(1) st t 1 Cons.prems(4)] show ?thesis
      by (intro exI [of _ "[]"]) (auto simp: x)
  next
    case 2
    obtain ps inside speed qs since where ih: "xs = ps @ (inside, speed, ev_OccurredAtUnix e) # qs"
      "stretch_since f ((seen @ [(i, s, t)]) @ ps @ [(inside, speed, ev_OccurredAtUnix e)]) since"
      "DwellThresholdSeconds f \<le> wrap_int64 (ev_OccurredAtUnix e - since)"
      using Cons.IH [OF fence_step_clock(1) [OF Cons.prems(1) st t] _ 2 Cons.prems(4)] Cons.prems(2)
      by auto
    then show ?thesis
      by (intro exI [of _ "x # ps"] exI [of _ inside] exI [of _ speed] exI [of _ qs] exI [of _ since])
        (simp add: x)
  qed
qed simp

section \<open>Fences do not interfere\<close>

text \<open>The observations of one vessel that the engine takes: a usable key and time, not out of order.\<close>

fun accepted :: "string \<Rightarrow> int \<Rightarrow> Observation list \<Rightarrow> Observation list" where
  "accepted v l [] = []"
| "accepted v l (ob # obs) =
     (if trim_space (ob_vessel ob) = v \<and> v \<noteq> '''' \<and> 0 < ob_at ob \<and> l \<le> ob_at ob
      then ob # accepted v (ob_at ob) obs else accepted v l obs)"

definition sample :: "Fence \<Rightarrow> Observation \<Rightarrow> bool \<times> int \<times> int" where
  "sample f ob = (Contains (Vertices f) (ob_point ob), ob_speed ob, ob_at ob)"

lemma observe_fences_other:
  "observe_fences p speed t fs pv = (pv', es) \<Longrightarrow> g \<notin> GeofenceID ` set fs \<Longrightarrow>
     pv' g = pv g \<and> filter (\<lambda>e. ev_GeofenceID e = g) es = []"
proof (induction fs arbitrary: pv es)
  case (Cons f fs)
  obtain st' e1 where s: "fence_step (Contains (Vertices f) p) speed t f (state_at pv (GeofenceID f)) = (st', e1)"
    by fastforce
  obtain e2 where r: "observe_fences p speed t fs (pv(GeofenceID f \<mapsto> st')) = (pv', e2)" and es: "es = e1 @ e2"
    using Cons.prems s by (auto split: prod.splits)
  have "\<forall>e\<in>set e1. ev_GeofenceID e \<noteq> g" using fence_step_events [OF s] Cons.prems(2) by auto
  with Cons.IH [OF r] Cons.prems(2) show ?case by (simp add: es filter_empty_conv)
qed simp

lemma observe_fences_one:
  "observe_fences p speed t fs pv = (pv', es) \<Longrightarrow> distinct (map GeofenceID fs) \<Longrightarrow> f \<in> set fs \<Longrightarrow>
     fence_step (Contains (Vertices f) p) speed t f (state_at pv (GeofenceID f))
       = (state_at pv' (GeofenceID f), filter (\<lambda>e. ev_GeofenceID e = GeofenceID f) es)"
proof (induction fs arbitrary: pv es)
  case (Cons h fs)
  obtain st' e1 where s: "fence_step (Contains (Vertices h) p) speed t h (state_at pv (GeofenceID h)) = (st', e1)"
    by fastforce
  obtain e2 where r: "observe_fences p speed t fs (pv(GeofenceID h \<mapsto> st')) = (pv', e2)" and es: "es = e1 @ e2"
    using Cons.prems s by (auto split: prod.splits)
  have id: "\<forall>e\<in>set e1. ev_GeofenceID e = GeofenceID h" using fence_step_events [OF s] by blast
  show ?case
  proof (cases "f = h")
    case True
    from Cons.prems(2) have "GeofenceID h \<notin> GeofenceID ` set fs" by simp
    from observe_fences_other [OF r this] have "pv' (GeofenceID h) = Some st'"
      "filter (\<lambda>e. ev_GeofenceID e = GeofenceID h) e2 = []" by simp_all
    with True s id show ?thesis by (simp add: es state_at_def)
  next
    case False
    then have "f \<in> set fs" using Cons.prems(3) by simp
    moreover have "GeofenceID h \<notin> GeofenceID ` set fs" using Cons.prems(2) by simp
    ultimately have f: "f \<in> set fs" "GeofenceID f \<noteq> GeofenceID h" by (auto, metis image_eqI)
    have "filter (\<lambda>e. ev_GeofenceID e = GeofenceID f) e1 = []" using id f(2) by (simp add: filter_empty_conv)
    with Cons.IH [OF r _ f(1)] Cons.prems(2) f(2) show ?thesis by (simp add: es state_at_def)
  qed
qed simp

text \<open>When an observation is taken, and what it does to the record of one fence.\<close>

definition takes :: "Engine \<Rightarrow> Observation \<Rightarrow> bool" where
  "takes en ob \<longleftrightarrow> (let key = trim_space (ob_vessel ob) in
     key \<noteq> '''' \<and> 0 < ob_at ob \<and> (case en_last en key of None \<Rightarrow> 0 | Some l \<Rightarrow> l) \<le> ob_at ob)"

lemma observe_step_if:
  "observe_step en ob =
     (let key = trim_space (ob_vessel ob);
          (pv, es) = observe_fences (ob_point ob) (ob_speed ob) (ob_at ob) (sort_key GeofenceID (ob_fences ob))
             (case en_state en key of Some m \<Rightarrow> m | None \<Rightarrow> Map.empty)
      in if takes en ob
         then (\<lparr>en_state = (en_state en)(key \<mapsto> pv), en_last = (en_last en)(key \<mapsto> ob_at ob)\<rparr>, es)
         else (en, []))"
  by (cases "en_last en (trim_space (ob_vessel ob))")
     (simp_all add: takes_def observe_step_def Observe_def Let_def not_le case_prod_beta)

lemma observe_step_ignored: "\<not> takes en ob \<Longrightarrow> observe_step en ob = (en, [])"
  by (simp add: observe_step_if Let_def case_prod_beta)

lemma observe_step_taken:
  assumes "takes en ob" "observe_step en ob = (en', es)" "distinct (map GeofenceID (ob_fences ob))"
    and "f \<in> set (ob_fences ob)"
  shows "en_last en' = (en_last en)(trim_space (ob_vessel ob) \<mapsto> ob_at ob)"
    "v \<noteq> trim_space (ob_vessel ob) \<Longrightarrow> vessel_state en' v g = vessel_state en v g"
    "fence_step (Contains (Vertices f) (ob_point ob)) (ob_speed ob) (ob_at ob) f
        (vessel_state en (trim_space (ob_vessel ob)) (GeofenceID f))
      = (vessel_state en' (trim_space (ob_vessel ob)) (GeofenceID f),
         filter (\<lambda>e. ev_GeofenceID e = GeofenceID f) es)"
proof -
  let ?key = "trim_space (ob_vessel ob)"
  obtain pv where o: "observe_fences (ob_point ob) (ob_speed ob) (ob_at ob) (sort_key GeofenceID (ob_fences ob))
         (case en_state en ?key of Some m \<Rightarrow> m | None \<Rightarrow> Map.empty) = (pv, es)"
    and en': "en' = \<lparr>en_state = (en_state en)(?key \<mapsto> pv), en_last = (en_last en)(?key \<mapsto> ob_at ob)\<rparr>"
    using assms(1,2) by (auto simp: observe_step_if Let_def case_prod_beta intro: prod.collapse [symmetric])
  show "en_last en' = (en_last en)(?key \<mapsto> ob_at ob)" using en' by simp
  show "v \<noteq> ?key \<Longrightarrow> vessel_state en' v g = vessel_state en v g" using en' by (simp add: vessel_state_def)
  have "distinct (map GeofenceID (sort_key GeofenceID (ob_fences ob)))"
    using assms(3) by (metis distinct_map distinct_sort set_sort)
  from observe_fences_one [OF o this, of f] assms(4) en' show
    "fence_step (Contains (Vertices f) (ob_point ob)) (ob_speed ob) (ob_at ob) f
        (vessel_state en ?key (GeofenceID f))
      = (vessel_state en' ?key (GeofenceID f), filter (\<lambda>e. ev_GeofenceID e = GeofenceID f) es)"
    by (simp add: vessel_state_def option.case_eq_if)
qed

definition last_of :: "Engine \<Rightarrow> string \<Rightarrow> int" where
  "last_of en v = (case en_last en v of None \<Rightarrow> 0 | Some l \<Rightarrow> l)"

lemma vessel_events_project:
  assumes "distinct (map GeofenceID fs)" "f \<in> set fs" "\<forall>ob\<in>set obs. ob_fences ob = fs"
  shows "filter (\<lambda>e. ev_GeofenceID e = GeofenceID f) (vessel_events v en obs)
    = snd (fence_run f (vessel_state en v (GeofenceID f)) (map (sample f) (accepted v (last_of en v) obs)))"
  using assms(3)
proof (induction obs arbitrary: en)
  case (Cons ob obs)
  obtain en' es where s: "observe_step en ob = (en', es)" by fastforce
  have fs: "distinct (map GeofenceID (ob_fences ob))" "f \<in> set (ob_fences ob)"
    using Cons.prems assms(1,2) by simp_all
  note taken = observe_step_taken [OF _ s fs]
  note IH = Cons.IH [of en']
  show ?case
  proof (cases "takes en ob")
    case False
    then have "en' = en" "es = []" using observe_step_ignored s by auto
    moreover have "accepted v (last_of en v) (ob # obs) = accepted v (last_of en v) obs"
      using False by (auto simp: takes_def last_of_def Let_def)
    ultimately show ?thesis using IH s Cons.prems by simp
  next
    case t: True
    show ?thesis
    proof (cases "trim_space (ob_vessel ob) = v")
      case False
      then have "last_of en' v = last_of en v"
        "vessel_state en' v (GeofenceID f) = vessel_state en v (GeofenceID f)"
        using taken(1,2) [OF t] by (simp_all add: last_of_def)
      with False IH s Cons.prems show ?thesis by simp
    next
      case True
      then have "accepted v (last_of en v) (ob # obs) = ob # accepted v (ob_at ob) obs"
        "last_of en' v = ob_at ob"
        using t taken(1) [OF t] by (auto simp: takes_def last_of_def Let_def)
      with True IH s Cons.prems taken(3) [OF t] show ?thesis by (simp add: sample_def split: prod.split)
    qed
  qed
qed simp

lemma accepted_props: "ob \<in> set (accepted v l obs) \<Longrightarrow> ob \<in> set obs \<and> 0 < ob_at ob"
  by (induction obs arbitrary: l) (auto split: if_splits)

lemma NewEngine_project:
  assumes "distinct (map GeofenceID fs)" "f \<in> set fs" "\<forall>ob\<in>set obs. ob_fences ob = fs"
  shows "filter (\<lambda>e. ev_GeofenceID e = GeofenceID f) (vessel_events v NewEngine obs)
    = snd (fence_run f zero_state (map (sample f) (accepted v 0 obs)))"
  using vessel_events_project [OF assms, of v NewEngine]
  by (simp add: NewEngine_def vessel_state_def state_at_def last_of_def)

lemma observe_fences_sorted:
  "observe_fences p speed t fs pv = (pv', es) \<Longrightarrow> sorted (map GeofenceID fs) \<Longrightarrow>
     sorted (map ev_GeofenceID es) \<and> (\<forall>e\<in>set es. ev_OccurredAtUnix e = t \<and>
       (\<exists>f\<in>set fs. ev_GeofenceID e = GeofenceID f \<and> ev_Version e = Version f))"
proof (induction fs arbitrary: pv es)
  case (Cons f fs)
  obtain st' e1 where s: "fence_step (Contains (Vertices f) p) speed t f (state_at pv (GeofenceID f)) = (st', e1)"
    by fastforce
  obtain e2 where r: "observe_fences p speed t fs (pv(GeofenceID f \<mapsto> st')) = (pv', e2)" and es: "es = e1 @ e2"
    using Cons.prems s by (auto split: prod.splits)
  have e1: "ev_GeofenceID e = GeofenceID f \<and> ev_Version e = Version f \<and> ev_OccurredAtUnix e = t"
    if "e \<in> set e1" for e using fence_step_events [OF s that] .
  have "map ev_GeofenceID e1 = replicate (length e1) (GeofenceID f)"
    using e1 by (metis (mono_tags, lifting) map_eq_conv map_replicate_const)
  moreover have "\<forall>e\<in>set e2. GeofenceID f \<le> ev_GeofenceID e"
    using Cons.IH [OF r] Cons.prems(2) by fastforce
  ultimately show ?case
    using Cons.IH [OF r] Cons.prems(2) e1 by (auto simp: es sorted_append)
qed simp

section \<open>Properties of the engine\<close>

text \<open>
  C27. Whatever reports arrive (any vessels, times, speeds and fence sets, duplicates and disorder
  included), the events of one vessel at one fence always form stays: each stay opens with ENTER,
  has at most one DWELL, and closes with EXIT before the next ENTER.
\<close>

theorem engine_stays_well_formed:
  "stay_run Outside (fence_events g (vessel_events v NewEngine obs)) \<noteq> None"
proof -
  have "vessel_state NewEngine v g = zero_state"
    by (simp add: vessel_state_def NewEngine_def state_at_def)
  then show ?thesis
    using vessel_events_stay [of NewEngine v g obs] by (auto simp: stay_of_def zero_state_def)
qed

text \<open>
  With a fixed set of fences with distinct ids, the engine is the independent composition of one
  state machine per vessel and fence: the events of a fence are those of its own machine fed with
  the vessel's accepted reports (in the order of observation time), whatever the other vessels and
  fences do.
\<close>

theorem engine_fences_independent:
  assumes "distinct (map GeofenceID fs)" "f \<in> set fs" "\<forall>ob\<in>set obs. ob_fences ob = fs"
  shows "filter (\<lambda>e. ev_GeofenceID e = GeofenceID f) (vessel_events v NewEngine obs)
    = snd (fence_run f zero_state (map (sample f) (accepted v 0 obs)))"
  by (rule NewEngine_project [OF assms])

definition sample_fence :: Fence where
  "sample_fence = \<lparr>GeofenceID = ''g1'', Version = 1, Vertices = sample_ring,
     DwellThresholdSeconds = 600, DwellSpeedGateMilliknots = 500\<rparr>"

definition sample_obs :: "int \<Rightarrow> int \<Rightarrow> int \<Rightarrow> Observation" where
  "sample_obs lon speed t = \<lparr>ob_vessel = ''v'', ob_point = \<lparr>LatMicros = 50, LonMicros = lon\<rparr>,
     ob_speed = speed, ob_at = t, ob_fences = [sample_fence]\<rparr>"

lemma sample_vessel: "trim_space ''v'' = ''v''"
  by (rule trim_space_id) (simp_all add: is_space_def)

lemmas sample_eval =
  sample_def sample_obs_def sample_fence_def sample_vessel sample_ring_def pointsOf_def Contains_def
  onSegment_def straddles_def crossing_lon_def wrap_int32_def wrap_int64_def quot_def min32_def
  max32_def fence_step_def switch_membership_def dwell_clock_def zero_state_def mk_event_def

theorem engine_fences_independent_witness:
  "map ev_Type (filter (\<lambda>e. ev_GeofenceID e = ''g1'')
     (vessel_events ''v'' NewEngine [sample_obs 50 100 1000, sample_obs 50 100 900, sample_obs 150 100 2000]))
   = [EventEnter, EventExit]"
proof -
  let ?obs = "[sample_obs 50 100 1000, sample_obs 50 100 900, sample_obs 150 100 2000]"
  have g: "GeofenceID sample_fence = ''g1''" by (simp add: sample_fence_def)
  have "filter (\<lambda>e. ev_GeofenceID e = ''g1'') (vessel_events ''v'' NewEngine ?obs)
     = snd (fence_run sample_fence zero_state (map (sample sample_fence) (accepted ''v'' 0 ?obs)))"
    using engine_fences_independent [of "[sample_fence]" sample_fence ?obs "''v''"]
    by (simp add: g sample_obs_def)
  also have "accepted ''v'' 0 ?obs = [sample_obs 50 100 1000, sample_obs 150 100 2000]"
    by (simp add: sample_obs_def sample_vessel)
  finally show ?thesis by (simp add: sample_eval)
qed

text \<open>
  With a fixed set of fences with distinct identifiers a DWELL event is always earned: the vessel's accepted reports contain a stretch, ending with the
  report that emitted it, throughout which the vessel was inside the fence, never known above the
  speed gate, that began with a known speed within the gate at least the threshold earlier.
\<close>

theorem dwell_is_earned:
  assumes "distinct (map GeofenceID fs)" "f \<in> set fs" "\<forall>ob\<in>set obs. ob_fences ob = fs \<and> in_int64 (ob_at ob)"
    and "e \<in> set (vessel_events v NewEngine obs)" "ev_GeofenceID e = GeofenceID f" "ev_Type e = EventDwell"
  shows "\<exists>xs ys zs. map (sample f) (accepted v 0 obs) = xs @ ys @ zs \<and> slow_stretch f ys
     \<and> snd (snd (last ys)) = ev_OccurredAtUnix e
     \<and> DwellThresholdSeconds f \<le> ev_OccurredAtUnix e - snd (snd (hd ys))"
proof -
  let ?S = "map (sample f) (accepted v 0 obs)"
  have times: "0 < t \<and> in_int64 t" if "(i, s, t) \<in> set ?S" for i s t
    using that accepted_props assms(3) by (fastforce simp: sample_def)
  have "\<forall>(i, s, t)\<in>set ?S. t \<noteq> 0" using times by fastforce
  moreover have "e \<in> set (snd (fence_run f zero_state ?S))"
  proof -
    have "e \<in> set (filter (\<lambda>e. ev_GeofenceID e = GeofenceID f) (vessel_events v NewEngine obs))"
      using assms(4,5) by simp
    with NewEngine_project [OF assms(1,2), of obs v] assms(3) show ?thesis by simp
  qed
  moreover have "clock_justified f [] zero_state" by (simp add: clock_justified_def zero_state_def)
  ultimately obtain ps i s qs since where S: "?S = ps @ (i, s, ev_OccurredAtUnix e) # qs"
    and st: "stretch_since f (ps @ [(i, s, ev_OccurredAtUnix e)]) since"
    and th: "DwellThresholdSeconds f \<le> wrap_int64 (ev_OccurredAtUnix e - since)"
    using fence_run_dwell [of f "[]" zero_state ?S e] assms(6) by auto
  obtain xs ys where y: "ps @ [(i, s, ev_OccurredAtUnix e)] = xs @ ys" "slow_stretch f ys" "snd (snd (hd ys)) = since"
    using st by (auto simp: stretch_since_def)
  then have ne: "ys \<noteq> []" by (simp add: slow_stretch_def)
  then have l: "last ys = (i, s, ev_OccurredAtUnix e)" using y(1) by (metis last_append last_snoc)
  have S': "?S = xs @ ys @ qs" using S y(1) by (metis append.assoc append_Cons append_Nil)
  have "hd ys \<in> set ?S" "last ys \<in> set ?S" using S' ne by auto
  then have "0 < since" "in_int64 since" "0 < ev_OccurredAtUnix e" "in_int64 (ev_OccurredAtUnix e)"
    using times y(3) l by (metis prod.collapse)+
  then have "wrap_int64 (ev_OccurredAtUnix e - since) = ev_OccurredAtUnix e - since"
    by (intro wrap_int64_id) (auto simp: in_int64_def)
  with th S' y l show ?thesis by (intro exI [of _ xs] exI [of _ ys] exI [of _ qs]) simp
qed

theorem dwell_is_earned_witness:
  "\<exists>xs ys zs. map (sample sample_fence) (accepted ''v'' 0 [sample_obs 50 100 1000, sample_obs 50 200 1600])
       = xs @ ys @ zs \<and> slow_stretch sample_fence ys \<and> snd (snd (last ys)) = 1600"
proof -
  let ?obs = "[sample_obs 50 100 1000, sample_obs 50 200 1600]"
  have g: "GeofenceID sample_fence = ''g1''" by (simp add: sample_fence_def)
  have acc: "accepted ''v'' 0 ?obs = ?obs" by (simp add: sample_obs_def sample_vessel)
  have "filter (\<lambda>e. ev_GeofenceID e = ''g1'') (vessel_events ''v'' NewEngine ?obs)
     = snd (fence_run sample_fence zero_state (map (sample sample_fence) ?obs))"
    using NewEngine_project [of "[sample_fence]" sample_fence ?obs "''v''"] acc
    by (simp add: g sample_obs_def)
  also have "\<dots> = [mk_event sample_fence EventEnter 1000, mk_event sample_fence EventDwell 1600]"
    by (simp add: sample_eval)
  finally have "mk_event sample_fence EventDwell 1600
     \<in> set (filter (\<lambda>e. ev_GeofenceID e = ''g1'') (vessel_events ''v'' NewEngine ?obs))" by simp
  then have "mk_event sample_fence EventDwell 1600 \<in> set (vessel_events ''v'' NewEngine ?obs)" by simp
  moreover have "\<forall>ob\<in>set ?obs. ob_fences ob = [sample_fence] \<and> in_int64 (ob_at ob)"
    by (simp add: sample_obs_def in_int64_def)
  ultimately obtain xs ys zs where "map (sample sample_fence) (accepted ''v'' 0 ?obs) = xs @ ys @ zs"
    "slow_stretch sample_fence ys" "snd (snd (last ys)) = ev_OccurredAtUnix (mk_event sample_fence EventDwell 1600)"
    using dwell_is_earned [of "[sample_fence]" sample_fence ?obs "mk_event sample_fence EventDwell 1600" "''v''"]
    by auto
  then show ?thesis unfolding mk_event_sel by blast
qed

text \<open>
  A report that predates the vessel's latest one changes nothing and emits nothing; any other
  report's events are ordered by fence id, carry the report's time, and each belongs to one of the
  given fence versions.
\<close>

theorem Observe_order:
  assumes "Observe en v p speed t fs = (en', es)"
  shows "(\<forall>l. en_last en (trim_space v) = Some l \<and> t < l \<longrightarrow> en' = en \<and> es = [])
    \<and> sorted (map ev_GeofenceID es)
    \<and> (\<forall>e\<in>set es. ev_OccurredAtUnix e = t
          \<and> (\<exists>f\<in>set fs. ev_GeofenceID e = GeofenceID f \<and> ev_Version e = Version f))"
  using assms
proof (cases rule: Observe_cases)
  case ignored
  then show ?thesis by simp
next
  case (taken pv)
  then show ?thesis using observe_fences_sorted [OF taken(4)] by fastforce
qed

theorem Observe_order_witness:
  "fst (Observe \<lparr>en_state = Map.empty, en_last = [''v'' \<mapsto> 10]\<rparr> ''v'' \<lparr>LatMicros = 0, LonMicros = 0\<rparr> 0 9 [])
     = \<lparr>en_state = Map.empty, en_last = [''v'' \<mapsto> 10]\<rparr>"
proof (cases "Observe \<lparr>en_state = Map.empty, en_last = [''v'' \<mapsto> 10]\<rparr> ''v'' \<lparr>LatMicros = 0, LonMicros = 0\<rparr> 0 9 []")
  case (Pair en' es)
  from Observe_order [OF Pair] Pair show ?thesis by (simp add: sample_vessel)
qed

text \<open>
  The engine's memory stays consistent under every report: a vessel with fence records has a latest
  report time, no record lies in the future of it, and a dwell clock only runs inside the fence.
\<close>

theorem engine_invariant:
  "engine_ok (run_steps (\<lambda>en ob. fst (observe_step en ob)) NewEngine obs)"
  by (rule engine_run.inv_run) (rule NewEngine_ok)

lemma fence_step_unknown:
  assumes "st_inside st" "speed < 0"
  shows "fence_step True speed t f st = (st, [])"
  using assms by (simp add: fence_step_def switch_membership_def dwell_clock_def)

lemma fence_run_unknown:
  "st_inside st \<Longrightarrow> \<forall>(i, s, t)\<in>set xs. i \<and> s < 0 \<Longrightarrow> fence_run f st xs = (st, [])"
proof (induction xs)
  case (Cons x xs)
  obtain i s t where "x = (i, s, t)" by (cases x)
  with Cons fence_step_unknown [of st s t f] show ?case by simp
qed simp

text \<open>
  A report with unknown speed neither advances nor stops the dwell clock, so the time a vessel
  spends at unknown speed between two slow reports counts towards its dwell: two slow reports the
  threshold apart emit DWELL however many unknown-speed reports lie between them.
\<close>

theorem unknown_speed_counts_as_dwell:
  assumes "0 < DwellThresholdSeconds f" "0 \<le> s1" "s1 \<le> DwellSpeedGateMilliknots f"
    and "0 \<le> s2" "s2 \<le> DwellSpeedGateMilliknots f" "\<forall>(i, s, t)\<in>set gap. i \<and> s < 0"
    and "0 < t1" "t2 = t1 + DwellThresholdSeconds f" "in_int64 t2"
  shows "snd (fence_run f zero_state ((True, s1, t1) # gap @ [(True, s2, t2)]))
     = [mk_event f EventEnter t1, mk_event f EventDwell t2]"
proof -
  let ?st = "\<lparr>st_inside = True, st_enteredAt = t1, st_dwellEmitted = False, st_slowSince = t1\<rparr>"
  have 1: "fence_step True s1 t1 f zero_state = (?st, [mk_event f EventEnter t1])"
    using assms by (simp add: fence_step_def switch_membership_def dwell_clock_def zero_state_def wrap_int64_def)
  have "wrap_int64 (t2 - t1) = t2 - t1" using assms(1,7-9) by (intro wrap_int64_id) (auto simp: in_int64_def)
  then have 2: "fence_step True s2 t2 f ?st = (?st\<lparr>st_dwellEmitted := True\<rparr>, [mk_event f EventDwell t2])"
    using assms by (simp add: fence_step_def switch_membership_def dwell_clock_def)
  have "fence_run f ?st gap = (?st, [])" using assms(6) by (intro fence_run_unknown) auto
  then show ?thesis by (simp add: 1 2 fence_run_append)
qed

theorem unknown_speed_counts_as_dwell_witness:
  "map ev_Type (snd (fence_run sample_fence zero_state
      [(True, 100, 1000), (True, -1, 1001), (True, -1, 1599), (True, 100, 1600)])) = [EventEnter, EventDwell]"
  using unknown_speed_counts_as_dwell [of sample_fence 100 100 "[(True, -1, 1001), (True, -1, 1599)]" 1000 1600]
  by (simp add: sample_fence_def in_int64_def)

section \<open>Seed zones and categories\<close>

definition seed_zone_ok :: "SeedZone \<Rightarrow> bool" where
  "seed_zone_ok z \<longleftrightarrow> sz_GeofenceID z \<noteq> [] \<and> sz_Name z \<noteq> [] \<and> sz_Classification z \<noteq> []
     \<and> ValidateGeometry (pointsOf (sz_VerticesMicros z)) = None"

lemma load_feature_ok:
  "load_feature i seen f = Inr z \<Longrightarrow> seed_zone_ok z \<and> sz_GeofenceID z \<notin> seen
     \<and> sz_Name z = gj_Name f \<and> sz_GeofenceID z = (if gj_GeofenceID f = [] then gj_ID f else gj_GeofenceID f)
     \<and> NormalizeZoneCategory (gj_Category f) = Some (sz_Category z)"
  by (simp add: load_feature_def seed_zone_ok_def Let_def split: if_splits option.splits sum.splits) auto

lemma load_features_ok:
  "load_features i seen fs = Inr zs \<Longrightarrow> length zs = length fs \<and> (\<forall>z\<in>set zs. seed_zone_ok z)
     \<and> distinct (map sz_GeofenceID zs) \<and> sz_GeofenceID ` set zs \<inter> seen = {}
     \<and> map sz_Name zs = map gj_Name fs"
proof (induction fs arbitrary: i seen zs)
  case (Cons f fs)
  from Cons.prems obtain z zs' where z: "load_feature i seen f = Inr z"
    and r: "load_features (Suc i) (insert (sz_GeofenceID z) seen) fs = Inr zs'" and zs: "zs = z # zs'"
    by (auto split: sum.splits)
  show ?case using Cons.IH [OF r] load_feature_ok [OF z] by (auto simp: zs)
qed simp

text \<open>
  Seeding is all or nothing: a load that succeeds returns one zone per feature, in order, with
  pairwise distinct non-empty ids, the features' names, and rings that all pass the geometry
  contract (closed, at least four vertices, physical coordinates).
\<close>

theorem LoadSeedZones_all_or_nothing:
  assumes "LoadSeedZones parsed = Inr zones"
  shows "\<exists>doc. parsed = Some doc \<and> zones \<noteq> [] \<and> length zones = length (gd_Features doc)
    \<and> map sz_Name zones = map gj_Name (gd_Features doc)
    \<and> distinct (map sz_GeofenceID zones) \<and> (\<forall>z\<in>set zones. seed_zone_ok z)"
proof -
  from assms obtain doc where "parsed = Some doc" "gd_Features doc \<noteq> []"
    "load_features 0 {} (gd_Features doc) = Inr zones"
    by (auto simp: LoadSeedZones_def split: option.splits if_splits)
  with load_features_ok [of 0 "{}" "gd_Features doc" zones] show ?thesis by auto
qed

definition sample_feature :: geoJSONFeature where
  "sample_feature = \<lparr>gj_Type = ''Feature'', gj_ID = ''z1'', gj_GeofenceID = [], gj_Name = ''Apapa'',
     gj_Category = ''mpa'', gj_Classification = [], gj_GeometryType = ''Polygon'',
     gj_Coordinates = Some [[(3, 6), (4, 6), (4, 7)]]\<rparr>"

lemma math_round_numeral: "math_round (numeral k) = numeral k"
proof -
  have "\<lfloor>numeral k + 1 / 2 :: rat\<rfloor> = numeral k" by (simp add: floor_eq_iff)
  then show ?thesis by (simp add: math_round_def)
qed

lemma sample_feature_loads:
  "LoadSeedZones (Some \<lparr>gd_Type = ''FeatureCollection'', gd_Features = [sample_feature]\<rparr>)
   = Inr [\<lparr>sz_GeofenceID = ''z1'', sz_Name = ''Apapa'', sz_Category = CategoryMPA,
           sz_Classification = ''INTERNAL'',
           sz_VerticesMicros = [(6000000, 3000000), (6000000, 4000000), (7000000, 4000000), (6000000, 3000000)]\<rparr>]"
  by (simp add: LoadSeedZones_def load_feature_def sample_feature_def microRing_def math_round_numeral
      wrap_int32_def ValidateGeometry_def pointsOf_def NormalizeZoneCategory_def AdmittedZoneCategory_def
      category_table_def)

theorem LoadSeedZones_all_or_nothing_witness:
  "\<exists>zones. LoadSeedZones (Some \<lparr>gd_Type = ''FeatureCollection'', gd_Features = [sample_feature]\<rparr>) = Inr zones
     \<and> zones \<noteq> [] \<and> (\<forall>z\<in>set zones. seed_zone_ok z)"
  using LoadSeedZones_all_or_nothing [OF sample_feature_loads] sample_feature_loads by blast

end
