(* ===== verification/Safety_Rows.thy ===== *)
theory Safety_Rows
  imports Geo_Prelude
begin

text \<open>
  The tables of the safety modules (\<open>internal/store/safety.go\<close>, migration 0016): inspections with their
  checklists and deficiencies, search-and-rescue incidents with taskings and the communications log, and
  accident investigations with evidence, findings and recommendations.

  A state column holds one of the values its CHECK names, so it is a datatype here.
\<close>

datatype inspection_state =
    SCHEDULED | IN_PROGRESS | COMPLETED | DETAINED | RECTIFICATION | RELEASED | INSPECTION_CLOSED

datatype deficiency_state = OPEN | RECTIFIED | VERIFIED

datatype sar_phase = UNCERTAINTY | ALERT | DISTRESS | RESCUE | SAR_CLOSED

datatype tasking_state = TASKED | EN_ROUTE | ON_SCENE | TASKING_RELEASED

datatype case_state = CASE_OPEN | EVIDENCE | ANALYSIS | REPORTED | CASE_CLOSED

datatype recommendation_status = PROPOSED | ACCEPTED | REJECTED | IMPLEMENTED

text \<open>The items of a checklist are a JSON array; what is used of an element is its member \<open>code\<close>,
  \<open>None\<close> when it has no text there.\<close>

record ChecklistTemplateRow =
  ct_TemplateID :: string
  ct_TenantID :: string
  ct_Regime :: string
  ct_Version :: int
  ct_Title :: string
  ct_Items :: "string option list"
  ct_CreatedBy :: string
  ct_CreatedAt :: int

record InspectionRow =
  iw_InspectionID :: string
  iw_TenantID :: string
  iw_Regime :: string
  iw_TemplateID :: string
  iw_VesselReference :: string
  iw_PortCode :: string
  iw_Classification :: string
  iw_State :: inspection_state
  iw_InspectorPrincipalID :: string
  iw_CreatedAt :: int
  iw_StartedAt :: "int option"
  iw_CompletedAt :: "int option"
  iw_DetainedBy :: "string option"
  iw_DetainedAt :: "int option"
  iw_DetentionGrounds :: "string option"
  iw_RectificationStartedBy :: "string option"
  iw_RectificationStartedAt :: "int option"
  iw_ReleasedBy :: "string option"
  iw_ReleasedAt :: "int option"
  iw_ClosedBy :: "string option"
  iw_ClosedAt :: "int option"

record DeficiencyRow =
  dw_DeficiencyID :: string
  dw_InspectionID :: string
  dw_Code :: string
  dw_Description :: string
  dw_Severity :: string
  dw_State :: deficiency_state
  dw_RectificationDeadline :: "int option"
  dw_RecordedBy :: string
  dw_RecordedAt :: int
  dw_RectifiedBy :: "string option"
  dw_RectifiedAt :: "int option"
  dw_VerifiedBy :: "string option"
  dw_VerifiedAt :: "int option"

record SarIncidentRow =
  gw_IncidentID :: string
  gw_TenantID :: string
  gw_SosAlertID :: "string option"
  gw_Title :: string
  gw_Position :: "string option"
  gw_Classification :: string
  gw_Phase :: sar_phase
  gw_OpenedBy :: string
  gw_OpenedAt :: int
  gw_AlertedBy :: "string option"
  gw_AlertedAt :: "int option"
  gw_DistressDeclaredBy :: "string option"
  gw_DistressDeclaredAt :: "int option"
  gw_RescueStartedBy :: "string option"
  gw_RescueStartedAt :: "int option"
  gw_ClosedBy :: "string option"
  gw_ClosedAt :: "int option"
  gw_ClosureReason :: "string option"

record SarTaskingRow =
  tw_TaskingID :: string
  tw_IncidentID :: string
  tw_ResourceType :: string
  tw_ResourceName :: string
  tw_State :: tasking_state
  tw_TaskedBy :: string
  tw_TaskedAt :: int
  tw_ReleasedBy :: "string option"
  tw_ReleasedAt :: "int option"

record SarCommsRow =
  cw_EntryID :: nat
  cw_IncidentID :: string
  cw_Direction :: string
  cw_Channel :: string
  cw_Message :: string
  cw_LoggedBy :: string
  cw_LoggedAt :: int

record InvestigationCaseRow =
  vw_CaseID :: string
  vw_TenantID :: string
  vw_CasualtyType :: string
  vw_Severity :: string
  vw_VesselReference :: string
  vw_OccurredAt :: int
  vw_Location :: "string option"
  vw_Classification :: string
  vw_State :: case_state
  vw_LeadInvestigator :: string
  vw_OpenedAt :: int
  vw_ReportedBy :: "string option"
  vw_ReportedAt :: "int option"
  vw_ClosedBy :: "string option"
  vw_ClosedAt :: "int option"

record EvidenceRow =
  ew_EvidenceID :: string
  ew_CaseID :: string
  ew_Description :: string
  ew_ContentHash :: string
  ew_PrevChainHash :: string
  ew_ChainHash :: string
  ew_CollectedBy :: string
  ew_CollectedAt :: int

record FindingRow =
  fw_FindingID :: string
  fw_CaseID :: string
  fw_Finding :: string
  fw_CreatedBy :: string
  fw_CreatedAt :: int

record RecommendationRow =
  rw_RecommendationID :: string
  rw_CaseID :: string
  rw_Recommendation :: string
  rw_Status :: recommendation_status
  rw_CreatedBy :: string
  rw_CreatedAt :: int
  rw_DecidedBy :: "string option"
  rw_DecidedAt :: "int option"

record safety_db =
  sd_templates :: "ChecklistTemplateRow list"
  sd_inspections :: "InspectionRow list"
  sd_deficiencies :: "DeficiencyRow list"
  sd_incidents :: "SarIncidentRow list"
  sd_taskings :: "SarTaskingRow list"
  sd_comms :: "SarCommsRow list"
  sd_cases :: "InvestigationCaseRow list"
  sd_evidence :: "EvidenceRow list"
  sd_findings :: "FindingRow list"
  sd_recommendations :: "RecommendationRow list"

definition empty_safety :: safety_db where
  "empty_safety = \<lparr>sd_templates = [], sd_inspections = [], sd_deficiencies = [], sd_incidents = [], sd_taskings = [],
     sd_comms = [], sd_cases = [], sd_evidence = [], sd_findings = [], sd_recommendations = []\<rparr>"

section \<open>Column checks\<close>

text \<open>\<open>length\<close> of a text column counts characters: the bytes of a UTF-8 text that do not continue a character.\<close>

definition char_count :: "string \<Rightarrow> nat" where
  "char_count s = length (filter (\<lambda>c. (of_char c :: nat) div 64 \<noteq> 2) s)"

definition text_within :: "nat \<Rightarrow> string \<Rightarrow> bool" where
  "text_within n s \<longleftrightarrow> s \<noteq> [] \<and> char_count s \<le> n"

definition column_within :: "nat \<Rightarrow> string option \<Rightarrow> bool" where
  "column_within n x \<longleftrightarrow> (case x of None \<Rightarrow> True | Some s \<Rightarrow> text_within n s)"

definition port_text :: "string \<Rightarrow> bool" where
  "port_text s \<longleftrightarrow> 2 \<le> length s \<and> length s \<le> 16
     \<and> list_all (\<lambda>c. let n = of_char c :: nat in (48 \<le> n \<and> n \<le> 57) \<or> (65 \<le> n \<and> n \<le> 90)) s"

definition sha256_text :: "string \<Rightarrow> bool" where
  "sha256_text s \<longleftrightarrow> length s = 64 \<and> list_all (\<lambda>c. let n = of_char c :: nat in (48 \<le> n \<and> n \<le> 57) \<or> (97 \<le> n \<and> n \<le> 102)) s"

definition label_text :: "string \<Rightarrow> bool" where
  "label_text s \<longleftrightarrow> s \<in> {''PUBLIC'', ''INTERNAL'', ''RESTRICTED'', ''CONFIDENTIAL'', ''SECRET''}"

definition template_columns :: "ChecklistTemplateRow \<Rightarrow> bool" where
  "template_columns r \<longleftrightarrow>
     id_text 127 (ct_TemplateID r) \<and> id_text 127 (ct_TenantID r) \<and> ct_Regime r \<in> {''FSC'', ''PSC''} \<and> 1 \<le> ct_Version r
     \<and> text_within 200 (ct_Title r) \<and> text_within 512 (ct_CreatedBy r)"

definition inspection_columns :: "InspectionRow \<Rightarrow> bool" where
  "inspection_columns r \<longleftrightarrow>
     id_text 127 (iw_InspectionID r) \<and> id_text 127 (iw_TenantID r) \<and> iw_Regime r \<in> {''FSC'', ''PSC''}
     \<and> text_within 128 (iw_VesselReference r) \<and> port_text (iw_PortCode r) \<and> label_text (iw_Classification r)
     \<and> text_within 512 (iw_InspectorPrincipalID r) \<and> column_within 512 (iw_DetainedBy r)
     \<and> column_within 1000 (iw_DetentionGrounds r) \<and> column_within 512 (iw_RectificationStartedBy r)
     \<and> column_within 512 (iw_ReleasedBy r) \<and> column_within 512 (iw_ClosedBy r)"

text \<open>Every severity above MINOR needs a deadline.\<close>

definition deficiency_columns :: "DeficiencyRow \<Rightarrow> bool" where
  "deficiency_columns r \<longleftrightarrow>
     id_text 127 (dw_DeficiencyID r) \<and> id_text 63 (dw_Code r) \<and> text_within 1000 (dw_Description r)
     \<and> dw_Severity r \<in> {''MINOR'', ''MAJOR'', ''CRITICAL''} \<and> (dw_RectificationDeadline r \<noteq> None \<or> dw_Severity r = ''MINOR'')
     \<and> text_within 512 (dw_RecordedBy r) \<and> column_within 512 (dw_RectifiedBy r) \<and> column_within 512 (dw_VerifiedBy r)"

text \<open>A position is a WKT text; a number with two signs is refused by the cast to \<open>geography\<close>.\<close>

definition castable :: "string option \<Rightarrow> bool" where
  "castable p \<longleftrightarrow> (case p of None \<Rightarrow> True | Some t \<Rightarrow> list_all (\<lambda>(a, b). \<not> (a = CHR ''-'' \<and> b = CHR ''-'')) (zip t (tl t)))"

definition incident_columns :: "SarIncidentRow \<Rightarrow> bool" where
  "incident_columns r \<longleftrightarrow>
     id_text 127 (gw_IncidentID r) \<and> id_text 127 (gw_TenantID r) \<and> text_within 200 (gw_Title r) \<and> castable (gw_Position r)
     \<and> label_text (gw_Classification r) \<and> text_within 512 (gw_OpenedBy r) \<and> column_within 512 (gw_AlertedBy r)
     \<and> column_within 512 (gw_DistressDeclaredBy r) \<and> column_within 512 (gw_RescueStartedBy r)
     \<and> column_within 512 (gw_ClosedBy r) \<and> column_within 500 (gw_ClosureReason r)"

definition tasking_columns :: "SarTaskingRow \<Rightarrow> bool" where
  "tasking_columns r \<longleftrightarrow>
     id_text 127 (tw_TaskingID r) \<and> tw_ResourceType r \<in> {''VESSEL'', ''AIRCRAFT'', ''TEAM'', ''OTHER''}
     \<and> text_within 200 (tw_ResourceName r) \<and> text_within 512 (tw_TaskedBy r) \<and> column_within 512 (tw_ReleasedBy r)"

definition comms_columns :: "SarCommsRow \<Rightarrow> bool" where
  "comms_columns r \<longleftrightarrow>
     cw_Direction r \<in> {''INBOUND'', ''OUTBOUND''} \<and> text_within 64 (cw_Channel r) \<and> text_within 2000 (cw_Message r)
     \<and> text_within 512 (cw_LoggedBy r)"

definition case_columns :: "InvestigationCaseRow \<Rightarrow> bool" where
  "case_columns r \<longleftrightarrow>
     id_text 127 (vw_CaseID r) \<and> id_text 127 (vw_TenantID r)
     \<and> vw_CasualtyType r \<in> {''COLLISION'', ''GROUNDING'', ''FIRE'', ''FLOODING'', ''CAPSIZE'', ''POLLUTION'', ''FATALITY'', ''OTHER''}
     \<and> vw_Severity r \<in> {''MINOR'', ''SERIOUS'', ''VERY_SERIOUS''} \<and> text_within 128 (vw_VesselReference r)
     \<and> castable (vw_Location r) \<and> label_text (vw_Classification r) \<and> text_within 512 (vw_LeadInvestigator r)
     \<and> column_within 512 (vw_ReportedBy r) \<and> column_within 512 (vw_ClosedBy r)"

definition evidence_columns :: "EvidenceRow \<Rightarrow> bool" where
  "evidence_columns r \<longleftrightarrow>
     id_text 127 (ew_EvidenceID r) \<and> text_within 1000 (ew_Description r) \<and> sha256_text (ew_ContentHash r)
     \<and> sha256_text (ew_PrevChainHash r) \<and> sha256_text (ew_ChainHash r) \<and> text_within 512 (ew_CollectedBy r)"

definition finding_columns :: "FindingRow \<Rightarrow> bool" where
  "finding_columns r \<longleftrightarrow> id_text 127 (fw_FindingID r) \<and> text_within 2000 (fw_Finding r) \<and> text_within 512 (fw_CreatedBy r)"

definition recommendation_columns :: "RecommendationRow \<Rightarrow> bool" where
  "recommendation_columns r \<longleftrightarrow>
     id_text 127 (rw_RecommendationID r) \<and> text_within 2000 (rw_Recommendation r) \<and> text_within 512 (rw_CreatedBy r)
     \<and> column_within 512 (rw_DecidedBy r)"

end
