(* ===== verification/Device_Rows.thy ===== *)
theory Device_Rows
  imports Geo_Prelude
begin

text \<open>
  The vocabulary and the tables of the device plane (\<open>internal/devices/devices.go\<close>,
  \<open>internal/devices/store.go\<close>, migration 0010): registered devices, their key epochs, the provisioning
  ledger, firmware releases and the audit ledger.

  A status column holds one of the values its CHECK names, so it is a datatype with the constructors the
  source declares as constants. Metadata objects are association lists.
\<close>

section \<open>Vocabulary\<close>

datatype device_status = StatusActive | StatusSuspended | StatusRevoked | StatusDecommissioned

datatype key_status = KeyCurrent | KeyPrevious | KeyRevoked

datatype request_status = RequestPending | RequestApproved | RequestRejected | RequestConsumed

datatype audit_name =
    AuditProvisionRequested
  | AuditProvisionApproved
  | AuditProvisionRejected
  | AuditProvisionConsumed
  | AuditRotationRequested
  | AuditRotationApplied
  | AuditStatusChanged
  | AuditAuthFailed
  | AuditFirmwareServed
  | AuditTelemetryDeadLetter

datatype auth_reason =
    ReasonEnvelopeMalformed
  | ReasonDeviceUnknown
  | ReasonDeviceSuspended
  | ReasonDeviceRevoked
  | ReasonDeviceRetired
  | ReasonEpochUnknown
  | ReasonKeyRevoked
  | ReasonGraceExpired
  | ReasonSignatureInvalid
  | ReasonDeviceIDMismatch
  | ReasonActionMismatch
  | ReasonPayloadUnsupported

fun reason_text :: "auth_reason \<Rightarrow> string" where
  "reason_text ReasonEnvelopeMalformed = ''envelope_malformed''"
| "reason_text ReasonDeviceUnknown = ''device_unknown''"
| "reason_text ReasonDeviceSuspended = ''device_suspended''"
| "reason_text ReasonDeviceRevoked = ''device_revoked''"
| "reason_text ReasonDeviceRetired = ''device_decommissioned''"
| "reason_text ReasonEpochUnknown = ''key_epoch_unknown''"
| "reason_text ReasonKeyRevoked = ''key_revoked''"
| "reason_text ReasonGraceExpired = ''key_grace_expired''"
| "reason_text ReasonSignatureInvalid = ''signature_invalid''"
| "reason_text ReasonDeviceIDMismatch = ''device_id_mismatch''"
| "reason_text ReasonActionMismatch = ''proof_action_mismatch''"
| "reason_text ReasonPayloadUnsupported = ''payload_type_unsupported''"

definition DefaultKeyGrace :: int where
  "DefaultKeyGrace = 24 * 3600 * second"

definition ValidKind :: "string \<Rightarrow> bool" where
  "ValidKind kind \<longleftrightarrow> kind \<in> {''AIS'', ''GT06'', ''LORAWAN'', ''POS'', ''VALIDATOR'', ''GATEWAY'', ''SENSOR''}"

text \<open>A status a caller names: \<open>None\<close> is a text outside the lifecycle.\<close>

definition parse_status :: "string \<Rightarrow> device_status option" where
  "parse_status s =
     map_of [(''ACTIVE'', StatusActive), (''SUSPENDED'', StatusSuspended), (''REVOKED'', StatusRevoked),
             (''DECOMMISSIONED'', StatusDecommissioned)] s"

definition ValidStatus :: "string \<Rightarrow> bool" where
  "ValidStatus s \<longleftrightarrow> parse_status s \<noteq> None"

text \<open>The stored status is always a known one; the result is the target, \<open>None\<close> the refusal.\<close>

definition ValidateStatusTransition :: "device_status \<Rightarrow> string \<Rightarrow> device_status option" where
  "ValidateStatusTransition current target =
     (case parse_status target of
        None \<Rightarrow> None
      | Some st \<Rightarrow>
          if current = st then None
          else if current = StatusRevoked \<or> current = StatusDecommissioned then None
          else Some st)"

definition validateLabel :: "string \<Rightarrow> nat \<Rightarrow> string option" where
  "validateLabel v maximum =
     (let trimmed = trim_space v in
      if trimmed = [] then None else if length trimmed > maximum then None else Some trimmed)"

section \<open>Rows\<close>

type_synonym metadata = "(string \<times> string) list"

record Device =
  dv_ID :: string
  dv_TenantID :: string
  dv_Kind :: string
  dv_OwnerAgency :: string
  dv_Label :: string
  dv_Status :: device_status
  dv_KeyEpoch :: int
  dv_Metadata :: metadata
  dv_CreatedBy :: string
  dv_CreatedAt :: int
  dv_UpdatedAt :: int

record Key =
  ky_DeviceID :: string
  ky_Epoch :: int
  ky_PublicKey :: string
  ky_Status :: key_status
  ky_RotatedAt :: int

record Release =
  fl_ID :: string
  fl_TenantID :: string
  fl_Kind :: string
  fl_Version :: string
  fl_ArtifactSHA256 :: string
  fl_ArtifactURL :: string
  fl_RolloutPercent :: int
  fl_MinEpoch :: int
  fl_CreatedAt :: int

record AuditEvent =
  au_TenantID :: string
  au_DeviceID :: string
  au_Event :: audit_name
  au_Actor :: string
  au_Reason :: string
  au_Metadata :: metadata

text \<open>A ledger row: blank device and reason are NULL. The generated identifier is never read.\<close>

record audit_row =
  al_TenantID :: string
  al_DeviceID :: "string option"
  al_Event :: audit_name
  al_Actor :: string
  al_Reason :: "string option"
  al_Metadata :: metadata
  al_CreatedAt :: int

record ProvisionPayload =
  pp_Kind :: string
  pp_OwnerAgency :: string
  pp_Label :: string
  pp_PublicKey :: string
  pp_Metadata :: metadata

record RotatePayload =
  rp_DeviceID :: string
  rp_PublicKey :: string

text \<open>
  The payload column is a JSON object that names its type; the two types the store writes, or any other
  value by its type member (\<open>None\<close>: it does not decode).
\<close>

datatype request_payload =
    PayloadProvision ProvisionPayload
  | PayloadRotate RotatePayload
  | PayloadOther "string option"

record Request =
  rq_ID :: string
  rq_TenantID :: string
  rq_Payload :: request_payload
  rq_RequestedBy :: string
  rq_Status :: request_status
  rq_DecidedBy :: "string option"
  rq_DecidedAt :: "int option"
  rq_DeviceID :: "string option"
  rq_CreatedAt :: int

record request_row =
  rr_Request :: Request
  rr_ActivationSecretHash :: "string option"

record device_db =
  dd_devices :: "Device list"
  dd_keys :: "Key list"
  dd_requests :: "request_row list"
  dd_releases :: "Release list"
  dd_audit :: "audit_row list"

definition empty_devices :: device_db where
  "empty_devices = \<lparr>dd_devices = [], dd_keys = [], dd_requests = [], dd_releases = [], dd_audit = []\<rparr>"

record deadLetterRecord =
  dl_DeadLetterID :: string
  dl_DeviceID :: string
  dl_Reason :: auth_reason
  dl_Envelope :: string
  dl_OccurredAt :: int

record AuthError =
  ae_Reason :: auth_reason
  ae_DeviceID :: string
  ae_Detail :: string

section \<open>Column checks\<close>

definition hex_lower :: "char \<Rightarrow> bool" where
  "hex_lower c \<longleftrightarrow> (let n = of_char c :: nat in (48 \<le> n \<and> n \<le> 57) \<or> (97 \<le> n \<and> n \<le> 102))"

definition request_allowed :: "request_row \<Rightarrow> bool" where
  "request_allowed r \<longleftrightarrow>
     (case rq_DecidedBy (rr_Request r) of None \<Rightarrow> True | Some c \<Rightarrow> c \<noteq> rq_RequestedBy (rr_Request r))
     \<and> (case rr_ActivationSecretHash r of None \<Rightarrow> True | Some h \<Rightarrow> length h = 32)"

definition release_columns :: "Release \<Rightarrow> bool" where
  "release_columns r \<longleftrightarrow>
     ValidKind (fl_Kind r) \<and> length (fl_ArtifactSHA256 r) = 64 \<and> list_all hex_lower (fl_ArtifactSHA256 r)
     \<and> 0 \<le> fl_RolloutPercent r \<and> fl_RolloutPercent r \<le> 100 \<and> 1 \<le> fl_MinEpoch r"

lemma ValidateStatusTransition_Some:
  "ValidateStatusTransition st target = Some st' \<longleftrightarrow>
     parse_status target = Some st' \<and> st \<noteq> st' \<and> st \<noteq> StatusRevoked \<and> st \<noteq> StatusDecommissioned"
  by (auto simp: ValidateStatusTransition_def split: option.splits)

end
