(* ===== verification/World.thy ===== *)
theory World
  imports Effects Validate Fence_Engine Envelope Safety_Rows Device_Rows
begin

text \<open>
  The state the service works on: the PostGIS tables, the Redis keys, the Kafka topics, and the
  in-process tracker and fence engine, with the calls that reach them.

  What the outside decides is the record \<open>externals\<close>: whether the n-th call to Postgres, Redis or
  Kafka succeeds, whether the request context is still alive, which identifier a fresh UUID is,
  what the clock says, and what PostGIS answers for two geometries. The counter \<open>w_tick\<close> numbers
  the calls, so every sequence of outages is some value of \<open>externals\<close>.

  A SQL statement is a partial function on the tables (\<open>None\<close> a violated key, reference or
  cross-column constraint). A value a column's own CHECK or type refuses is a statement the database
  does not accept: like an outage, it is a call for which \<open>x_pg\<close> is false. A
  transaction undoes its statements when its body or its commit fails; Redis and Kafka are not part
  of it.
\<close>

section \<open>Rows\<close>

record Position =
  po_PositionReportID :: string
  po_MMSI :: string
  po_VesselRef :: string
  po_SourceClass :: string
  po_LatitudeMicros :: int
  po_LongitudeMicros :: int
  po_SpeedOverGroundMilliknots :: "int option"
  po_CourseOverGroundMillidegrees :: "int option"
  po_HeadingMillidegrees :: "int option"
  po_NavStatus :: "int option"
  po_PositionAccuracy :: string
  po_ReceiverID :: string
  po_AISMessageType :: "int option"
  po_IMO :: string
  po_Callsign :: string
  po_ShipName :: string
  po_Classification :: string
  po_ObservedAt :: int

text \<open>A row of \<open>ais_positions\<close>: the report, its derived geography text and its accuracy.\<close>

record position_row =
  ro_Position :: Position
  ro_Geom :: string
  ro_Accuracy :: string

datatype identity = ByMMSI string | ByVesselRef string

record latest_row =
  la_PositionReportID :: string
  la_SourceClass :: string
  la_Geom :: string
  la_LatitudeMicros :: int
  la_LongitudeMicros :: int
  la_SpeedOverGroundMilliknots :: "int option"
  la_CourseOverGroundMillidegrees :: "int option"
  la_HeadingMillidegrees :: "int option"
  la_NavStatus :: "int option"
  la_Classification :: string
  la_ObservedAt :: int

record StaticReport =
  sp_StaticReportID :: string
  sp_MMSI :: string
  sp_IMO :: string
  sp_Callsign :: string
  sp_ShipName :: string
  sp_ShipTypeCode :: int
  sp_DimensionBowM :: int
  sp_DimensionSternM :: int
  sp_DimensionPortM :: int
  sp_DimensionStarboardM :: int
  sp_DraughtMillimetres :: int
  sp_Destination :: string
  sp_ETA :: "int option"
  sp_EpfsType :: string
  sp_SourceClass :: string
  sp_Classification :: string
  sp_ObservedAt :: int

record static_row =
  sw_Report :: StaticReport
  sw_ValidFrom :: int
  sw_ValidTo :: "int option"

record Zone =
  zo_ZoneID :: string
  zo_TenantID :: string
  zo_Name :: string
  zo_Geom :: string
  zo_ClassificationFloor :: string
  zo_State :: string
  zo_MakerPrincipalID :: string
  zo_CreatedAt :: int
  zo_ApprovedBy :: "string option"
  zo_ApprovedAt :: "int option"

record GeofenceEvent =
  gv_GeofenceEventID :: string
  gv_TenantID :: string
  gv_ZoneID :: string
  gv_ZoneName :: string
  gv_Event :: string
  gv_MMSI :: string
  gv_TrackReference :: string
  gv_LatitudeMicros :: int
  gv_LongitudeMicros :: int
  gv_Classification :: string
  gv_OccurredAt :: int

record AppReport =
  ar_PositionReportID :: string
  ar_ReporterID :: string
  ar_VesselReference :: string
  ar_LatitudeMicros :: int
  ar_LongitudeMicros :: int
  ar_AccuracyM :: int
  ar_SpeedMillimetresPerSecond :: "int option"
  ar_RecordedAt :: int
  ar_OutboxID :: string
  ar_Classification :: string

record SOSAlert =
  so_SosAlertID :: string
  so_ReporterID :: string
  so_VesselReference :: string
  so_LatitudeMicros :: int
  so_LongitudeMicros :: int
  so_RecordedAt :: int
  so_OutboxID :: string
  so_FreeText :: string
  so_Classification :: string

record SOSRow =
  ss_Alert :: SOSAlert
  ss_State :: string
  ss_ReceivedAt :: int
  ss_AcknowledgedBy :: "string option"
  ss_AcknowledgedAt :: "int option"
  ss_AcknowledgeNote :: "string option"
  ss_ResolvedBy :: "string option"
  ss_ResolvedAt :: "int option"
  ss_ResolveNote :: "string option"

text \<open>The ring column is JSON text; \<open>None\<close> is a text that does not decode to coordinate pairs.\<close>

record FenceRow =
  fr_GeofenceID :: string
  fr_Version :: int
  fr_TenantID :: string
  fr_Name :: string
  fr_Classification :: string
  fr_VerticesMicros :: "(int \<times> int) list option"
  fr_DwellThresholdSeconds :: int
  fr_DwellSpeedGateMilliknots :: int
  fr_State :: string
  fr_ZoneCategory :: string
  fr_CreatedBy :: string
  fr_CreatedAt :: int
  fr_RetiredAt :: "int option"

record FenceEventRow =
  fe_EventID :: string
  fe_GeofenceID :: string
  fe_GeofenceVersion :: int
  fe_TenantID :: string
  fe_EventType :: string
  fe_MMSI :: string
  fe_LatitudeMicros :: int
  fe_LongitudeMicros :: int
  fe_Classification :: string
  fe_EnvelopeDigest :: string
  fe_OccurredAt :: int
  fe_ZoneCategory :: string

record db =
  db_partitions :: "int list"
  db_positions :: "position_row list"
  db_latest :: "identity \<rightharpoonup> latest_row"
  db_static :: "static_row list"
  db_zones :: "Zone list"
  db_zone_approvals :: "(string \<times> string) list"
  db_zone_events :: "GeofenceEvent list"
  db_app_reports :: "AppReport list"
  db_sos :: "SOSRow list"
  db_fences :: "FenceRow list"
  db_fence_events :: "FenceEventRow list"
  db_safety :: safety_db
  db_devices :: device_db

section \<open>Messages\<close>

record quarantineRecord =
  qr_QuarantineID :: string
  qr_Reason :: Reason
  qr_Detail :: Detail
  qr_SourceClass :: string
  qr_MMSI :: string
  qr_VesselRef :: string
  qr_ReceiverID :: string
  qr_Report :: Position
  qr_QuarantinedAt :: int

record static_quarantine =
  sq_QuarantineID :: string
  sq_Reason :: Reason
  sq_Detail :: string
  sq_Report :: StaticReport
  sq_QuarantinedAt :: int

datatype kvalue =
    VRaw Position
  | VQuarantine quarantineRecord
  | VQuarantineStatic static_quarantine
  | VEnvelope Envelope
  | VDeadLetter deadLetterRecord

datatype topic = TopicAISRaw | TopicVesselEvents | TopicVesselQuarantine

record message =
  km_topic :: topic
  km_key :: string
  km_value :: kvalue
  km_headers :: "string \<rightharpoonup> string"

record broadcast =
  bc_type :: string
  bc_classification :: string
  bc_occurredAt :: int
  bc_payload :: payload

section \<open>The world\<close>

record externals =
  x_pg :: "nat \<Rightarrow> bool"
  x_redis :: "nat \<Rightarrow> bool"
  x_kafka :: "nat \<Rightarrow> bool"
  x_ctx :: "nat \<Rightarrow> bool"
  x_uuid :: "nat \<Rightarrow> string"
  x_now :: "nat \<Rightarrow> int"
  x_intersects :: "string \<Rightarrow> string \<Rightarrow> bool"
  x_sha256hex :: "payload \<Rightarrow> string"
  x_crypto :: crypto

record world =
  w_tick :: nat
  w_db :: db
  w_dedup :: "string \<rightharpoonup> int"
  w_zone_state :: "string \<rightharpoonup> (string list \<times> int)"
  w_tracker :: Tracker
  w_engine :: Engine
  w_fenceset :: "(Fence list \<times> (string \<rightharpoonup> FenceRow) \<times> int) option"
  w_kafka :: "message list"
  w_sse :: "broadcast list"
  w_metrics :: "(string \<times> string) list"

datatype geo_error =
    ErrText string
  | ErrDB string
  | ErrRedis string
  | ErrPublish topic
  | ErrContext topic
  | ErrSign sign_error
  | ErrClassification
  | ErrDuplicateOutbox
  | ErrSOSNotFound
  | ErrSOSInvalidTransition
  | ErrMakerCheckerConflict
  | ErrZoneNotDraft
  | ErrNoRows
  | ErrVersionConflict int int
  | ErrSafetyNotFound
  | ErrSafetyInvalidTransition
  | ErrSafetyMakerChecker
  | ErrMakerChecker
  | ErrRequestNotPending
  | ErrRequestNotFound
  | ErrDeviceNotFound
  | ErrActivationFailed
  | ErrAuth AuthError
  | ErrWrap string geo_error

type_synonym 'a geo = "(world, geo_error, 'a) act"

section \<open>Calls to the outside\<close>

definition asks :: "(nat \<Rightarrow> 'a) \<Rightarrow> 'a geo" where
  "asks f w = (w\<lparr>w_tick := Suc (w_tick w)\<rparr>, Inr (f (w_tick w)))"

definition fresh_uuid :: "externals \<Rightarrow> string geo" where
  "fresh_uuid X = asks (x_uuid X)"

definition clock :: "externals \<Rightarrow> int geo" where
  "clock X = asks (x_now X)"

definition sql :: "externals \<Rightarrow> string \<Rightarrow> (db \<Rightarrow> (db \<times> 'a) option) \<Rightarrow> 'a geo" where
  "sql X label f =
     bindA (asks (x_pg X)) (\<lambda>ok.
       if \<not> ok then raise (ErrDB label)
       else bindA (reads w_db) (\<lambda>d. case f d of
              None \<Rightarrow> raise (ErrDB label)
            | Some (d', r) \<Rightarrow> seqA (modifies (\<lambda>w. w\<lparr>w_db := d'\<rparr>)) (ret r)))"

definition sql_query :: "externals \<Rightarrow> string \<Rightarrow> (db \<Rightarrow> 'a) \<Rightarrow> 'a geo" where
  "sql_query X label q = sql X label (\<lambda>d. Some (d, q d))"

definition sql_exec :: "externals \<Rightarrow> string \<Rightarrow> (db \<Rightarrow> db option) \<Rightarrow> unit geo" where
  "sql_exec X label f = sql X label (\<lambda>d. case f d of None \<Rightarrow> None | Some d' \<Rightarrow> Some (d', ()))"

text \<open>Begin, the body, commit; a failure after begin rolls the tables back.\<close>

definition rolls_back :: "'a geo \<Rightarrow> 'a geo" where
  "rolls_back m w = (case m w of
     (w', Inl e) \<Rightarrow> (w'\<lparr>w_db := w_db w\<rparr>, Inl e) | (w', Inr x) \<Rightarrow> (w', Inr x))"

definition in_tx :: "externals \<Rightarrow> string \<Rightarrow> 'a geo \<Rightarrow> 'a geo" where
  "in_tx X label body =
     seqA (sql_exec X (''begin '' @ label) Some)
       (rolls_back (bindA body (\<lambda>r. seqA (sql_exec X (''commit '' @ label) Some) (ret r))))"

definition count :: "string \<Rightarrow> string \<Rightarrow> unit geo" where
  "count name label = modifies (\<lambda>w. w\<lparr>w_metrics := w_metrics w @ [(name, label)]\<rparr>)"

definition broadcasts :: "bool \<Rightarrow> broadcast \<Rightarrow> unit geo" where
  "broadcasts enabled b = whenA enabled (modifies (\<lambda>w. w\<lparr>w_sse := w_sse w @ [b]\<rparr>))"

section \<open>Frame facts\<close>

text \<open>What a primitive may touch: everything else of the world is kept.\<close>

lemma keeps_asks: "(\<And>w n. I w \<Longrightarrow> I (w\<lparr>w_tick := n\<rparr>)) \<Longrightarrow> keeps I (asks f)"
  by (simp add: keeps_def asks_def)

lemma keeps_sql:
  assumes "\<And>w n. I w \<Longrightarrow> I (w\<lparr>w_tick := n\<rparr>)"
    and "\<And>w d' r. I w \<Longrightarrow> f (w_db w) = Some (d', r) \<Longrightarrow> I (w\<lparr>w_db := d'\<rparr>)"
  shows "keeps I (sql X label f)"
proof -
  have "keeps I (bindA (reads w_db) (\<lambda>d. case f d of
              None \<Rightarrow> raise (ErrDB label)
            | Some (d', r) \<Rightarrow> seqA (modifies (\<lambda>w. w\<lparr>w_db := d'\<rparr>)) (ret r)))"
    using assms(2) by (auto simp: keeps_def run_simps split: option.splits)
  note body = this
  have "keeps I (asks (x_pg X))"
    by (rule keeps_asks) (rule assms(1))
  then show ?thesis
    unfolding sql_def by (rule keeps_bind) (rule keeps_if [OF keeps_raise body])
qed

lemma keeps_sql_query: "(\<And>w n. I w \<Longrightarrow> I (w\<lparr>w_tick := n\<rparr>)) \<Longrightarrow> keeps I (sql_query X label q)"
  unfolding sql_query_def by (rule keeps_sql) auto

lemma keeps_sql_exec:
  "(\<And>w n. I w \<Longrightarrow> I (w\<lparr>w_tick := n\<rparr>)) \<Longrightarrow> (\<And>w d'. I w \<Longrightarrow> f (w_db w) = Some d' \<Longrightarrow> I (w\<lparr>w_db := d'\<rparr>))
     \<Longrightarrow> keeps I (sql_exec X label f)"
  unfolding sql_exec_def by (rule keeps_sql) (auto split: option.splits)

section \<open>Statements and transactions\<close>

lemma sql_exec_db:
  "sql_exec X l f w = (w', Inr u) \<Longrightarrow> f (w_db w) = Some (w_db w')"
  "sql_exec X l f w = (w', Inl e) \<Longrightarrow> w_db w' = w_db w"
  by (auto simp: sql_exec_def sql_def asks_def run_simps split: if_splits option.splits)

lemma sql_query_db:
  "sql_query X l q w = (w', Inr r) \<Longrightarrow> w_db w' = w_db w \<and> r = q (w_db w)"
  "sql_query X l q w = (w', Inl e) \<Longrightarrow> w_db w' = w_db w"
  by (auto simp: sql_query_def sql_def asks_def run_simps split: if_splits)

text \<open>A transaction that fails leaves the tables as they were; one that succeeds ran its body.\<close>

lemma rolls_back_Inl: "rolls_back m w = (w', Inl e) \<Longrightarrow> w_db w' = w_db w"
  by (auto simp: rolls_back_def split: prod.splits sum.splits)

lemma in_tx_Inl: "in_tx X l m w = (w', Inl e) \<Longrightarrow> w_db w' = w_db w"
  unfolding in_tx_def seqA_def bindA_Inl by (fastforce dest: sql_exec_db rolls_back_Inl)

lemma in_tx_Inr:
  assumes "in_tx X l m w = (w', Inr r)"
  obtains w1 w2 where "w_db w1 = w_db w" "m w1 = (w2, Inr r)" "w_db w' = w_db w2"
proof -
  from assms obtain w1 u where b: "sql_exec X (''begin '' @ l) Some w = (w1, Inr u)"
    and r: "rolls_back (bindA m (\<lambda>r. seqA (sql_exec X (''commit '' @ l) Some) (ret r))) w1 = (w', Inr r)"
    by (auto simp: in_tx_def seqA_Inr)
  from r have "bindA m (\<lambda>r. seqA (sql_exec X (''commit '' @ l) Some) (ret r)) w1 = (w', Inr r)"
    by (auto simp: rolls_back_def split: prod.splits sum.splits)
  then obtain w2 x where m: "m w1 = (w2, Inr x)"
    and c: "seqA (sql_exec X (''commit '' @ l) Some) (ret x) w2 = (w', Inr r)"
    by (auto simp: bindA_Inr)
  from c obtain u' where "sql_exec X (''commit '' @ l) Some w2 = (w', Inr u')" "x = r"
    by (auto simp: seqA_Inr ret_def)
  with m sql_exec_db(1) [OF b] sql_exec_db(1) that show ?thesis by fastforce
qed

lemma wp_asks [wp_simps]: "wp (asks f) Q E = (\<lambda>w. Q (f (w_tick w)) (w\<lparr>w_tick := Suc (w_tick w)\<rparr>))"
  by (simp add: fun_eq_iff wp_def asks_def)

lemma wp_clock [wp_simps]: "wp (clock X) Q E = (\<lambda>w. Q (x_now X (w_tick w)) (w\<lparr>w_tick := Suc (w_tick w)\<rparr>))"
  by (simp add: fun_eq_iff clock_def wp_asks)

lemma wp_uuid [wp_simps]: "wp (fresh_uuid X) Q E = (\<lambda>w. Q (x_uuid X (w_tick w)) (w\<lparr>w_tick := Suc (w_tick w)\<rparr>))"
  by (simp add: fun_eq_iff fresh_uuid_def wp_asks)

lemma wp_sql [wp_simps]:
  "wp (sql X l f) Q E = (\<lambda>w.
     (if \<not> x_pg X (w_tick w) then E (ErrDB l) (w\<lparr>w_tick := Suc (w_tick w)\<rparr>)
      else case f (w_db w) of
        None \<Rightarrow> E (ErrDB l) (w\<lparr>w_tick := Suc (w_tick w)\<rparr>)
      | Some r \<Rightarrow> Q (snd r) (w\<lparr>w_tick := Suc (w_tick w), w_db := fst r\<rparr>)))"
  by (simp add: fun_eq_iff sql_def wp_simps wp_asks case_prod_beta split: option.split)

lemma wp_sql_query [wp_simps]:
  "wp (sql_query X l q) Q E = (\<lambda>w.
     (if \<not> x_pg X (w_tick w) then E (ErrDB l) (w\<lparr>w_tick := Suc (w_tick w)\<rparr>)
      else Q (q (w_db w)) (w\<lparr>w_tick := Suc (w_tick w)\<rparr>)))"
  by (simp add: fun_eq_iff sql_query_def wp_sql)

lemma wp_sql_exec [wp_simps]:
  "wp (sql_exec X l f) Q E = (\<lambda>w.
     (if \<not> x_pg X (w_tick w) then E (ErrDB l) (w\<lparr>w_tick := Suc (w_tick w)\<rparr>)
      else case f (w_db w) of
        None \<Rightarrow> E (ErrDB l) (w\<lparr>w_tick := Suc (w_tick w)\<rparr>)
      | Some d \<Rightarrow> Q () (w\<lparr>w_tick := Suc (w_tick w), w_db := d\<rparr>)))"
  by (simp add: fun_eq_iff sql_exec_def wp_sql split: option.split)

lemma wp_rolls_back: "wp (rolls_back b) Q E = (\<lambda>v. wp b Q (\<lambda>e u. E e (u\<lparr>w_db := w_db v\<rparr>)) v)"
  by (simp add: fun_eq_iff wp_def rolls_back_def split: prod.split sum.split)

lemma wp_in_tx [wp_simps]:
  "wp (in_tx X l m) Q E = (\<lambda>w.
     (if \<not> x_pg X (w_tick w) then E (ErrDB (''begin '' @ l)) (w\<lparr>w_tick := Suc (w_tick w)\<rparr>)
      else wp m
        (\<lambda>r w2. if \<not> x_pg X (w_tick w2)
                then E (ErrDB (''commit '' @ l)) (w2\<lparr>w_tick := Suc (w_tick w2), w_db := w_db w\<rparr>)
                else Q r (w2\<lparr>w_tick := Suc (w_tick w2)\<rparr>))
        (\<lambda>e w2. E e (w2\<lparr>w_db := w_db w\<rparr>)) (w\<lparr>w_tick := Suc (w_tick w)\<rparr>)))"
  by (simp add: fun_eq_iff in_tx_def wp_simps wp_rolls_back)

lemma wp_count [wp_simps]: "wp (count n l) Q E = (\<lambda>w. Q () (w\<lparr>w_metrics := w_metrics w @ [(n, l)]\<rparr>))"
  by (simp add: fun_eq_iff count_def wp_simps)

lemma wp_broadcasts [wp_simps]:
  "wp (broadcasts b x) Q E = (\<lambda>w. (if b then Q () (w\<lparr>w_sse := w_sse w @ [x]\<rparr>) else Q () w))"
  by (simp add: fun_eq_iff broadcasts_def wp_simps)

section \<open>A quiet world\<close>

definition empty_db :: db where
  "empty_db = \<lparr>db_partitions = [], db_positions = [], db_latest = Map.empty, db_static = [], db_zones = [],
     db_zone_approvals = [], db_zone_events = [], db_app_reports = [], db_sos = [], db_fences = [],
     db_fence_events = [], db_safety = empty_safety, db_devices = empty_devices\<rparr>"

definition empty_world :: world where
  "empty_world = \<lparr>w_tick = 0, w_db = empty_db, w_dedup = Map.empty, w_zone_state = Map.empty,
     w_tracker = NewTracker, w_engine = NewEngine, w_fenceset = None, w_kafka = [], w_sse = [], w_metrics = []\<rparr>"

text \<open>Every external service answers.\<close>

definition calm :: externals where
  "calm = \<lparr>x_pg = (\<lambda>n. True), x_redis = (\<lambda>n. True), x_kafka = (\<lambda>n. True), x_ctx = (\<lambda>n. True),
     x_uuid = show_nat, x_now = (\<lambda>n. int n), x_intersects = (\<lambda>g p. g = p), x_sha256hex = (\<lambda>p. []),
     x_crypto = sample_crypto\<rparr>"

lemma sql_exec_calm:
  "sql_exec calm l f w = (case f (w_db w) of
     None \<Rightarrow> (w\<lparr>w_tick := Suc (w_tick w)\<rparr>, Inl (ErrDB l))
   | Some d \<Rightarrow> (w\<lparr>w_tick := Suc (w_tick w), w_db := d\<rparr>, Inr ()))"
  by (simp add: sql_exec_def sql_def asks_def run_simps calm_def split: option.split)

lemma sql_query_calm: "sql_query calm l q w = (w\<lparr>w_tick := Suc (w_tick w)\<rparr>, Inr (q (w_db w)))"
  by (simp add: sql_query_def sql_def asks_def run_simps calm_def)

lemma fresh_uuid_calm: "fresh_uuid calm w = (w\<lparr>w_tick := Suc (w_tick w)\<rparr>, Inr (show_nat (w_tick w)))"
  by (simp add: fresh_uuid_def asks_def calm_def)

lemma clock_calm: "clock calm w = (w\<lparr>w_tick := Suc (w_tick w)\<rparr>, Inr (int (w_tick w)))"
  by (simp add: clock_def asks_def calm_def)

lemmas calm_calls = sql_exec_calm sql_query_calm fresh_uuid_calm clock_calm

end
