(* ===== verification/Store_Tables.thy ===== *)
theory Store_Tables
  imports World
begin

text \<open>
  The writers of the position plane and the vessel dimension (\<open>internal/store/store.go\<close>,
  \<open>internal/store/static.go\<close>): decimal rendering of micro-degrees, the partitioned position
  table, the latest-position upsert and the SCD-2 table of static reports.
\<close>

section \<open>Decimal rendering\<close>

definition renderMicros :: "int \<Rightarrow> string" where
  "renderMicros micros =
     (let negative = micros < 0;
          absolute = (if negative then - micros else micros);
          whole = absolute div 1000000;
          fraction = absolute mod 1000000;
          text = show_nat (nat whole) @ ''.'' @ show_padded 6 (nat fraction)
      in if negative then ''-'' @ text else text)"

definition pointWKT :: "int \<Rightarrow> int \<Rightarrow> string" where
  "pointWKT latitudeMicros longitudeMicros =
     ''POINT('' @ renderMicros longitudeMicros @ '' '' @ renderMicros latitudeMicros @ '')''"

section \<open>Positions\<close>

definition day_of :: "int \<Rightarrow> int" where
  "day_of t = t div (86400 * second)"

definition accuracy_or_unspecified :: "string \<Rightarrow> string" where
  "accuracy_or_unspecified a = (if a = [] then ''UNSPECIFIED'' else a)"

definition position_row_of :: "Position \<Rightarrow> position_row" where
  "position_row_of p =
     \<lparr>ro_Position = p, ro_Geom = pointWKT (po_LatitudeMicros p) (po_LongitudeMicros p),
      ro_Accuracy = accuracy_or_unspecified (po_PositionAccuracy p)\<rparr>"

text \<open>One multi-row INSERT: it fails as a whole when a row falls into a day without a partition.\<close>

definition InsertPositions :: "externals \<Rightarrow> Position list \<Rightarrow> unit geo" where
  "InsertPositions X positions =
     (if positions = [] then ret ()
      else if length positions > 1000 then raise (ErrText ''position batch exceeds the 1000-row insert bound'')
      else sql_exec X ''insert positions'' (\<lambda>d.
        if list_all (\<lambda>p. day_of (po_ObservedAt p) \<in> set (db_partitions d)) positions
        then Some (d\<lparr>db_positions := db_positions d @ map position_row_of positions\<rparr>)
        else None))"

definition EnsurePositionPartitions :: "externals \<Rightarrow> int list \<Rightarrow> unit geo" where
  "EnsurePositionPartitions X days =
     eachA (\<lambda>day. sql_exec X ''ensure position partition'' (\<lambda>d.
       Some (if day_of day \<in> set (db_partitions d) then d
             else d\<lparr>db_partitions := day_of day # db_partitions d\<rparr>))) days"

definition latest_row_of :: "Position \<Rightarrow> latest_row" where
  "latest_row_of p =
     \<lparr>la_PositionReportID = po_PositionReportID p, la_SourceClass = po_SourceClass p,
      la_Geom = pointWKT (po_LatitudeMicros p) (po_LongitudeMicros p),
      la_LatitudeMicros = po_LatitudeMicros p, la_LongitudeMicros = po_LongitudeMicros p,
      la_SpeedOverGroundMilliknots = po_SpeedOverGroundMilliknots p,
      la_CourseOverGroundMillidegrees = po_CourseOverGroundMillidegrees p,
      la_HeadingMillidegrees = po_HeadingMillidegrees p, la_NavStatus = po_NavStatus p,
      la_Classification = po_Classification p, la_ObservedAt = po_ObservedAt p\<rparr>"

text \<open>\<open>INSERT \<dots> ON CONFLICT DO UPDATE \<dots> WHERE EXCLUDED.observed_at > latest_positions.observed_at\<close>.\<close>

definition latest_upsert :: "identity \<Rightarrow> latest_row \<Rightarrow> (identity \<rightharpoonup> latest_row) \<Rightarrow> (identity \<rightharpoonup> latest_row)" where
  "latest_upsert i new m =
     (case m i of
        None \<Rightarrow> m(i \<mapsto> new)
      | Some old \<Rightarrow> if la_ObservedAt new > la_ObservedAt old then m(i \<mapsto> new) else m)"

definition UpsertLatestPosition :: "externals \<Rightarrow> Position \<Rightarrow> unit geo" where
  "UpsertLatestPosition X p =
     (if po_MMSI p \<noteq> []
      then sql_exec X ''upsert latest position mmsi'' (\<lambda>d.
             Some (d\<lparr>db_latest := latest_upsert (ByMMSI (po_MMSI p)) (latest_row_of p) (db_latest d)\<rparr>))
      else if po_VesselRef p = [] then raise (ErrText ''latest position upsert requires mmsi or vessel_ref'')
      else sql_exec X ''upsert latest position vessel_ref'' (\<lambda>d.
             Some (d\<lparr>db_latest := latest_upsert (ByVesselRef (po_VesselRef p)) (latest_row_of p) (db_latest d)\<rparr>)))"

text \<open>\<open>WithTenant\<close>: a transaction on the application pool with the tenant bound first.\<close>

definition WithTenant :: "externals \<Rightarrow> string \<Rightarrow> 'a geo \<Rightarrow> 'a geo" where
  "WithTenant X tenantID fn =
     (if trim_space tenantID = [] then raise (ErrText ''tenant id is required for tenant-scoped access'')
      else in_tx X ''tenant transaction'' (seqA (sql_exec X ''bind tenant'' Some) fn))"

definition require :: "bool \<Rightarrow> geo_error \<Rightarrow> unit geo" where
  "require b e = (if b then ret () else raise e)"

text \<open>\<open>UPDATE \<dots> WHERE key = $1\<close> on the visible rows, under a row constraint.\<close>

definition update_rows :: "('r \<Rightarrow> bool) \<Rightarrow> ('r \<Rightarrow> 'r) \<Rightarrow> ('r \<Rightarrow> bool) \<Rightarrow> 'r list \<Rightarrow> 'r list option" where
  "update_rows hit f allowed rows =
     (if \<exists>r\<in>set rows. hit r \<and> \<not> allowed (f r) then None
      else Some (map (\<lambda>r. if hit r then f r else r) rows))"

definition replace_row :: "('r \<Rightarrow> string) \<Rightarrow> 'r \<Rightarrow> 'r list \<Rightarrow> 'r list" where
  "replace_row ident r' rows = map (\<lambda>x. if ident x = ident r' then r' else x) rows"

section \<open>Static reports\<close>

definition same_static :: "StaticReport \<Rightarrow> StaticReport \<Rightarrow> bool" where
  "same_static a b \<longleftrightarrow>
     sp_IMO a = sp_IMO b \<and> sp_Callsign a = sp_Callsign b \<and> sp_ShipName a = sp_ShipName b
     \<and> sp_ShipTypeCode a = sp_ShipTypeCode b \<and> sp_DimensionBowM a = sp_DimensionBowM b
     \<and> sp_DimensionSternM a = sp_DimensionSternM b \<and> sp_DimensionPortM a = sp_DimensionPortM b
     \<and> sp_DimensionStarboardM a = sp_DimensionStarboardM b
     \<and> sp_DraughtMillimetres a = sp_DraughtMillimetres b \<and> sp_Destination a = sp_Destination b
     \<and> sp_EpfsType a = sp_EpfsType b"

definition open_row :: "string \<Rightarrow> static_row \<Rightarrow> bool" where
  "open_row m r \<longleftrightarrow> sp_MMSI (sw_Report r) = m \<and> sw_ValidTo r = None"

text \<open>
  \<open>WHERE mmsi = $1 AND valid_to IS NULL ORDER BY valid_from DESC LIMIT 1\<close>; the unique index on open
  rows makes it the only one.
\<close>

definition current_static :: "string \<Rightarrow> static_row list \<Rightarrow> static_row option" where
  "current_static m rows = (case filter (open_row m) rows of [] \<Rightarrow> None | r # _ \<Rightarrow> Some r)"

definition close_static :: "string \<Rightarrow> int \<Rightarrow> static_row list \<Rightarrow> static_row list" where
  "close_static ident t rows =
     map (\<lambda>r. if sp_StaticReportID (sw_Report r) = ident \<and> sw_ValidTo r = None
              then r\<lparr>sw_ValidTo := Some t\<rparr> else r) rows"

text \<open>The constraints of the table the statements run into: \<open>valid_to > valid_from\<close>, one open row per
  MMSI, and the primary key on (report id, valid_from).\<close>

definition static_constraints :: "static_row list \<Rightarrow> bool" where
  "static_constraints rows \<longleftrightarrow>
     (\<forall>r\<in>set rows. case sw_ValidTo r of None \<Rightarrow> True | Some t \<Rightarrow> sw_ValidFrom r < t)
     \<and> distinct (map (\<lambda>r. sp_MMSI (sw_Report r)) (filter (\<lambda>r. sw_ValidTo r = None) rows))
     \<and> distinct (map (\<lambda>r. (sp_StaticReportID (sw_Report r), sw_ValidFrom r)) rows)"

definition checked_static :: "db \<Rightarrow> static_row list \<Rightarrow> db option" where
  "checked_static d rows = (if static_constraints rows then Some (d\<lparr>db_static := rows\<rparr>) else None)"

definition UpsertVesselStatic :: "externals \<Rightarrow> StaticReport \<Rightarrow> bool geo" where
  "UpsertVesselStatic X report =
     (if sp_MMSI report = [] then raise (ErrText ''static report requires mmsi'')
      else let report = (if sp_EpfsType report = [] then report\<lparr>sp_EpfsType := ''UNSPECIFIED''\<rparr> else report) in
      in_tx X ''static upsert''
        (bindA (sql_query X ''read current static row'' (\<lambda>d. current_static (sp_MMSI report) (db_static d))) (\<lambda>current.
           let observed = sp_ObservedAt report in
           case current of
             None \<Rightarrow>
               seqA (sql_exec X ''insert static row'' (\<lambda>d.
                 checked_static d (db_static d @ [\<lparr>sw_Report = report, sw_ValidFrom = observed, sw_ValidTo = None\<rparr>])))
                 (ret True)
           | Some c \<Rightarrow>
               if same_static (sw_Report c) report then ret True
               else if \<not> observed > sw_ValidFrom c then ret False
               else seqA (sql_exec X ''close static row'' (\<lambda>d.
                      checked_static d (close_static (sp_StaticReportID (sw_Report c)) observed (db_static d))))
                    (seqA (sql_exec X ''insert static row'' (\<lambda>d.
                      checked_static d (db_static d @ [\<lparr>sw_Report = report, sw_ValidFrom = observed, sw_ValidTo = None\<rparr>])))
                    (ret True)))))"

section \<open>What a transaction may touch\<close>

definition tables_only :: "world \<Rightarrow> world \<Rightarrow> bool" where
  "tables_only w w' \<longleftrightarrow> w' = w\<lparr>w_tick := w_tick w', w_db := w_db w'\<rparr>"

lemma tables_only_refl [simp]: "tables_only w w"
  by (simp add: tables_only_def)

lemma tables_only_simps [simp]:
  "tables_only w (v\<lparr>w_tick := n\<rparr>) = tables_only w v"
  "tables_only w (v\<lparr>w_db := d\<rparr>) = tables_only w v"
  by (cases w; cases v; simp add: tables_only_def)+

lemma tables_only_trans: "tables_only u v \<Longrightarrow> tables_only v w \<Longrightarrow> tables_only u w"
  unfolding tables_only_def by (cases u; cases v; cases w) simp

lemma tables_only_kafka: "tables_only w w' \<Longrightarrow> w_kafka w' = w_kafka w"
  unfolding tables_only_def by (metis world.select_convs(8) world.surjective world.update_convs(1,2))

text \<open>A transaction whose body is described on the tables it starts from.\<close>

lemma WithTenant_tables:
  assumes "\<And>v. tables_only w v \<Longrightarrow> w_db v = w_db w \<Longrightarrow>
      wp m (\<lambda>r w'. tables_only w w' \<and> Q r (w_db w')) (\<lambda>_. tables_only w) v"
  shows "wp (WithTenant X t m)
     (\<lambda>r w'. tables_only w w' \<and> trim_space t \<noteq> [] \<and> Q r (w_db w')) (\<lambda>_ w'. tables_only w w' \<and> w_db w' = w_db w) w"
  unfolding WithTenant_def
  by (auto simp: wp_simps intro!: wp_mono [OF assms])

lemma require_wp [wp_simps]: "wp (require b e) Q E = (\<lambda>w. if b then Q () w else E e w)"
  by (auto simp: require_def wp_simps)

section \<open>Facts about rendering\<close>

text \<open>Reading a rendered coordinate back: sign, whole part, six fraction digits.\<close>

definition read_micros :: "string \<Rightarrow> int" where
  "read_micros s =
     (let negative = (s \<noteq> [] \<and> hd s = CHR ''-'');
          body = (if negative then tl s else s);
          whole = takeWhile (\<lambda>c. c \<noteq> CHR ''.'') body;
          frac = tl (dropWhile (\<lambda>c. c \<noteq> CHR ''.'') body);
          v = int (read_nat whole * 1000000 + read_nat frac)
      in if negative then - v else v)"

lemma digit_not_special:
  "is_digit c \<Longrightarrow> c \<noteq> CHR ''.'' \<and> c \<noteq> CHR ''-'' \<and> c \<noteq> CHR '' '' \<and> c \<noteq> CHR '')''"
  by (auto simp: is_digit_def Let_def)

lemma takeWhile_show: "takeWhile (\<lambda>c. c \<noteq> CHR ''.'') (show_nat n @ ''.'' @ s) = show_nat n"
proof -
  have "\<forall>c\<in>set (show_nat n). c \<noteq> CHR ''.''" using show_nat_digits digit_not_special by blast
  then show ?thesis by (simp add: takeWhile_append2)
qed

lemma dropWhile_show: "dropWhile (\<lambda>c. c \<noteq> CHR ''.'') (show_nat n @ ''.'' @ s) = ''.'' @ s"
proof -
  have "\<forall>c\<in>set (show_nat n). c \<noteq> CHR ''.''" using show_nat_digits digit_not_special by blast
  then show ?thesis by (simp add: dropWhile_append2)
qed

lemma show_nat_head: "hd (show_nat n) \<noteq> CHR ''-''"
proof -
  have "hd (show_nat n) \<in> set (show_nat n)" by (rule hd_in_set) simp
  then show ?thesis using show_nat_digits digit_not_special by blast
qed

definition decimal_text :: "nat \<Rightarrow> string" where
  "decimal_text n = show_nat (n div 1000000) @ ''.'' @ show_padded 6 (n mod 1000000)"

lemma decimal_text_parts:
  "takeWhile (\<lambda>c. c \<noteq> CHR ''.'') (decimal_text n) = show_nat (n div 1000000)"
  "tl (dropWhile (\<lambda>c. c \<noteq> CHR ''.'') (decimal_text n)) = show_padded 6 (n mod 1000000)"
  "decimal_text n \<noteq> [] \<and> hd (decimal_text n) \<noteq> CHR ''-''"
  unfolding decimal_text_def takeWhile_show dropWhile_show using show_nat_head by simp_all

lemma renderMicros_text:
  "renderMicros m = (if m < 0 then CHR ''-'' # decimal_text (nat (- m)) else decimal_text (nat m))"
  by (simp add: renderMicros_def decimal_text_def Let_def nat_div_distrib nat_mod_distrib)

lemma read_render_micros [simp]: "read_micros (renderMicros m) = m"
proof -
  have v: "int (n div 1000000) * 1000000 + int (n mod 1000000) = int n" for n :: nat
    by (simp add: zdiv_int zmod_int)
  show ?thesis
  proof (cases "m < 0")
    case True
    then show ?thesis
      using decimal_text_parts [of "nat (- m)"] v [of "nat (- m)"]
      by (simp add: renderMicros_text read_micros_def)
  next
    case False
    then show ?thesis
      using decimal_text_parts [of "nat m"] v [of "nat m"]
      by (simp add: renderMicros_text read_micros_def)
  qed
qed

lemma decimal_text_plain: "c \<in> set (decimal_text n) \<Longrightarrow> c \<noteq> CHR '' '' \<and> c \<noteq> CHR '')''"
proof -
  assume "c \<in> set (decimal_text n)"
  then consider "c \<in> set (show_nat (n div 1000000))" | "c = CHR ''.''" | "c = CHR ''0''"
    | "c \<in> set (show_nat (n mod 1000000))"
    by (auto simp: decimal_text_def show_padded_def Let_def)
  then show ?thesis using show_nat_digits digit_not_special by cases auto
qed

lemma renderMicros_plain: "c \<in> set (renderMicros m) \<Longrightarrow> c \<noteq> CHR '' '' \<and> c \<noteq> CHR '')''"
  using decimal_text_plain by (auto simp: renderMicros_text split: if_splits)

text \<open>Reading a point text back: the two coordinates, longitude first.\<close>

definition read_point :: "string \<Rightarrow> int \<times> int" where
  "read_point s =
     (let body = drop 6 s;
          lon = takeWhile (\<lambda>c. c \<noteq> CHR '' '') body;
          lat = takeWhile (\<lambda>c. c \<noteq> CHR '')'') (tl (dropWhile (\<lambda>c. c \<noteq> CHR '' '') body))
      in (read_micros lat, read_micros lon))"

lemma read_pointWKT: "read_point (pointWKT lat lon) = (lat, lon)"
proof -
  have a: "\<forall>c\<in>set (renderMicros lon). c \<noteq> CHR '' ''" "\<forall>c\<in>set (renderMicros lat). c \<noteq> CHR '')''"
    using renderMicros_plain by blast+
  have d: "drop 6 (pointWKT lat lon) = renderMicros lon @ CHR '' '' # renderMicros lat @ '')''"
    by (simp add: pointWKT_def)
  show ?thesis unfolding read_point_def d Let_def using a
    by (simp add: takeWhile_append2 dropWhile_append2)
qed

section \<open>Facts about the latest position\<close>

lemma latest_upsert_other: "j \<noteq> i \<Longrightarrow> latest_upsert i r m j = m j"
  by (simp add: latest_upsert_def split: option.split)

text \<open>The specification of the hot row: the first of the reports with the greatest observation time.\<close>

fun newest :: "latest_row option \<Rightarrow> latest_row list \<Rightarrow> latest_row option" where
  "newest acc [] = acc"
| "newest acc (r # rs) =
     newest (case acc of None \<Rightarrow> Some r
             | Some q \<Rightarrow> if la_ObservedAt r > la_ObservedAt q then Some r else Some q) rs"

definition identity_of :: "Position \<Rightarrow> identity option" where
  "identity_of p =
     (if po_MMSI p \<noteq> [] then Some (ByMMSI (po_MMSI p))
      else if po_VesselRef p = [] then None else Some (ByVesselRef (po_VesselRef p)))"

fun upsert_all :: "Position list \<Rightarrow> (identity \<rightharpoonup> latest_row) \<Rightarrow> (identity \<rightharpoonup> latest_row)" where
  "upsert_all [] m = m"
| "upsert_all (p # ps) m =
     upsert_all ps (case identity_of p of None \<Rightarrow> m | Some i \<Rightarrow> latest_upsert i (latest_row_of p) m)"

lemma UpsertLatestPosition_db:
  assumes "UpsertLatestPosition X p w = (w', Inr u)"
  shows "\<exists>i. identity_of p = Some i \<and> db_latest (w_db w') = latest_upsert i (latest_row_of p) (db_latest (w_db w))"
  using assms
  by (auto simp: UpsertLatestPosition_def identity_of_def sql_exec_def sql_def asks_def run_simps
      split: if_splits)

lemma upsert_all_newest:
  "upsert_all ps m i = newest (m i) (map latest_row_of (filter (\<lambda>p. identity_of p = Some i) ps))"
proof (induction ps arbitrary: m)
  case (Cons p ps)
  show ?case
  proof (cases "identity_of p = Some i")
    case True
    then show ?thesis using Cons by (simp add: latest_upsert_def split: option.split)
  next
    case False
    then show ?thesis using Cons by (auto simp: latest_upsert_other split: option.split)
  qed
qed simp

lemma newest_max:
  "newest acc rs = Some r \<Longrightarrow>
     (\<forall>s\<in>set rs. la_ObservedAt s \<le> la_ObservedAt r) \<and> (\<forall>q. acc = Some q \<longrightarrow> la_ObservedAt q \<le> la_ObservedAt r)
     \<and> (r \<in> set rs \<or> acc = Some r)"
proof (induction rs arbitrary: acc)
  case (Cons s rs)
  let ?acc = "case acc of None \<Rightarrow> Some s | Some q \<Rightarrow> if la_ObservedAt s > la_ObservedAt q then Some s else Some q"
  from Cons.IH [of ?acc] Cons.prems show ?case
    by (auto split: option.splits if_splits)
qed simp

section \<open>Facts about static reports\<close>

text \<open>
  The history of one vessel: its rows in the order of insertion form a gap-free chain of validity
  intervals, only the last one open.
\<close>

fun chain :: "static_row list \<Rightarrow> bool" where
  "chain [] = True"
| "chain [r] = (sw_ValidTo r = None)"
| "chain (r # s # rs) =
     (sw_ValidTo r = Some (sw_ValidFrom s) \<and> sw_ValidFrom r < sw_ValidFrom s \<and> chain (s # rs))"

definition rows_of :: "string \<Rightarrow> static_row list \<Rightarrow> static_row list" where
  "rows_of m rows = filter (\<lambda>r. sp_MMSI (sw_Report r) = m) rows"

definition static_inv :: "static_row list \<Rightarrow> bool" where
  "static_inv rows \<longleftrightarrow>
     distinct (map (\<lambda>r. sp_StaticReportID (sw_Report r)) rows) \<and> (\<forall>m. chain (rows_of m rows))"

lemma chain_open: "chain xs \<Longrightarrow> filter (\<lambda>r. sw_ValidTo r = None) xs = (if xs = [] then [] else [last xs])"
  by (induction xs rule: chain.induct) auto

lemma chain_last: "chain xs \<Longrightarrow> xs \<noteq> [] \<Longrightarrow> sw_ValidTo (last xs) = None"
  by (induction xs rule: chain.induct) auto

lemma chain_butlast: "chain xs \<Longrightarrow> filter (\<lambda>r. sw_ValidTo r = None) (butlast xs) = []"
  by (induction xs rule: chain.induct) auto

lemma chain_extend:
  "chain xs \<Longrightarrow> xs \<noteq> [] \<Longrightarrow> sw_ValidFrom (last xs) < sw_ValidFrom n \<Longrightarrow> sw_ValidTo n = None \<Longrightarrow>
     chain (butlast xs @ [last xs\<lparr>sw_ValidTo := Some (sw_ValidFrom n)\<rparr>, n])"
proof (induction xs rule: chain.induct)
  case (3 r s rs)
  then show ?case by (cases rs) auto
qed auto

lemma open_rows_of: "filter (open_row m) rows = filter (\<lambda>r. sw_ValidTo r = None) (rows_of m rows)"
  by (induction rows) (auto simp: open_row_def rows_of_def)

lemma current_static_chain:
  assumes "static_inv rows" "current_static m rows = Some c"
  shows "rows_of m rows \<noteq> []" "c = last (rows_of m rows)" "c \<in> set rows" "sp_MMSI (sw_Report c) = m"
    "sw_ValidTo c = None"
proof -
  note open_rows_of [of m rows]
  moreover have "chain (rows_of m rows)" using assms(1) by (simp add: static_inv_def)
  ultimately show ne: "rows_of m rows \<noteq> []" and c: "c = last (rows_of m rows)"
    using assms(2) chain_open by (auto simp: current_static_def split: list.splits if_splits)
  then have "c \<in> set (rows_of m rows)" by simp
  then show "c \<in> set rows" "sp_MMSI (sw_Report c) = m" by (auto simp: rows_of_def)
  show "sw_ValidTo c = None" using chain_last [OF \<open>chain (rows_of m rows)\<close> ne] c by simp
qed

lemma current_static_None:
  assumes "static_inv rows" "current_static m rows = None"
  shows "rows_of m rows = []"
proof -
  have "filter (\<lambda>r. sw_ValidTo r = None) (rows_of m rows) = []"
    using assms(2) by (auto simp: current_static_def open_rows_of split: list.splits)
  moreover have "chain (rows_of m rows)" using assms(1) by (simp add: static_inv_def)
  ultimately show ?thesis using chain_open by (metis list.distinct(1))
qed

text \<open>With distinct report ids, closing by report id touches the current row only.\<close>

lemma distinct_map_eq: "distinct (map f xs) \<Longrightarrow> x \<in> set xs \<Longrightarrow> y \<in> set xs \<Longrightarrow> f x = f y \<Longrightarrow> x = y"
  by (metis distinct_map inj_onD)

lemma map_last:
  assumes "xs \<noteq> []" "\<forall>x\<in>set (butlast xs). f x = x"
  shows "map f xs = butlast xs @ [f (last xs)]"
proof -
  have "map f xs = map f (butlast xs @ [last xs])" using assms(1) by simp
  also have "\<dots> = butlast xs @ [f (last xs)]" using assms(2) by (simp add: map_idI)
  finally show ?thesis .
qed

lemma close_static_rows_of:
  assumes inv: "static_inv rows" and cur: "current_static m rows = Some c"
  shows "rows_of k (close_static (sp_StaticReportID (sw_Report c)) t rows) =
     (if k = m then butlast (rows_of m rows) @ [c\<lparr>sw_ValidTo := Some t\<rparr>] else rows_of k rows)"
proof -
  let ?f = "\<lambda>r. if sp_StaticReportID (sw_Report r) = sp_StaticReportID (sw_Report c) \<and> sw_ValidTo r = None
              then r\<lparr>sw_ValidTo := Some t\<rparr> else r"
  have ids: "distinct (map (\<lambda>r. sp_StaticReportID (sw_Report r)) rows)" using inv by (simp add: static_inv_def)
  note c = current_static_chain [OF inv cur]
  have f: "?f r = (if r = c then c\<lparr>sw_ValidTo := Some t\<rparr> else r)" if "r \<in> set rows" for r
    using distinct_map_eq [OF ids that c(3)] c(5) by auto
  have "rows_of k (close_static (sp_StaticReportID (sw_Report c)) t rows) = map ?f (rows_of k rows)"
    unfolding rows_of_def close_static_def by (induction rows) auto
  also have "\<dots> = (if k = m then butlast (rows_of m rows) @ [c\<lparr>sw_ValidTo := Some t\<rparr>] else rows_of k rows)"
  proof (cases "k = m")
    case False
    then have "\<forall>r\<in>set (rows_of k rows). ?f r = r" using f c(4) by (auto simp: rows_of_def)
    with False show ?thesis by (simp add: map_idI)
  next
    case True
    have "distinct (rows_of m rows)" using ids by (auto simp: rows_of_def distinct_map intro: distinct_filter)
    then have "c \<notin> set (butlast (rows_of m rows))" using c(1,2)
      by (metis append_butlast_last_id distinct_append disjoint_iff list.set_intros(1))
    then have "\<forall>r\<in>set (butlast (rows_of m rows)). ?f r = r"
      using f by (metis (no_types, lifting) in_set_butlastD filter_is_subset rows_of_def subsetD)
    from map_last [OF c(1) this] True f [OF c(3)] show ?thesis by (simp add: c(2) [symmetric] c(5))
  qed
  finally show ?thesis .
qed

lemma close_static_ids:
  "map (\<lambda>r. sp_StaticReportID (sw_Report r)) (close_static i t rows) = map (\<lambda>r. sp_StaticReportID (sw_Report r)) rows"
  by (simp add: close_static_def comp_def)

text \<open>What a successful upsert leaves in the table.\<close>

lemma UpsertVesselStatic_db:
  assumes "UpsertVesselStatic X report w = (w', Inr applied)"
  defines "rep \<equiv> (if sp_EpfsType report = [] then report\<lparr>sp_EpfsType := ''UNSPECIFIED''\<rparr> else report)"
  defines "new \<equiv> \<lparr>sw_Report = rep, sw_ValidFrom = sp_ObservedAt rep, sw_ValidTo = None\<rparr>"
  shows "case current_static (sp_MMSI rep) (db_static (w_db w)) of
       None \<Rightarrow> applied \<and> db_static (w_db w') = db_static (w_db w) @ [new]
     | Some c \<Rightarrow>
         if same_static (sw_Report c) rep then applied \<and> w_db w' = w_db w
         else if \<not> sp_ObservedAt rep > sw_ValidFrom c then \<not> applied \<and> w_db w' = w_db w
         else applied \<and> db_static (w_db w') =
           close_static (sp_StaticReportID (sw_Report c)) (sp_ObservedAt rep) (db_static (w_db w)) @ [new]"
proof -
  have "sp_MMSI report \<noteq> []" using assms(1) by (auto simp: UpsertVesselStatic_def raise_def)
  with assms(1) obtain w1 w2 where eq: "w_db w1 = w_db w" "w_db w' = w_db w2" and body:
    "bindA (sql_query X ''read current static row'' (\<lambda>d. current_static (sp_MMSI rep) (db_static d))) (\<lambda>current.
           let observed = sp_ObservedAt rep in
           case current of
             None \<Rightarrow>
               seqA (sql_exec X ''insert static row'' (\<lambda>d. checked_static d (db_static d @ [new]))) (ret True)
           | Some c \<Rightarrow>
               if same_static (sw_Report c) rep then ret True
               else if \<not> observed > sw_ValidFrom c then ret False
               else seqA (sql_exec X ''close static row'' (\<lambda>d.
                      checked_static d (close_static (sp_StaticReportID (sw_Report c)) observed (db_static d))))
                    (seqA (sql_exec X ''insert static row'' (\<lambda>d. checked_static d (db_static d @ [new])))
                    (ret True))) w1 = (w2, Inr applied)"
    unfolding UpsertVesselStatic_def rep_def new_def Let_def by (auto elim: in_tx_Inr)
  have chk: "checked_static d rows = Some d' \<Longrightarrow> db_static d' = rows" for d d' rows
    by (auto simp: checked_static_def split: if_splits)
  from body obtain w3 cur where q: "cur = current_static (sp_MMSI rep) (db_static (w_db w))" "w_db w3 = w_db w"
    and k: "(let observed = sp_ObservedAt rep in
           case cur of
             None \<Rightarrow>
               seqA (sql_exec X ''insert static row'' (\<lambda>d. checked_static d (db_static d @ [new]))) (ret True)
           | Some c \<Rightarrow>
               if same_static (sw_Report c) rep then ret True
               else if \<not> observed > sw_ValidFrom c then ret False
               else seqA (sql_exec X ''close static row'' (\<lambda>d.
                      checked_static d (close_static (sp_StaticReportID (sw_Report c)) observed (db_static d))))
                    (seqA (sql_exec X ''insert static row'' (\<lambda>d. checked_static d (db_static d @ [new])))
                    (ret True))) w3 = (w2, Inr applied)"
    using eq by (auto simp: bindA_Inr dest: sql_query_db)
  show ?thesis
    using k q(2) unfolding q(1) Let_def eq(2)
    by (auto simp: seqA_Inr ret_def dest!: sql_exec_db(1) chk split: option.splits if_splits)
qed

lemma static_inv_append_new:
  assumes "static_inv rows" "rows_of (sp_MMSI (sw_Report n)) rows = []" "sw_ValidTo n = None"
    and "sp_StaticReportID (sw_Report n) \<notin> (\<lambda>r. sp_StaticReportID (sw_Report r)) ` set rows"
  shows "static_inv (rows @ [n])"
  using assms by (auto simp: static_inv_def rows_of_def)

lemma static_inv_replace:
  assumes inv: "static_inv rows" and cur: "current_static (sp_MMSI (sw_Report n)) rows = Some c"
    and "sw_ValidFrom c < sw_ValidFrom n" "sw_ValidTo n = None"
    and "sp_StaticReportID (sw_Report n) \<notin> (\<lambda>r. sp_StaticReportID (sw_Report r)) ` set rows"
  shows "static_inv (close_static (sp_StaticReportID (sw_Report c)) (sw_ValidFrom n) rows @ [n])"
proof -
  let ?m = "sp_MMSI (sw_Report n)"
  let ?rows = "close_static (sp_StaticReportID (sw_Report c)) (sw_ValidFrom n) rows"
  note c = current_static_chain [OF inv cur]
  have ids: "distinct (map (\<lambda>r. sp_StaticReportID (sw_Report r)) (?rows @ [n]))"
    using inv assms(5) by (simp add: close_static_ids static_inv_def)
  have "chain (rows_of k (?rows @ [n]))" for k
  proof (cases "k = ?m")
    case True
    have "rows_of ?m (?rows @ [n]) = butlast (rows_of ?m rows) @ [c\<lparr>sw_ValidTo := Some (sw_ValidFrom n)\<rparr>, n]"
      using close_static_rows_of [OF inv cur, of ?m] by (simp add: rows_of_def)
    with chain_extend [of "rows_of ?m rows" n] True inv c(1,2) assms(3,4) show ?thesis
      by (simp add: static_inv_def)
  next
    case False
    then have "rows_of k (?rows @ [n]) = rows_of k rows"
      using close_static_rows_of [OF inv cur, of k] by (simp add: rows_of_def)
    with inv show ?thesis by (simp add: static_inv_def)
  qed
  with ids show ?thesis by (simp add: static_inv_def)
qed

section \<open>Properties\<close>

text \<open>
  The geography text written for a position denotes exactly its fixed-point coordinates: reading
  the decimal text back gives the same micro-degrees, longitude first, for every value and sign.
\<close>

theorem pointWKT_round_trip:
  "read_point (pointWKT lat lon) = (lat, lon) \<and> (\<forall>m. read_micros (renderMicros m) = m)"
  by (simp add: read_pointWKT)

text \<open>
  The hot row of a vessel is the newest report: after any sequence of upserts the row of an
  identity is a report of that identity with the greatest observation time, and a single call performs exactly one such upsert.
\<close>

theorem latest_position_is_newest:
  assumes "upsert_all ps Map.empty i = Some r"
  shows "(\<exists>p\<in>set ps. identity_of p = Some i \<and> r = latest_row_of p)
    \<and> (\<forall>p\<in>set ps. identity_of p = Some i \<longrightarrow> po_ObservedAt p \<le> la_ObservedAt r)
    \<and> (\<forall>X p w w'. UpsertLatestPosition X p w = (w', Inr ()) \<longrightarrow>
         db_latest (w_db w') = upsert_all [p] (db_latest (w_db w)))"
proof -
  let ?rs = "map latest_row_of (filter (\<lambda>p. identity_of p = Some i) ps)"
  have n: "newest None ?rs = Some r" using assms by (simp add: upsert_all_newest)
  have ob: "la_ObservedAt (latest_row_of p) = po_ObservedAt p" for p by (simp add: latest_row_of_def)
  show ?thesis
    using newest_max [OF n] UpsertLatestPosition_db by (fastforce simp: ob)
qed

definition sample_position :: "int \<Rightarrow> Position" where
  "sample_position t =
     \<lparr>po_PositionReportID = ''pos-1'', po_MMSI = ''657123456'', po_VesselRef = [], po_SourceClass = ''AIS'',
      po_LatitudeMicros = 6400000, po_LongitudeMicros = 3400000, po_SpeedOverGroundMilliknots = Some 12000,
      po_CourseOverGroundMillidegrees = Some 90000, po_HeadingMillidegrees = None, po_NavStatus = None,
      po_PositionAccuracy = [], po_ReceiverID = ''rx-1'', po_AISMessageType = Some 1, po_IMO = [],
      po_Callsign = [], po_ShipName = [], po_Classification = ClassificationPublic, po_ObservedAt = t\<rparr>"

theorem latest_position_is_newest_witness:
  "\<exists>r. upsert_all [sample_position 5, sample_position 9, sample_position 7] Map.empty (ByMMSI ''657123456'') = Some r
     \<and> 9 \<le> la_ObservedAt r"
proof -
  have i: "identity_of (sample_position t) = Some (ByMMSI ''657123456'')" for t
    by (simp add: identity_of_def sample_position_def)
  have ob: "la_ObservedAt (latest_row_of (sample_position t)) = t" for t
    by (simp add: latest_row_of_def sample_position_def)
  have "upsert_all [sample_position 5, sample_position 9, sample_position 7] Map.empty (ByMMSI ''657123456'')
      = Some (latest_row_of (sample_position 9))"
    unfolding upsert_all_newest by (simp add: i ob)
  then have r: "upsert_all [sample_position 5, sample_position 9, sample_position 7] Map.empty (ByMMSI ''657123456'')
      = Some (latest_row_of (sample_position 9))" .
  have "po_ObservedAt (sample_position 9) \<le> la_ObservedAt (latest_row_of (sample_position 9))"
    using latest_position_is_newest [OF r] i by simp
  with r show ?thesis by (simp add: ob)
qed


definition sample_static :: "string \<Rightarrow> string \<Rightarrow> int \<Rightarrow> StaticReport" where
  "sample_static ident name t =
     \<lparr>sp_StaticReportID = ident, sp_MMSI = ''657123456'', sp_IMO = [], sp_Callsign = [], sp_ShipName = name,
      sp_ShipTypeCode = 70, sp_DimensionBowM = 0, sp_DimensionSternM = 0, sp_DimensionPortM = 0,
      sp_DimensionStarboardM = 0, sp_DraughtMillimetres = 0, sp_Destination = [], sp_ETA = None,
      sp_EpfsType = ''GPS'', sp_SourceClass = ''AIS'', sp_Classification = ClassificationPublic, sp_ObservedAt = t\<rparr>"

lemma sample_applied:
  "case UpsertVesselStatic calm (sample_static ''s2'' ''B'' 20) (empty_world\<lparr>w_db := empty_db\<lparr>db_static :=
         [\<lparr>sw_Report = sample_static ''s1'' ''A'' 10, sw_ValidFrom = 10, sw_ValidTo = None\<rparr>]\<rparr>\<rparr>) of
     (w', r) \<Rightarrow> (case r of Inr applied \<Rightarrow> applied | Inl _ \<Rightarrow> False)"
  by code_simp


text \<open>
  A re-report that differs from the current row only in ETA, source class or classification is
  absorbed as identical: it is reported as applied, nothing is written, and the current row keeps
  the old ETA and the old classification.
\<close>

theorem UpsertVesselStatic_ignores_eta_and_classification:
  assumes "current_static (sp_MMSI report) (db_static (w_db w)) = Some c"
    and "same_static (sw_Report c) report" and "sp_EpfsType report \<noteq> []"
    and "UpsertVesselStatic X report w = (w', Inr applied)"
  shows "applied \<and> w_db w' = w_db w
    \<and> current_static (sp_MMSI report) (db_static (w_db w')) = Some c"
  using UpsertVesselStatic_db [OF assms(4)] assms(1-3) by simp

theorem UpsertVesselStatic_ignores_eta_and_classification_witness:
  "\<exists>w'. UpsertVesselStatic calm
      (sample_static ''s2'' ''A'' 20\<lparr>sp_ETA := Some 99, sp_Classification := ClassificationSecret\<rparr>)
      (empty_world\<lparr>w_db := empty_db\<lparr>db_static :=
         [\<lparr>sw_Report = sample_static ''s1'' ''A'' 10, sw_ValidFrom = 10, sw_ValidTo = None\<rparr>]\<rparr>\<rparr>) = (w', Inr True)
    \<and> current_static ''657123456'' (db_static (w_db w')) =
       Some \<lparr>sw_Report = sample_static ''s1'' ''A'' 10, sw_ValidFrom = 10, sw_ValidTo = None\<rparr>"
proof -
  let ?row = "\<lparr>sw_Report = sample_static ''s1'' ''A'' 10, sw_ValidFrom = 10, sw_ValidTo = None\<rparr>"
  let ?w = "empty_world\<lparr>w_db := empty_db\<lparr>db_static := [?row]\<rparr>\<rparr>"
  let ?rep = "sample_static ''s2'' ''A'' 20\<lparr>sp_ETA := Some 99, sp_Classification := ClassificationSecret\<rparr>"
  have m: "sp_MMSI ?rep = ''657123456''" by (simp add: sample_static_def)
  have cur: "current_static (sp_MMSI ?rep) (db_static (w_db ?w)) = Some ?row"
    by (simp add: current_static_def open_row_def sample_static_def)
  have same: "same_static (sw_Report ?row) ?rep" "sp_EpfsType ?rep \<noteq> []"
    by (simp_all add: same_static_def sample_static_def)
  obtain w' where run: "UpsertVesselStatic calm ?rep ?w = (w', Inr True)"
    using cur same
    by (simp add: UpsertVesselStatic_def in_tx_def rolls_back_def calm_calls run_simps m Let_def)
  with UpsertVesselStatic_ignores_eta_and_classification [OF cur same run] m show ?thesis by auto
qed

end
