(* ===== verification/App_Store.thy ===== *)
theory App_Store
  imports Store_Tables
begin

text \<open>
  Mobile reports and distress alerts (\<open>internal/store/app.go\<close>): the device-outbox idempotency
  contract of \<open>InsertAppReport\<close> and \<open>InsertSOSAlert\<close>, and the lifecycle of an alert.

  Both inserts follow one contract, stated as the locale \<open>outbox_table\<close>: its laws are what the
  two statements (an INSERT that does nothing on a taken key, then a comparison with the existing
  row) promise, its lemmas what every user of such a table may rely on.
\<close>

section \<open>States\<close>

definition RAISED :: string where "RAISED = ''RAISED''"
definition ACKNOWLEDGED :: string where "ACKNOWLEDGED = ''ACKNOWLEDGED''"
definition RESOLVED :: string where "RESOLVED = ''RESOLVED''"

lemma sos_states_neq [simp]:
  "RAISED \<noteq> ACKNOWLEDGED" "RAISED \<noteq> RESOLVED" "ACKNOWLEDGED \<noteq> RESOLVED"
  "ACKNOWLEDGED \<noteq> RAISED" "RESOLVED \<noteq> RAISED" "RESOLVED \<noteq> ACKNOWLEDGED"
  by (simp_all add: RAISED_def ACKNOWLEDGED_def RESOLVED_def)

section \<open>Outbox inserts\<close>

definition app_key :: "AppReport \<Rightarrow> string \<times> string" where
  "app_key r = (ar_ReporterID r, ar_OutboxID r)"

definition sos_key :: "SOSAlert \<Rightarrow> string \<times> string" where
  "sos_key a = (so_ReporterID a, so_OutboxID a)"

text \<open>The rows affected by \<open>INSERT \<dots> ON CONFLICT (reporter_id, outbox_id) DO NOTHING\<close>; a taken primary
  key is a constraint violation.\<close>

definition insert_app_row :: "AppReport \<Rightarrow> db \<Rightarrow> (db \<times> nat) option" where
  "insert_app_row r d =
     (if app_key r \<in> app_key ` set (db_app_reports d) then Some (d, 0)
      else if ar_PositionReportID r \<in> ar_PositionReportID ` set (db_app_reports d) then None
      else Some (d\<lparr>db_app_reports := db_app_reports d @ [r]\<rparr>, 1))"

text \<open>
  The two statements both inserts issue: the INSERT, and when it affected no row the comparison with
  the row that holds the key.
\<close>

definition outbox_insert ::
  "externals \<Rightarrow> string \<Rightarrow> (db \<Rightarrow> (db \<times> nat) option) \<Rightarrow> (db \<Rightarrow> 'r option) \<Rightarrow> ('r \<Rightarrow> bool) \<Rightarrow> bool geo" where
  "outbox_insert X label ins existing identical =
     bindA (sql X (''insert '' @ label) ins) (\<lambda>n.
       if n = 1 then ret True
       else bindA (sql_query X (''read existing '' @ label) existing) (\<lambda>row.
         case row of
           None \<Rightarrow> raise ErrNoRows
         | Some r \<Rightarrow> if identical r then ret False else raise ErrDuplicateOutbox))"

definition InsertAppReport :: "externals \<Rightarrow> AppReport \<Rightarrow> bool geo" where
  "InsertAppReport X report =
     (let classification = (if ar_Classification report = [] then ''PUBLIC'' else ar_Classification report) in
      outbox_insert X ''app report''
        (insert_app_row (report\<lparr>ar_Classification := classification\<rparr>))
        (\<lambda>d. find (\<lambda>r. app_key r = app_key report) (db_app_reports d))
        (\<lambda>r. ar_PositionReportID r = ar_PositionReportID report
             \<and> ar_VesselReference r = ar_VesselReference report
             \<and> ar_LatitudeMicros r = ar_LatitudeMicros report
             \<and> ar_LongitudeMicros r = ar_LongitudeMicros report
             \<and> ar_RecordedAt r = ar_RecordedAt report))"

text \<open>\<open>now()\<close> of the database stamps the reception.\<close>

definition new_sos_row :: "SOSAlert \<Rightarrow> int \<Rightarrow> SOSRow" where
  "new_sos_row a now =
     \<lparr>ss_Alert = a, ss_State = RAISED, ss_ReceivedAt = now, ss_AcknowledgedBy = None,
      ss_AcknowledgedAt = None, ss_AcknowledgeNote = None, ss_ResolvedBy = None, ss_ResolvedAt = None,
      ss_ResolveNote = None\<rparr>"

definition insert_sos_row :: "SOSAlert \<Rightarrow> int \<Rightarrow> db \<Rightarrow> (db \<times> nat) option" where
  "insert_sos_row a now d =
     (if sos_key a \<in> (\<lambda>r. sos_key (ss_Alert r)) ` set (db_sos d) then Some (d, 0)
      else if so_SosAlertID a \<in> (\<lambda>r. so_SosAlertID (ss_Alert r)) ` set (db_sos d) then None
      else Some (d\<lparr>db_sos := db_sos d @ [new_sos_row a now]\<rparr>, 1))"

definition InsertSOSAlert :: "externals \<Rightarrow> SOSAlert \<Rightarrow> bool geo" where
  "InsertSOSAlert X alert =
     (if so_Classification alert \<notin> {ClassificationRestricted, ClassificationConfidential, ClassificationSecret}
      then raise (ErrText ''sos alert classification floor is RESTRICTED'')
      else if length (so_FreeText alert) > 280 then raise (ErrText ''sos free_text exceeds 280 characters'')
      else bindA (clock X) (\<lambda>now.
        outbox_insert X ''sos alert'' (insert_sos_row alert now)
          (\<lambda>d. find (\<lambda>r. sos_key (ss_Alert r) = sos_key alert) (db_sos d))
          (\<lambda>r. so_SosAlertID (ss_Alert r) = so_SosAlertID alert
               \<and> so_VesselReference (ss_Alert r) = so_VesselReference alert
               \<and> so_LatitudeMicros (ss_Alert r) = so_LatitudeMicros alert
               \<and> so_LongitudeMicros (ss_Alert r) = so_LongitudeMicros alert)))"

section \<open>The lifecycle of an alert\<close>

definition acknowledge_row :: "string \<Rightarrow> string \<Rightarrow> int \<Rightarrow> SOSRow \<Rightarrow> SOSRow" where
  "acknowledge_row actor note now r =
     r\<lparr>ss_State := ACKNOWLEDGED, ss_AcknowledgedBy := Some actor, ss_AcknowledgedAt := Some now,
       ss_AcknowledgeNote := Some note\<rparr>"

definition resolve_row :: "string \<Rightarrow> string \<Rightarrow> int \<Rightarrow> SOSRow \<Rightarrow> SOSRow" where
  "resolve_row actor note now r =
     r\<lparr>ss_State := RESOLVED, ss_ResolvedBy := Some actor, ss_ResolvedAt := Some now,
       ss_ResolveNote := Some note\<rparr>"

definition update_sos :: "string \<Rightarrow> (SOSRow \<Rightarrow> SOSRow) \<Rightarrow> SOSRow list \<Rightarrow> SOSRow list" where
  "update_sos ident f rows = map (\<lambda>r. if so_SosAlertID (ss_Alert r) = ident then f r else r) rows"

definition find_sos :: "string \<Rightarrow> SOSRow list \<Rightarrow> SOSRow option" where
  "find_sos ident rows = find (\<lambda>r. so_SosAlertID (ss_Alert r) = ident) rows"

definition transition_legal :: "string \<Rightarrow> string \<Rightarrow> bool" where
  "transition_legal action state =
     (if action = ''acknowledge'' then state = RAISED else state = RAISED \<or> state = ACKNOWLEDGED)"

definition transition_row :: "string \<Rightarrow> string \<Rightarrow> string \<Rightarrow> int \<Rightarrow> SOSRow \<Rightarrow> SOSRow" where
  "transition_row action actor note now =
     (if action = ''acknowledge'' then acknowledge_row actor note now else resolve_row actor note now)"

definition transition_write :: "externals \<Rightarrow> string \<Rightarrow> (SOSRow \<Rightarrow> SOSRow) \<Rightarrow> SOSRow geo" where
  "transition_write X sosAlertID f =
     seqA (sql_exec X ''transition sos alert'' (\<lambda>d. Some (d\<lparr>db_sos := update_sos sosAlertID f (db_sos d)\<rparr>)))
       (bindA (sql_query X ''read transitioned sos alert'' (\<lambda>d. find_sos sosAlertID (db_sos d))) (\<lambda>row.
          case row of None \<Rightarrow> raise ErrNoRows | Some r \<Rightarrow> ret r))"

definition TransitionSOSAlert :: "externals \<Rightarrow> string \<Rightarrow> string \<Rightarrow> string \<Rightarrow> string \<Rightarrow> SOSRow geo" where
  "TransitionSOSAlert X sosAlertID actor action note =
     (if trim_space actor = [] then raise (ErrText ''lifecycle actor is required'')
      else if action \<noteq> ''acknowledge'' \<and> action \<noteq> ''resolve''
      then raise (ErrText ''sos lifecycle action is not acknowledge or resolve'')
      else if length note > 500 then raise (ErrText ''lifecycle note exceeds 500 characters'')
      else in_tx X ''sos transition''
        (bindA (sql_query X ''lock sos alert'' (\<lambda>d. find_sos sosAlertID (db_sos d))) (\<lambda>row.
           case row of
             None \<Rightarrow> raise ErrSOSNotFound
           | Some r \<Rightarrow>
               if \<not> transition_legal action (ss_State r) then raise ErrSOSInvalidTransition
               else bindA (clock X) (\<lambda>now.
                 transition_write X sosAlertID (transition_row action actor note now)))))"

text \<open>\<open>ListSOS\<close>: alerts in the caller's cleared labels, newest first, at most \<open>limit\<close>.\<close>

definition ListSOS :: "externals \<Rightarrow> string list \<Rightarrow> nat \<Rightarrow> SOSRow list geo" where
  "ListSOS X labels limit =
     sql_query X ''list sos alerts'' (\<lambda>d.
       take limit (sort_key (\<lambda>r. - ss_ReceivedAt r)
         (filter (\<lambda>r. so_Classification (ss_Alert r) \<in> set labels) (db_sos d))))"

section \<open>The outbox contract\<close>

locale outbox_table =
  fixes insert :: "externals \<Rightarrow> 'r \<Rightarrow> bool geo"
    and keys :: "db \<Rightarrow> (string \<times> string) list"
    and idents :: "db \<Rightarrow> string list"
    and key :: "'r \<Rightarrow> string \<times> string"
    and ident :: "'r \<Rightarrow> string"
  assumes inserted:
      "insert X r w = (w', Inr True) \<Longrightarrow>
         key r \<notin> set (keys (w_db w)) \<and> keys (w_db w') = keys (w_db w) @ [key r]
         \<and> idents (w_db w') = idents (w_db w) @ [ident r]"
    and not_inserted: "insert X r w = (w', res) \<Longrightarrow> res \<noteq> Inr True \<Longrightarrow> w_db w' = w_db w"
    and replayed:
      "insert X r w = (w', Inr False) \<Longrightarrow> key r \<in> set (keys (w_db w)) \<and> ident r \<in> set (idents (w_db w))"
begin

lemma keys_unique:
  assumes "distinct (keys (w_db w))" "insert X r w = (w', res)"
  shows "distinct (keys (w_db w'))"
  using assms inserted [of X r w w'] not_inserted [OF assms(2)] by (cases "res = Inr True") auto

text \<open>The outcome of an insert under a taken key: no row is written, and it counts as a replay only
  if it also carries an identifier that is already stored.\<close>

lemma taken_key:
  assumes "key r \<in> set (keys (w_db w))" "insert X r w = (w', res)"
  shows "w_db w' = w_db w" "res \<noteq> Inr True" "ident r \<notin> set (idents (w_db w)) \<Longrightarrow> \<exists>e. res = Inl e"
proof -
  show r: "res \<noteq> Inr True" using assms inserted by blast
  then show "w_db w' = w_db w" using not_inserted assms(2) by blast
  show "\<exists>e. res = Inl e" if "ident r \<notin> set (idents (w_db w))"
  proof (cases res)
    case (Inr b)
    then have "b = False" using r by simp
    with replayed assms(2) Inr that show ?thesis by blast
  qed simp
qed

end

text \<open>The three ends of an outbox insert, by symbolic execution.\<close>

lemma outbox_insert_wp:
  "wp (outbox_insert X l ins existing identical)
     (\<lambda>b w'. if b then ins (w_db w) = Some (w_db w', 1)
             else \<exists>n q. n \<noteq> 1 \<and> ins (w_db w) = Some (w_db w', n) \<and> existing (w_db w') = Some q \<and> identical q)
     (\<lambda>e w'. w_db w' = w_db w \<or> (\<exists>n. n \<noteq> 1 \<and> ins (w_db w) = Some (w_db w', n))) w"
  by (auto simp: outbox_insert_def wp_simps split: option.split)

lemma outbox_insert_run:
  assumes "outbox_insert X l ins existing identical w = (w', res)"
  shows "case res of
      Inr True \<Rightarrow> ins (w_db w) = Some (w_db w', 1)
    | Inr False \<Rightarrow> \<exists>n q. n \<noteq> 1 \<and> ins (w_db w) = Some (w_db w', n) \<and> existing (w_db w') = Some q \<and> identical q
    | Inl e \<Rightarrow> w_db w' = w_db w \<or> (\<exists>n. n \<noteq> 1 \<and> ins (w_db w) = Some (w_db w', n))"
proof (cases res)
  case (Inl e)
  from wp_Inl [OF outbox_insert_wp assms [unfolded Inl]] Inl show ?thesis by simp
next
  case (Inr b)
  from wp_Inr [OF outbox_insert_wp assms [unfolded Inr]] Inr show ?thesis by (cases b) simp_all
qed

lemma insert_app_row_cases:
  assumes "insert_app_row (r\<lparr>ar_Classification := c\<rparr>) d = Some (d', n)"
  shows "n = 1 \<Longrightarrow> app_key r \<notin> set (map app_key (db_app_reports d))
      \<and> map app_key (db_app_reports d') = map app_key (db_app_reports d) @ [app_key r]
      \<and> map ar_PositionReportID (db_app_reports d') = map ar_PositionReportID (db_app_reports d) @ [ar_PositionReportID r]"
    and "n \<noteq> 1 \<Longrightarrow> d' = d"
  using assms by (auto simp: insert_app_row_def app_key_def split: if_splits)

lemma InsertAppReport_run:
  assumes "InsertAppReport X r w = (w', res)"
  shows "case res of
      Inr True \<Rightarrow> app_key r \<notin> set (map app_key (db_app_reports (w_db w)))
        \<and> map app_key (db_app_reports (w_db w')) = map app_key (db_app_reports (w_db w)) @ [app_key r]
        \<and> map ar_PositionReportID (db_app_reports (w_db w')) =
            map ar_PositionReportID (db_app_reports (w_db w)) @ [ar_PositionReportID r]
    | Inr False \<Rightarrow> w_db w' = w_db w \<and> (\<exists>q\<in>set (db_app_reports (w_db w)).
          app_key q = app_key r \<and> ar_PositionReportID q = ar_PositionReportID r)
    | Inl e \<Rightarrow> w_db w' = w_db w"
proof -
  note run = outbox_insert_run [OF assms [unfolded InsertAppReport_def Let_def]]
  show ?thesis
  proof (cases res)
    case (Inl e)
    with run show ?thesis using insert_app_row_cases(2) by (simp only: sum.case) blast
  next
    case (Inr b)
    show ?thesis
    proof (cases b)
      case True
      with run Inr show ?thesis using insert_app_row_cases(1) by (simp only: sum.case bool.case) blast
    next
      case False
      with run Inr obtain n q where "n \<noteq> 1" and row: "insert_app_row (r\<lparr>ar_Classification :=
          if ar_Classification r = [] then ''PUBLIC'' else ar_Classification r\<rparr>) (w_db w) = Some (w_db w', n)"
        and q: "find (\<lambda>q. app_key q = app_key r) (db_app_reports (w_db w')) = Some q"
        "ar_PositionReportID q = ar_PositionReportID r" by (simp only: sum.case bool.case) blast
      then have d: "w_db w' = w_db w" using insert_app_row_cases(2) by blast
      from q(1) have "q \<in> set (db_app_reports (w_db w))" "app_key q = app_key r"
        unfolding d by (auto simp: find_Some_iff)
      with d q(2) False Inr show ?thesis by auto
    qed
  qed
qed

lemma in_set_map: "q \<in> set xs \<Longrightarrow> f q = y \<Longrightarrow> y \<in> set (map f xs)"
  by auto

interpretation app_outbox: outbox_table InsertAppReport "\<lambda>d. map app_key (db_app_reports d)"
  "\<lambda>d. map ar_PositionReportID (db_app_reports d)" app_key ar_PositionReportID
proof (unfold_locales, goal_cases)
  case (1 X r w w')
  from InsertAppReport_run [OF 1, simplified] show ?case by simp
next
  case (2 X r w w' res)
  from InsertAppReport_run [OF 2(1)] 2(2) show ?case by (cases res) (auto split: bool.splits)
next
  case (3 X r w w')
  from InsertAppReport_run [OF 3, simplified] show ?case by (metis in_set_map)
qed

lemma insert_sos_row_cases:
  assumes "insert_sos_row a now d = Some (d', n)"
  shows "n = 1 \<Longrightarrow> sos_key a \<notin> (\<lambda>r. sos_key (ss_Alert r)) ` set (db_sos d)
      \<and> so_SosAlertID a \<notin> (\<lambda>r. so_SosAlertID (ss_Alert r)) ` set (db_sos d)
      \<and> d' = d\<lparr>db_sos := db_sos d @ [new_sos_row a now]\<rparr>"
    and "n \<noteq> 1 \<Longrightarrow> d' = d"
  using assms by (auto simp: insert_sos_row_def split: if_splits)

definition sos_inserted :: "SOSAlert \<Rightarrow> db \<Rightarrow> db \<Rightarrow> bool" where
  "sos_inserted a d d' \<longleftrightarrow> (\<exists>now. sos_key a \<notin> (\<lambda>r. sos_key (ss_Alert r)) ` set (db_sos d)
    \<and> so_SosAlertID a \<notin> (\<lambda>r. so_SosAlertID (ss_Alert r)) ` set (db_sos d)
    \<and> d' = d\<lparr>db_sos := db_sos d @ [new_sos_row a now]\<rparr>
    \<and> Rank ClassificationRestricted \<le> Rank (so_Classification a))"


lemma restricted_floor:
  "c \<in> {ClassificationRestricted, ClassificationConfidential, ClassificationSecret}
     \<Longrightarrow> Rank ClassificationRestricted \<le> Rank c"
  by (auto simp: Rank_def classification_neq)

lemma InsertSOSAlert_wp:
  "wp (InsertSOSAlert X a)
     (\<lambda>b w'. if b then sos_inserted a (w_db w) (w_db w')
             else w_db w' = w_db w \<and> (\<exists>q\<in>set (db_sos (w_db w)).
                 sos_key (ss_Alert q) = sos_key a \<and> so_SosAlertID (ss_Alert q) = so_SosAlertID a))
     (\<lambda>e w'. w_db w' = w_db w) w"
proof (cases "so_Classification a \<in> {ClassificationRestricted, ClassificationConfidential, ClassificationSecret}
    \<and> length (so_FreeText a) \<le> 280")
  case False
  then show ?thesis by (auto simp: InsertSOSAlert_def wp_simps)
next
  case True
  let ?now = "x_now X (w_tick w)"
  let ?w = "w\<lparr>w_tick := Suc (w_tick w)\<rparr>"
  have floor: "Rank ClassificationRestricted \<le> Rank (so_Classification a)"
    using True by (intro restricted_floor) simp
  have "wp (outbox_insert X ''sos alert'' (insert_sos_row a ?now)
          (\<lambda>d. find (\<lambda>r. sos_key (ss_Alert r) = sos_key a) (db_sos d))
          (\<lambda>r. so_SosAlertID (ss_Alert r) = so_SosAlertID a
               \<and> so_VesselReference (ss_Alert r) = so_VesselReference a
               \<and> so_LatitudeMicros (ss_Alert r) = so_LatitudeMicros a
               \<and> so_LongitudeMicros (ss_Alert r) = so_LongitudeMicros a))
     (\<lambda>b w'. if b then sos_inserted a (w_db w) (w_db w')
             else w_db w' = w_db w \<and> (\<exists>q\<in>set (db_sos (w_db w)).
                 sos_key (ss_Alert q) = sos_key a \<and> so_SosAlertID (ss_Alert q) = so_SosAlertID a))
     (\<lambda>e w'. w_db w' = w_db w) ?w"
  proof (rule wp_mono [OF outbox_insert_wp], goal_cases)
    case (1 b w')
    show ?case
    proof (cases b)
      case True
      with 1 insert_sos_row_cases(1) [of a ?now "w_db ?w" "w_db w'" 1] floor show ?thesis
        by (auto simp: sos_inserted_def)
    next
      case False
      with 1 insert_sos_row_cases(2) [of a ?now "w_db ?w" "w_db w'"] show ?thesis
        by (auto simp: find_Some_iff)
    qed
  next
    case (2 e w')
    with insert_sos_row_cases(2) [of a ?now "w_db ?w" "w_db w'"] show ?case by auto
  qed
  moreover have "so_Classification a \<in> {ClassificationRestricted, ClassificationConfidential, ClassificationSecret}"
    "\<not> length (so_FreeText a) > 280" using True by auto
  ultimately show ?thesis unfolding InsertSOSAlert_def
    by (simp only: wp_simps if_False if_True simp_thms not_not)
qed

interpretation sos_outbox: outbox_table InsertSOSAlert "\<lambda>d. map (\<lambda>r. sos_key (ss_Alert r)) (db_sos d)"
  "\<lambda>d. map (\<lambda>r. so_SosAlertID (ss_Alert r)) (db_sos d)" sos_key so_SosAlertID
proof (unfold_locales, goal_cases)
  case (1 X r w w')
  from wp_Inr [OF InsertSOSAlert_wp 1] show ?case by (auto simp: sos_inserted_def new_sos_row_def)
next
  case (2 X r w w' res)
  show ?case
  proof (cases res)
    case (Inl e)
    from wp_Inl [OF InsertSOSAlert_wp 2(1) [unfolded Inl]] show ?thesis .
  next
    case (Inr b)
    from wp_Inr [OF InsertSOSAlert_wp 2(1) [unfolded Inr]] Inr 2(2) show ?thesis by simp
  qed
next
  case (3 X r w w')
  from wp_Inr [OF InsertSOSAlert_wp 3, simplified] show ?case by (metis (no_types, lifting) in_set_map)
qed

section \<open>Facts about the lifecycle\<close>

text \<open>State and ledger columns agree, and identifiers and outbox keys are unique.\<close>

definition sos_row_ok :: "SOSRow \<Rightarrow> bool" where
  "sos_row_ok r \<longleftrightarrow>
     ss_State r \<in> {RAISED, ACKNOWLEDGED, RESOLVED}
     \<and> (ss_AcknowledgedBy r = None \<longleftrightarrow> ss_AcknowledgedAt r = None)
     \<and> (ss_ResolvedBy r = None \<longleftrightarrow> ss_ResolvedAt r = None)
     \<and> (ss_State r = RAISED \<longrightarrow> ss_AcknowledgedBy r = None)
     \<and> (ss_State r = ACKNOWLEDGED \<longrightarrow> ss_AcknowledgedBy r \<noteq> None)
     \<and> (ss_State r = RESOLVED \<longleftrightarrow> ss_ResolvedBy r \<noteq> None)
     \<and> Rank ClassificationRestricted \<le> Rank (so_Classification (ss_Alert r))"

definition sos_table_ok :: "SOSRow list \<Rightarrow> bool" where
  "sos_table_ok rows \<longleftrightarrow>
     (\<forall>r\<in>set rows. sos_row_ok r) \<and> distinct (map (\<lambda>r. so_SosAlertID (ss_Alert r)) rows)
     \<and> distinct (map (\<lambda>r. sos_key (ss_Alert r)) rows)"

lemma transition_rows:
  assumes "sos_row_ok r" "ss_State r \<noteq> RESOLVED"
  shows "ss_State r = RAISED \<Longrightarrow> sos_row_ok (acknowledge_row actor note now r)"
    "sos_row_ok (resolve_row actor note now r)"
    "ss_Alert (acknowledge_row actor note now r) = ss_Alert r"
    "ss_Alert (resolve_row actor note now r) = ss_Alert r"
  using assms by (auto simp: sos_row_ok_def acknowledge_row_def resolve_row_def)

text \<open>A successful transition: the old row, its guard, and the table it leaves.\<close>

definition sos_moved :: "string \<Rightarrow> string \<Rightarrow> string \<Rightarrow> string \<Rightarrow> db \<Rightarrow> db \<Rightarrow> bool" where
  "sos_moved i actor action note d d' \<longleftrightarrow>
     (\<exists>r now. find_sos i (db_sos d) = Some r \<and> transition_legal action (ss_State r)
        \<and> d' = d\<lparr>db_sos := update_sos i (transition_row action actor note now) (db_sos d)\<rparr>)"

lemma transition_write_wp:
  "wp (transition_write X i f)
     (\<lambda>row w'. w_db w' = (w_db w)\<lparr>db_sos := update_sos i f (db_sos (w_db w))\<rparr>
               \<and> find_sos i (db_sos (w_db w')) = Some row)
     (\<lambda>e w'. True) w"
  by (auto simp: transition_write_def wp_simps split: option.split)

lemma transition_body_wp:
  "wp (bindA (sql_query X ''lock sos alert'' (\<lambda>d. find_sos i (db_sos d))) (\<lambda>row.
           case row of
             None \<Rightarrow> raise ErrSOSNotFound
           | Some r \<Rightarrow>
               if \<not> transition_legal action (ss_State r) then raise ErrSOSInvalidTransition
               else bindA (clock X) (\<lambda>now. transition_write X i (transition_row action actor note now))))
     (\<lambda>row w'. sos_moved i actor action note (w_db w) (w_db w') \<and> find_sos i (db_sos (w_db w')) = Some row)
     (\<lambda>e w'. True) w"
proof -
  have stored: "wp (transition_write X i (transition_row action actor note now))
      (\<lambda>row w'. sos_moved i actor action note (w_db w) (w_db w') \<and> find_sos i (db_sos (w_db w')) = Some row)
      (\<lambda>e w'. True) v"
    if "find_sos i (db_sos (w_db w)) = Some r" "transition_legal action (ss_State r)" "w_db v = w_db w" for r now v
    by (rule wp_mono [OF transition_write_wp]) (use that in \<open>auto simp: sos_moved_def\<close>)
  show ?thesis
    by (auto simp: wp_simps intro: stored split: option.split)
qed

lemma TransitionSOSAlert_wp:
  "wp (TransitionSOSAlert X i actor action note)
     (\<lambda>row w'. sos_moved i actor action note (w_db w) (w_db w') \<and> find_sos i (db_sos (w_db w')) = Some row
               \<and> trim_space actor \<noteq> [] \<and> length note \<le> 500)
     (\<lambda>e w'. w_db w' = w_db w) w"
proof -
  have tx: "wp (in_tx X l (bindA (sql_query X ''lock sos alert'' (\<lambda>d. find_sos i (db_sos d))) (\<lambda>row.
           case row of
             None \<Rightarrow> raise ErrSOSNotFound
           | Some r \<Rightarrow>
               if \<not> transition_legal action (ss_State r) then raise ErrSOSInvalidTransition
               else bindA (clock X) (\<lambda>now. transition_write X i (transition_row action actor note now)))))
     (\<lambda>row w'. sos_moved i actor action note (w_db w) (w_db w') \<and> find_sos i (db_sos (w_db w')) = Some row)
     (\<lambda>e w'. w_db w' = w_db w) w" for l
    unfolding wp_in_tx
    by (auto intro!: wp_mono [OF transition_body_wp])
  show ?thesis
  proof (cases "trim_space actor = [] \<or> (action \<noteq> ''acknowledge'' \<and> action \<noteq> ''resolve'') \<or> length note > 500")
    case True
    then show ?thesis by (auto simp: TransitionSOSAlert_def wp_simps)
  next
    case False
    then have g: "\<not> trim_space actor = []" "\<not> (action \<noteq> ''acknowledge'' \<and> action \<noteq> ''resolve'')" "\<not> length note > 500"
      by auto
    show ?thesis
      unfolding TransitionSOSAlert_def if_not_P [OF g(1)] if_not_P [OF g(2)] if_not_P [OF g(3)]
      by (rule wp_mono [OF tx]) (use g(1,3) in auto)
  qed
qed

lemma TransitionSOSAlert_Inr:
  assumes "TransitionSOSAlert X i actor action note w = (w', Inr row)"
  obtains r now where "find_sos i (db_sos (w_db w)) = Some r" "transition_legal action (ss_State r)"
    "w_db w' = (w_db w)\<lparr>db_sos := update_sos i (transition_row action actor note now) (db_sos (w_db w))\<rparr>"
  using wp_Inr [OF TransitionSOSAlert_wp assms] by (auto simp: sos_moved_def)

lemma TransitionSOSAlert_Inl: "TransitionSOSAlert X i a act n w = (w', Inl e) \<Longrightarrow> w_db w' = w_db w"
  using wp_Inl [OF TransitionSOSAlert_wp] by blast

lemma update_sos_keys:
  assumes "\<And>r. ss_Alert (f r) = ss_Alert r"
  shows "map (\<lambda>r. g (ss_Alert r)) (update_sos i f rows) = map (\<lambda>r. g (ss_Alert r)) rows"
  using assms by (simp add: update_sos_def comp_def)

lemma find_update_sos:
  assumes "\<And>r. ss_Alert (f r) = ss_Alert r"
  shows "find_sos i (update_sos i f rows) = map_option f (find_sos i rows)"
  using assms by (induction rows) (auto simp: find_sos_def update_sos_def)

lemma transition_row_alert: "ss_Alert (transition_row action actor note now r) = ss_Alert r"
  by (simp add: transition_row_def acknowledge_row_def resolve_row_def)

lemma find_in_image: "find (\<lambda>r. f r = k) xs = Some r \<Longrightarrow> k \<in> f ` set xs"
  by (induction xs) (auto split: if_splits)

lemma find_sos_unique:
  assumes "distinct (map (\<lambda>r. so_SosAlertID (ss_Alert r)) rows)" "r \<in> set rows"
  shows "find_sos (so_SosAlertID (ss_Alert r)) rows = Some r"
  using assms by (induction rows) (auto simp: find_sos_def)

lemma find_sos_in: "find_sos i rows = Some r \<Longrightarrow> r \<in> set rows \<and> so_SosAlertID (ss_Alert r) = i"
  by (auto simp: find_sos_def find_Some_iff)

section \<open>Runs of the alert store\<close>

datatype sos_op =
    OpRaise SOSAlert
  | OpTransition string string string string

fun sos_step :: "externals \<Rightarrow> world \<Rightarrow> sos_op \<Rightarrow> world" where
  "sos_step X w (OpRaise a) = fst (InsertSOSAlert X a w)"
| "sos_step X w (OpTransition i actor action note) = fst (TransitionSOSAlert X i actor action note w)"

text \<open>What one operation can do to the tables.\<close>

lemma sos_step_db:
  obtains (same) "w_db (sos_step X w op) = w_db w"
  | (raised) a where "op = OpRaise a" "sos_inserted a (w_db w) (w_db (sos_step X w op))"
  | (moved) i actor action remark where "op = OpTransition i actor action remark"
      "sos_moved i actor action remark (w_db w) (w_db (sos_step X w op))"
proof (cases op)
  case (OpRaise a)
  obtain w' res where run: "InsertSOSAlert X a w = (w', res)" by fastforce
  show ?thesis
  proof (cases "res = Inr True")
    case True
    with wp_Inr [OF InsertSOSAlert_wp run [unfolded True]] OpRaise run show ?thesis by (intro raised) simp_all
  next
    case False
    with sos_outbox.not_inserted [OF run] OpRaise run show ?thesis by (intro same) simp
  qed
next
  case (OpTransition i actor action remark)
  obtain w' res where run: "TransitionSOSAlert X i actor action remark w = (w', res)" by fastforce
  show ?thesis
  proof (cases res)
    case (Inl e)
    with TransitionSOSAlert_Inl [of X i actor action remark w w' e] OpTransition run show ?thesis
      by (intro same) simp
  next
    case (Inr row)
    from wp_Inr [OF TransitionSOSAlert_wp run [unfolded Inr]] OpTransition run show ?thesis
      by (intro moved [of i actor action remark]) simp_all
  qed
qed

lemma sos_moved_row:
  assumes "sos_table_ok (db_sos d)" "sos_moved i actor action note d d'" "q \<in> set (db_sos d)"
    "so_SosAlertID (ss_Alert q) = i"
  shows "transition_legal action (ss_State q)"
  using assms find_sos_unique [of "db_sos d" q] by (auto simp: sos_table_ok_def sos_moved_def)

lemma sos_moved_ok:
  assumes ok: "sos_table_ok (db_sos d)" and moved: "sos_moved i actor action note d d'"
  shows "sos_table_ok (db_sos d')"
proof -
  from moved obtain now where d': "db_sos d' = update_sos i (transition_row action actor note now) (db_sos d)"
    by (auto simp: sos_moved_def)
  let ?f = "transition_row action actor note now"
  have row: "sos_row_ok (?f q)" if "q \<in> set (db_sos d)" "so_SosAlertID (ss_Alert q) = i" for q
    using sos_moved_row [OF ok moved that] ok that(1) transition_rows [of q]
    by (auto simp: sos_table_ok_def transition_row_def transition_legal_def split: if_splits)
  have "\<forall>q\<in>set (db_sos d'). sos_row_ok q"
    using ok row by (auto simp: d' update_sos_def sos_table_ok_def)
  then show ?thesis
    using ok update_sos_keys [of ?f so_SosAlertID, OF transition_row_alert] update_sos_keys [of ?f sos_key, OF transition_row_alert]
    by (simp add: sos_table_ok_def d')
qed

lemma sos_inserted_ok: "sos_table_ok (db_sos d) \<Longrightarrow> sos_inserted a d d' \<Longrightarrow> sos_table_ok (db_sos d')"
  by (auto simp: sos_table_ok_def sos_inserted_def new_sos_row_def sos_row_ok_def)

lemma sos_step_ok:
  assumes "sos_table_ok (db_sos (w_db w))"
  shows "sos_table_ok (db_sos (w_db (sos_step X w op)))"
proof (cases rule: sos_step_db [of X w op])
  case same
  with assms show ?thesis by simp
next
  case (raised a)
  show ?thesis by (rule sos_inserted_ok [OF assms raised(2)])
next
  case (moved i actor action remark)
  show ?thesis by (rule sos_moved_ok [OF assms moved(2)])
qed

interpretation sos_run: kept_invariant "sos_step X" "\<lambda>w. sos_table_ok (db_sos (w_db w))" for X
  by unfold_locales (rule sos_step_ok)

text \<open>A row that is resolved stays exactly as it is.\<close>

definition resolved_as :: "SOSRow \<Rightarrow> world \<Rightarrow> bool" where
  "resolved_as row w \<longleftrightarrow>
     ss_State row = RESOLVED \<and> row \<in> set (db_sos (w_db w)) \<and> sos_table_ok (db_sos (w_db w))"

lemma resolved_absorbing:
  assumes "resolved_as row w"
  shows "resolved_as row (sos_step X w op)"
proof -
  from assms have ok: "sos_table_ok (db_sos (w_db w))" and row: "row \<in> set (db_sos (w_db w))" "ss_State row = RESOLVED"
    by (simp_all add: resolved_as_def)
  have "row \<in> set (db_sos (w_db (sos_step X w op)))"
  proof (cases rule: sos_step_db [of X w op])
    case (moved i actor action remark)
    from sos_moved_row [OF ok moved(2) row(1)] row(2) have "so_SosAlertID (ss_Alert row) \<noteq> i"
      by (auto simp: transition_legal_def split: if_splits)
    with moved(2) row(1) show ?thesis by (force simp: sos_moved_def update_sos_def)
  next
    case (raised a)
    from raised(2) row(1) show ?thesis by (auto simp: sos_inserted_def)
  next
    case same
    with row(1) show ?thesis by simp
  qed
  with row(2) sos_step_ok [OF ok] show ?thesis by (simp add: resolved_as_def)
qed

interpretation sos_resolved: absorbing_state "sos_step X" "resolved_as row" for X row
  by unfold_locales (rule resolved_absorbing)

section \<open>Properties\<close>

definition sample_app :: AppReport where
  "sample_app = \<lparr>ar_PositionReportID = ''p1'', ar_ReporterID = ''r1'', ar_VesselReference = ''v1'',
     ar_LatitudeMicros = 1, ar_LongitudeMicros = 2, ar_AccuracyM = 5, ar_SpeedMillimetresPerSecond = None,
     ar_RecordedAt = 0, ar_OutboxID = ''o1'', ar_Classification = []\<rparr>"

definition sample_sos :: SOSAlert where
  "sample_sos = \<lparr>so_SosAlertID = ''s1'', so_ReporterID = ''r1'', so_VesselReference = ''v1'',
     so_LatitudeMicros = 1, so_LongitudeMicros = 2, so_RecordedAt = 0, so_OutboxID = ''o1'',
     so_FreeText = ''help'', so_Classification = ClassificationRestricted\<rparr>"

text \<open>What a mobile position report does to \<open>app_position_reports\<close> when the database answers:
  a free (reporter, outbox) key stores the report, with an empty classification stored as PUBLIC; a
  taken key stores nothing, and is absorbed exactly when identifier, vessel, coordinates and time all
  equal those of the row that holds the key, a conflict otherwise.\<close>

theorem InsertAppReport_behaviour:
  assumes "x_pg X (w_tick w)" "x_pg X (Suc (w_tick w))" "InsertAppReport X report w = (w', res)"
  shows "case find (\<lambda>r. app_key r = app_key report) (db_app_reports (w_db w)) of
      None \<Rightarrow>
        if ar_PositionReportID report \<in> ar_PositionReportID ` set (db_app_reports (w_db w))
        then res = Inl (ErrDB ''insert app report'') \<and> w_db w' = w_db w
        else res = Inr True \<and> w_db w' = (w_db w)\<lparr>db_app_reports := db_app_reports (w_db w) @
               [report\<lparr>ar_Classification :=
                  if ar_Classification report = [] then ''PUBLIC'' else ar_Classification report\<rparr>]\<rparr>
    | Some r \<Rightarrow>
        w_db w' = w_db w
        \<and> res = (if ar_PositionReportID r = ar_PositionReportID report
                    \<and> ar_VesselReference r = ar_VesselReference report
                    \<and> ar_LatitudeMicros r = ar_LatitudeMicros report
                    \<and> ar_LongitudeMicros r = ar_LongitudeMicros report
                    \<and> ar_RecordedAt r = ar_RecordedAt report
                 then Inr False else Inl ErrDuplicateOutbox)"
proof -
  define c where "c = (if ar_Classification report = [] then ''PUBLIC'' else ar_Classification report)"
  have key: "app_key (report\<lparr>ar_Classification := c\<rparr>) = app_key report" by (simp add: app_key_def)
  note eq = assms(3) [unfolded InsertAppReport_def Let_def, folded c_def, unfolded outbox_insert_def]
  show ?thesis
  proof (cases "find (\<lambda>r. app_key r = app_key report) (db_app_reports (w_db w))")
    case None
    then have "app_key report \<notin> app_key ` set (db_app_reports (w_db w))" by (auto simp: find_None_iff)
    with None eq assms(1) show ?thesis
      by (auto simp: insert_app_row_def key sql_def asks_def run_simps c_def [symmetric] split: if_splits)
  next
    case (Some r)
    then have "app_key report \<in> app_key ` set (db_app_reports (w_db w))" by (rule find_in_image)
    with Some eq assms(1,2) show ?thesis
      by (auto simp: insert_app_row_def key sql_query_def sql_def asks_def run_simps split: if_splits)
  qed
qed

theorem InsertAppReport_behaviour_witness:
  "\<exists>w' res. x_pg calm 0 \<and> InsertAppReport calm sample_app empty_world = (w', res) \<and> res = Inr True
     \<and> map ar_Classification (db_app_reports (w_db w')) = [''PUBLIC'']"
proof -
  obtain w' res where run: "InsertAppReport calm sample_app empty_world = (w', res)" by fastforce
  have "x_pg calm (w_tick empty_world)" "x_pg calm (Suc (w_tick empty_world))" by (simp_all add: calm_def)
  from InsertAppReport_behaviour [OF this run] run show ?thesis
    by (auto simp: empty_world_def empty_db_def sample_app_def calm_def)
qed

text \<open>A replay that carries a new identifier is never absorbed: when the (reporter, outbox) key of a
  position report is taken and its identifier is not that of a stored row, the insert ends in an error and
  stores nothing, whatever the rest of the report. The handlers mint the identifier for every request, so
  the exact replay of a delivered report ends here.\<close>

theorem InsertAppReport_fresh_id_conflicts:
  assumes "app_key report \<in> app_key ` set (db_app_reports (w_db w))"
    and "ar_PositionReportID report \<notin> ar_PositionReportID ` set (db_app_reports (w_db w))"
  shows "w_db (fst (InsertAppReport X report w)) = w_db w \<and> (\<exists>e. snd (InsertAppReport X report w) = Inl e)"
proof -
  have "app_key report \<in> set (map app_key (db_app_reports (w_db w)))"
    "ar_PositionReportID report \<notin> set (map ar_PositionReportID (db_app_reports (w_db w)))"
    using assms by simp_all
  from app_outbox.taken_key [OF this(1) prod.collapse [symmetric]] this(2) show ?thesis by auto
qed

theorem InsertAppReport_fresh_id_conflicts_witness:
  "let w = empty_world\<lparr>w_db := empty_db\<lparr>db_app_reports := [sample_app]\<rparr>\<rparr>;
       replay = sample_app\<lparr>ar_PositionReportID := ''p2''\<rparr> in
   app_key replay \<in> app_key ` set (db_app_reports (w_db w))
   \<and> w_db (fst (InsertAppReport calm replay w)) = w_db w \<and> (\<exists>e. snd (InsertAppReport calm replay w) = Inl e)"
proof -
  let ?w = "empty_world\<lparr>w_db := empty_db\<lparr>db_app_reports := [sample_app]\<rparr>\<rparr>"
  let ?r = "sample_app\<lparr>ar_PositionReportID := ''p2''\<rparr>"
  have a: "app_key ?r \<in> app_key ` set (db_app_reports (w_db ?w))"
    "ar_PositionReportID ?r \<notin> ar_PositionReportID ` set (db_app_reports (w_db ?w))"
    by (simp_all add: app_key_def sample_app_def)
  from InsertAppReport_fresh_id_conflicts [OF a] a(1) show ?thesis by (simp add: Let_def)
qed

text \<open>C13. After any run of raised alerts and lifecycle steps, under any outages, the alert table is
  consistent: every row is RAISED, ACKNOWLEDGED or RESOLVED, its ledger columns agree with its state, its
  classification is at least RESTRICTED, and identifiers and (reporter, outbox) keys are unique.\<close>

theorem sos_lifecycle_invariant:
  "sos_table_ok (db_sos (w_db (run_steps (sos_step X) empty_world ops)))"
  by (rule sos_run.inv_run) (simp add: empty_world_def empty_db_def sos_table_ok_def)

text \<open>RESOLVED is terminal: in a consistent table, a resolved alert is still there, with every column
  as it was, after any further run.\<close>

theorem resolved_is_terminal:
  assumes "sos_table_ok (db_sos (w_db w))" "row \<in> set (db_sos (w_db w))" "ss_State row = RESOLVED"
  shows "row \<in> set (db_sos (w_db (run_steps (sos_step X) w ops)))"
  using sos_resolved.inv_run [of row w X ops] assms by (simp add: resolved_as_def)

theorem resolved_is_terminal_witness:
  "let row = resolve_row ''officer'' ''towed'' 9 (new_sos_row sample_sos 4);
       w = empty_world\<lparr>w_db := empty_db\<lparr>db_sos := [row]\<rparr>\<rparr> in
   sos_table_ok (db_sos (w_db w)) \<and>
   row \<in> set (db_sos (w_db (run_steps (sos_step calm) w [OpTransition ''s1'' ''other'' ''acknowledge'' []])))"
proof -
  let ?row = "resolve_row ''officer'' ''towed'' 9 (new_sos_row sample_sos 4)"
  let ?w = "empty_world\<lparr>w_db := empty_db\<lparr>db_sos := [?row]\<rparr>\<rparr>"
  have ok: "sos_table_ok (db_sos (w_db ?w))"
    by (simp add: sos_table_ok_def sos_row_ok_def resolve_row_def new_sos_row_def sample_sos_def)
  have "?row \<in> set (db_sos (w_db ?w))" "ss_State ?row = RESOLVED" by (simp_all add: resolve_row_def)
  from resolved_is_terminal [OF ok this] ok show ?thesis by (simp only: Let_def)
qed

text \<open>One lifecycle step: it fails and changes no row, or the alert existed in a state from which the
  action is legal (acknowledge from RAISED, resolve from RAISED or ACKNOWLEDGED), exactly its row carries
  the new state with the acting principal and the note, and the row returned is the stored one.\<close>

theorem TransitionSOSAlert_effect:
  assumes "sos_table_ok (db_sos (w_db w))" "TransitionSOSAlert X i actor action note w = (w', res)"
  shows "case res of
      Inl e \<Rightarrow> w_db w' = w_db w
    | Inr row \<Rightarrow> trim_space actor \<noteq> [] \<and> (\<exists>r now. r \<in> set (db_sos (w_db w))
        \<and> so_SosAlertID (ss_Alert r) = i
        \<and> (if action = ''acknowledge'' then ss_State r = RAISED else ss_State r \<in> {RAISED, ACKNOWLEDGED})
        \<and> row = (if action = ''acknowledge'' then acknowledge_row actor note now r else resolve_row actor note now r)
        \<and> db_sos (w_db w') = map (\<lambda>q. if q = r then row else q) (db_sos (w_db w)))"
proof (cases res)
  case (Inl e)
  with TransitionSOSAlert_Inl assms(2) show ?thesis by simp
next
  case (Inr row)
  from wp_Inr [OF TransitionSOSAlert_wp assms(2) [unfolded Inr]] obtain r now where
    r: "find_sos i (db_sos (w_db w)) = Some r" "transition_legal action (ss_State r)"
    and rows: "db_sos (w_db w') = update_sos i (transition_row action actor note now) (db_sos (w_db w))"
    and row: "find_sos i (db_sos (w_db w')) = Some row" and actor: "trim_space actor \<noteq> []"
    by (auto simp: sos_moved_def)
  have mem: "r \<in> set (db_sos (w_db w))" "so_SosAlertID (ss_Alert r) = i" using find_sos_in [OF r(1)] by auto
  have one: "so_SosAlertID (ss_Alert q) = i \<longleftrightarrow> q = r" if "q \<in> set (db_sos (w_db w))" for q
  proof
    have "distinct (map (\<lambda>r. so_SosAlertID (ss_Alert r)) (db_sos (w_db w)))" using assms(1) by (simp add: sos_table_ok_def)
    from find_sos_unique [OF this that] r(1) show "so_SosAlertID (ss_Alert q) = i \<Longrightarrow> q = r" by simp
  qed (simp add: mem(2))
  have upd: "db_sos (w_db w') = map (\<lambda>q. if q = r then transition_row action actor note now r else q) (db_sos (w_db w))"
    unfolding rows update_sos_def using one by (auto intro!: map_cong)
  have "row = transition_row action actor note now r"
    using row unfolding rows by (simp add: find_update_sos transition_row_alert r(1))
  note row_eq = this
  have res: "row = (if action = ''acknowledge'' then acknowledge_row actor note now r else resolve_row actor note now r)"
    unfolding row_eq transition_row_def by simp
  have legal: "if action = ''acknowledge'' then ss_State r = RAISED else ss_State r \<in> {RAISED, ACKNOWLEDGED}"
    using r(2) unfolding transition_legal_def by simp
  show ?thesis
    unfolding Inr sum.case
    by (intro conjI exI [of _ r] exI [of _ now] actor mem legal res upd [folded row_eq])
qed

theorem TransitionSOSAlert_effect_witness:
  "let w = empty_world\<lparr>w_db := empty_db\<lparr>db_sos := [new_sos_row sample_sos 4]\<rparr>\<rparr> in
   \<exists>w' row. TransitionSOSAlert calm ''s1'' ''officer'' ''resolve'' ''towed'' w = (w', Inr row)
     \<and> trim_space ''officer'' \<noteq> [] \<and> ss_State row = RESOLVED"
proof -
  let ?w = "empty_world\<lparr>w_db := empty_db\<lparr>db_sos := [new_sos_row sample_sos 4]\<rparr>\<rparr>"
  have ok: "sos_table_ok (db_sos (w_db ?w))"
    by (simp add: sos_table_ok_def sos_row_ok_def new_sos_row_def sample_sos_def)
  have "\<exists>w' row. TransitionSOSAlert calm ''s1'' ''officer'' ''resolve'' ''towed'' ?w = (w', Inr row)"
    by (simp add: TransitionSOSAlert_def trim_space_def trim_left_def is_space_def in_tx_def rolls_back_def transition_write_def
        run_simps calm_calls find_sos_def update_sos_def transition_legal_def transition_row_def
        acknowledge_row_def resolve_row_def new_sos_row_def sample_sos_def)
  then obtain w' row where run: "TransitionSOSAlert calm ''s1'' ''officer'' ''resolve'' ''towed'' ?w = (w', Inr row)"
    by blast
  from TransitionSOSAlert_effect [OF ok run] run show ?thesis
    by (auto simp: resolve_row_def)
qed

end
