(* ===== verification/Zone_Store.thy ===== *)
theory Zone_Store
  imports App_Store "HOL-Library.Char_ord" "HOL-Library.List_Lexorder" "HOL-Library.Product_Lexorder"
begin

text \<open>
  Governed zones (\<open>internal/store/geofence.go\<close>, the zone half of \<open>internal/store/queries.go\<close>): the
  pure enter/exit decision, the per-vessel membership in Redis, the evaluation of one position, and
  the maker-checker administration of zones under row-level security.

  The tenant bound by \<open>WithTenant\<close> restricts what the statements of its body see and write
  (\<open>tenant_zones\<close>); the ingest connection of \<open>withIngestConn\<close> sees every zone.
\<close>

section \<open>Enter and exit\<close>

record Transition =
  tr_ZoneID :: string
  tr_Direction :: string

definition ENTER :: string where "ENTER = ''ENTER''"
definition EXIT :: string where "EXIT = ''EXIT''"

text \<open>The maps hold each zone once; they are ranged over in any order and the result is sorted.\<close>

definition ComputeTransitions :: "string list \<Rightarrow> string list \<Rightarrow> Transition list" where
  "ComputeTransitions current previous =
     sort_key (\<lambda>t. (tr_ZoneID t, tr_Direction t))
       (map (\<lambda>z. \<lparr>tr_ZoneID = z, tr_Direction = ENTER\<rparr>) (filter (\<lambda>z. z \<notin> set previous) (remdups current))
        @ map (\<lambda>z. \<lparr>tr_ZoneID = z, tr_Direction = EXIT\<rparr>) (filter (\<lambda>z. z \<notin> set current) (remdups previous)))"

section \<open>Membership in Redis\<close>

text \<open>A key with the members and the moment it expires.\<close>

definition live_members :: "(string \<rightharpoonup> (string list \<times> int)) \<Rightarrow> string \<Rightarrow> int \<Rightarrow> string list" where
  "live_members keys vessel now =
     (case keys vessel of None \<Rightarrow> [] | Some (ms, expiry) \<Rightarrow> if now < expiry then ms else [])"

definition Membership :: "externals \<Rightarrow> string \<Rightarrow> string list geo" where
  "Membership X vessel =
     bindA (asks (x_redis X)) (\<lambda>ok.
       if \<not> ok then raise (ErrRedis ''read zone state'')
       else bindA (clock X) (\<lambda>now. reads (\<lambda>w. live_members (w_zone_state w) vessel now)))"

definition Replace :: "externals \<Rightarrow> string \<Rightarrow> string list \<Rightarrow> unit geo" where
  "Replace X vessel zoneIDs =
     bindA (asks (x_redis X)) (\<lambda>ok.
       if \<not> ok then raise (ErrRedis ''replace zone state'')
       else bindA (clock X) (\<lambda>now.
         modifies (\<lambda>w. w\<lparr>w_zone_state := (w_zone_state w)
           (vessel := if zoneIDs = [] then None else Some (remdups zoneIDs, now + 86400 * second))\<rparr>)))"

section \<open>Evaluation of a position\<close>

definition withIngestConn :: "externals \<Rightarrow> 'a geo \<Rightarrow> 'a geo" where
  "withIngestConn X fn = in_tx X ''ingest transaction'' fn"

definition zonesContaining :: "externals \<Rightarrow> int \<Rightarrow> int \<Rightarrow> Zone list geo" where
  "zonesContaining X latitudeMicros longitudeMicros =
     sql_query X ''query zones containing point'' (\<lambda>d.
       filter (\<lambda>z. zo_State z = ''approved'' \<and> x_intersects X (zo_Geom z) (pointWKT latitudeMicros longitudeMicros))
         (db_zones d))"

definition zonesByID :: "externals \<Rightarrow> string \<Rightarrow> Zone list geo" where
  "zonesByID X zoneID = sql_query X ''zone by id'' (\<lambda>d. filter (\<lambda>z. zo_ZoneID z = zoneID) (db_zones d))"

definition crossing_event :: "Position \<Rightarrow> Zone \<Rightarrow> string \<Rightarrow> string \<Rightarrow> GeofenceEvent" where
  "crossing_event p zone direction ident =
     \<lparr>gv_GeofenceEventID = ident, gv_TenantID = zo_TenantID zone, gv_ZoneID = zo_ZoneID zone,
      gv_ZoneName = zo_Name zone, gv_Event = direction, gv_MMSI = po_MMSI p,
      gv_TrackReference = po_VesselRef p, gv_LatitudeMicros = po_LatitudeMicros p,
      gv_LongitudeMicros = po_LongitudeMicros p, gv_Classification = zo_ClassificationFloor zone,
      gv_OccurredAt = po_ObservedAt p\<rparr>"

text \<open>Primary key, the reference to the zone, and exactly one of MMSI and track reference.\<close>

definition insert_crossing :: "GeofenceEvent \<Rightarrow> db \<Rightarrow> db option" where
  "insert_crossing ev d =
     (if gv_GeofenceEventID ev \<in> gv_GeofenceEventID ` set (db_zone_events d)
         \<or> gv_ZoneID ev \<notin> zo_ZoneID ` set (db_zones d)
         \<or> (gv_MMSI ev = []) = (gv_TrackReference ev = [])
      then None else Some (d\<lparr>db_zone_events := db_zone_events d @ [ev]\<rparr>))"

text \<open>Metadata of a transition's zone: the row that matched for an entry, a lookup for an exit.\<close>

definition transition_zone :: "externals \<Rightarrow> (string \<rightharpoonup> Zone) \<Rightarrow> Transition \<Rightarrow> Zone option geo" where
  "transition_zone X byID t =
     (if tr_Direction t = EXIT
      then bindA (zonesByID X (tr_ZoneID t)) (\<lambda>lookup.
             ret (if length lookup = 1 then Some (lookup ! 0) else None))
      else ret (byID (tr_ZoneID t)))"

fun record_transitions ::
  "externals \<Rightarrow> Position \<Rightarrow> (string \<rightharpoonup> Zone) \<Rightarrow> Transition list \<Rightarrow> GeofenceEvent list geo" where
  "record_transitions X p byID [] = ret []"
| "record_transitions X p byID (t # ts) =
     bindA (transition_zone X byID t) (\<lambda>zone.
       case zone of
         None \<Rightarrow> record_transitions X p byID ts
       | Some z \<Rightarrow>
           bindA (fresh_uuid X) (\<lambda>u.
           let event = crossing_event p z (tr_Direction t) (''gfe-'' @ u) in
           seqA (sql_exec X ''insert geofence event'' (insert_crossing event))
             (bindA (record_transitions X p byID ts) (\<lambda>events. ret (event # events)))))"

definition zone_vessel_key :: "Position \<Rightarrow> string" where
  "zone_vessel_key p = (if po_MMSI p = [] then po_VesselRef p else po_MMSI p)"

definition evaluate_body :: "externals \<Rightarrow> Position \<Rightarrow> GeofenceEvent list geo" where
  "evaluate_body X p =
     bindA (zonesContaining X (po_LatitudeMicros p) (po_LongitudeMicros p)) (\<lambda>zones.
     let current = map zo_ZoneID zones;
         byID = map_of (map (\<lambda>z. (zo_ZoneID z, z)) (rev zones)) in
     bindA (Membership X (zone_vessel_key p)) (\<lambda>previous.
     seqA (Replace X (zone_vessel_key p) current)
       (record_transitions X p byID (ComputeTransitions current previous))))"

definition EvaluateGeofences :: "externals \<Rightarrow> Position \<Rightarrow> GeofenceEvent list geo" where
  "EvaluateGeofences X p =
     (if zone_vessel_key p = [] then raise (ErrText ''geofence evaluation requires a vessel identity'')
      else withIngestConn X (evaluate_body X p))"

section \<open>Zone administration\<close>

definition tenant_zones :: "string \<Rightarrow> db \<Rightarrow> Zone list" where
  "tenant_zones tenantID d = filter (\<lambda>z. zo_TenantID z = tenantID) (db_zones d)"

definition insert_zone :: "Zone \<Rightarrow> db \<Rightarrow> db option" where
  "insert_zone z d =
     (if zo_ZoneID z \<in> zo_ZoneID ` set (db_zones d) then None
      else Some (d\<lparr>db_zones := db_zones d @ [z]\<rparr>))"

definition CreateZone ::
  "externals \<Rightarrow> string \<Rightarrow> string \<Rightarrow> string \<Rightarrow> string \<Rightarrow> string \<Rightarrow> string \<Rightarrow> unit geo" where
  "CreateZone X tenantID zoneID name makerPrincipalID classificationFloor polygonGeoJSON =
     (if trim_space zoneID = [] \<or> trim_space name = [] then raise (ErrText ''zone id and name are required'')
      else if trim_space makerPrincipalID = [] then raise (ErrText ''maker principal is required'')
      else if classificationFloor \<notin> {ClassificationPublic, ClassificationInternal, ClassificationRestricted,
                        ClassificationConfidential, ClassificationSecret}
      then raise (ErrText ''zone classification floor is invalid'')
      else WithTenant X tenantID
        (bindA (clock X) (\<lambda>now.
           sql_exec X ''create zone'' (insert_zone
             \<lparr>zo_ZoneID = zoneID, zo_TenantID = tenantID, zo_Name = name, zo_Geom = polygonGeoJSON,
              zo_ClassificationFloor = classificationFloor, zo_State = ''draft'', zo_MakerPrincipalID = makerPrincipalID,
              zo_CreatedAt = now, zo_ApprovedBy = None, zo_ApprovedAt = None\<rparr>))))"

text \<open>The ledger row: its key, the visible zone it refers to, and the four-eyes trigger.\<close>

definition insert_approval :: "string \<Rightarrow> string \<Rightarrow> string \<Rightarrow> db \<Rightarrow> db option" where
  "insert_approval tenantID zoneID checker d =
     (if (zoneID, checker) \<in> set (db_zone_approvals d)
         \<or> zoneID \<notin> zo_ZoneID ` set (tenant_zones tenantID d)
         \<or> (\<exists>z\<in>set (tenant_zones tenantID d). zo_ZoneID z = zoneID \<and> zo_MakerPrincipalID z = checker)
      then None
      else Some (d\<lparr>db_zone_approvals := db_zone_approvals d @ [(zoneID, checker)]\<rparr>))"

definition approve_row :: "string \<Rightarrow> string \<Rightarrow> string \<Rightarrow> int \<Rightarrow> Zone \<Rightarrow> Zone" where
  "approve_row tenantID zoneID checker now z =
     (if zo_TenantID z = tenantID \<and> zo_ZoneID z = zoneID
      then z\<lparr>zo_State := ''approved'', zo_ApprovedBy := Some checker, zo_ApprovedAt := Some now\<rparr> else z)"

definition update_zone :: "string \<Rightarrow> string \<Rightarrow> string \<Rightarrow> int \<Rightarrow> db \<Rightarrow> db option" where
  "update_zone tenantID zoneID checker now d =
     (if \<exists>z\<in>set (tenant_zones tenantID d). zo_ZoneID z = zoneID \<and> zo_MakerPrincipalID z = checker then None
      else Some (d\<lparr>db_zones := map (approve_row tenantID zoneID checker now) (db_zones d)\<rparr>))"

definition ApproveZone :: "externals \<Rightarrow> string \<Rightarrow> string \<Rightarrow> string \<Rightarrow> unit geo" where
  "ApproveZone X tenantID zoneID checkerPrincipalID =
     (if trim_space checkerPrincipalID = [] then raise (ErrText ''checker principal is required'')
      else WithTenant X tenantID
        (bindA (sql_query X ''lock zone'' (\<lambda>d. find (\<lambda>z. zo_ZoneID z = zoneID) (tenant_zones tenantID d))) (\<lambda>row.
         case row of
           None \<Rightarrow> raise (ErrText ''zone not found'')
         | Some z \<Rightarrow>
             if zo_MakerPrincipalID z = checkerPrincipalID then raise ErrMakerCheckerConflict
             else if zo_State z \<noteq> ''draft'' then raise ErrZoneNotDraft
             else seqA (sql_exec X ''record zone approval'' (insert_approval tenantID zoneID checkerPrincipalID))
               (bindA (clock X) (\<lambda>now.
                 sql_exec X ''approve zone'' (update_zone tenantID zoneID checkerPrincipalID now))))))"

definition labelCleared :: "string \<Rightarrow> string list \<Rightarrow> bool" where
  "labelCleared label labels \<longleftrightarrow> (\<exists>c\<in>set labels. c = label)"

definition ListZones :: "externals \<Rightarrow> string \<Rightarrow> string list \<Rightarrow> Zone list geo" where
  "ListZones X tenantID labels =
     WithTenant X tenantID (sql_query X ''list zones'' (\<lambda>d.
       filter (\<lambda>z. labelCleared (zo_ClassificationFloor z) labels)
         (sort_key (\<lambda>z. - zo_CreatedAt z) (tenant_zones tenantID d))))"

section \<open>Facts about transitions\<close>

lemma ENTER_EXIT [simp]: "ENTER \<noteq> EXIT" "EXIT \<noteq> ENTER"
  by (simp_all add: ENTER_def EXIT_def)

lemma ComputeTransitions_set:
  "set (ComputeTransitions current previous) =
     (\<lambda>z. \<lparr>tr_ZoneID = z, tr_Direction = ENTER\<rparr>) ` (set current - set previous)
     \<union> (\<lambda>z. \<lparr>tr_ZoneID = z, tr_Direction = EXIT\<rparr>) ` (set previous - set current)"
  by (auto simp: ComputeTransitions_def)

lemma ComputeTransitions_distinct: "distinct (map tr_ZoneID (ComputeTransitions current previous))"
proof -
  let ?e = "map (\<lambda>z. \<lparr>tr_ZoneID = z, tr_Direction = ENTER\<rparr>) (filter (\<lambda>z. z \<notin> set previous) (remdups current))"
  let ?x = "map (\<lambda>z. \<lparr>tr_ZoneID = z, tr_Direction = EXIT\<rparr>) (filter (\<lambda>z. z \<notin> set current) (remdups previous))"
  have "distinct (map tr_ZoneID (?e @ ?x))" by (auto simp: comp_def)
  moreover have "mset (map tr_ZoneID (ComputeTransitions current previous)) = mset (map tr_ZoneID (?e @ ?x))"
    by (simp only: ComputeTransitions_def mset_map mset_sort)
  ultimately show ?thesis by (metis mset_eq_imp_distinct_iff)
qed

lemma ComputeTransitions_sorted: "sorted (map tr_ZoneID (ComputeTransitions current previous))"
proof -
  have "sorted (map (\<lambda>t. (tr_ZoneID t, tr_Direction t)) (ComputeTransitions current previous))"
    unfolding ComputeTransitions_def by (rule sorted_sort_key)
  then show ?thesis
    by (simp add: sorted_map) (erule sorted_wrt_mono_rel [rotated], auto simp: less_eq_prod_def le_less)
qed

lemma ComputeTransitions_same: "set current = set previous \<Longrightarrow> ComputeTransitions current previous = []"
  using ComputeTransitions_set [of current previous] by simp

text \<open>The result depends on the two sets only.\<close>

lemma ComputeTransitions_cong:
  assumes "set c = set c'" "set p = set p'"
  shows "ComputeTransitions c p = ComputeTransitions c' p'"
proof (rule map_sorted_distinct_set_unique [where f = tr_ZoneID])
  let ?s = "set (ComputeTransitions c p) \<union> set (ComputeTransitions c' p')"
  show "inj_on tr_ZoneID ?s"
    unfolding ComputeTransitions_set assms by (auto simp: inj_on_def)
  show "set (ComputeTransitions c p) = set (ComputeTransitions c' p')"
    unfolding ComputeTransitions_set assms ..
qed (rule ComputeTransitions_distinct ComputeTransitions_sorted)+

section \<open>Facts about the evaluation\<close>

definition zones_at :: "externals \<Rightarrow> Position \<Rightarrow> db \<Rightarrow> Zone list" where
  "zones_at X p d = filter (\<lambda>z. zo_State z = ''approved''
     \<and> x_intersects X (zo_Geom z) (pointWKT (po_LatitudeMicros p) (po_LongitudeMicros p))) (db_zones d)"

text \<open>The zone an event of a transition is attributed to, given the table.\<close>

definition attributed :: "(string \<rightharpoonup> Zone) \<Rightarrow> Zone list \<Rightarrow> Transition \<Rightarrow> Zone option" where
  "attributed byID rows t =
     (if tr_Direction t = EXIT
      then (case filter (\<lambda>z. zo_ZoneID z = tr_ZoneID t) rows of [z] \<Rightarrow> Some z | _ \<Rightarrow> None)
      else byID (tr_ZoneID t))"

fun expected_events ::
  "Position \<Rightarrow> (string \<rightharpoonup> Zone) \<Rightarrow> Zone list \<Rightarrow> Transition list \<Rightarrow> GeofenceEvent list \<Rightarrow> bool" where
  "expected_events p byID rows [] evs \<longleftrightarrow> evs = []"
| "expected_events p byID rows (t # ts) evs \<longleftrightarrow>
     (case attributed byID rows t of
        None \<Rightarrow> expected_events p byID rows ts evs
      | Some z \<Rightarrow> \<exists>ident rest. evs = crossing_event p z (tr_Direction t) ident # rest
                    \<and> expected_events p byID rows ts rest)"

lemma transition_zone_wp:
  "wp (transition_zone X byID t)
     (\<lambda>z w'. z = attributed byID (db_zones (w_db w)) t \<and> w_db w' = w_db w \<and> w_zone_state w' = w_zone_state w)
     (\<lambda>e w'. w_db w' = w_db w \<and> w_zone_state w' = w_zone_state w) w"
proof -
  have one: "(if length xs = 1 then Some (xs ! 0) else None) = (case xs of [z] \<Rightarrow> Some z | _ \<Rightarrow> None)" for xs :: "Zone list"
    by (cases xs rule: list.exhaust [case_product list.exhaust]) (auto split: list.split)
  show ?thesis
    by (auto simp: transition_zone_def zonesByID_def wp_simps attributed_def one [simplified])
qed

lemma insert_crossing_Some: "insert_crossing ev d = Some d' \<Longrightarrow> d' = d\<lparr>db_zone_events := db_zone_events d @ [ev]\<rparr>"
  by (simp add: insert_crossing_def split: if_splits)

lemma record_transitions_wp:
  "wp (record_transitions X p byID ts)
     (\<lambda>evs w'. w_db w' = (w_db w)\<lparr>db_zone_events := db_zone_events (w_db w) @ evs\<rparr>
        \<and> expected_events p byID (db_zones (w_db w)) ts evs \<and> w_zone_state w' = w_zone_state w)
     (\<lambda>e w'. w_zone_state w' = w_zone_state w) w"
proof (induction ts arbitrary: w)
  case Nil
  show ?case by (simp add: wp_simps)
next
  case (Cons t ts)
  show ?case
  proof (simp only: record_transitions.simps wp_bind, rule wp_mono [OF transition_zone_wp], goal_cases)
    case (1 z v)
    then have v: "z = attributed byID (db_zones (w_db w)) t" "w_db v = w_db w" "w_zone_state v = w_zone_state w"
      by simp_all
    show ?case
    proof (cases z)
      case None
      show ?thesis
        unfolding None option.case
        by (rule wp_mono [OF Cons.IH]) (use v None in auto)
    next
      case (Some r)
      define ident where "ident = ''gfe-'' @ x_uuid X (w_tick v)"
      let ?ev = "crossing_event p r (tr_Direction t) ident"
      have step: "wp (record_transitions X p byID ts)
          (\<lambda>x. wp (ret (?ev # x))
            (\<lambda>evs w'. w_db w' = (w_db w)\<lparr>db_zone_events := db_zone_events (w_db w) @ evs\<rparr>
               \<and> expected_events p byID (db_zones (w_db w)) (t # ts) evs \<and> w_zone_state w' = w_zone_state w)
            (\<lambda>e w'. w_zone_state w' = w_zone_state w))
          (\<lambda>e w'. w_zone_state w' = w_zone_state w) u"
        if "w_db u = (w_db w)\<lparr>db_zone_events := db_zone_events (w_db w) @ [?ev]\<rparr>" "w_zone_state u = w_zone_state w" for u
        by (rule wp_mono [OF Cons.IH]) (use that v(1) [symmetric, unfolded Some] in \<open>auto simp: wp_ret\<close>)
      show ?thesis
        unfolding Some option.case
        by (simp only: wp_bind wp_seq wp_uuid wp_sql_exec Let_def ident_def [symmetric])
          (auto dest!: insert_crossing_Some intro!: step split: option.split simp: v simp del: expected_events.simps)
    qed
  qed simp
qed

lemma Membership_wp:
  "wp (Membership X k)
     (\<lambda>ms w'. ms = live_members (w_zone_state w) k (x_now X (Suc (w_tick w))) \<and> w_db w' = w_db w
              \<and> w_zone_state w' = w_zone_state w)
     (\<lambda>e w'. w_db w' = w_db w \<and> w_zone_state w' = w_zone_state w) w"
  by (simp add: Membership_def wp_simps)

lemma Replace_wp:
  "wp (Replace X k zs)
     (\<lambda>_ w'. w_db w' = w_db w \<and> w_zone_state w' = (w_zone_state w)
        (k := if zs = [] then None else Some (remdups zs, x_now X (Suc (w_tick w)) + 86400 * second)))
     (\<lambda>e w'. w_db w' = w_db w \<and> w_zone_state w' = w_zone_state w) w"
  by (simp add: Replace_def wp_simps)

text \<open>The Redis side of an evaluation: untouched, or replaced by the zones of the position.\<close>

definition replaced :: "externals \<Rightarrow> Position \<Rightarrow> world \<Rightarrow> world \<Rightarrow> bool" where
  "replaced X p w w' \<longleftrightarrow> (\<exists>expiry. w_zone_state w' = (w_zone_state w)(zone_vessel_key p :=
     (if zones_at X p (w_db w) = [] then None
      else Some (remdups (map zo_ZoneID (zones_at X p (w_db w))), expiry))))"

definition evaluated :: "externals \<Rightarrow> Position \<Rightarrow> world \<Rightarrow> GeofenceEvent list \<Rightarrow> world \<Rightarrow> bool" where
  "evaluated X p w evs w' \<longleftrightarrow>
     w_db w' = (w_db w)\<lparr>db_zone_events := db_zone_events (w_db w) @ evs\<rparr> \<and> replaced X p w w'
     \<and> (\<exists>n. expected_events p (map_of (map (\<lambda>z. (zo_ZoneID z, z)) (rev (zones_at X p (w_db w))))) (db_zones (w_db w))
          (ComputeTransitions (map zo_ZoneID (zones_at X p (w_db w)))
             (live_members (w_zone_state w) (zone_vessel_key p) (x_now X n))) evs)"

lemma evaluate_body_wp:
  "wp (evaluate_body X p) (evaluated X p w)
     (\<lambda>e w'. replaced X p w w' \<or> w_zone_state w' = w_zone_state w) w"
proof -
  let ?zs = "zones_at X p (w_db w)"
  let ?by = "map_of (map (\<lambda>z. (zo_ZoneID z, z)) (rev ?zs))"
  have rec: "wp (record_transitions X p ?by (ComputeTransitions (map zo_ZoneID ?zs) previous)) (evaluated X p w)
      (\<lambda>e w'. replaced X p w w' \<or> w_zone_state w' = w_zone_state w) v"
    if "previous = live_members (w_zone_state w) (zone_vessel_key p) (x_now X n)" "w_db v = w_db w"
      "w_zone_state v = (w_zone_state w)(zone_vessel_key p := (if map zo_ZoneID ?zs = [] then None
         else Some (remdups (map zo_ZoneID ?zs), t)))" for previous n v t
    by (rule wp_mono [OF record_transitions_wp]) (use that in \<open>auto simp: evaluated_def replaced_def\<close>)
  have swap: "wp (Replace X (zone_vessel_key p) (map zo_ZoneID ?zs))
      (\<lambda>_. wp (record_transitions X p ?by (ComputeTransitions (map zo_ZoneID ?zs) previous)) (evaluated X p w)
        (\<lambda>e w'. replaced X p w w' \<or> w_zone_state w' = w_zone_state w))
      (\<lambda>e w'. replaced X p w w' \<or> w_zone_state w' = w_zone_state w) v"
    if "previous = live_members (w_zone_state w) (zone_vessel_key p) (x_now X n)" "w_db v = w_db w"
      "w_zone_state v = w_zone_state w" for previous n v
    by (rule wp_mono [OF Replace_wp]) (use that rec in auto)
  have members: "wp (Membership X (zone_vessel_key p))
      (\<lambda>previous. wp (Replace X (zone_vessel_key p) (map zo_ZoneID ?zs))
        (\<lambda>_. wp (record_transitions X p ?by (ComputeTransitions (map zo_ZoneID ?zs) previous)) (evaluated X p w)
          (\<lambda>e w'. replaced X p w w' \<or> w_zone_state w' = w_zone_state w))
        (\<lambda>e w'. replaced X p w w' \<or> w_zone_state w' = w_zone_state w))
      (\<lambda>e w'. replaced X p w w' \<or> w_zone_state w' = w_zone_state w) v"
    if "w_db v = w_db w" "w_zone_state v = w_zone_state w" for v
    by (rule wp_mono [OF Membership_wp]) (use that swap in auto)
  show ?thesis
    unfolding evaluate_body_def zonesContaining_def
    by (simp only: wp_bind wp_seq wp_sql_query Let_def)
      (use members [of "w\<lparr>w_tick := Suc (w_tick w)\<rparr>"] in \<open>simp add: zones_at_def\<close>)
qed

lemma EvaluateGeofences_wp:
  "wp (EvaluateGeofences X p) (evaluated X p w)
     (\<lambda>e w'. w_db w' = w_db w \<and> (replaced X p w w' \<or> w_zone_state w' = w_zone_state w)) w"
proof (cases "zone_vessel_key p = []")
  case True
  then show ?thesis by (simp add: EvaluateGeofences_def wp_simps)
next
  case False
  let ?w = "w\<lparr>w_tick := Suc (w_tick w)\<rparr>"
  have body: "wp (evaluate_body X p) (evaluated X p w)
     (\<lambda>e w'. replaced X p w w' \<or> w_zone_state w' = w_zone_state w) ?w"
    by (rule wp_mono [OF evaluate_body_wp]) (auto simp: evaluated_def replaced_def)
  show ?thesis
    unfolding EvaluateGeofences_def withIngestConn_def if_not_P [OF False] wp_in_tx
    by (auto intro!: wp_mono [OF body] simp: evaluated_def replaced_def)
qed

section \<open>Runs of the zone administration\<close>

definition zone_row_ok :: "(string \<times> string) list \<Rightarrow> Zone \<Rightarrow> bool" where
  "zone_row_ok approvals z \<longleftrightarrow>
     (zo_State z = ''draft'' \<and> zo_ApprovedBy z = None \<and> zo_ApprovedAt z = None)
     \<or> (zo_State z = ''approved'' \<and> zo_ApprovedAt z \<noteq> None
        \<and> (\<exists>c. zo_ApprovedBy z = Some c \<and> c \<noteq> zo_MakerPrincipalID z \<and> (zo_ZoneID z, c) \<in> set approvals))"

definition zones_ok :: "db \<Rightarrow> bool" where
  "zones_ok d \<longleftrightarrow> (\<forall>z\<in>set (db_zones d). zone_row_ok (db_zone_approvals d) z)
     \<and> distinct (map zo_ZoneID (db_zones d)) \<and> distinct (db_zone_approvals d)"

datatype zone_op =
    OpCreate string string string string string string
  | OpApprove string string string
  | OpEvaluate Position

fun op_tenant :: "zone_op \<Rightarrow> string option" where
  "op_tenant (OpCreate tenant _ _ _ _ _) = Some tenant"
| "op_tenant (OpApprove tenant _ _) = Some tenant"
| "op_tenant (OpEvaluate _) = None"

fun zone_step :: "externals \<Rightarrow> world \<Rightarrow> zone_op \<Rightarrow> world" where
  "zone_step X w (OpCreate tenant zone name maker cls geo) = fst (CreateZone X tenant zone name maker cls geo w)"
| "zone_step X w (OpApprove tenant zone checker) = fst (ApproveZone X tenant zone checker w)"
| "zone_step X w (OpEvaluate p) = fst (EvaluateGeofences X p w)"

definition zone_created :: "string \<Rightarrow> db \<Rightarrow> db \<Rightarrow> bool" where
  "zone_created tenant d d' \<longleftrightarrow> (\<exists>z. zo_TenantID z = tenant \<and> zo_State z = ''draft'' \<and> zo_ApprovedBy z = None
     \<and> zo_ApprovedAt z = None \<and> zo_ZoneID z \<notin> zo_ZoneID ` set (db_zones d)
     \<and> d' = d\<lparr>db_zones := db_zones d @ [z]\<rparr>)"

definition zone_approved :: "string \<Rightarrow> string \<Rightarrow> string \<Rightarrow> db \<Rightarrow> db \<Rightarrow> bool" where
  "zone_approved tenant zone checker d d' \<longleftrightarrow>
     (\<exists>z now. z \<in> set (db_zones d) \<and> zo_TenantID z = tenant \<and> zo_ZoneID z = zone \<and> zo_State z = ''draft''
        \<and> zo_MakerPrincipalID z \<noteq> checker \<and> (zone, checker) \<notin> set (db_zone_approvals d)
        \<and> (\<forall>q\<in>set (tenant_zones tenant d). zo_ZoneID q = zone \<longrightarrow> zo_MakerPrincipalID q \<noteq> checker)
        \<and> d' = d\<lparr>db_zone_approvals := db_zone_approvals d @ [(zone, checker)],
                db_zones := map (approve_row tenant zone checker now) (db_zones d)\<rparr>)"

text \<open>A tenant transaction: what holds of its body's result holds of its own, and an error undoes it.\<close>

lemma WithTenant_wp:
  assumes "\<And>v. w_db v = w_db w \<Longrightarrow> wp m (\<lambda>_ w'. P (w_db w')) (\<lambda>_ _. True) v"
  shows "wp (WithTenant X t m) (\<lambda>_ w'. P (w_db w')) (\<lambda>e w'. w_db w' = w_db w) w"
  unfolding WithTenant_def
  by (auto simp: wp_simps intro!: wp_mono [OF assms])

lemma insert_zone_created:
  "insert_zone z d = Some d' \<Longrightarrow> zo_TenantID z = t \<Longrightarrow> zo_State z = ''draft'' \<Longrightarrow> zo_ApprovedBy z = None
     \<Longrightarrow> zo_ApprovedAt z = None \<Longrightarrow> zone_created t d d'"
  unfolding zone_created_def insert_zone_def by (intro exI [of _ z]) (simp split: if_splits)

lemma CreateZone_wp:
  "wp (CreateZone X t zone name maker cls geo) (\<lambda>_ w'. zone_created t (w_db w) (w_db w'))
     (\<lambda>e w'. w_db w' = w_db w) w"
proof -
  have "wp (WithTenant X t (bindA (clock X) (\<lambda>now.
           sql_exec X ''create zone'' (insert_zone
             \<lparr>zo_ZoneID = zone, zo_TenantID = t, zo_Name = name, zo_Geom = geo,
              zo_ClassificationFloor = cls, zo_State = ''draft'', zo_MakerPrincipalID = maker,
              zo_CreatedAt = now, zo_ApprovedBy = None, zo_ApprovedAt = None\<rparr>))))
        (\<lambda>_ w'. zone_created t (w_db w) (w_db w')) (\<lambda>e w'. w_db w' = w_db w) w"
    by (rule WithTenant_wp) (auto simp: wp_simps split: option.split elim!: insert_zone_created)
  then show ?thesis unfolding CreateZone_def by (simp only: wp_if wp_raise) simp
qed

lemma find_tenant_zone:
  "find (\<lambda>z. zo_ZoneID z = zone) (tenant_zones t d) = Some z \<Longrightarrow>
     z \<in> set (db_zones d) \<and> zo_TenantID z = t \<and> zo_ZoneID z = zone"
  by (auto simp: find_Some_iff tenant_zones_def dest: nth_mem)

lemma ApproveZone_wp:
  "wp (ApproveZone X t zone checker) (\<lambda>_ w'. zone_approved t zone checker (w_db w) (w_db w'))
     (\<lambda>e w'. w_db w' = w_db w) w"
proof -
  have approved: "zone_approved t zone checker d d2"
    if "find (\<lambda>z. zo_ZoneID z = zone) (tenant_zones t d) = Some z" "zo_MakerPrincipalID z \<noteq> checker"
      "zo_State z = ''draft''" "insert_approval t zone checker d = Some d1" "update_zone t zone checker now d1 = Some d2"
    for d d1 d2 z now
    using that(2-5) find_tenant_zone [OF that(1)]
    unfolding zone_approved_def insert_approval_def update_zone_def
    by (intro exI [of _ z] exI [of _ now]) (auto simp: tenant_zones_def split: if_splits)
  have "wp (WithTenant X t
        (bindA (sql_query X ''lock zone'' (\<lambda>d. find (\<lambda>z. zo_ZoneID z = zone) (tenant_zones t d))) (\<lambda>row.
         case row of
           None \<Rightarrow> raise (ErrText ''zone not found'')
         | Some z \<Rightarrow>
             if zo_MakerPrincipalID z = checker then raise ErrMakerCheckerConflict
             else if zo_State z \<noteq> ''draft'' then raise ErrZoneNotDraft
             else seqA (sql_exec X ''record zone approval'' (insert_approval t zone checker))
               (bindA (clock X) (\<lambda>now. sql_exec X ''approve zone'' (update_zone t zone checker now))))))
      (\<lambda>_ w'. zone_approved t zone checker (w_db w) (w_db w')) (\<lambda>e w'. w_db w' = w_db w) w"
    by (rule WithTenant_wp) (auto simp: wp_simps split: option.split intro: approved)
  then show ?thesis unfolding ApproveZone_def by (simp only: wp_if wp_raise) simp
qed

text \<open>What one operation can do to the zone tables.\<close>

lemma zone_step_db:
  obtains (same) "db_zones (w_db (zone_step X w op)) = db_zones (w_db w)"
      "db_zone_approvals (w_db (zone_step X w op)) = db_zone_approvals (w_db w)"
  | (created) tenant where "op_tenant op = Some tenant" "zone_created tenant (w_db w) (w_db (zone_step X w op))"
  | (approved) tenant zone checker where "op_tenant op = Some tenant"
      "zone_approved tenant zone checker (w_db w) (w_db (zone_step X w op))"
proof (cases op)
  case (OpCreate t zone name maker cls geo)
  obtain w' res where run: "CreateZone X t zone name maker cls geo w = (w', res)" by fastforce
  show ?thesis
  proof (cases res)
    case (Inl e)
    from wp_Inl [OF CreateZone_wp run [unfolded Inl]] OpCreate run show ?thesis by (intro same) simp_all
  next
    case (Inr u)
    from wp_Inr [OF CreateZone_wp run [unfolded Inr]] OpCreate run show ?thesis by (intro created [of t]) simp_all
  qed
next
  case (OpApprove t zone checker)
  obtain w' res where run: "ApproveZone X t zone checker w = (w', res)" by fastforce
  show ?thesis
  proof (cases res)
    case (Inl e)
    from wp_Inl [OF ApproveZone_wp run [unfolded Inl]] OpApprove run show ?thesis by (intro same) simp_all
  next
    case (Inr u)
    from wp_Inr [OF ApproveZone_wp run [unfolded Inr]] OpApprove run show ?thesis
      by (intro approved [of t zone checker]) simp_all
  qed
next
  case (OpEvaluate p)
  obtain w' res where run: "EvaluateGeofences X p w = (w', res)" by fastforce
  show ?thesis
  proof (cases res)
    case (Inl e)
    from wp_Inl [OF EvaluateGeofences_wp run [unfolded Inl]] OpEvaluate run show ?thesis by (intro same) simp_all
  next
    case (Inr evs)
    from wp_Inr [OF EvaluateGeofences_wp run [unfolded Inr]] OpEvaluate run show ?thesis
      by (intro same) (simp_all add: evaluated_def)
  qed
qed

lemma approve_row_fixed [simp]:
  "zo_ZoneID (approve_row t zone c now z) = zo_ZoneID z" "zo_TenantID (approve_row t zone c now z) = zo_TenantID z"
  by (simp_all add: approve_row_def)

lemma zone_approved_ok:
  assumes ok: "zones_ok d" and ap: "zone_approved t zone checker d d'"
  shows "zones_ok d'"
proof -
  from ap obtain now where d': "d' = d\<lparr>db_zone_approvals := db_zone_approvals d @ [(zone, checker)],
                db_zones := map (approve_row t zone checker now) (db_zones d)\<rparr>"
    and new: "(zone, checker) \<notin> set (db_zone_approvals d)"
    and other: "\<forall>q\<in>set (tenant_zones t d). zo_ZoneID q = zone \<longrightarrow> zo_MakerPrincipalID q \<noteq> checker"
    by (auto simp: zone_approved_def)
  have "zone_row_ok (db_zone_approvals d @ [(zone, checker)]) (approve_row t zone checker now z)"
    if "z \<in> set (db_zones d)" for z
    using that ok other by (auto simp: zones_ok_def zone_row_ok_def approve_row_def tenant_zones_def)
  then show ?thesis
    using ok new by (simp add: zones_ok_def d' comp_def)
qed

lemma zone_created_ok: "zones_ok d \<Longrightarrow> zone_created t d d' \<Longrightarrow> zones_ok d'"
  by (auto simp: zones_ok_def zone_created_def zone_row_ok_def)

lemma zone_step_ok:
  assumes "zones_ok (w_db w)"
  shows "zones_ok (w_db (zone_step X w op))"
proof (cases rule: zone_step_db [of X w op])
  case same
  with assms show ?thesis by (simp add: zones_ok_def)
next
  case (created tenant)
  show ?thesis by (rule zone_created_ok [OF assms created(2)])
next
  case (approved tenant zone checker)
  show ?thesis by (rule zone_approved_ok [OF assms approved(2)])
qed

interpretation zone_run: kept_invariant "zone_step X" "\<lambda>w. zones_ok (w_db w)" for X
  by unfold_locales (rule zone_step_ok)

text \<open>An operation leaves the zones of other tenants alone.\<close>

lemma zone_step_isolated:
  assumes "op_tenant op \<noteq> Some t"
  shows "tenant_zones t (w_db (zone_step X w op)) = tenant_zones t (w_db w)"
proof (cases rule: zone_step_db [of X w op])
  case same
  then show ?thesis by (simp add: tenant_zones_def)
next
  case (created tenant)
  with assms show ?thesis by (auto simp: tenant_zones_def zone_created_def)
next
  case (approved tenant zone checker)
  then have "tenant \<noteq> t" using assms by auto
  moreover have "filter (\<lambda>z. zo_TenantID z = t) (map (approve_row tenant zone checker now) zs)
      = filter (\<lambda>z. zo_TenantID z = t) zs" if "tenant \<noteq> t" for now zs
    using that by (induction zs) (auto simp: approve_row_def)
  ultimately show ?thesis using approved(2) by (auto simp: tenant_zones_def zone_approved_def)
qed

section \<open>Properties\<close>

text \<open>The enter/exit decision is exact and deterministic: an ENTER for every zone newly inside, an
  EXIT for every zone left and nothing else, one transition per zone, ordered by zone, the same for any
  order and multiplicity of the inputs; applied to the previous membership it gives the current one.\<close>

theorem ComputeTransitions_exact:
  "set (ComputeTransitions current previous) =
     (\<lambda>z. \<lparr>tr_ZoneID = z, tr_Direction = ENTER\<rparr>) ` (set current - set previous)
     \<union> (\<lambda>z. \<lparr>tr_ZoneID = z, tr_Direction = EXIT\<rparr>) ` (set previous - set current)
   \<and> sorted (map tr_ZoneID (ComputeTransitions current previous))
   \<and> distinct (map tr_ZoneID (ComputeTransitions current previous))
   \<and> ComputeTransitions (remdups (rev current)) (remdups (rev previous)) = ComputeTransitions current previous
   \<and> set previous - {z. \<lparr>tr_ZoneID = z, tr_Direction = EXIT\<rparr> \<in> set (ComputeTransitions current previous)}
       \<union> {z. \<lparr>tr_ZoneID = z, tr_Direction = ENTER\<rparr> \<in> set (ComputeTransitions current previous)} = set current"
  using ComputeTransitions_cong [of "remdups (rev current)" current "remdups (rev previous)" previous]
  by (auto simp: ComputeTransitions_set ComputeTransitions_sorted ComputeTransitions_distinct)

text \<open>C20. One evaluation of a position: on success the returned events are exactly the rows appended to
  \<open>geofence_events\<close>, one for each transition between the stored membership and the approved zones at the
  position (exits from a deleted zone excepted), each with the tenant, name and classification floor of its
  zone, and the membership becomes those zones; on failure no row is stored.\<close>

theorem EvaluateGeofences_records:
  assumes "EvaluateGeofences X p w = (w', res)"
  shows "case res of
      Inl e \<Rightarrow> w_db w' = w_db w
    | Inr evs \<Rightarrow> w_db w' = (w_db w)\<lparr>db_zone_events := db_zone_events (w_db w) @ evs\<rparr>
        \<and> (\<exists>expiry. w_zone_state w' = (w_zone_state w)(zone_vessel_key p :=
             (if zones_at X p (w_db w) = [] then None
              else Some (remdups (map zo_ZoneID (zones_at X p (w_db w))), expiry))))
        \<and> (\<exists>n. expected_events p (map_of (map (\<lambda>z. (zo_ZoneID z, z)) (rev (zones_at X p (w_db w)))))
             (db_zones (w_db w))
             (ComputeTransitions (map zo_ZoneID (zones_at X p (w_db w)))
                (live_members (w_zone_state w) (zone_vessel_key p) (x_now X n))) evs)"
proof (cases res)
  case (Inl e)
  from wp_Inl [OF EvaluateGeofences_wp assms [unfolded Inl]] Inl show ?thesis by simp
next
  case (Inr evs)
  from wp_Inr [OF EvaluateGeofences_wp assms [unfolded Inr]] Inr show ?thesis
    by (simp add: evaluated_def replaced_def)
qed

definition sample_zone :: Zone where
  "sample_zone = \<lparr>zo_ZoneID = ''z1'', zo_TenantID = ''t1'', zo_Name = ''Anchorage'', zo_Geom = pointWKT 1 0,
     zo_ClassificationFloor = ClassificationInternal, zo_State = ''approved'', zo_MakerPrincipalID = ''ada'',
     zo_CreatedAt = 0, zo_ApprovedBy = Some ''ben'', zo_ApprovedAt = Some 1\<rparr>"

definition zone_world :: world where
  "zone_world = empty_world\<lparr>w_db := empty_db\<lparr>db_zones := [sample_zone]\<rparr>\<rparr>"

definition zone_fix :: Position where
  "zone_fix = (sample_position 5)\<lparr>po_LatitudeMicros := 1, po_LongitudeMicros := 0, po_VesselRef := []\<rparr>"

theorem EvaluateGeofences_records_witness:
  "\<exists>w' evs. EvaluateGeofences calm zone_fix zone_world = (w', Inr evs) \<and> length evs = 1
     \<and> db_zone_events (w_db w') = evs"
proof -
  have "case snd (EvaluateGeofences calm zone_fix zone_world) of Inr evs \<Rightarrow> length evs = 1 | Inl e \<Rightarrow> False"
    by code_simp
  then obtain w' evs where run: "EvaluateGeofences calm zone_fix zone_world = (w', Inr evs)" and l: "length evs = 1"
    by (cases "EvaluateGeofences calm zone_fix zone_world") (auto split: sum.splits)
  from EvaluateGeofences_records [OF run] run l show ?thesis
    by (auto simp: zone_world_def empty_db_def)
qed

text \<open>C39. A crossing whose event could not be stored is lost: when an evaluation fails after it replaced the
  membership in Redis, every later successful evaluation of the same position, while the membership has not
  expired, finds nothing to record.\<close>

theorem EvaluateGeofences_lost_crossing:
  assumes "EvaluateGeofences X p w = (w1, Inl e)" "w_zone_state w1 \<noteq> w_zone_state w"
    and "x_intersects Y = x_intersects X"
    and "\<forall>ms t n. w_zone_state w1 (zone_vessel_key p) = Some (ms, t) \<longrightarrow> x_now Y n < t"
    and "EvaluateGeofences Y p w1 = (w2, Inr evs)"
  shows "evs = [] \<and> w_db w2 = w_db w"
proof -
  from wp_Inl [OF EvaluateGeofences_wp assms(1)] assms(2)
  have d: "w_db w1 = w_db w" and rep: "replaced X p w w1" by simp_all
  have zs: "zones_at Y p (w_db w1) = zones_at X p (w_db w)" by (simp add: zones_at_def assms(3) d)
  have "set (live_members (w_zone_state w1) (zone_vessel_key p) (x_now Y n)) = zo_ZoneID ` set (zones_at X p (w_db w))" for n
    using rep assms(4) by (auto simp: replaced_def live_members_def split: if_splits)
  moreover have "\<exists>n. expected_events p (map_of (map (\<lambda>z. (zo_ZoneID z, z)) (rev (zones_at Y p (w_db w1))))) (db_zones (w_db w1))
        (ComputeTransitions (map zo_ZoneID (zones_at Y p (w_db w1)))
           (live_members (w_zone_state w1) (zone_vessel_key p) (x_now Y n))) evs"
    and db2: "w_db w2 = (w_db w1)\<lparr>db_zone_events := db_zone_events (w_db w1) @ evs\<rparr>"
    using wp_Inr [OF EvaluateGeofences_wp assms(5)] by (auto simp: evaluated_def)
  ultimately have "evs = []" unfolding zs by (auto simp: ComputeTransitions_same)
  with db2 d show ?thesis by simp
qed

theorem EvaluateGeofences_lost_crossing_witness:
  "\<exists>X Y w1 e w2. EvaluateGeofences X zone_fix zone_world = (w1, Inl e)
     \<and> EvaluateGeofences Y zone_fix w1 = (w2, Inr []) \<and> db_zone_events (w_db w2) = []"
proof -
  let ?X = "calm\<lparr>x_pg := \<lambda>n. n \<noteq> 7, x_now := \<lambda>n. 100\<rparr>"
  let ?Y = "calm\<lparr>x_now := \<lambda>n. 100\<rparr>"
  obtain w1 r1 where run1: "EvaluateGeofences ?X zone_fix zone_world = (w1, r1)" by fastforce
  obtain w2 r2 where run2: "EvaluateGeofences ?Y zone_fix w1 = (w2, r2)" by fastforce
  have "isl (snd (EvaluateGeofences ?X zone_fix zone_world))
      \<and> w_zone_state (fst (EvaluateGeofences ?X zone_fix zone_world)) (zone_vessel_key zone_fix)
          = Some ([''z1''], 86400000000100)
      \<and> \<not> isl (snd (EvaluateGeofences ?Y zone_fix (fst (EvaluateGeofences ?X zone_fix zone_world))))"
    by code_simp
  with run1 run2 obtain e evs where r: "r1 = Inl e" "r2 = Inr evs"
    and s: "w_zone_state w1 (zone_vessel_key zone_fix) = Some ([''z1''], 86400000000100)"
    by (auto simp: isl_def sum.split_sel) (metis sum.exhaust_sel)
  have changed: "w_zone_state w1 \<noteq> w_zone_state zone_world" using s by (auto simp: zone_world_def empty_world_def)
  have live: "\<forall>ms t n. w_zone_state w1 (zone_vessel_key zone_fix) = Some (ms, t) \<longrightarrow> x_now ?Y n < t"
    using s by simp
  have "evs = [] \<and> w_db w2 = w_db zone_world"
    by (rule EvaluateGeofences_lost_crossing [OF run1 [unfolded r] changed _ live run2 [unfolded r]]) simp
  moreover have "db_zone_events (w_db zone_world) = []" by (simp add: zone_world_def empty_db_def)
  ultimately have "EvaluateGeofences ?Y zone_fix w1 = (w2, Inr [])" "db_zone_events (w_db w2) = []"
    using run2 r by simp_all
  with run1 r show ?thesis by blast
qed

text \<open>C11. Four eyes: after any run of zone creations, approvals and position evaluations, under any outages,
  zone identifiers are unique and every zone is either a draft without approval data, or approved by a
  principal different from its maker whose approval is in the ledger.\<close>

theorem zones_four_eyes:
  "zones_ok (w_db (run_steps (zone_step X) empty_world ops))"
  by (rule zone_run.inv_run) (simp add: empty_world_def empty_db_def zones_ok_def)

text \<open>Tenant isolation of zone administration: no run of operations made for other tenants, nor any
  position evaluation, changes a zone of a tenant, and a listing for a tenant returns only its own zones
  at labels the caller is cleared for.\<close>

theorem zone_tenants_isolated:
  assumes "\<forall>op\<in>set ops. op_tenant op \<noteq> Some t"
  shows "tenant_zones t (w_db (run_steps (zone_step X) w ops)) = tenant_zones t (w_db w)
    \<and> (\<forall>labels zs w'. ListZones X t labels w = (w', Inr zs) \<longrightarrow>
         set zs = {z \<in> set (db_zones (w_db w)). zo_TenantID z = t \<and> zo_ClassificationFloor z \<in> set labels})"
proof -
  have "tenant_zones t (w_db (run_steps (zone_step X) w ops)) = tenant_zones t (w_db w)"
    using assms by (induction ops arbitrary: w) (auto simp: zone_step_isolated)
  moreover have "wp (ListZones X t labels)
      (\<lambda>zs w'. set zs = {z \<in> set (db_zones (w_db w)). zo_TenantID z = t \<and> zo_ClassificationFloor z \<in> set labels})
      (\<lambda>e w'. True) w" for labels
    by (auto simp: ListZones_def WithTenant_def wp_simps tenant_zones_def labelCleared_def)
  ultimately show ?thesis by (auto dest: wp_Inr)
qed

theorem zone_tenants_isolated_witness:
  "tenant_zones ''t1'' (w_db (run_steps (zone_step calm) zone_world [OpApprove ''t2'' ''z1'' ''eve''])) = [sample_zone]"
proof -
  have a: "\<forall>op\<in>set [OpApprove ''t2'' ''z1'' ''eve'']. op_tenant op \<noteq> Some ''t1''" by simp
  from zone_tenants_isolated [OF a, of calm zone_world] show ?thesis
    by (simp add: tenant_zones_def zone_world_def sample_zone_def)
qed

end
