(* ===== verification/Fence_Store.thy ===== *)
theory Fence_Store
  imports Zone_Store
begin

text \<open>
  Versioned geofences (\<open>internal/store/fences.go\<close>) and their transition events, with the boot
  loader of protection zones (\<open>cmd/geo-service/zoneseed.go\<close>).

  The table \<open>geofences\<close> is under forced row-level security: a statement sees and writes the rows its
  session admits. \<open>Bound t\<close> is a session with \<open>app.tenant_id\<close> set, \<open>Unbound\<close> one without (the
  policies deny by default), \<open>Exempt\<close> one whose role the policies do not restrict (the ingest role
  for reads, or a role with BYPASSRLS).
\<close>

datatype session = Bound string | Unbound | Exempt

fun admits :: "session \<Rightarrow> string \<Rightarrow> bool" where
  "admits (Bound t) tenant \<longleftrightarrow> tenant = t"
| "admits Unbound tenant \<longleftrightarrow> False"
| "admits Exempt tenant \<longleftrightarrow> True"

definition ACTIVE :: string where "ACTIVE = ''ACTIVE''"
definition RETIRED :: string where "RETIRED = ''RETIRED''"

lemma fence_states_neq [simp]: "ACTIVE \<noteq> RETIRED" "RETIRED \<noteq> ACTIVE"
  by (simp_all add: ACTIVE_def RETIRED_def)

section \<open>Rendering\<close>

definition microsText :: "int \<Rightarrow> string" where
  "microsText v =
     (let neg = v < 0;
          magnitude = (if neg then - v else v);
          s = show_nat (nat (magnitude div 1000000)) @ ''.'' @ show_padded 6 (nat (magnitude mod 1000000))
      in if neg then ''-'' @ s else s)"

fun join_comma :: "string list \<Rightarrow> string" where
  "join_comma [] = []"
| "join_comma [s] = s"
| "join_comma (s # t # ts) = s @ '', '' @ join_comma (t # ts)"

definition polygonWKT :: "(int \<times> int) list \<Rightarrow> geo_error + string" where
  "polygonWKT vertices =
     (if length vertices < 4 then Inl (ErrText ''ring must have at least 4 vertices'')
      else Inr (''SRID=4326;POLYGON(('' @
             join_comma (map (\<lambda>v. microsText (snd v) @ '' '' @ microsText (fst v)) vertices) @ ''))''))"

definition zoneCategoryOrGeneral :: "string \<Rightarrow> string" where
  "zoneCategoryOrGeneral category = (if trim_space category = [] then ''general'' else category)"

section \<open>Fence versions\<close>

definition visible_fences :: "session \<Rightarrow> db \<Rightarrow> FenceRow list" where
  "visible_fences s d = filter (\<lambda>r. admits s (fr_TenantID r)) (db_fences d)"

definition ListActiveGeofences :: "externals \<Rightarrow> session \<Rightarrow> string \<Rightarrow> string list \<Rightarrow> FenceRow list geo" where
  "ListActiveGeofences X s tenantID labels =
     sql_query X ''list geofences'' (\<lambda>d. sort_key fr_GeofenceID
       (filter (\<lambda>r. fr_State r = ACTIVE \<and> fr_TenantID r = tenantID \<and> fr_Classification r \<in> set labels)
         (visible_fences s d)))"

definition GetGeofenceHistory :: "externals \<Rightarrow> session \<Rightarrow> string \<Rightarrow> string \<Rightarrow> FenceRow list geo" where
  "GetGeofenceHistory X s tenantID geofenceID =
     bindA (sql_query X ''get geofence history'' (\<lambda>d. sort_key (\<lambda>r. - fr_Version r)
       (filter (\<lambda>r. fr_GeofenceID r = geofenceID \<and> fr_TenantID r = tenantID) (visible_fences s d)))) (\<lambda>rows.
     if rows = [] then raise ErrNoRows else ret rows)"

definition latest_version :: "session \<Rightarrow> string \<Rightarrow> string \<Rightarrow> db \<Rightarrow> int" where
  "latest_version s geofenceID tenantID d =
     foldr max (map fr_Version
       (filter (\<lambda>r. fr_GeofenceID r = geofenceID \<and> fr_TenantID r = tenantID) (visible_fences s d))) 0"

definition active_of :: "session \<Rightarrow> string \<Rightarrow> string \<Rightarrow> FenceRow \<Rightarrow> bool" where
  "active_of s geofenceID tenantID r \<longleftrightarrow>
     admits s (fr_TenantID r) \<and> fr_GeofenceID r = geofenceID \<and> fr_TenantID r = tenantID \<and> fr_State r = ACTIVE"

text \<open>\<open>UPDATE geofences SET state = 'RETIRED', retired_at = now()\<close>, with the number of rows affected.\<close>

definition retire_rows :: "session \<Rightarrow> string \<Rightarrow> string \<Rightarrow> int \<Rightarrow> db \<Rightarrow> db \<times> nat" where
  "retire_rows s geofenceID tenantID now d =
     (d\<lparr>db_fences := map (\<lambda>r. if active_of s geofenceID tenantID r
                              then r\<lparr>fr_State := RETIRED, fr_RetiredAt := Some now\<rparr> else r) (db_fences d)\<rparr>,
      length (filter (active_of s geofenceID tenantID) (db_fences d)))"

text \<open>The INSERT: the policy's check, the primary key, and at most one ACTIVE row per geofence.\<close>

definition insert_fence :: "session \<Rightarrow> FenceRow \<Rightarrow> db \<Rightarrow> (db \<times> FenceRow) option" where
  "insert_fence s r d =
     (if \<not> admits s (fr_TenantID r)
         \<or> (fr_GeofenceID r, fr_Version r) \<in> (\<lambda>q. (fr_GeofenceID q, fr_Version q)) ` set (db_fences d)
         \<or> (\<exists>q\<in>set (db_fences d). fr_GeofenceID q = fr_GeofenceID r \<and> fr_State q = ACTIVE)
      then None else Some (d\<lparr>db_fences := db_fences d @ [r]\<rparr>, r))"

definition new_version :: "FenceRow \<Rightarrow> int \<Rightarrow> int \<Rightarrow> FenceRow" where
  "new_version row next now =
     row\<lparr>fr_Version := next, fr_State := ACTIVE, fr_ZoneCategory := zoneCategoryOrGeneral (fr_ZoneCategory row),
         fr_CreatedAt := now, fr_RetiredAt := None\<rparr>"

definition CreateGeofenceVersion :: "externals \<Rightarrow> session \<Rightarrow> FenceRow \<Rightarrow> int \<Rightarrow> FenceRow geo" where
  "CreateGeofenceVersion X s row expectedVersion =
     in_tx X ''geofence write''
       (bindA (sql_query X ''read geofence version'' (latest_version s (fr_GeofenceID row) (fr_TenantID row))) (\<lambda>latest.
        if latest \<noteq> expectedVersion then raise (ErrVersionConflict latest expectedVersion)
        else (case fr_VerticesMicros row of
          None \<Rightarrow> raise (ErrText ''vertices_micros must be [[lat,lon],...]'')
        | Some vertices \<Rightarrow> (case polygonWKT vertices of
            Inl e \<Rightarrow> raise e
          | Inr wkt \<Rightarrow>
              bindA (clock X) (\<lambda>now.
              seqA (sql_exec X ''retire prior version''
                      (\<lambda>d. Some (fst (retire_rows s (fr_GeofenceID row) (fr_TenantID row) now d))))
                (sql X ''insert geofence version'' (insert_fence s (new_version row (latest + 1) now))))))))"

definition RetireGeofence :: "externals \<Rightarrow> session \<Rightarrow> string \<Rightarrow> string \<Rightarrow> unit geo" where
  "RetireGeofence X s tenantID geofenceID =
     bindA (clock X) (\<lambda>now.
     bindA (sql X ''retire geofence'' (\<lambda>d. Some (retire_rows s geofenceID tenantID now d))) (\<lambda>n.
     if n = 0 then raise ErrNoRows else ret ()))"

definition ListActiveGeofencesPlatform :: "externals \<Rightarrow> FenceRow list geo" where
  "ListActiveGeofencesPlatform X =
     wrapA (ErrWrap ''list platform geofences'') (withIngestConn X
       (sql_query X ''list platform geofences'' (\<lambda>d. sort_key fr_GeofenceID
         (filter (\<lambda>r. fr_State r = ACTIVE) (visible_fences Exempt d)))))"

section \<open>Transition events\<close>

definition insert_transition :: "FenceEventRow \<Rightarrow> db \<Rightarrow> db option" where
  "insert_transition ev d =
     (if fe_EventID ev \<in> fe_EventID ` set (db_fence_events d)
         \<or> (fe_GeofenceID ev, fe_GeofenceVersion ev) \<notin> (\<lambda>q. (fr_GeofenceID q, fr_Version q)) ` set (db_fences d)
      then None
      else Some (d\<lparr>db_fence_events := db_fence_events d
                     @ [ev\<lparr>fe_ZoneCategory := zoneCategoryOrGeneral (fe_ZoneCategory ev)\<rparr>]\<rparr>))"

definition InsertGeofenceEvent :: "externals \<Rightarrow> FenceEventRow \<Rightarrow> unit geo" where
  "InsertGeofenceEvent X ev =
     (if trim_space (fe_TenantID ev) = []
      then raise (ErrText ''geofence transition event tenant id is required'')
      else WithTenant X (fe_TenantID ev) (sql_exec X ''insert geofence event'' (insert_transition ev)))"

definition InsertGeofenceEventIngest :: "externals \<Rightarrow> FenceEventRow \<Rightarrow> unit geo" where
  "InsertGeofenceEventIngest X ev =
     (if trim_space (fe_TenantID ev) = []
      then raise (ErrText ''geofence transition event tenant id is required'')
      else withIngestConn X (sql_exec X ''insert ingest geofence event'' (insert_transition ev)))"

definition ListGeofenceEvents ::
  "externals \<Rightarrow> string \<Rightarrow> string \<Rightarrow> string list \<Rightarrow> nat \<Rightarrow> FenceEventRow list geo" where
  "ListGeofenceEvents X tenantID geofenceID labels limit =
     WithTenant X tenantID (sql_query X ''list geofence events'' (\<lambda>d.
       take limit (sort_key (\<lambda>r. - fe_OccurredAt r)
         (filter (\<lambda>r. fe_TenantID r = tenantID \<and> fe_GeofenceID r = geofenceID \<and> fe_Classification r \<in> set labels
                      \<and> fe_EnvelopeDigest r \<noteq> []) (db_fence_events d)))))"

section \<open>Seeding protection zones\<close>

fun category_name :: "ZoneCategory \<Rightarrow> string" where
  "category_name CategoryGeneral = ''general''"
| "category_name CategoryMPA = ''mpa''"
| "category_name CategoryEEZRestricted = ''eez_restricted''"
| "category_name CategoryTrafficSeparation = ''traffic_separation''"
| "category_name CategoryFishingClosure = ''fishing_closure''"
| "category_name CategoryAnchorage = ''anchorage''"

definition seed_row :: "string \<Rightarrow> SeedZone \<Rightarrow> FenceRow" where
  "seed_row tenantID z =
     \<lparr>fr_GeofenceID = sz_GeofenceID z, fr_Version = 0, fr_TenantID = tenantID, fr_Name = sz_Name z,
      fr_Classification = sz_Classification z, fr_VerticesMicros = Some (sz_VerticesMicros z),
      fr_DwellThresholdSeconds = 0, fr_DwellSpeedGateMilliknots = 0, fr_State = [],
      fr_ZoneCategory = category_name (sz_Category z), fr_CreatedBy = ''zone-seed'', fr_CreatedAt = 0,
      fr_RetiredAt = None\<rparr>"

text \<open>One zone: already present and skipped, or created as version 1.\<close>

definition seed_zone :: "externals \<Rightarrow> session \<Rightarrow> string \<Rightarrow> SeedZone \<Rightarrow> unit geo" where
  "seed_zone X s tenantID z =
     bindA (attempt (GetGeofenceHistory X s tenantID (sz_GeofenceID z))) (\<lambda>r.
       case r of
         Inr rows \<Rightarrow> ret ()
       | Inl e \<Rightarrow>
           if e \<noteq> ErrNoRows then raise (ErrWrap ''seed zone: read existing'' e)
           else seqA (wrapA (ErrWrap ''seed zone'') (CreateGeofenceVersion X s (seed_row tenantID z) 0)) (ret ()))"

definition seedZonesFromGeoJSON ::
  "externals \<Rightarrow> session \<Rightarrow> string \<Rightarrow> string \<Rightarrow> geoJSONDocument option \<Rightarrow> unit geo" where
  "seedZonesFromGeoJSON X s path tenant document =
     (if trim_space path = [] then ret ()
      else if trim_space tenant = []
      then raise (ErrText ''GEO_ZONE_SEED_TENANT is required when GEO_ZONE_SEED_GEOJSON is set'')
      else (case LoadSeedZones document of
        Inl e \<Rightarrow> raise (ErrText ''GEO_ZONE_SEED_GEOJSON'')
      | Inr zones \<Rightarrow> eachA (seed_zone X s (trim_space tenant)) zones))"

section \<open>Facts about rendering\<close>

lemma microsText_renderMicros: "microsText v = renderMicros v"
  by (simp add: microsText_def renderMicros_def Let_def)

section \<open>Facts about versions\<close>

definition versions_of :: "string \<Rightarrow> FenceRow list \<Rightarrow> FenceRow list" where
  "versions_of geofenceID rows = filter (\<lambda>r. fr_GeofenceID r = geofenceID) rows"

text \<open>The rows of one geofence: versions counted from 1, one owner, only the last may be ACTIVE.\<close>

definition fence_chain :: "FenceRow list \<Rightarrow> bool" where
  "fence_chain rs \<longleftrightarrow>
     map fr_Version rs = map int [1..<Suc (length rs)]
     \<and> (\<forall>r\<in>set rs. \<forall>q\<in>set rs. fr_TenantID r = fr_TenantID q)
     \<and> (\<forall>r\<in>set rs. fr_State r \<in> {ACTIVE, RETIRED} \<and> (fr_State r = ACTIVE \<longleftrightarrow> fr_RetiredAt r = None))
     \<and> (\<forall>r\<in>set (butlast rs). fr_State r = RETIRED)"

definition fences_ok :: "FenceRow list \<Rightarrow> bool" where
  "fences_ok rows \<longleftrightarrow> (\<forall>g. fence_chain (versions_of g rows))"

definition retire_row :: "session \<Rightarrow> string \<Rightarrow> string \<Rightarrow> int \<Rightarrow> FenceRow \<Rightarrow> FenceRow" where
  "retire_row s g t now r = (if active_of s g t r then r\<lparr>fr_State := RETIRED, fr_RetiredAt := Some now\<rparr> else r)"

lemma retire_row_simps [simp]:
  "fr_GeofenceID (retire_row s g t now r) = fr_GeofenceID r" "fr_Version (retire_row s g t now r) = fr_Version r"
  "fr_TenantID (retire_row s g t now r) = fr_TenantID r"
  by (simp_all add: retire_row_def)

lemma fst_retire_rows:
  "fst (retire_rows s g t now d) = d\<lparr>db_fences := map (retire_row s g t now) (db_fences d)\<rparr>"
  by (simp add: retire_rows_def retire_row_def)

lemma versions_of_map:
  "versions_of h (map (retire_row s g t now) rows) = map (retire_row s g t now) (versions_of h rows)"
  by (simp add: versions_of_def filter_map comp_def)

lemma retire_chain: "fence_chain rs \<Longrightarrow> fence_chain (map (retire_row s g t now) rs)"
  unfolding fence_chain_def map_butlast [symmetric]
proof (elim conjE, intro conjI, goal_cases)
  case 1
  show ?case using 1(1) by (simp add: comp_def)
next
  case 2
  show ?case
  proof (intro ballI)
    fix a b
    assume "a \<in> set (map (retire_row s g t now) rs)" "b \<in> set (map (retire_row s g t now) rs)"
    then obtain r q where "r \<in> set rs" "q \<in> set rs" and ab: "a = retire_row s g t now r" "b = retire_row s g t now q"
      by auto
    then have "fr_TenantID r = fr_TenantID q" using 2(2) by blast
    then show "fr_TenantID a = fr_TenantID b" unfolding ab retire_row_simps .
  qed
next
  case 3
  show ?case unfolding set_map using 3(3) by (auto simp: retire_row_def active_of_def)
next
  case 4
  show ?case unfolding set_map using 4(4) by (auto simp: retire_row_def)
qed

lemma retire_ok: "fences_ok rows \<Longrightarrow> fences_ok (map (retire_row s g t now) rows)"
  by (simp add: fences_ok_def versions_of_map retire_chain)

lemma foldr_max_ge: "x \<in> set xs \<Longrightarrow> x \<le> foldr max xs (0::int)"
  by (induction xs) auto

lemma foldr_max_in: "foldr max xs (0::int) \<in> insert 0 (set xs)"
  by (induction xs) (auto simp: max_def)

lemma chain_latest:
  assumes "fence_chain rs"
  shows "foldr max (map fr_Version rs) 0 = int (length rs)"
proof -
  have vs: "set (map fr_Version rs) = int ` {1..<Suc (length rs)}"
    using assms unfolding fence_chain_def by (simp only: set_map set_upt)
  have "foldr max (map fr_Version rs) 0 \<le> int (length rs)"
    using foldr_max_in [of "map fr_Version rs"] unfolding vs by auto
  moreover have "int (length rs) \<le> foldr max (map fr_Version rs) 0"
  proof (cases "rs = []")
    case False
    then have "int (length rs) \<in> set (map fr_Version rs)"
      unfolding vs by (intro image_eqI [of _ _ "length rs"]) (auto simp: Suc_le_eq)
    then show ?thesis by (rule foldr_max_ge)
  qed simp
  ultimately show ?thesis by simp
qed

text \<open>The rows a version read or a retirement addresses are all of the geofence, or none.\<close>

lemma chain_owner:
  assumes "fence_chain rs" "admits s t"
  shows "filter (\<lambda>r. fr_TenantID r = t \<and> admits s (fr_TenantID r)) rs \<in> {rs, []}"
proof (cases "\<exists>r\<in>set rs. fr_TenantID r = t")
  case True
  then have "\<forall>r\<in>set rs. fr_TenantID r = t" using assms(1) unfolding fence_chain_def by metis
  then have "filter (\<lambda>r. fr_TenantID r = t \<and> admits s (fr_TenantID r)) rs = rs"
    using assms(2) by (intro filter_True) auto
  then show ?thesis by simp
next
  case False
  then have "filter (\<lambda>r. fr_TenantID r = t \<and> admits s (fr_TenantID r)) rs = []"
    by (intro filter_False) auto
  then show ?thesis by simp
qed

lemma latest_version_rows:
  "latest_version s g t d = foldr max (map fr_Version
     (filter (\<lambda>r. fr_TenantID r = t \<and> admits s (fr_TenantID r)) (versions_of g (db_fences d)))) 0"
proof -
  have "filter (\<lambda>r. fr_GeofenceID r = g \<and> fr_TenantID r = t) (visible_fences s d)
      = filter (\<lambda>r. fr_TenantID r = t \<and> admits s (fr_TenantID r)) (versions_of g (db_fences d))"
    by (simp add: visible_fences_def versions_of_def filter_filter conj_ac cong: conj_cong)
      (metis (mono_tags, lifting))
  then show ?thesis by (simp add: latest_version_def)
qed

definition version_added :: "session \<Rightarrow> FenceRow \<Rightarrow> int \<Rightarrow> db \<Rightarrow> FenceRow \<Rightarrow> db \<Rightarrow> bool" where
  "version_added s row expected d created d' \<longleftrightarrow>
     latest_version s (fr_GeofenceID row) (fr_TenantID row) d = expected
     \<and> (\<exists>ring. fr_VerticesMicros row = Some ring \<and> 4 \<le> length ring)
     \<and> (\<exists>now. created = new_version row (expected + 1) now
          \<and> insert_fence s created (d\<lparr>db_fences :=
              map (retire_row s (fr_GeofenceID row) (fr_TenantID row) now) (db_fences d)\<rparr>) = Some (d', created))"

lemma version_addedI:
  assumes "insert_fence s (new_version row (expected + 1) now) (d\<lparr>db_fences :=
       map (retire_row s (fr_GeofenceID row) (fr_TenantID row) now) (db_fences d)\<rparr>) = Some (d', c)"
    "latest_version s (fr_GeofenceID row) (fr_TenantID row) d = expected" "fr_VerticesMicros row = Some ring"
    "\<not> length ring < 4"
  shows "version_added s row expected d c d'"
proof -
  have "c = new_version row (expected + 1) now" using assms(1) by (auto simp: insert_fence_def split: if_splits)
  with assms show ?thesis unfolding version_added_def not_less by blast
qed

lemma CreateGeofenceVersion_wp:
  "wp (CreateGeofenceVersion X s row expected) (\<lambda>created w'. version_added s row expected (w_db w) created (w_db w'))
     (\<lambda>e w'. w_db w' = w_db w
        \<and> (latest_version s (fr_GeofenceID row) (fr_TenantID row) (w_db w) \<noteq> expected \<longrightarrow>
             (\<exists>l. e = ErrDB l) \<or> e = ErrVersionConflict (latest_version s (fr_GeofenceID row) (fr_TenantID row) (w_db w)) expected)) w"
  unfolding CreateGeofenceVersion_def
  by (simp only: wp_simps fst_retire_rows)
    (auto simp: polygonWKT_def split: option.split if_splits intro: version_addedI)

section \<open>Runs of the fence store\<close>

text \<open>A row with the same content, possibly retired since.\<close>

definition same_version :: "FenceRow \<Rightarrow> FenceRow \<Rightarrow> bool" where
  "same_version r q \<longleftrightarrow> q = r \<or> (fr_State r = ACTIVE \<and> (\<exists>t. q = r\<lparr>fr_State := RETIRED, fr_RetiredAt := Some t\<rparr>))"

datatype fence_op =
    OpVersion session FenceRow int
  | OpRetire session string string

fun fence_op_step :: "externals \<Rightarrow> world \<Rightarrow> fence_op \<Rightarrow> world" where
  "fence_op_step X w (OpVersion s row expected) = fst (CreateGeofenceVersion X s row expected w)"
| "fence_op_step X w (OpRetire s t g) = fst (RetireGeofence X s t g w)"

lemma RetireGeofence_wp:
  "wp (RetireGeofence X s t g)
     (\<lambda>_ w'. \<exists>now. w_db w' = (w_db w)\<lparr>db_fences := map (retire_row s g t now) (db_fences (w_db w))\<rparr>
        \<and> (\<exists>r\<in>set (db_fences (w_db w)). active_of s g t r))
     (\<lambda>e w'. w_db w' = w_db w) w"
proof -
  have none: "map (retire_row s g t now) (db_fences d) = db_fences d"
    if "filter (active_of s g t) (db_fences d) = []" for now d
    using that by (auto simp: retire_row_def filter_empty_conv intro: map_idI)
  have some: "\<exists>r\<in>set (db_fences d). active_of s g t r" if "filter (active_of s g t) (db_fences d) \<noteq> []" for d
    using that by (auto simp: filter_empty_conv)
  have eq: "retire_rows s g t now d = (d\<lparr>db_fences := map (retire_row s g t now) (db_fences d)\<rparr>,
      length (filter (active_of s g t) (db_fences d)))" for now d
    using fst_retire_rows [of s g t now d] by (simp add: retire_rows_def)
  show ?thesis
    unfolding RetireGeofence_def
    by (simp only: wp_simps eq option.case fst_conv snd_conv length_0_conv) (auto simp: none dest: some)
qed

lemma fence_op_db:
  obtains (same) "w_db (fence_op_step X w op) = w_db w"
  | (added) s row expected created where
      "version_added s row expected (w_db w) created (w_db (fence_op_step X w op))"
  | (retired) s g t now where
      "w_db (fence_op_step X w op) = (w_db w)\<lparr>db_fences := map (retire_row s g t now) (db_fences (w_db w))\<rparr>"
proof (cases op)
  case (OpVersion s row expected)
  obtain w' res where run: "CreateGeofenceVersion X s row expected w = (w', res)" by fastforce
  show ?thesis
  proof (cases res)
    case (Inl e)
    from wp_Inl [OF CreateGeofenceVersion_wp run [unfolded Inl]] OpVersion run show ?thesis by (intro same) simp
  next
    case (Inr c)
    from wp_Inr [OF CreateGeofenceVersion_wp run [unfolded Inr]] OpVersion run show ?thesis by (intro added) simp
  qed
next
  case (OpRetire s t g)
  obtain w' res where run: "RetireGeofence X s t g w = (w', res)" by fastforce
  show ?thesis
  proof (cases res)
    case (Inl e)
    from wp_Inl [OF RetireGeofence_wp run [unfolded Inl]] OpRetire run show ?thesis by (intro same) simp
  next
    case (Inr u)
    from wp_Inr [OF RetireGeofence_wp run [unfolded Inr]] obtain now where
      "w_db w' = (w_db w)\<lparr>db_fences := map (retire_row s g t now) (db_fences (w_db w))\<rparr>" by blast
    with OpRetire run show ?thesis by (intro retired [of s g t now]) simp
  qed
qed

lemma version_added_rows:
  assumes "version_added s row expected d c d'"
  obtains now where "c = new_version row (expected + 1) now" "admits s (fr_TenantID row)"
    "db_fences d' = map (retire_row s (fr_GeofenceID row) (fr_TenantID row) now) (db_fences d) @ [c]"
    "\<forall>q\<in>set (versions_of (fr_GeofenceID row) (db_fences d)). fr_Version q \<noteq> expected + 1
        \<and> fr_State (retire_row s (fr_GeofenceID row) (fr_TenantID row) now q) \<noteq> ACTIVE"
proof -
  from assms obtain now where c: "c = new_version row (expected + 1) now"
    and ins: "insert_fence s c (d\<lparr>db_fences :=
       map (retire_row s (fr_GeofenceID row) (fr_TenantID row) now) (db_fences d)\<rparr>) = Some (d', c)"
    by (auto simp: version_added_def)
  show ?thesis
    by (rule that [OF c]) (use ins c in \<open>auto simp: insert_fence_def new_version_def versions_of_def image_iff image_image split: if_splits\<close>)
qed

lemma append_chain:
  assumes "fence_chain rs" "\<forall>q\<in>set rs. fr_State q \<noteq> ACTIVE" "fr_Version c = int (length rs) + 1"
    "\<forall>q\<in>set rs. fr_TenantID q = fr_TenantID c" "fr_State c = ACTIVE" "fr_RetiredAt c = None"
  shows "fence_chain (rs @ [c])"
proof -
  have "map fr_Version (rs @ [c]) = map int [1..<Suc (length (rs @ [c]))]"
    using assms(1,3) by (simp add: fence_chain_def)
  moreover have "fr_TenantID r = fr_TenantID q" if "r \<in> set (rs @ [c])" "q \<in> set (rs @ [c])" for r q
    using assms(4) that by (metis Un_iff empty_iff insert_iff list.set set_append)
  moreover have "fr_State r \<in> {ACTIVE, RETIRED} \<and> (fr_State r = ACTIVE \<longleftrightarrow> fr_RetiredAt r = None)"
    if "r \<in> set (rs @ [c])" for r
    using that assms(1,5,6) by (auto simp: fence_chain_def)
  moreover have "fr_State r = RETIRED" if "r \<in> set rs" for r
    using that assms(1,2) by (auto simp: fence_chain_def)
  ultimately show ?thesis unfolding fence_chain_def butlast_snoc by blast
qed

lemma version_added_ok:
  assumes ok: "fences_ok (db_fences d)" and add: "version_added s row expected d c d'"
  shows "fences_ok (db_fences d')"
  unfolding fences_ok_def
proof
  fix g
  from add obtain now where c: "c = new_version row (expected + 1) now" and adm: "admits s (fr_TenantID row)"
    and rows: "db_fences d' = map (retire_row s (fr_GeofenceID row) (fr_TenantID row) now) (db_fences d) @ [c]"
    and free: "\<forall>q\<in>set (versions_of (fr_GeofenceID row) (db_fences d)). fr_Version q \<noteq> expected + 1
        \<and> fr_State (retire_row s (fr_GeofenceID row) (fr_TenantID row) now q) \<noteq> ACTIVE"
    by (rule version_added_rows)
  let ?f = "retire_row s (fr_GeofenceID row) (fr_TenantID row) now"
  let ?rs = "versions_of (fr_GeofenceID row) (db_fences d)"
  have chain: "fence_chain (versions_of h (db_fences d))" for h using ok by (simp add: fences_ok_def)
  show "fence_chain (versions_of g (db_fences d'))"
  proof (cases "g = fr_GeofenceID row")
    case False
    then have "versions_of g (db_fences d') = map ?f (versions_of g (db_fences d))"
      unfolding rows using versions_of_map [of g s] by (simp add: versions_of_def c new_version_def)
    then show ?thesis using retire_chain [OF chain] by simp
  next
    case True
    then have eq: "versions_of g (db_fences d') = map ?f ?rs @ [c]"
      unfolding rows using versions_of_map [of g s] by (simp add: versions_of_def c new_version_def)
    let ?mine = "filter (\<lambda>r. fr_TenantID r = fr_TenantID row \<and> admits s (fr_TenantID r)) ?rs"
    have exp: "foldr max (map fr_Version ?mine) 0 = expected"
      using add latest_version_rows by (simp add: version_added_def)
    have all: "?mine = ?rs"
    proof (rule ccontr)
      assume "?mine \<noteq> ?rs"
      then have e: "?mine = []" "?rs \<noteq> []" using chain_owner [OF chain adm] by auto
      then have "expected = 0" using exp by simp
      moreover have "1 \<in> fr_Version ` set ?rs"
      proof -
        have "set (map fr_Version ?rs) = int ` {1..<Suc (length ?rs)}"
          using chain unfolding fence_chain_def by (simp only: set_map set_upt)
        moreover have "1 \<in> int ` {1..<Suc (length ?rs)}" using e(2) by (intro image_eqI [of _ _ 1]) (auto simp: Suc_le_eq)
        ultimately show ?thesis by simp
      qed
      ultimately show False using free by force
    qed
    then have len: "expected = int (length ?rs)" using exp chain_latest [OF chain] by simp
    have own: "\<forall>q\<in>set ?rs. fr_TenantID q = fr_TenantID row"
    proof
      fix q assume "q \<in> set ?rs"
      then have "q \<in> set ?mine" unfolding all .
      then show "fr_TenantID q = fr_TenantID row" by simp
    qed
    show ?thesis unfolding eq
    proof (rule append_chain [OF retire_chain [OF chain]])
      show "\<forall>q\<in>set (map ?f ?rs). fr_State q \<noteq> ACTIVE" using free by simp
      show "\<forall>q\<in>set (map ?f ?rs). fr_TenantID q = fr_TenantID c"
        using own by (simp add: c new_version_def)
    qed (simp_all add: c new_version_def len)
  qed
qed

lemma fence_op_ok:
  assumes "fences_ok (db_fences (w_db w))"
  shows "fences_ok (db_fences (w_db (fence_op_step X w op)))"
proof (cases rule: fence_op_db [of X w op])
  case same
  with assms show ?thesis by simp
next
  case (added s row expected c)
  show ?thesis by (rule version_added_ok [OF assms added])
next
  case (retired s g t now)
  with retire_ok [OF assms] show ?thesis by simp
qed

interpretation fence_run: kept_invariant "fence_op_step X" "\<lambda>w. fences_ok (db_fences (w_db w))" for X
  by unfold_locales (rule fence_op_ok)

text \<open>A stored version is never lost or rewritten.\<close>

definition kept_version :: "FenceRow \<Rightarrow> world \<Rightarrow> bool" where
  "kept_version r w \<longleftrightarrow> (\<exists>q\<in>set (db_fences (w_db w)). same_version r q)"

lemma retire_same_version: "same_version r q \<Longrightarrow> same_version r (retire_row s g t now q)"
  by (auto simp: same_version_def retire_row_def active_of_def)

lemma kept_version_step:
  assumes "kept_version r w"
  shows "kept_version r (fence_op_step X w op)"
proof -
  from assms obtain q where q: "q \<in> set (db_fences (w_db w))" "same_version r q" by (auto simp: kept_version_def)
  show ?thesis
  proof (cases rule: fence_op_db [of X w op])
    case same
    with assms show ?thesis by (simp add: kept_version_def)
  next
    case (added s row expected c)
    then obtain now where "db_fences (w_db (fence_op_step X w op))
        = map (retire_row s (fr_GeofenceID row) (fr_TenantID row) now) (db_fences (w_db w)) @ [c]"
      by (rule version_added_rows)
    with q(1) have "retire_row s (fr_GeofenceID row) (fr_TenantID row) now q \<in> set (db_fences (w_db (fence_op_step X w op)))"
      by simp
    with retire_same_version [OF q(2)] show ?thesis unfolding kept_version_def by blast
  next
    case (retired s g t now)
    with q(1) have "retire_row s g t now q \<in> set (db_fences (w_db (fence_op_step X w op)))" by simp
    with retire_same_version [OF q(2)] show ?thesis unfolding kept_version_def by blast
  qed
qed

interpretation fence_history: absorbing_state "fence_op_step X" "kept_version r" for X r
  by unfold_locales (rule kept_version_step)

section \<open>Properties\<close>

definition sample_fence_row :: FenceRow where
  "sample_fence_row = \<lparr>fr_GeofenceID = ''g1'', fr_Version = 0, fr_TenantID = ''t1'', fr_Name = ''Reserve'',
     fr_Classification = ClassificationPublic, fr_VerticesMicros = Some [(0, 0), (0, 9), (9, 9), (0, 0)],
     fr_DwellThresholdSeconds = 0, fr_DwellSpeedGateMilliknots = 0, fr_State = [], fr_ZoneCategory = ''mpa'',
     fr_CreatedBy = ''ada'', fr_CreatedAt = 0, fr_RetiredAt = None\<rparr>"

definition fence_world :: world where
  "fence_world = empty_world\<lparr>w_db := empty_db\<lparr>db_fences := [new_version sample_fence_row 1 5]\<rparr>\<rparr>"

text \<open>C26. The version history of geofences, after any run of version writes and retirements by any
  sessions under any outages: the versions of a geofence are exactly 1, 2, \<dots>, n in order of creation, all
  owned by one tenant, at most the last is ACTIVE, and a row carries a retirement time exactly when it is
  RETIRED.\<close>

theorem fence_versions_invariant:
  "fences_ok (db_fences (w_db (run_steps (fence_op_step X) empty_world ops)))"
  by (rule fence_run.inv_run) (simp add: empty_world_def empty_db_def fences_ok_def versions_of_def fence_chain_def)

text \<open>History is immutable: a stored fence version is still there after any run, with every column as it
  was except that an ACTIVE one may have been retired, so an event can always be traced to the geometry that
  produced it.\<close>

theorem fence_history_kept:
  assumes "r \<in> set (db_fences (w_db w))"
  shows "\<exists>q\<in>set (db_fences (w_db (run_steps (fence_op_step X) w ops))).
    q = r \<or> (fr_State r = ACTIVE \<and> (\<exists>t. q = r\<lparr>fr_State := RETIRED, fr_RetiredAt := Some t\<rparr>))"
proof -
  have "kept_version r w" using assms by (auto simp: kept_version_def same_version_def)
  then have "kept_version r (run_steps (fence_op_step X) w ops)" by (rule fence_history.inv_run)
  then show ?thesis by (simp add: kept_version_def same_version_def)
qed

theorem fence_history_kept_witness:
  "\<exists>q\<in>set (db_fences (w_db (run_steps (fence_op_step calm) fence_world [OpVersion Exempt sample_fence_row 1]))).
     fr_Version q = 1 \<and> fr_VerticesMicros q = fr_VerticesMicros sample_fence_row"
proof -
  have "new_version sample_fence_row 1 5 \<in> set (db_fences (w_db fence_world))" by (simp add: fence_world_def)
  from fence_history_kept [OF this, of calm "[OpVersion Exempt sample_fence_row 1]"] show ?thesis
    by (elim bexE disjE conjE exE; intro bexI) (simp_all add: new_version_def)
qed

text \<open>Optimistic concurrency: a version write succeeds only when the expected version is the latest one
  and the ring has at least four vertices; it stores the next version as the geofence's only ACTIVE row and
  returns that row. A write that fails stores nothing, and a stale expectation is answered with the version
  conflict unless the database itself failed.\<close>

theorem CreateGeofenceVersion_optimistic:
  assumes "CreateGeofenceVersion X s row expected w = (w', res)"
  shows "case res of
      Inr c \<Rightarrow>
        latest_version s (fr_GeofenceID row) (fr_TenantID row) (w_db w) = expected
        \<and> (\<exists>ring. fr_VerticesMicros row = Some ring \<and> 4 \<le> length ring)
        \<and> (\<exists>now. c = row\<lparr>fr_Version := expected + 1, fr_State := ACTIVE,
                          fr_ZoneCategory := zoneCategoryOrGeneral (fr_ZoneCategory row),
                          fr_CreatedAt := now, fr_RetiredAt := None\<rparr>)
        \<and> {q \<in> set (db_fences (w_db w')). fr_GeofenceID q = fr_GeofenceID row \<and> fr_State q = ACTIVE} = {c}
    | Inl e \<Rightarrow>
        w_db w' = w_db w
        \<and> (latest_version s (fr_GeofenceID row) (fr_TenantID row) (w_db w) \<noteq> expected \<longrightarrow>
             (\<exists>l. e = ErrDB l)
             \<or> e = ErrVersionConflict (latest_version s (fr_GeofenceID row) (fr_TenantID row) (w_db w)) expected)"
proof (cases res)
  case (Inl e)
  from wp_Inl [OF CreateGeofenceVersion_wp assms [unfolded Inl]] Inl show ?thesis by simp
next
  case (Inr c)
  from wp_Inr [OF CreateGeofenceVersion_wp assms [unfolded Inr]]
  have add: "version_added s row expected (w_db w) c (w_db w')" .
  then obtain now where c: "c = new_version row (expected + 1) now"
    and rows: "db_fences (w_db w') = map (retire_row s (fr_GeofenceID row) (fr_TenantID row) now) (db_fences (w_db w)) @ [c]"
    and free: "\<forall>q\<in>set (versions_of (fr_GeofenceID row) (db_fences (w_db w))). fr_Version q \<noteq> expected + 1
        \<and> fr_State (retire_row s (fr_GeofenceID row) (fr_TenantID row) now q) \<noteq> ACTIVE"
    by (rule version_added_rows)
  have "{q \<in> set (db_fences (w_db w')). fr_GeofenceID q = fr_GeofenceID row \<and> fr_State q = ACTIVE} = {c}"
    unfolding rows using free by (auto simp: versions_of_def c new_version_def)
  with add Inr c show ?thesis by (auto simp: version_added_def new_version_def)
qed

theorem CreateGeofenceVersion_optimistic_witness:
  "\<exists>w' e. CreateGeofenceVersion calm Exempt sample_fence_row 0 fence_world = (w', Inl e)
     \<and> w_db w' = w_db fence_world \<and> ((\<exists>l. e = ErrDB l) \<or> e = ErrVersionConflict 1 0)"
proof -
  have "isl (snd (CreateGeofenceVersion calm Exempt sample_fence_row 0 fence_world))
      \<and> latest_version Exempt ''g1'' ''t1'' (w_db fence_world) = 1"
    by code_simp
  then obtain w' e where run: "CreateGeofenceVersion calm Exempt sample_fence_row 0 fence_world = (w', Inl e)"
    and l: "latest_version Exempt ''g1'' ''t1'' (w_db fence_world) = 1"
    by (cases "CreateGeofenceVersion calm Exempt sample_fence_row 0 fence_world") (auto simp: isl_def)
  from CreateGeofenceVersion_optimistic [OF run] run l show ?thesis
    by (auto simp: sample_fence_row_def)
qed

text \<open>On a session without a bound tenant the forced row-level security of \<open>geofences\<close> denies
  everything: no version can be written, no fence retired, and every listing is empty. The store's fence
  calls use the application pool directly, without \<open>WithTenant\<close>, so this is their session.\<close>

theorem unbound_session_denied:
  "isl (snd (CreateGeofenceVersion X Unbound row expected w))
   \<and> w_db (fst (CreateGeofenceVersion X Unbound row expected w)) = w_db w
   \<and> isl (snd (RetireGeofence X Unbound tenant g w))
   \<and> snd (ListActiveGeofences X Unbound tenant labels w) \<in> {Inr [], Inl (ErrDB ''list geofences'')}"
proof -
  have create: "wp (CreateGeofenceVersion X Unbound row expected) (\<lambda>_ _. False) (\<lambda>e w'. w_db w' = w_db w) w"
    by (rule wp_mono [OF CreateGeofenceVersion_wp]) (auto elim: version_added_rows)
  have retire: "wp (RetireGeofence X Unbound tenant g) (\<lambda>_ _. False) (\<lambda>_ _. True) w"
    by (rule wp_mono [OF RetireGeofence_wp]) (auto simp: active_of_def)
  have list: "wp (ListActiveGeofences X Unbound tenant labels) (\<lambda>rs _. rs = []) (\<lambda>e _. e = ErrDB ''list geofences'') w"
    by (simp add: ListActiveGeofences_def visible_fences_def wp_simps)
  show ?thesis
    using create retire list by (auto simp: wp_def split: prod.splits sum.splits)
qed

end
