(* ===== verification/Bus.thy ===== *)
theory Bus
  imports World
begin

text \<open>
  The Kafka boundary (\<open>internal/bus/producer.go\<close>): the configuration of a producer and the publish
  loop with its attempt budget and backoff. The trace headers a live telemetry exporter would add are
  not modelled.

  What the pipeline relies on is the locale \<open>publisher\<close> (the Go interface \<open>Publisher\<close>): a call that
  returns nil has appended exactly its message, one that returns an error has appended nothing, and
  no call touches the tables or the in-process state. \<open>Publish\<close> interprets it.
\<close>

section \<open>Configuration\<close>

definition RequireAll :: int where "RequireAll = - 1"

record BusProducer =
  pd_brokers :: "string list"
  pd_requiredAcks :: int
  pd_attempts :: nat
  pd_backoff :: int
  pd_batchSize :: int
  pd_batchTimeout :: int

record Config =
  cf_Brokers :: "string list"
  cf_RequiredAcks :: int
  cf_Attempts :: int
  cf_Backoff :: int

text \<open>\<open>strconv.Atoi\<close>: an optional sign, at least one digit, in the range of int.\<close>

definition atoi :: "string \<Rightarrow> int option" where
  "atoi s =
     (let negative = (s \<noteq> [] \<and> hd s = CHR ''-'');
          digits = (if s \<noteq> [] \<and> (hd s = CHR ''-'' \<or> hd s = CHR ''+'') then tl s else s);
          v = (if negative then - int (read_nat digits) else int (read_nat digits))
      in if digits = [] \<or> (\<exists>c\<in>set digits. \<not> is_digit c) then None
         else if v < - 9223372036854775808 \<or> 9223372036854775807 < v then None else Some v)"

text \<open>An environment override: unset keeps the default, otherwise a positive integer.\<close>

definition env_positive :: "string \<Rightarrow> int \<Rightarrow> geo_error + int" where
  "env_positive raw fallback =
     (if raw = [] then Inr fallback
      else case atoi raw of
             None \<Rightarrow> Inl (ErrText ''must be a positive integer'')
           | Some v \<Rightarrow> if v \<le> 0 then Inl (ErrText ''must be a positive integer'') else Inr v)"

definition millisecond :: int where "millisecond = 1000000"

definition NewProducer :: "Config \<Rightarrow> string \<Rightarrow> string \<Rightarrow> geo_error + BusProducer" where
  "NewProducer config batchSizeEnv batchTimeoutEnv =
     (let brokers = filter (\<lambda>b. b \<noteq> []) (map trim_space (cf_Brokers config));
          attempts = (if cf_Attempts config \<le> 0 then 5 else cf_Attempts config);
          backoff = (if cf_Backoff config \<le> 0 then 200 * millisecond else cf_Backoff config);
          requiredAcks = (if cf_RequiredAcks config = 0 then RequireAll else cf_RequiredAcks config)
      in if brokers = [] then Inl (ErrText ''kafka broker list is empty'')
         else case env_positive batchSizeEnv 0 of
           Inl e \<Rightarrow> Inl e
         | Inr batchSize \<Rightarrow>
             (case (if batchTimeoutEnv = [] then Inr (50 * millisecond)
                    else map_sum id (\<lambda>v. wrap_int64 (v * millisecond)) (env_positive batchTimeoutEnv 0)) of
                Inl e \<Rightarrow> Inl e
              | Inr batchTimeout \<Rightarrow>
                  Inr \<lparr>pd_brokers = brokers, pd_requiredAcks = requiredAcks, pd_attempts = nat attempts,
                       pd_backoff = backoff, pd_batchSize = batchSize, pd_batchTimeout = batchTimeout\<rparr>))"

section \<open>Publishing\<close>

fun topic_name :: "topic \<Rightarrow> string" where
  "topic_name TopicAISRaw = ''ais.raw''"
| "topic_name TopicVesselEvents = ''vessels.events''"
| "topic_name TopicVesselQuarantine = ''vessels.quarantine''"

text \<open>
  The attempts left and the delay before the next one. An attempt is a write; after a failed one the
  context is asked, and again by the sleep that separates two attempts.
\<close>

fun publish_attempts :: "externals \<Rightarrow> message \<Rightarrow> nat \<Rightarrow> int \<Rightarrow> unit geo" where
  "publish_attempts X m 0 delay = raise (ErrPublish (km_topic m))"
| "publish_attempts X m (Suc n) delay =
     bindA (asks (x_kafka X)) (\<lambda>ok.
       if ok then modifies (\<lambda>w. w\<lparr>w_kafka := w_kafka w @ [m]\<rparr>)
       else bindA (asks (x_ctx X)) (\<lambda>alive.
         if \<not> alive then raise (ErrContext (km_topic m))
         else if n = 0 then publish_attempts X m n delay
         else bindA (asks (x_ctx X)) (\<lambda>slept.
           if \<not> slept then raise (ErrContext (km_topic m))
           else publish_attempts X m n (wrap_int64 (2 * delay)))))"

definition Publish :: "externals \<Rightarrow> BusProducer \<Rightarrow> topic \<Rightarrow> string \<Rightarrow> kvalue \<Rightarrow> (string \<rightharpoonup> string) \<Rightarrow> unit geo" where
  "Publish X producer topic key v headers =
     (if trim_space (topic_name topic) = [] then raise (ErrText ''kafka topic is required'')
      else publish_attempts X \<lparr>km_topic = topic, km_key = key, km_value = v, km_headers = headers\<rparr>
             (pd_attempts producer) (pd_backoff producer))"

section \<open>The publisher interface\<close>

text \<open>Everything of the world but the topics and the call counter.\<close>

definition same_but_kafka :: "world \<Rightarrow> world \<Rightarrow> bool" where
  "same_but_kafka w w' \<longleftrightarrow>
     w_db w' = w_db w \<and> w_dedup w' = w_dedup w \<and> w_zone_state w' = w_zone_state w
     \<and> w_tracker w' = w_tracker w \<and> w_engine w' = w_engine w \<and> w_fenceset w' = w_fenceset w
     \<and> w_sse w' = w_sse w \<and> w_metrics w' = w_metrics w"

lemma same_but_kafka_refl [simp]: "same_but_kafka w w"
  by (simp add: same_but_kafka_def)

lemma same_but_kafka_tick [simp]:
  "same_but_kafka w (v\<lparr>w_tick := n\<rparr>) = same_but_kafka w v" "same_but_kafka w (v\<lparr>w_kafka := ms\<rparr>) = same_but_kafka w v"
  "same_but_kafka (v\<lparr>w_tick := n\<rparr>) w = same_but_kafka v w" "same_but_kafka (v\<lparr>w_kafka := ms\<rparr>) w = same_but_kafka v w"
  by (simp_all add: same_but_kafka_def)

lemma same_but_kafka_trans: "same_but_kafka u v \<Longrightarrow> same_but_kafka v w \<Longrightarrow> same_but_kafka u w"
  by (simp add: same_but_kafka_def)

lemma same_but_kafka_simps:
  assumes "same_but_kafka w w'"
  shows "w_db w' = w_db w" "w_dedup w' = w_dedup w" "w_zone_state w' = w_zone_state w"
    "w_tracker w' = w_tracker w" "w_engine w' = w_engine w" "w_fenceset w' = w_fenceset w"
    "w_sse w' = w_sse w" "w_metrics w' = w_metrics w"
  using assms by (simp_all add: same_but_kafka_def)

locale publisher =
  fixes publish :: "topic \<Rightarrow> string \<Rightarrow> kvalue \<Rightarrow> (string \<rightharpoonup> string) \<Rightarrow> unit geo"
  assumes publish_wp: "wp (publish t k v h)
     (\<lambda>_ w'. same_but_kafka w w'
        \<and> w_kafka w' = w_kafka w @ [\<lparr>km_topic = t, km_key = k, km_value = v, km_headers = h\<rparr>])
     (\<lambda>_ w'. same_but_kafka w w' \<and> w_kafka w' = w_kafka w) w"
begin

text \<open>Publishing some messages one after the other, stopping at the first error: what is on the topics
  afterwards is a prefix of them, all of them on success.\<close>

lemma each_published:
  assumes "eachA (\<lambda>m. publish (km_topic m) (km_key m) (km_value m) (km_headers m)) ms w = (w', res)"
  shows "\<exists>n. w_kafka w' = w_kafka w @ take n ms \<and> same_but_kafka w w' \<and> (res = Inr () \<longrightarrow> n = length ms)
    \<and> (isl res \<longrightarrow> n < length ms)"
  using assms
proof (induction ms arbitrary: w)
  case Nil
  then show ?case by (auto simp: ret_def)
next
  case (Cons m ms)
  obtain v r where run: "publish (km_topic m) (km_key m) (km_value m) (km_headers m) w = (v, r)" by fastforce
  show ?case
  proof (cases r)
    case (Inl e)
    then show ?thesis using wp_Inl [OF publish_wp run [unfolded Inl]] Cons.prems run
      by (intro exI [of _ 0]) (auto simp: seqA_def bindA_def)
  next
    case (Inr u)
    from wp_Inr [OF publish_wp run [unfolded Inr]]
    have v: "same_but_kafka w v" "w_kafka v = w_kafka w @ [m]" by simp_all
    from Cons.prems run Inr
    have "eachA (\<lambda>m. publish (km_topic m) (km_key m) (km_value m) (km_headers m)) ms v = (w', res)"
      by (simp add: seqA_def bindA_def)
    from Cons.IH [OF this] obtain n where "w_kafka w' = w_kafka v @ take n ms" "same_but_kafka v w'"
      "res = Inr () \<longrightarrow> n = length ms" "isl res \<longrightarrow> n < length ms" by blast
    with v show ?thesis by (intro exI [of _ "Suc n"]) (auto intro: same_but_kafka_trans)
  qed
qed

end

lemma publish_attempts_wp:
  "wp (publish_attempts X m n delay)
     (\<lambda>_ w'. same_but_kafka w w' \<and> w_kafka w' = w_kafka w @ [m])
     (\<lambda>_ w'. same_but_kafka w w' \<and> w_kafka w' = w_kafka w) w"
proof (induction n arbitrary: w delay)
  case 0
  show ?case by (simp add: wp_simps)
next
  case (Suc n)
  have more: "wp (publish_attempts X m n d)
     (\<lambda>_ w'. same_but_kafka w w' \<and> w_kafka w' = w_kafka w @ [m])
     (\<lambda>_ w'. same_but_kafka w w' \<and> w_kafka w' = w_kafka w) (w\<lparr>w_tick := k\<rparr>)" for d k
    by (rule wp_mono [OF Suc.IH]) simp_all
  show ?case
    by (simp only: publish_attempts.simps wp_simps) (auto simp: wp_raise intro!: more)
qed

interpretation bus: publisher "Publish X p" for X p
proof
  fix t k v h w
  have "trim_space (topic_name t) \<noteq> []"
    by (cases t) (simp_all add: trim_space_def trim_left_def is_space_def)
  with publish_attempts_wp [of X "\<lparr>km_topic = t, km_key = k, km_value = v, km_headers = h\<rparr>"]
  show "wp (Publish X p t k v h)
     (\<lambda>_ w'. same_but_kafka w w'
        \<and> w_kafka w' = w_kafka w @ [\<lparr>km_topic = t, km_key = k, km_value = v, km_headers = h\<rparr>])
     (\<lambda>_ w'. same_but_kafka w w' \<and> w_kafka w' = w_kafka w) w"
    by (simp add: Publish_def)
qed

text \<open>While the context lives, attempt \<open>k\<close> is the call numbered three per attempt.\<close>

lemma publish_attempts_live:
  assumes "\<forall>n. x_ctx X n"
  shows "snd (publish_attempts X m n delay w) =
    (if \<exists>k<n. x_kafka X (w_tick w + 3 * k) then Inr () else Inl (ErrPublish (km_topic m)))"
proof (induction n arbitrary: w delay)
  case 0
  show ?case by (simp add: raise_def)
next
  case (Suc n)
  have split: "(\<exists>k<Suc n. x_kafka X (t + 3 * k)) \<longleftrightarrow> x_kafka X t \<or> (\<exists>k<n. x_kafka X (t + 3 + 3 * k))" for t
  proof
    assume "\<exists>k<Suc n. x_kafka X (t + 3 * k)"
    then obtain k where "k < Suc n" "x_kafka X (t + 3 * k)" by blast
    then show "x_kafka X t \<or> (\<exists>k<n. x_kafka X (t + 3 + 3 * k))" by (cases k) (auto simp: add.assoc)
  next
    assume "x_kafka X t \<or> (\<exists>k<n. x_kafka X (t + 3 + 3 * k))"
    then show "\<exists>k<Suc n. x_kafka X (t + 3 * k)"
    proof
      assume "x_kafka X t"
      then show ?thesis by (intro exI [of _ 0]) simp
    next
      assume "\<exists>k<n. x_kafka X (t + 3 + 3 * k)"
      then obtain k where "k < n" "x_kafka X (t + 3 + 3 * k)" by blast
      then show ?thesis by (intro exI [of _ "Suc k"]) (simp add: add.assoc)
    qed
  qed
  show ?case
  proof (cases "x_kafka X (w_tick w)")
    case True
    then show ?thesis by (auto simp: bindA_def asks_def modifies_def)
  next
    case False
    show ?thesis
    proof (cases "n = 0")
      case True
      with False assms show ?thesis by (simp add: bindA_def asks_def raise_def)
    next
      case n: False
      have "publish_attempts X m (Suc n) delay w = publish_attempts X m n (wrap_int64 (2 * delay)) (w\<lparr>w_tick := w_tick w + 3\<rparr>)"
        using n False assms by (simp add: bindA_def asks_def numeral_3_eq_3)
      then show ?thesis using False by (simp only: Suc.IH split) simp
    qed
  qed
qed

section \<open>Properties\<close>

definition sample_producer :: BusProducer where
  "sample_producer = \<lparr>pd_brokers = [''k:9092''], pd_requiredAcks = RequireAll, pd_attempts = 3,
     pd_backoff = 200 * millisecond, pd_batchSize = 0, pd_batchTimeout = 50 * millisecond\<rparr>"

text \<open>Publishing with retries: a call that returns nil has appended exactly its message, one that returns
  an error has appended nothing, and either leaves everything else of the service alone. While the
  context is alive it succeeds exactly when one of the writes in its attempt budget does, so it never gives
  up early and always returns.\<close>

theorem Publish_retries:
  assumes "\<forall>n. x_ctx X n"
  shows "snd (Publish X p t k v h w) =
      (if \<exists>i<pd_attempts p. x_kafka X (w_tick w + 3 * i) then Inr () else Inl (ErrPublish t))
    \<and> same_but_kafka w (fst (Publish X p t k v h w))
    \<and> w_kafka (fst (Publish X p t k v h w)) = w_kafka w @
        (if isl (snd (Publish X p t k v h w)) then []
         else [\<lparr>km_topic = t, km_key = k, km_value = v, km_headers = h\<rparr>])"
proof -
  have "trim_space (topic_name t) \<noteq> []"
    by (cases t) (simp_all add: trim_space_def trim_left_def is_space_def)
  then have "snd (Publish X p t k v h w) =
      (if \<exists>i<pd_attempts p. x_kafka X (w_tick w + 3 * i) then Inr () else Inl (ErrPublish t))"
    by (simp add: Publish_def publish_attempts_live [OF assms])
  moreover have "same_but_kafka w (fst (Publish X p t k v h w))
    \<and> w_kafka (fst (Publish X p t k v h w)) = w_kafka w @
        (if isl (snd (Publish X p t k v h w)) then []
         else [\<lparr>km_topic = t, km_key = k, km_value = v, km_headers = h\<rparr>])"
    using bus.publish_wp [of X p t k v h w] by (auto simp: wp_def split: prod.splits sum.splits)
  ultimately show ?thesis by blast
qed

theorem Publish_retries_witness:
  "snd (Publish (calm\<lparr>x_kafka := \<lambda>n. n = 6\<rparr>) sample_producer TopicVesselEvents ''k''
     (VRaw \<lparr>po_PositionReportID = [], po_MMSI = [], po_VesselRef = [], po_SourceClass = [],
      po_LatitudeMicros = 0, po_LongitudeMicros = 0, po_SpeedOverGroundMilliknots = None,
      po_CourseOverGroundMillidegrees = None, po_HeadingMillidegrees = None, po_NavStatus = None,
      po_PositionAccuracy = [], po_ReceiverID = [], po_AISMessageType = None, po_IMO = [],
      po_Callsign = [], po_ShipName = [], po_Classification = [], po_ObservedAt = 0\<rparr>) Map.empty empty_world) = Inr ()"
proof -
  let ?X = "calm\<lparr>x_kafka := \<lambda>n. n = 6\<rparr>"
  have a: "\<forall>n. x_ctx ?X n" by (simp add: calm_def)
  have "\<exists>i<pd_attempts sample_producer. x_kafka ?X (w_tick empty_world + 3 * i)"
    by (intro exI [of _ 2]) (simp add: sample_producer_def empty_world_def)
  with Publish_retries [OF a] show ?thesis by simp
qed

text \<open>A producer is only built with at least one broker, a positive attempt budget and positive
  backoff, and acknowledgement by all replicas unless another level is asked for.\<close>

theorem NewProducer_fail_closed:
  assumes "NewProducer config batchSize batchTimeout = Inr p"
  shows "pd_brokers p \<noteq> [] \<and> (\<forall>b\<in>set (pd_brokers p). b \<noteq> []) \<and> 0 < pd_attempts p \<and> 0 < pd_backoff p
    \<and> (cf_RequiredAcks config = 0 \<longrightarrow> pd_requiredAcks p = RequireAll)"
proof -
  define brokers where "brokers = filter (\<lambda>b. b \<noteq> []) (map trim_space (cf_Brokers config))"
  define attempts where "attempts = (if cf_Attempts config \<le> 0 then 5 else cf_Attempts config)"
  define backoff where "backoff = (if cf_Backoff config \<le> 0 then 200 * millisecond else cf_Backoff config)"
  define acks where "acks = (if cf_RequiredAcks config = 0 then RequireAll else cf_RequiredAcks config)"
  note parts = brokers_def [symmetric] attempts_def [symmetric] backoff_def [symmetric] acks_def [symmetric]
  have "\<forall>b\<in>set brokers. b \<noteq> []" "0 < attempts" "0 < backoff" "cf_RequiredAcks config = 0 \<longrightarrow> acks = RequireAll"
    by (simp_all add: brokers_def attempts_def backoff_def acks_def millisecond_def)
  moreover have "brokers \<noteq> []" "pd_brokers p = brokers" "pd_attempts p = nat attempts" "pd_backoff p = backoff" "pd_requiredAcks p = acks"
    using assms unfolding NewProducer_def Let_def parts by (auto split: if_split_asm sum.split_asm)
  ultimately show ?thesis by simp
qed

theorem NewProducer_fail_closed_witness:
  "\<exists>p. NewProducer \<lparr>cf_Brokers = ['' k:9092 ''], cf_RequiredAcks = 0, cf_Attempts = 0, cf_Backoff = 0\<rparr> [] [] = Inr p
     \<and> pd_requiredAcks p = RequireAll \<and> 0 < pd_attempts p"
proof -
  let ?c = "\<lparr>cf_Brokers = ['' k:9092 ''], cf_RequiredAcks = 0, cf_Attempts = 0, cf_Backoff = 0\<rparr>"
  have "\<exists>p. NewProducer ?c [] [] = Inr p"
    by (simp add: NewProducer_def env_positive_def trim_space_def trim_left_def is_space_def)
  then obtain p where p: "NewProducer ?c [] [] = Inr p" by blast
  from NewProducer_fail_closed [OF p] p show ?thesis by auto
qed

end
