(* ===== verification/Fence_V2.thy ===== *)
theory Fence_V2
  imports Fence_Store Bus
begin

text \<open>
  The fence engine at ingest (\<open>internal/connectors/fencev2.go\<close>): the cached set of ACTIVE fences, and
  one position folded into the engine, its transitions announced and then persisted.

  The Go interface \<open>FenceV2Publisher\<close> is the argument \<open>pub\<close>; what the evaluator relies on is the
  locale \<open>signed_publisher\<close>.
\<close>

section \<open>The fence set\<close>

type_synonym signed_publish = "EventKind \<Rightarrow> string \<Rightarrow> payload \<Rightarrow> int \<Rightarrow> string \<Rightarrow> (string \<rightharpoonup> string) \<Rightarrow> unit geo"

definition ReloadInterval :: int where "ReloadInterval = 60 * second"

fun load_fences :: "FenceRow list \<Rightarrow> geo_error + Fence list" where
  "load_fences [] = Inr []"
| "load_fences (row # rows) =
     (case fr_VerticesMicros row of
        None \<Rightarrow> Inl (ErrText ''FENCE_STORE_CORRUPT: persisted ring unreadable'')
      | Some raw \<Rightarrow>
          (case load_fences rows of
             Inl e \<Rightarrow> Inl e
           | Inr fs \<Rightarrow> Inr (\<lparr>GeofenceID = fr_GeofenceID row, Version = fr_Version row,
               Vertices = map (\<lambda>v. \<lparr>LatMicros = fst v, LonMicros = snd v\<rparr>) raw,
               DwellThresholdSeconds = fr_DwellThresholdSeconds row,
               DwellSpeedGateMilliknots = fr_DwellSpeedGateMilliknots row\<rparr> # fs)))"

definition meta_of :: "FenceRow list \<Rightarrow> (string \<rightharpoonup> FenceRow)" where
  "meta_of rows = map_of (rev (map (\<lambda>r. (fr_GeofenceID r, r)) rows))"

definition reload_fences :: "externals \<Rightarrow> Fence list geo" where
  "reload_fences X =
     bindA (wrapA (ErrWrap ''FENCE_STORE_UNAVAILABLE'') (ListActiveGeofencesPlatform X)) (\<lambda>rows.
     case load_fences rows of
       Inl e \<Rightarrow> raise e
     | Inr fences \<Rightarrow>
         bindA (clock X) (\<lambda>now.
         seqA (modifies (\<lambda>w. w\<lparr>w_fenceset := Some (fences, meta_of rows, now)\<rparr>)) (ret fences)))"

definition fencesLocked :: "externals \<Rightarrow> Fence list geo" where
  "fencesLocked X =
     bindA (reads w_fenceset) (\<lambda>cached.
     case cached of
       None \<Rightarrow> reload_fences X
     | Some (fences, meta, loadedAt) \<Rightarrow>
         bindA (clock X) (\<lambda>now.
         if time_sub now loadedAt < ReloadInterval then ret fences else reload_fences X))"

section \<open>One position\<close>

fun event_type_text :: "EventType \<Rightarrow> string" where
  "event_type_text EventEnter = ''ENTER''"
| "event_type_text EventExit = ''EXIT''"
| "event_type_text EventDwell = ''DWELL''"

text \<open>A missing map entry is the zero row.\<close>

definition zero_fence_row :: FenceRow where
  "zero_fence_row =
     \<lparr>fr_GeofenceID = [], fr_Version = 0, fr_TenantID = [], fr_Name = [], fr_Classification = [],
      fr_VerticesMicros = None, fr_DwellThresholdSeconds = 0, fr_DwellSpeedGateMilliknots = 0, fr_State = [],
      fr_ZoneCategory = [], fr_CreatedBy = [], fr_CreatedAt = 0, fr_RetiredAt = None\<rparr>"

definition fence_row_of :: "(string \<rightharpoonup> FenceRow) \<Rightarrow> Event \<Rightarrow> FenceRow" where
  "fence_row_of meta event = (case meta (ev_GeofenceID event) of None \<Rightarrow> zero_fence_row | Some r \<Rightarrow> r)"

definition event_classification :: "FenceRow \<Rightarrow> string" where
  "event_classification row =
     (case ParseClassification (fr_Classification row) of Inl _ \<Rightarrow> ''INTERNAL'' | Inr _ \<Rightarrow> fr_Classification row)"

definition event_category :: "FenceRow \<Rightarrow> ZoneCategory" where
  "event_category row =
     (case NormalizeZoneCategory (fr_ZoneCategory row) of None \<Rightarrow> CategoryGeneral | Some c \<Rightarrow> c)"

definition fence_payload :: "Position \<Rightarrow> Event \<Rightarrow> FenceRow \<Rightarrow> string \<Rightarrow> GeofenceEventRecorded" where
  "fence_payload p event row eventID =
     \<lparr>ge_GeofenceEventID = eventID, ge_ZoneID = ev_GeofenceID event, ge_ZoneName = fr_Name row,
      ge_Event = event_type_text (ev_Type event), ge_MMSI = po_MMSI p, ge_TrackReference = [],
      ge_LatitudeMicros = po_LatitudeMicros p, ge_LongitudeMicros = po_LongitudeMicros p,
      ge_OccurredAt = ev_OccurredAtUnix event * second, ge_Classification = event_classification row,
      ge_ZoneCategory = category_name (event_category row), ge_Alert = ZoneAlert (event_category row) (ev_Type event)\<rparr>"

definition fence_headers :: "FenceRow \<Rightarrow> Event \<Rightarrow> (string \<rightharpoonup> string)" where
  "fence_headers row event =
     (let h = [''producer'' \<mapsto> ''geo-fence-engine'', ''zoneCategory'' \<mapsto> category_name (event_category row)];
          alert = ZoneAlert (event_category row) (ev_Type event)
      in if alert \<noteq> [] then h(''alert'' \<mapsto> alert) else h)"

definition transition_event_row :: "externals \<Rightarrow> Position \<Rightarrow> Event \<Rightarrow> FenceRow \<Rightarrow> string \<Rightarrow> FenceEventRow" where
  "transition_event_row X p event row eventID =
     \<lparr>fe_EventID = eventID, fe_GeofenceID = ev_GeofenceID event, fe_GeofenceVersion = ev_Version event,
      fe_TenantID = fr_TenantID row, fe_EventType = event_type_text (ev_Type event), fe_MMSI = po_MMSI p,
      fe_LatitudeMicros = po_LatitudeMicros p, fe_LongitudeMicros = po_LongitudeMicros p,
      fe_Classification = event_classification row,
      fe_EnvelopeDigest = x_sha256hex X (PGeofenceEvent (fence_payload p event row eventID)),
      fe_OccurredAt = ev_OccurredAtUnix event * second, fe_ZoneCategory = category_name (event_category row)\<rparr>"

definition announce :: "externals \<Rightarrow> signed_publish \<Rightarrow> Position \<Rightarrow> Event \<times> FenceRow \<Rightarrow> unit geo" where
  "announce X pub p item =
     bindA (fresh_uuid X) (\<lambda>u.
     let event = fst item; row = snd item; eventID = ''gfv2-'' @ u;
         occurredAt = ev_OccurredAtUnix event * second in
     seqA (wrapA (ErrWrap ''FENCE_EVENT_PUBLISH_FAILED'')
             (pub EventGeofenceEvent eventID (PGeofenceEvent (fence_payload p event row eventID)) occurredAt
                (event_classification row) (fence_headers row event)))
       (wrapA (ErrWrap ''FENCE_EVENT_PERSIST_FAILED'')
          (InsertGeofenceEventIngest X (transition_event_row X p event row eventID))))"

definition observed_speed :: "Position \<Rightarrow> int" where
  "observed_speed p = (case po_SpeedOverGroundMilliknots p of None \<Rightarrow> - 1 | Some s \<Rightarrow> s)"

definition fold_position :: "Position \<Rightarrow> Fence list \<Rightarrow> Engine \<Rightarrow> Engine \<times> Event list" where
  "fold_position p fences engine =
     Observe engine (po_MMSI p) \<lparr>LatMicros = po_LatitudeMicros p, LonMicros = po_LongitudeMicros p\<rparr>
       (observed_speed p) (unix (po_ObservedAt p)) fences"

definition ObservePosition :: "externals \<Rightarrow> signed_publish \<Rightarrow> Position \<Rightarrow> unit geo" where
  "ObservePosition X pub p =
     (if \<not> mmsiPattern (po_MMSI p) then ret ()
      else bindA (fencesLocked X) (\<lambda>fences.
        bindA (reads (\<lambda>w. (fold_position p fences (w_engine w), w_fenceset w))) (\<lambda>r.
        seqA (modifies (\<lambda>w. w\<lparr>w_engine := fst (fst r)\<rparr>))
          (eachA (announce X pub p)
             (map (\<lambda>ev. (ev, fence_row_of (case snd r of None \<Rightarrow> Map.empty | Some (_, meta, _) \<Rightarrow> meta) ev))
                (snd (fst r)))))))"

section \<open>Facts about the engine\<close>

text \<open>The same report folded again changes nothing and causes nothing.\<close>

lemma dwell_clock_idem:
  "dwell_clock inside sp t f (fst (dwell_clock inside sp t f st)) = (fst (dwell_clock inside sp t f st), [])"
  if "t \<noteq> 0"
  using that by (auto simp: dwell_clock_def Let_def)

lemma fence_step_idem:
  assumes "t \<noteq> 0"
  shows "fence_step inside sp t f (fst (fence_step inside sp t f st)) = (fst (fence_step inside sp t f st), [])"
proof -
  define st1 where "st1 = fst (switch_membership inside t f st)"
  have 1: "st_inside st1 = inside" by (auto simp: st1_def switch_membership_def)
  have 2: "st_inside (fst (dwell_clock inside sp t f st1)) = inside" using 1 by (auto simp: dwell_clock_def Let_def)
  have 3: "switch_membership inside t f (fst (dwell_clock inside sp t f st1)) = (fst (dwell_clock inside sp t f st1), [])"
    using 2 by (auto simp: switch_membership_def)
  have "fst (fence_step inside sp t f st) = fst (dwell_clock inside sp t f st1)"
    by (simp add: fence_step_def st1_def case_prod_beta Let_def)
  then show ?thesis
    by (simp add: fence_step_def 3 dwell_clock_idem [OF assms])
qed

lemma observe_fences_untouched:
  "g \<notin> GeofenceID ` set fs \<Longrightarrow> fst (observe_fences p s t fs pv) g = pv g"
  by (induction fs arbitrary: pv) (auto simp: case_prod_beta Let_def)

lemma observe_fences_fixed:
  assumes "distinct (map GeofenceID fs)"
    and "\<forall>f\<in>set fs. \<exists>st. pv (GeofenceID f) = Some st
           \<and> fence_step (Contains (Vertices f) p) s t f st = (st, [])"
  shows "observe_fences p s t fs pv = (pv, [])"
  using assms
proof (induction fs arbitrary: pv)
  case (Cons f fs)
  then obtain st where st: "pv (GeofenceID f) = Some st" "fence_step (Contains (Vertices f) p) s t f st = (st, [])" by auto
  then have "pv(GeofenceID f \<mapsto> st) = pv" by auto
  with st Cons show ?case by (simp add: state_at_def)
qed simp

lemma observe_fences_settled:
  assumes "distinct (map GeofenceID fs)" "t \<noteq> 0"
  shows "\<forall>f\<in>set fs. \<exists>st. fst (observe_fences p s t fs pv) (GeofenceID f) = Some st
           \<and> fence_step (Contains (Vertices f) p) s t f st = (st, [])"
  using assms(1)
proof (induction fs arbitrary: pv)
  case (Cons f fs)
  define st where "st = fst (fence_step (Contains (Vertices f) p) s t f (state_at pv (GeofenceID f)))"
  have rest: "fst (observe_fences p s t (f # fs) pv) = fst (observe_fences p s t fs (pv(GeofenceID f \<mapsto> st)))"
    by (simp add: st_def case_prod_beta Let_def)
  have "fst (observe_fences p s t fs (pv(GeofenceID f \<mapsto> st))) (GeofenceID f) = Some st"
    using Cons.prems observe_fences_untouched [of "GeofenceID f" fs p s t "pv(GeofenceID f \<mapsto> st)"] by simp
  moreover have "fence_step (Contains (Vertices f) p) s t f st = (st, [])"
    unfolding st_def by (rule fence_step_idem [OF assms(2)])
  moreover have "\<forall>g\<in>set fs. \<exists>st'. fst (observe_fences p s t fs (pv(GeofenceID f \<mapsto> st))) (GeofenceID g) = Some st'
           \<and> fence_step (Contains (Vertices g) p) s t g st' = (st', [])"
    by (rule Cons.IH) (use Cons.prems in simp)
  ultimately show ?case unfolding rest by (simp del: fun_upd_apply)
qed simp

lemma Observe_idem:
  assumes "distinct (map GeofenceID fences)"
  shows "Observe (fst (Observe e k p s t fences)) k p s t fences = (fst (Observe e k p s t fences), [])"
proof (cases "trim_space k = [] \<or> t \<le> 0 \<or> (case en_last e (trim_space k) of Some l \<Rightarrow> t < l | None \<Rightarrow> False)")
  case True
  then have "Observe e k p s t fences = (e, [])" by (auto simp: Observe_def Let_def)
  then show ?thesis by simp
next
  case False
  let ?fs = "sort_key GeofenceID fences"
  let ?pv = "case en_state e (trim_space k) of Some m \<Rightarrow> m | None \<Rightarrow> Map.empty"
  have d: "distinct (map GeofenceID ?fs)"
    using assms by (metis mset_map mset_sort mset_eq_imp_distinct_iff)
  have "t \<noteq> 0" using False by auto
  have pv: "observe_fences p s t ?fs (fst (observe_fences p s t ?fs ?pv)) = (fst (observe_fences p s t ?fs ?pv), [])"
    by (rule observe_fences_fixed [OF d observe_fences_settled [OF d \<open>t \<noteq> 0\<close>]])
  have run: "fst (Observe e k p s t fences) =
     \<lparr>en_state = (en_state e)(trim_space k \<mapsto> fst (observe_fences p s t ?fs ?pv)),
      en_last = (en_last e)(trim_space k \<mapsto> t)\<rparr>"
    using False by (auto simp: Observe_def Let_def case_prod_beta)
  show ?thesis unfolding run using False pv by (auto simp: Observe_def Let_def case_prod_beta)
qed

section \<open>Facts about the fence set\<close>

text \<open>Only the call counter moved.\<close>

definition quiet :: "world \<Rightarrow> world \<Rightarrow> bool" where
  "quiet w w' \<longleftrightarrow> same_but_kafka w w' \<and> w_kafka w' = w_kafka w"

lemmas quiet_simps = quiet_def same_but_kafka_def

lemma quiet_tick [simp]: "quiet (v\<lparr>w_tick := n\<rparr>) w = quiet v w" "quiet v (w\<lparr>w_tick := n\<rparr>) = quiet v w" "quiet w w"
  by (simp_all add: quiet_simps)

lemma ListActiveGeofencesPlatform_wp:
  "wp (ListActiveGeofencesPlatform X) (\<lambda>rows. quiet w) (\<lambda>e. quiet w) w"
  unfolding ListActiveGeofencesPlatform_def withIngestConn_def by (auto simp: wp_simps)

definition loaded :: "world \<Rightarrow> Fence list \<Rightarrow> world \<Rightarrow> bool" where
  "loaded w fs w' \<longleftrightarrow> (\<exists>meta t. w_fenceset w' = Some (fs, meta, t) \<and> quiet (w\<lparr>w_fenceset := Some (fs, meta, t)\<rparr>) w')"

lemma reload_fences_wp: "wp (reload_fences X) (loaded w) (\<lambda>e. quiet w) w"
proof -
  have k: "wp (case load_fences rows of
       Inl e \<Rightarrow> raise e
     | Inr fences \<Rightarrow>
         bindA (clock X) (\<lambda>now.
         seqA (modifies (\<lambda>w. w\<lparr>w_fenceset := Some (fences, meta_of rows, now)\<rparr>)) (ret fences)))
     (loaded w) (\<lambda>e. quiet w) v" if "quiet w v" for rows v
    using that by (auto simp: wp_simps loaded_def quiet_simps split: sum.split)
  show ?thesis
    unfolding reload_fences_def wp_bind wp_wrap
    by (rule wp_mono [OF ListActiveGeofencesPlatform_wp]) (use k in auto)
qed

lemma fencesLocked_wp: "wp (fencesLocked X) (loaded w) (\<lambda>e. quiet w) w"
proof (cases "w_fenceset w")
  case None
  with reload_fences_wp [of X w] show ?thesis by (simp add: fencesLocked_def wp_simps)
next
  case (Some c)
  obtain fs meta t where c: "c = (fs, meta, t)" by (cases c)
  have re: "wp (reload_fences X) (loaded w) (\<lambda>e. quiet w) (w\<lparr>w_tick := m\<rparr>)" for m
    by (rule wp_mono [OF reload_fences_wp]) (auto simp: loaded_def quiet_simps)
  show ?thesis
    using Some c re by (auto simp: fencesLocked_def wp_simps loaded_def quiet_simps)
qed

text \<open>A fresh cache is used as it is.\<close>

lemma fencesLocked_cached:
  assumes "w_fenceset w = Some (fs, meta, t)" "\<forall>n. time_sub (x_now X n) t < ReloadInterval"
  shows "fencesLocked X w = (w\<lparr>w_tick := Suc (w_tick w)\<rparr>, Inr fs)"
  using assms by (simp add: fencesLocked_def clock_def asks_def run_simps)

section \<open>The publisher of signed envelopes\<close>

definition correlation :: "message \<Rightarrow> string" where
  "correlation m = (case km_value m of VEnvelope e \<Rightarrow> en_CorrelationID e | _ \<Rightarrow> [])"

definition progress :: "world \<Rightarrow> (Event \<times> FenceRow) list \<Rightarrow> world \<Rightarrow> FenceEventRow list \<Rightarrow> message list \<Rightarrow> bool" where
  "progress w items w' rows ms \<longleftrightarrow>
     w_db w' = (w_db w)\<lparr>db_fence_events := db_fence_events (w_db w) @ rows\<rparr> \<and> w_kafka w' = w_kafka w @ ms
     \<and> w_engine w' = w_engine w \<and> w_fenceset w' = w_fenceset w \<and> w_sse w' = w_sse w
     \<and> w_tracker w' = w_tracker w \<and> w_dedup w' = w_dedup w
     \<and> map (\<lambda>r. (fe_GeofenceID r, fe_GeofenceVersion r, fe_EventType r)) rows
        = map (\<lambda>i. (ev_GeofenceID (fst i), ev_Version (fst i), event_type_text (ev_Type (fst i)))) items
     \<and> (\<forall>m\<in>set ms. km_topic m = TopicVesselEvents)"

lemma persist_wp:
  "wp (InsertGeofenceEventIngest X ev)
     (\<lambda>_. quiet (w\<lparr>w_db := (w_db w)\<lparr>db_fence_events := db_fence_events (w_db w)
        @ [ev\<lparr>fe_ZoneCategory := zoneCategoryOrGeneral (fe_ZoneCategory ev)\<rparr>]\<rparr>\<rparr>))
     (\<lambda>e. quiet w) w"
  unfolding InsertGeofenceEventIngest_def withIngestConn_def
  by (auto simp: wp_simps quiet_simps insert_transition_def split: option.split)

text \<open>All transitions of a report: what is persisted is a prefix of them, and each persisted one was
  announced before; at most one announcement is not persisted, and then the call fails.\<close>

definition announced_prefix :: "world \<Rightarrow> (Event \<times> FenceRow) list \<Rightarrow> world \<Rightarrow> bool \<Rightarrow> bool" where
  "announced_prefix w items w' ok \<longleftrightarrow> (\<exists>n rows ms. n \<le> length items \<and> progress w (take n items) w' rows ms
     \<and> (map correlation ms = map fe_EventID rows \<or> (\<not> ok \<and> (\<exists>x. map correlation ms = map fe_EventID rows @ [x])))
     \<and> (ok \<longrightarrow> n = length items))"

definition observed :: "Position \<Rightarrow> world \<Rightarrow> world \<Rightarrow> bool \<Rightarrow> bool" where
  "observed p w w' ok \<longleftrightarrow> (\<exists>fs meta t v. w_fenceset w' = Some (fs, meta, t)
     \<and> v = w\<lparr>w_engine := fst (fold_position p fs (w_engine w)), w_fenceset := Some (fs, meta, t)\<rparr>
     \<and> announced_prefix v (map (\<lambda>ev. (ev, fence_row_of meta ev)) (snd (fold_position p fs (w_engine w)))) w' ok)"

locale signed_publisher =
  fixes pub :: signed_publish
  assumes pub_wp: "wp (pub k corr pl t cls h)
     (\<lambda>_ w'. same_but_kafka w w'
        \<and> (\<exists>m. w_kafka w' = w_kafka w @ [m] \<and> km_topic m = TopicVesselEvents \<and> correlation m = corr))
     (\<lambda>_ w'. same_but_kafka w w' \<and> w_kafka w' = w_kafka w) w"
begin

lemma announce_wp:
  "wp (announce X pub p i)
     (\<lambda>_ w'. \<exists>r m. progress w [i] w' [r] [m] \<and> correlation m = fe_EventID r)
     (\<lambda>e w'. \<exists>ms. progress w [] w' [] ms \<and> length ms \<le> 1) w"
proof -
  have persist: "wp (wrapA g (InsertGeofenceEventIngest X (transition_event_row X p (fst i) (snd i) eid)))
      (\<lambda>_ w'. \<exists>r m. progress w [i] w' [r] [m] \<and> correlation m = fe_EventID r)
      (\<lambda>e w'. \<exists>ms. progress w [] w' [] ms \<and> length ms \<le> 1) v"
    if "same_but_kafka w v" "w_kafka v = w_kafka w @ [m]" "km_topic m = TopicVesselEvents" "correlation m = eid" for v m g eid
    unfolding wp_wrap
  proof (rule wp_mono [OF persist_wp], goal_cases)
    case (1 x w')
    with that show ?case
      by (intro exI [of _ "(transition_event_row X p (fst i) (snd i) eid)\<lparr>fe_ZoneCategory :=
            zoneCategoryOrGeneral (fe_ZoneCategory (transition_event_row X p (fst i) (snd i) eid))\<rparr>"] exI [of _ m])
        (simp add: progress_def quiet_simps transition_event_row_def)
  next
    case (2 e w')
    with that show ?case by (intro exI [of _ "[m]"]) (simp add: progress_def quiet_simps)
  qed
  have publish: "wp (wrapA g (pub EventGeofenceEvent eid pl t cls h))
      (\<lambda>_. wp (wrapA g' (InsertGeofenceEventIngest X (transition_event_row X p (fst i) (snd i) eid)))
        (\<lambda>_ w'. \<exists>r m. progress w [i] w' [r] [m] \<and> correlation m = fe_EventID r)
        (\<lambda>e w'. \<exists>ms. progress w [] w' [] ms \<and> length ms \<le> 1))
      (\<lambda>e w'. \<exists>ms. progress w [] w' [] ms \<and> length ms \<le> 1) (w\<lparr>w_tick := n\<rparr>)" for g g' eid pl t cls h n
    unfolding wp_wrap
  proof (rule wp_mono [OF pub_wp], goal_cases)
    case (1 x v)
    then obtain m where "same_but_kafka w v" "w_kafka v = w_kafka w @ [m]" "km_topic m = TopicVesselEvents" "correlation m = eid"
      by auto
    from persist [OF this] show ?case unfolding wp_wrap .
  next
    case (2 e v)
    then show ?case by (intro exI [of _ "[]"]) (simp add: progress_def same_but_kafka_def)
  qed
  show ?thesis
    unfolding announce_def wp_bind wp_uuid Let_def wp_seq by (rule publish)
qed

lemma each_announced_wp:
  "wp (eachA (announce X pub p) items)
     (\<lambda>_ w'. announced_prefix w items w' True) (\<lambda>e w'. announced_prefix w items w' False) w"
proof (induction items arbitrary: w)
  case Nil
  show ?case by (auto simp: wp_simps announced_prefix_def progress_def)
next
  case (Cons i rest)
  have trans: "announced_prefix w (i # rest) w' ok"
    if "progress w [i] v [r] [m]" "correlation m = fe_EventID r" "announced_prefix v rest w' ok" for v r m w' ok
  proof -
    from that(3) obtain n rows ms where n: "n \<le> length rest" "progress v (take n rest) w' rows ms"
      "map correlation ms = map fe_EventID rows \<or> (\<not> ok \<and> (\<exists>x. map correlation ms = map fe_EventID rows @ [x]))"
      "ok \<longrightarrow> n = length rest" unfolding announced_prefix_def by blast
    have "progress w (take (Suc n) (i # rest)) w' (r # rows) (m # ms)"
      using that(1) n(2) by (simp add: progress_def)
    with n that(2) show ?thesis
      unfolding announced_prefix_def by (intro exI [of _ "Suc n"] exI [of _ "r # rows"] exI [of _ "m # ms"]) auto
  qed
  have stop: "announced_prefix w (i # rest) w' False" if "progress w [] w' [] ms" "length ms \<le> 1" for w' ms
    unfolding announced_prefix_def using that
    by (intro exI [of _ 0] exI [of _ "[]"] exI [of _ ms]) (cases ms, auto)
  show ?case
    unfolding eachA.simps wp_seq
  proof (rule wp_mono [OF announce_wp], goal_cases)
    case (1 u v)
    then obtain r m where "progress w [i] v [r] [m]" "correlation m = fe_EventID r" by blast
    note t = trans [OF this]
    show ?case by (rule wp_mono [OF Cons.IH]) (use t in auto)
  next
    case (2 e v)
    then show ?case using stop by blast
  qed
qed

lemma ObservePosition_wp:
  assumes "mmsiPattern (po_MMSI p)"
  shows "wp (ObservePosition X pub p) (\<lambda>_ w'. observed p w w' True)
     (\<lambda>e w'. observed p w w' False \<or> quiet w w') w"
proof -
  have fs: "w_fenceset w' = w_fenceset v" if "announced_prefix v items w' ok" for v items w' ok
    using that by (auto simp: announced_prefix_def progress_def)
  have body: "wp (eachA (announce X pub p) (map (\<lambda>ev. (ev, fence_row_of meta ev)) (snd (fold_position p fences (w_engine w)))))
      (\<lambda>_ w'. observed p w w' True) (\<lambda>e w'. observed p w w' False \<or> quiet w w')
      (v\<lparr>w_engine := fst (fold_position p fences (w_engine w))\<rparr>)"
    if "quiet (w\<lparr>w_fenceset := Some (fences, meta, t)\<rparr>) v" for fences meta t v
  proof -
    let ?v = "w\<lparr>w_engine := fst (fold_position p fences (w_engine w)), w_fenceset := Some (fences, meta, t)\<rparr>"
    let ?items = "map (\<lambda>ev. (ev, fence_row_of meta ev)) (snd (fold_position p fences (w_engine w)))"
    have ob: "observed p w w' ok"
      if a: "announced_prefix (v\<lparr>w_engine := fst (fold_position p fences (w_engine w))\<rparr>) ?items w' ok" for w' ok
    proof -
      have "announced_prefix ?v ?items w' ok"
        using a \<open>quiet (w\<lparr>w_fenceset := Some (fences, meta, t)\<rparr>) v\<close>
        by (simp add: announced_prefix_def progress_def quiet_simps)
      with fs [OF this] show ?thesis unfolding observed_def by auto
    qed
    show ?thesis
      by (rule wp_mono [OF each_announced_wp]) (auto intro: ob)
  qed
  have locked: "wp (fencesLocked X)
      (\<lambda>fences. wp (bindA (reads (\<lambda>w. (fold_position p fences (w_engine w), w_fenceset w))) (\<lambda>r.
        seqA (modifies (\<lambda>w. w\<lparr>w_engine := fst (fst r)\<rparr>))
          (eachA (announce X pub p)
             (map (\<lambda>ev. (ev, fence_row_of (case snd r of None \<Rightarrow> Map.empty | Some (_, meta, _) \<Rightarrow> meta) ev))
                (snd (fst r))))))
        (\<lambda>_ w'. observed p w w' True) (\<lambda>e w'. observed p w w' False \<or> quiet w w'))
      (\<lambda>e w'. observed p w w' False \<or> quiet w w') w"
  proof (rule wp_mono [OF fencesLocked_wp], goal_cases)
    case (1 fences v)
    then obtain meta t where f: "w_fenceset v = Some (fences, meta, t)" "quiet (w\<lparr>w_fenceset := Some (fences, meta, t)\<rparr>) v"
      by (auto simp: loaded_def)
    moreover have "w_engine v = w_engine w" using f(2) by (simp add: quiet_simps)
    ultimately show ?case using body [OF f(2)] by (simp add: wp_simps)
  qed simp
  show ?thesis
    unfolding ObservePosition_def using assms locked by (simp add: wp_bind)
qed

text \<open>A report whose transitions could not be announced or persisted is not recovered by sending it
  again while the fence set is cached: the engine has already moved.\<close>

lemma observe_lost:
  assumes "mmsiPattern (po_MMSI p)" "ObservePosition X pub p w = (w1, Inl e)" "w_engine w1 \<noteq> w_engine w"
    and "w_fenceset w1 = Some (fs, meta, t)" "distinct (map GeofenceID fs)"
    and "\<forall>n. time_sub (x_now Y n) t < ReloadInterval"
  shows "ObservePosition Y pub' p w1 = (w1\<lparr>w_tick := Suc (w_tick w1)\<rparr>, Inr ())"
proof -
  from wp_Inl [OF ObservePosition_wp [OF assms(1)] assms(2)] assms(3)
  have "observed p w w1 False" by (auto simp: quiet_simps)
  then obtain fs' meta' t' v where o: "w_fenceset w1 = Some (fs', meta', t')"
    "v = w\<lparr>w_engine := fst (fold_position p fs' (w_engine w)), w_fenceset := Some (fs', meta', t')\<rparr>"
    "announced_prefix v (map (\<lambda>ev. (ev, fence_row_of meta' ev)) (snd (fold_position p fs' (w_engine w)))) w1 False"
    unfolding observed_def by blast
  have "w_engine w1 = fst (fold_position p fs (w_engine w))"
    using o assms(4) by (auto simp: announced_prefix_def progress_def)
  then have again: "fold_position p fs (w_engine w1) = (w_engine w1, [])"
    unfolding fold_position_def using Observe_idem [OF assms(5)] by simp
  show ?thesis
    using assms(1,4) fencesLocked_cached [OF assms(4,6)] again
    by (simp add: ObservePosition_def run_simps)
qed

end

end
