(* ===== verification/Dedup.thy ===== *)
theory Dedup
  imports World
begin

text \<open>
  Duplicate suppression (\<open>internal/dedup/dedup.go\<close>): the hashed byte string of a report and the
  Redis SETNX window. SHA-256 is a parameter of \<open>PayloadHash\<close>; what is proved is that the bytes it is
  given determine the report.
\<close>

definition MinWindow :: int where "MinWindow = 10 * second"
definition MaxWindow :: int where "MaxWindow = 30 * second"

definition keyPrefix :: string where "keyPrefix = ''geo:dedup:''"

record Checker =
  ck_window :: int

text \<open>The client is an argument that may be missing.\<close>

definition NewChecker :: "bool \<Rightarrow> int \<Rightarrow> geo_error + Checker" where
  "NewChecker client window =
     (if \<not> client then Inl (ErrText ''dedup redis client is required'')
      else if window < MinWindow \<or> window > MaxWindow
      then Inl (ErrText ''dedup window outside approved range'')
      else Inr \<lparr>ck_window = window\<rparr>)"

text \<open>\<open>binary.BigEndian.PutUint32\<close> and \<open>PutUint64\<close> of a value converted to the unsigned type: the
  \<open>n\<close> low bytes, most significant first.\<close>

fun be_bytes :: "nat \<Rightarrow> int \<Rightarrow> nat list" where
  "be_bytes 0 x = []"
| "be_bytes (Suc n) x = be_bytes n (x div 256) @ [nat (x mod 256)]"

definition payload_buffer :: "string \<Rightarrow> int \<Rightarrow> int \<Rightarrow> int \<Rightarrow> int \<Rightarrow> int \<Rightarrow> int \<Rightarrow> nat list" where
  "payload_buffer mmsi messageType latitudeMicros longitudeMicros speedMilliknots courseMillidegrees observedAt =
     map of_char mmsi @ [0] @ be_bytes 4 messageType @ be_bytes 4 latitudeMicros @ be_bytes 4 longitudeMicros
     @ be_bytes 4 speedMilliknots @ be_bytes 4 courseMillidegrees @ be_bytes 8 (unix observedAt)"

definition hex_digit :: "nat \<Rightarrow> char" where
  "hex_digit d = char_of (if d < 10 then 48 + d else 87 + d)"

definition hex_encode :: "nat list \<Rightarrow> string" where
  "hex_encode bs = concat (map (\<lambda>b. [hex_digit (b div 16), hex_digit (b mod 16)]) bs)"

definition PayloadHash ::
  "(nat list \<Rightarrow> nat list) \<Rightarrow> string \<Rightarrow> int \<Rightarrow> int \<Rightarrow> int \<Rightarrow> int \<Rightarrow> int \<Rightarrow> int \<Rightarrow> string" where
  "PayloadHash sha256 mmsi messageType latitudeMicros longitudeMicros speedMilliknots courseMillidegrees observedAt =
     hex_encode (take 16 (sha256 (payload_buffer mmsi messageType latitudeMicros longitudeMicros speedMilliknots
       courseMillidegrees observedAt)))"

text \<open>\<open>SETNX key 1\<close> with a time to live: set unless a live key is there.\<close>

definition live_key :: "(string \<rightharpoonup> int) \<Rightarrow> string \<Rightarrow> int \<Rightarrow> bool" where
  "live_key keys key now \<longleftrightarrow> (case keys key of None \<Rightarrow> False | Some expiry \<Rightarrow> now < expiry)"

definition set_nx :: "int \<Rightarrow> string \<Rightarrow> int \<Rightarrow> (string \<rightharpoonup> int) \<Rightarrow> (string \<rightharpoonup> int) \<times> bool" where
  "set_nx window key now keys =
     (if live_key keys key now then (keys, False) else (keys(key \<mapsto> now + window), True))"

definition dedup_key :: "string \<Rightarrow> int \<Rightarrow> string \<Rightarrow> string" where
  "dedup_key mmsi messageType payloadHash =
     keyPrefix @ mmsi @ '':'' @ show_int messageType @ '':'' @ payloadHash"

definition IsDuplicate :: "externals \<Rightarrow> Checker \<Rightarrow> string \<Rightarrow> int \<Rightarrow> string \<Rightarrow> bool geo" where
  "IsDuplicate X checker mmsi messageType payloadHash =
     (let key = dedup_key mmsi messageType payloadHash in
      bindA (asks (x_redis X)) (\<lambda>ok.
        if \<not> ok then raise (ErrRedis ''dedup SETNX'')
        else bindA (clock X) (\<lambda>now.
          bindA (reads (\<lambda>w. set_nx (ck_window checker) key now (w_dedup w))) (\<lambda>r.
          seqA (modifies (\<lambda>w. w\<lparr>w_dedup := fst r\<rparr>)) (ret (\<not> snd r))))))"

section \<open>Facts about the hashed bytes\<close>

lemma length_be_bytes [simp]: "length (be_bytes n x) = n"
  by (induction n arbitrary: x) auto

lemma be_bytes_inject: "be_bytes n x = be_bytes n y \<longleftrightarrow> x mod 256 ^ n = y mod 256 ^ n"
proof (induction n arbitrary: x y)
  case (Suc n)
  have split: "z mod 256 ^ Suc n = 256 * (z div 256 mod 256 ^ n) + z mod 256" for z :: int
    by (simp add: zmod_zmult2_eq)
  have "be_bytes (Suc n) x = be_bytes (Suc n) y \<longleftrightarrow>
      x div 256 mod 256 ^ n = y div 256 mod 256 ^ n \<and> x mod 256 = y mod 256"
    using Suc by auto
  also have "\<dots> \<longleftrightarrow> x mod 256 ^ Suc n = y mod 256 ^ Suc n"
    unfolding split by (smt (verit) pos_mod_bound pos_mod_sign)
  finally show ?case .
qed (simp add: mod_by_1)

lemma be_bytes_signed:
  assumes "- (128 * 256 ^ n) \<le> x" "x < 128 * 256 ^ n" "- (128 * 256 ^ n) \<le> y" "y < 128 * 256 ^ n"
  shows "be_bytes (Suc n) x = be_bytes (Suc n) y \<longleftrightarrow> x = y"
proof
  assume "be_bytes (Suc n) x = be_bytes (Suc n) y"
  then have d: "(256 ^ Suc n :: int) dvd x - y" unfolding be_bytes_inject by (simp only: mod_eq_dvd_iff)
  have small: "\<bar>x - y\<bar> < 256 ^ Suc n" using assms unfolding power_Suc by linarith
  show "x = y"
  proof (rule ccontr)
    assume "x \<noteq> y"
    then have "\<bar>256 ^ Suc n\<bar> \<le> \<bar>x - y\<bar>" by (intro dvd_imp_le_int d) simp
    with small show False by simp
  qed
qed simp

lemma be_bytes_unsigned:
  assumes "0 \<le> x" "x < 256 ^ n" "0 \<le> y" "y < 256 ^ n"
  shows "be_bytes n x = be_bytes n y \<longleftrightarrow> x = y"
  using assms by (simp add: be_bytes_inject)

lemma payload_buffer_split:
  "payload_buffer m a b c d e t = payload_buffer m' a' b' c' d' e' t' \<longleftrightarrow>
     m = m' \<and> be_bytes 4 a = be_bytes 4 a' \<and> be_bytes 4 b = be_bytes 4 b' \<and> be_bytes 4 c = be_bytes 4 c'
     \<and> be_bytes 4 d = be_bytes 4 d' \<and> be_bytes 4 e = be_bytes 4 e' \<and> be_bytes 8 (unix t) = be_bytes 8 (unix t')"
proof
  assume eq: "payload_buffer m a b c d e t = payload_buffer m' a' b' c' d' e' t'"
  have len: "length m = length m'"
    using arg_cong [OF eq, of length] by (simp add: payload_buffer_def)
  have parts: "(map of_char m :: nat list) = map of_char m' \<and> be_bytes 4 a = be_bytes 4 a' \<and> be_bytes 4 b = be_bytes 4 b'
     \<and> be_bytes 4 c = be_bytes 4 c' \<and> be_bytes 4 d = be_bytes 4 d' \<and> be_bytes 4 e = be_bytes 4 e'
     \<and> be_bytes 8 (unix t) = be_bytes 8 (unix t')"
    using eq unfolding payload_buffer_def
    by (simp only: append_eq_append_conv length_map length_be_bytes len append_Cons append_Nil list.inject simp_thms)
  have "inj (of_char :: char \<Rightarrow> nat)" by (rule injI) (simp add: of_char_eq_iff)
  then have "m = m'" using conjunct1 [OF parts] map_injective by blast
  with parts show "m = m' \<and> be_bytes 4 a = be_bytes 4 a' \<and> be_bytes 4 b = be_bytes 4 b' \<and> be_bytes 4 c = be_bytes 4 c'
     \<and> be_bytes 4 d = be_bytes 4 d' \<and> be_bytes 4 e = be_bytes 4 e' \<and> be_bytes 8 (unix t) = be_bytes 8 (unix t')"
    by blast
qed (simp add: payload_buffer_def)

section \<open>Facts about the window\<close>

text \<open>A sequence of checks of one key, as times; the times admitted.\<close>

fun admitted :: "int \<Rightarrow> string \<Rightarrow> (string \<rightharpoonup> int) \<Rightarrow> (int \<times> string) list \<Rightarrow> int list" where
  "admitted window key keys [] = []"
| "admitted window key keys ((now, k) # cs) =
     (case set_nx window k now keys of
        (keys', fresh) \<Rightarrow> (if fresh \<and> k = key then [now] else []) @ admitted window key keys' cs)"

lemma admitted_spaced:
  assumes "sorted (map fst cs)" "\<forall>c\<in>set cs. t \<le> fst c" "0 \<le> window"
    and "keys key = Some (t + window) \<or> keys key = None \<or> (\<exists>e. keys key = Some e \<and> e \<le> t)"
  shows "sorted_wrt (\<lambda>a b. a + window \<le> b) (admitted window key keys cs)
    \<and> (keys key = Some (t + window) \<longrightarrow> (\<forall>a\<in>set (admitted window key keys cs). t + window \<le> a))
    \<and> (\<forall>a\<in>set (admitted window key keys cs). t \<le> a)"
  using assms(1,2,4)
proof (induction cs arbitrary: keys t)
  case (Cons c cs)
  obtain now k where c: "c = (now, k)" by fastforce
  have s: "sorted (map fst cs)" "\<forall>x\<in>set cs. now \<le> fst x" "t \<le> now" "\<forall>x\<in>set cs. t \<le> fst x"
    using Cons.prems(1,2) c by auto
  show ?case
  proof (cases "k = key")
    case False
    define keys' where "keys' = fst (set_nx window k now keys)"
    have "keys' key = keys key" using False by (simp add: keys'_def set_nx_def)
    with Cons.IH [of t keys'] s(1,4) Cons.prems(3) False show ?thesis
      by (simp add: c keys'_def case_prod_beta)
  next
    case True
    show ?thesis
    proof (cases "live_key keys key now")
      case live: True
      with True have "admitted window key keys (c # cs) = admitted window key keys cs"
        by (simp add: c set_nx_def)
      with Cons.IH [of t keys] s(1,4) Cons.prems(3) show ?thesis by simp
    next
      case False
      have adm: "admitted window key keys (c # cs) = now # admitted window key (keys(key \<mapsto> now + window)) cs"
        using True False by (simp add: c set_nx_def)
      have "keys key = Some (t + window) \<longrightarrow> t + window \<le> now" using False by (auto simp: live_key_def)
      with Cons.IH [of now "keys(key \<mapsto> now + window)"] s assms(3) show ?thesis
        unfolding adm by fastforce
    qed
  qed
qed simp

section \<open>Properties\<close>

text \<open>The ranges of the Go parameter types.\<close>

definition int32_range :: "int \<Rightarrow> bool" where
  "int32_range x \<longleftrightarrow> - 2147483648 \<le> x \<and> x < 2147483648"

definition uint32_range :: "int \<Rightarrow> bool" where
  "uint32_range x \<longleftrightarrow> 0 \<le> x \<and> x < 4294967296"

text \<open>The bytes hashed for deduplication determine the report: for values of the parameter types, two
  reports give the same bytes exactly when they agree on the MMSI, message type, coordinates, speed, course
  and the second of observation. Two different reports can share a hash only through a SHA-256 collision
  (on its first 16 bytes).\<close>

theorem payload_buffer_injective:
  assumes "int32_range a" "int32_range a'" "int32_range b" "int32_range b'" "int32_range c" "int32_range c'"
    and "uint32_range d" "uint32_range d'" "uint32_range e" "uint32_range e'"
    and "\<bar>unix t\<bar> < 2 ^ 63" "\<bar>unix t'\<bar> < 2 ^ 63"
  shows "payload_buffer m a b c d e t = payload_buffer m' a' b' c' d' e' t' \<longleftrightarrow>
    m = m' \<and> a = a' \<and> b = b' \<and> c = c' \<and> d = d' \<and> e = e' \<and> unix t = unix t'"
proof -
  have i: "be_bytes 4 x = be_bytes 4 y \<longleftrightarrow> x = y" if "int32_range x" "int32_range y" for x y
    using be_bytes_signed [of 3 x y] that by (simp add: int32_range_def numeral_eq_Suc)
  have u: "be_bytes 4 x = be_bytes 4 y \<longleftrightarrow> x = y" if "uint32_range x" "uint32_range y" for x y
    using be_bytes_unsigned [of x 4 y] that by (simp add: uint32_range_def)
  have l: "be_bytes 8 x = be_bytes 8 y \<longleftrightarrow> x = y" if "\<bar>x\<bar> < 2 ^ 63" "\<bar>y\<bar> < 2 ^ 63" for x y
  proof -
    have "be_bytes (Suc 7) x = be_bytes (Suc 7) y \<longleftrightarrow> x = y"
      by (rule be_bytes_signed) (use that in simp_all)
    moreover have "(8::nat) = Suc 7" by simp
    ultimately show ?thesis by presburger
  qed
  show ?thesis
    unfolding payload_buffer_split using i u l assms by simp
qed

theorem payload_buffer_injective_witness:
  "payload_buffer ''657000001'' 1 6400000 3400000 12000 90000 0
     \<noteq> payload_buffer ''657000001'' 1 6400000 3400001 12000 90000 0"
proof -
  have "payload_buffer ''657000001'' 1 6400000 3400000 12000 90000 0
       = payload_buffer ''657000001'' 1 6400000 3400001 12000 90000 0 \<longleftrightarrow>
     ''657000001'' = ''657000001'' \<and> (1::int) = 1 \<and> (6400000::int) = 6400000 \<and> (3400000::int) = 3400001
     \<and> (12000::int) = 12000 \<and> (90000::int) = 90000 \<and> unix 0 = unix 0"
    by (rule payload_buffer_injective) (simp_all add: int32_range_def uint32_range_def unix_def)
  then show ?thesis by simp
qed

text \<open>The deduplication window: over any sequence of checks in order of time, two admissions of the same
  key are at least the configured window apart, and that window lies between ten and thirty seconds for
  every checker \<open>NewChecker\<close> builds.\<close>

theorem dedup_window_respected:
  assumes "NewChecker client window = Inr checker" "sorted (map fst cs)"
  shows "MinWindow \<le> ck_window checker \<and> ck_window checker \<le> MaxWindow
    \<and> sorted_wrt (\<lambda>a b. a + ck_window checker \<le> b) (admitted (ck_window checker) key Map.empty cs)"
proof -
  have w: "ck_window checker = window" "MinWindow \<le> window" "window \<le> MaxWindow"
    using assms(1) by (auto simp: NewChecker_def split: if_splits)
  then have "0 \<le> window" by (simp add: MinWindow_def second_def)
  then have "sorted_wrt (\<lambda>a b. a + window \<le> b) (admitted window key Map.empty cs)"
  proof (cases cs)
    case (Cons c cs')
    have "\<forall>x\<in>set cs. fst c \<le> fst x" using assms(2) Cons by auto
    with admitted_spaced [OF assms(2) this \<open>0 \<le> window\<close>, of Map.empty key] show ?thesis by simp
  qed simp
  with w show ?thesis by simp
qed

theorem dedup_window_respected_witness:
  "NewChecker True (15 * second) = Inr \<lparr>ck_window = 15 * second\<rparr>
   \<and> sorted_wrt (\<lambda>a b. a + 15 * second \<le> b)
       (admitted (15 * second) ''k'' Map.empty [(0, ''k''), (5 * second, ''k''), (16 * second, ''k'')])"
proof -
  have n: "NewChecker True (15 * second) = Inr \<lparr>ck_window = 15 * second\<rparr>"
    by (simp add: NewChecker_def MinWindow_def MaxWindow_def second_def)
  have "sorted (map fst [(0, ''k''), (5 * second, ''k''), (16 * second, ''k'')])" by (simp add: second_def)
  from dedup_window_respected [OF n this, of "''k''"] n show ?thesis by simp
qed

end
