(* ===== verification/Pipeline.thy ===== *)
theory Pipeline
  imports Fence_V2 Dedup
begin

text \<open>
  The ingest hot path (\<open>internal/connectors/pipeline.go\<close>): a normalized position is validated
  (rejects are quarantined), checked against the vessel's previous fix, deduplicated, persisted,
  evaluated against the zones, published as a signed envelope, folded into the fence engine and fanned
  out; a static report is applied to the history and published.

  A Go \<open>Pipeline\<close> is the record below together with the world: the store, the Redis state, the tracker
  and the metrics are parts of the world.
\<close>

section \<open>Wiring\<close>

record Pipeline =
  pl_Dedup :: Checker
  pl_Producer :: BusProducer
  pl_Signer :: Signer
  pl_Principal :: Provenance
  pl_PublishRaw :: bool
  pl_Broadcast :: bool
  pl_FenceV2 :: bool

record IngestPosition =
  ip_Position :: Position
  ip_PayloadKey :: string

text \<open>The parts as they are handed over, missing or not.\<close>

record wiring =
  wi_Store :: bool
  wi_Dedup :: "Checker option"
  wi_ZoneState :: bool
  wi_Producer :: "BusProducer option"
  wi_Signer :: "Signer option"
  wi_Tracker :: bool
  wi_Metrics :: bool
  wi_Principal :: Provenance
  wi_PublishRaw :: bool
  wi_Broadcast :: bool
  wi_FenceV2 :: bool

definition NewPipeline :: "wiring \<Rightarrow> geo_error + Pipeline" where
  "NewPipeline p =
     (if \<not> wi_Store p then Inl (ErrText ''pipeline store is required'')
      else case wi_Dedup p of
        None \<Rightarrow> Inl (ErrText ''pipeline dedup checker is required'')
      | Some checker \<Rightarrow>
        if \<not> wi_ZoneState p then Inl (ErrText ''pipeline zone state store is required'')
        else (case wi_Producer p of
          None \<Rightarrow> Inl (ErrText ''pipeline kafka producer is required'')
        | Some producer \<Rightarrow> (case wi_Signer p of
            None \<Rightarrow> Inl (ErrText ''pipeline signer is required'')
          | Some signer \<Rightarrow>
              if \<not> wi_Tracker p then Inl (ErrText ''pipeline validation tracker is required'')
              else if \<not> wi_Metrics p then Inl (ErrText ''pipeline metrics registry is required'')
              else if pv_PrincipalID (wi_Principal p) = [] \<or> pv_PrincipalRole (wi_Principal p) = []
              then Inl (ErrText ''pipeline provenance principal is required'')
              else Inr \<lparr>pl_Dedup = checker, pl_Producer = producer, pl_Signer = signer,
                        pl_Principal = wi_Principal p, pl_PublishRaw = wi_PublishRaw p,
                        pl_Broadcast = wi_Broadcast p, pl_FenceV2 = wi_FenceV2 p\<rparr>)))"

definition derefUint32 :: "int option \<Rightarrow> int" where
  "derefUint32 v = (case v of None \<Rightarrow> 0 | Some x \<Rightarrow> x)"

definition derefInt32 :: "int option \<Rightarrow> int" where
  "derefInt32 v = (case v of None \<Rightarrow> 0 | Some x \<Rightarrow> x)"

section \<open>Publishing\<close>

fun envelopeKey :: "payload \<Rightarrow> string" where
  "envelopeKey (PVesselPosition p) = vp_MMSI p"
| "envelopeKey (PVesselStatic p) = vs_MMSI p"
| "envelopeKey (PGeofenceEvent p) = (if ge_MMSI p \<noteq> [] then ge_MMSI p else ge_TrackReference p)"
| "envelopeKey (PAppPosition p) = ap_ReporterID p"
| "envelopeKey (PSosRaised p) = sr_ReporterID p"
| "envelopeKey (PSosAcknowledged p) = sa_ReporterID p"
| "envelopeKey (PSosResolved p) = sx_ReporterID p"
| "envelopeKey (PSafetyInspection p) = []"
| "envelopeKey (PSafetySar p) = []"
| "envelopeKey (PSafetyInvestigation p) = []"

text \<open>The call of \<open>sign.NewEnvelope\<close>, with the identifiers it draws.\<close>

definition new_envelope :: "externals \<Rightarrow> Pipeline \<Rightarrow> EventKind \<Rightarrow> string \<Rightarrow> payload \<Rightarrow> int \<Rightarrow> Envelope geo" where
  "new_envelope X P kind correlationID pl occurredAt =
     bindA (fresh_uuid X) (\<lambda>u1. bindA (fresh_uuid X) (\<lambda>u2. bindA (fresh_uuid X) (\<lambda>u3.
     case NewEnvelope (x_crypto X) (u1, u2, u3) (event_type_name kind) correlationID (payload_json pl) occurredAt
            (pl_Principal P) (Some (pl_Signer P)) of
       Inl e \<Rightarrow> raise (ErrSign e)
     | Inr envelope \<Rightarrow> ret envelope)))"

definition publish ::
  "externals \<Rightarrow> Pipeline \<Rightarrow> EventKind \<Rightarrow> string \<Rightarrow> payload \<Rightarrow> int \<Rightarrow> string \<Rightarrow> unit geo" where
  "publish X P kind correlationID pl occurredAt classification =
     (case ParseClassification classification of
        Inl _ \<Rightarrow> raise (ErrWrap ''refusing to publish'' ErrClassification)
      | Inr _ \<Rightarrow>
          bindA (new_envelope X P kind correlationID pl occurredAt) (\<lambda>envelope.
          Publish X (pl_Producer P) TopicVesselEvents (envelopeKey pl) (VEnvelope envelope)
            [''event-type'' \<mapsto> event_type_name kind, ''classification'' \<mapsto> en_Classification envelope]))"

definition PublishSignedEnvelope :: "externals \<Rightarrow> Pipeline \<Rightarrow> signed_publish" where
  "PublishSignedEnvelope X P kind correlationID pl occurredAt classification headers =
     (case ParseClassification classification of
        Inl _ \<Rightarrow> raise (ErrWrap ''refusing to publish'' ErrClassification)
      | Inr _ \<Rightarrow>
          bindA (new_envelope X P kind correlationID pl occurredAt) (\<lambda>envelope.
          Publish X (pl_Producer P) TopicVesselEvents (envelopeKey pl) (VEnvelope envelope)
            (headers(''event-type'' \<mapsto> event_type_name kind, ''classification'' \<mapsto> en_Classification envelope))))"

definition quarantine :: "externals \<Rightarrow> Pipeline \<Rightarrow> Position \<Rightarrow> Finding \<Rightarrow> unit geo" where
  "quarantine X P position finding =
     bindA (fresh_uuid X) (\<lambda>u. bindA (clock X) (\<lambda>now.
     let record = \<lparr>qr_QuarantineID = ''qrn-'' @ u, qr_Reason = fd_Reason finding, qr_Detail = fd_Detail finding,
                   qr_SourceClass = po_SourceClass position, qr_MMSI = po_MMSI position,
                   qr_VesselRef = po_VesselRef position, qr_ReceiverID = po_ReceiverID position,
                   qr_Report = position, qr_QuarantinedAt = now\<rparr>;
         key = (if po_MMSI position = [] then po_VesselRef position else po_MMSI position)
     in Publish X (pl_Producer P) TopicVesselQuarantine key (VQuarantine record)
          [''reason'' \<mapsto> reason_code (fd_Reason finding)]))"

definition crossing_payload :: "GeofenceEvent \<Rightarrow> GeofenceEventRecorded" where
  "crossing_payload ev =
     \<lparr>ge_GeofenceEventID = gv_GeofenceEventID ev, ge_ZoneID = gv_ZoneID ev, ge_ZoneName = gv_ZoneName ev,
      ge_Event = gv_Event ev, ge_MMSI = gv_MMSI ev, ge_TrackReference = gv_TrackReference ev,
      ge_LatitudeMicros = gv_LatitudeMicros ev, ge_LongitudeMicros = gv_LongitudeMicros ev,
      ge_OccurredAt = gv_OccurredAt ev, ge_Classification = gv_Classification ev, ge_ZoneCategory = [], ge_Alert = []\<rparr>"

definition publishGeofenceEvent :: "externals \<Rightarrow> Pipeline \<Rightarrow> GeofenceEvent \<Rightarrow> unit geo" where
  "publishGeofenceEvent X P event =
     seqA (publish X P EventGeofenceEvent (gv_GeofenceEventID event) (PGeofenceEvent (crossing_payload event))
             (gv_OccurredAt event) (gv_Classification event))
     (seqA (count ''geo_geofence_events_total'' (gv_Event event))
       (broadcasts (pl_Broadcast P)
          \<lparr>bc_type = event_type_name EventGeofenceEvent, bc_classification = gv_Classification event,
           bc_occurredAt = gv_OccurredAt event, bc_payload = PGeofenceEvent (crossing_payload event)\<rparr>))"

section \<open>A position\<close>

definition validation_report :: "Position \<Rightarrow> PositionReport" where
  "validation_report p =
     \<lparr>pr_MMSI = po_MMSI p, pr_SourceClass = po_SourceClass p, pr_LatitudeMicros = po_LatitudeMicros p,
      pr_LongitudeMicros = po_LongitudeMicros p,
      pr_SpeedOverGroundMilliknots = derefUint32 (po_SpeedOverGroundMilliknots p),
      pr_CourseOverGroundMillidegrees = derefUint32 (po_CourseOverGroundMillidegrees p),
      pr_ObservedAt = po_ObservedAt p, pr_ReceiverID = po_ReceiverID p\<rparr>"

definition position_payload :: "Position \<Rightarrow> VesselPositionReported" where
  "position_payload p =
     \<lparr>vp_PositionReportID = po_PositionReportID p, vp_MMSI = po_MMSI p, vp_SourceClass = po_SourceClass p,
      vp_LatitudeMicros = po_LatitudeMicros p, vp_LongitudeMicros = po_LongitudeMicros p,
      vp_SpeedOverGroundMilliknots = derefUint32 (po_SpeedOverGroundMilliknots p),
      vp_CourseOverGroundMillidegrees = derefUint32 (po_CourseOverGroundMillidegrees p),
      vp_HeadingMillidegrees = po_HeadingMillidegrees p, vp_NavStatus = po_NavStatus p,
      vp_PositionAccuracy = (if po_PositionAccuracy p = [] then ''UNSPECIFIED'' else po_PositionAccuracy p),
      vp_ObservedAt = po_ObservedAt p, vp_ReceiverID = po_ReceiverID p, vp_AISMessageType = po_AISMessageType p,
      vp_Classification = po_Classification p, vp_IMO = po_IMO p, vp_Callsign = po_Callsign p,
      vp_ShipName = po_ShipName p\<rparr>"

definition quarantine_counted :: "externals \<Rightarrow> Pipeline \<Rightarrow> Position \<Rightarrow> Finding \<Rightarrow> unit geo" where
  "quarantine_counted X P p finding =
     seqA (count ''geo_quarantine_total'' (reason_code (fd_Reason finding))) (quarantine X P p finding)"

text \<open>Step 2: the tracker takes the report whatever the outcome.\<close>

definition check_consecutive :: "Position \<Rightarrow> Finding option geo" where
  "check_consecutive p =
     bindA (reads (\<lambda>w. CheckConsecutive (w_tracker w) (validation_report p))) (\<lambda>r.
     seqA (modifies (\<lambda>w. w\<lparr>w_tracker := fst r\<rparr>)) (ret (snd r)))"

text \<open>Step 3: whether the report is a duplicate; a Redis error admits it.\<close>

definition absorbed :: "externals \<Rightarrow> Pipeline \<Rightarrow> string \<Rightarrow> Position \<Rightarrow> bool geo" where
  "absorbed X P payloadKey p =
     (if payloadKey = [] then ret False
      else bindA (attempt (IsDuplicate X (pl_Dedup P) (po_MMSI p) (derefInt32 (po_AISMessageType p)) payloadKey)) (\<lambda>r.
        case r of
          Inl e \<Rightarrow> seqA (count ''geo_dedup_errors_total'' []) (ret False)
        | Inr duplicate \<Rightarrow>
            seqA (whenA duplicate (count ''geo_dedup_absorbed_total'' (po_SourceClass p))) (ret duplicate)))"

text \<open>Step 4.\<close>

definition persist_position :: "externals \<Rightarrow> Position \<Rightarrow> unit geo" where
  "persist_position X p =
     seqA (wrapA (ErrWrap ''provision partition'') (EnsurePositionPartitions X [po_ObservedAt p]))
     (seqA (InsertPositions X [p]) (UpsertLatestPosition X p))"

text \<open>Step 5.\<close>

definition geofence_step :: "externals \<Rightarrow> Pipeline \<Rightarrow> Position \<Rightarrow> unit geo" where
  "geofence_step X P p =
     bindA (wrapA (ErrWrap ''geofence evaluation'') (EvaluateGeofences X p)) (\<lambda>events.
     eachA (publishGeofenceEvent X P) events)"

text \<open>Step 6.\<close>

definition mirror_raw :: "externals \<Rightarrow> Pipeline \<Rightarrow> Position \<Rightarrow> unit geo" where
  "mirror_raw X P p =
     whenA (pl_PublishRaw P \<and> po_SourceClass p = ''AIS'')
       (Publish X (pl_Producer P) TopicAISRaw (po_MMSI p) (VRaw p)
          [''source-class'' \<mapsto> po_SourceClass p, ''receiver-id'' \<mapsto> po_ReceiverID p])"

definition publish_position :: "externals \<Rightarrow> Pipeline \<Rightarrow> Position \<Rightarrow> unit geo" where
  "publish_position X P p =
     seqA (publish X P EventVesselPosition (po_PositionReportID p) (PVesselPosition (position_payload p))
             (po_ObservedAt p) (po_Classification p))
       (count ''geo_positions_published_total'' (po_SourceClass p))"

text \<open>Steps 7 and 8.\<close>

definition fence_v2_step :: "externals \<Rightarrow> Pipeline \<Rightarrow> Position \<Rightarrow> unit geo" where
  "fence_v2_step X P p =
     whenA (pl_FenceV2 P)
       (wrapA (ErrWrap ''fence v2 ingest evaluation'') (ObservePosition X (PublishSignedEnvelope X P) p))"

definition fan_out :: "Pipeline \<Rightarrow> Position \<Rightarrow> unit geo" where
  "fan_out P p =
     broadcasts (pl_Broadcast P)
       \<lparr>bc_type = event_type_name EventVesselPosition, bc_classification = po_Classification p,
        bc_occurredAt = po_ObservedAt p, bc_payload = PVesselPosition (position_payload p)\<rparr>"

definition admit_position :: "externals \<Rightarrow> Pipeline \<Rightarrow> Position \<Rightarrow> unit geo" where
  "admit_position X P p =
     seqA (persist_position X p)
     (seqA (geofence_step X P p)
     (seqA (mirror_raw X P p)
     (seqA (publish_position X P p)
     (seqA (fence_v2_step X P p) (fan_out P p)))))"

definition with_report_id :: "externals \<Rightarrow> Position \<Rightarrow> Position geo" where
  "with_report_id X p =
     (if po_PositionReportID p = []
      then bindA (fresh_uuid X) (\<lambda>u. ret (p\<lparr>po_PositionReportID := ''pos-'' @ u\<rparr>)) else ret p)"

definition HandlePosition :: "externals \<Rightarrow> Pipeline \<Rightarrow> IngestPosition \<Rightarrow> unit geo" where
  "HandlePosition X P ingest =
     bindA (with_report_id X (ip_Position ingest)) (\<lambda>p.
     seqA (count ''geo_positions_received_total'' (po_SourceClass p))
     (seqA (whenA (IsNigerianFlagged (po_MMSI p)) (count ''geo_positions_nigeria_mid657_total'' []))
     (let findings = StaticChecks (validation_report p) in
      if findings \<noteq> [] then eachA (quarantine_counted X P p) findings
      else bindA (check_consecutive p) (\<lambda>finding.
        case finding of
          Some f \<Rightarrow> quarantine_counted X P p f
        | None \<Rightarrow> bindA (absorbed X P (ip_PayloadKey ingest) p) (\<lambda>duplicate.
            if duplicate then ret () else admit_position X P p)))))"

section \<open>A static report\<close>

definition static_payload :: "StaticReport \<Rightarrow> VesselStaticReported" where
  "static_payload r =
     \<lparr>vs_StaticReportID = sp_StaticReportID r, vs_MMSI = sp_MMSI r, vs_IMO = sp_IMO r, vs_Callsign = sp_Callsign r,
      vs_ShipName = sp_ShipName r, vs_ShipTypeCode = sp_ShipTypeCode r, vs_DimensionBowM = sp_DimensionBowM r,
      vs_DimensionSternM = sp_DimensionSternM r, vs_DimensionPortM = sp_DimensionPortM r,
      vs_DimensionStarboardM = sp_DimensionStarboardM r, vs_DraughtMillimetres = sp_DraughtMillimetres r,
      vs_Destination = sp_Destination r, vs_ETA = sp_ETA r,
      vs_EpfsType = (if sp_EpfsType r = [] then ''UNSPECIFIED'' else sp_EpfsType r), vs_ObservedAt = sp_ObservedAt r,
      vs_SourceClass = sp_SourceClass r, vs_Classification = sp_Classification r\<rparr>"

definition quarantine_static :: "externals \<Rightarrow> Pipeline \<Rightarrow> StaticReport \<Rightarrow> string \<Rightarrow> unit geo" where
  "quarantine_static X P report detail =
     seqA (count ''geo_quarantine_total'' (reason_code ReasonMMSIFormat))
     (bindA (fresh_uuid X) (\<lambda>u. bindA (clock X) (\<lambda>now.
      Publish X (pl_Producer P) TopicVesselQuarantine (sp_MMSI report)
        (VQuarantineStatic \<lparr>sq_QuarantineID = ''qrn-'' @ u, sq_Reason = ReasonMMSIFormat, sq_Detail = detail,
                           sq_Report = report, sq_QuarantinedAt = now\<rparr>) Map.empty)))"

definition with_static_id :: "externals \<Rightarrow> StaticReport \<Rightarrow> StaticReport geo" where
  "with_static_id X r =
     (if sp_StaticReportID r = []
      then bindA (fresh_uuid X) (\<lambda>u. ret (r\<lparr>sp_StaticReportID := ''sta-'' @ u\<rparr>)) else ret r)"

definition HandleStatic :: "externals \<Rightarrow> Pipeline \<Rightarrow> StaticReport \<Rightarrow> unit geo" where
  "HandleStatic X P ingest =
     bindA (with_static_id X ingest) (\<lambda>report.
     case CheckMMSI (sp_MMSI report) of
       Some err \<Rightarrow> quarantine_static X P report err
     | None \<Rightarrow>
         bindA (UpsertVesselStatic X report) (\<lambda>applied.
         if \<not> applied then count ''geo_static_stale_dropped_total'' (sp_SourceClass report)
         else seqA (publish X P EventVesselStatic (sp_StaticReportID report) (PVesselStatic (static_payload report))
                      (sp_ObservedAt report) (sp_Classification report))
                (count ''geo_static_published_total'' [])))"

section \<open>Facts about publishing\<close>

lemma new_envelope_wp:
  "wp (new_envelope X P kind corr pl t)
     (\<lambda>env w'. quiet w w' \<and> en_CorrelationID env = corr \<and> en_EventType env = event_type_name kind
        \<and> en_Classification env \<in> set ladder)
     (\<lambda>e. quiet w) w"
proof -
  have env: "en_CorrelationID e = corr \<and> en_EventType e = event_type_name kind \<and> en_Classification e \<in> set ladder"
    if "NewEnvelope c uu (event_type_name kind) corr res tt prin sg = Inr e" for c uu res tt prin sg e
    using that by (rule NewEnvelope_Inr) (auto dest: contentClassification_Inr)
  show ?thesis
    unfolding new_envelope_def by (auto simp: wp_simps split: sum.split dest: env)
qed

text \<open>The envelope message of an event.\<close>

definition envelope_message :: "EventKind \<Rightarrow> string \<Rightarrow> message \<Rightarrow> bool" where
  "envelope_message kind corr m \<longleftrightarrow> km_topic m = TopicVesselEvents
     \<and> (\<exists>env. km_value m = VEnvelope env \<and> en_CorrelationID env = corr \<and> en_EventType env = event_type_name kind
          \<and> en_Classification env \<in> set ladder)"

lemma PublishSignedEnvelope_wp:
  "wp (PublishSignedEnvelope X P kind corr pl t cls h)
     (\<lambda>_ w'. same_but_kafka w w' \<and> (\<exists>m. w_kafka w' = w_kafka w @ [m] \<and> envelope_message kind corr m))
     (\<lambda>_ w'. same_but_kafka w w' \<and> w_kafka w' = w_kafka w) w"
proof -
  have send: "wp (Publish X p TopicVesselEvents k (VEnvelope env) hs)
     (\<lambda>_ w'. same_but_kafka w w' \<and> (\<exists>m. w_kafka w' = w_kafka w @ [m] \<and> envelope_message kind corr m))
     (\<lambda>_ w'. same_but_kafka w w' \<and> w_kafka w' = w_kafka w) v"
    if "quiet w v" "en_CorrelationID env = corr" "en_EventType env = event_type_name kind"
      "en_Classification env \<in> set ladder" for p k env hs v
    by (rule wp_mono [OF bus.publish_wp]) (use that in \<open>auto simp: quiet_def envelope_message_def intro: same_but_kafka_trans\<close>)
  have body: "wp (bindA (new_envelope X P kind corr pl t) (\<lambda>env.
          Publish X (pl_Producer P) TopicVesselEvents (envelopeKey pl) (VEnvelope env) (hs env)))
     (\<lambda>_ w'. same_but_kafka w w' \<and> (\<exists>m. w_kafka w' = w_kafka w @ [m] \<and> envelope_message kind corr m))
     (\<lambda>_ w'. same_but_kafka w w' \<and> w_kafka w' = w_kafka w) w" for hs
    unfolding wp_bind
  proof (rule wp_mono [OF new_envelope_wp], goal_cases)
    case (1 env v)
    then show ?case by (intro send) simp_all
  qed (simp add: quiet_def)
  show ?thesis
    unfolding PublishSignedEnvelope_def by (cases "ParseClassification cls") (simp_all add: wp_raise body)
qed

text \<open>\<open>publish\<close> is the signed publication with no further headers.\<close>

lemma publish_signed: "publish X P kind corr pl t cls = PublishSignedEnvelope X P kind corr pl t cls Map.empty"
  by (simp add: publish_def PublishSignedEnvelope_def)

interpretation geo_publisher: signed_publisher "PublishSignedEnvelope X P" for X P
proof
  fix k corr pl t cls h w
  show "wp (PublishSignedEnvelope X P k corr pl t cls h)
     (\<lambda>_ w'. same_but_kafka w w'
        \<and> (\<exists>m. w_kafka w' = w_kafka w @ [m] \<and> km_topic m = TopicVesselEvents \<and> correlation m = corr))
     (\<lambda>_ w'. same_but_kafka w w' \<and> w_kafka w' = w_kafka w) w"
    by (rule wp_mono [OF PublishSignedEnvelope_wp]) (auto simp: envelope_message_def correlation_def)
qed

definition quarantine_message :: "Position \<Rightarrow> Finding \<Rightarrow> message \<Rightarrow> bool" where
  "quarantine_message p f m \<longleftrightarrow> km_topic m = TopicVesselQuarantine
     \<and> (\<exists>r. km_value m = VQuarantine r \<and> qr_Report r = p \<and> qr_Reason r = fd_Reason f \<and> qr_Detail r = fd_Detail f)"

lemma quarantine_counted_wp:
  "wp (quarantine_counted X P p f)
     (\<lambda>_ w'. w_db w' = w_db w \<and> (\<exists>m. w_kafka w' = w_kafka w @ [m] \<and> quarantine_message p f m))
     (\<lambda>_ w'. w_db w' = w_db w \<and> w_kafka w' = w_kafka w) w"
proof -
  have send: "wp (Publish X pr TopicVesselQuarantine k (VQuarantine r) h)
     (\<lambda>_ w'. w_db w' = w_db w \<and> (\<exists>m. w_kafka w' = w_kafka w @ [m] \<and> quarantine_message p f m))
     (\<lambda>_ w'. w_db w' = w_db w \<and> w_kafka w' = w_kafka w) v"
    if "w_db v = w_db w" "w_kafka v = w_kafka w" "qr_Report r = p" "qr_Reason r = fd_Reason f" "qr_Detail r = fd_Detail f"
    for pr k r h v
    by (rule wp_mono [OF bus.publish_wp]) (use that in \<open>auto simp: same_but_kafka_def quarantine_message_def\<close>)
  show ?thesis
    unfolding quarantine_counted_def quarantine_def Let_def
    by (simp only: wp_simps) (rule send; simp)
qed

lemma quarantine_all_wp:
  "wp (eachA (quarantine_counted X P p) fs)
     (\<lambda>_ w'. w_db w' = w_db w \<and> (\<exists>ms. w_kafka w' = w_kafka w @ ms \<and> list_all2 (quarantine_message p) fs ms))
     (\<lambda>_ w'. w_db w' = w_db w \<and> (\<exists>n ms. w_kafka w' = w_kafka w @ ms \<and> list_all2 (quarantine_message p) (take n fs) ms)) w"
proof (induction fs arbitrary: w)
  case Nil
  show ?case by (simp add: wp_simps)
next
  case (Cons f fs)
  show ?case unfolding eachA.simps wp_seq
  proof (rule wp_mono [OF quarantine_counted_wp], goal_cases)
    case (1 u v)
    then obtain m where v: "w_db v = w_db w" "w_kafka v = w_kafka w @ [m]" "quarantine_message p f m" by blast
    show ?case
    proof (rule wp_mono [OF Cons.IH], goal_cases)
      case (1 u w')
      then obtain ms where "w_db w' = w_db v" "w_kafka w' = w_kafka v @ ms" "list_all2 (quarantine_message p) fs ms"
        by blast
      with v show ?case by (intro conjI exI [of _ "m # ms"]) auto
    next
      case (2 e w')
      then obtain n ms where "w_db w' = w_db v" "w_kafka w' = w_kafka v @ ms" "list_all2 (quarantine_message p) (take n fs) ms"
        by blast
      with v show ?case by (intro conjI exI [of _ "Suc n"] exI [of _ "m # ms"]) auto
    qed
  next
    case (2 e v)
    then show ?case by (intro conjI exI [of _ 0] exI [of _ "[]"]) auto
  qed
qed

section \<open>What only grows\<close>

text \<open>Topics are appended to and stored positions stay.\<close>

definition grows :: "world \<Rightarrow> world \<Rightarrow> bool" where
  "grows w w' \<longleftrightarrow> (\<exists>ms. w_kafka w' = w_kafka w @ ms)
     \<and> set (db_positions (w_db w)) \<subseteq> set (db_positions (w_db w'))"

lemma grows_refl [simp]: "grows w w"
  by (simp add: grows_def)

lemma grows_trans: "grows u v \<Longrightarrow> grows v w \<Longrightarrow> grows u w"
  by (auto simp: grows_def)

lemma keeps_grows: "(\<And>w. wp m (\<lambda>_. grows w) (\<lambda>_. grows w) w) \<Longrightarrow> keeps (grows w0) m"
  unfolding keeps_triple triple_wp
  by (intro allI impI) (rule wp_mono, assumption, auto intro: grows_trans)

lemma wp_keeps: "wp m Q E w \<Longrightarrow> keeps I m \<Longrightarrow> I w \<Longrightarrow> wp m (\<lambda>x w'. Q x w' \<and> I w') (\<lambda>e w'. E e w' \<and> I w') w"
  by (auto simp: wp_def keeps_def split: prod.splits sum.splits)

text \<open>A transaction keeps what does not depend on the tables.\<close>

lemma keeps_in_tx:
  assumes "\<And>w n. I w \<Longrightarrow> I (w\<lparr>w_tick := n\<rparr>)" "\<And>w d. I w \<Longrightarrow> I (w\<lparr>w_db := d\<rparr>)" "keeps I m"
  shows "keeps I (in_tx X l m)"
  unfolding keeps_triple triple_wp
proof (intro allI impI)
  fix w
  assume "I w"
  then have m: "wp m (\<lambda>_. I) (\<lambda>_. I) (w\<lparr>w_tick := n\<rparr>)" for n
    using assms(1,3) by (auto simp: keeps_triple triple_wp)
  have "wp m (\<lambda>r w2. if \<not> x_pg X (w_tick w2) then I (w2\<lparr>w_tick := Suc (w_tick w2), w_db := w_db w\<rparr>)
                 else I (w2\<lparr>w_tick := Suc (w_tick w2)\<rparr>)) (\<lambda>e w2. I (w2\<lparr>w_db := w_db w\<rparr>)) (w\<lparr>w_tick := Suc (w_tick w)\<rparr>)"
    by (rule wp_mono [OF m]) (auto simp: assms(1,2))
  with assms(1) \<open>I w\<close> show "wp (in_tx X l m) (\<lambda>_. I) (\<lambda>_. I) w" unfolding wp_in_tx by simp
qed

text \<open>An evaluation touches the tables, the membership and the call counter only.\<close>

lemma record_transitions_keeps:
  assumes "\<And>w n. I w \<Longrightarrow> I (w\<lparr>w_tick := n\<rparr>)" "\<And>w d. I w \<Longrightarrow> I (w\<lparr>w_db := d\<rparr>)"
  shows "keeps I (record_transitions X p byID ts)"
proof (induction ts)
  case Nil
  show ?case by (simp add: keeps_ret)
next
  case (Cons t ts)
  have q: "keeps I (transition_zone X byID t)"
    unfolding transition_zone_def zonesByID_def
    by (intro keeps_rules keeps_sql_query assms)
  have s: "keeps I (sql_exec X l f)" for l f by (rule keeps_sql_exec) (simp_all add: assms)
  have u: "keeps I (fresh_uuid X)" unfolding fresh_uuid_def by (rule keeps_asks) (rule assms)
  show ?case
    unfolding record_transitions.simps by (intro keeps_rules q s u Cons.IH)
qed

lemma EvaluateGeofences_keeps:
  assumes "\<And>w n. I w \<Longrightarrow> I (w\<lparr>w_tick := n\<rparr>)" "\<And>w d. I w \<Longrightarrow> I (w\<lparr>w_db := d\<rparr>)"
    and "\<And>w z. I w \<Longrightarrow> I (w\<lparr>w_zone_state := z\<rparr>)"
  shows "keeps I (EvaluateGeofences X p)"
proof -
  have c: "keeps I (clock X)" unfolding clock_def by (rule keeps_asks) (rule assms)
  have r: "keeps I (Replace X k zs)" for k zs
    unfolding Replace_def by (intro keeps_rules keeps_asks keeps_modifies c assms)
  have m: "keeps I (Membership X k)" for k
    unfolding Membership_def by (intro keeps_rules keeps_asks c assms)
  have z: "keeps I (zonesContaining X a b)" for a b
    unfolding zonesContaining_def by (rule keeps_sql_query) (rule assms)
  have "keeps I (evaluate_body X p)"
    unfolding evaluate_body_def by (intro keeps_rules z m r record_transitions_keeps assms)
  then have "keeps I (withIngestConn X (evaluate_body X p))"
    unfolding withIngestConn_def by (rule keeps_in_tx [rotated 2]) (simp_all add: assms)
  then show ?thesis unfolding EvaluateGeofences_def by (intro keeps_rules)
qed

lemma EvaluateGeofences_kafka: "keeps (\<lambda>w. w_kafka w = K) (EvaluateGeofences X p)"
  by (rule EvaluateGeofences_keeps) simp_all

lemma observed_grows: "observed p w w' ok \<Longrightarrow> grows w w'"
  by (auto simp: observed_def announced_prefix_def progress_def grows_def)

lemma quiet_grows: "quiet w w' \<Longrightarrow> grows w w'"
  by (simp add: grows_def quiet_simps)

lemma keeps_grows_calls:
  "keeps (grows w0) (PublishSignedEnvelope X P kind corr pl t cls h)"
  "keeps (grows w0) (publish X P kind corr pl t cls)"
  "keeps (grows w0) (Publish X pr tp k v hs)"
  "keeps (grows w0) (count n l)"
  "keeps (grows w0) (broadcasts b bc)"
proof -
  show signed: "keeps (grows w0) (PublishSignedEnvelope X P kind corr pl t cls h)" for h
    by (rule keeps_grows, rule wp_mono [OF PublishSignedEnvelope_wp]) (auto simp: grows_def same_but_kafka_def)
  show "keeps (grows w0) (publish X P kind corr pl t cls)" unfolding publish_signed by (rule signed)
  show "keeps (grows w0) (Publish X pr tp k v hs)"
    by (rule keeps_grows, rule wp_mono [OF bus.publish_wp]) (auto simp: grows_def same_but_kafka_def)
  show "keeps (grows w0) (count n l)" "keeps (grows w0) (broadcasts b bc)"
    by (rule keeps_grows; simp add: wp_simps grows_def)+
qed

lemma EvaluateGeofences_grows: "keeps (grows w0) (EvaluateGeofences X p)"
  by (rule keeps_grows, rule wp_mono [OF wp_keeps [OF EvaluateGeofences_wp EvaluateGeofences_kafka refl]])
    (auto simp: grows_def evaluated_def)

lemma ObservePosition_grows: "keeps (grows w0) (ObservePosition X (PublishSignedEnvelope X P) p)"
proof (rule keeps_grows)
  fix w
  show "wp (ObservePosition X (PublishSignedEnvelope X P) p) (\<lambda>_. grows w) (\<lambda>_. grows w) w"
  proof (cases "mmsiPattern (po_MMSI p)")
    case True
    show ?thesis
      by (rule wp_mono [OF geo_publisher.ObservePosition_wp [OF True]])
        (auto intro: observed_grows quiet_grows)
  next
    case False
    then show ?thesis by (simp add: ObservePosition_def wp_simps)
  qed
qed

lemmas grows_rules = keeps_rules keeps_grows_calls EvaluateGeofences_grows ObservePosition_grows

section \<open>Facts about a position\<close>

lemma keeps_wp: "keeps I m \<Longrightarrow> I w \<Longrightarrow> wp m (\<lambda>_. I) (\<lambda>_. I) w"
  by (simp add: keeps_triple triple_wp)

lemma persist_position_wp:
  "wp (persist_position X p)
     (\<lambda>_ w'. grows w w' \<and> w_kafka w' = w_kafka w \<and> position_row_of p \<in> set (db_positions (w_db w')))
     (\<lambda>_ w'. w_kafka w' = w_kafka w) w"
  unfolding persist_position_def EnsurePositionPartitions_def InsertPositions_def UpsertLatestPosition_def
  by (auto simp: wp_simps grows_def split: option.split if_splits)

lemma publish_position_wp:
  "wp (publish_position X P p)
     (\<lambda>_ w'. grows w w' \<and> (\<exists>m. w_kafka w' = w_kafka w @ [m]
        \<and> envelope_message EventVesselPosition (po_PositionReportID p) m))
     (\<lambda>_ w'. grows w w') w"
  unfolding publish_position_def publish_signed wp_seq
  by (rule wp_mono [OF PublishSignedEnvelope_wp]) (auto simp: wp_count grows_def same_but_kafka_def)

lemma admit_parts_grow:
  "keeps (grows w0) (geofence_step X P p)" "keeps (grows w0) (mirror_raw X P p)"
  "keeps (grows w0) (fence_v2_step X P p)" "keeps (grows w0) (fan_out P p)"
  unfolding geofence_step_def mirror_raw_def fence_v2_step_def fan_out_def publishGeofenceEvent_def
  by (intro grows_rules)+

text \<open>An admitted position: what was announced is stored.\<close>

definition admitted_ok :: "world \<Rightarrow> Position \<Rightarrow> world \<Rightarrow> bool" where
  "admitted_ok w p w' \<longleftrightarrow> position_row_of p \<in> set (db_positions (w_db w'))
     \<and> (\<exists>ms. w_kafka w' = w_kafka w @ ms \<and> (\<exists>m\<in>set ms. envelope_message EventVesselPosition (po_PositionReportID p) m))"

definition admitted_err :: "world \<Rightarrow> Position \<Rightarrow> world \<Rightarrow> bool" where
  "admitted_err w p w' \<longleftrightarrow> w_kafka w' = w_kafka w
     \<or> (position_row_of p \<in> set (db_positions (w_db w')) \<and> (\<exists>ms. w_kafka w' = w_kafka w @ ms))"

lemma admit_position_wp: "wp (admit_position X P p) (\<lambda>_. admitted_ok w p) (\<lambda>_. admitted_err w p) w"
proof -
  let ?row = "\<lambda>v. position_row_of p \<in> set (db_positions (w_db v))"
  have err: "admitted_err w p w'" if "grows w v" "?row v" "grows v w'" for v w'
    using that by (auto simp: admitted_err_def grows_def)
  have tail: "wp (seqA (fence_v2_step X P p) (fan_out P p)) (\<lambda>_. admitted_ok w p) (\<lambda>_. admitted_err w p) u"
    if v: "grows w v" "?row v" and u: "grows v u"
      "w_kafka u = w_kafka v @ ms @ [m]" "envelope_message EventVesselPosition (po_PositionReportID p) m" for v u ms m
  proof (rule wp_mono [OF keeps_wp [of "grows u"]])
    show "keeps (grows u) (seqA (fence_v2_step X P p) (fan_out P p))" by (intro keeps_seq admit_parts_grow)
    show "admitted_ok w p w'" if "grows u w'" for w'
      using that v u by (auto simp: admitted_ok_def grows_def)
    show "admitted_err w p w'" if "grows u w'" for w'
      using err [OF v] grows_trans [OF u(1) that] by blast
  qed simp
  have mid: "wp (seqA (publish_position X P p) (seqA (fence_v2_step X P p) (fan_out P p)))
      (\<lambda>_. admitted_ok w p) (\<lambda>_. admitted_err w p) u" if v: "grows w v" "?row v" "grows v u" for v u
    unfolding wp_seq [of "publish_position X P p"]
  proof (rule wp_mono [OF publish_position_wp], goal_cases)
    case (1 x y)
    then obtain m where m: "grows u y" "w_kafka y = w_kafka u @ [m]"
      "envelope_message EventVesselPosition (po_PositionReportID p) m" by blast
    from v(3) obtain ms where "w_kafka u = w_kafka v @ ms" by (auto simp: grows_def)
    with m show ?case by (intro tail [OF v(1,2) grows_trans [OF v(3)], of y ms m]) simp_all
  next
    case (2 e y)
    with err [OF v(1,2)] grows_trans [OF v(3)] show ?case by blast
  qed
  have front: "wp (seqA (geofence_step X P p) (seqA (mirror_raw X P p)
      (seqA (publish_position X P p) (seqA (fence_v2_step X P p) (fan_out P p)))))
      (\<lambda>_. admitted_ok w p) (\<lambda>_. admitted_err w p) v" if v: "grows w v" "?row v" for v
    unfolding wp_seq [of "geofence_step X P p"] wp_seq [of "mirror_raw X P p"]
  proof (rule wp_mono [OF keeps_wp [OF admit_parts_grow(1) grows_refl]], goal_cases)
    case (1 x y)
    note y = this
    show ?case
    proof (rule wp_mono [OF keeps_wp [OF admit_parts_grow(2) y]], goal_cases)
      case (1 x z)
      then show ?case by (rule mid [OF v])
    next
      case (2 e z)
      then show ?case by (rule err [OF v])
    qed
  next
    case (2 e y)
    then show ?case by (rule err [OF v])
  qed
  show ?thesis
    unfolding admit_position_def wp_seq [of "persist_position X p"]
  proof (rule wp_mono [OF persist_position_wp], goal_cases)
    case (1 x v)
    then show ?case by (intro front) auto
  next
    case (2 e v)
    then show ?case by (simp add: admitted_err_def)
  qed
qed

lemma absorbed_wp:
  "wp (absorbed X P k p)
     (\<lambda>dup w'. w_kafka w' = w_kafka w \<and> w_db w' = w_db w \<and> w_tracker w' = w_tracker w
        \<and> (dup \<longrightarrow> k \<noteq> [] \<and> (\<exists>n. live_key (w_dedup w) (dedup_key (po_MMSI p) (derefInt32 (po_AISMessageType p)) k) (x_now X n))))
     (\<lambda>_ _. False) w"
  unfolding absorbed_def IsDuplicate_def Let_def set_nx_def by (auto simp: wp_simps)

text \<open>The four ways a report ends well, and what holds when it does not.\<close>

definition handled_ok :: "externals \<Rightarrow> world \<Rightarrow> string \<Rightarrow> Position \<Rightarrow> world \<Rightarrow> bool" where
  "handled_ok X w k p w' \<longleftrightarrow> (\<exists>ms. w_kafka w' = w_kafka w @ ms \<and>
     ((StaticChecks (validation_report p) \<noteq> [] \<and> list_all2 (quarantine_message p) (StaticChecks (validation_report p)) ms)
      \<or> (\<exists>f. snd (CheckConsecutive (w_tracker w) (validation_report p)) = Some f \<and> list_all2 (quarantine_message p) [f] ms)
      \<or> (k \<noteq> [] \<and> ms = []
          \<and> (\<exists>n. live_key (w_dedup w) (dedup_key (po_MMSI p) (derefInt32 (po_AISMessageType p)) k) (x_now X n)))
      \<or> (position_row_of p \<in> set (db_positions (w_db w'))
          \<and> (\<exists>m\<in>set ms. envelope_message EventVesselPosition (po_PositionReportID p) m))))"

definition durable_first :: "world \<Rightarrow> Position \<Rightarrow> world \<Rightarrow> bool" where
  "durable_first w p w' \<longleftrightarrow> (\<exists>ms. w_kafka w' = w_kafka w @ ms
     \<and> ((\<forall>m\<in>set ms. km_topic m = TopicVesselQuarantine) \<or> position_row_of p \<in> set (db_positions (w_db w'))))"

lemma quarantined_topic: "list_all2 (quarantine_message p) fs ms \<Longrightarrow> \<forall>m\<in>set ms. km_topic m = TopicVesselQuarantine"
  by (auto simp: quarantine_message_def list_all2_conv_all_nth in_set_conv_nth)

lemma position_checked_wp:
  "wp (let findings = StaticChecks (validation_report p) in
      if findings \<noteq> [] then eachA (quarantine_counted X P p) findings
      else bindA (check_consecutive p) (\<lambda>finding.
        case finding of
          Some f \<Rightarrow> quarantine_counted X P p f
        | None \<Rightarrow> bindA (absorbed X P k p) (\<lambda>duplicate.
            if duplicate then ret () else admit_position X P p)))
     (\<lambda>_ w'. handled_ok X w k p w' \<and> durable_first w p w') (\<lambda>_. durable_first w p) w"
proof (cases "StaticChecks (validation_report p) = []")
  case False
  show ?thesis
    unfolding Let_def if_P [OF False]
  proof (rule wp_mono [OF quarantine_all_wp], goal_cases)
    case (1 u w')
    with False show ?case unfolding handled_ok_def durable_first_def using quarantined_topic by blast
  next
    case (2 e w')
    then show ?case unfolding durable_first_def using quarantined_topic by blast
  qed
next
  case True
  define f where "f = snd (CheckConsecutive (w_tracker w) (validation_report p))"
  let ?v = "w\<lparr>w_tracker := fst (CheckConsecutive (w_tracker w) (validation_report p))\<rparr>"
  have q: "wp (quarantine_counted X P p g) (\<lambda>_ w'. handled_ok X w k p w' \<and> durable_first w p w') (\<lambda>_. durable_first w p) ?v"
    if "f = Some g" for g
  proof (rule wp_mono [OF quarantine_counted_wp], goal_cases)
    case (1 u w')
    then obtain m where m: "w_kafka w' = w_kafka w @ [m]" "quarantine_message p g m" by auto
    then have "list_all2 (quarantine_message p) [g] [m]" by simp
    with m(1) that show ?case unfolding handled_ok_def durable_first_def f_def using quarantined_topic by blast
  next
    case (2 e w')
    then show ?case unfolding durable_first_def by (intro exI [of _ "[]"]) simp
  qed
  have a: "wp (absorbed X P k p) (\<lambda>dup. wp (if dup then ret () else admit_position X P p)
      (\<lambda>_ w'. handled_ok X w k p w' \<and> durable_first w p w') (\<lambda>_. durable_first w p)) (\<lambda>_. durable_first w p) ?v"
  proof (rule wp_mono [OF absorbed_wp], goal_cases)
    case (1 dup v)
    then have v: "w_kafka v = w_kafka w" by simp
    show ?case
    proof (cases dup)
      case True
      with 1 show ?thesis unfolding handled_ok_def durable_first_def
        by (simp add: wp_ret)
    next
      case False
      have "wp (admit_position X P p) (\<lambda>_ w'. handled_ok X w k p w' \<and> durable_first w p w') (\<lambda>_. durable_first w p) v"
      proof (rule wp_mono [OF admit_position_wp], goal_cases)
        case (1 u w')
        then show ?case unfolding admitted_ok_def handled_ok_def durable_first_def v by blast
      next
        case (2 e w')
        then show ?case unfolding admitted_err_def durable_first_def v by (metis append_Nil2 empty_iff list.set(1))
      qed
      with False show ?thesis by simp
    qed
  qed simp
  show ?thesis
    using True q a
    by (cases f) (simp_all add: check_consecutive_def wp_simps f_def)
qed

lemma with_report_id_wp:
  "wp (with_report_id X p)
     (\<lambda>q w'. (\<exists>i. q = p\<lparr>po_PositionReportID := i\<rparr>) \<and> (po_PositionReportID p \<noteq> [] \<longrightarrow> q = p) \<and> w' = w\<lparr>w_tick := w_tick w'\<rparr>)
     (\<lambda>_ _. False) w"
proof (cases "po_PositionReportID p = []")
  case True
  then show ?thesis by (auto simp: with_report_id_def wp_simps)
next
  case False
  have "p = p\<lparr>po_PositionReportID := po_PositionReportID p\<rparr>" by simp
  then have "\<exists>i. p = p\<lparr>po_PositionReportID := i\<rparr>" ..
  with False show ?thesis by (simp add: with_report_id_def wp_simps)
qed

lemma HandlePosition_wp:
  "wp (HandlePosition X P ingest)
     (\<lambda>_ w'. \<exists>p. (\<exists>i. p = (ip_Position ingest)\<lparr>po_PositionReportID := i\<rparr>)
        \<and> (po_PositionReportID (ip_Position ingest) \<noteq> [] \<longrightarrow> p = ip_Position ingest)
        \<and> handled_ok X w (ip_PayloadKey ingest) p w' \<and> durable_first w p w')
     (\<lambda>_ w'. \<exists>p. (\<exists>i. p = (ip_Position ingest)\<lparr>po_PositionReportID := i\<rparr>) \<and> durable_first w p w') w"
proof -
  have frame: "handled_ok X v k p w' = handled_ok X w k p w' \<and> durable_first v p w' = durable_first w p w'"
    if "w_kafka v = w_kafka w" "w_tracker v = w_tracker w" "w_dedup v = w_dedup w" for v k p w'
    by (simp add: handled_ok_def durable_first_def that)
  show ?thesis
    unfolding HandlePosition_def wp_bind [of "with_report_id X (ip_Position ingest)"]
  proof (rule wp_mono [OF with_report_id_wp], goal_cases)
    case (1 p v)
    then obtain n where v: "v = w\<lparr>w_tick := n\<rparr>" by blast
    have rest: "wp (let findings = StaticChecks (validation_report p) in
      if findings \<noteq> [] then eachA (quarantine_counted X P p) findings
      else bindA (check_consecutive p) (\<lambda>finding.
        case finding of
          Some f \<Rightarrow> quarantine_counted X P p f
        | None \<Rightarrow> bindA (absorbed X P (ip_PayloadKey ingest) p) (\<lambda>duplicate.
            if duplicate then ret () else admit_position X P p)))
       (\<lambda>_ w'. handled_ok X w (ip_PayloadKey ingest) p w' \<and> durable_first w p w') (\<lambda>_. durable_first w p) u"
      if "w_kafka u = w_kafka w" "w_tracker u = w_tracker w" "w_dedup u = w_dedup w" for u
      by (rule wp_mono [OF position_checked_wp]) (use frame [OF that] in auto)
    show ?case
      unfolding wp_seq wp_count wp_when
      by (auto intro!: wp_mono [OF rest] 1 simp: v) (use 1 in \<open>auto intro: exI [of _ p]\<close>)
  qed simp
qed

text \<open>Once a report has passed the static checks, the tracker holds its fix, whatever comes after.\<close>

lemma tracker_keeps:
  "keeps (\<lambda>w. w_tracker w = T) (PublishSignedEnvelope X P kind corr pl t cls h)"
  "keeps (\<lambda>w. w_tracker w = T) (publish X P kind corr pl t cls)"
  "keeps (\<lambda>w. w_tracker w = T) (Publish X pr tp k v hs)"
  "keeps (\<lambda>w. w_tracker w = T) (count n l)"
  "keeps (\<lambda>w. w_tracker w = T) (broadcasts b bc)"
  "keeps (\<lambda>w. w_tracker w = T) (fresh_uuid X)"
  "keeps (\<lambda>w. w_tracker w = T) (clock X)"
  "keeps (\<lambda>w. w_tracker w = T) (sql_exec X l f)"
  "keeps (\<lambda>w. w_tracker w = T) (EvaluateGeofences X p)"
proof -
  show signed: "keeps (\<lambda>w. w_tracker w = T) (PublishSignedEnvelope X P kind corr pl t cls h)" for h
    unfolding keeps_triple triple_wp
    by (intro allI impI, rule wp_mono [OF PublishSignedEnvelope_wp]) (simp_all add: same_but_kafka_def)
  show "keeps (\<lambda>w. w_tracker w = T) (publish X P kind corr pl t cls)" unfolding publish_signed by (rule signed)
  show "keeps (\<lambda>w. w_tracker w = T) (Publish X pr tp k v hs)"
    unfolding keeps_triple triple_wp
    by (intro allI impI, rule wp_mono [OF bus.publish_wp]) (simp_all add: same_but_kafka_def)
  show "keeps (\<lambda>w. w_tracker w = T) (sql_exec X l f)" by (rule keeps_sql_exec) simp_all
  show "keeps (\<lambda>w. w_tracker w = T) (EvaluateGeofences X p)" by (rule EvaluateGeofences_keeps) simp_all
qed (simp_all add: keeps_triple triple_wp wp_simps)

lemma ObservePosition_tracker: "keeps (\<lambda>w. w_tracker w = T) (ObservePosition X (PublishSignedEnvelope X P) p)"
  unfolding keeps_triple triple_wp
proof (intro allI impI)
  fix w :: world
  assume T: "w_tracker w = T"
  show "wp (ObservePosition X (PublishSignedEnvelope X P) p) (\<lambda>_ w. w_tracker w = T) (\<lambda>_ w. w_tracker w = T) w"
  proof (cases "mmsiPattern (po_MMSI p)")
    case True
    have "w_tracker w' = T" if "observed p w w' ok" for w' ok
      using that T by (auto simp: observed_def announced_prefix_def progress_def)
    then show ?thesis
      by (intro wp_mono [OF geo_publisher.ObservePosition_wp [OF True]]) (auto simp: quiet_simps T)
  next
    case False
    with T show ?thesis by (simp add: ObservePosition_def wp_simps)
  qed
qed

lemma admit_position_tracker: "keeps (\<lambda>w. w_tracker w = T) (admit_position X P p)"
  unfolding admit_position_def persist_position_def EnsurePositionPartitions_def InsertPositions_def
    UpsertLatestPosition_def geofence_step_def mirror_raw_def publish_position_def fence_v2_step_def fan_out_def
    publishGeofenceEvent_def
  by (intro keeps_rules tracker_keeps ObservePosition_tracker)

lemma HandlePosition_tracker:
  assumes "StaticChecks (validation_report (ip_Position ingest)) = []" "HandlePosition X P ingest w = (w', res)"
  shows "w_tracker w' = fst (CheckConsecutive (w_tracker w) (validation_report (ip_Position ingest)))"
proof -
  define T where "T = fst (CheckConsecutive (w_tracker w) (validation_report (ip_Position ingest)))"
  have q: "keeps (\<lambda>w. w_tracker w = T) (quarantine_counted X P p f)" for p f
    unfolding quarantine_counted_def quarantine_def by (intro keeps_rules tracker_keeps)
  have a: "keeps (\<lambda>w. w_tracker w = T) (absorbed X P k p)" for k p
    unfolding keeps_triple triple_wp
    by (intro allI impI, rule wp_mono [OF absorbed_wp]) auto
  have tail: "keeps (\<lambda>w. w_tracker w = T) (case f of
          Some f \<Rightarrow> quarantine_counted X P p f
        | None \<Rightarrow> bindA (absorbed X P (ip_PayloadKey ingest) p) (\<lambda>duplicate.
            if duplicate then ret () else admit_position X P p))" for f p
    by (intro keeps_rules q a admit_position_tracker)
  have "wp (HandlePosition X P ingest) (\<lambda>_ w'. w_tracker w' = T) (\<lambda>_ w'. w_tracker w' = T) w"
    unfolding HandlePosition_def wp_bind [of "with_report_id X (ip_Position ingest)"]
  proof (rule wp_mono [OF with_report_id_wp], goal_cases)
    case (1 p v)
    then obtain i where p: "p = (ip_Position ingest)\<lparr>po_PositionReportID := i\<rparr>" and v: "w_tracker v = w_tracker w"
      by (metis (no_types, lifting) world.select_convs(5) world.simps(5) world.surjective world.update_convs(1))
    have r: "validation_report p = validation_report (ip_Position ingest)" by (simp add: p validation_report_def)
    show ?case
      using keeps_wp [OF tail] v
      by (simp add: r assms(1) wp_simps check_consecutive_def T_def)
  qed simp
  with assms(2) show ?thesis by (cases res) (auto simp: wp_def T_def)
qed

text \<open>A report seen again does not contradict itself.\<close>

lemma CheckConsecutive_moved: "fst (CheckConsecutive t r) (vesselKey r) = Some (fix_of r)"
  by (simp add: CheckConsecutive_def Let_def split: option.split)

lemma CheckConsecutive_again: "t (vesselKey r) = Some (fix_of r) \<Longrightarrow> snd (CheckConsecutive t r) = None"
  by (simp add: CheckConsecutive_def Let_def fix_of_def time_sub_def )

section \<open>Sample runs\<close>

definition sample_pipeline :: Pipeline where
  "sample_pipeline = \<lparr>pl_Dedup = \<lparr>ck_window = 20 * second\<rparr>, pl_Producer = sample_producer, pl_Signer = sample_signer,
     pl_Principal = sample_principal, pl_PublishRaw = False, pl_Broadcast = True, pl_FenceV2 = True\<rparr>"

definition sample_report_ok :: Position where
  "sample_report_ok = \<lparr>po_PositionReportID = ''pos-1'', po_MMSI = ''657123456'', po_VesselRef = '''', po_SourceClass = ''AIS'',
     po_LatitudeMicros = 3, po_LongitudeMicros = 6, po_SpeedOverGroundMilliknots = None,
     po_CourseOverGroundMillidegrees = None, po_HeadingMillidegrees = None, po_NavStatus = None,
     po_PositionAccuracy = '''', po_ReceiverID = ''rx'', po_AISMessageType = Some 1, po_IMO = '''', po_Callsign = '''',
     po_ShipName = '''', po_Classification = ClassificationPublic, po_ObservedAt = 100 * second\<rparr>"

definition no_postgres :: externals where "no_postgres = calm\<lparr>x_pg := \<lambda>n. False\<rparr>"
definition no_kafka :: externals where "no_kafka = calm\<lparr>x_kafka := \<lambda>n. False\<rparr>"
definition still :: externals where "still = calm\<lparr>x_now := \<lambda>n. 0\<rparr>"

text \<open>The first report of a vessel meets no previous fix.\<close>

lemma HandlePosition_first:
  assumes "po_PositionReportID p \<noteq> []" "StaticChecks (validation_report p) = []"
    and "w_tracker w (vesselKey (validation_report p)) = None" "IsNigerianFlagged (po_MMSI p)"
  shows "HandlePosition X P \<lparr>ip_Position = p, ip_PayloadKey = k\<rparr> w =
     bindA (absorbed X P k p) (\<lambda>duplicate. if duplicate then ret () else admit_position X P p)
       (w\<lparr>w_metrics := w_metrics w @ [(''geo_positions_received_total'', po_SourceClass p),
            (''geo_positions_nigeria_mid657_total'', [])],
          w_tracker := (w_tracker w)(vesselKey (validation_report p) \<mapsto> fix_of (validation_report p))\<rparr>)"
  using assms
  by (simp add: HandlePosition_def with_report_id_def check_consecutive_def CheckConsecutive_def run_simps
      count_def whenA_def Let_def)

lemma sample_static:
  "StaticChecks (validation_report sample_report_ok) = []" "IsNigerianFlagged (po_MMSI sample_report_ok)"
  "po_PositionReportID sample_report_ok \<noteq> []" "mmsiPattern (po_MMSI sample_report_ok)"
  by (code_simp, code_simp, code_simp, code_simp)

lemma sample_tracker: "w_tracker empty_world k = None"
  by (simp add: empty_world_def NewTracker_def)

lemmas sample_run = HandlePosition_first [OF sample_static(3,1) sample_tracker sample_static(2)]

lemma sample_handled:
  "\<not> isl (snd (HandlePosition calm sample_pipeline \<lparr>ip_Position = sample_report_ok, ip_PayloadKey = []\<rparr> empty_world))"
  unfolding sample_run by code_simp

lemma sample_failed:
  "case HandlePosition no_postgres sample_pipeline \<lparr>ip_Position = sample_report_ok, ip_PayloadKey = ''k''\<rparr> empty_world of
     (w1, r) \<Rightarrow> isl r \<and> map_option (\<lambda>t. 0 < t)
       (w_dedup w1 (dedup_key (po_MMSI sample_report_ok) (derefInt32 (po_AISMessageType sample_report_ok)) ''k'')) = Some True"
  unfolding sample_run by code_simp

lemma sample_unannounced:
  "case ObservePosition no_kafka (PublishSignedEnvelope no_kafka sample_pipeline) sample_report_ok fence_world of
    (w1, r) \<Rightarrow> isl r \<and> en_last (w_engine w1) ''657123456'' = Some 100
      \<and> (case w_fenceset w1 of Some (fs, meta, t) \<Rightarrow> distinct (map GeofenceID fs) \<and> 0 \<le> t | None \<Rightarrow> False)"
  by code_simp

lemma failed_run: "case m of (w, r) \<Rightarrow> isl r \<and> Q w \<Longrightarrow> \<exists>w e. m = (w, Inl e) \<and> Q w"
  by (cases m; cases "snd m") auto

lemma observed_explicit:
  assumes "observed p w w' ok"
  shows "\<exists>fs meta t n rows ms. w_fenceset w' = Some (fs, meta, t)
        \<and> w_engine w' = fst (fold_position p fs (w_engine w))
        \<and> w_db w' = (w_db w)\<lparr>db_fence_events := db_fence_events (w_db w) @ rows\<rparr> \<and> w_kafka w' = w_kafka w @ ms
        \<and> map (\<lambda>r. (fe_GeofenceID r, fe_GeofenceVersion r, fe_EventType r)) rows
           = map (\<lambda>ev. (ev_GeofenceID ev, ev_Version ev, event_type_text (ev_Type ev)))
               (take n (snd (fold_position p fs (w_engine w))))
        \<and> (\<exists>extra. map correlation ms = map fe_EventID rows @ extra \<and> length extra \<le> 1
             \<and> (ok \<longrightarrow> extra = [] \<and> n = length (snd (fold_position p fs (w_engine w)))))"
proof -
  from assms obtain fs meta t n rows ms where o: "w_fenceset w' = Some (fs, meta, t)"
    "progress (w\<lparr>w_engine := fst (fold_position p fs (w_engine w)), w_fenceset := Some (fs, meta, t)\<rparr>)
       (take n (map (\<lambda>ev. (ev, fence_row_of meta ev)) (snd (fold_position p fs (w_engine w))))) w' rows ms"
    "map correlation ms = map fe_EventID rows \<or> (\<not> ok \<and> (\<exists>x. map correlation ms = map fe_EventID rows @ [x]))"
    "ok \<longrightarrow> n = length (snd (fold_position p fs (w_engine w)))"
    unfolding observed_def announced_prefix_def length_map by blast
  then have "\<exists>extra. map correlation ms = map fe_EventID rows @ extra \<and> length extra \<le> 1
             \<and> (ok \<longrightarrow> extra = [] \<and> n = length (snd (fold_position p fs (w_engine w))))" by auto
  with o(1,2) show ?thesis
    by (intro exI [of _ fs] exI [of _ meta] exI [of _ t] exI [of _ n] exI [of _ rows] exI [of _ ms])
      (auto simp: progress_def take_map comp_def)
qed

section \<open>Properties\<close>

text \<open>C1. No silent drop: whenever the hot path accepts a report without error, either it failed the static
  checks and one quarantine record per finding, carrying the report and the reason, is on the quarantine
  topic; or it contradicts the vessel's previous fix and its quarantine record is there; or an identical
  report was admitted within the deduplication window; or its row is stored and its signed event published.\<close>

theorem HandlePosition_no_silent_drop:
  assumes "HandlePosition X P ingest w = (w', Inr ())"
  shows "\<exists>p ms. (\<exists>i. p = (ip_Position ingest)\<lparr>po_PositionReportID := i\<rparr>)
    \<and> (po_PositionReportID (ip_Position ingest) \<noteq> [] \<longrightarrow> p = ip_Position ingest)
    \<and> w_kafka w' = w_kafka w @ ms
    \<and> ((StaticChecks (validation_report p) \<noteq> [] \<and> list_all2 (quarantine_message p) (StaticChecks (validation_report p)) ms)
      \<or> (\<exists>f. snd (CheckConsecutive (w_tracker w) (validation_report p)) = Some f \<and> list_all2 (quarantine_message p) [f] ms)
      \<or> (ip_PayloadKey ingest \<noteq> [] \<and> ms = [] \<and> (\<exists>n. live_key (w_dedup w)
            (dedup_key (po_MMSI p) (derefInt32 (po_AISMessageType p)) (ip_PayloadKey ingest)) (x_now X n)))
      \<or> (position_row_of p \<in> set (db_positions (w_db w'))
          \<and> (\<exists>m\<in>set ms. envelope_message EventVesselPosition (po_PositionReportID p) m)))"
  using wp_Inr [OF HandlePosition_wp assms] unfolding handled_ok_def by blast

theorem HandlePosition_no_silent_drop_witness:
  "\<exists>w' p ms. w_kafka w' = w_kafka empty_world @ ms
    \<and> HandlePosition calm sample_pipeline \<lparr>ip_Position = sample_report_ok, ip_PayloadKey = []\<rparr> empty_world = (w', Inr ())
    \<and> p = sample_report_ok \<and> position_row_of p \<in> set (db_positions (w_db w'))
    \<and> (\<exists>m\<in>set ms. envelope_message EventVesselPosition ''pos-1'' m)"
proof -
  let ?run = "HandlePosition calm sample_pipeline \<lparr>ip_Position = sample_report_ok, ip_PayloadKey = []\<rparr> empty_world"
  obtain w' where run: "?run = (w', Inr ())"
    using sample_handled by (cases ?run, cases "snd ?run") auto
  have fresh: "snd (CheckConsecutive (w_tracker empty_world) (validation_report sample_report_ok)) = None"
    by (simp add: CheckConsecutive_def sample_tracker)
  show ?thesis
    using HandlePosition_no_silent_drop [OF run] run fresh sample_static(1) by (auto simp: sample_report_ok_def)
qed

text \<open>Durable before announced: whatever happens during one report, outages at any point included,
  if anything but quarantine records went to the topics then the position is stored.\<close>

theorem HandlePosition_durable_first:
  assumes "HandlePosition X P ingest w = (w', res)"
  shows "\<exists>ms i. w_kafka w' = w_kafka w @ ms
    \<and> ((\<forall>m\<in>set ms. km_topic m = TopicVesselQuarantine)
       \<or> position_row_of ((ip_Position ingest)\<lparr>po_PositionReportID := i\<rparr>) \<in> set (db_positions (w_db w')))"
proof (cases res)
  case (Inl e)
  from wp_Inl [OF HandlePosition_wp assms [unfolded Inl]] show ?thesis unfolding durable_first_def by blast
next
  case (Inr u)
  from wp_Inr [OF HandlePosition_wp assms [unfolded Inr]] show ?thesis unfolding durable_first_def by blast
qed

theorem HandlePosition_durable_first_witness:
  "\<exists>w' res ms i. HandlePosition calm sample_pipeline \<lparr>ip_Position = sample_report_ok, ip_PayloadKey = []\<rparr> empty_world = (w', res)
    \<and> w_kafka w' = w_kafka empty_world @ ms
    \<and> ((\<forall>m\<in>set ms. km_topic m = TopicVesselQuarantine)
       \<or> position_row_of (sample_report_ok\<lparr>po_PositionReportID := i\<rparr>) \<in> set (db_positions (w_db w')))"
proof -
  obtain w' res where run: "HandlePosition calm sample_pipeline \<lparr>ip_Position = sample_report_ok, ip_PayloadKey = []\<rparr> empty_world
    = (w', res)" by fastforce
  from HandlePosition_durable_first [OF run, unfolded IngestPosition.select_convs] run show ?thesis by blast
qed

text \<open>A report that failed after the duplicate check is lost on redelivery: while its key is live in
  Redis, handling the same report again returns without error and neither stores nor publishes it.\<close>

theorem HandlePosition_retry_absorbed:
  assumes "StaticChecks (validation_report p) = []" "k \<noteq> []"
    and "HandlePosition X P \<lparr>ip_Position = p, ip_PayloadKey = k\<rparr> w = (w1, Inl e)"
    and "w_dedup w1 (dedup_key (po_MMSI p) (derefInt32 (po_AISMessageType p)) k) = Some t"
    and "\<forall>n. x_now Y n < t" "\<forall>n. x_redis Y n"
    and "HandlePosition Y P \<lparr>ip_Position = p, ip_PayloadKey = k\<rparr> w1 = (w2, res)"
  shows "res = Inr () \<and> w_db w2 = w_db w1 \<and> w_kafka w2 = w_kafka w1"
proof -
  let ?r = "validation_report p"
  have T: "w_tracker w1 = fst (CheckConsecutive (w_tracker w) ?r)"
    using HandlePosition_tracker [OF _ assms(3)] assms(1) by simp
  have none: "snd (CheckConsecutive (w_tracker w1) ?r) = None"
    using CheckConsecutive_moved [of "w_tracker w" ?r] CheckConsecutive_again T by simp
  have vr: "validation_report (p\<lparr>po_PositionReportID := i\<rparr>) = ?r" for i by (simp add: validation_report_def)
  have "wp (HandlePosition Y P \<lparr>ip_Position = p, ip_PayloadKey = k\<rparr>)
      (\<lambda>_ w2. w_db w2 = w_db w1 \<and> w_kafka w2 = w_kafka w1) (\<lambda>_ _. False) w1"
    unfolding HandlePosition_def wp_bind [of "with_report_id _ _"]
  proof (rule wp_mono [OF with_report_id_wp], goal_cases)
    case (1 q v)
    then obtain i n where q: "q = p\<lparr>po_PositionReportID := i\<rparr>" and v: "v = w1\<lparr>w_tick := n\<rparr>" by auto
    show ?case
      using assms(1,2,4-6) none
      by (simp add: q v vr wp_simps check_consecutive_def absorbed_def IsDuplicate_def set_nx_def live_key_def Let_def)
  qed simp
  with assms(7) show ?thesis by (cases res) (auto simp: wp_def)
qed

theorem HandlePosition_retry_absorbed_witness:
  "\<exists>w1 w2 e. HandlePosition no_postgres sample_pipeline \<lparr>ip_Position = sample_report_ok, ip_PayloadKey = ''k''\<rparr> empty_world = (w1, Inl e)
    \<and> HandlePosition still sample_pipeline \<lparr>ip_Position = sample_report_ok, ip_PayloadKey = ''k''\<rparr> w1 = (w2, Inr ())
    \<and> w_db w2 = w_db w1 \<and> w_kafka w2 = w_kafka w1"
proof -
  let ?in = "\<lparr>ip_Position = sample_report_ok, ip_PayloadKey = ''k''\<rparr>"
  obtain w1 e t where first: "HandlePosition no_postgres sample_pipeline ?in empty_world = (w1, Inl e)"
    and key: "w_dedup w1 (dedup_key (po_MMSI sample_report_ok) (derefInt32 (po_AISMessageType sample_report_ok)) ''k'') = Some t" "0 < t"
    using failed_run [OF sample_failed] by (auto simp: map_option_case split: option.splits)
  obtain w2 res where again: "HandlePosition still sample_pipeline ?in w1 = (w2, res)" by fastforce
  have "\<forall>n. x_now still n < t" "\<forall>n. x_redis still n" using key(2) by (simp_all add: still_def calm_def)
  with HandlePosition_retry_absorbed [OF sample_static(1) _ first key(1) _ _ again] first again show ?thesis by auto
qed

text \<open>C32. The fence evaluator behind the pipeline: one report either fails before the engine moves and
  then stores and publishes nothing, or the engine takes the report and its transitions are announced and
  then stored in order, one signed event and one row with the same identifier each; a failure on the way
  leaves a prefix stored, with at most one more announced.\<close>

theorem ObservePosition_announces_in_order:
  assumes "mmsiPattern (po_MMSI p)" "ObservePosition X (PublishSignedEnvelope X P) p w = (w', res)"
  shows "(\<exists>e. res = Inl e \<and> w_engine w' = w_engine w \<and> w_db w' = w_db w \<and> w_kafka w' = w_kafka w)
    \<or> (\<exists>fs meta t n rows ms. w_fenceset w' = Some (fs, meta, t)
        \<and> w_engine w' = fst (fold_position p fs (w_engine w))
        \<and> w_db w' = (w_db w)\<lparr>db_fence_events := db_fence_events (w_db w) @ rows\<rparr> \<and> w_kafka w' = w_kafka w @ ms
        \<and> map (\<lambda>r. (fe_GeofenceID r, fe_GeofenceVersion r, fe_EventType r)) rows
           = map (\<lambda>ev. (ev_GeofenceID ev, ev_Version ev, event_type_text (ev_Type ev)))
               (take n (snd (fold_position p fs (w_engine w))))
        \<and> (\<exists>extra. map correlation ms = map fe_EventID rows @ extra \<and> length extra \<le> 1
             \<and> (res = Inr () \<longrightarrow> extra = [] \<and> n = length (snd (fold_position p fs (w_engine w))))))"
proof (cases res)
  case (Inl e)
  from wp_Inl [OF geo_publisher.ObservePosition_wp [OF assms(1)] assms(2) [unfolded Inl]]
  consider "quiet w w'" | "observed p w w' False" by blast
  then show ?thesis
  proof cases
    case 1
    then show ?thesis using Inl by (simp add: quiet_simps)
  next
    case 2
    from observed_explicit [OF this] show ?thesis unfolding Inl by (intro disjI2) simp
  qed
next
  case (Inr u)
  from wp_Inr [OF geo_publisher.ObservePosition_wp [OF assms(1)] assms(2) [unfolded Inr]]
  have "observed p w w' True" by simp
  from observed_explicit [OF this] show ?thesis unfolding Inr by (intro disjI2) simp
qed

theorem ObservePosition_announces_in_order_witness:
  "\<exists>w' e fs rows ms. ObservePosition no_kafka (PublishSignedEnvelope no_kafka sample_pipeline) sample_report_ok fence_world = (w', Inl e)
    \<and> w_engine w' = fst (fold_position sample_report_ok fs (w_engine fence_world))
    \<and> w_db w' = (w_db fence_world)\<lparr>db_fence_events := db_fence_events (w_db fence_world) @ rows\<rparr>
    \<and> w_kafka w' = w_kafka fence_world @ ms
    \<and> (\<exists>extra. map correlation ms = map fe_EventID rows @ extra \<and> length extra \<le> 1)"
proof -
  obtain w' e where run: "ObservePosition no_kafka (PublishSignedEnvelope no_kafka sample_pipeline) sample_report_ok fence_world = (w', Inl e)"
    and last: "en_last (w_engine w') ''657123456'' = Some 100"
    using failed_run [OF sample_unannounced] by blast
  have "w_engine w' \<noteq> w_engine fence_world"
    using last by (auto simp: fence_world_def empty_world_def NewEngine_def)
  with ObservePosition_announces_in_order [OF sample_static(4) run] show ?thesis
    by (elim disjE exE conjE) (simp, intro exI conjI, rule run, assumption+)
qed

text \<open>A transition whose announcement or row failed is lost: when the evaluator fails after the
  engine has moved, sending the same report again while the fence set is cached announces and stores
  nothing, whatever publisher is used.\<close>

theorem ObservePosition_lost_transition:
  assumes "mmsiPattern (po_MMSI p)" "ObservePosition X (PublishSignedEnvelope X P) p w = (w1, Inl e)" "w_engine w1 \<noteq> w_engine w"
    and "w_fenceset w1 = Some (fs, meta, t)" "distinct (map GeofenceID fs)"
    and "\<forall>n. time_sub (x_now Y n) t < ReloadInterval"
  shows "ObservePosition Y pub' p w1 = (w1\<lparr>w_tick := Suc (w_tick w1)\<rparr>, Inr ())"
  by (rule geo_publisher.observe_lost [OF assms])

theorem ObservePosition_lost_transition_witness:
  "\<exists>w1 e. ObservePosition no_kafka (PublishSignedEnvelope no_kafka sample_pipeline) sample_report_ok fence_world = (w1, Inl e)
    \<and> ObservePosition still (PublishSignedEnvelope still sample_pipeline) sample_report_ok w1
        = (w1\<lparr>w_tick := Suc (w_tick w1)\<rparr>, Inr ())"
proof -
  obtain w1 e where run: "ObservePosition no_kafka (PublishSignedEnvelope no_kafka sample_pipeline) sample_report_ok fence_world = (w1, Inl e)"
    and last: "en_last (w_engine w1) ''657123456'' = Some 100"
    and cache: "case w_fenceset w1 of Some (fs, meta, t) \<Rightarrow> distinct (map GeofenceID fs) \<and> 0 \<le> t | None \<Rightarrow> False"
    using failed_run [OF sample_unannounced] by blast
  obtain fs meta t where set: "w_fenceset w1 = Some (fs, meta, t)" "distinct (map GeofenceID fs)" "0 \<le> t"
    using cache by (cases "w_fenceset w1") auto
  have moved: "w_engine w1 \<noteq> w_engine fence_world"
    using last by (auto simp: fence_world_def empty_world_def NewEngine_def)
  have "\<forall>n. time_sub (x_now still n) t < ReloadInterval"
    using set(3) by (simp add: still_def calm_def time_sub_def ReloadInterval_def second_def)
  from ObservePosition_lost_transition [OF sample_static(4) run moved set(1,2) this] run show ?thesis by blast
qed

end
