(* ===== verification/Http.thy ===== *)
theory Http
  imports Auth Pipeline
begin

text \<open>
  What the REST handlers share (\<open>internal/api/server.go\<close>, \<open>internal/connectors/appreports.go\<close>): responses,
  the principal and tenant guards and query parameters, and the reads behind the vessel pages
  (\<open>internal/store/queries.go\<close>, \<open>internal/store/fences.go\<close>).

  A handler is an action of the world that always returns a response; it never raises.
\<close>

section \<open>Read models\<close>

record VesselSummary =
  vm_MMSI :: string
  vm_VesselRef :: string
  vm_SourceClass :: string
  vm_LatitudeMicros :: int
  vm_LongitudeMicros :: int
  vm_SpeedOverGroundMilliknots :: "int option"
  vm_CourseOverGroundMillidegrees :: "int option"
  vm_Classification :: string
  vm_ObservedAt :: int
  vm_ShipName :: string
  vm_ShipTypeCode :: "int option"

record Vessel360 =
  v3_Latest :: "VesselSummary option"
  v3_Static :: "StaticReport option"
  v3_RecentZones :: "GeofenceEvent list"

record TrackPointRow =
  tk_LatitudeMicros :: int
  tk_LongitudeMicros :: int
  tk_SogMilliknots :: int
  tk_ObservedAt :: int

text \<open>\<open>LEFT JOIN vessels_static \<dots> valid_to IS NULL\<close>.\<close>

definition open_static :: "db \<Rightarrow> string \<Rightarrow> StaticReport option" where
  "open_static d mmsi =
     map_option sw_Report (find (\<lambda>r. sp_MMSI (sw_Report r) = mmsi \<and> sw_ValidTo r = None) (db_static d))"

definition summary_of :: "db \<Rightarrow> string \<Rightarrow> latest_row \<Rightarrow> VesselSummary" where
  "summary_of d mmsi l =
     \<lparr>vm_MMSI = mmsi, vm_VesselRef = [], vm_SourceClass = la_SourceClass l, vm_LatitudeMicros = la_LatitudeMicros l,
      vm_LongitudeMicros = la_LongitudeMicros l, vm_SpeedOverGroundMilliknots = la_SpeedOverGroundMilliknots l,
      vm_CourseOverGroundMillidegrees = la_CourseOverGroundMillidegrees l, vm_Classification = la_Classification l,
      vm_ObservedAt = la_ObservedAt l,
      vm_ShipName = (case open_static d mmsi of None \<Rightarrow> [] | Some s \<Rightarrow> sp_ShipName s),
      vm_ShipTypeCode = map_option sp_ShipTypeCode (open_static d mmsi)\<rparr>"

definition latest_summary :: "db \<Rightarrow> string \<Rightarrow> string list \<Rightarrow> VesselSummary option" where
  "latest_summary d mmsi labels =
     (case db_latest d (ByMMSI mmsi) of
        None \<Rightarrow> None
      | Some l \<Rightarrow> if la_Classification l \<in> set labels then Some (summary_of d mmsi l) else None)"

definition current_static_row :: "db \<Rightarrow> string \<Rightarrow> string list \<Rightarrow> StaticReport option" where
  "current_static_row d mmsi labels =
     (case sort_key (\<lambda>r. - sw_ValidFrom r)
        (filter (\<lambda>r. sp_MMSI (sw_Report r) = mmsi \<and> sw_ValidTo r = None
            \<and> sp_Classification (sw_Report r) \<in> set labels) (db_static d)) of
        [] \<Rightarrow> None | r # _ \<Rightarrow> Some (sw_Report r))"

definition recent_zones :: "db \<Rightarrow> string \<Rightarrow> string \<Rightarrow> string list \<Rightarrow> GeofenceEvent list" where
  "recent_zones d tenantID mmsi labels =
     take 20 (sort_key (\<lambda>e. - gv_OccurredAt e)
       (filter (\<lambda>e. gv_TenantID e = tenantID \<and> gv_MMSI e = mmsi \<and> gv_Classification e \<in> set labels)
          (db_zone_events d)))"

definition GetVessel360 :: "externals \<Rightarrow> string \<Rightarrow> string \<Rightarrow> string list \<Rightarrow> Vessel360 option geo" where
  "GetVessel360 X mmsi tenantID labels =
     bindA (sql_query X ''vessel-360 latest'' (\<lambda>d. latest_summary d mmsi labels)) (\<lambda>latest.
     bindA (sql_query X ''vessel-360 static'' (\<lambda>d. current_static_row d mmsi labels)) (\<lambda>static.
     bindA (if tenantID = [] then ret []
            else WithTenant X tenantID (sql_query X ''vessel-360 zones'' (\<lambda>d. recent_zones d tenantID mmsi labels))) (\<lambda>zones.
     ret (if latest = None \<and> static = None then None
          else Some \<lparr>v3_Latest = latest, v3_Static = static, v3_RecentZones = zones\<rparr>))))"

definition track_rows :: "db \<Rightarrow> string \<Rightarrow> int \<Rightarrow> int \<Rightarrow> string list \<Rightarrow> position_row list" where
  "track_rows d mmsi t1 t2 labels =
     sort_key (\<lambda>r. po_ObservedAt (ro_Position r))
       (filter (\<lambda>r. po_MMSI (ro_Position r) = mmsi \<and> t1 \<le> po_ObservedAt (ro_Position r)
            \<and> po_ObservedAt (ro_Position r) \<le> t2 \<and> po_Classification (ro_Position r) \<in> set labels) (db_positions d))"

text \<open>The line is the PostGIS aggregate \<open>ST_AsGeoJSON(ST_MakeLine(\<dots>))\<close>: the argument \<open>line\<close>, of the
  geographies in time order.\<close>

definition GetTrack ::
  "externals \<Rightarrow> (string list \<Rightarrow> string) \<Rightarrow> string \<Rightarrow> int \<Rightarrow> int \<Rightarrow> string list \<Rightarrow> (string \<times> nat) geo" where
  "GetTrack X line mmsi t1 t2 labels =
     (if \<not> t1 < t2 then raise (ErrText ''track from must be before to'')
      else wrapA (ErrWrap ''track query'') (sql_query X ''track'' (\<lambda>d.
        let rows = track_rows d mmsi t1 t2 labels
        in (if rows = [] then [] else line (map ro_Geom rows), length rows))))"

definition track_point :: "position_row \<Rightarrow> TrackPointRow" where
  "track_point r =
     \<lparr>tk_LatitudeMicros = po_LatitudeMicros (ro_Position r), tk_LongitudeMicros = po_LongitudeMicros (ro_Position r),
      tk_SogMilliknots = (case po_SpeedOverGroundMilliknots (ro_Position r) of None \<Rightarrow> - 1 | Some s \<Rightarrow> s),
      tk_ObservedAt = po_ObservedAt (ro_Position r)\<rparr>"

definition QueryTrack ::
  "externals \<Rightarrow> string \<Rightarrow> int \<Rightarrow> int \<Rightarrow> string list \<Rightarrow> nat \<Rightarrow> TrackPointRow list geo" where
  "QueryTrack X mmsi t1 t2 labels limit =
     wrapA (ErrWrap ''query track'') (sql_query X ''track points'' (\<lambda>d.
       map track_point (take limit (track_rows d mmsi t1 t2 labels))))"

definition LatestPosition :: "externals \<Rightarrow> string \<Rightarrow> string list \<Rightarrow> TrackPointRow geo" where
  "LatestPosition X mmsi labels =
     bindA (sql_query X ''latest position'' (\<lambda>d.
       sort_key (\<lambda>r. - po_ObservedAt (ro_Position r))
         (filter (\<lambda>r. po_MMSI (ro_Position r) = mmsi \<and> po_Classification (ro_Position r) \<in> set labels)
            (db_positions d)))) (\<lambda>rows.
     case rows of [] \<Rightarrow> raise ErrNoRows | r # _ \<Rightarrow> ret (track_point r))"

section \<open>Responses\<close>

datatype body =
    Fields "(string \<times> string) list"
  | BView Vessel360
  | BGeoJSON string
  | BZones "Zone list"
  | BAlerts "SOSRow list"
  | BAlert SOSRow

record response =
  rs_status :: nat
  rs_body :: body

definition writeError :: "nat \<Rightarrow> string \<Rightarrow> response" where
  "writeError status message = \<lparr>rs_status = status, rs_body = Fields [(''error'', message)]\<rparr>"

definition writeJSON :: "nat \<Rightarrow> body \<Rightarrow> response" where
  "writeJSON status b = \<lparr>rs_status = status, rs_body = b\<rparr>"

definition refuse :: "refusal \<Rightarrow> response" where
  "refuse r = (case r of Unauthenticated \<Rightarrow> writeError 401 ''unauthenticated'' | Forbidden \<Rightarrow> writeError 403 ''forbidden'')"

section \<open>Guards and parameters\<close>

definition principalOrFail :: "Principal option \<Rightarrow> (Principal \<Rightarrow> response geo) \<Rightarrow> response geo" where
  "principalOrFail ctx k =
     (case PrincipalFrom ctx of None \<Rightarrow> ret (writeError 403 ''principal unavailable'') | Some p \<Rightarrow> k p)"

definition tenantOrFail :: "Principal \<Rightarrow> (string \<Rightarrow> response geo) \<Rightarrow> response geo" where
  "tenantOrFail p k =
     (if trim_space (pn_TenantID p) = [] then ret (writeError 403 ''principal has no tenant binding'')
      else k (pn_TenantID p))"

definition parseMicrosParam :: "string \<Rightarrow> geo_error + int" where
  "parseMicrosParam value =
     (let raw = trim_space value in
      if raw = [] then Inl (ErrText ''query parameter is required'')
      else case atoi raw of
        Some v \<Rightarrow> if in_int32 v then Inr v else Inl (ErrText ''query parameter must be fixed-point micro-degrees'')
      | None \<Rightarrow> Inl (ErrText ''query parameter must be fixed-point micro-degrees''))"

definition parseLimit :: "string \<Rightarrow> int \<Rightarrow> int \<Rightarrow> int" where
  "parseLimit value fallback maximum =
     (let raw = trim_space value in
      if raw = [] then fallback
      else case atoi raw of
        None \<Rightarrow> fallback
      | Some v \<Rightarrow> if v \<le> 0 then fallback else if v > maximum then maximum else v)"
end
