(* ===== verification/App_Reports.thy ===== *)
theory App_Reports
  imports Http
begin

text \<open>
  The mobile outbox endpoint (\<open>internal/connectors/appreports.go\<close>): validation of a flushed report, its
  insertion under the outbox key, its projection onto the ingest pipeline, and distress alerts.

  The decoded body is the argument of the handler: what \<open>io.ReadAll\<close> and \<open>json.Unmarshal\<close> give, and the
  time \<open>time.Parse\<close> reads from \<open>recordedAt\<close>.
\<close>

section \<open>Requests\<close>

record appReportRequest =
  aq_ReporterID :: string
  aq_VesselReference :: string
  aq_LatitudeMicros :: int
  aq_LongitudeMicros :: int
  aq_AccuracyM :: int
  aq_SpeedMillimetresPerSecond :: "int option"
  aq_RecordedAt :: string
  aq_OutboxID :: string
  aq_SOS :: "string option"

datatype flush = Unreadable | NotJSON | Decoded appReportRequest

definition validateAppReport :: "appReportRequest \<Rightarrow> string option" where
  "validateAppReport r =
     (if trim_space (aq_ReporterID r) = [] \<or> length (aq_ReporterID r) > 128
      then Some ''reporterId is required (max 128 chars)''
      else if trim_space (aq_VesselReference r) = [] \<or> length (aq_VesselReference r) > 128
      then Some ''vesselReference is required (max 128 chars)''
      else if trim_space (aq_OutboxID r) = [] \<or> length (aq_OutboxID r) > 128
      then Some ''outboxId is required (max 128 chars)''
      else if aq_LatitudeMicros r > 90000000 \<or> aq_LatitudeMicros r < - 90000000
      then Some ''latitudeMicros outside 90 degrees''
      else if aq_LongitudeMicros r > 180000000 \<or> aq_LongitudeMicros r < - 180000000
      then Some ''longitudeMicros outside 180 degrees''
      else if aq_LatitudeMicros r = 0 \<and> aq_LongitudeMicros r = 0
      then Some ''(0,0) null-island position is rejected''
      else if trim_space (aq_RecordedAt r) = [] then Some ''recordedAt is required''
      else None)"

definition speedMMSToMilliknots :: "int option \<Rightarrow> int option" where
  "speedMMSToMilliknots mms =
     (case mms of
        None \<Rightarrow> None
      | Some v \<Rightarrow> Some (wrap_uint32 (wrap_uint64 (wrap_uint64 (v * 19438445) + 5000000) div 10000000)))"

section \<open>The handler\<close>

definition app_report :: "appReportRequest \<Rightarrow> string \<Rightarrow> int \<Rightarrow> AppReport" where
  "app_report r reportID recordedAt =
     \<lparr>ar_PositionReportID = reportID, ar_ReporterID = aq_ReporterID r, ar_VesselReference = aq_VesselReference r,
      ar_LatitudeMicros = aq_LatitudeMicros r, ar_LongitudeMicros = aq_LongitudeMicros r, ar_AccuracyM = aq_AccuracyM r,
      ar_SpeedMillimetresPerSecond = aq_SpeedMillimetresPerSecond r, ar_RecordedAt = recordedAt,
      ar_OutboxID = aq_OutboxID r, ar_Classification = ClassificationPublic\<rparr>"

definition app_position :: "appReportRequest \<Rightarrow> string \<Rightarrow> int \<Rightarrow> Position" where
  "app_position r reportID recordedAt =
     \<lparr>po_PositionReportID = reportID, po_MMSI = [], po_VesselRef = aq_VesselReference r,
      po_SourceClass = APP_REPORT, po_LatitudeMicros = aq_LatitudeMicros r,
      po_LongitudeMicros = aq_LongitudeMicros r,
      po_SpeedOverGroundMilliknots = speedMMSToMilliknots (aq_SpeedMillimetresPerSecond r),
      po_CourseOverGroundMillidegrees = None, po_HeadingMillidegrees = None, po_NavStatus = None,
      po_PositionAccuracy = ''UNSPECIFIED'', po_ReceiverID = [], po_AISMessageType = None, po_IMO = [],
      po_Callsign = [], po_ShipName = [], po_Classification = ClassificationPublic, po_ObservedAt = recordedAt\<rparr>"

definition app_event :: "appReportRequest \<Rightarrow> string \<Rightarrow> int \<Rightarrow> AppPositionReported" where
  "app_event r reportID recordedAt =
     \<lparr>ap_PositionReportID = reportID, ap_ReporterID = aq_ReporterID r, ap_VesselReference = aq_VesselReference r,
      ap_LatitudeMicros = aq_LatitudeMicros r, ap_LongitudeMicros = aq_LongitudeMicros r, ap_AccuracyM = aq_AccuracyM r,
      ap_SpeedMillimetresPerSecond = aq_SpeedMillimetresPerSecond r, ap_RecordedAt = recordedAt,
      ap_OutboxID = aq_OutboxID r, ap_Classification = ClassificationPublic\<rparr>"

definition sos_alert :: "appReportRequest \<Rightarrow> string \<Rightarrow> string \<Rightarrow> int \<Rightarrow> SOSAlert" where
  "sos_alert r freeText alertID recordedAt =
     \<lparr>so_SosAlertID = alertID, so_ReporterID = aq_ReporterID r, so_VesselReference = aq_VesselReference r,
      so_LatitudeMicros = aq_LatitudeMicros r, so_LongitudeMicros = aq_LongitudeMicros r, so_RecordedAt = recordedAt,
      so_OutboxID = aq_OutboxID r, so_FreeText = freeText, so_Classification = ClassificationRestricted\<rparr>"

definition sos_event :: "appReportRequest \<Rightarrow> string \<Rightarrow> string \<Rightarrow> int \<Rightarrow> SosAlertRaised" where
  "sos_event r freeText alertID recordedAt =
     \<lparr>sr_SosAlertID = alertID, sr_ReporterID = aq_ReporterID r, sr_VesselReference = aq_VesselReference r,
      sr_LatitudeMicros = aq_LatitudeMicros r, sr_LongitudeMicros = aq_LongitudeMicros r, sr_RecordedAt = recordedAt,
      sr_OutboxID = aq_OutboxID r, sr_FreeText = freeText, sr_Classification = ClassificationRestricted\<rparr>"

definition answer :: "string \<Rightarrow> string \<Rightarrow> string \<Rightarrow> response" where
  "answer status name ident = writeJSON 200 (Fields [(''status'', status), (name, ident)])"

text \<open>The answer to a failed insert.\<close>

definition insert_failed :: "string \<Rightarrow> geo_error \<Rightarrow> response" where
  "insert_failed message e =
     (if e = ErrDuplicateOutbox then writeError 409 ''outbox_id already used with a different payload''
      else writeError 500 message)"

definition serveSOS :: "externals \<Rightarrow> Pipeline \<Rightarrow> appReportRequest \<Rightarrow> string \<Rightarrow> int \<Rightarrow> int \<Rightarrow> response geo" where
  "serveSOS X P r freeText recordedAt receivedAt =
     (if freeText \<noteq> [] \<and> length freeText > 280 then ret (writeError 400 ''sos freeText exceeds 280 characters'')
      else bindA (fresh_uuid X) (\<lambda>u.
        let alertID = ''sos-'' @ u in
        bindA (attempt (InsertSOSAlert X (sos_alert r freeText alertID recordedAt))) (\<lambda>inserted.
        case inserted of
          Inl e \<Rightarrow> ret (insert_failed ''sos persistence failed'' e)
        | Inr False \<Rightarrow> ret (answer ''idempotent'' ''sosAlertId'' alertID)
        | Inr True \<Rightarrow>
            bindA (attempt (PublishSignedEnvelope X P EventSOS alertID
                (PSosRaised (sos_event r freeText alertID recordedAt)) receivedAt ClassificationRestricted
                [''priority'' \<mapsto> ''SAFETY''])) (\<lambda>published.
            case published of
              Inl e \<Rightarrow> ret (writeError 500 ''sos publication failed'')
            | Inr _ \<Rightarrow> seqA (count ''geo_sos_alerts_total'' []) (ret (answer ''accepted'' ''sosAlertId'' alertID))))))"

definition flush_report :: "externals \<Rightarrow> Pipeline \<Rightarrow> appReportRequest \<Rightarrow> int \<Rightarrow> int \<Rightarrow> response geo" where
  "flush_report X P r recordedAt receivedAt =
     bindA (fresh_uuid X) (\<lambda>u.
     let reportID = ''apr-'' @ u in
     bindA (attempt (InsertAppReport X (app_report r reportID recordedAt))) (\<lambda>inserted.
     case inserted of
       Inl e \<Rightarrow> ret (insert_failed ''app report persistence failed'' e)
     | Inr False \<Rightarrow> ret (answer ''idempotent'' ''positionReportId'' reportID)
     | Inr True \<Rightarrow>
         bindA (attempt (HandlePosition X P \<lparr>ip_Position = app_position r reportID recordedAt, ip_PayloadKey = []\<rparr>)) (\<lambda>handled.
         case handled of
           Inl e \<Rightarrow> ret (writeError 500 ''app report pipeline failed'')
         | Inr _ \<Rightarrow>
             bindA (attempt (PublishSignedEnvelope X P EventAppPositionReport reportID
                 (PAppPosition (app_event r reportID recordedAt)) receivedAt ClassificationPublic Map.empty)) (\<lambda>published.
             case published of
               Inl e \<Rightarrow> ret (writeError 500 ''app report publication failed'')
             | Inr _ \<Rightarrow> ret (answer ''accepted'' ''positionReportId'' reportID)))))"

definition serve :: "externals \<Rightarrow> Pipeline option \<Rightarrow> (string \<Rightarrow> int option) \<Rightarrow> flush \<Rightarrow> response geo" where
  "serve X pipeline rfc3339 fl =
     (case pipeline of
        None \<Rightarrow> ret (writeError 503 ''pipeline unavailable'')
      | Some P \<Rightarrow>
          (case fl of
             Unreadable \<Rightarrow> ret (writeError 400 ''request body unreadable'')
           | NotJSON \<Rightarrow> ret (writeError 400 ''request body is not valid JSON'')
           | Decoded r \<Rightarrow>
               (case validateAppReport r of
                  Some message \<Rightarrow> ret (writeError 400 message)
                | None \<Rightarrow>
                    (case rfc3339 (aq_RecordedAt r) of
                       None \<Rightarrow> ret (writeError 400 ''recordedAt must be RFC 3339'')
                     | Some recordedAt \<Rightarrow>
                         bindA (clock X) (\<lambda>receivedAt.
                         case aq_SOS r of
                           Some freeText \<Rightarrow> serveSOS X P r freeText recordedAt receivedAt
                         | None \<Rightarrow> flush_report X P r recordedAt receivedAt)))))"

section \<open>Facts about the handlers\<close>

lemma answer_inject [simp]:
  "answer a n i = answer a' n' i' \<longleftrightarrow> a = a' \<and> n = n' \<and> i = i'"
  "answer a n i \<noteq> writeError s m" "writeError s m \<noteq> answer a n i" "rs_status (answer a n i) = 200" "rs_status (writeError s m) = s"
  by (auto simp: answer_def writeJSON_def writeError_def)

lemma insert_failed_simps [simp]:
  "rs_status (insert_failed m e) \<in> {409, 500}" "insert_failed m e \<noteq> answer a n i"
  by (auto simp: insert_failed_def writeError_def answer_def writeJSON_def)

lemma insert_kafka:
  "keeps (\<lambda>w. w_kafka w = K) (InsertAppReport X r)" "keeps (\<lambda>w. w_kafka w = K) (InsertSOSAlert X a)"
  unfolding InsertAppReport_def InsertSOSAlert_def outbox_insert_def Let_def clock_def
  by (intro keeps_rules keeps_sql keeps_sql_query keeps_asks; simp)+

text \<open>How a distress request ends.\<close>

definition sos_served :: "appReportRequest \<Rightarrow> string \<Rightarrow> int \<Rightarrow> world \<Rightarrow> response \<Rightarrow> world \<Rightarrow> bool" where
  "sos_served r freeText recordedAt w resp w' \<longleftrightarrow>
     (\<exists>ident now m. resp = answer ''accepted'' ''sosAlertId'' ident
        \<and> db_sos (w_db w') = db_sos (w_db w) @ [new_sos_row (sos_alert r freeText ident recordedAt) now]
        \<and> w_kafka w' = w_kafka w @ [m] \<and> envelope_message EventSOS ident m)
   \<or> (w_kafka w' = w_kafka w \<and> (\<forall>ident. resp \<noteq> answer ''accepted'' ''sosAlertId'' ident)
        \<and> (w_db w' = w_db w \<or> (rs_status resp = 500
             \<and> (\<exists>ident now. db_sos (w_db w') = db_sos (w_db w) @ [new_sos_row (sos_alert r freeText ident recordedAt) now]))))"

lemma sos_served_metrics [simp]: "sos_served r t rec w resp (w'\<lparr>w_metrics := ms\<rparr>) = sos_served r t rec w resp w'"
  by (simp add: sos_served_def)

lemma serveSOS_wp: "wp (serveSOS X P r t rec recv) (sos_served r t rec w) (\<lambda>_ _. False) w"
proof -
  have inserted: "wp (InsertSOSAlert X a)
      (\<lambda>b w'. w_kafka w' = w_kafka w \<and> (if b then \<exists>now. db_sos (w_db w') = db_sos (w_db w) @ [new_sos_row a now] else w_db w' = w_db w))
      (\<lambda>e w'. w_kafka w' = w_kafka w \<and> w_db w' = w_db w) (w\<lparr>w_tick := n\<rparr>)" for a n
    by (rule wp_mono [OF wp_keeps [OF InsertSOSAlert_wp insert_kafka(2) [of "w_kafka w"]]]) (auto simp: sos_inserted_def split: if_splits)
  have published: "wp (PublishSignedEnvelope X P EventSOS i pl recv c h)
      (\<lambda>_. sos_served r t rec w (answer ''accepted'' ''sosAlertId'' i))
      (\<lambda>_. sos_served r t rec w (writeError 500 ''sos publication failed'')) v"
    if "w_kafka v = w_kafka w" "db_sos (w_db v) = db_sos (w_db w) @ [new_sos_row (sos_alert r t i rec) now]" for i pl c h v now
    by (rule wp_mono [OF PublishSignedEnvelope_wp])
      (use that in \<open>auto simp: sos_served_def same_but_kafka_def\<close>)
  have no: "sos_served r t rec w resp v" if "w_kafka v = w_kafka w" "w_db v = w_db w"
    "\<And>ident. resp \<noteq> answer ''accepted'' ''sosAlertId'' ident" for resp v
    using that by (simp add: sos_served_def)
  show ?thesis
    unfolding serveSOS_def Let_def wp_if wp_bind [of "fresh_uuid X"] wp_uuid wp_ret
  proof (split if_split, intro conjI impI, goal_cases)
    case 1
    show ?case by (rule no) simp_all
  next
    case 2
    show ?case
      unfolding wp_bind [of "attempt (InsertSOSAlert X _)"] wp_attempt
    proof (rule wp_mono [OF inserted], goal_cases)
      case (1 b v)
      show ?case
      proof (cases b)
        case True
        then have b: "b = True" by simp
        with 1 obtain now where v: "w_kafka v = w_kafka w"
          "db_sos (w_db v) = db_sos (w_db w) @ [new_sos_row (sos_alert r t (''sos-'' @ x_uuid X (w_tick w)) rec) now]" by auto
        show ?thesis
          unfolding b sum.case bool.case wp_bind [of "attempt _"] wp_attempt
          by (rule wp_mono [OF published [OF v]]) (simp_all add: wp_simps)
      next
        case False
        with 1 show ?thesis by (auto simp: wp_ret intro!: no)
      qed
    next
      case (2 e v)
      then show ?case by (auto simp: wp_ret intro!: no)
    qed
  qed
qed

text \<open>How a position report ends: as the pipeline left it, or with one more message.\<close>

definition flushed :: "externals \<Rightarrow> appReportRequest \<Rightarrow> int \<Rightarrow> world \<Rightarrow> response \<Rightarrow> world \<Rightarrow> bool" where
  "flushed X r recordedAt w resp w' \<longleftrightarrow>
     (\<exists>ident ms m. resp = answer ''accepted'' ''positionReportId'' ident
        \<and> w_kafka w' = w_kafka w @ ms @ [m] \<and> envelope_message EventAppPositionReport ident m
        \<and> (let p = app_position r ident recordedAt in
             (position_row_of p \<in> set (db_positions (w_db w'))
                \<and> (\<exists>m\<in>set ms. envelope_message EventVesselPosition ident m))
             \<or> (\<exists>f. list_all2 (quarantine_message p) f ms \<and> f \<noteq> []
                  \<and> (f = StaticChecks (validation_report p)
                     \<or> map Some f = [snd (CheckConsecutive (w_tracker w) (validation_report p))]))))
   \<or> (\<exists>ident. resp = answer ''idempotent'' ''positionReportId'' ident \<and> w_db w' = w_db w \<and> w_kafka w' = w_kafka w)
   \<or> rs_status resp \<in> {409, 500}"

lemma InsertAppReport_frame:
  "wp (InsertAppReport X a) (\<lambda>b w'. w_kafka w' = w_kafka w \<and> w_tracker w' = w_tracker w \<and> (\<not> b \<longrightarrow> w_db w' = w_db w))
     (\<lambda>e w'. w_kafka w' = w_kafka w \<and> w_tracker w' = w_tracker w \<and> w_db w' = w_db w) w"
proof -
  have k: "keeps (\<lambda>v. w_kafka v = w_kafka w \<and> w_tracker v = w_tracker w) (InsertAppReport X a)"
    unfolding InsertAppReport_def outbox_insert_def Let_def
    by (intro keeps_rules keeps_sql keeps_sql_query) simp_all
  have "wp (InsertAppReport X a) (\<lambda>b w'. \<not> b \<longrightarrow> w_db w' = w_db w) (\<lambda>e w'. w_db w' = w_db w) w"
    using InsertAppReport_run [of X a w]
    by (auto simp: wp_def split: prod.split sum.split)
  from wp_keeps [OF this k] show ?thesis by (auto intro: wp_mono)
qed

lemma handled_app:
  assumes "handled_ok X w1 [] p w2" "po_PositionReportID p = ident" "w_kafka w1 = w_kafka w" "w_tracker w1 = w_tracker w"
  shows "\<exists>ms. w_kafka w2 = w_kafka w @ ms \<and>
      ((position_row_of p \<in> set (db_positions (w_db w2)) \<and> (\<exists>m\<in>set ms. envelope_message EventVesselPosition ident m))
       \<or> (\<exists>f. list_all2 (quarantine_message p) f ms \<and> f \<noteq> []
            \<and> (f = StaticChecks (validation_report p)
               \<or> map Some f = [snd (CheckConsecutive (w_tracker w) (validation_report p))])))"
  using assms unfolding handled_ok_def by (elim exE conjE disjE) (auto intro!: exI)

lemma flush_report_wp: "wp (flush_report X P r rec recv) (flushed X r rec w) (\<lambda>_ _. False) w"
proof -
  have published: "wp (PublishSignedEnvelope X P EventAppPositionReport i pl recv c h)
      (\<lambda>_. flushed X r rec w (answer ''accepted'' ''positionReportId'' i))
      (\<lambda>_. flushed X r rec w (writeError 500 ''app report publication failed'')) w2"
    if "handled_ok X w1 [] (app_position r i rec) w2" "w_kafka w1 = w_kafka w" "w_tracker w1 = w_tracker w" for i pl c h w1 w2
  proof (rule wp_mono [OF PublishSignedEnvelope_wp], goal_cases)
    case (1 u w')
    from handled_app [OF that(1) _ that(2,3), of i] 1 show ?case
      unfolding flushed_def Let_def same_but_kafka_def by (fastforce simp: app_position_def)
  qed (simp add: flushed_def)
  have handled: "wp (attempt (HandlePosition X P \<lparr>ip_Position = app_position r i rec, ip_PayloadKey = []\<rparr>))
      (\<lambda>h. wp (case h of
           Inl e \<Rightarrow> ret (writeError 500 ''app report pipeline failed'')
         | Inr _ \<Rightarrow>
             bindA (attempt (PublishSignedEnvelope X P EventAppPositionReport i pl recv c hs)) (\<lambda>published.
             case published of
               Inl e \<Rightarrow> ret (writeError 500 ''app report publication failed'')
             | Inr _ \<Rightarrow> ret (answer ''accepted'' ''positionReportId'' i))) (flushed X r rec w) (\<lambda>_ _. False)) (\<lambda>_ _. False) w1"
    if "w_kafka w1 = w_kafka w" "w_tracker w1 = w_tracker w" "i \<noteq> []" for i pl c hs w1
    unfolding wp_attempt
  proof (rule wp_mono [OF HandlePosition_wp], goal_cases)
    case (1 u w2)
    then have "handled_ok X w1 [] (app_position r i rec) w2" using that(3) by (auto simp: app_position_def)
    then show ?case
      unfolding sum.case wp_bind [of "attempt _"] wp_attempt
      by (intro wp_mono [OF published [OF _ that(1,2)]]) (simp_all add: wp_ret)
  qed (simp add: wp_ret flushed_def)
  show ?thesis
    unfolding flush_report_def Let_def wp_bind [of "fresh_uuid X"] wp_uuid wp_bind [of "attempt (InsertAppReport X _)"] wp_attempt
  proof (rule wp_mono [OF InsertAppReport_frame], goal_cases)
    case (1 b w1)
    show ?case
    proof (cases b)
      case True
      then have b: "b = True" by simp
      show ?thesis unfolding b sum.case bool.case wp_bind [of "attempt (HandlePosition X P _)"]
        by (rule handled) (use 1 in simp_all)
    next
      case False
      with 1 show ?thesis by (simp add: wp_ret flushed_def)
    qed
  next
    case (2 e w1)
    show ?case using insert_failed_simps(1) [of "''app report persistence failed''" e] by (auto simp: wp_ret flushed_def)
  qed
qed

text \<open>Either way a decoded request is answered.\<close>

lemma serve_decoded:
  assumes "serve X (Some P) rfc3339 (Decoded r) w = (w', Inr resp)" "rs_status resp \<noteq> 400"
  shows "\<exists>recordedAt receivedAt n. rfc3339 (aq_RecordedAt r) = Some recordedAt \<and> validateAppReport r = None
    \<and> (case aq_SOS r of
         Some freeText \<Rightarrow> serveSOS X P r freeText recordedAt receivedAt (w\<lparr>w_tick := n\<rparr>) = (w', Inr resp)
       | None \<Rightarrow> flush_report X P r recordedAt receivedAt (w\<lparr>w_tick := n\<rparr>) = (w', Inr resp))"
  using assms
  by (auto simp: serve_def ret_def clock_def asks_def bindA_def split: option.splits)

lemma serve_SOS:
  assumes "validateAppReport r = None" "rfc3339 (aq_RecordedAt r) = Some t" "aq_SOS r = Some freeText"
  shows "serve X (Some P) rfc3339 (Decoded r) w =
    serveSOS X P r freeText t (x_now X (w_tick w)) (w\<lparr>w_tick := Suc (w_tick w)\<rparr>)"
  using assms by (simp add: serve_def clock_def asks_def bindA_def)

lemma serve_flush:
  assumes "validateAppReport r = None" "rfc3339 (aq_RecordedAt r) = Some t" "aq_SOS r = None"
  shows "serve X (Some P) rfc3339 (Decoded r) w =
    flush_report X P r t (x_now X (w_tick w)) (w\<lparr>w_tick := Suc (w_tick w)\<rparr>)"
  using assms by (simp add: serve_def clock_def asks_def bindA_def)

lemma flush_replay_wp:
  assumes "(aq_ReporterID r, aq_OutboxID r) \<in> set (map app_key (db_app_reports (w_db w)))"
    and "\<forall>n. ''apr-'' @ x_uuid X n \<notin> set (map ar_PositionReportID (db_app_reports (w_db w)))"
  shows "wp (flush_report X P r rec recv)
     (\<lambda>resp w'. rs_status resp \<in> {409, 500} \<and> w_db w' = w_db w \<and> w_kafka w' = w_kafka w) (\<lambda>_ _. False) w"
proof -
  let ?a = "app_report r (''apr-'' @ x_uuid X (w_tick w)) rec"
  let ?w = "w\<lparr>w_tick := Suc (w_tick w)\<rparr>"
  have key: "app_key ?a = (aq_ReporterID r, aq_OutboxID r)" by (simp add: app_key_def app_report_def)
  have id: "ar_PositionReportID ?a = ''apr-'' @ x_uuid X (w_tick w)" by (simp add: app_report_def)
  have new: "ar_PositionReportID q \<noteq> ar_PositionReportID ?a" if "q \<in> set (db_app_reports (w_db w))" for q
    using that assms(2) unfolding id by (metis imageI list.set_map)
  have "wp (InsertAppReport X ?a) (\<lambda>_ _. False) (\<lambda>e w'. w_db w' = w_db w) ?w"
    unfolding wp_def
  proof (split prod.split, intro allI impI)
    fix v res
    assume run: "InsertAppReport X ?a ?w = (v, res)"
    show "case res of Inl e \<Rightarrow> w_db v = w_db w | Inr x \<Rightarrow> False"
    proof (cases res)
      case (Inr b)
      with InsertAppReport_run [OF run] assms(1) key new show ?thesis by (cases b) auto
    next
      case (Inl e)
      with InsertAppReport_run [OF run] show ?thesis by simp
    qed
  qed
  from wp_keeps [OF this insert_kafka(1) [of "w_kafka w"]]
  have ins: "wp (InsertAppReport X ?a) (\<lambda>_ _. False) (\<lambda>e w'. w_db w' = w_db w \<and> w_kafka w' = w_kafka w) ?w"
    by (simp add: wp_def split: prod.splits sum.splits)
  show ?thesis
    unfolding flush_report_def Let_def wp_bind [of "fresh_uuid X"] wp_uuid wp_bind [of "attempt (InsertAppReport X _)"] wp_attempt
    by (rule wp_mono [OF ins]) (use insert_failed_simps(1) in \<open>simp_all add: wp_ret\<close>)
qed

section \<open>Properties\<close>

definition sample_flush :: "string option \<Rightarrow> appReportRequest" where
  "sample_flush sos = \<lparr>aq_ReporterID = ''r1'', aq_VesselReference = ''canoe-7'', aq_LatitudeMicros = 3, aq_LongitudeMicros = 6,
     aq_AccuracyM = 5, aq_SpeedMillimetresPerSecond = Some 1000, aq_RecordedAt = ''t'', aq_OutboxID = ''o1'', aq_SOS = sos\<rparr>"

definition read_t :: "string \<Rightarrow> int option" where "read_t s = (if s = ''t'' then Some 100 else None)"

definition stored_world :: world where
  "stored_world = empty_world\<lparr>w_db := empty_db\<lparr>db_app_reports := [app_report (sample_flush None) ''first'' 100]\<rparr>\<rparr>"

lemma sample_parses:
  "validateAppReport (sample_flush sos) = None" "read_t (aq_RecordedAt (sample_flush sos)) = Some 100"
  "aq_SOS (sample_flush sos) = sos"
  by (simp_all add: validateAppReport_def sample_flush_def read_t_def trim_space_def trim_left_def is_space_def)

lemma sample_sos:
  "case serve calm (Some sample_pipeline) read_t (Decoded (sample_flush (Some ''engine lost''))) empty_world of
     (w', r) \<Rightarrow> (case r of Inr resp \<Rightarrow> rs_status resp = 200 \<and> w_kafka w' \<noteq> [] | Inl _ \<Rightarrow> False)"
  unfolding serve_SOS [of _ read_t, OF sample_parses] by code_simp



text \<open>A report flushed with an outbox key that is already stored is always refused: whether or not its
  first delivery got through the pipeline, the answer is 409 or 500 and nothing is stored or published,
  because the identifier the replay test compares is drawn anew for every request.\<close>

theorem replayed_report_refused:
  assumes "serve X (Some P) rfc3339 (Decoded r) w = (w', Inr resp)" "aq_SOS r = None" "rs_status resp \<noteq> 400"
    and "(aq_ReporterID r, aq_OutboxID r) \<in> set (map app_key (db_app_reports (w_db w)))"
    and "\<forall>n. ''apr-'' @ x_uuid X n \<notin> set (map ar_PositionReportID (db_app_reports (w_db w)))"
  shows "rs_status resp \<in> {409, 500} \<and> w_db w' = w_db w \<and> w_kafka w' = w_kafka w"
proof -
  from serve_decoded [OF assms(1,3)] assms(2) obtain rec recv n where
    run: "flush_report X P r rec recv (w\<lparr>w_tick := n\<rparr>) = (w', Inr resp)" by auto
  from wp_Inr [OF flush_replay_wp run] assms(4,5) show ?thesis by simp
qed

theorem replayed_report_refused_witness:
  "\<exists>w' resp. serve calm (Some sample_pipeline) read_t (Decoded (sample_flush None)) stored_world = (w', Inr resp)
     \<and> rs_status resp \<in> {409, 500} \<and> w_db w' = w_db stored_world \<and> w_kafka w' = w_kafka stored_world"
proof -
  let ?run = "serve calm (Some sample_pipeline) read_t (Decoded (sample_flush None)) stored_world"
  have taken: "(aq_ReporterID (sample_flush None), aq_OutboxID (sample_flush None)) \<in> set (map app_key (db_app_reports (w_db stored_world)))"
    by (simp add: stored_world_def app_key_def app_report_def sample_flush_def)
  have new: "\<forall>n. ''apr-'' @ x_uuid calm n \<notin> set (map ar_PositionReportID (db_app_reports (w_db stored_world)))"
    by (simp add: stored_world_def app_report_def)
  obtain w' resp where run: "?run = (w', Inr resp)" and ok: "rs_status resp \<noteq> 400"
    using flush_replay_wp [of "sample_flush None" "stored_world\<lparr>w_tick := Suc (w_tick stored_world)\<rparr>" calm sample_pipeline 100
        "x_now calm (w_tick stored_world)"] taken new
    unfolding serve_flush [of _ read_t, OF sample_parses] wp_def by (auto split: prod.splits sum.splits)
  from replayed_report_refused [OF run sample_parses(3) ok taken new] run show ?thesis by blast
qed

text \<open>Converting a device speed to milli-knots: for every speed up to 2,209,522,055 mm/s the result is the
  nearest milli-knot to \<open>mm/s * 1.9438445\<close> and no intermediate value wraps; the next speed wraps to 0.\<close>

theorem speedMMSToMilliknots_rounds:
  assumes "0 \<le> v" "v \<le> 2209522055"
  shows "(\<exists>k. speedMMSToMilliknots (Some v) = Some k \<and> 0 \<le> k \<and> k < 2 ^ 32
      \<and> 2 * \<bar>k * 10000000 - v * 19438445\<bar> \<le> 10000000)
    \<and> speedMMSToMilliknots (Some 2209522056) = Some 0"
proof -
  let ?t = "v * 19438445 + 5000000"
  have small: "0 \<le> v * 19438445" "?t < 42949672960000000" using assms by linarith+
  have k: "0 \<le> ?t div 10000000" "?t div 10000000 < 4294967296" using small by simp_all
  have near: "2 * \<bar>?t div 10000000 * 10000000 - v * 19438445\<bar> \<le> 10000000"
  proof -
    define q where "q = ?t div 10000000 * 10000000"
    define m where "m = ?t mod 10000000"
    have "0 \<le> m" "m < 10000000" "q + m = v * 19438445 + 5000000" unfolding q_def m_def by simp_all
    then have "2 * \<bar>q - v * 19438445\<bar> \<le> 10000000" by arith
    then show ?thesis by (simp add: q_def)
  qed
  have "speedMMSToMilliknots (Some v) = Some (?t div 10000000)"
    using small k by (simp add: speedMMSToMilliknots_def go_int)
  moreover have "speedMMSToMilliknots (Some 2209522056) = Some 0" by code_simp
  ultimately show ?thesis using k near by auto
qed

theorem speedMMSToMilliknots_rounds_witness:
  "\<exists>k. speedMMSToMilliknots (Some 1000) = Some k \<and> 2 * \<bar>k * 10000000 - 19438445000\<bar> \<le> 10000000"
  using speedMMSToMilliknots_rounds [of 1000] by auto

end
