(* ===== verification/Api_Server.thy ===== *)
theory Api_Server
  imports Http
begin

text \<open>
  The REST handlers of \<open>internal/api/server.go\<close> for vessels, zones and distress alerts, behind the
  authenticator and the role gates of its route table.

  Path and query values and the decoded body are in the route; \<open>None\<close> for a body or a time is one that
  does not decode.
\<close>

section \<open>Requests\<close>

text \<open>The geometry member of a zone: absent, not valid JSON, or JSON text with its \<open>type\<close> member.\<close>

datatype raw_geometry = NoGeometry | BadGeometry | Geometry string "string option"

record createZoneRequest =
  cz_ZoneID :: string
  cz_Name :: string
  cz_ClassificationFloor :: string
  cz_Geometry :: raw_geometry

datatype lifecycle_body = EmptyBody | BadBody | NoteBody string

text \<open>What the handlers are wired to: the publisher of lifecycle events and the line aggregate.\<close>

record Server =
  sv_SOSEvents :: "signed_publish option"
  sv_Line :: "string list \<Rightarrow> string"

section \<open>Vessels\<close>

definition vessel360 :: "externals \<Rightarrow> string \<Rightarrow> Principal option \<Rightarrow> response geo" where
  "vessel360 X mmsi ctx =
     principalOrFail ctx (\<lambda>p.
     if \<not> mmsiPattern mmsi then ret (writeError 400 ''mmsi must be 9 digits'')
     else bindA (attempt (GetVessel360 X mmsi (pn_TenantID p) (clearedLabels (pn_Clearance p)))) (\<lambda>r.
       case r of
         Inl e \<Rightarrow> ret (writeError 500 ''vessel-360 query failed'')
       | Inr None \<Rightarrow> ret (writeError 404 ''vessel not found at caller clearance'')
       | Inr (Some view) \<Rightarrow> ret (writeJSON 200 (BView view))))"

definition empty_line :: string where
  "empty_line = ''{\"type\":\"LineString\",\"coordinates\":[]}''"

definition track :: "externals \<Rightarrow> Server \<Rightarrow> string \<Rightarrow> int option \<Rightarrow> int option \<Rightarrow> Principal option \<Rightarrow> response geo" where
  "track X S mmsi t1 t2 ctx =
     principalOrFail ctx (\<lambda>p.
     if \<not> mmsiPattern mmsi then ret (writeError 400 ''mmsi must be 9 digits'')
     else case t1 of
       None \<Rightarrow> ret (writeError 400 ''from must be RFC 3339'')
     | Some a \<Rightarrow>
         (case t2 of
            None \<Rightarrow> ret (writeError 400 ''to must be RFC 3339'')
          | Some b \<Rightarrow>
              bindA (attempt (GetTrack X (sv_Line S) mmsi a b (clearedLabels (pn_Clearance p)))) (\<lambda>r.
              case r of
                Inl e \<Rightarrow> ret (writeError 400 ''track query failed'')
              | Inr (geoJSON, points) \<Rightarrow>
                  ret (writeJSON 200 (BGeoJSON (if points = 0 then empty_line else geoJSON))))))"

section \<open>Zones\<close>

definition listZones :: "externals \<Rightarrow> Principal option \<Rightarrow> response geo" where
  "listZones X ctx =
     principalOrFail ctx (\<lambda>p. tenantOrFail p (\<lambda>tenant.
     bindA (attempt (ListZones X tenant (clearedLabels (pn_Clearance p)))) (\<lambda>r.
     case r of
       Inl e \<Rightarrow> ret (writeError 500 ''zone query failed'')
     | Inr zones \<Rightarrow> ret (writeJSON 200 (BZones zones)))))"

definition createZone :: "externals \<Rightarrow> createZoneRequest option \<Rightarrow> Principal option \<Rightarrow> response geo" where
  "createZone X b ctx =
     principalOrFail ctx (\<lambda>p. tenantOrFail p (\<lambda>tenant.
     case b of
       None \<Rightarrow> ret (writeError 400 ''request body is not valid JSON'')
     | Some payload \<Rightarrow>
         (case cz_Geometry payload of
            Geometry text (Some kind) \<Rightarrow>
              if kind \<noteq> ''Polygon'' then ret (writeError 400 ''geometry must be a GeoJSON Polygon'')
              else bindA (attempt (CreateZone X tenant (cz_ZoneID payload) (cz_Name payload) (pn_Subject p)
                      (cz_ClassificationFloor payload) text)) (\<lambda>r.
                case r of
                  Inl e \<Rightarrow> ret (writeError 400 ''zone creation failed'')
                | Inr _ \<Rightarrow> ret (writeJSON 201 (Fields [(''zoneId'', cz_ZoneID payload), (''state'', ''draft'')])))
          | _ \<Rightarrow> ret (writeError 400 ''geometry must be a GeoJSON Polygon''))))"

definition approveZone :: "externals \<Rightarrow> string \<Rightarrow> Principal option \<Rightarrow> response geo" where
  "approveZone X zoneID ctx =
     principalOrFail ctx (\<lambda>p. tenantOrFail p (\<lambda>tenant.
     if trim_space zoneID = [] then ret (writeError 400 ''zone id is required'')
     else bindA (attempt (ApproveZone X tenant zoneID (pn_Subject p))) (\<lambda>r.
       case r of
         Inl ErrMakerCheckerConflict \<Rightarrow> ret (writeError 409 ''maker may not approve own zone (four-eyes)'')
       | Inl ErrZoneNotDraft \<Rightarrow> ret (writeError 409 ''zone is not in draft state'')
       | Inl _ \<Rightarrow> ret (writeError 500 ''zone approval failed'')
       | Inr _ \<Rightarrow> ret (writeJSON 200 (Fields [(''zoneId'', zoneID), (''state'', ''approved'')])))))"

section \<open>Distress alerts\<close>

definition sos_cleared :: "Principal \<Rightarrow> bool" where
  "sos_cleared p \<longleftrightarrow>
     (case ParseClassification (pn_Clearance p) of Inl _ \<Rightarrow> False | Inr c \<Rightarrow> Covers c ClassificationRestricted)"

definition listSOS :: "externals \<Rightarrow> string \<Rightarrow> Principal option \<Rightarrow> response geo" where
  "listSOS X limit ctx =
     principalOrFail ctx (\<lambda>p.
     if \<not> sos_cleared p then ret (writeError 403 ''sos readback requires RESTRICTED or higher clearance'')
     else bindA (attempt (ListSOS X (clearedLabels (pn_Clearance p)) (nat (parseLimit limit 100 1000)))) (\<lambda>r.
       case r of
         Inl e \<Rightarrow> ret (writeError 500 ''sos query failed'')
       | Inr alerts \<Rightarrow> ret (writeJSON 200 (BAlerts alerts))))"

text \<open>\<open>sosIDPattern\<close>: \<open>^[A-Za-z0-9][A-Za-z0-9._:-]{0,127}$\<close>.\<close>

definition sosIDPattern :: "string \<Rightarrow> bool" where
  "sosIDPattern s \<longleftrightarrow> id_text 127 s"

definition lifecycle_event :: "string \<Rightarrow> SOSRow \<Rightarrow> string \<Rightarrow> string \<Rightarrow> int \<Rightarrow> EventKind \<times> payload" where
  "lifecycle_event action row subject text t =
     (if action = ''acknowledge''
      then (EventSOSAcknowledged, PSosAcknowledged
        \<lparr>sa_SosAlertID = so_SosAlertID (ss_Alert row), sa_ReporterID = so_ReporterID (ss_Alert row),
         sa_VesselReference = so_VesselReference (ss_Alert row), sa_AcknowledgedBy = subject, sa_AcknowledgedAt = t,
         sa_Note = text, sa_Classification = so_Classification (ss_Alert row)\<rparr>)
      else (EventSOSResolved, PSosResolved
        \<lparr>sx_SosAlertID = so_SosAlertID (ss_Alert row), sx_ReporterID = so_ReporterID (ss_Alert row),
         sx_VesselReference = so_VesselReference (ss_Alert row), sx_ResolvedBy = subject, sx_ResolvedAt = t,
         sx_Note = text, sx_Classification = so_Classification (ss_Alert row)\<rparr>))"

definition lifecycle_time :: "string \<Rightarrow> SOSRow \<Rightarrow> int \<Rightarrow> int" where
  "lifecycle_time action row now =
     (case (if action = ''acknowledge'' then ss_AcknowledgedAt row else ss_ResolvedAt row) of None \<Rightarrow> now | Some t \<Rightarrow> t)"

definition announce_transition ::
  "externals \<Rightarrow> signed_publish \<Rightarrow> string \<Rightarrow> SOSRow \<Rightarrow> string \<Rightarrow> string \<Rightarrow> response geo" where
  "announce_transition X pub action row subject text =
     bindA (clock X) (\<lambda>now.
     let t = lifecycle_time action row now; ev = lifecycle_event action row subject text t in
     bindA (attempt (pub (fst ev) (so_SosAlertID (ss_Alert row)) (snd ev) t (so_Classification (ss_Alert row))
         [''priority'' \<mapsto> ''SAFETY''])) (\<lambda>r.
     case r of
       Inl e \<Rightarrow> ret (writeError 500 ''sos lifecycle event publication failed'')
     | Inr _ \<Rightarrow> seqA (count ''geo_sos_lifecycle_transitions_total'' action) (ret (writeJSON 200 (BAlert row)))))"

definition note_of :: "lifecycle_body \<Rightarrow> string" where
  "note_of b = (case b of NoteBody text \<Rightarrow> text | _ \<Rightarrow> [])"

definition transition_error :: "geo_error \<Rightarrow> response" where
  "transition_error e =
     (case e of
        ErrSOSNotFound \<Rightarrow> writeError 404 ''sos alert not found''
      | ErrSOSInvalidTransition \<Rightarrow> writeError 409 ''sos lifecycle transition is not legal''
      | _ \<Rightarrow> writeError 400 ''sos lifecycle transition failed'')"

definition transitionSOS ::
  "externals \<Rightarrow> Server \<Rightarrow> string \<Rightarrow> string \<Rightarrow> lifecycle_body \<Rightarrow> Principal option \<Rightarrow> response geo" where
  "transitionSOS X S action sosAlertID b ctx =
     principalOrFail ctx (\<lambda>p.
     if \<not> sos_cleared p then ret (writeError 403 ''sos lifecycle requires RESTRICTED or higher clearance'')
     else case sv_SOSEvents S of
       None \<Rightarrow> ret (writeError 503 ''sos lifecycle event publisher is not wired'')
     | Some pub \<Rightarrow>
         if \<not> sosIDPattern sosAlertID then ret (writeError 400 ''sos alert id is invalid'')
         else if b = BadBody then ret (writeError 400 ''request body is not valid JSON'')
         else bindA (attempt (TransitionSOSAlert X sosAlertID (pn_Subject p) action (note_of b))) (\<lambda>r.
           case r of
             Inl e \<Rightarrow> ret (transition_error e)
           | Inr row \<Rightarrow> announce_transition X pub action row (pn_Subject p) (note_of b)))"

definition acknowledgeSOS :: "externals \<Rightarrow> Server \<Rightarrow> string \<Rightarrow> lifecycle_body \<Rightarrow> Principal option \<Rightarrow> response geo" where
  "acknowledgeSOS X S = transitionSOS X S ''acknowledge''"

definition resolveSOS :: "externals \<Rightarrow> Server \<Rightarrow> string \<Rightarrow> lifecycle_body \<Rightarrow> Principal option \<Rightarrow> response geo" where
  "resolveSOS X S = transitionSOS X S ''resolve''"

section \<open>The route table\<close>

datatype route =
    GetVessel string
  | GetVesselTrack string "int option" "int option"
  | GetZones
  | PostZone "createZoneRequest option"
  | PostZoneApprove string
  | GetSOS string
  | PostSOSAcknowledge string lifecycle_body
  | PostSOSResolve string lifecycle_body

definition readers :: "string list" where
  "readers = [''geo-reader'', ''geo-zone-maker'', ''geo-zone-checker'', ''geo-admin'']"

fun route_roles :: "route \<Rightarrow> string list" where
  "route_roles (GetVessel _) = readers"
| "route_roles (GetVesselTrack _ _ _) = readers"
| "route_roles GetZones = readers"
| "route_roles (PostZone _) = [''geo-zone-maker'', ''geo-admin'']"
| "route_roles (PostZoneApprove _) = [''geo-zone-checker'', ''geo-admin'']"
| "route_roles (GetSOS _) = [''geo-sos-reader'', ''geo-admin'']"
| "route_roles (PostSOSAcknowledge _ _) = [''geo-sos-reader'', ''geo-admin'']"
| "route_roles (PostSOSResolve _ _) = [''geo-sos-reader'', ''geo-admin'']"

fun route_handler :: "externals \<Rightarrow> Server \<Rightarrow> route \<Rightarrow> Principal option \<Rightarrow> response geo" where
  "route_handler X S (GetVessel mmsi) = vessel360 X mmsi"
| "route_handler X S (GetVesselTrack mmsi a b) = track X S mmsi a b"
| "route_handler X S GetZones = listZones X"
| "route_handler X S (PostZone b) = createZone X b"
| "route_handler X S (PostZoneApprove z) = approveZone X z"
| "route_handler X S (GetSOS limit) = listSOS X limit"
| "route_handler X S (PostSOSAcknowledge i b) = acknowledgeSOS X S i b"
| "route_handler X S (PostSOSResolve i b) = resolveSOS X S i b"

definition handle :: "externals \<Rightarrow> Server \<Rightarrow> string + Principal \<Rightarrow> route \<Rightarrow> response geo" where
  "handle X S auth route =
     Middleware auth
       (RequireRoles (route_roles route) (route_handler X S route) (\<lambda>r. ret (refuse r)))
       (\<lambda>r. ret (refuse r))"

section \<open>Facts about the handlers\<close>

text \<open>A row label within the clearance of a principal.\<close>

definition cleared :: "Principal \<Rightarrow> string \<Rightarrow> bool" where
  "cleared p l \<longleftrightarrow> l \<in> set ladder \<and> Rank l \<le> Rank (trim_space (pn_Clearance p))"

lemma cleared_label: "l \<in> set (clearedLabels (pn_Clearance p)) \<Longrightarrow> cleared p l"
  by (auto simp: cleared_def set_clearedLabels)

text \<open>A line through positions of one vessel in one period that the principal is cleared for.\<close>

definition cleared_track :: "Principal \<Rightarrow> Server \<Rightarrow> string \<Rightarrow> int \<Rightarrow> int \<Rightarrow> db \<Rightarrow> string \<Rightarrow> bool" where
  "cleared_track p S mmsi t1 t2 d g \<longleftrightarrow>
     g = empty_line \<or> (\<exists>rows. g = sv_Line S (map ro_Geom rows) \<and> set rows \<subseteq> set (db_positions d)
       \<and> (\<forall>r\<in>set rows. po_MMSI (ro_Position r) = mmsi \<and> t1 \<le> po_ObservedAt (ro_Position r)
            \<and> po_ObservedAt (ro_Position r) \<le> t2 \<and> cleared p (po_Classification (ro_Position r))))"

text \<open>What the body of an answer may carry, in the tables the request leaves behind: texts; on a read, rows within the
  clearance and the tenant; on a lifecycle step, the alert that was asked for.\<close>

fun answer_ok :: "Principal \<Rightarrow> Server \<Rightarrow> route \<Rightarrow> db \<Rightarrow> body \<Rightarrow> bool" where
  "answer_ok p S route d (Fields _) = True"
| "answer_ok p S route d (BZones zs) =
     (route = GetZones \<and> (\<forall>z\<in>set zs. zo_TenantID z = pn_TenantID p \<and> cleared p (zo_ClassificationFloor z)))"
| "answer_ok p S route d (BAlerts rows) = ((\<exists>l. route = GetSOS l) \<and> (\<forall>r\<in>set rows. cleared p (so_Classification (ss_Alert r))))"
| "answer_ok p S route d (BView v) =
     ((\<exists>m. route = GetVessel m)
      \<and> (\<forall>s. v3_Latest v = Some s \<longrightarrow> cleared p (vm_Classification s))
      \<and> (\<forall>s. v3_Static v = Some s \<longrightarrow> cleared p (sp_Classification s))
      \<and> (\<forall>e\<in>set (v3_RecentZones v). gv_TenantID e = pn_TenantID p \<and> cleared p (gv_Classification e)))"
| "answer_ok p S route d (BGeoJSON g) =
     (\<exists>m a b. route = GetVesselTrack m (Some a) (Some b) \<and> cleared_track p S m a b d g)"
| "answer_ok p S route d (BAlert row) =
     (\<exists>i b. (route = PostSOSAcknowledge i b \<or> route = PostSOSResolve i b) \<and> find_sos i (db_sos d) = Some row)"

text \<open>What a route may do to the tables for a principal.\<close>

fun write_ok :: "Principal \<Rightarrow> route \<Rightarrow> db \<Rightarrow> db \<Rightarrow> bool" where
  "write_ok p (PostZone _) d d' = (d' = d \<or> (trim_space (pn_TenantID p) \<noteq> [] \<and> zone_created (pn_TenantID p) d d'))"
| "write_ok p (PostZoneApprove z) d d' =
     (d' = d \<or> (trim_space (pn_TenantID p) \<noteq> [] \<and> zone_approved (pn_TenantID p) z (pn_Subject p) d d'))"
| "write_ok p (PostSOSAcknowledge i b) d d' = (d' = d \<or> (sos_cleared p \<and> sos_moved i (pn_Subject p) ''acknowledge'' (note_of b) d d'))"
| "write_ok p (PostSOSResolve i b) d d' = (d' = d \<or> (sos_cleared p \<and> sos_moved i (pn_Subject p) ''resolve'' (note_of b) d d'))"
| "write_ok p _ d d' = (d' = d)"

definition wired :: "externals \<Rightarrow> Pipeline \<Rightarrow> Server \<Rightarrow> bool" where
  "wired X P S \<longleftrightarrow> (\<forall>pub. sv_SOSEvents S = Some pub \<longrightarrow> pub = PublishSignedEnvelope X P)"

lemma response_sel [simp]:
  "rs_status (writeJSON s b) = s" "rs_body (writeJSON s b) = b" "rs_body (writeError s m) = Fields [(''error'', m)]"
  "rs_status (writeError s m) = s"
  by (simp_all add: writeJSON_def writeError_def)

lemma transition_error_text: "\<exists>fs. rs_body (transition_error e) = Fields fs"
  by (cases e) (simp_all add: transition_error_def)

lemma WithTenant_read:
  "wp (WithTenant X t (sql_query X l q)) (\<lambda>r w'. w_db w' = w_db w \<and> r = q (w_db w)) (\<lambda>e w'. w_db w' = w_db w) w"
  by (simp add: WithTenant_def wp_simps)

lemma latest_summary_label: "latest_summary d m labels = Some s \<Longrightarrow> vm_Classification s \<in> set labels"
  by (auto simp: latest_summary_def summary_of_def split: option.splits if_splits)

lemma sort_key_head: "sort_key f xs = y # ys \<Longrightarrow> y \<in> set xs"
  by (metis list.set_intros(1) set_sort)

lemma current_static_label: "current_static_row d m labels = Some s \<Longrightarrow> sp_Classification s \<in> set labels"
  by (auto simp: current_static_row_def split: list.splits dest!: sort_key_head)

lemma recent_zones_label:
  "e \<in> set (recent_zones d t m labels) \<Longrightarrow> gv_TenantID e = t \<and> gv_Classification e \<in> set labels"
  by (auto simp: recent_zones_def dest!: in_set_takeD)

lemma GetVessel360_wp:
  "wp (GetVessel360 X m t labels)
     (\<lambda>r w'. w_db w' = w_db w \<and> (\<forall>v. r = Some v \<longrightarrow>
        (\<forall>s. v3_Latest v = Some s \<longrightarrow> vm_Classification s \<in> set labels)
      \<and> (\<forall>s. v3_Static v = Some s \<longrightarrow> sp_Classification s \<in> set labels)
      \<and> (\<forall>e\<in>set (v3_RecentZones v). gv_TenantID e = t \<and> gv_Classification e \<in> set labels)))
     (\<lambda>e w'. w_db w' = w_db w) w"
  unfolding GetVessel360_def WithTenant_def
  by (auto simp: wp_simps dest: latest_summary_label current_static_label recent_zones_label)

lemma vessel360_wp:
  "pn_Subject p \<noteq> [] \<Longrightarrow>
   wp (vessel360 X m (Some p)) (\<lambda>r w'. w_db w' = w_db w \<and> answer_ok p S (GetVessel m) (w_db w') (rs_body r)) (\<lambda>_ _. False) w"
  unfolding vessel360_def principalOrFail_def PrincipalFrom_def
  by (auto simp: wp_simps split: option.split intro!: wp_mono [OF GetVessel360_wp] cleared_label)

lemma track_rows_cleared:
  "cleared_track p S m a b d (sv_Line S (map ro_Geom (track_rows d m a b (clearedLabels (pn_Clearance p)))))"
  unfolding cleared_track_def
  by (intro disjI2 exI [of _ "track_rows d m a b (clearedLabels (pn_Clearance p))"]) (auto simp: track_rows_def intro: cleared_label)

lemma track_wp:
  "pn_Subject p \<noteq> [] \<Longrightarrow>
   wp (track X S m a b (Some p)) (\<lambda>r w'. w_db w' = w_db w \<and> answer_ok p S (GetVesselTrack m a b) (w_db w') (rs_body r)) (\<lambda>_ _. False) w"
  unfolding track_def principalOrFail_def PrincipalFrom_def GetTrack_def
  by (auto simp: wp_simps Let_def track_rows_cleared cleared_track_def [where g = empty_line] split: option.split)

lemma listZones_wp:
  assumes "pn_Subject p \<noteq> []"
  shows "wp (listZones X (Some p)) (\<lambda>r w'. w_db w' = w_db w \<and> answer_ok p S GetZones (w_db w') (rs_body r)) (\<lambda>_ _. False) w"
  using assms unfolding listZones_def principalOrFail_def PrincipalFrom_def tenantOrFail_def ListZones_def
  by (auto simp: wp_simps labelCleared_def tenant_zones_def intro!: wp_mono [OF WithTenant_read] cleared_label)

lemma listSOS_wp:
  assumes "pn_Subject p \<noteq> []"
  shows "wp (listSOS X l (Some p)) (\<lambda>r w'. w_db w' = w_db w \<and> answer_ok p S (GetSOS l) (w_db w') (rs_body r)) (\<lambda>_ _. False) w"
  using assms unfolding listSOS_def principalOrFail_def PrincipalFrom_def ListSOS_def
  by (auto simp: wp_simps dest!: in_set_takeD intro!: cleared_label)

lemma createZone_wp:
  assumes "pn_Subject p \<noteq> []"
  shows "wp (createZone X b (Some p)) (\<lambda>r w'. write_ok p (PostZone b) (w_db w) (w_db w') \<and> answer_ok p S (PostZone b) (w_db w') (rs_body r)) (\<lambda>_ _. False) w"
  using assms unfolding createZone_def principalOrFail_def PrincipalFrom_def tenantOrFail_def
  by (auto simp: wp_simps split: option.split raw_geometry.split intro!: wp_mono [OF CreateZone_wp])

lemma approve_answer:
  "wp (case r of
         Inl ErrMakerCheckerConflict \<Rightarrow> ret (writeError 409 a)
       | Inl ErrZoneNotDraft \<Rightarrow> ret (writeError 409 b)
       | Inl _ \<Rightarrow> ret (writeError 500 c)
       | Inr _ \<Rightarrow> ret (writeJSON 200 (Fields f))) Q E w
   \<longleftrightarrow> (case r of Inl e \<Rightarrow> (case e of ErrMakerCheckerConflict \<Rightarrow> Q (writeError 409 a) w
        | ErrZoneNotDraft \<Rightarrow> Q (writeError 409 b) w | _ \<Rightarrow> Q (writeError 500 c) w)
      | Inr _ \<Rightarrow> Q (writeJSON 200 (Fields f)) w)"
  by (cases r) (simp_all add: wp_ret split: geo_error.split)

lemma approveZone_wp:
  assumes "pn_Subject p \<noteq> []"
  shows "wp (approveZone X z (Some p)) (\<lambda>r w'. write_ok p (PostZoneApprove z) (w_db w) (w_db w') \<and> answer_ok p S (PostZoneApprove z) (w_db w') (rs_body r)) (\<lambda>_ _. False) w"
  using assms unfolding approveZone_def principalOrFail_def PrincipalFrom_def tenantOrFail_def
  by (auto simp: wp_simps approve_answer split: geo_error.split intro!: wp_mono [OF ApproveZone_wp])

lemma announce_transition_wp:
  "wp (announce_transition X (PublishSignedEnvelope Y P) a row s t)
     (\<lambda>r w'. w_db w' = w_db w \<and> (rs_body r = BAlert row \<or> (\<exists>fs. rs_body r = Fields fs))
        \<and> ((rs_status r = 500 \<and> w_kafka w' = w_kafka w)
           \<or> (rs_status r = 200 \<and> (\<exists>m. w_kafka w' = w_kafka w @ [m] \<and> envelope_message (if a = ''acknowledge'' then EventSOSAcknowledged else EventSOSResolved) (so_SosAlertID (ss_Alert row)) m))))
     (\<lambda>_ _. False) w"
proof -
  have k: "fst (lifecycle_event a row s t n) = (if a = ''acknowledge'' then EventSOSAcknowledged else EventSOSResolved)" for n by (simp add: lifecycle_event_def)
  show ?thesis
    unfolding announce_transition_def Let_def wp_bind [of "clock X"] wp_clock wp_bind [of "attempt _"] wp_attempt k
    by (rule wp_mono [OF PublishSignedEnvelope_wp]) (auto simp: wp_simps same_but_kafka_def)
qed

lemma transition_kafka: "keeps (\<lambda>w. w_kafka w = K) (TransitionSOSAlert X i a act n)"
proof -
  have w: "keeps (\<lambda>w. w_kafka w = K) (transition_write X i f)" for f
    unfolding transition_write_def by (intro keeps_rules keeps_sql_exec keeps_sql_query) simp_all
  have c: "keeps (\<lambda>w. w_kafka w = K) (clock X)" unfolding clock_def by (rule keeps_asks) simp
  have q: "keeps (\<lambda>w. w_kafka w = K) (sql_query X l g)" for l and g :: "db \<Rightarrow> 'z" by (rule keeps_sql_query) simp
  have tx: "keeps (\<lambda>w. w_kafka w = K) m \<Longrightarrow> keeps (\<lambda>w. w_kafka w = K) (in_tx X l m)" for l and m :: "SOSRow geo"
    by (rule keeps_in_tx) simp_all
  show ?thesis unfolding TransitionSOSAlert_def by (intro keeps_rules tx q c w)
qed

text \<open>A lifecycle step: refused without effect, or moved and then announced.\<close>

definition transition_done :: "string \<Rightarrow> string \<Rightarrow> string \<Rightarrow> lifecycle_body \<Rightarrow> world \<Rightarrow> response \<Rightarrow> world \<Rightarrow> bool" where
  "transition_done action i subject b w r w' \<longleftrightarrow>
     (rs_status r \<in> {400, 403, 404, 409, 503} \<and> w_db w' = w_db w \<and> w_kafka w' = w_kafka w)
   \<or> (sos_moved i subject action (note_of b) (w_db w) (w_db w')
       \<and> ((rs_status r = 500 \<and> w_kafka w' = w_kafka w)
          \<or> (rs_status r = 200 \<and> (\<exists>m. w_kafka w' = w_kafka w @ [m]
               \<and> envelope_message (if action = ''acknowledge'' then EventSOSAcknowledged else EventSOSResolved) i m))))"

definition transition_answer :: "string \<Rightarrow> db \<Rightarrow> body \<Rightarrow> bool" where
  "transition_answer i d b \<longleftrightarrow> (\<exists>fs. b = Fields fs) \<or> (\<exists>row. b = BAlert row \<and> find_sos i (db_sos d) = Some row)"

lemma transition_answer_ok:
  "transition_answer i d b \<Longrightarrow> answer_ok p S (PostSOSAcknowledge i n) d b \<and> answer_ok p S (PostSOSResolve i n) d b"
  by (auto simp: transition_answer_def)

lemma transition_error_status: "rs_status (transition_error e) \<in> {400, 404, 409}"
  by (cases e) (simp_all add: transition_error_def)

lemma find_sos_ident: "find_sos i rows = Some r \<Longrightarrow> so_SosAlertID (ss_Alert r) = i"
  by (auto simp: find_sos_def find_Some_iff)

lemma transitionSOS_wp:
  assumes "pn_Subject p \<noteq> []" "wired Y P S"
  shows "wp (transitionSOS X S a i b (Some p))
     (\<lambda>r w'. transition_answer i (w_db w') (rs_body r) \<and> transition_done a i (pn_Subject p) b w r w'
        \<and> (w_db w' = w_db w \<or> sos_cleared p)) (\<lambda>_ _. False) w"
proof -
  let ?Q = "\<lambda>r w'. transition_answer i (w_db w') (rs_body r) \<and> transition_done a i (pn_Subject p) b w r w' \<and> (w_db w' = w_db w \<or> sos_cleared p)"
  have go: "wp (attempt (TransitionSOSAlert X i (pn_Subject p) a (note_of b)))
      (\<lambda>r. wp (case r of Inl e \<Rightarrow> ret (transition_error e)
          | Inr row \<Rightarrow> announce_transition X (PublishSignedEnvelope Y P) a row (pn_Subject p) (note_of b)) ?Q (\<lambda>_ _. False)) (\<lambda>_ _. False) w"
    if "sos_cleared p"
    unfolding wp_attempt
  proof (rule wp_mono [OF wp_keeps [OF TransitionSOSAlert_wp transition_kafka refl]], goal_cases)
    case (1 row v)
    then have v: "sos_moved i (pn_Subject p) a (note_of b) (w_db w) (w_db v)" "so_SosAlertID (ss_Alert row) = i" "w_kafka v = w_kafka w"
      "find_sos i (db_sos (w_db v)) = Some row" by (auto dest: find_sos_ident)
    show ?case
      unfolding sum.case
      by (rule wp_mono [OF announce_transition_wp])
        (use v that in \<open>auto simp: transition_done_def transition_answer_def\<close>)
  next
    case (2 e v)
    with transition_error_status [of e] transition_error_text [of e] show ?case by (auto simp: wp_ret transition_done_def transition_answer_def)
  qed
  show ?thesis
    using assms go unfolding transitionSOS_def principalOrFail_def PrincipalFrom_def wired_def wp_bind [of "attempt _"]
    by (auto simp: wp_simps transition_done_def transition_answer_def split: option.split)
qed

lemma route_handler_wp:
  assumes "pn_Subject p \<noteq> []" "wired Y P S"
  shows "wp (route_handler X S route (Some p))
     (\<lambda>r w'. write_ok p route (w_db w) (w_db w') \<and> answer_ok p S route (w_db w') (rs_body r)) (\<lambda>_ _. False) w"
proof (cases route)
  case (PostSOSAcknowledge i b)
  show ?thesis unfolding PostSOSAcknowledge route_handler.simps acknowledgeSOS_def
    by (rule wp_mono [OF transitionSOS_wp [OF assms]]) (auto simp: transition_done_def simp del: answer_ok.simps dest: transition_answer_ok)
next
  case (PostSOSResolve i b)
  show ?thesis unfolding PostSOSResolve route_handler.simps resolveSOS_def
    by (rule wp_mono [OF transitionSOS_wp [OF assms]]) (auto simp: transition_done_def simp del: answer_ok.simps dest: transition_answer_ok)
qed (simp_all only: route_handler.simps write_ok.simps(5-8) assms(1)
    vessel360_wp track_wp listZones_wp listSOS_wp createZone_wp approveZone_wp not_False_eq_True)

section \<open>Properties\<close>

definition sample_principal_of :: "string \<Rightarrow> string \<Rightarrow> Principal" where
  "sample_principal_of role clearance =
     \<lparr>pn_Subject = ''ada'', pn_Roles = {role}, pn_Clearance = clearance, pn_TenantID = ''t1''\<rparr>"

definition sample_server :: "externals \<Rightarrow> Server" where
  "sample_server X = \<lparr>sv_SOSEvents = Some (PublishSignedEnvelope X sample_pipeline), sv_Line = (\<lambda>g. [])\<rparr>"

definition sos_world :: world where
  "sos_world = empty_world\<lparr>w_db := empty_db\<lparr>db_sos := [new_sos_row
     \<lparr>so_SosAlertID = ''s1'', so_ReporterID = ''r1'', so_VesselReference = ''canoe-7'', so_LatitudeMicros = 3, so_LongitudeMicros = 6,
      so_RecordedAt = 0, so_OutboxID = ''o1'', so_FreeText = [], so_Classification = ClassificationRestricted\<rparr> 0]\<rparr>\<rparr>"

lemma wired_sample [simp]: "wired X sample_pipeline (sample_server X)"
  by (simp add: wired_def sample_server_def)

lemma sample_acknowledge:
  "case acknowledgeSOS no_kafka (sample_server no_kafka) ''s1'' EmptyBody
        (Some (sample_principal_of ''geo-admin'' ClassificationSecret)) sos_world of
     (w', r) \<Rightarrow> (case r of Inr resp \<Rightarrow> rs_status resp = 500 | Inl _ \<Rightarrow> False)"
  by code_simp



text \<open>A lifecycle step is persisted before it is announced: when an acknowledgement is answered with 500
  the alert is already ACKNOWLEDGED and no event was published, and no later acknowledgement of it, with
  whatever services and by whomever, publishes one: the event is lost.\<close>

theorem acknowledgement_lost:
  assumes "acknowledgeSOS X S i b (Some p) w = (w1, Inr resp)" "pn_Subject p \<noteq> []" "wired Y P S" "rs_status resp = 500"
    and "acknowledgeSOS X2 S2 i b2 (Some p2) w1 = (w2, Inr resp2)" "pn_Subject p2 \<noteq> []" "wired Y2 P2 S2"
  shows "w_kafka w1 = w_kafka w \<and> (\<exists>row. find_sos i (db_sos (w_db w1)) = Some row \<and> ss_State row = ACKNOWLEDGED)
    \<and> rs_status resp2 \<noteq> 200 \<and> w_db w2 = w_db w1 \<and> w_kafka w2 = w_kafka w1"
proof -
  from wp_Inr [OF transitionSOS_wp [OF assms(2,3)] assms(1) [unfolded acknowledgeSOS_def]] assms(4)
  have moved: "sos_moved i (pn_Subject p) ''acknowledge'' (note_of b) (w_db w) (w_db w1)" and k: "w_kafka w1 = w_kafka w"
    by (auto simp: transition_done_def)
  from moved obtain row where row: "find_sos i (db_sos (w_db w1)) = Some row" "ss_State row = ACKNOWLEDGED"
    by (auto simp: sos_moved_def find_update_sos transition_row_def acknowledge_row_def)
  from wp_Inr [OF transitionSOS_wp [OF assms(6,7)] assms(5) [unfolded acknowledgeSOS_def]]
  have "transition_done ''acknowledge'' i (pn_Subject p2) b2 w1 resp2 w2" by blast
  moreover have "\<not> sos_moved i s ''acknowledge'' n (w_db w1) d" for s n d
    using row by (simp add: sos_moved_def transition_legal_def)
  ultimately show ?thesis using k row by (auto simp: transition_done_def)
qed

theorem acknowledgement_lost_witness:
  "\<exists>w1 r1 w2 r2. acknowledgeSOS no_kafka (sample_server no_kafka) ''s1'' EmptyBody
        (Some (sample_principal_of ''geo-admin'' ClassificationSecret)) sos_world = (w1, Inr r1)
    \<and> acknowledgeSOS calm (sample_server calm) ''s1'' EmptyBody
        (Some (sample_principal_of ''geo-admin'' ClassificationSecret)) w1 = (w2, Inr r2)
    \<and> rs_status r1 = 500 \<and> rs_status r2 \<noteq> 200 \<and> w_kafka w2 = []"
proof -
  let ?p = "sample_principal_of ''geo-admin'' ClassificationSecret"
  have p: "pn_Subject ?p \<noteq> []" by (simp add: sample_principal_of_def)
  let ?run = "acknowledgeSOS no_kafka (sample_server no_kafka) ''s1'' EmptyBody (Some ?p) sos_world"
  obtain w1 r1 where run: "?run = (w1, Inr r1)" "rs_status r1 = 500"
    using sample_acknowledge by (cases ?run; cases "snd ?run") auto
  obtain w2 res where again: "acknowledgeSOS calm (sample_server calm) ''s1'' EmptyBody (Some ?p) w1 = (w2, res)" by fastforce
  have "res \<noteq> Inl e" for e
    using wp_Inl [OF transitionSOS_wp [OF p wired_sample]] again unfolding acknowledgeSOS_def by metis
  then obtain r2 where r2: "res = Inr r2" by (cases res) auto
  have "w_kafka sos_world = []" by (simp add: sos_world_def empty_world_def)
  with acknowledgement_lost [OF run(1) p wired_sample run(2) again [unfolded r2] p wired_sample] run again r2 show ?thesis by auto
qed

text \<open>C40. The vessel page joins the ship name and type of the open static row without looking at that row's
  label: whoever is cleared for the position reads them, although the static record itself is withheld.\<close>

theorem vessel360_leaks_static:
  assumes "pn_Subject p \<noteq> []" "mmsiPattern mmsi" "pn_TenantID p = []"
    and "x_pg X (w_tick w)" "x_pg X (Suc (w_tick w))"
    and "db_latest (w_db w) (ByMMSI mmsi) = Some l" "la_Classification l \<in> set (clearedLabels (pn_Clearance p))"
    and "db_static (w_db w) = [row]" "sp_MMSI (sw_Report row) = mmsi" "sw_ValidTo row = None"
    and "sp_Classification (sw_Report row) \<notin> set (clearedLabels (pn_Clearance p))"
  shows "\<exists>w' view s. vessel360 X mmsi (Some p) w = (w', Inr (writeJSON 200 (BView view)))
    \<and> v3_Static view = None \<and> v3_Latest view = Some s \<and> vm_ShipName s = sp_ShipName (sw_Report row)"
  using assms
  by (simp add: vessel360_def principalOrFail_def PrincipalFrom_def GetVessel360_def run_simps sql_query_def sql_def asks_def
      latest_summary_def summary_of_def open_static_def current_static_row_def writeJSON_def)

definition leak_world :: world where
  "leak_world = empty_world\<lparr>w_db := empty_db\<lparr>
     db_latest := [ByMMSI ''657123456'' \<mapsto> latest_row_of sample_report_ok],
     db_static := [\<lparr>sw_Report = \<lparr>sp_StaticReportID = ''st'', sp_MMSI = ''657123456'', sp_IMO = [], sp_Callsign = [],
       sp_ShipName = ''HIDDEN'', sp_ShipTypeCode = 35, sp_DimensionBowM = 0, sp_DimensionSternM = 0, sp_DimensionPortM = 0,
       sp_DimensionStarboardM = 0, sp_DraughtMillimetres = 0, sp_Destination = [], sp_ETA = None, sp_EpfsType = [],
       sp_SourceClass = ''AIS'', sp_Classification = ClassificationSecret, sp_ObservedAt = 0\<rparr>, sw_ValidFrom = 0, sw_ValidTo = None\<rparr>]\<rparr>\<rparr>"

theorem vessel360_leaks_static_witness:
  "\<exists>w' view s. vessel360 calm ''657123456'' (Some ((sample_principal_of ''geo-reader'' ClassificationPublic)\<lparr>pn_TenantID := []\<rparr>)) leak_world
      = (w', Inr (writeJSON 200 (BView view)))
    \<and> v3_Static view = None \<and> v3_Latest view = Some s \<and> vm_ShipName s = ''HIDDEN''"
proof -
  let ?p = "(sample_principal_of ''geo-reader'' ClassificationPublic)\<lparr>pn_TenantID := []\<rparr>"
  let ?row = "hd (db_static (w_db leak_world))"
  let ?l = "latest_row_of sample_report_ok"
  have p: "pn_Subject ?p \<noteq> []" "pn_TenantID ?p = []" "pn_Clearance ?p = ClassificationPublic" by (simp_all add: sample_principal_of_def)
  have m: "mmsiPattern ''657123456''" using sample_static(4) by (simp add: sample_report_ok_def)
  have pg: "x_pg calm n" for n by (simp add: calm_def)
  have l: "db_latest (w_db leak_world) (ByMMSI ''657123456'') = Some ?l" by (simp add: leak_world_def)
  have labels: "ClassificationPublic \<in> set (clearedLabels ClassificationPublic)" "ClassificationSecret \<notin> set (clearedLabels ClassificationPublic)"
    by (code_simp, code_simp)
  have st: "db_static (w_db leak_world) = [?row]" "sp_MMSI (sw_Report ?row) = ''657123456''" "sw_ValidTo ?row = None"
    "sp_Classification (sw_Report ?row) = ClassificationSecret" "sp_ShipName (sw_Report ?row) = ''HIDDEN''"
    by (simp_all add: leak_world_def)
  have lc: "la_Classification ?l = ClassificationPublic" by (simp add: latest_row_of_def sample_report_ok_def)
  show ?thesis
    using vessel360_leaks_static [OF p(1) m p(2) pg pg l _ st(1-3)] labels unfolding p(3) lc st(4,5) by blast
qed

end
