(* ===== verification/GT06.thy ===== *)
theory GT06
  imports Pipeline "HOL-Library.Word" "HOL-Library.Sublist"
begin

unbundle bit_operations_syntax

text \<open>
  The GT06/Concox tracker listener (\<open>internal/connectors/gt06.go\<close>): framing with the X.25 checksum, the
  GPS payload, replies, and the loop that serves one connection.

  Bytes, serials and checksums are words of the width the code gives them. A connection is the list of
  bytes it delivers before it is closed by the peer; what the server writes back is returned. An index
  out of range is the outcome \<open>Panic\<close>. A Go slice may be re-sliced up to its capacity, so a frame keeps
  the bytes that follow its payload in the receive buffer.
\<close>

type_synonym byte = "8 word"

section \<open>Framing\<close>

definition gt06StartByte :: byte where "gt06StartByte = 0x78"
definition gt06ProtoLogin :: byte where "gt06ProtoLogin = 0x01"
definition gt06ProtoGPS :: byte where "gt06ProtoGPS = 0x12"
definition gt06ProtoHeartbeat :: byte where "gt06ProtoHeartbeat = 0x13"
definition gt06ProtoGPSLBS :: byte where "gt06ProtoGPSLBS = 0x16"

text \<open>\<open>fm_spare\<close>: the rest of the buffer the payload is a slice of (serial and checksum).\<close>

record gt06Frame =
  fm_protocol :: byte
  fm_payload :: "byte list"
  fm_serial :: "16 word"
  fm_spare :: "byte list"

datatype frame_error = EOF | UnexpectedEOF | LengthOutOfRange | StopInvalid | CrcMismatch

definition crc_round :: "16 word \<Rightarrow> 16 word" where
  "crc_round crc = (if crc AND 1 \<noteq> 0 then drop_bit 1 crc XOR 0x8408 else drop_bit 1 crc)"

definition crc_byte :: "byte \<Rightarrow> 16 word \<Rightarrow> 16 word" where
  "crc_byte v crc = (crc_round ^^ 8) (crc XOR ucast v)"

definition crc16X25 :: "byte list \<Rightarrow> 16 word" where
  "crc16X25 data = NOT (fold crc_byte data 0xFFFF)"

definition be_uint16 :: "byte list \<Rightarrow> 16 word" where
  "be_uint16 bs = push_bit 8 (ucast (bs ! 0)) OR ucast (bs ! 1)"

definition be_uint32 :: "byte list \<Rightarrow> 32 word" where
  "be_uint32 bs = push_bit 24 (ucast (bs ! 0)) OR push_bit 16 (ucast (bs ! 1)) OR push_bit 8 (ucast (bs ! 2)) OR ucast (bs ! 3)"

definition put_uint16 :: "16 word \<Rightarrow> byte list" where
  "put_uint16 v = [ucast (drop_bit 8 v), ucast v]"

text \<open>The hunt for the two start bytes; the second is only consumed when it is one.\<close>

fun hunt :: "byte list \<Rightarrow> byte list option" where
  "hunt [] = None"
| "hunt (b # bs) =
     (if b \<noteq> gt06StartByte then hunt bs
      else case bs of
        [] \<Rightarrow> None
      | c # cs \<Rightarrow> if c = gt06StartByte then Some cs else hunt bs)"

text \<open>\<open>io.ReadFull\<close>.\<close>

definition read_full :: "nat \<Rightarrow> byte list \<Rightarrow> frame_error + (byte list \<times> byte list)" where
  "read_full n bs =
     (if n \<le> length bs then Inr (take n bs, drop n bs)
      else if bs = [] then Inl EOF else Inl UnexpectedEOF)"

definition verify_frame :: "byte \<Rightarrow> byte list \<Rightarrow> byte list \<Rightarrow> frame_error + gt06Frame" where
  "verify_frame len body stop =
     (if stop \<noteq> [0x0D, 0x0A] then Inl StopInvalid
      else if crc16X25 (len # take (length body - 2) body) \<noteq> be_uint16 (drop (length body - 2) body)
      then Inl CrcMismatch
      else Inr \<lparr>fm_protocol = hd body, fm_payload = take (length body - 5) (tl body),
                fm_serial = be_uint16 (drop (length body - 4) body), fm_spare = drop (length body - 4) body\<rparr>)"

definition readGT06Frame :: "byte list \<Rightarrow> byte list \<times> (frame_error + gt06Frame)" where
  "readGT06Frame stream =
     (case hunt stream of
        None \<Rightarrow> ([], Inl EOF)
      | Some [] \<Rightarrow> ([], Inl EOF)
      | Some (len # s1) \<Rightarrow>
          if unat len < 5 \<or> unat len > 128 then (s1, Inl LengthOutOfRange)
          else (case read_full (unat len) s1 of
              Inl e \<Rightarrow> ([], Inl e)
            | Inr (body, s2) \<Rightarrow>
                (case read_full 2 s2 of
                   Inl e \<Rightarrow> ([], Inl e)
                 | Inr (stop, s3) \<Rightarrow> (s3, verify_frame len body stop))))"

section \<open>The GPS payload\<close>

record gt06GPSPayload =
  gp_observedAt :: int
  gp_latitudeMicros :: int
  gp_longitudeMicros :: int
  gp_speedMilliknots :: int
  gp_courseMillidegrees :: int

datatype 'a go = Panic | Err string | Ok 'a

text \<open>\<open>time.Date\<close> in UTC, in nanoseconds since the epoch; days and seconds past the end roll over.\<close>

definition leaps :: "int \<Rightarrow> int" where
  "leaps y = y div 4 - y div 100 + y div 400"

definition leap :: "int \<Rightarrow> bool" where
  "leap y \<longleftrightarrow> y mod 4 = 0 \<and> (y mod 100 \<noteq> 0 \<or> y mod 400 = 0)"

definition days_before_month :: "int \<Rightarrow> nat \<Rightarrow> int" where
  "days_before_month y m =
     sum_list (take (m - 1) [31, if leap y then 29 else 28, 31, 30, 31, 30, 31, 31, 30, 31, 30, 31])"

definition date_utc :: "int \<Rightarrow> nat \<Rightarrow> int \<Rightarrow> int \<Rightarrow> int \<Rightarrow> int \<Rightarrow> int" where
  "date_utc y m d hh mm ss =
     ((365 * (y - 1970) + leaps (y - 1) - leaps 1969 + days_before_month y m + d - 1) * 86400
        + hh * 3600 + mm * 60 + ss) * second"

definition raw_micros :: "32 word \<Rightarrow> int" where
  "raw_micros raw = uint raw * 1000000 div 1800000"

definition gps_section :: "gt06Frame \<Rightarrow> string + byte list" where
  "gps_section frame =
     (let payload = fm_payload frame in
      if fm_protocol frame \<noteq> gt06ProtoGPSLBS then Inr payload
      else if length payload < 1 then Inl ''gt06 0x16 payload too short''
      else let lbsLength = unat (hd payload) in
        if lbsLength > 0 \<and> lbsLength + 1 < length payload then Inr (drop (1 + lbsLength) payload) else Inr payload)"

definition gps_time_bad :: "byte list \<Rightarrow> bool" where
  "gps_time_bad p \<longleftrightarrow>
     unat (p ! 1) < 1 \<or> unat (p ! 1) > 12 \<or> unat (p ! 2) < 1 \<or> unat (p ! 2) > 31
     \<or> unat (p ! 3) > 23 \<or> unat (p ! 4) > 59 \<or> unat (p ! 5) > 60"

definition gps_fix :: "byte list \<Rightarrow> gt06GPSPayload" where
  "gps_fix p =
     (let courseStatus = be_uint16 (drop 16 p);
          lat = raw_micros (be_uint32 (drop 7 p)); lon = raw_micros (be_uint32 (drop 11 p))
      in \<lparr>gp_observedAt = date_utc (2000 + uint (p ! 0)) (unat (p ! 1)) (uint (p ! 2)) (uint (p ! 3)) (uint (p ! 4)) (uint (p ! 5)),
          gp_latitudeMicros = wrap_int32 (if courseStatus AND 0x0800 \<noteq> 0 then - lat else lat),
          gp_longitudeMicros = wrap_int32 (if courseStatus AND 0x1000 = 0 then - lon else lon),
          gp_speedMilliknots = uint (p ! 15) * 1000,
          gp_courseMillidegrees = uint (courseStatus AND 0x03FF) * 1000\<rparr>)"

text \<open>The expressions \<open>payload[7:11]\<close>, \<open>payload[11:15]\<close> and \<open>payload[16:18]\<close> slice, which needs capacity;
  \<open>payload[15]\<close> indexes, which needs length.\<close>

definition parseGT06GPS :: "gt06Frame \<Rightarrow> gt06GPSPayload go" where
  "parseGT06GPS frame =
     (case gps_section frame of
        Inl e \<Rightarrow> Err e
      | Inr p \<Rightarrow>
          if length p < 14 then Err ''gt06 gps payload too short''
          else if gps_time_bad p then Err ''gt06 gps datetime out of range''
          else if length p < 16 \<or> length (p @ fm_spare frame) < 18 then Panic
          else Ok (gps_fix (p @ fm_spare frame)))"

section \<open>Replies and sessions\<close>

definition writeGT06Reply :: "byte \<Rightarrow> 16 word \<Rightarrow> byte list" where
  "writeGT06Reply protocol serial =
     (let body = protocol # put_uint16 serial
      in [gt06StartByte, gt06StartByte, 5] @ body @ put_uint16 (crc16X25 (5 # body)) @ [0x0D, 0x0A])"

definition imei_digits :: "byte list \<Rightarrow> byte list" where
  "imei_digits bcd = concat (map (\<lambda>b. [0x30 + drop_bit 4 b, 0x30 + (b AND 0x0F)]) bcd)"

definition fnv1a :: "byte list \<Rightarrow> 32 word" where
  "fnv1a ds = fold (\<lambda>d h. (h XOR ucast d) * 16777619) ds 2166136261"

definition hex8 :: "32 word \<Rightarrow> string" where
  "hex8 h = map (\<lambda>i. hex_digit (unat (drop_bit (4 * i) h AND 15))) (rev [0..<8])"

definition tokenizeIMEI :: "byte list \<Rightarrow> string" where
  "tokenizeIMEI bcd = hex8 (fnv1a (imei_digits bcd))"

text \<open>\<open>sanitizeReceiver\<close>; splitting off the port is the argument \<open>host\<close>.\<close>

definition sanitizeReceiver :: "(string \<Rightarrow> string option) \<Rightarrow> string \<Rightarrow> string" where
  "sanitizeReceiver host source =
     concat (map (\<lambda>c. if c = CHR ''.'' \<or> c = CHR '':'' then ''-'' else if c = CHR ''['' \<or> c = CHR '']'' then [] else [c])
       (case host source of Some h \<Rightarrow> h | None \<Rightarrow> source))"

definition tracker_position :: "string \<Rightarrow> string \<Rightarrow> gt06GPSPayload \<Rightarrow> Position" where
  "tracker_position vesselRef receiver fix =
     \<lparr>po_PositionReportID = [], po_MMSI = [], po_VesselRef = vesselRef, po_SourceClass = ''GSM_TRACKER'',
      po_LatitudeMicros = gp_latitudeMicros fix, po_LongitudeMicros = gp_longitudeMicros fix,
      po_SpeedOverGroundMilliknots = Some (gp_speedMilliknots fix),
      po_CourseOverGroundMillidegrees = Some (gp_courseMillidegrees fix), po_HeadingMillidegrees = None, po_NavStatus = None,
      po_PositionAccuracy = ''UNSPECIFIED'', po_ReceiverID = ''gt06-'' @ receiver, po_AISMessageType = None, po_IMO = [],
      po_Callsign = [], po_ShipName = [], po_Classification = ClassificationPublic, po_ObservedAt = gp_observedAt fix\<rparr>"

definition dedupKey :: "(nat list \<Rightarrow> nat list) \<Rightarrow> string \<Rightarrow> gt06GPSPayload \<Rightarrow> string" where
  "dedupKey sha256 vesselRef fix =
     PayloadHash sha256 (''vref:'' @ vesselRef) 0 (gp_latitudeMicros fix) (gp_longitudeMicros fix)
       (gp_speedMilliknots fix) (gp_courseMillidegrees fix) (gp_observedAt fix)"

text \<open>What one frame does: whether the connection goes on (with which registered reference), ends, or the
  process panics; and the reply.\<close>

datatype after = Continue string | Close | Crash

definition serve_fix :: "externals \<Rightarrow> Pipeline \<Rightarrow> (nat list \<Rightarrow> nat list) \<Rightarrow> string \<Rightarrow> string \<Rightarrow> gt06Frame \<Rightarrow> gt06GPSPayload \<Rightarrow> byte list geo" where
  "serve_fix X P sha256 receiver vesselRef frame fix =
     bindA (attempt (HandlePosition X P
        \<lparr>ip_Position = tracker_position vesselRef receiver fix, ip_PayloadKey = dedupKey sha256 vesselRef fix\<rparr>)) (\<lambda>r.
     case r of
       Inl e \<Rightarrow> seqA (count ''geo_pipeline_errors_total'' ''gt06'') (ret [])
     | Inr _ \<Rightarrow> ret (writeGT06Reply (fm_protocol frame) (fm_serial frame)))"

definition serve_frame ::
  "externals \<Rightarrow> Pipeline \<Rightarrow> (nat list \<Rightarrow> nat list) \<Rightarrow> string \<Rightarrow> string \<Rightarrow> gt06Frame \<Rightarrow> (byte list \<times> after) geo" where
  "serve_frame X P sha256 receiver vesselRef frame =
     (if fm_protocol frame = gt06ProtoLogin
      then if length (fm_payload frame) < 8
           then seqA (count ''geo_gt06_frame_errors_total'' []) (ret ([], Close))
           else ret (writeGT06Reply gt06ProtoLogin (fm_serial frame),
                     Continue (''trk-'' @ tokenizeIMEI (take 8 (fm_payload frame))))
      else if fm_protocol frame = gt06ProtoHeartbeat
      then ret (writeGT06Reply gt06ProtoHeartbeat (fm_serial frame), Continue vesselRef)
      else if fm_protocol frame = gt06ProtoGPS \<or> fm_protocol frame = gt06ProtoGPSLBS
      then (case parseGT06GPS frame of
              Panic \<Rightarrow> ret ([], Crash)
            | Err e \<Rightarrow> seqA (count ''geo_gt06_frame_errors_total'' []) (ret ([], Continue vesselRef))
            | Ok fix \<Rightarrow>
                if vesselRef = [] then seqA (count ''geo_gt06_unregistered_total'' []) (ret ([], Continue vesselRef))
                else bindA (serve_fix X P sha256 receiver vesselRef frame fix) (\<lambda>reply. ret (reply, Continue vesselRef)))
      else seqA (count ''geo_gt06_unsupported_total'' []) (ret ([], Continue vesselRef)))"

section \<open>The connection\<close>

definition frame_label :: "byte \<Rightarrow> string" where
  "frame_label b = ''0x'' @ [hex_digit (unat (drop_bit 4 b)), hex_digit (unat (b AND 15))]"

lemma hunt_length: "hunt s = Some r \<Longrightarrow> length r + 2 \<le> length s"
  by (induction s rule: hunt.induct) (auto split: if_splits list.splits)

lemma readGT06Frame_consumes: "readGT06Frame s = (rest, Inr f) \<Longrightarrow> length rest < length s"
  by (auto simp: readGT06Frame_def read_full_def split: option.splits list.splits if_splits sum.splits dest: hunt_length)

text \<open>The loop of \<open>serve\<close>: the bytes written back, and whether a panic ended it.\<close>

function serve_connection ::
  "externals \<Rightarrow> Pipeline \<Rightarrow> (nat list \<Rightarrow> nat list) \<Rightarrow> string \<Rightarrow> string \<Rightarrow> byte list \<Rightarrow> (byte list \<times> bool) geo" where
  "serve_connection X P sha256 receiver vesselRef stream =
     bindA (asks (x_ctx X)) (\<lambda>alive.
     if \<not> alive then ret ([], False)
     else (case readGT06Frame stream of
         (rest, Inl e) \<Rightarrow> seqA (whenA (e \<noteq> EOF) (count ''geo_gt06_frame_errors_total'' [])) (ret ([], False))
       | (rest, Inr frame) \<Rightarrow>
           seqA (count ''geo_gt06_frames_total'' (frame_label (fm_protocol frame)))
           (bindA (serve_frame X P sha256 receiver vesselRef frame) (\<lambda>(reply, next).
            case next of
              Close \<Rightarrow> ret (reply, False)
            | Crash \<Rightarrow> ret (reply, True)
            | Continue vesselRef' \<Rightarrow>
                bindA (serve_connection X P sha256 receiver vesselRef' rest) (\<lambda>(replies, crashed). ret (reply @ replies, crashed))))))"
  by pat_completeness auto
termination
  by (relation "measure (\<lambda>(_, _, _, _, _, stream). length stream)") (auto dest: readGT06Frame_consumes [OF sym])

declare serve_connection.simps [simp del]

section \<open>The checksum\<close>

text \<open>A round is injective: 0x8408 has its highest bit set and a shifted register has not, so the branch
  taken can be read off the result.\<close>

lemma crc_round_bit: "bit (crc_round c) n \<longleftrightarrow> bit c (Suc n) \<noteq> (bit c 0 \<and> bit (0x8408 :: 16 word) n)"
  by (auto simp: crc_round_def bit_xor_iff bit_drop_bit_eq and_one_eq bit_0 odd_iff_mod_2_eq_one even_iff_mod_2_eq_zero)

lemma crc_round_inj: "crc_round a = crc_round b \<Longrightarrow> a = b"
proof -
  assume eq: "crc_round a = crc_round b"
  have top: "bit (crc_round c) 15 \<longleftrightarrow> bit c 0" for c
  proof -
    have "\<not> bit c 16" using bit_imp_le_length by fastforce
    moreover have "bit (0x8408 :: 16 word) 15" by code_simp
    ultimately show ?thesis by (simp add: crc_round_bit)
  qed
  have "bit a 0 \<longleftrightarrow> bit b 0" using eq top [of a] top [of b] by simp
  moreover from this have "bit a (Suc n) \<longleftrightarrow> bit b (Suc n)" for n
    using eq crc_round_bit [of a n] crc_round_bit [of b n] by auto
  ultimately have "bit a n \<longleftrightarrow> bit b n" for n by (cases n) auto
  then show "a = b" by (simp add: bit_eq_iff)
qed

lemma crc_rounds_inj: "(crc_round ^^ 8) a = (crc_round ^^ 8) b \<Longrightarrow> a = b"
  by (rule injD [OF inj_fn]) (auto intro: injI crc_round_inj)

lemma xor_inj: "(a :: 16 word) XOR c = b XOR c \<Longrightarrow> a = b"
  by (metis xor.assoc xor.right_neutral xor_self_eq)

lemma crc_byte_inj: "crc_byte v a = crc_byte v b \<Longrightarrow> a = b"
  unfolding crc_byte_def by (drule crc_rounds_inj) (rule xor_inj)

lemma crc_byte_inj_byte: "crc_byte v c = crc_byte u c \<Longrightarrow> v = u"
proof -
  assume "crc_byte v c = crc_byte u c"
  then have "c XOR ucast v = c XOR (ucast u :: 16 word)"
    unfolding crc_byte_def by (rule crc_rounds_inj)
  then have eq: "(ucast v :: 16 word) = ucast u"
    by (metis xor.commute xor_inj)
  show "v = u"
  proof (rule bit_word_eqI)
    fix n assume n: "n < LENGTH(8)"
    have "bit (ucast v :: 16 word) n \<longleftrightarrow> bit (ucast u :: 16 word) n" unfolding eq ..
    then show "bit v n \<longleftrightarrow> bit u n" using n by (simp add: bit_ucast_iff)
  qed
qed

lemma fold_crc_inj: "fold crc_byte ys a = fold crc_byte ys b \<Longrightarrow> a = b"
  by (induction ys arbitrary: a b) (auto dest: crc_byte_inj)

lemma crc16X25_one_byte: "crc16X25 (xs @ v # ys) = crc16X25 (xs @ u # ys) \<Longrightarrow> v = u"
  unfolding crc16X25_def by (auto dest: fold_crc_inj crc_byte_inj_byte)

section \<open>Framing facts\<close>

lemma put_uint16_length [simp]: "length (put_uint16 v) = 2"
  by (simp add: put_uint16_def)

lemma be_put_uint16 [simp]: "be_uint16 (put_uint16 v @ r) = v"
  by (rule bit_word_eqI) (auto simp: be_uint16_def put_uint16_def bit_simps)

lemma byte_bit: "bit (b :: byte) n \<Longrightarrow> n < 8"
  using bit_imp_le_length by fastforce

lemma put_be_uint16: "length bs = 2 \<Longrightarrow> put_uint16 (be_uint16 bs) = bs"
  by (auto simp: length_Suc_conv numeral_2_eq_2 be_uint16_def put_uint16_def intro!: bit_word_eqI simp: bit_simps
      dest: byte_bit)

definition encode_frame :: "byte \<Rightarrow> byte list \<Rightarrow> 16 word \<Rightarrow> byte list" where
  "encode_frame protocol payload serial =
     (let len = word_of_nat (length payload + 5); body = protocol # payload @ put_uint16 serial
      in [gt06StartByte, gt06StartByte, len] @ body @ put_uint16 (crc16X25 (len # body)) @ [0x0D, 0x0A])"

definition wire_frame :: "byte \<Rightarrow> byte list \<Rightarrow> 16 word \<Rightarrow> gt06Frame" where
  "wire_frame protocol payload serial =
     \<lparr>fm_protocol = protocol, fm_payload = payload, fm_serial = serial,
      fm_spare = put_uint16 serial
        @ put_uint16 (crc16X25 (word_of_nat (length payload + 5) # protocol # payload @ put_uint16 serial))\<rparr>"

lemma hunt_junk: "gt06StartByte \<notin> set junk \<Longrightarrow> hunt (junk @ gt06StartByte # gt06StartByte # s) = Some s"
  by (induction junk) auto

lemma hunt_found: "hunt s = Some r \<Longrightarrow> \<exists>junk. s = junk @ gt06StartByte # gt06StartByte # r"
  by (induction s rule: hunt.induct) (auto split: if_splits list.splits intro: exI [of _ "[]"] exI [of _ "_ # _"] dest: sym)

lemma length_byte: "n \<le> 128 \<Longrightarrow> unat (word_of_nat n :: byte) = n"
  by (simp add: unat_of_nat)

text \<open>What follows the start bytes, cut at the places the reader cuts it.\<close>

lemma verify_frame_cut:
  assumes "length crc = 2"
  shows "verify_frame len (protocol # payload @ put_uint16 serial @ crc) stop =
     (if stop \<noteq> [0x0D, 0x0A] then Inl StopInvalid
      else if crc16X25 (len # protocol # payload @ put_uint16 serial) \<noteq> be_uint16 crc then Inl CrcMismatch
      else Inr \<lparr>fm_protocol = protocol, fm_payload = payload, fm_serial = serial, fm_spare = put_uint16 serial @ crc\<rparr>)"
proof -
  have n: "length (protocol # payload @ put_uint16 serial @ crc) = Suc (length payload + 4)" using assms by simp
  show ?thesis unfolding verify_frame_def n using assms by (simp add: numeral_eq_Suc)
qed

lemma readGT06Frame_after:
  assumes "5 \<le> unat len" "unat len \<le> 128" "length body = unat len" "length stop = 2" "gt06StartByte \<notin> set junk"
  shows "readGT06Frame (junk @ gt06StartByte # gt06StartByte # len # body @ stop @ rest) = (rest, verify_frame len body stop)"
  using assms by (simp add: readGT06Frame_def hunt_junk read_full_def)
lemma encode_frame_append:
  "encode_frame protocol payload serial @ rest =
     gt06StartByte # gt06StartByte # word_of_nat (length payload + 5)
       # (protocol # payload @ put_uint16 serial
            @ put_uint16 (crc16X25 (word_of_nat (length payload + 5) # protocol # payload @ put_uint16 serial)))
       @ [0x0D, 0x0A] @ rest"
  by (simp add: encode_frame_def Let_def)

lemma readGT06Frame_encoded:
  assumes "length payload \<le> 123" "gt06StartByte \<notin> set junk"
  shows "readGT06Frame (junk @ encode_frame protocol payload serial @ rest) = (rest, Inr (wire_frame protocol payload serial))"
proof -
  have n: "unat (word_of_nat (length payload + 5) :: byte) = length payload + 5"
    using assms(1) by (intro length_byte) simp
  show ?thesis
    unfolding encode_frame_append
    by (subst readGT06Frame_after) (use assms in \<open>simp_all add: n verify_frame_cut wire_frame_def be_put_uint16 [of _ "[]", simplified] del: of_nat_add\<close>)
qed

lemma body_cut:
  assumes "5 \<le> length body"
  obtains protocol payload serial crc where "body = protocol # payload @ put_uint16 serial @ crc" "length crc = 2"
proof -
  define k where "k = length body - 4"
  have body: "body = take k body @ take 2 (drop k body) @ drop 2 (drop k body)"
    by (simp only: append_take_drop_id)
  obtain protocol payload where "take k body = protocol # payload"
    using assms by (cases "take k body") (auto simp: k_def)
  moreover have "put_uint16 (be_uint16 (take 2 (drop k body))) = take 2 (drop k body)"
    by (rule put_be_uint16) (use assms in \<open>simp add: k_def\<close>)
  moreover have "length (drop 2 (drop k body)) = 2" using assms by (simp add: k_def)
  ultimately show thesis using that body by (metis append_Cons)
qed

lemma readGT06Frame_decoded:
  assumes "readGT06Frame s = (rest, Inr f)"
  shows "\<exists>junk. s = junk @ encode_frame (fm_protocol f) (fm_payload f) (fm_serial f) @ rest
     \<and> length (fm_payload f) \<le> 123 \<and> f = wire_frame (fm_protocol f) (fm_payload f) (fm_serial f)"
proof -
  from assms obtain len s1 where h: "hunt s = Some (len # s1)" and l: "5 \<le> unat len" "unat len \<le> 128"
    and n: "unat len \<le> length s1"
    and r: "rest = drop 2 (drop (unat len) s1)" and v: "verify_frame len (take (unat len) s1) (take 2 (drop (unat len) s1)) = Inr f"
    by (auto simp: readGT06Frame_def read_full_def not_less split: option.splits list.splits if_splits sum.splits)
  define body where "body = take (unat len) s1"
  have bl: "length body = unat len" using n by (simp add: body_def)
  with l obtain protocol payload serial crc
    where body: "body = protocol # payload @ put_uint16 serial @ crc" and c2: "length crc = 2"
    by (metis body_cut)
  have pl: "unat len = length payload + 5" using bl c2 by (simp add: body)
  then have len: "len = word_of_nat (length payload + 5)" by (metis of_nat_unat ucast_id)
  from v [folded body_def, unfolded body verify_frame_cut [OF c2]]
  have ok: "take 2 (drop (unat len) s1) = [0x0D, 0x0A]" "crc16X25 (len # protocol # payload @ put_uint16 serial) = be_uint16 crc"
    "f = \<lparr>fm_protocol = protocol, fm_payload = payload, fm_serial = serial, fm_spare = put_uint16 serial @ crc\<rparr>"
    by (auto split: if_splits)
  have crc: "crc = put_uint16 (crc16X25 (len # protocol # payload @ put_uint16 serial))"
    using put_be_uint16 [OF c2] ok(2) by simp
  from hunt_found [OF h] obtain junk where s: "s = junk @ gt06StartByte # gt06StartByte # len # s1" by auto
  have s1: "s1 = body @ [0x0D, 0x0A] @ rest"
    using ok(1) r by (metis append_take_drop_id body_def)
  have "s = junk @ encode_frame protocol payload serial @ rest"
    unfolding encode_frame_append s s1 body crc len by simp
  moreover have "f = wire_frame protocol payload serial"
    unfolding ok(3) wire_frame_def crc len by simp
  moreover have "length payload \<le> 123" using pl l by simp
  ultimately show ?thesis by (auto simp: wire_frame_def)
qed

lemma update_differs: "i < length xs \<Longrightarrow> u \<noteq> xs ! i \<Longrightarrow> crc16X25 (xs[i := u]) \<noteq> crc16X25 xs"
  by (metis crc16X25_one_byte id_take_nth_drop upd_conv_take_nth_drop)

lemma be_uint16_inj: "length a = 2 \<Longrightarrow> length b = 2 \<Longrightarrow> be_uint16 a = be_uint16 b \<Longrightarrow> a = b"
  by (metis put_be_uint16)

text \<open>The reader on a frame whose counted bytes were tampered with.\<close>

lemma readGT06Frame_tampered:
  assumes "length body = length payload + 3" "length crc = 2" "length payload \<le> 123"
    "crc16X25 (word_of_nat (length payload + 5) # body) \<noteq> be_uint16 crc"
  shows "readGT06Frame (gt06StartByte # gt06StartByte # word_of_nat (length payload + 5) # body @ crc @ [0x0D, 0x0A] @ rest)
     = (rest, Inl CrcMismatch)"
proof -
  have n: "unat (word_of_nat (length payload + 5) :: byte) = length payload + 5"
    using assms(3) by (intro length_byte) simp
  have "verify_frame (word_of_nat (length payload + 5)) (body @ crc) [0x0D, 0x0A] = Inl CrcMismatch"
    using assms(1,2,4) by (simp add: verify_frame_def)
  then show ?thesis
    using readGT06Frame_after [of "word_of_nat (length payload + 5)" "body @ crc" "[0x0D, 0x0A]" "[]" rest] assms n by simp
qed
section \<open>A connection stores nothing\<close>

text \<open>A tracker position has no MMSI, and only mobile reports may come without one.\<close>

lemma tracker_position_refused:
  "StaticChecks (validation_report ((tracker_position v r fix)\<lparr>po_PositionReportID := i\<rparr>)) \<noteq> []"
proof -
  have "reason_applies ReasonMMSIFormat (validation_report ((tracker_position v r fix)\<lparr>po_PositionReportID := i\<rparr>))"
    by (simp add: admissible_mmsi_def mmsiPattern_def validation_report_def tracker_position_def APP_REPORT_def)
  then show ?thesis by (metis StaticChecks_empty_iff)
qed

definition only_quarantines :: "world \<Rightarrow> world \<Rightarrow> bool" where
  "only_quarantines w w' \<longleftrightarrow> w_db w' = w_db w
     \<and> (\<exists>ms. w_kafka w' = w_kafka w @ ms \<and> (\<forall>m\<in>set ms. km_topic m = TopicVesselQuarantine))"

lemma only_quarantines_refl [simp]: "only_quarantines w w"
  by (simp add: only_quarantines_def)

lemma only_quarantines_trans: "only_quarantines u v \<Longrightarrow> only_quarantines v w \<Longrightarrow> only_quarantines u w"
  unfolding only_quarantines_def by fastforce

lemma only_quarantines_cong [simp]:
  "only_quarantines u (w\<lparr>w_tick := n\<rparr>) = only_quarantines u w"
  "only_quarantines u (w\<lparr>w_metrics := c\<rparr>) = only_quarantines u w"
  "only_quarantines (u\<lparr>w_tick := n\<rparr>) w = only_quarantines u w"
  "only_quarantines (u\<lparr>w_metrics := c\<rparr>) w = only_quarantines u w"
  by (simp_all add: only_quarantines_def)

lemma quarantine_all_only:
  "wp (eachA (quarantine_counted X P p) fs) (\<lambda>_. only_quarantines w) (\<lambda>_. only_quarantines w) w"
  by (rule wp_mono [OF quarantine_all_wp]) (auto simp: only_quarantines_def dest!: quarantined_topic)

lemma quarantine_all_nonempty:
  "fs \<noteq> [] \<Longrightarrow> wp (eachA (quarantine_counted X P p) fs)
     (\<lambda>_ w'. \<exists>m ms. w_kafka w' = w_kafka w @ m # ms \<and> km_topic m = TopicVesselQuarantine) (\<lambda>_ _. True) w"
  by (rule wp_mono [OF quarantine_all_wp]) (auto simp: quarantine_message_def neq_Nil_conv list_all2_Cons1)

lemma HandlePosition_tracker_refused:
  "ip_Position ing = tracker_position v r fix \<Longrightarrow>
     wp (HandlePosition X P ing) (\<lambda>_ w'. only_quarantines w w' \<and> w_kafka w' \<noteq> w_kafka w) (\<lambda>_. only_quarantines w) w"
proof -
  assume ing: "ip_Position ing = tracker_position v r fix"
  have new: "po_PositionReportID (tracker_position v r fix) = []" by (simp add: tracker_position_def)
  have go: "wp (eachA (quarantine_counted X P p) fs)
      (\<lambda>_ w'. only_quarantines w w' \<and> w_kafka w' \<noteq> w_kafka w) (\<lambda>_. only_quarantines w) u"
    if "only_quarantines w u" "w_kafka u = w_kafka w" "fs \<noteq> []" for p fs u
    using quarantine_all_only [of X P p fs u] quarantine_all_nonempty [OF that(3), of X P p u] that(1,2)
    by (auto simp: wp_def split: prod.splits sum.splits intro: only_quarantines_trans)
  show ?thesis
    unfolding HandlePosition_def ing with_report_id_def new Let_def
    by (simp add: wp_simps tracker_position_refused go)
qed

lemma serve_fix_wp:
  "wp (serve_fix X P sha256 receiver v f fix)
     (\<lambda>reply w'. only_quarantines w w' \<and> (reply = [] \<or> reply = writeGT06Reply (fm_protocol f) (fm_serial f) \<and> w_kafka w' \<noteq> w_kafka w))
     (\<lambda>_ _. False) w"
  unfolding serve_fix_def wp_bind wp_attempt
  by (rule wp_mono [OF HandlePosition_tracker_refused]) (auto simp: wp_simps)

lemma serve_frame_wp:
  "wp (serve_frame X P sha256 receiver v f)
     (\<lambda>(reply, next) w'. only_quarantines w w' \<and> (reply = [] \<or> reply = writeGT06Reply (fm_protocol f) (fm_serial f)))
     (\<lambda>_ _. False) w"
  unfolding serve_frame_def
  by (cases "parseGT06GPS f") (auto simp: wp_simps intro!: wp_mono [OF serve_fix_wp])

text \<open>The frames a reader finds in a stream until the first error.\<close>

function frames_in :: "byte list \<Rightarrow> gt06Frame list" where
  "frames_in s = (case readGT06Frame s of (rest, Inr f) \<Rightarrow> f # frames_in rest | (rest, Inl e) \<Rightarrow> [])"
  by pat_completeness auto
termination
  by (relation "measure length") (auto dest: readGT06Frame_consumes [OF sym])

declare frames_in.simps [simp del]

definition frame_reply :: "gt06Frame \<Rightarrow> byte list" where
  "frame_reply f = writeGT06Reply (fm_protocol f) (fm_serial f)"

definition answered :: "byte list \<Rightarrow> byte list \<Rightarrow> bool" where
  "answered s replies \<longleftrightarrow> (\<exists>fs. subseq fs (frames_in s) \<and> replies = concat (map frame_reply fs))"

lemma answered_Nil: "answered s []"
  unfolding answered_def by (rule exI [of _ "[]"]) simp

lemma answered_step:
  assumes "readGT06Frame s = (rest, Inr f)" "reply = [] \<or> reply = frame_reply f" "answered rest replies"
  shows "answered s (reply @ replies)"
proof -
  from assms(3) obtain fs where fs: "subseq fs (frames_in rest)" "replies = concat (map frame_reply fs)"
    by (auto simp: answered_def)
  have s: "frames_in s = f # frames_in rest" using assms(1) by (subst frames_in.simps) simp
  from assms(2) show ?thesis
  proof
    assume "reply = []"
    then show ?thesis unfolding answered_def s using fs by (auto intro: list_emb_Cons)
  next
    assume "reply = frame_reply f"
    then show ?thesis unfolding answered_def s using fs by (intro exI [of _ "f # fs"]) simp
  qed
qed

lemma serve_connection_wp:
  "wp (serve_connection X P sha256 receiver v s)
     (\<lambda>(replies, crashed) w'. only_quarantines w w' \<and> answered s replies) (\<lambda>_ _. False) w"
proof (induction X P sha256 receiver v s arbitrary: w rule: serve_connection.induct)
  case (1 X P sha256 receiver v s)
  show ?case
  proof (cases "readGT06Frame s")
    case (Pair rest r)
    show ?thesis
    proof (cases r)
      case (Inl e)
      then show ?thesis
        by (subst serve_connection.simps) (auto simp: Pair wp_simps answered_Nil)
    next
      case (Inr f)
      note rd = Pair [unfolded Inr]
      note ih = "1.IH" [OF _ rd [symmetric] refl, of True, simplified]
      have step: "wp (serve_frame X P sha256 receiver v f) (\<lambda>x w'. case x of (reply, y) \<Rightarrow> wp (case y of
              Close \<Rightarrow> ret (reply, False) | Crash \<Rightarrow> ret (reply, True)
            | Continue v' \<Rightarrow> bindA (serve_connection X P sha256 receiver v' rest) (\<lambda>(replies, crashed). ret (reply @ replies, crashed)))
          (\<lambda>(replies, crashed) w'. only_quarantines w w' \<and> answered s replies) (\<lambda>_ _. False) w') (\<lambda>_ _. False) u"
        if u: "only_quarantines w u" for u
      proof (rule wp_mono [OF serve_frame_wp], goal_cases)
        case (1 rn u')
        then obtain reply nx where rn: "rn = (reply, nx)" and q: "only_quarantines u u'" "reply = [] \<or> reply = frame_reply f"
          by (auto simp: frame_reply_def)
        have q': "only_quarantines w u'" using u q(1) by (rule only_quarantines_trans)
        show ?case
        proof (cases nx)
          case (Continue v')
          show ?thesis unfolding rn Continue
            by (simp add: wp_simps, rule wp_mono [OF ih])
              (use q q' in \<open>auto simp: wp_simps intro: only_quarantines_trans answered_step [OF rd]\<close>)
        qed (use q' answered_step [OF rd q(2) answered_Nil] in \<open>auto simp: rn wp_simps\<close>)
      qed simp
      show ?thesis
        by (subst serve_connection.simps) (simp add: rd wp_simps step answered_Nil)
    qed
  qed
qed

section \<open>Fixes\<close>

lemma raw_micros_bounds: "0 \<le> raw_micros r" "raw_micros r \<le> 2386092941"
proof -
  have "uint r < 4294967296" using uint_bounded [of r] by simp
  then show "0 \<le> raw_micros r" "raw_micros r \<le> 2386092941"
    by (simp_all add: raw_micros_def pos_imp_zdiv_nonneg_iff)
qed

text \<open>The narrowing conversion is exact or leaves the physical range.\<close>

lemma wrap_coordinate:
  assumes "\<bar>n\<bar> \<le> 2386092941"
  shows "wrap_int32 n = n \<or> \<bar>wrap_int32 n\<bar> > 1900000000"
proof -
  have over: "(n + 2147483648) mod 4294967296 = n - 2147483648" if "2147483648 \<le> n"
    using that assms mod_pos_pos_trivial [of "n - 2147483648" 4294967296] minus_mod_self2 [of "n + 2147483648" 4294967296] by simp
  have under: "(n + 2147483648) mod 4294967296 = n + 6442450944" if "n < - 2147483648"
    using that assms mod_pos_pos_trivial [of "n + 6442450944" 4294967296] mod_add_self2 [of "n + 2147483648" 4294967296]
    by (simp add: algebra_simps)
  consider "- 2147483648 \<le> n \<and> n < 2147483648" | "2147483648 \<le> n" | "n < - 2147483648" by linarith
  then show ?thesis
    by cases (use assms in \<open>simp_all add: wrap_int32_id, simp_all add: wrap_int32_def over under\<close>)
qed

lemma wire_frame_sel [simp]:
  "fm_protocol (wire_frame p pl s) = p" "fm_payload (wire_frame p pl s) = pl" "fm_serial (wire_frame p pl s) = s"
  "length (fm_spare (wire_frame p pl s)) = 4"
  by (simp_all add: wire_frame_def)

lemma serve_connection_crash:
  assumes "readGT06Frame s = (rest, Inr f)" "fm_protocol f = gt06ProtoGPS" "parseGT06GPS f = Panic" "x_ctx X (w_tick w)"
  shows "\<exists>w'. serve_connection X P sha256 receiver v s w = (w', Inr ([], True))"
  using assms by (subst serve_connection.simps)
    (simp add: serve_frame_def run_simps asks_def count_def gt06ProtoGPS_def gt06ProtoLogin_def gt06ProtoHeartbeat_def)

section \<open>Properties\<close>

text \<open>
  C33. Framing round trip. A frame written in the protocol's layout (start marker, length, protocol number,
  up to 123 bytes of payload, serial, X.25 checksum, stop bytes) behind bytes that are not start bytes is
  read back with exactly its protocol number, payload and serial, and the bytes after it stay unread;
  and whatever the reader accepts is such a frame behind some skipped bytes.
\<close>

theorem readGT06Frame_roundtrip:
  "(length payload \<le> 123 \<longrightarrow> gt06StartByte \<notin> set junk \<longrightarrow>
      readGT06Frame (junk @ encode_frame protocol payload serial @ rest) = (rest, Inr (wire_frame protocol payload serial)))
   \<and> (readGT06Frame s = (rest', Inr f) \<longrightarrow>
      (\<exists>skipped. s = skipped @ encode_frame (fm_protocol f) (fm_payload f) (fm_serial f) @ rest'
         \<and> length (fm_payload f) \<le> 123 \<and> f = wire_frame (fm_protocol f) (fm_payload f) (fm_serial f)))"
  using readGT06Frame_encoded readGT06Frame_decoded by blast

theorem readGT06Frame_roundtrip_witness:
  "readGT06Frame ([1, 2] @ encode_frame 0x13 [7, 8] 9 @ [3]) = ([3], Inr (wire_frame 0x13 [7, 8] 9))"
  using readGT06Frame_roundtrip [of "[7, 8]" "[1, 2]" "0x13" 9 "[3]" "[]" "[]" "wire_frame 0 [] 0"]
  by (simp add: gt06StartByte_def)

text \<open>
  C34. A damaged frame is refused. Change any one byte of a frame between its length byte and its stop bytes
  (protocol number, payload, serial or checksum) to another value: the reader consumes the frame and
  reports a checksum mismatch.
\<close>

theorem readGT06Frame_detects_damage:
  assumes "length payload \<le> 123" "3 \<le> i" "i < length payload + 8" "u \<noteq> encode_frame protocol payload serial ! i"
  shows "readGT06Frame ((encode_frame protocol payload serial)[i := u] @ rest) = (rest, Inl CrcMismatch)"
proof -
  define len where "len = (word_of_nat (length payload + 5) :: byte)"
  define body where "body = protocol # payload @ put_uint16 serial"
  define crc where "crc = put_uint16 (crc16X25 (len # body))"
  have bl: "length body = length payload + 3" "length crc = 2" by (simp_all add: body_def crc_def)
  have frame: "encode_frame protocol payload serial = gt06StartByte # gt06StartByte # len # body @ crc @ [0x0D, 0x0A]"
    by (simp add: encode_frame_def Let_def len_def body_def crc_def)
  have "i = Suc (Suc (Suc (i - 3)))" using assms(2) by simp
  then obtain j where j: "i = Suc (Suc (Suc j))" by blast
  show ?thesis
  proof (cases "j < length body")
    case True
    have "crc16X25 ((len # body)[Suc j := u]) \<noteq> crc16X25 (len # body)"
      by (rule update_differs) (use True assms(4) in \<open>simp_all add: frame j nth_append\<close>)
    then show ?thesis
      using readGT06Frame_tampered [of "body[j := u]" payload crc rest] True assms(1) bl
      by (simp add: frame j list_update_append len_def crc_def be_put_uint16 [of _ "[]", simplified] del: of_nat_add)
  next
    case False
    define k where "k = j - length body"
    have k: "k < 2" "j = length body + k" using False assms(3) bl by (simp_all add: k_def j)
    have "crc[k := u] \<noteq> crc"
      using assms(4) k bl by (metis frame j nth_Cons_Suc nth_append_length_plus nth_list_update_eq nth_append)
    then have "crc16X25 (len # body) \<noteq> be_uint16 (crc[k := u])"
      using be_uint16_inj [of "crc[k := u]" crc] bl by (auto simp: crc_def be_put_uint16 [of _ "[]", simplified])
    then show ?thesis
      using readGT06Frame_tampered [of body payload "crc[k := u]" rest] assms(1) bl k
      by (simp add: frame j list_update_append len_def del: of_nat_add)
  qed
qed

theorem readGT06Frame_detects_damage_witness:
  "readGT06Frame ((encode_frame 0x12 [7, 8] 9)[4 := 6] @ [3]) = ([3], Inl CrcMismatch)"
  using readGT06Frame_detects_damage [of "[7, 8]" 4 6 "0x12" 9 "[3]"]
  by (simp add: encode_frame_def)

text \<open>
  C35. A tracker connection stores nothing and publishes no position. For every byte stream, in every
  state of the world and under every outage, serving the connection ends; it leaves the tables as they were,
  and what it puts on Kafka is quarantine records only, because a tracker position carries no MMSI and the
  validator admits a missing MMSI from the mobile application only. What it writes back are acknowledgements
  of frames that passed the framing and checksum checks, in the order of the frames.
\<close>

theorem gt06_positions_always_quarantined:
  "\<exists>w' replies crashed fs.
     serve_connection X P sha256 receiver vesselRef stream w = (w', Inr (replies, crashed))
     \<and> w_db w' = w_db w
     \<and> (\<exists>ms. w_kafka w' = w_kafka w @ ms \<and> list_all (\<lambda>m. km_topic m = TopicVesselQuarantine) ms)
     \<and> subseq fs (frames_in stream)
     \<and> replies = concat (map (\<lambda>f. writeGT06Reply (fm_protocol f) (fm_serial f)) fs)"
proof -
  obtain w' r where run: "serve_connection X P sha256 receiver vesselRef stream w = (w', r)" by (meson surj_pair)
  note wp = serve_connection_wp [of X P sha256 receiver vesselRef stream w, unfolded wp_def run]
  then obtain replies crashed where r: "r = Inr (replies, crashed)" by (cases r) auto
  with wp have "only_quarantines w w'" "answered stream replies" by auto
  then show ?thesis
    unfolding run r only_quarantines_def answered_def frame_reply_def list_all_iff by blast
qed

text \<open>
  A short location frame stops the service or invents a course. The parser checks for 14 bytes of GPS
  section but uses 18. A well-formed 0x12 frame with 14 or 15 bytes and a plausible date makes the connection's
  goroutine panic, before any login; with 16 bytes the two bytes of the frame's serial number, which follow the
  payload in the receive buffer, are taken for the course and the hemispheres.
\<close>

theorem gt06_short_fix:
  assumes "\<not> gps_time_bad payload"
  shows "(length payload = 14 \<or> length payload = 15 \<longrightarrow> x_ctx X (w_tick w) \<longrightarrow>
      (\<exists>w'. serve_connection X P sha256 receiver vesselRef (encode_frame gt06ProtoGPS payload serial @ rest) w
         = (w', Inr ([], True))))
    \<and> (length payload = 16 \<longrightarrow>
      (\<exists>fix. parseGT06GPS (wire_frame gt06ProtoGPS payload serial) = Ok fix
        \<and> gp_courseMillidegrees fix = uint (serial AND 0x03FF) * 1000))"
proof -
  have sec: "gps_section (wire_frame gt06ProtoGPS payload serial) = Inr payload"
    by (simp add: gps_section_def gt06ProtoGPS_def gt06ProtoGPSLBS_def)
  have crash: "\<exists>w'. serve_connection X P sha256 receiver vesselRef (encode_frame gt06ProtoGPS payload serial @ rest) w
      = (w', Inr ([], True))" if n: "length payload = 14 \<or> length payload = 15" and alive: "x_ctx X (w_tick w)"
  proof (rule serve_connection_crash [OF _ _ _ alive])
    show "readGT06Frame (encode_frame gt06ProtoGPS payload serial @ rest) = (rest, Inr (wire_frame gt06ProtoGPS payload serial))"
      using readGT06Frame_encoded [of payload "[]"] n by auto
    show "parseGT06GPS (wire_frame gt06ProtoGPS payload serial) = Panic"
      using n assms by (auto simp: parseGT06GPS_def sec)
  qed simp
  have course: "\<exists>fix. parseGT06GPS (wire_frame gt06ProtoGPS payload serial) = Ok fix
      \<and> gp_courseMillidegrees fix = uint (serial AND 0x03FF) * 1000" if "length payload = 16"
    using that assms by (simp add: parseGT06GPS_def sec gps_fix_def Let_def) (simp add: wire_frame_def)
  show ?thesis using crash course by blast
qed

theorem gt06_short_fix_witness:
  "(\<exists>w'. serve_connection calm sample_pipeline id ''r'' [] (encode_frame gt06ProtoGPS [24, 5, 6, 7, 8, 9, 0, 0, 0, 0, 0, 0, 0, 0] 1 @ []) empty_world
      = (w', Inr ([], True)))
   \<and> (\<exists>fix. parseGT06GPS (wire_frame gt06ProtoGPS [24, 5, 6, 7, 8, 9, 0, 0, 0, 0, 0, 0, 0, 0, 0, 0] 90) = Ok fix
        \<and> gp_courseMillidegrees fix = 90000)"
proof -
  have good: "\<not> gps_time_bad (24 # 5 # 6 # 7 # 8 # 9 # xs)" for xs by (simp add: gps_time_bad_def)
  have alive: "x_ctx calm (w_tick empty_world)" by code_simp
  show ?thesis
    using gt06_short_fix [OF good [of "[0, 0, 0, 0, 0, 0, 0, 0]"], of calm empty_world sample_pipeline id "''r''" "[]" 1 "[]"] alive
      gt06_short_fix [OF good [of "[0, 0, 0, 0, 0, 0, 0, 0, 0, 0]"], of calm empty_world sample_pipeline id "''r''" "[]" 90 "[]"]
    by simp
qed

text \<open>
  Tracker coordinates are exact or unmistakably out of range. The signed micro-degrees of a parsed fix
  are the transmitted value (in 1/30000 minutes) divided by 1.8 and rounded towards zero, with the sign of the
  status word's hemisphere bits, unless the 32-bit narrowing wrapped; and a wrapped coordinate is beyond 1,900
  degrees, so the bounds check refuses it.
\<close>

theorem parseGT06GPS_coordinates:
  assumes "parseGT06GPS frame = Ok fix"
  shows "\<exists>p. gps_section frame = Inr p \<and>
     (let q = p @ fm_spare frame; status = be_uint16 (drop 16 q);
          exact = (\<lambda>n raw positive. 0 \<le> (if positive then n else - n) \<and> 9 * \<bar>n\<bar> \<le> 5 * uint raw \<and> 5 * uint raw < 9 * \<bar>n\<bar> + 9);
          far = (\<lambda>n. \<bar>n\<bar> > 1900000000)
      in (exact (gp_latitudeMicros fix) (be_uint32 (drop 7 q)) (status AND 0x0800 = 0) \<or> far (gp_latitudeMicros fix))
       \<and> (exact (gp_longitudeMicros fix) (be_uint32 (drop 11 q)) (status AND 0x1000 \<noteq> 0) \<or> far (gp_longitudeMicros fix)))"
proof -
  from assms obtain p where p: "gps_section frame = Inr p" and fx: "fix = gps_fix (p @ fm_spare frame)"
    by (auto simp: parseGT06GPS_def split: sum.splits if_splits)
  have key: "0 \<le> (if b then n else - n) \<and> 9 * \<bar>n\<bar> \<le> 5 * uint raw \<and> 5 * uint raw < 9 * \<bar>n\<bar> + 9 \<or> \<bar>n\<bar> > 1900000000"
    if n: "n = wrap_int32 (if b then raw_micros raw else - raw_micros raw)" for n raw b
  proof -
    have m: "9 * raw_micros raw \<le> 5 * uint raw" "5 * uint raw < 9 * raw_micros raw + 9"
      unfolding raw_micros_def by simp_all
    show ?thesis
      using wrap_coordinate [of "if b then raw_micros raw else - raw_micros raw"] raw_micros_bounds [of raw] m n
      by (auto split: if_splits)
  qed
  show ?thesis
    unfolding Let_def fx by (intro exI [of _ p] conjI p key) (simp_all add: gps_fix_def Let_def)
qed

theorem parseGT06GPS_coordinates_witness:
  "\<exists>fix. parseGT06GPS (wire_frame 0x12 [24, 5, 6, 7, 8, 9, 0, 0, 0, 0, 9, 0, 0, 0, 18, 0, 16, 0] 1) = Ok fix
     \<and> gp_latitudeMicros fix = 5"
proof -
  let ?f = "wire_frame 0x12 [24, 5, 6, 7, 8, 9, 0, 0, 0, 0, 9, 0, 0, 0, 18, 0, 16, 0] 1"
  have ok: "parseGT06GPS ?f = Ok (gps_fix ([24, 5, 6, 7, 8, 9, 0, 0, 0, 0, 9, 0, 0, 0, 18, 0, 16, 0] @ fm_spare ?f))"
    by (simp add: parseGT06GPS_def gps_section_def gt06ProtoGPSLBS_def gps_time_bad_def)
  show ?thesis
    using parseGT06GPS_coordinates [OF ok] unfolding ok
    by (simp add: gps_section_def gt06ProtoGPSLBS_def gps_fix_def be_uint32_def be_uint16_def Let_def wrap_int32_def raw_micros_def)
qed

end
