(* ===== verification/Safety_Store.thy ===== *)
theory Safety_Store
  imports Dedup Zone_Store
begin

text \<open>
  Inspections, search and rescue, and accident investigation (\<open>internal/store/safety.go\<close>, migration 0016).

  Every call is one tenant-bound transaction. The policies restrict a statement to the rows of the bound
  tenant, for child rows through their parent. Six operations have one shape, \<open>transition_tx\<close>: lock the row,
  check the step, write it, read the row back; seven have the shape \<open>guarded_insert\<close>: read the parent, check
  it, insert. The SHA-256 function is an argument.

  A statement that would leave a row violating one of the table's constraints fails.
  \<open>ErrSafetyInvalidTransition\<close> stands for every error that wraps it. Text is compared by code point.
\<close>

section \<open>Visible rows\<close>

definition tenant_inspections :: "string \<Rightarrow> safety_db \<Rightarrow> InspectionRow list" where
  "tenant_inspections tenantID s = filter (\<lambda>r. iw_TenantID r = tenantID) (sd_inspections s)"

definition tenant_templates :: "string \<Rightarrow> safety_db \<Rightarrow> ChecklistTemplateRow list" where
  "tenant_templates tenantID s = filter (\<lambda>r. ct_TenantID r = tenantID) (sd_templates s)"

definition tenant_deficiencies :: "string \<Rightarrow> safety_db \<Rightarrow> DeficiencyRow list" where
  "tenant_deficiencies tenantID s =
     filter (\<lambda>r. dw_InspectionID r \<in> iw_InspectionID ` set (tenant_inspections tenantID s)) (sd_deficiencies s)"

definition tenant_incidents :: "string \<Rightarrow> safety_db \<Rightarrow> SarIncidentRow list" where
  "tenant_incidents tenantID s = filter (\<lambda>r. gw_TenantID r = tenantID) (sd_incidents s)"

definition tenant_taskings :: "string \<Rightarrow> safety_db \<Rightarrow> SarTaskingRow list" where
  "tenant_taskings tenantID s =
     filter (\<lambda>r. tw_IncidentID r \<in> gw_IncidentID ` set (tenant_incidents tenantID s)) (sd_taskings s)"

definition tenant_comms :: "string \<Rightarrow> safety_db \<Rightarrow> SarCommsRow list" where
  "tenant_comms tenantID s =
     filter (\<lambda>r. cw_IncidentID r \<in> gw_IncidentID ` set (tenant_incidents tenantID s)) (sd_comms s)"

definition tenant_cases :: "string \<Rightarrow> safety_db \<Rightarrow> InvestigationCaseRow list" where
  "tenant_cases tenantID s = filter (\<lambda>r. vw_TenantID r = tenantID) (sd_cases s)"

definition tenant_evidence :: "string \<Rightarrow> safety_db \<Rightarrow> EvidenceRow list" where
  "tenant_evidence tenantID s =
     filter (\<lambda>r. ew_CaseID r \<in> vw_CaseID ` set (tenant_cases tenantID s)) (sd_evidence s)"

definition tenant_findings :: "string \<Rightarrow> safety_db \<Rightarrow> FindingRow list" where
  "tenant_findings tenantID s =
     filter (\<lambda>r. fw_CaseID r \<in> vw_CaseID ` set (tenant_cases tenantID s)) (sd_findings s)"

definition tenant_recommendations :: "string \<Rightarrow> safety_db \<Rightarrow> RecommendationRow list" where
  "tenant_recommendations tenantID s =
     filter (\<lambda>r. rw_CaseID r \<in> vw_CaseID ` set (tenant_cases tenantID s)) (sd_recommendations s)"

section \<open>Statements\<close>

definition on_safety :: "(safety_db \<Rightarrow> (safety_db \<times> 'a) option) \<Rightarrow> db \<Rightarrow> (db \<times> 'a) option" where
  "on_safety f d = (case f (db_safety d) of None \<Rightarrow> None | Some (s, r) \<Rightarrow> Some (d\<lparr>db_safety := s\<rparr>, r))"

definition safety_query :: "externals \<Rightarrow> string \<Rightarrow> (safety_db \<Rightarrow> 'a) \<Rightarrow> 'a geo" where
  "safety_query X label q = sql_query X label (\<lambda>d. q (db_safety d))"

text \<open>Lock the row, check the step, write it at the transaction's time, read the row back.\<close>

definition transition_tx ::
  "externals \<Rightarrow> string \<Rightarrow> string \<Rightarrow> (safety_db \<Rightarrow> 'r option) \<Rightarrow> ('r \<Rightarrow> unit geo)
     \<Rightarrow> (int \<Rightarrow> safety_db \<Rightarrow> safety_db option) \<Rightarrow> 'r geo" where
  "transition_tx X tenantID label get check upd =
     WithTenant X tenantID
       (bindA (safety_query X (''lock '' @ label) get) (\<lambda>row.
        case row of
          None \<Rightarrow> raise ErrSafetyNotFound
        | Some r \<Rightarrow>
            seqA (check r)
            (bindA (clock X) (\<lambda>now.
             seqA (sql X (''transition '' @ label) (on_safety (\<lambda>s. map_option (\<lambda>s'. (s', ())) (upd now s))))
               (bindA (safety_query X (''read '' @ label) get) (\<lambda>row'.
                  case row' of None \<Rightarrow> raise ErrNoRows | Some r' \<Rightarrow> ret r'))))))"

text \<open>Read what the row depends on, check it, insert at the transaction's time.\<close>

definition guarded_insert ::
  "externals \<Rightarrow> string \<Rightarrow> string \<Rightarrow> (safety_db \<Rightarrow> 'p option) \<Rightarrow> ('p \<Rightarrow> 'g geo)
     \<Rightarrow> (int \<Rightarrow> 'p \<Rightarrow> 'g \<Rightarrow> safety_db \<Rightarrow> (safety_db \<times> 'r) option) \<Rightarrow> 'r geo" where
  "guarded_insert X tenantID label get check ins =
     WithTenant X tenantID
       (bindA (safety_query X (''read parent of '' @ label) get) (\<lambda>row.
        case row of
          None \<Rightarrow> raise ErrSafetyNotFound
        | Some p \<Rightarrow>
            bindA (check p) (\<lambda>g.
            bindA (clock X) (\<lambda>now. sql X (''insert '' @ label) (on_safety (ins now p g))))))"

section \<open>Inspections\<close>

definition insert_template :: "ChecklistTemplateRow \<Rightarrow> safety_db \<Rightarrow> (safety_db \<times> unit) option" where
  "insert_template t s =
     (if \<not> template_columns t \<or> ct_TemplateID t \<in> ct_TemplateID ` set (sd_templates s)
         \<or> (ct_TenantID t, ct_Regime t, ct_Version t) \<in> (\<lambda>r. (ct_TenantID r, ct_Regime r, ct_Version r)) ` set (sd_templates s)
      then None
      else Some (s\<lparr>sd_templates := sd_templates s @ [t]\<rparr>, ()))"

definition CreateChecklistTemplate :: "externals \<Rightarrow> ChecklistTemplateRow \<Rightarrow> unit geo" where
  "CreateChecklistTemplate X row =
     WithTenant X (ct_TenantID row)
       (bindA (clock X) (\<lambda>now.
          sql X ''insert checklist template'' (on_safety (insert_template (row\<lparr>ct_CreatedAt := now\<rparr>)))))"

definition ListChecklistTemplates :: "externals \<Rightarrow> string \<Rightarrow> string \<Rightarrow> ChecklistTemplateRow list geo" where
  "ListChecklistTemplates X tenantID regime =
     WithTenant X tenantID (safety_query X ''list checklist templates'' (\<lambda>s.
       sort_key (\<lambda>r. (ct_Regime r, ct_Version r))
         (filter (\<lambda>r. regime = [] \<or> ct_Regime r = regime) (tenant_templates tenantID s))))"

text \<open>The constraints \<open>safety_inspections_release_checker\<close> and \<open>safety_inspections_lifecycle_coherence\<close>.\<close>

definition inspection_coherent :: "InspectionRow \<Rightarrow> bool" where
  "inspection_coherent r \<longleftrightarrow>
     (iw_ReleasedBy r = None \<or> iw_DetainedBy r = None \<or> iw_ReleasedBy r \<noteq> iw_DetainedBy r)
     \<and> (iw_DetainedBy r = None) = (iw_DetainedAt r = None)
     \<and> (iw_ReleasedBy r = None) = (iw_ReleasedAt r = None)
     \<and> (iw_RectificationStartedBy r = None) = (iw_RectificationStartedAt r = None)
     \<and> (iw_ClosedBy r = None) = (iw_ClosedAt r = None)
     \<and> (iw_DetainedBy r = None \<or> iw_State r \<in> {DETAINED, RECTIFICATION, RELEASED, INSPECTION_CLOSED})
     \<and> (iw_RectificationStartedBy r = None \<or> iw_State r \<in> {RECTIFICATION, RELEASED, INSPECTION_CLOSED})
     \<and> (iw_ReleasedBy r = None \<or> iw_State r \<in> {RELEASED, INSPECTION_CLOSED})
     \<and> (iw_State r \<noteq> RELEASED \<or> iw_ReleasedBy r \<noteq> None)
     \<and> (iw_State r = INSPECTION_CLOSED) = (iw_ClosedBy r \<noteq> None)"

definition fresh_inspection :: "InspectionRow \<Rightarrow> int \<Rightarrow> InspectionRow" where
  "fresh_inspection r now =
     r\<lparr>iw_State := SCHEDULED, iw_CreatedAt := now, iw_StartedAt := None, iw_CompletedAt := None, iw_DetainedBy := None,
       iw_DetainedAt := None, iw_DetentionGrounds := None, iw_RectificationStartedBy := None,
       iw_RectificationStartedAt := None, iw_ReleasedBy := None, iw_ReleasedAt := None, iw_ClosedBy := None,
       iw_ClosedAt := None\<rparr>"

definition insert_inspection :: "InspectionRow \<Rightarrow> safety_db \<Rightarrow> (safety_db \<times> InspectionRow) option" where
  "insert_inspection r s =
     (if \<not> inspection_columns r \<or> iw_InspectionID r \<in> iw_InspectionID ` set (sd_inspections s)
         \<or> iw_TemplateID r \<notin> ct_TemplateID ` set (sd_templates s) then None
      else Some (s\<lparr>sd_inspections := sd_inspections s @ [r]\<rparr>, r))"

definition CreateInspection :: "externals \<Rightarrow> InspectionRow \<Rightarrow> InspectionRow geo" where
  "CreateInspection X row =
     guarded_insert X (iw_TenantID row) ''inspection''
       (\<lambda>s. find (\<lambda>t. ct_TemplateID t = iw_TemplateID row) (tenant_templates (iw_TenantID row) s))
       (\<lambda>t. require (ct_Regime t = iw_Regime row) ErrSafetyInvalidTransition)
       (\<lambda>now _ _. insert_inspection (fresh_inspection row now))"

definition find_inspection :: "string \<Rightarrow> string \<Rightarrow> safety_db \<Rightarrow> InspectionRow option" where
  "find_inspection tenantID inspectionID s = find (\<lambda>r. iw_InspectionID r = inspectionID) (tenant_inspections tenantID s)"

definition found :: "'r option \<Rightarrow> 'r geo" where
  "found row = (case row of None \<Rightarrow> raise ErrSafetyNotFound | Some r \<Rightarrow> ret r)"

definition GetInspection :: "externals \<Rightarrow> string \<Rightarrow> string \<Rightarrow> InspectionRow geo" where
  "GetInspection X tenantID inspectionID =
     WithTenant X tenantID (bindA (safety_query X ''get inspection'' (find_inspection tenantID inspectionID)) found)"

definition ListInspections :: "externals \<Rightarrow> string \<Rightarrow> nat \<Rightarrow> InspectionRow list geo" where
  "ListInspections X tenantID limit =
     WithTenant X tenantID (safety_query X ''list inspections'' (\<lambda>s.
       take limit (sort_key (\<lambda>r. - iw_CreatedAt r) (tenant_inspections tenantID s))))"

text \<open>The step an action takes from a state.\<close>

definition inspection_next :: "string \<Rightarrow> inspection_state \<Rightarrow> inspection_state option" where
  "inspection_next action st =
     (if action = ''start'' then if st = SCHEDULED then Some IN_PROGRESS else None
      else if action = ''complete'' then if st = IN_PROGRESS then Some COMPLETED else None
      else if action = ''detain'' then if st = IN_PROGRESS \<or> st = COMPLETED then Some DETAINED else None
      else if action = ''rectify'' then if st = DETAINED then Some RECTIFICATION else None
      else if action = ''release'' then if st = RECTIFICATION then Some RELEASED else None
      else if action = ''close'' then if st = COMPLETED \<or> st = RELEASED then Some INSPECTION_CLOSED else None
      else None)"

definition open_critical :: "string \<Rightarrow> string \<Rightarrow> safety_db \<Rightarrow> nat" where
  "open_critical tenantID inspectionID s =
     length (filter (\<lambda>r. dw_InspectionID r = inspectionID \<and> dw_Severity r = ''CRITICAL'' \<and> dw_State r \<noteq> VERIFIED)
       (tenant_deficiencies tenantID s))"

definition check_inspection :: "externals \<Rightarrow> string \<Rightarrow> string \<Rightarrow> string \<Rightarrow> string \<Rightarrow> InspectionRow \<Rightarrow> unit geo" where
  "check_inspection X tenantID actor action text r =
     seqA (require (inspection_next action (iw_State r) \<noteq> None) ErrSafetyInvalidTransition)
     (if action = ''detain'' then require (trim_space text \<noteq> []) ErrSafetyInvalidTransition
      else if action = ''release''
      then seqA (require (iw_DetainedBy r \<noteq> Some actor) ErrSafetyMakerChecker)
             (bindA (safety_query X ''count open critical'' (open_critical tenantID (iw_InspectionID r))) (\<lambda>n.
              require (n = 0) ErrSafetyInvalidTransition))
      else ret ())"

definition step_inspection :: "string \<Rightarrow> string \<Rightarrow> string \<Rightarrow> int \<Rightarrow> InspectionRow \<Rightarrow> InspectionRow" where
  "step_inspection action actor text now r =
     (if action = ''start'' then r\<lparr>iw_State := IN_PROGRESS, iw_StartedAt := Some now\<rparr>
      else if action = ''complete'' then r\<lparr>iw_State := COMPLETED, iw_CompletedAt := Some now\<rparr>
      else if action = ''detain''
      then r\<lparr>iw_State := DETAINED, iw_DetainedBy := Some actor, iw_DetainedAt := Some now, iw_DetentionGrounds := Some text\<rparr>
      else if action = ''rectify''
      then r\<lparr>iw_State := RECTIFICATION, iw_RectificationStartedBy := Some actor, iw_RectificationStartedAt := Some now\<rparr>
      else if action = ''release'' then r\<lparr>iw_State := RELEASED, iw_ReleasedBy := Some actor, iw_ReleasedAt := Some now\<rparr>
      else r\<lparr>iw_State := INSPECTION_CLOSED, iw_ClosedBy := Some actor, iw_ClosedAt := Some now\<rparr>)"

definition inspection_allowed :: "InspectionRow \<Rightarrow> bool" where
  "inspection_allowed r \<longleftrightarrow> inspection_coherent r \<and> inspection_columns r"

definition update_inspection ::
  "string \<Rightarrow> string \<Rightarrow> (InspectionRow \<Rightarrow> InspectionRow) \<Rightarrow> safety_db \<Rightarrow> safety_db option" where
  "update_inspection tenantID inspectionID f s =
     map_option (\<lambda>rows. s\<lparr>sd_inspections := rows\<rparr>)
       (update_rows (\<lambda>r. iw_TenantID r = tenantID \<and> iw_InspectionID r = inspectionID) f inspection_allowed (sd_inspections s))"

definition TransitionInspection ::
  "externals \<Rightarrow> string \<Rightarrow> string \<Rightarrow> string \<Rightarrow> string \<Rightarrow> string \<Rightarrow> InspectionRow geo" where
  "TransitionInspection X tenantID inspectionID actor action text =
     transition_tx X tenantID ''inspection'' (find_inspection tenantID inspectionID)
       (check_inspection X tenantID actor action text)
       (\<lambda>now. update_inspection tenantID inspectionID (step_inspection action actor text now))"

section \<open>Deficiencies\<close>

text \<open>Columns, key and visible parent.\<close>

definition insert_deficiency :: "string \<Rightarrow> DeficiencyRow \<Rightarrow> safety_db \<Rightarrow> (safety_db \<times> DeficiencyRow) option" where
  "insert_deficiency tenantID r s =
     (if \<not> deficiency_columns r \<or> dw_DeficiencyID r \<in> dw_DeficiencyID ` set (sd_deficiencies s)
         \<or> dw_InspectionID r \<notin> iw_InspectionID ` set (tenant_inspections tenantID s) then None
      else Some (s\<lparr>sd_deficiencies := sd_deficiencies s @ [r]\<rparr>, r))"

definition fresh_deficiency :: "DeficiencyRow \<Rightarrow> int \<Rightarrow> DeficiencyRow" where
  "fresh_deficiency r now =
     r\<lparr>dw_State := OPEN, dw_RecordedAt := now, dw_RectifiedBy := None, dw_RectifiedAt := None, dw_VerifiedBy := None,
       dw_VerifiedAt := None\<rparr>"

definition inspection_items :: "string \<Rightarrow> string \<Rightarrow> safety_db \<Rightarrow> string option list option" where
  "inspection_items tenantID inspectionID s =
     (case find_inspection tenantID inspectionID s of
        None \<Rightarrow> None
      | Some i \<Rightarrow> map_option ct_Items (find (\<lambda>t. ct_TemplateID t = iw_TemplateID i) (tenant_templates tenantID s)))"

definition RecordDeficiency :: "externals \<Rightarrow> string \<Rightarrow> DeficiencyRow \<Rightarrow> DeficiencyRow geo" where
  "RecordDeficiency X tenantID row =
     guarded_insert X tenantID ''deficiency'' (inspection_items tenantID (dw_InspectionID row))
       (\<lambda>items. bindA (safety_query X ''known code'' (\<lambda>_. Some (dw_Code row) \<in> set items)) (\<lambda>known.
                require known ErrSafetyInvalidTransition))
       (\<lambda>now _ _. insert_deficiency tenantID (fresh_deficiency row now))"

definition ListDeficiencies :: "externals \<Rightarrow> string \<Rightarrow> string \<Rightarrow> DeficiencyRow list geo" where
  "ListDeficiencies X tenantID inspectionID =
     WithTenant X tenantID (safety_query X ''list deficiencies'' (\<lambda>s.
       sort_key dw_RecordedAt (filter (\<lambda>r. dw_InspectionID r = inspectionID) (tenant_deficiencies tenantID s))))"

definition deficiency_coherent :: "DeficiencyRow \<Rightarrow> bool" where
  "deficiency_coherent r \<longleftrightarrow>
     (dw_RectifiedBy r = None) = (dw_RectifiedAt r = None)
     \<and> (dw_VerifiedBy r = None) = (dw_VerifiedAt r = None)
     \<and> (dw_RectifiedBy r = None \<or> dw_State r \<in> {RECTIFIED, VERIFIED})
     \<and> (dw_State r = VERIFIED) = (dw_VerifiedBy r \<noteq> None)"

definition find_deficiency :: "string \<Rightarrow> string \<Rightarrow> safety_db \<Rightarrow> DeficiencyRow option" where
  "find_deficiency tenantID deficiencyID s = find (\<lambda>r. dw_DeficiencyID r = deficiencyID) (tenant_deficiencies tenantID s)"

definition check_deficiency :: "string \<Rightarrow> string \<Rightarrow> DeficiencyRow \<Rightarrow> unit geo" where
  "check_deficiency actor action r =
     (if action = ''rectify'' \<and> dw_State r = OPEN then ret ()
      else if action = ''verify'' \<and> dw_State r = RECTIFIED
      then require (dw_RectifiedBy r \<noteq> Some actor) ErrSafetyMakerChecker
      else raise ErrSafetyInvalidTransition)"

definition step_deficiency :: "string \<Rightarrow> string \<Rightarrow> int \<Rightarrow> DeficiencyRow \<Rightarrow> DeficiencyRow" where
  "step_deficiency action actor now r =
     (if action = ''rectify'' then r\<lparr>dw_State := RECTIFIED, dw_RectifiedBy := Some actor, dw_RectifiedAt := Some now\<rparr>
      else r\<lparr>dw_State := VERIFIED, dw_VerifiedBy := Some actor, dw_VerifiedAt := Some now\<rparr>)"

definition deficiency_allowed :: "DeficiencyRow \<Rightarrow> bool" where
  "deficiency_allowed r \<longleftrightarrow> deficiency_coherent r \<and> deficiency_columns r"

definition update_deficiency :: "string \<Rightarrow> string \<Rightarrow> (DeficiencyRow \<Rightarrow> DeficiencyRow) \<Rightarrow> safety_db \<Rightarrow> safety_db option" where
  "update_deficiency tenantID deficiencyID f s =
     map_option (\<lambda>rows. s\<lparr>sd_deficiencies := rows\<rparr>)
       (update_rows (\<lambda>r. dw_DeficiencyID r = deficiencyID \<and> dw_InspectionID r \<in> iw_InspectionID ` set (tenant_inspections tenantID s))
          f deficiency_allowed (sd_deficiencies s))"

definition TransitionDeficiency :: "externals \<Rightarrow> string \<Rightarrow> string \<Rightarrow> string \<Rightarrow> string \<Rightarrow> DeficiencyRow geo" where
  "TransitionDeficiency X tenantID deficiencyID actor action =
     transition_tx X tenantID ''deficiency'' (find_deficiency tenantID deficiencyID) (check_deficiency actor action)
       (\<lambda>now. update_deficiency tenantID deficiencyID (step_deficiency action actor now))"

section \<open>Search and rescue\<close>

text \<open>The verb \<open>%06d\<close> counts a sign into the width.\<close>

definition show_padded6 :: "int \<Rightarrow> string" where
  "show_padded6 n = (if n < 0 then ''-'' @ show_padded 5 (nat (- n)) else show_padded 6 (nat n))"

definition microdegText :: "int \<Rightarrow> string" where
  "microdegText micros =
     (let neg = micros < 0;
          magnitude = (if neg then wrap_int32 (- micros) else micros);
          text = show_int (quot magnitude 1000000) @ ''.'' @ show_padded6 (magnitude - quot magnitude 1000000 * 1000000)
      in if neg then ''-'' @ text else text)"

definition point_arg :: "int option \<Rightarrow> int option \<Rightarrow> string option" where
  "point_arg latMicros lonMicros =
     (case (latMicros, lonMicros) of
        (Some lat, Some lon) \<Rightarrow> Some (''SRID=4326;POINT('' @ microdegText lon @ '' '' @ microdegText lat @ '')'')
      | _ \<Rightarrow> None)"

text \<open>The constraint \<open>sar_incidents_phase_coherence\<close>.\<close>

definition incident_coherent :: "SarIncidentRow \<Rightarrow> bool" where
  "incident_coherent r \<longleftrightarrow>
     (gw_AlertedBy r = None) = (gw_AlertedAt r = None)
     \<and> (gw_DistressDeclaredBy r = None) = (gw_DistressDeclaredAt r = None)
     \<and> (gw_RescueStartedBy r = None) = (gw_RescueStartedAt r = None)
     \<and> (gw_ClosedBy r = None) = (gw_ClosedAt r = None)
     \<and> (gw_AlertedBy r = None \<or> gw_Phase r \<in> {ALERT, DISTRESS, RESCUE, SAR_CLOSED})
     \<and> (gw_DistressDeclaredBy r = None \<or> gw_Phase r \<in> {DISTRESS, RESCUE, SAR_CLOSED})
     \<and> (gw_RescueStartedBy r = None \<or> gw_Phase r \<in> {RESCUE, SAR_CLOSED})
     \<and> (gw_Phase r = SAR_CLOSED) = (gw_ClosedBy r \<noteq> None)"

definition fresh_incident :: "SarIncidentRow \<Rightarrow> string option \<Rightarrow> int \<Rightarrow> SarIncidentRow" where
  "fresh_incident r position now =
     r\<lparr>gw_Position := position, gw_Phase := UNCERTAINTY, gw_OpenedAt := now, gw_AlertedBy := None, gw_AlertedAt := None,
       gw_DistressDeclaredBy := None, gw_DistressDeclaredAt := None, gw_RescueStartedBy := None,
       gw_RescueStartedAt := None, gw_ClosedBy := None, gw_ClosedAt := None, gw_ClosureReason := None\<rparr>"

text \<open>The incident may refer to a stored distress alert, of any reporter.\<close>

definition insert_incident :: "SarIncidentRow \<Rightarrow> db \<Rightarrow> (db \<times> SarIncidentRow) option" where
  "insert_incident r d =
     (if \<not> incident_columns r \<or> gw_IncidentID r \<in> gw_IncidentID ` set (sd_incidents (db_safety d))
         \<or> (case gw_SosAlertID r of None \<Rightarrow> False | Some a \<Rightarrow> a \<notin> (\<lambda>x. so_SosAlertID (ss_Alert x)) ` set (db_sos d)) then None
      else Some (d\<lparr>db_safety := (db_safety d)\<lparr>sd_incidents := sd_incidents (db_safety d) @ [r]\<rparr>\<rparr>, r))"

definition CreateSarIncident :: "externals \<Rightarrow> SarIncidentRow \<Rightarrow> int option \<Rightarrow> int option \<Rightarrow> SarIncidentRow geo" where
  "CreateSarIncident X row latMicros lonMicros =
     WithTenant X (gw_TenantID row)
       (bindA (clock X) (\<lambda>now.
          sql X ''insert sar incident'' (insert_incident (fresh_incident row (point_arg latMicros lonMicros) now))))"

definition find_incident :: "string \<Rightarrow> string \<Rightarrow> safety_db \<Rightarrow> SarIncidentRow option" where
  "find_incident tenantID incidentID s = find (\<lambda>r. gw_IncidentID r = incidentID) (tenant_incidents tenantID s)"

definition GetSarIncident :: "externals \<Rightarrow> string \<Rightarrow> string \<Rightarrow> SarIncidentRow geo" where
  "GetSarIncident X tenantID incidentID =
     WithTenant X tenantID (bindA (safety_query X ''get sar incident'' (find_incident tenantID incidentID)) found)"

definition ListSarIncidents :: "externals \<Rightarrow> string \<Rightarrow> nat \<Rightarrow> SarIncidentRow list geo" where
  "ListSarIncidents X tenantID limit =
     WithTenant X tenantID (safety_query X ''list sar incidents'' (\<lambda>s.
       take limit (sort_key (\<lambda>r. - gw_OpenedAt r) (tenant_incidents tenantID s))))"

definition incident_next :: "string \<Rightarrow> sar_phase \<Rightarrow> sar_phase option" where
  "incident_next action phase =
     (if action = ''alert'' then if phase = UNCERTAINTY then Some ALERT else None
      else if action = ''distress'' then if phase = ALERT then Some DISTRESS else None
      else if action = ''rescue'' then if phase = DISTRESS then Some RESCUE else None
      else if action = ''close'' then if phase \<noteq> SAR_CLOSED then Some SAR_CLOSED else None
      else None)"

definition check_incident :: "string \<Rightarrow> string \<Rightarrow> SarIncidentRow \<Rightarrow> unit geo" where
  "check_incident action reason r =
     seqA (require (incident_next action (gw_Phase r) \<noteq> None) ErrSafetyInvalidTransition)
       (if action = ''close'' then require (trim_space reason \<noteq> []) ErrSafetyInvalidTransition else ret ())"

definition step_incident :: "string \<Rightarrow> string \<Rightarrow> string \<Rightarrow> int \<Rightarrow> SarIncidentRow \<Rightarrow> SarIncidentRow" where
  "step_incident action actor reason now r =
     (if action = ''alert'' then r\<lparr>gw_Phase := ALERT, gw_AlertedBy := Some actor, gw_AlertedAt := Some now\<rparr>
      else if action = ''distress''
      then r\<lparr>gw_Phase := DISTRESS, gw_DistressDeclaredBy := Some actor, gw_DistressDeclaredAt := Some now\<rparr>
      else if action = ''rescue''
      then r\<lparr>gw_Phase := RESCUE, gw_RescueStartedBy := Some actor, gw_RescueStartedAt := Some now\<rparr>
      else r\<lparr>gw_Phase := SAR_CLOSED, gw_ClosedBy := Some actor, gw_ClosedAt := Some now, gw_ClosureReason := Some reason\<rparr>)"

definition incident_allowed :: "SarIncidentRow \<Rightarrow> bool" where
  "incident_allowed r \<longleftrightarrow> incident_coherent r \<and> incident_columns r"

definition update_incident :: "string \<Rightarrow> string \<Rightarrow> (SarIncidentRow \<Rightarrow> SarIncidentRow) \<Rightarrow> safety_db \<Rightarrow> safety_db option" where
  "update_incident tenantID incidentID f s =
     map_option (\<lambda>rows. s\<lparr>sd_incidents := rows\<rparr>)
       (update_rows (\<lambda>r. gw_TenantID r = tenantID \<and> gw_IncidentID r = incidentID) f incident_allowed (sd_incidents s))"

definition TransitionSarIncident ::
  "externals \<Rightarrow> string \<Rightarrow> string \<Rightarrow> string \<Rightarrow> string \<Rightarrow> string \<Rightarrow> SarIncidentRow geo" where
  "TransitionSarIncident X tenantID incidentID actor action reason =
     transition_tx X tenantID ''sar incident'' (find_incident tenantID incidentID) (check_incident action reason)
       (\<lambda>now. update_incident tenantID incidentID (step_incident action actor reason now))"

definition insert_tasking :: "string \<Rightarrow> SarTaskingRow \<Rightarrow> safety_db \<Rightarrow> (safety_db \<times> SarTaskingRow) option" where
  "insert_tasking tenantID r s =
     (if \<not> tasking_columns r \<or> tw_TaskingID r \<in> tw_TaskingID ` set (sd_taskings s)
         \<or> tw_IncidentID r \<notin> gw_IncidentID ` set (tenant_incidents tenantID s) then None
      else Some (s\<lparr>sd_taskings := sd_taskings s @ [r]\<rparr>, r))"

definition TaskSarResource :: "externals \<Rightarrow> string \<Rightarrow> SarTaskingRow \<Rightarrow> SarTaskingRow geo" where
  "TaskSarResource X tenantID row =
     guarded_insert X tenantID ''sar tasking'' (find_incident tenantID (tw_IncidentID row))
       (\<lambda>i. require (gw_Phase i \<noteq> SAR_CLOSED) ErrSafetyInvalidTransition)
       (\<lambda>now _ _. insert_tasking tenantID
          (row\<lparr>tw_State := TASKED, tw_TaskedAt := now, tw_ReleasedBy := None, tw_ReleasedAt := None\<rparr>))"

definition tasking_coherent :: "SarTaskingRow \<Rightarrow> bool" where
  "tasking_coherent r \<longleftrightarrow>
     (tw_ReleasedBy r = None) = (tw_ReleasedAt r = None)
     \<and> (tw_State r = TASKING_RELEASED) = (tw_ReleasedBy r \<noteq> None)"

definition find_tasking :: "string \<Rightarrow> string \<Rightarrow> safety_db \<Rightarrow> SarTaskingRow option" where
  "find_tasking tenantID taskingID s = find (\<lambda>r. tw_TaskingID r = taskingID) (tenant_taskings tenantID s)"

definition tasking_next :: "string \<Rightarrow> tasking_state \<Rightarrow> tasking_state option" where
  "tasking_next action st =
     (if action = ''enroute'' \<and> st = TASKED then Some EN_ROUTE
      else if action = ''onscene'' \<and> (st = TASKED \<or> st = EN_ROUTE) then Some ON_SCENE
      else if action = ''release'' \<and> st \<noteq> TASKING_RELEASED then Some TASKING_RELEASED
      else None)"

definition step_tasking :: "string \<Rightarrow> string \<Rightarrow> int \<Rightarrow> SarTaskingRow \<Rightarrow> SarTaskingRow" where
  "step_tasking action actor now r =
     (if action = ''enroute'' then r\<lparr>tw_State := EN_ROUTE\<rparr>
      else if action = ''onscene'' then r\<lparr>tw_State := ON_SCENE\<rparr>
      else r\<lparr>tw_State := TASKING_RELEASED, tw_ReleasedBy := Some actor, tw_ReleasedAt := Some now\<rparr>)"

definition tasking_allowed :: "SarTaskingRow \<Rightarrow> bool" where
  "tasking_allowed r \<longleftrightarrow> tasking_coherent r \<and> tasking_columns r"

definition update_tasking :: "string \<Rightarrow> string \<Rightarrow> (SarTaskingRow \<Rightarrow> SarTaskingRow) \<Rightarrow> safety_db \<Rightarrow> safety_db option" where
  "update_tasking tenantID taskingID f s =
     map_option (\<lambda>rows. s\<lparr>sd_taskings := rows\<rparr>)
       (update_rows (\<lambda>r. tw_TaskingID r = taskingID \<and> tw_IncidentID r \<in> gw_IncidentID ` set (tenant_incidents tenantID s))
          f tasking_allowed (sd_taskings s))"

definition TransitionSarTasking :: "externals \<Rightarrow> string \<Rightarrow> string \<Rightarrow> string \<Rightarrow> string \<Rightarrow> SarTaskingRow geo" where
  "TransitionSarTasking X tenantID taskingID actor action =
     transition_tx X tenantID ''sar tasking'' (find_tasking tenantID taskingID)
       (\<lambda>r. require (tasking_next action (tw_State r) \<noteq> None) ErrSafetyInvalidTransition)
       (\<lambda>now. update_tasking tenantID taskingID (step_tasking action actor now))"

text \<open>The identity column counts up (numbers lost with a rolled-back insert are not modelled).\<close>

definition insert_comms :: "SarCommsRow \<Rightarrow> safety_db \<Rightarrow> (safety_db \<times> SarCommsRow) option" where
  "insert_comms r s =
     (let r' = r\<lparr>cw_EntryID := Suc (length (sd_comms s))\<rparr> in
      if comms_columns r then Some (s\<lparr>sd_comms := sd_comms s @ [r']\<rparr>, r') else None)"

definition AppendSarComms :: "externals \<Rightarrow> string \<Rightarrow> SarCommsRow \<Rightarrow> SarCommsRow geo" where
  "AppendSarComms X tenantID row =
     guarded_insert X tenantID ''sar comms'' (find_incident tenantID (cw_IncidentID row)) (\<lambda>_. ret ())
       (\<lambda>now _ _. insert_comms (row\<lparr>cw_LoggedAt := now\<rparr>))"

definition ListSarComms :: "externals \<Rightarrow> string \<Rightarrow> string \<Rightarrow> nat \<Rightarrow> SarCommsRow list geo" where
  "ListSarComms X tenantID incidentID limit =
     WithTenant X tenantID (safety_query X ''list sar comms'' (\<lambda>s.
       take limit (sort_key cw_EntryID (filter (\<lambda>r. cw_IncidentID r = incidentID) (tenant_comms tenantID s)))))"

section \<open>Accident investigation\<close>

definition case_coherent :: "InvestigationCaseRow \<Rightarrow> bool" where
  "case_coherent r \<longleftrightarrow>
     (vw_ReportedBy r = None) = (vw_ReportedAt r = None)
     \<and> (vw_ClosedBy r = None) = (vw_ClosedAt r = None)
     \<and> (vw_ReportedBy r = None \<or> vw_State r \<in> {REPORTED, CASE_CLOSED})
     \<and> (vw_State r = CASE_CLOSED) = (vw_ClosedBy r \<noteq> None)"

definition EvidenceGenesisHash :: string where
  "EvidenceGenesisHash = replicate 64 CHR ''0''"

definition EvidenceChainHash :: "(nat list \<Rightarrow> nat list) \<Rightarrow> string \<Rightarrow> string \<Rightarrow> string" where
  "EvidenceChainHash sha256 prevChainHash contentHash =
     hex_encode (sha256 (map of_char (prevChainHash @ contentHash)))"

definition fresh_case :: "InvestigationCaseRow \<Rightarrow> string option \<Rightarrow> int \<Rightarrow> InvestigationCaseRow" where
  "fresh_case r location now =
     r\<lparr>vw_Location := location, vw_State := CASE_OPEN, vw_OpenedAt := now, vw_ReportedBy := None, vw_ReportedAt := None,
       vw_ClosedBy := None, vw_ClosedAt := None\<rparr>"

definition insert_case :: "InvestigationCaseRow \<Rightarrow> safety_db \<Rightarrow> (safety_db \<times> InvestigationCaseRow) option" where
  "insert_case r s =
     (if \<not> case_columns r \<or> vw_CaseID r \<in> vw_CaseID ` set (sd_cases s) then None
      else Some (s\<lparr>sd_cases := sd_cases s @ [r]\<rparr>, r))"

definition CreateInvestigationCase ::
  "externals \<Rightarrow> InvestigationCaseRow \<Rightarrow> int option \<Rightarrow> int option \<Rightarrow> InvestigationCaseRow geo" where
  "CreateInvestigationCase X row latMicros lonMicros =
     WithTenant X (vw_TenantID row)
       (bindA (clock X) (\<lambda>now.
          sql X ''insert investigation case'' (on_safety (insert_case (fresh_case row (point_arg latMicros lonMicros) now)))))"

definition find_case :: "string \<Rightarrow> string \<Rightarrow> safety_db \<Rightarrow> InvestigationCaseRow option" where
  "find_case tenantID caseID s = find (\<lambda>r. vw_CaseID r = caseID) (tenant_cases tenantID s)"

definition GetInvestigationCase :: "externals \<Rightarrow> string \<Rightarrow> string \<Rightarrow> InvestigationCaseRow geo" where
  "GetInvestigationCase X tenantID caseID =
     WithTenant X tenantID (bindA (safety_query X ''get investigation case'' (find_case tenantID caseID)) found)"

definition ListInvestigationCases :: "externals \<Rightarrow> string \<Rightarrow> nat \<Rightarrow> InvestigationCaseRow list geo" where
  "ListInvestigationCases X tenantID limit =
     WithTenant X tenantID (safety_query X ''list investigation cases'' (\<lambda>s.
       take limit (sort_key (\<lambda>r. - vw_OpenedAt r) (tenant_cases tenantID s))))"

definition case_next :: "string \<Rightarrow> case_state \<Rightarrow> case_state option" where
  "case_next action st =
     (if action = ''evidence'' then if st = CASE_OPEN then Some EVIDENCE else None
      else if action = ''analysis'' then if st = EVIDENCE then Some ANALYSIS else None
      else if action = ''report'' then if st = ANALYSIS then Some REPORTED else None
      else if action = ''close'' then if st = REPORTED then Some CASE_CLOSED else None
      else None)"

definition step_case :: "string \<Rightarrow> string \<Rightarrow> int \<Rightarrow> InvestigationCaseRow \<Rightarrow> InvestigationCaseRow" where
  "step_case action actor now r =
     (if action = ''evidence'' then r\<lparr>vw_State := EVIDENCE\<rparr>
      else if action = ''analysis'' then r\<lparr>vw_State := ANALYSIS\<rparr>
      else if action = ''report'' then r\<lparr>vw_State := REPORTED, vw_ReportedBy := Some actor, vw_ReportedAt := Some now\<rparr>
      else r\<lparr>vw_State := CASE_CLOSED, vw_ClosedBy := Some actor, vw_ClosedAt := Some now\<rparr>)"

definition case_allowed :: "InvestigationCaseRow \<Rightarrow> bool" where
  "case_allowed r \<longleftrightarrow> case_coherent r \<and> case_columns r"

definition update_case :: "string \<Rightarrow> string \<Rightarrow> (InvestigationCaseRow \<Rightarrow> InvestigationCaseRow) \<Rightarrow> safety_db \<Rightarrow> safety_db option" where
  "update_case tenantID caseID f s =
     map_option (\<lambda>rows. s\<lparr>sd_cases := rows\<rparr>)
       (update_rows (\<lambda>r. vw_TenantID r = tenantID \<and> vw_CaseID r = caseID) f case_allowed (sd_cases s))"

definition TransitionInvestigationCase :: "externals \<Rightarrow> string \<Rightarrow> string \<Rightarrow> string \<Rightarrow> string \<Rightarrow> InvestigationCaseRow geo" where
  "TransitionInvestigationCase X tenantID caseID actor action =
     transition_tx X tenantID ''investigation case'' (find_case tenantID caseID)
       (\<lambda>r. require (case_next action (vw_State r) \<noteq> None) ErrSafetyInvalidTransition)
       (\<lambda>now. update_case tenantID caseID (step_case action actor now))"

subsection \<open>Evidence\<close>

text \<open>\<open>ORDER BY collected_at, evidence_id\<close>.\<close>

definition case_evidence :: "string \<Rightarrow> string \<Rightarrow> safety_db \<Rightarrow> EvidenceRow list" where
  "case_evidence tenantID caseID s =
     sort_key (\<lambda>r. (ew_CollectedAt r, ew_EvidenceID r)) (filter (\<lambda>r. ew_CaseID r = caseID) (tenant_evidence tenantID s))"

text \<open>The newest row's hash, or the genesis hash.\<close>

definition evidence_head :: "string \<Rightarrow> string \<Rightarrow> safety_db \<Rightarrow> string" where
  "evidence_head tenantID caseID s =
     (case rev (case_evidence tenantID caseID s) of [] \<Rightarrow> EvidenceGenesisHash | r # _ \<Rightarrow> ew_ChainHash r)"

definition insert_evidence :: "string \<Rightarrow> EvidenceRow \<Rightarrow> safety_db \<Rightarrow> (safety_db \<times> EvidenceRow) option" where
  "insert_evidence tenantID r s =
     (if \<not> evidence_columns r \<or> ew_EvidenceID r \<in> ew_EvidenceID ` set (sd_evidence s)
         \<or> (ew_CaseID r, ew_ChainHash r) \<in> (\<lambda>x. (ew_CaseID x, ew_ChainHash x)) ` set (sd_evidence s)
         \<or> ew_CaseID r \<notin> vw_CaseID ` set (tenant_cases tenantID s) then None
      else Some (s\<lparr>sd_evidence := sd_evidence s @ [r]\<rparr>, r))"

definition AppendEvidence :: "externals \<Rightarrow> (nat list \<Rightarrow> nat list) \<Rightarrow> string \<Rightarrow> EvidenceRow \<Rightarrow> EvidenceRow geo" where
  "AppendEvidence X sha256 tenantID row =
     guarded_insert X tenantID ''evidence'' (find_case tenantID (ew_CaseID row))
       (\<lambda>c. seqA (require (vw_State c = EVIDENCE) ErrSafetyInvalidTransition)
              (safety_query X ''evidence head'' (evidence_head tenantID (ew_CaseID row))))
       (\<lambda>now _ prev. insert_evidence tenantID
          (row\<lparr>ew_PrevChainHash := prev, ew_ChainHash := EvidenceChainHash sha256 prev (ew_ContentHash row),
               ew_CollectedAt := now\<rparr>))"

definition ListEvidence :: "externals \<Rightarrow> string \<Rightarrow> string \<Rightarrow> EvidenceRow list geo" where
  "ListEvidence X tenantID caseID =
     WithTenant X tenantID (safety_query X ''list evidence'' (case_evidence tenantID caseID))"

fun chain_ok :: "(nat list \<Rightarrow> nat list) \<Rightarrow> string \<Rightarrow> EvidenceRow list \<Rightarrow> bool" where
  "chain_ok sha256 prev [] = True"
| "chain_ok sha256 prev (item # items) =
     (if ew_PrevChainHash item \<noteq> prev \<or> ew_ChainHash item \<noteq> EvidenceChainHash sha256 prev (ew_ContentHash item) then False
      else chain_ok sha256 (ew_ChainHash item) items)"

definition VerifyEvidenceChain :: "externals \<Rightarrow> (nat list \<Rightarrow> nat list) \<Rightarrow> string \<Rightarrow> string \<Rightarrow> bool geo" where
  "VerifyEvidenceChain X sha256 tenantID caseID =
     bindA (ListEvidence X tenantID caseID) (\<lambda>items. ret (chain_ok sha256 EvidenceGenesisHash items))"

subsection \<open>Findings and recommendations\<close>

definition in_report_phase :: "InvestigationCaseRow \<Rightarrow> unit geo" where
  "in_report_phase c = require (vw_State c = ANALYSIS \<or> vw_State c = REPORTED) ErrSafetyInvalidTransition"

definition insert_finding :: "string \<Rightarrow> FindingRow \<Rightarrow> safety_db \<Rightarrow> (safety_db \<times> FindingRow) option" where
  "insert_finding tenantID r s =
     (if \<not> finding_columns r \<or> fw_FindingID r \<in> fw_FindingID ` set (sd_findings s)
         \<or> fw_CaseID r \<notin> vw_CaseID ` set (tenant_cases tenantID s) then None
      else Some (s\<lparr>sd_findings := sd_findings s @ [r]\<rparr>, r))"

definition AddFinding :: "externals \<Rightarrow> string \<Rightarrow> FindingRow \<Rightarrow> FindingRow geo" where
  "AddFinding X tenantID row =
     guarded_insert X tenantID ''finding'' (find_case tenantID (fw_CaseID row)) in_report_phase
       (\<lambda>now _ _. insert_finding tenantID (row\<lparr>fw_CreatedAt := now\<rparr>))"

definition insert_recommendation :: "string \<Rightarrow> RecommendationRow \<Rightarrow> safety_db \<Rightarrow> (safety_db \<times> RecommendationRow) option" where
  "insert_recommendation tenantID r s =
     (if \<not> recommendation_columns r \<or> rw_RecommendationID r \<in> rw_RecommendationID ` set (sd_recommendations s)
         \<or> rw_CaseID r \<notin> vw_CaseID ` set (tenant_cases tenantID s) then None
      else Some (s\<lparr>sd_recommendations := sd_recommendations s @ [r]\<rparr>, r))"

definition AddRecommendation :: "externals \<Rightarrow> string \<Rightarrow> RecommendationRow \<Rightarrow> RecommendationRow geo" where
  "AddRecommendation X tenantID row =
     guarded_insert X tenantID ''recommendation'' (find_case tenantID (rw_CaseID row)) in_report_phase
       (\<lambda>now _ _. insert_recommendation tenantID
          (row\<lparr>rw_Status := PROPOSED, rw_CreatedAt := now, rw_DecidedBy := None, rw_DecidedAt := None\<rparr>))"

definition recommendation_coherent :: "RecommendationRow \<Rightarrow> bool" where
  "recommendation_coherent r \<longleftrightarrow>
     (rw_DecidedBy r = None) = (rw_DecidedAt r = None) \<and> (rw_Status r = PROPOSED \<or> rw_DecidedBy r \<noteq> None)"

definition find_recommendation :: "string \<Rightarrow> string \<Rightarrow> safety_db \<Rightarrow> RecommendationRow option" where
  "find_recommendation tenantID recommendationID s =
     find (\<lambda>r. rw_RecommendationID r = recommendationID) (tenant_recommendations tenantID s)"

definition recommendation_next :: "string \<Rightarrow> recommendation_status \<Rightarrow> recommendation_status option" where
  "recommendation_next action st =
     (if (action = ''accept'' \<or> action = ''reject'') \<and> st = PROPOSED
      then Some (if action = ''reject'' then REJECTED else ACCEPTED)
      else if action = ''implement'' \<and> st = ACCEPTED then Some IMPLEMENTED
      else None)"

definition step_recommendation :: "string \<Rightarrow> string \<Rightarrow> int \<Rightarrow> RecommendationRow \<Rightarrow> RecommendationRow" where
  "step_recommendation action actor now r =
     (if action = ''implement'' then r\<lparr>rw_Status := IMPLEMENTED\<rparr>
      else r\<lparr>rw_Status := (if action = ''reject'' then REJECTED else ACCEPTED), rw_DecidedBy := Some actor,
             rw_DecidedAt := Some now\<rparr>)"

definition recommendation_allowed :: "RecommendationRow \<Rightarrow> bool" where
  "recommendation_allowed r \<longleftrightarrow> recommendation_coherent r \<and> recommendation_columns r"

definition update_recommendation ::
  "string \<Rightarrow> string \<Rightarrow> (RecommendationRow \<Rightarrow> RecommendationRow) \<Rightarrow> safety_db \<Rightarrow> safety_db option" where
  "update_recommendation tenantID recommendationID f s =
     map_option (\<lambda>rows. s\<lparr>sd_recommendations := rows\<rparr>)
       (update_rows (\<lambda>r. rw_RecommendationID r = recommendationID \<and> rw_CaseID r \<in> vw_CaseID ` set (tenant_cases tenantID s))
          f recommendation_allowed (sd_recommendations s))"

definition DecideRecommendation :: "externals \<Rightarrow> string \<Rightarrow> string \<Rightarrow> string \<Rightarrow> string \<Rightarrow> RecommendationRow geo" where
  "DecideRecommendation X tenantID recommendationID actor action =
     transition_tx X tenantID ''recommendation'' (find_recommendation tenantID recommendationID)
       (\<lambda>r. require (recommendation_next action (rw_Status r) \<noteq> None) ErrSafetyInvalidTransition)
       (\<lambda>now. update_recommendation tenantID recommendationID (step_recommendation action actor now))"

definition ListFindings :: "externals \<Rightarrow> string \<Rightarrow> string \<Rightarrow> FindingRow list geo" where
  "ListFindings X tenantID caseID =
     WithTenant X tenantID (safety_query X ''list findings'' (\<lambda>s.
       sort_key fw_CreatedAt (filter (\<lambda>r. fw_CaseID r = caseID) (tenant_findings tenantID s))))"

definition ListRecommendations :: "externals \<Rightarrow> string \<Rightarrow> string \<Rightarrow> RecommendationRow list geo" where
  "ListRecommendations X tenantID caseID =
     WithTenant X tenantID (safety_query X ''list recommendations'' (\<lambda>s.
       sort_key rw_CreatedAt (filter (\<lambda>r. rw_CaseID r = caseID) (tenant_recommendations tenantID s))))"

section \<open>What a call may touch\<close>

lemma on_safety_case:
  "(case on_safety f d of None \<Rightarrow> a | Some r \<Rightarrow> g r)
     = (case f (db_safety d) of None \<Rightarrow> a | Some (s, r) \<Rightarrow> g (d\<lparr>db_safety := s\<rparr>, r))"
  by (simp add: on_safety_def split: option.split)

lemma safety_query_wp [wp_simps]:
  "wp (safety_query X l q) Q E = (\<lambda>w. wp (sql_query X l (\<lambda>d. q (db_safety d))) Q E w)"
  by (simp add: safety_query_def)

lemma transition_tx_wp:
  assumes check: "\<And>r v. tables_only w v \<Longrightarrow> w_db v = w_db w \<Longrightarrow>
      wp (check r) (\<lambda>_ w'. tables_only w w' \<and> w_db w' = w_db w \<and> G r) (\<lambda>_. tables_only w) v"
  shows "wp (transition_tx X t l get check upd)
     (\<lambda>r' w'. tables_only w w' \<and> trim_space t \<noteq> [] \<and> (\<exists>r now s'. get (db_safety (w_db w)) = Some r \<and> G r
         \<and> upd now (db_safety (w_db w)) = Some s' \<and> get s' = Some r' \<and> w_db w' = (w_db w)\<lparr>db_safety := s'\<rparr>))
     (\<lambda>_ w'. tables_only w w' \<and> w_db w' = w_db w) w"
  unfolding transition_tx_def
  by (rule WithTenant_tables)
    (auto simp: wp_simps on_safety_case split: option.split intro!: wp_mono [OF check], blast)

lemma guarded_insert_wp:
  assumes check: "\<And>p v. tables_only w v \<Longrightarrow> w_db v = w_db w \<Longrightarrow>
      wp (check p) (\<lambda>g w'. tables_only w w' \<and> w_db w' = w_db w \<and> G p g) (\<lambda>_. tables_only w) v"
  shows "wp (guarded_insert X t l get check ins)
     (\<lambda>r w'. tables_only w w' \<and> trim_space t \<noteq> [] \<and> (\<exists>p g now s'. get (db_safety (w_db w)) = Some p \<and> G p g
         \<and> ins now p g (db_safety (w_db w)) = Some (s', r) \<and> w_db w' = (w_db w)\<lparr>db_safety := s'\<rparr>))
     (\<lambda>_ w'. tables_only w w' \<and> w_db w' = w_db w) w"
  unfolding guarded_insert_def
  by (rule WithTenant_tables)
    (auto simp: wp_simps on_safety_case split: option.split intro!: wp_mono [OF check], blast)

section \<open>One row at a time\<close>

text \<open>
  A table whose rows are locked, stepped and read back: what \<open>transition_tx\<close> needs of the lookup and the
  update, and what a transition then does, for all six lifecycles.
\<close>

locale lifecycle_table =
  fixes rows :: "safety_db \<Rightarrow> 'r list"
    and put :: "'r list \<Rightarrow> safety_db \<Rightarrow> safety_db"
    and ident :: "'r \<Rightarrow> string"
    and visible :: "string \<Rightarrow> safety_db \<Rightarrow> 'r \<Rightarrow> bool"
    and coherent :: "'r \<Rightarrow> bool"
    and get :: "string \<Rightarrow> string \<Rightarrow> safety_db \<Rightarrow> 'r option"
    and upd :: "string \<Rightarrow> string \<Rightarrow> ('r \<Rightarrow> 'r) \<Rightarrow> safety_db \<Rightarrow> safety_db option"
  assumes get_visible: "get t i s = find (\<lambda>r. ident r = i) (filter (visible t s) (rows s))"
    and upd_visible: "upd t i f s = map_option (\<lambda>rs. put rs s)
      (update_rows (\<lambda>r. visible t s r \<and> ident r = i) f coherent (rows s))"
    and rows_put: "rows (put rs s) = rs"
    and visible_put: "visible t (put rs s) = visible t s"
begin

lemma get_Some: "get t i s = Some r \<Longrightarrow> r \<in> set (rows s) \<and> visible t s r \<and> ident r = i"
  unfolding get_visible by (auto simp: find_Some_iff dest: nth_mem)

lemma get_unique:
  assumes "distinct (map ident (rows s))" "r \<in> set (rows s)" "visible t s r"
  shows "get t (ident r) s = Some r"
proof (cases "get t (ident r) s")
  case None
  then show ?thesis using assms(2,3) unfolding get_visible by (auto simp: find_None_iff)
next
  case (Some x)
  with get_Some [OF Some] assms show ?thesis by (metis distinct_map inj_onD)
qed

lemma upd_unique:
  assumes "distinct (map ident (rows s))" "get t i s = Some r" "ident (f r) = i" "coherent (f r)"
  shows "upd t i f s = Some (put (replace_row ident (f r) (rows s)) s)"
proof -
  note r = get_Some [OF assms(2)]
  have same: "x = r" if "x \<in> set (rows s)" "ident x = i" for x
    using that r assms(1) by (metis distinct_map inj_onD)
  have "map (\<lambda>x. if visible t s x \<and> ident x = i then f x else x) (rows s) = replace_row ident (f r) (rows s)"
    unfolding replace_row_def assms(3) using same r by (auto intro!: map_cong)
  then show ?thesis
    using assms(4) same r unfolding upd_visible update_rows_def by auto
qed

lemma upd_coherent: "upd t i f s = Some s' \<Longrightarrow> get t i s = Some r \<Longrightarrow> coherent (f r)"
  using get_Some [of t i s r] unfolding upd_visible update_rows_def by (auto split: if_splits)

lemma get_replaced:
  assumes "distinct (map ident (rows s))" "get t i s = Some r" "ident r' = i" "visible t s r'"
  shows "get t i (put (replace_row ident r' (rows s)) s) = Some r'"
proof -
  note r = get_Some [OF assms(2)]
  have "\<exists>x\<in>set (filter (visible t s) (replace_row ident r' (rows s))). ident x = i"
    using r assms(3,4) by (auto simp: replace_row_def)
  then have "find (\<lambda>r. ident r = i) (filter (visible t s) (replace_row ident r' (rows s))) \<noteq> None"
    by (simp only: find_None_iff) blast
  then obtain x where x: "find (\<lambda>r. ident r = i) (filter (visible t s) (replace_row ident r' (rows s))) = Some x"
    by blast
  then have "x \<in> set (replace_row ident r' (rows s))" "ident x = i"
    by (auto simp: find_Some_iff dest: nth_mem)
  then have "x = r'" using assms(3) by (auto simp: replace_row_def split: if_splits)
  then show ?thesis using x by (simp add: get_visible rows_put visible_put)
qed

text \<open>A transition that succeeds stepped exactly the visible row of that key; one that fails changed nothing.\<close>

lemma transition_wp:
  assumes inv: "distinct (map ident (rows (db_safety (w_db w))))"
    and check: "\<And>r v. tables_only w v \<Longrightarrow> w_db v = w_db w \<Longrightarrow>
      wp (check r) (\<lambda>_ w'. tables_only w w' \<and> w_db w' = w_db w \<and> G r) (\<lambda>_. tables_only w) v"
    and keep: "\<And>now r. ident (f now r) = ident r" "\<And>now r. visible t (db_safety (w_db w)) (f now r) = visible t (db_safety (w_db w)) r"
  shows "wp (transition_tx X t l (get t i) check (\<lambda>now. upd t i (f now)))
     (\<lambda>r' w'. tables_only w w' \<and> trim_space t \<noteq> [] \<and> (\<exists>r now. let s = db_safety (w_db w) in
         r \<in> set (rows s) \<and> visible t s r \<and> ident r = i \<and> G r \<and> coherent r' \<and> r' = f now r
         \<and> w_db w' = (w_db w)\<lparr>db_safety := put (replace_row ident r' (rows s)) s\<rparr>))
     (\<lambda>_ w'. tables_only w w' \<and> w_db w' = w_db w) w"
proof (rule wp_mono [OF transition_tx_wp [where G = G, OF check]], goal_cases)
  case (3 r' w')
  then obtain r now s' where w': "tables_only w w'" "trim_space t \<noteq> []" "get t i (db_safety (w_db w)) = Some r" "G r"
      "upd t i (f now) (db_safety (w_db w)) = Some s'" "get t i s' = Some r'" "w_db w' = (w_db w)\<lparr>db_safety := s'\<rparr>"
    by blast
  note r = get_Some [OF w'(3)]
  have ok: "coherent (f now r)" by (rule upd_coherent [OF w'(5,3)])
  have s': "s' = put (replace_row ident (f now r) (rows (db_safety (w_db w)))) (db_safety (w_db w))"
    using upd_unique [OF inv w'(3), of "f now"] ok keep(1) r w'(5) by simp
  have "r' = f now r"
    using get_replaced [OF inv w'(3), of "f now r"] keep r w'(6) s' by simp
  then show ?case using w' r ok s' by (auto simp: Let_def)
qed

text \<open>So a step relation that allows the row to move describes the transition.\<close>

lemma transition_moves:
  assumes inv: "distinct (map ident (rows (db_safety (w_db w))))"
    and check: "\<And>r v. tables_only w v \<Longrightarrow> w_db v = w_db w \<Longrightarrow>
      wp (check r) (\<lambda>_ w'. tables_only w w' \<and> w_db w' = w_db w \<and> G r) (\<lambda>_. tables_only w) v"
    and keep: "\<And>now r. ident (f now r) = ident r" "\<And>now r. visible t (db_safety (w_db w)) (f now r) = visible t (db_safety (w_db w)) r"
    and move: "\<And>r now. r \<in> set (rows (db_safety (w_db w))) \<Longrightarrow> visible t (db_safety (w_db w)) r \<Longrightarrow> G r \<Longrightarrow>
      M (db_safety (w_db w)) (put (replace_row ident (f now r) (rows (db_safety (w_db w)))) (db_safety (w_db w)))"
  shows "wp (transition_tx X t l (get t i) check (\<lambda>now. upd t i (f now)))
     (\<lambda>r' w'. tables_only w w' \<and> trim_space t \<noteq> [] \<and> w_db w' = (w_db w)\<lparr>db_safety := db_safety (w_db w')\<rparr>
        \<and> M (db_safety (w_db w)) (db_safety (w_db w'))
        \<and> r' \<in> set (rows (db_safety (w_db w'))) \<and> visible t (db_safety (w_db w')) r')
     (\<lambda>_ w'. tables_only w w' \<and> w_db w' = w_db w) w"
proof (rule wp_mono [OF transition_wp [where G = G, OF inv check keep]], goal_cases)
  case (3 r' w')
  then obtain r now where r: "r \<in> set (rows (db_safety (w_db w)))" "visible t (db_safety (w_db w)) r" "G r"
    and w': "tables_only w w'" "trim_space t \<noteq> []" "r' = f now r"
      "w_db w' = (w_db w)\<lparr>db_safety := put (replace_row ident r' (rows (db_safety (w_db w)))) (db_safety (w_db w))\<rparr>"
    by (auto simp: Let_def)
  have "ident r' = ident r" using keep(1) w'(3) by simp
  then have "r' \<in> set (replace_row ident r' (rows (db_safety (w_db w))))"
    using r(1) by (auto simp: replace_row_def)
  then show ?case using w' r keep move [OF r, of now] by (simp add: rows_put visible_put)
qed

text \<open>With a database that answers, a step the check admits goes through.\<close>

lemma transition_accepted:
  assumes inv: "distinct (map ident (rows (db_safety (w_db w))))" and "get t i (db_safety (w_db w)) = Some r"
    and pg: "\<And>n. x_pg X n" and tenant: "trim_space t \<noteq> []"
    and check: "\<And>v. w_db v = w_db w \<Longrightarrow> wp (check r) (\<lambda>_ w'. w_db w' = w_db w) (\<lambda>_ _. False) v"
    and keep: "\<And>now r. ident (f now r) = ident r" "\<And>now r. visible t (db_safety (w_db w)) (f now r) = visible t (db_safety (w_db w)) r"
    and ok: "\<And>now. coherent (f now r)"
  shows "wp (transition_tx X t l (get t i) check (\<lambda>now. upd t i (f now)))
     (\<lambda>r' w'. \<exists>now. r' = f now r) (\<lambda>_ _. False) w"
proof -
  note r = get_Some [OF assms(2)]
  have upd: "upd t i (f now) (db_safety (w_db w)) = Some (put (replace_row ident (f now r) (rows (db_safety (w_db w)))) (db_safety (w_db w)))" for now
    using upd_unique [OF inv assms(2), of "f now"] ok keep(1) r by simp
  have again: "get t i (put (replace_row ident (f now r) (rows (db_safety (w_db w)))) (db_safety (w_db w))) = Some (f now r)" for now
    using get_replaced [OF inv assms(2), of "f now r"] keep r by simp
  show ?thesis
    unfolding transition_tx_def WithTenant_def
    using pg tenant by (auto simp: wp_simps on_safety_case assms(2) upd again intro!: wp_mono [OF check])
qed

end

interpretation inspections: lifecycle_table sd_inspections "\<lambda>rs s. s\<lparr>sd_inspections := rs\<rparr>" iw_InspectionID
  "\<lambda>t s r. iw_TenantID r = t" inspection_allowed find_inspection update_inspection
  by unfold_locales (simp_all add: find_inspection_def tenant_inspections_def update_inspection_def)

interpretation deficiencies: lifecycle_table sd_deficiencies "\<lambda>rs s. s\<lparr>sd_deficiencies := rs\<rparr>" dw_DeficiencyID
  "\<lambda>t s r. dw_InspectionID r \<in> iw_InspectionID ` set (tenant_inspections t s)" deficiency_allowed
  find_deficiency update_deficiency
  by unfold_locales (simp_all add: find_deficiency_def tenant_deficiencies_def update_deficiency_def tenant_inspections_def conj_commute)

interpretation incidents: lifecycle_table sd_incidents "\<lambda>rs s. s\<lparr>sd_incidents := rs\<rparr>" gw_IncidentID
  "\<lambda>t s r. gw_TenantID r = t" incident_allowed find_incident update_incident
  by unfold_locales (simp_all add: find_incident_def tenant_incidents_def update_incident_def)

interpretation taskings: lifecycle_table sd_taskings "\<lambda>rs s. s\<lparr>sd_taskings := rs\<rparr>" tw_TaskingID
  "\<lambda>t s r. tw_IncidentID r \<in> gw_IncidentID ` set (tenant_incidents t s)" tasking_allowed find_tasking update_tasking
  by unfold_locales (simp_all add: find_tasking_def tenant_taskings_def update_tasking_def tenant_incidents_def conj_commute)

interpretation investigations: lifecycle_table sd_cases "\<lambda>rs s. s\<lparr>sd_cases := rs\<rparr>" vw_CaseID
  "\<lambda>t s r. vw_TenantID r = t" case_allowed find_case update_case
  by unfold_locales (simp_all add: find_case_def tenant_cases_def update_case_def)

interpretation recommendations: lifecycle_table sd_recommendations "\<lambda>rs s. s\<lparr>sd_recommendations := rs\<rparr>" rw_RecommendationID
  "\<lambda>t s r. rw_CaseID r \<in> vw_CaseID ` set (tenant_cases t s)" recommendation_allowed
  find_recommendation update_recommendation
  by unfold_locales (simp_all add: find_recommendation_def tenant_recommendations_def update_recommendation_def tenant_cases_def conj_commute)

section \<open>The documented lifecycles\<close>

text \<open>The steps of the migration's state machines, with the columns each records.\<close>

inductive inspection_step :: "string \<Rightarrow> InspectionRow \<Rightarrow> InspectionRow \<Rightarrow> bool" for actor where
  start: "iw_State r = SCHEDULED \<Longrightarrow>
    inspection_step actor r (r\<lparr>iw_State := IN_PROGRESS, iw_StartedAt := Some now\<rparr>)"
| complete: "iw_State r = IN_PROGRESS \<Longrightarrow>
    inspection_step actor r (r\<lparr>iw_State := COMPLETED, iw_CompletedAt := Some now\<rparr>)"
| detain: "iw_State r = IN_PROGRESS \<or> iw_State r = COMPLETED \<Longrightarrow> trim_space grounds \<noteq> [] \<Longrightarrow>
    inspection_step actor r (r\<lparr>iw_State := DETAINED, iw_DetainedBy := Some actor, iw_DetainedAt := Some now,
      iw_DetentionGrounds := Some grounds\<rparr>)"
| rectify: "iw_State r = DETAINED \<Longrightarrow>
    inspection_step actor r (r\<lparr>iw_State := RECTIFICATION, iw_RectificationStartedBy := Some actor,
      iw_RectificationStartedAt := Some now\<rparr>)"
| release: "iw_State r = RECTIFICATION \<Longrightarrow> iw_DetainedBy r \<noteq> Some actor \<Longrightarrow>
    inspection_step actor r (r\<lparr>iw_State := RELEASED, iw_ReleasedBy := Some actor, iw_ReleasedAt := Some now\<rparr>)"
| close: "iw_State r = COMPLETED \<or> iw_State r = RELEASED \<Longrightarrow>
    inspection_step actor r (r\<lparr>iw_State := INSPECTION_CLOSED, iw_ClosedBy := Some actor, iw_ClosedAt := Some now\<rparr>)"

inductive deficiency_step :: "string \<Rightarrow> DeficiencyRow \<Rightarrow> DeficiencyRow \<Rightarrow> bool" for actor where
  rectify: "dw_State r = OPEN \<Longrightarrow>
    deficiency_step actor r (r\<lparr>dw_State := RECTIFIED, dw_RectifiedBy := Some actor, dw_RectifiedAt := Some now\<rparr>)"
| verify: "dw_State r = RECTIFIED \<Longrightarrow> dw_RectifiedBy r \<noteq> Some actor \<Longrightarrow>
    deficiency_step actor r (r\<lparr>dw_State := VERIFIED, dw_VerifiedBy := Some actor, dw_VerifiedAt := Some now\<rparr>)"

inductive incident_step :: "string \<Rightarrow> SarIncidentRow \<Rightarrow> SarIncidentRow \<Rightarrow> bool" for actor where
  alert: "gw_Phase r = UNCERTAINTY \<Longrightarrow>
    incident_step actor r (r\<lparr>gw_Phase := ALERT, gw_AlertedBy := Some actor, gw_AlertedAt := Some now\<rparr>)"
| distress: "gw_Phase r = ALERT \<Longrightarrow>
    incident_step actor r (r\<lparr>gw_Phase := DISTRESS, gw_DistressDeclaredBy := Some actor, gw_DistressDeclaredAt := Some now\<rparr>)"
| rescue: "gw_Phase r = DISTRESS \<Longrightarrow>
    incident_step actor r (r\<lparr>gw_Phase := RESCUE, gw_RescueStartedBy := Some actor, gw_RescueStartedAt := Some now\<rparr>)"
| close: "gw_Phase r \<noteq> SAR_CLOSED \<Longrightarrow> trim_space reason \<noteq> [] \<Longrightarrow>
    incident_step actor r (r\<lparr>gw_Phase := SAR_CLOSED, gw_ClosedBy := Some actor, gw_ClosedAt := Some now,
      gw_ClosureReason := Some reason\<rparr>)"

inductive tasking_step :: "string \<Rightarrow> SarTaskingRow \<Rightarrow> SarTaskingRow \<Rightarrow> bool" for actor where
  enroute: "tw_State r = TASKED \<Longrightarrow> tasking_step actor r (r\<lparr>tw_State := EN_ROUTE\<rparr>)"
| onscene: "tw_State r = TASKED \<or> tw_State r = EN_ROUTE \<Longrightarrow> tasking_step actor r (r\<lparr>tw_State := ON_SCENE\<rparr>)"
| release: "tw_State r \<noteq> TASKING_RELEASED \<Longrightarrow>
    tasking_step actor r (r\<lparr>tw_State := TASKING_RELEASED, tw_ReleasedBy := Some actor, tw_ReleasedAt := Some now\<rparr>)"

inductive case_step :: "string \<Rightarrow> InvestigationCaseRow \<Rightarrow> InvestigationCaseRow \<Rightarrow> bool" for actor where
  evidence: "vw_State r = CASE_OPEN \<Longrightarrow> case_step actor r (r\<lparr>vw_State := EVIDENCE\<rparr>)"
| analysis: "vw_State r = EVIDENCE \<Longrightarrow> case_step actor r (r\<lparr>vw_State := ANALYSIS\<rparr>)"
| report: "vw_State r = ANALYSIS \<Longrightarrow>
    case_step actor r (r\<lparr>vw_State := REPORTED, vw_ReportedBy := Some actor, vw_ReportedAt := Some now\<rparr>)"
| close: "vw_State r = REPORTED \<Longrightarrow>
    case_step actor r (r\<lparr>vw_State := CASE_CLOSED, vw_ClosedBy := Some actor, vw_ClosedAt := Some now\<rparr>)"

inductive recommendation_step :: "string \<Rightarrow> RecommendationRow \<Rightarrow> RecommendationRow \<Rightarrow> bool" for actor where
  decide: "rw_Status r = PROPOSED \<Longrightarrow> status = ACCEPTED \<or> status = REJECTED \<Longrightarrow>
    recommendation_step actor r (r\<lparr>rw_Status := status, rw_DecidedBy := Some actor, rw_DecidedAt := Some now\<rparr>)"
| implement: "rw_Status r = ACCEPTED \<Longrightarrow> recommendation_step actor r (r\<lparr>rw_Status := IMPLEMENTED\<rparr>)"

lemmas row_steps = inspection_step.intros deficiency_step.intros incident_step.intros tasking_step.intros
  case_step.intros recommendation_step.intros

text \<open>
  A step of the whole module for a tenant: one row of its own appears or moves. A vessel is released only
  with every critical deficiency of its inspection verified; evidence is appended in the EVIDENCE state only,
  chained to the newest item.
\<close>

inductive safety_step :: "(nat list \<Rightarrow> nat list) \<Rightarrow> string \<Rightarrow> safety_db \<Rightarrow> safety_db \<Rightarrow> bool" for sha256 tenant where
  template: "ct_TenantID r = tenant \<Longrightarrow> ct_TemplateID r \<notin> ct_TemplateID ` set (sd_templates s) \<Longrightarrow>
    safety_step sha256 tenant s (s\<lparr>sd_templates := sd_templates s @ [r]\<rparr>)"
| inspection: "iw_TenantID r = tenant \<Longrightarrow> iw_InspectionID r \<notin> iw_InspectionID ` set (sd_inspections s) \<Longrightarrow>
    tpl \<in> set (sd_templates s) \<Longrightarrow> ct_TenantID tpl = tenant \<Longrightarrow> ct_TemplateID tpl = iw_TemplateID r \<Longrightarrow>
    ct_Regime tpl = iw_Regime r \<Longrightarrow>
    safety_step sha256 tenant s (s\<lparr>sd_inspections := sd_inspections s @ [fresh_inspection r now]\<rparr>)"
| inspection_moves: "r \<in> set (sd_inspections s) \<Longrightarrow> iw_TenantID r = tenant \<Longrightarrow> inspection_step actor r r' \<Longrightarrow>
    (iw_State r' = RELEASED \<Longrightarrow> \<forall>d\<in>set (sd_deficiencies s).
       dw_InspectionID d = iw_InspectionID r \<and> dw_Severity d = ''CRITICAL'' \<longrightarrow> dw_State d = VERIFIED) \<Longrightarrow>
    safety_step sha256 tenant s (s\<lparr>sd_inspections := replace_row iw_InspectionID r' (sd_inspections s)\<rparr>)"
| deficiency: "dw_DeficiencyID r \<notin> dw_DeficiencyID ` set (sd_deficiencies s) \<Longrightarrow>
    dw_InspectionID r \<in> iw_InspectionID ` set (tenant_inspections tenant s) \<Longrightarrow>
    safety_step sha256 tenant s (s\<lparr>sd_deficiencies := sd_deficiencies s @ [fresh_deficiency r now]\<rparr>)"
| deficiency_moves: "r \<in> set (sd_deficiencies s) \<Longrightarrow> dw_InspectionID r \<in> iw_InspectionID ` set (tenant_inspections tenant s) \<Longrightarrow>
    deficiency_step actor r r' \<Longrightarrow>
    safety_step sha256 tenant s (s\<lparr>sd_deficiencies := replace_row dw_DeficiencyID r' (sd_deficiencies s)\<rparr>)"
| incident: "gw_TenantID r = tenant \<Longrightarrow> gw_IncidentID r \<notin> gw_IncidentID ` set (sd_incidents s) \<Longrightarrow>
    safety_step sha256 tenant s (s\<lparr>sd_incidents := sd_incidents s @ [fresh_incident r p now]\<rparr>)"
| incident_moves: "r \<in> set (sd_incidents s) \<Longrightarrow> gw_TenantID r = tenant \<Longrightarrow> incident_step actor r r' \<Longrightarrow>
    safety_step sha256 tenant s (s\<lparr>sd_incidents := replace_row gw_IncidentID r' (sd_incidents s)\<rparr>)"
| tasking: "tw_TaskingID r \<notin> tw_TaskingID ` set (sd_taskings s) \<Longrightarrow> i \<in> set (tenant_incidents tenant s) \<Longrightarrow>
    gw_IncidentID i = tw_IncidentID r \<Longrightarrow> gw_Phase i \<noteq> SAR_CLOSED \<Longrightarrow> tw_State r = TASKED \<Longrightarrow> tw_ReleasedBy r = None \<Longrightarrow>
    tw_ReleasedAt r = None \<Longrightarrow>
    safety_step sha256 tenant s (s\<lparr>sd_taskings := sd_taskings s @ [r]\<rparr>)"
| tasking_moves: "r \<in> set (sd_taskings s) \<Longrightarrow> tw_IncidentID r \<in> gw_IncidentID ` set (tenant_incidents tenant s) \<Longrightarrow>
    tasking_step actor r r' \<Longrightarrow>
    safety_step sha256 tenant s (s\<lparr>sd_taskings := replace_row tw_TaskingID r' (sd_taskings s)\<rparr>)"
| comms: "cw_IncidentID r \<in> gw_IncidentID ` set (tenant_incidents tenant s) \<Longrightarrow>
    safety_step sha256 tenant s (s\<lparr>sd_comms := sd_comms s @ [r]\<rparr>)"
| investigation: "vw_TenantID r = tenant \<Longrightarrow> vw_CaseID r \<notin> vw_CaseID ` set (sd_cases s) \<Longrightarrow>
    safety_step sha256 tenant s (s\<lparr>sd_cases := sd_cases s @ [fresh_case r p now]\<rparr>)"
| investigation_moves: "r \<in> set (sd_cases s) \<Longrightarrow> vw_TenantID r = tenant \<Longrightarrow> case_step actor r r' \<Longrightarrow>
    safety_step sha256 tenant s (s\<lparr>sd_cases := replace_row vw_CaseID r' (sd_cases s)\<rparr>)"
| evidence: "ew_EvidenceID r \<notin> ew_EvidenceID ` set (sd_evidence s) \<Longrightarrow>
    (ew_CaseID r, ew_ChainHash r) \<notin> (\<lambda>x. (ew_CaseID x, ew_ChainHash x)) ` set (sd_evidence s) \<Longrightarrow> c \<in> set (tenant_cases tenant s) \<Longrightarrow>
    vw_CaseID c = ew_CaseID r \<Longrightarrow> vw_State c = EVIDENCE \<Longrightarrow> ew_PrevChainHash r = evidence_head tenant (ew_CaseID r) s \<Longrightarrow>
    ew_ChainHash r = EvidenceChainHash sha256 (ew_PrevChainHash r) (ew_ContentHash r) \<Longrightarrow>
    safety_step sha256 tenant s (s\<lparr>sd_evidence := sd_evidence s @ [r]\<rparr>)"
| finding: "fw_FindingID r \<notin> fw_FindingID ` set (sd_findings s) \<Longrightarrow> c \<in> set (tenant_cases tenant s) \<Longrightarrow>
    vw_CaseID c = fw_CaseID r \<Longrightarrow> vw_State c \<in> {ANALYSIS, REPORTED} \<Longrightarrow>
    safety_step sha256 tenant s (s\<lparr>sd_findings := sd_findings s @ [r]\<rparr>)"
| recommendation: "rw_RecommendationID r \<notin> rw_RecommendationID ` set (sd_recommendations s) \<Longrightarrow> c \<in> set (tenant_cases tenant s) \<Longrightarrow>
    vw_CaseID c = rw_CaseID r \<Longrightarrow> vw_State c \<in> {ANALYSIS, REPORTED} \<Longrightarrow> rw_Status r = PROPOSED \<Longrightarrow> rw_DecidedBy r = None \<Longrightarrow>
    rw_DecidedAt r = None \<Longrightarrow>
    safety_step sha256 tenant s (s\<lparr>sd_recommendations := sd_recommendations s @ [r]\<rparr>)"
| recommendation_moves: "r \<in> set (sd_recommendations s) \<Longrightarrow> rw_CaseID r \<in> vw_CaseID ` set (tenant_cases tenant s) \<Longrightarrow>
    recommendation_step actor r r' \<Longrightarrow>
    safety_step sha256 tenant s (s\<lparr>sd_recommendations := replace_row rw_RecommendationID r' (sd_recommendations s)\<rparr>)"

section \<open>Consistency\<close>

text \<open>The constraints of the tables, and what the lifecycles add to them.\<close>

definition inspection_ok :: "InspectionRow \<Rightarrow> bool" where
  "inspection_ok r \<longleftrightarrow> inspection_coherent r
     \<and> (iw_State r \<in> {DETAINED, RECTIFICATION, RELEASED} \<longrightarrow> iw_DetainedBy r \<noteq> None)
     \<and> (iw_State r \<in> {RECTIFICATION, RELEASED} \<longrightarrow> iw_RectificationStartedBy r \<noteq> None)
     \<and> (iw_State r \<in> {RELEASED, INSPECTION_CLOSED} \<longrightarrow> (iw_DetainedBy r \<noteq> None) = (iw_ReleasedBy r \<noteq> None))
     \<and> (iw_ReleasedBy r \<noteq> None \<longrightarrow> iw_ReleasedBy r \<noteq> iw_DetainedBy r)
     \<and> (\<forall>g. iw_DetentionGrounds r = Some g \<longrightarrow> trim_space g \<noteq> [])
     \<and> (iw_DetainedBy r \<noteq> None \<longrightarrow> iw_DetentionGrounds r \<noteq> None)"

definition deficiency_ok :: "DeficiencyRow \<Rightarrow> bool" where
  "deficiency_ok r \<longleftrightarrow> deficiency_coherent r
     \<and> (dw_State r \<noteq> OPEN \<longrightarrow> dw_RectifiedBy r \<noteq> None)
     \<and> (dw_State r = VERIFIED \<longrightarrow> dw_VerifiedBy r \<noteq> dw_RectifiedBy r)"

definition incident_ok :: "SarIncidentRow \<Rightarrow> bool" where
  "incident_ok r \<longleftrightarrow> incident_coherent r
     \<and> (gw_Phase r \<in> {ALERT, DISTRESS, RESCUE} \<longrightarrow> gw_AlertedBy r \<noteq> None)
     \<and> (gw_Phase r \<in> {DISTRESS, RESCUE} \<longrightarrow> gw_DistressDeclaredBy r \<noteq> None)
     \<and> (gw_Phase r = RESCUE \<longrightarrow> gw_RescueStartedBy r \<noteq> None)
     \<and> (gw_RescueStartedBy r \<noteq> None \<longrightarrow> gw_DistressDeclaredBy r \<noteq> None)
     \<and> (gw_DistressDeclaredBy r \<noteq> None \<longrightarrow> gw_AlertedBy r \<noteq> None)
     \<and> (gw_Phase r = SAR_CLOSED \<longrightarrow> (\<exists>reason. gw_ClosureReason r = Some reason \<and> trim_space reason \<noteq> []))"

definition case_ok :: "InvestigationCaseRow \<Rightarrow> bool" where
  "case_ok r \<longleftrightarrow> case_coherent r \<and> (vw_State r \<in> {REPORTED, CASE_CLOSED} \<longrightarrow> vw_ReportedBy r \<noteq> None)"

definition table_ok :: "('r \<Rightarrow> string) \<Rightarrow> ('r \<Rightarrow> bool) \<Rightarrow> 'r list \<Rightarrow> bool" where
  "table_ok ident ok rows \<longleftrightarrow> distinct (map ident rows) \<and> (\<forall>r\<in>set rows. ok r)"

definition safety_inv :: "safety_db \<Rightarrow> bool" where
  "safety_inv s \<longleftrightarrow>
     table_ok ct_TemplateID (\<lambda>_. True) (sd_templates s)
     \<and> table_ok iw_InspectionID inspection_ok (sd_inspections s)
     \<and> table_ok dw_DeficiencyID deficiency_ok (sd_deficiencies s)
     \<and> table_ok gw_IncidentID incident_ok (sd_incidents s)
     \<and> table_ok tw_TaskingID tasking_coherent (sd_taskings s)
     \<and> table_ok vw_CaseID case_ok (sd_cases s)
     \<and> table_ok ew_EvidenceID (\<lambda>_. True) (sd_evidence s)
     \<and> distinct (map (\<lambda>r. (ew_CaseID r, ew_ChainHash r)) (sd_evidence s))
     \<and> table_ok rw_RecommendationID recommendation_coherent (sd_recommendations s)"

lemma replace_row_ids: "map ident (replace_row ident r' rows) = map ident rows"
  by (simp add: replace_row_def)

lemma table_ok_append:
  "table_ok ident ok rows \<Longrightarrow> ident r \<notin> ident ` set rows \<Longrightarrow> ok r \<Longrightarrow> table_ok ident ok (rows @ [r])"
  by (simp add: table_ok_def)

lemma table_ok_step:
  "table_ok ident ok rows \<Longrightarrow> r \<in> set rows \<Longrightarrow> (ok r \<Longrightarrow> ok r') \<Longrightarrow> table_ok ident ok (replace_row ident r' rows)"
  by (auto simp: table_ok_def replace_row_ids) (auto simp: replace_row_def)

lemma table_ok_distinct: "table_ok ident ok rows \<Longrightarrow> distinct (map ident rows)"
  by (simp add: table_ok_def)

text \<open>Each step keeps its row consistent.\<close>

lemma inspection_step_ok: "inspection_step actor r r' \<Longrightarrow> inspection_ok r \<Longrightarrow> inspection_ok r'"
  by (induction rule: inspection_step.induct) ((elim disjE)?; simp add: inspection_ok_def inspection_coherent_def del: not_None_eq; (elim conjE)?; simp del: not_None_eq)+

lemma deficiency_step_ok: "deficiency_step actor r r' \<Longrightarrow> deficiency_ok r \<Longrightarrow> deficiency_ok r'"
  by (induction rule: deficiency_step.induct) (auto simp: deficiency_ok_def deficiency_coherent_def)

lemma incident_step_ok: "incident_step actor r r' \<Longrightarrow> incident_ok r \<Longrightarrow> incident_ok r'"
  by (induction rule: incident_step.induct)
    (simp add: incident_ok_def incident_coherent_def del: not_None_eq; (elim conjE)?; simp del: not_None_eq)+

lemma tasking_step_ok: "tasking_step actor r r' \<Longrightarrow> tasking_coherent r \<Longrightarrow> tasking_coherent r'"
  by (induction rule: tasking_step.induct) (auto simp: tasking_coherent_def)

lemma case_step_ok: "case_step actor r r' \<Longrightarrow> case_ok r \<Longrightarrow> case_ok r'"
  by (induction rule: case_step.induct) (auto simp: case_ok_def case_coherent_def)

lemma recommendation_step_ok: "recommendation_step actor r r' \<Longrightarrow> recommendation_coherent r \<Longrightarrow> recommendation_coherent r'"
  by (induction rule: recommendation_step.induct) (auto simp: recommendation_coherent_def)

lemma fresh_rows_ok:
  "inspection_ok (fresh_inspection r now)" "deficiency_ok (fresh_deficiency d now)" "incident_ok (fresh_incident i p now)"
  "case_ok (fresh_case c p now)"
  by (simp_all add: inspection_ok_def inspection_coherent_def fresh_inspection_def deficiency_ok_def deficiency_coherent_def
      fresh_deficiency_def incident_ok_def incident_coherent_def fresh_incident_def case_ok_def case_coherent_def fresh_case_def)

lemma fresh_ids [simp]:
  "iw_InspectionID (fresh_inspection r now) = iw_InspectionID r" "dw_DeficiencyID (fresh_deficiency d now) = dw_DeficiencyID d"
  "gw_IncidentID (fresh_incident i p now) = gw_IncidentID i" "vw_CaseID (fresh_case c p now) = vw_CaseID c"
  by (simp_all add: fresh_inspection_def fresh_deficiency_def fresh_incident_def fresh_case_def)

lemma new_rows_ok:
  "tw_State r = TASKED \<Longrightarrow> tw_ReleasedBy r = None \<Longrightarrow> tw_ReleasedAt r = None \<Longrightarrow> tasking_coherent r"
  "rw_Status q = PROPOSED \<Longrightarrow> rw_DecidedBy q = None \<Longrightarrow> rw_DecidedAt q = None \<Longrightarrow> recommendation_coherent q"
  by (simp_all add: tasking_coherent_def recommendation_coherent_def)

lemmas step_keeps_ok = inspection_step_ok deficiency_step_ok incident_step_ok tasking_step_ok case_step_ok
  recommendation_step_ok

lemma safety_step_inv: "safety_step sha256 t s s' \<Longrightarrow> safety_inv s \<Longrightarrow> safety_inv s'"
  by (induction rule: safety_step.induct)
    (auto simp: safety_inv_def fresh_rows_ok new_rows_ok intro!: table_ok_append intro: table_ok_step step_keeps_ok)

section \<open>The calls make documented steps\<close>

definition steps_for :: "(nat list \<Rightarrow> nat list) \<Rightarrow> string \<Rightarrow> world \<Rightarrow> world \<Rightarrow> bool" where
  "steps_for sha256 t w w' \<longleftrightarrow> tables_only w w' \<and> trim_space t \<noteq> []
     \<and> w_db w' = (w_db w)\<lparr>db_safety := db_safety (w_db w')\<rparr>
     \<and> safety_step sha256 t (db_safety (w_db w)) (db_safety (w_db w'))"

definition untouched :: "world \<Rightarrow> world \<Rightarrow> bool" where
  "untouched w w' \<longleftrightarrow> tables_only w w' \<and> w_db w' = w_db w"

lemma steps_forI:
  "tables_only w w' \<Longrightarrow> trim_space t \<noteq> [] \<Longrightarrow> w_db w' = (w_db w)\<lparr>db_safety := s'\<rparr> \<Longrightarrow>
     safety_step sha256 t (db_safety (w_db w)) s' \<Longrightarrow> steps_for sha256 t w w'"
  by (simp add: steps_for_def)

text \<open>The checks admit exactly the steps of the lifecycles.\<close>

lemma inspection_steps:
  "inspection_next action (iw_State r) \<noteq> None \<Longrightarrow> (action = ''detain'' \<Longrightarrow> trim_space text \<noteq> []) \<Longrightarrow>
     (action = ''release'' \<Longrightarrow> iw_DetainedBy r \<noteq> Some actor) \<Longrightarrow>
     inspection_step actor r (step_inspection action actor text now r)"
  unfolding inspection_next_def step_inspection_def by (auto split: if_splits intro: row_steps)

lemma inspection_released:
  "inspection_next action (iw_State r) \<noteq> None \<Longrightarrow> iw_State (step_inspection action actor text now r) = RELEASED \<longleftrightarrow> action = ''release''"
  unfolding inspection_next_def step_inspection_def by (auto split: if_splits)

lemma deficiency_steps:
  "action = ''rectify'' \<and> dw_State r = OPEN \<or> action = ''verify'' \<and> dw_State r = RECTIFIED \<and> dw_RectifiedBy r \<noteq> Some actor \<Longrightarrow>
     deficiency_step actor r (step_deficiency action actor now r)"
  unfolding step_deficiency_def by (auto intro: row_steps)

lemma incident_steps:
  "incident_next action (gw_Phase r) \<noteq> None \<Longrightarrow> (action = ''close'' \<Longrightarrow> trim_space reason \<noteq> []) \<Longrightarrow>
     incident_step actor r (step_incident action actor reason now r)"
  unfolding incident_next_def step_incident_def by (auto split: if_splits intro: row_steps)

lemma tasking_steps: "tasking_next action (tw_State r) \<noteq> None \<Longrightarrow> tasking_step actor r (step_tasking action actor now r)"
  unfolding tasking_next_def step_tasking_def by (auto split: if_splits intro: row_steps)

lemma case_steps: "case_next action (vw_State r) \<noteq> None \<Longrightarrow> case_step actor r (step_case action actor now r)"
  unfolding case_next_def step_case_def by (auto split: if_splits intro: row_steps)

lemma recommendation_steps:
  "recommendation_next action (rw_Status r) \<noteq> None \<Longrightarrow> recommendation_step actor r (step_recommendation action actor now r)"
  unfolding recommendation_next_def step_recommendation_def by (auto split: if_splits intro: row_steps)

lemma step_ids [simp]:
  "iw_InspectionID (step_inspection a b c n r) = iw_InspectionID r" "iw_TenantID (step_inspection a b c n r) = iw_TenantID r"
  "dw_DeficiencyID (step_deficiency a b n d) = dw_DeficiencyID d" "dw_InspectionID (step_deficiency a b n d) = dw_InspectionID d"
  "gw_IncidentID (step_incident a b c n i) = gw_IncidentID i" "gw_TenantID (step_incident a b c n i) = gw_TenantID i"
  "tw_TaskingID (step_tasking a b n g) = tw_TaskingID g" "tw_IncidentID (step_tasking a b n g) = tw_IncidentID g"
  "vw_CaseID (step_case a b n v) = vw_CaseID v" "vw_TenantID (step_case a b n v) = vw_TenantID v"
  "rw_RecommendationID (step_recommendation a b n q) = rw_RecommendationID q" "rw_CaseID (step_recommendation a b n q) = rw_CaseID q"
  by (simp_all add: step_inspection_def step_deficiency_def step_incident_def step_tasking_def step_case_def step_recommendation_def)

lemma safety_invD:
  assumes "safety_inv s"
  shows "distinct (map iw_InspectionID (sd_inspections s))" "distinct (map dw_DeficiencyID (sd_deficiencies s))"
    "distinct (map gw_IncidentID (sd_incidents s))" "distinct (map tw_TaskingID (sd_taskings s))"
    "distinct (map vw_CaseID (sd_cases s))" "distinct (map rw_RecommendationID (sd_recommendations s))"
  using assms by (simp_all add: safety_inv_def table_ok_def)

lemma open_critical_zero:
  "open_critical t (iw_InspectionID r) s = 0 \<Longrightarrow> r \<in> set (sd_inspections s) \<Longrightarrow> iw_TenantID r = t \<Longrightarrow>
     d \<in> set (sd_deficiencies s) \<Longrightarrow> dw_InspectionID d = iw_InspectionID r \<Longrightarrow> dw_Severity d = ''CRITICAL'' \<Longrightarrow> dw_State d = VERIFIED"
  by (auto simp: open_critical_def tenant_deficiencies_def tenant_inspections_def filter_empty_conv)

lemma check_inspection_wp:
  "tables_only w v \<Longrightarrow> w_db v = w_db w \<Longrightarrow> wp (check_inspection X t actor action text r)
     (\<lambda>_ w'. tables_only w w' \<and> w_db w' = w_db w \<and> inspection_next action (iw_State r) \<noteq> None
        \<and> (action = ''detain'' \<longrightarrow> trim_space text \<noteq> [])
        \<and> (action = ''release'' \<longrightarrow> iw_DetainedBy r \<noteq> Some actor \<and> open_critical t (iw_InspectionID r) (db_safety (w_db w)) = 0))
     (\<lambda>_. tables_only w) v"
  unfolding check_inspection_def by (auto simp: wp_simps)

text \<open>One lemma per call; \<open>moved\<close> folds the conclusion of the table's lemma.\<close>

lemma moved:
  "wp m (\<lambda>r w'. tables_only w w' \<and> trim_space t \<noteq> [] \<and> w_db w' = (w_db w)\<lparr>db_safety := db_safety (w_db w')\<rparr>
        \<and> safety_step sha256 t (db_safety (w_db w)) (db_safety (w_db w')) \<and> P r (db_safety (w_db w')) \<and> V r (db_safety (w_db w')))
     (\<lambda>_ w'. tables_only w w' \<and> w_db w' = w_db w) w \<Longrightarrow>
   wp m (\<lambda>r w'. steps_for sha256 t w w' \<and> P r (db_safety (w_db w')) \<and> V r (db_safety (w_db w'))) (\<lambda>_. untouched w) w"
  by (erule wp_mono) (simp_all add: steps_for_def untouched_def)

lemma TransitionInspection_wp:
  assumes "safety_inv (db_safety (w_db w))"
  shows "wp (TransitionInspection X t i actor action text)
     (\<lambda>r w'. steps_for sha256 t w w' \<and> r \<in> set (sd_inspections (db_safety (w_db w'))) \<and> iw_TenantID r = t) (\<lambda>_. untouched w) w"
  unfolding TransitionInspection_def
proof (rule moved, rule inspections.transition_moves [OF safety_invD(1) [OF assms] check_inspection_wp], goal_cases)
  case (5 r now)
  then show ?case
    by (intro safety_step.inspection_moves [of r _ _ actor])
      (auto simp: inspection_steps inspection_released dest: open_critical_zero)
qed simp_all

lemma TransitionDeficiency_wp:
  assumes "safety_inv (db_safety (w_db w))"
  shows "wp (TransitionDeficiency X t i actor action)
     (\<lambda>r w'. steps_for sha256 t w w' \<and> r \<in> set (sd_deficiencies (db_safety (w_db w')))
        \<and> dw_InspectionID r \<in> iw_InspectionID ` set (tenant_inspections t (db_safety (w_db w')))) (\<lambda>_. untouched w) w"
  unfolding TransitionDeficiency_def
  by (rule moved, rule deficiencies.transition_moves [OF safety_invD(2) [OF assms], where
        G = "\<lambda>r. action = ''rectify'' \<and> dw_State r = OPEN \<or> action = ''verify'' \<and> dw_State r = RECTIFIED \<and> dw_RectifiedBy r \<noteq> Some actor"])
    (auto simp: wp_simps check_deficiency_def intro: safety_step.deficiency_moves deficiency_steps)

lemma TransitionSarIncident_wp:
  assumes "safety_inv (db_safety (w_db w))"
  shows "wp (TransitionSarIncident X t i actor action reason)
     (\<lambda>r w'. steps_for sha256 t w w' \<and> r \<in> set (sd_incidents (db_safety (w_db w'))) \<and> gw_TenantID r = t) (\<lambda>_. untouched w) w"
  unfolding TransitionSarIncident_def
  by (rule moved, rule incidents.transition_moves [OF safety_invD(3) [OF assms], where
        G = "\<lambda>r. incident_next action (gw_Phase r) \<noteq> None \<and> (action = ''close'' \<longrightarrow> trim_space reason \<noteq> [])"])
    (auto simp: wp_simps check_incident_def intro: safety_step.incident_moves incident_steps)

lemma TransitionSarTasking_wp:
  assumes "safety_inv (db_safety (w_db w))"
  shows "wp (TransitionSarTasking X t i actor action)
     (\<lambda>r w'. steps_for sha256 t w w' \<and> r \<in> set (sd_taskings (db_safety (w_db w')))
        \<and> tw_IncidentID r \<in> gw_IncidentID ` set (tenant_incidents t (db_safety (w_db w')))) (\<lambda>_. untouched w) w"
  unfolding TransitionSarTasking_def
  by (rule moved, rule taskings.transition_moves [OF safety_invD(4) [OF assms], where G = "\<lambda>r. tasking_next action (tw_State r) \<noteq> None"])
    (auto simp: wp_simps intro: safety_step.tasking_moves tasking_steps)

lemma TransitionInvestigationCase_wp:
  assumes "safety_inv (db_safety (w_db w))"
  shows "wp (TransitionInvestigationCase X t i actor action)
     (\<lambda>r w'. steps_for sha256 t w w' \<and> r \<in> set (sd_cases (db_safety (w_db w'))) \<and> vw_TenantID r = t) (\<lambda>_. untouched w) w"
  unfolding TransitionInvestigationCase_def
  by (rule moved, rule investigations.transition_moves [OF safety_invD(5) [OF assms], where G = "\<lambda>r. case_next action (vw_State r) \<noteq> None"])
    (auto simp: wp_simps intro: safety_step.investigation_moves case_steps)

lemma DecideRecommendation_wp:
  assumes "safety_inv (db_safety (w_db w))"
  shows "wp (DecideRecommendation X t i actor action)
     (\<lambda>r w'. steps_for sha256 t w w' \<and> r \<in> set (sd_recommendations (db_safety (w_db w')))
        \<and> rw_CaseID r \<in> vw_CaseID ` set (tenant_cases t (db_safety (w_db w')))) (\<lambda>_. untouched w) w"
  unfolding DecideRecommendation_def
  by (rule moved, rule recommendations.transition_moves [OF safety_invD(6) [OF assms], where G = "\<lambda>r. recommendation_next action (rw_Status r) \<noteq> None"])
    (auto simp: wp_simps intro: safety_step.recommendation_moves recommendation_steps)

lemma guarded_insert_moves:
  assumes check: "\<And>p v. tables_only w v \<Longrightarrow> w_db v = w_db w \<Longrightarrow>
      wp (check p) (\<lambda>g w'. tables_only w w' \<and> w_db w' = w_db w \<and> G p g) (\<lambda>_. tables_only w) v"
    and move: "\<And>p g now s' r. get (db_safety (w_db w)) = Some p \<Longrightarrow> G p g \<Longrightarrow> ins now p g (db_safety (w_db w)) = Some (s', r) \<Longrightarrow>
      safety_step sha256 t (db_safety (w_db w)) s' \<and> P r s'"
  shows "wp (guarded_insert X t l get check ins) (\<lambda>r w'. steps_for sha256 t w w' \<and> P r (db_safety (w_db w'))) (\<lambda>_. untouched w) w"
  by (rule wp_mono [OF guarded_insert_wp [where G = G, OF check]])
    (auto simp: untouched_def steps_for_def dest: move)

lemma find_visible: "find (\<lambda>r. ident r = i) (filter V rows) = Some r \<Longrightarrow> r \<in> set rows \<and> V r \<and> ident r = i"
  by (auto simp: find_Some_iff dest: nth_mem)

lemma tenant_rows_simps [simp]:
  "tenant_inspections t (s\<lparr>sd_deficiencies := a\<rparr>) = tenant_inspections t s"
  "tenant_incidents t (s\<lparr>sd_taskings := b\<rparr>) = tenant_incidents t s"
  "tenant_incidents t (s\<lparr>sd_comms := c\<rparr>) = tenant_incidents t s"
  "tenant_cases t (s\<lparr>sd_evidence := d\<rparr>) = tenant_cases t s"
  "tenant_cases t (s\<lparr>sd_findings := e\<rparr>) = tenant_cases t s"
  "tenant_cases t (s\<lparr>sd_recommendations := f\<rparr>) = tenant_cases t s"
  by (simp_all add: tenant_inspections_def tenant_incidents_def tenant_cases_def)

lemma CreateChecklistTemplate_wp:
  "wp (CreateChecklistTemplate X r) (\<lambda>_. steps_for sha256 (ct_TenantID r) w) (\<lambda>_. untouched w) w"
proof -
  have "wp (CreateChecklistTemplate X r)
     (\<lambda>_ w'. tables_only w w' \<and> trim_space (ct_TenantID r) \<noteq> []
       \<and> (w_db w' = (w_db w)\<lparr>db_safety := db_safety (w_db w')\<rparr> \<and> safety_step sha256 (ct_TenantID r) (db_safety (w_db w)) (db_safety (w_db w'))))
     (\<lambda>_ w'. tables_only w w' \<and> w_db w' = w_db w) w"
    unfolding CreateChecklistTemplate_def
    by (rule WithTenant_tables)
      (auto simp: wp_simps on_safety_case insert_template_def split: option.split if_splits intro!: safety_step.template)
  then show ?thesis by (rule wp_mono) (auto simp: steps_for_def untouched_def)
qed

lemma CreateInspection_wp:
  "wp (CreateInspection X r) (\<lambda>r' w'. steps_for sha256 (iw_TenantID r) w w' \<and> iw_TenantID r' = iw_TenantID r) (\<lambda>_. untouched w) w"
  unfolding CreateInspection_def
proof (rule guarded_insert_moves [where G = "\<lambda>tpl _. ct_Regime tpl = iw_Regime r"], goal_cases)
  case (2 tpl g now s' r')
  from 2(1) have tpl: "tpl \<in> set (sd_templates (db_safety (w_db w)))" "ct_TenantID tpl = iw_TenantID r" "ct_TemplateID tpl = iw_TemplateID r"
    by (auto simp: tenant_templates_def dest: find_visible)
  from 2(3) have s': "iw_InspectionID r \<notin> iw_InspectionID ` set (sd_inspections (db_safety (w_db w)))" "r' = fresh_inspection r now"
    "s' = (db_safety (w_db w))\<lparr>sd_inspections := sd_inspections (db_safety (w_db w)) @ [fresh_inspection r now]\<rparr>"
    by (auto simp: insert_inspection_def split: if_splits)
  show ?case using safety_step.inspection [OF refl s'(1) tpl, of sha256 now] 2(2) by (simp add: s' fresh_inspection_def)
qed (auto simp: wp_simps)

lemma fresh_deficiency_inspection [simp]: "dw_InspectionID (fresh_deficiency r now) = dw_InspectionID r"
  by (simp add: fresh_deficiency_def)

lemma RecordDeficiency_wp:
  "wp (RecordDeficiency X t r) (\<lambda>r' w'. steps_for sha256 t w w' 
        \<and> dw_InspectionID r' \<in> iw_InspectionID ` set (tenant_inspections t (db_safety (w_db w')))) (\<lambda>_. untouched w) w"
  unfolding RecordDeficiency_def
proof (rule guarded_insert_moves [where G = "\<lambda>_ _. True"], goal_cases)
  case (2 items g now s' r')
  then show ?case
    using safety_step.deficiency [of r "db_safety (w_db w)" t sha256 now] by (auto simp: insert_deficiency_def split: if_splits)
qed (auto simp: wp_simps)

lemma find_incident_tenant: "find_incident t i s = Some p \<Longrightarrow> p \<in> set (tenant_incidents t s) \<and> gw_IncidentID p = i"
  by (auto simp: tenant_incidents_def dest: incidents.get_Some)

lemma find_case_tenant: "find_case t i s = Some p \<Longrightarrow> p \<in> set (tenant_cases t s) \<and> vw_CaseID p = i"
  by (auto simp: tenant_cases_def dest: investigations.get_Some)

lemma CreateSarIncident_wp:
  "wp (CreateSarIncident X r lat lon) (\<lambda>r' w'. steps_for sha256 (gw_TenantID r) w w' \<and> gw_TenantID r' = gw_TenantID r) (\<lambda>_. untouched w) w"
proof -
  have "wp (CreateSarIncident X r lat lon)
     (\<lambda>r' w'. tables_only w w' \<and> trim_space (gw_TenantID r) \<noteq> []
       \<and> (w_db w' = (w_db w)\<lparr>db_safety := db_safety (w_db w')\<rparr> \<and> gw_TenantID r' = gw_TenantID r
          \<and> safety_step sha256 (gw_TenantID r) (db_safety (w_db w)) (db_safety (w_db w'))))
     (\<lambda>_ w'. tables_only w w' \<and> w_db w' = w_db w) w"
    unfolding CreateSarIncident_def
    by (rule WithTenant_tables)
      (auto simp: wp_simps insert_incident_def split: if_splits intro!: safety_step.incident, simp_all add: fresh_incident_def)
  then show ?thesis by (rule wp_mono) (auto simp: steps_for_def untouched_def)
qed

lemma TaskSarResource_wp:
  "wp (TaskSarResource X t r) (\<lambda>r' w'. steps_for sha256 t w w' 
        \<and> tw_IncidentID r' \<in> gw_IncidentID ` set (tenant_incidents t (db_safety (w_db w')))) (\<lambda>_. untouched w) w"
  unfolding TaskSarResource_def
proof (rule guarded_insert_moves [where G = "\<lambda>i _. gw_Phase i \<noteq> SAR_CLOSED"], goal_cases)
  case (2 i g now s' r')
  note i = find_incident_tenant [OF 2(1)]
  show ?case using 2(2,3) i safety_step.tasking [of r' "db_safety (w_db w)" i t sha256]
    by (auto simp: insert_tasking_def split: if_splits)
qed (auto simp: wp_simps)

lemma AppendSarComms_wp:
  "wp (AppendSarComms X t r) (\<lambda>r' w'. steps_for sha256 t w w' 
        \<and> cw_IncidentID r' \<in> gw_IncidentID ` set (tenant_incidents t (db_safety (w_db w')))) (\<lambda>_. untouched w) w"
  unfolding AppendSarComms_def
proof (rule guarded_insert_moves [where G = "\<lambda>_ _. True"], goal_cases)
  case (2 i g now s' r')
  note i = find_incident_tenant [OF 2(1)]
  have "cw_IncidentID r' \<in> gw_IncidentID ` set (tenant_incidents t (db_safety (w_db w)))"
    using 2(3) i by (force simp: insert_comms_def Let_def split: if_splits)
  then show ?case using 2(3) safety_step.comms [of r' t "db_safety (w_db w)" sha256] by (auto simp: insert_comms_def Let_def split: if_splits)
qed (auto simp: wp_simps)

lemma CreateInvestigationCase_wp:
  "wp (CreateInvestigationCase X r lat lon) (\<lambda>r' w'. steps_for sha256 (vw_TenantID r) w w' \<and> vw_TenantID r' = vw_TenantID r) (\<lambda>_. untouched w) w"
proof -
  have "wp (CreateInvestigationCase X r lat lon)
     (\<lambda>r' w'. tables_only w w' \<and> trim_space (vw_TenantID r) \<noteq> []
       \<and> (w_db w' = (w_db w)\<lparr>db_safety := db_safety (w_db w')\<rparr> \<and> vw_TenantID r' = vw_TenantID r
          \<and> safety_step sha256 (vw_TenantID r) (db_safety (w_db w)) (db_safety (w_db w'))))
     (\<lambda>_ w'. tables_only w w' \<and> w_db w' = w_db w) w"
    unfolding CreateInvestigationCase_def
    by (rule WithTenant_tables)
      (auto simp: wp_simps on_safety_case insert_case_def split: if_splits intro!: safety_step.investigation, simp_all add: fresh_case_def)
  then show ?thesis by (rule wp_mono) (auto simp: steps_for_def untouched_def)
qed

lemma AppendEvidence_wp:
  "wp (AppendEvidence X sha256 t r)
     (\<lambda>r' w'. steps_for sha256 t w w' \<and> (\<exists>now. r' = r\<lparr>ew_PrevChainHash := evidence_head t (ew_CaseID r) (db_safety (w_db w)),
           ew_ChainHash := EvidenceChainHash sha256 (evidence_head t (ew_CaseID r) (db_safety (w_db w))) (ew_ContentHash r),
           ew_CollectedAt := now\<rparr>)
        \<and> ew_CaseID r \<in> vw_CaseID ` set (tenant_cases t (db_safety (w_db w)))
        \<and> db_safety (w_db w') = (db_safety (w_db w))\<lparr>sd_evidence := sd_evidence (db_safety (w_db w)) @ [r']\<rparr>) (\<lambda>_. untouched w) w"
  unfolding AppendEvidence_def
proof (rule guarded_insert_moves [where G = "\<lambda>c prev. vw_State c = EVIDENCE \<and> prev = evidence_head t (ew_CaseID r) (db_safety (w_db w))"], goal_cases)
  case (2 c prev now s' r')
  from 2(1) have c: "c \<in> set (tenant_cases t (db_safety (w_db w)))" "vw_CaseID c = ew_CaseID r"
    by (auto simp: tenant_cases_def dest: investigations.get_Some)
  show ?case using 2(2,3) safety_step.evidence [OF _ _ c(1), of r'] c(2)
    by (auto simp: insert_evidence_def split: if_splits)
qed (auto simp: wp_simps)

lemma AddFinding_wp:
  "wp (AddFinding X t r) (\<lambda>r' w'. steps_for sha256 t w w' 
        \<and> fw_CaseID r' \<in> vw_CaseID ` set (tenant_cases t (db_safety (w_db w')))) (\<lambda>_. untouched w) w"
  unfolding AddFinding_def
proof (rule guarded_insert_moves [where G = "\<lambda>c _. vw_State c \<in> {ANALYSIS, REPORTED}"], goal_cases)
  case (2 c g now s' r')
  note c = find_case_tenant [OF 2(1)]
  show ?case using 2(2,3) c safety_step.finding [of r' "db_safety (w_db w)" c t sha256]
    by (auto simp: insert_finding_def split: if_splits)
qed (auto simp: wp_simps in_report_phase_def)

lemma AddRecommendation_wp:
  "wp (AddRecommendation X t r) (\<lambda>r' w'. steps_for sha256 t w w' 
        \<and> rw_CaseID r' \<in> vw_CaseID ` set (tenant_cases t (db_safety (w_db w')))) (\<lambda>_. untouched w) w"
  unfolding AddRecommendation_def
proof (rule guarded_insert_moves [where G = "\<lambda>c _. vw_State c \<in> {ANALYSIS, REPORTED}"], goal_cases)
  case (2 c g now s' r')
  note c = find_case_tenant [OF 2(1)]
  show ?case using 2(2,3) c safety_step.recommendation [of r' "db_safety (w_db w)" c t sha256]
    by (auto simp: insert_recommendation_def split: if_splits)
qed (auto simp: wp_simps in_report_phase_def)

end
