(* ===== verification/Safety_Machine.thy ===== *)
theory Safety_Machine
  imports Safety_Store "HOL-Library.Sublist"
begin

text \<open>
  Runs of the safety calls: every successful call is one documented step of its tenant, a failed call
  changes nothing, and the tables stay consistent. Then the evidence chain: what it binds, and when an
  honest append keeps it verifiable.
\<close>

section \<open>Runs\<close>

datatype safety_op =
    OpTemplate ChecklistTemplateRow
  | OpInspection InspectionRow
  | OpMoveInspection string string string string string
  | OpDeficiency string DeficiencyRow
  | OpMoveDeficiency string string string string
  | OpIncident SarIncidentRow "int option" "int option"
  | OpMoveIncident string string string string string
  | OpTasking string SarTaskingRow
  | OpMoveTasking string string string string
  | OpComms string SarCommsRow
  | OpCase InvestigationCaseRow "int option" "int option"
  | OpMoveCase string string string string
  | OpEvidence string EvidenceRow
  | OpFinding string FindingRow
  | OpRecommendation string RecommendationRow
  | OpDecide string string string string

fun safety_tenant :: "safety_op \<Rightarrow> string" where
  "safety_tenant (OpTemplate r) = ct_TenantID r"
| "safety_tenant (OpInspection r) = iw_TenantID r"
| "safety_tenant (OpMoveInspection t _ _ _ _) = t"
| "safety_tenant (OpDeficiency t _) = t"
| "safety_tenant (OpMoveDeficiency t _ _ _) = t"
| "safety_tenant (OpIncident r _ _) = gw_TenantID r"
| "safety_tenant (OpMoveIncident t _ _ _ _) = t"
| "safety_tenant (OpTasking t _) = t"
| "safety_tenant (OpMoveTasking t _ _ _) = t"
| "safety_tenant (OpComms t _) = t"
| "safety_tenant (OpCase r _ _) = vw_TenantID r"
| "safety_tenant (OpMoveCase t _ _ _) = t"
| "safety_tenant (OpEvidence t _) = t"
| "safety_tenant (OpFinding t _) = t"
| "safety_tenant (OpRecommendation t _) = t"
| "safety_tenant (OpDecide t _ _ _) = t"

fun safety_call :: "externals \<Rightarrow> (nat list \<Rightarrow> nat list) \<Rightarrow> safety_op \<Rightarrow> unit geo" where
  "safety_call X h (OpTemplate r) = CreateChecklistTemplate X r"
| "safety_call X h (OpInspection r) = seqA (CreateInspection X r) (ret ())"
| "safety_call X h (OpMoveInspection t i actor action text) = seqA (TransitionInspection X t i actor action text) (ret ())"
| "safety_call X h (OpDeficiency t r) = seqA (RecordDeficiency X t r) (ret ())"
| "safety_call X h (OpMoveDeficiency t i actor action) = seqA (TransitionDeficiency X t i actor action) (ret ())"
| "safety_call X h (OpIncident r lat lon) = seqA (CreateSarIncident X r lat lon) (ret ())"
| "safety_call X h (OpMoveIncident t i actor action reason) = seqA (TransitionSarIncident X t i actor action reason) (ret ())"
| "safety_call X h (OpTasking t r) = seqA (TaskSarResource X t r) (ret ())"
| "safety_call X h (OpMoveTasking t i actor action) = seqA (TransitionSarTasking X t i actor action) (ret ())"
| "safety_call X h (OpComms t r) = seqA (AppendSarComms X t r) (ret ())"
| "safety_call X h (OpCase r lat lon) = seqA (CreateInvestigationCase X r lat lon) (ret ())"
| "safety_call X h (OpMoveCase t i actor action) = seqA (TransitionInvestigationCase X t i actor action) (ret ())"
| "safety_call X h (OpEvidence t r) = seqA (AppendEvidence X h t r) (ret ())"
| "safety_call X h (OpFinding t r) = seqA (AddFinding X t r) (ret ())"
| "safety_call X h (OpRecommendation t r) = seqA (AddRecommendation X t r) (ret ())"
| "safety_call X h (OpDecide t i actor action) = seqA (DecideRecommendation X t i actor action) (ret ())"

definition safety_run :: "externals \<Rightarrow> (nat list \<Rightarrow> nat list) \<Rightarrow> world \<Rightarrow> safety_op list \<Rightarrow> world" where
  "safety_run X h = run_steps (\<lambda>w op. fst (safety_call X h op w))"

lemma seq_unit: "wp m (\<lambda>r w'. S w' \<and> P r w') E w \<Longrightarrow> wp (seqA m (ret ())) (\<lambda>_. S) E w"
  by (auto simp: wp_simps elim: wp_mono)

lemma safety_call_wp:
  assumes "safety_inv (db_safety (w_db w))"
  shows "wp (safety_call X h op) (\<lambda>_. steps_for h (safety_tenant op) w) (\<lambda>_. untouched w) w"
  using assms
  by (cases op)
    (auto intro: seq_unit CreateChecklistTemplate_wp CreateInspection_wp TransitionInspection_wp RecordDeficiency_wp
      TransitionDeficiency_wp CreateSarIncident_wp TransitionSarIncident_wp TaskSarResource_wp TransitionSarTasking_wp
      AppendSarComms_wp CreateInvestigationCase_wp TransitionInvestigationCase_wp AppendEvidence_wp AddFinding_wp
      AddRecommendation_wp DecideRecommendation_wp)

lemma safety_call_inv:
  assumes "safety_inv (db_safety (w_db w))"
  shows "safety_inv (db_safety (w_db (fst (safety_call X h op w))))"
  using safety_call_wp [OF assms, of X h op] assms
  by (auto simp: wp_def steps_for_def untouched_def split: prod.splits sum.splits dest: safety_step_inv)

lemma empty_safety_inv: "safety_inv empty_safety"
  by (simp add: safety_inv_def empty_safety_def table_ok_def)

interpretation safety_runs: kept_invariant "\<lambda>w op. fst (safety_call X h op w)" "\<lambda>w. safety_inv (db_safety (w_db w))" for X h
  by unfold_locales (rule safety_call_inv)

text \<open>Ledgers: what is logged, collected or found stays, and a closed row is never touched again.\<close>

definition ledger_kept :: "safety_db \<Rightarrow> safety_db \<Rightarrow> bool" where
  "ledger_kept s s' \<longleftrightarrow> prefix (sd_comms s) (sd_comms s') \<and> prefix (sd_evidence s) (sd_evidence s')
     \<and> prefix (sd_findings s) (sd_findings s')
     \<and> (\<forall>r\<in>set (sd_inspections s). iw_State r = INSPECTION_CLOSED \<longrightarrow> r \<in> set (sd_inspections s'))
     \<and> (\<forall>r\<in>set (sd_incidents s). gw_Phase r = SAR_CLOSED \<longrightarrow> r \<in> set (sd_incidents s'))
     \<and> (\<forall>r\<in>set (sd_cases s). vw_State r = CASE_CLOSED \<longrightarrow> r \<in> set (sd_cases s'))"

lemma ledger_kept_refl [simp]: "ledger_kept s s"
  by (simp add: ledger_kept_def)

lemma ledger_kept_trans: "ledger_kept s s' \<Longrightarrow> ledger_kept s' s'' \<Longrightarrow> ledger_kept s s''"
  unfolding ledger_kept_def by (meson prefix_order.trans)

lemma replace_row_keeps:
  "table_ok ident ok rows \<Longrightarrow> r \<in> set rows \<Longrightarrow> ident r' = ident r \<Longrightarrow> x \<in> set rows \<Longrightarrow> x \<noteq> r \<Longrightarrow> x \<in> set (replace_row ident r' rows)"
  unfolding table_ok_def replace_row_def by (auto simp: image_iff distinct_map inj_on_def)

lemma row_step_moves:
  "inspection_step a r r' \<Longrightarrow> iw_InspectionID r' = iw_InspectionID r \<and> iw_State r \<noteq> INSPECTION_CLOSED"
  "incident_step a i i' \<Longrightarrow> gw_IncidentID i' = gw_IncidentID i \<and> gw_Phase i \<noteq> SAR_CLOSED"
  "case_step a c c' \<Longrightarrow> vw_CaseID c' = vw_CaseID c \<and> vw_State c \<noteq> CASE_CLOSED"
  by (auto elim: inspection_step.cases incident_step.cases case_step.cases)

lemma safety_step_ledger: "safety_step h t s s' \<Longrightarrow> safety_inv s \<Longrightarrow> ledger_kept s s'"
  by (induction rule: safety_step.induct)
    (auto simp: ledger_kept_def safety_inv_def dest: row_step_moves intro: replace_row_keeps)

lemma safety_call_ledger:
  assumes "safety_inv (db_safety (w_db w))"
  shows "ledger_kept (db_safety (w_db w)) (db_safety (w_db (fst (safety_call X h op w))))"
  using safety_call_wp [OF assms, of X h op] assms
  by (auto simp: wp_def steps_for_def untouched_def split: prod.splits sum.splits dest: safety_step_ledger)

lemma safety_run_ledger:
  "safety_inv (db_safety (w_db w)) \<Longrightarrow> ledger_kept (db_safety (w_db w)) (db_safety (w_db (safety_run X h w ops)))"
  unfolding safety_run_def
proof (induction ops arbitrary: w)
  case (Cons op ops)
  then show ?case
    using ledger_kept_trans [OF safety_call_ledger [OF Cons.prems] Cons.IH [OF safety_call_inv [OF Cons.prems]]] by simp
qed simp


section \<open>The evidence chain\<close>

definition last_hash :: "string \<Rightarrow> EvidenceRow list \<Rightarrow> string" where
  "last_hash g items = (if items = [] then g else ew_ChainHash (last items))"

lemma chain_ok_append: "chain_ok h g (xs @ ys) \<longleftrightarrow> chain_ok h g xs \<and> chain_ok h (last_hash g xs) ys"
  by (induction xs arbitrary: g) (auto simp: last_hash_def)

lemma evidence_head_last: "evidence_head t c s = last_hash EvidenceGenesisHash (case_evidence t c s)"
  unfolding evidence_head_def last_hash_def
  by (cases "case_evidence t c s" rule: rev_cases) simp_all

abbreviation evidence_key :: "EvidenceRow \<Rightarrow> int \<times> string" where
  "evidence_key r \<equiv> (ew_CollectedAt r, ew_EvidenceID r)"

text \<open>A new row splits the sorted rows of its case.\<close>

lemma sort_key_snoc:
  fixes f :: "'a \<Rightarrow> 'k::linorder"
  assumes inj: "inj_on f (insert r (set xs))" and new: "r \<notin> set xs" and dist: "distinct xs"
  obtains L1 L2 where "sort_key f xs = L1 @ L2" "sort_key f (xs @ [r]) = L1 @ r # L2"
    "\<forall>x\<in>set L1. f x < f r" "\<forall>x\<in>set L2. f r < f x"
proof -
  define L where "L = sort_key f xs"
  define L1 where "L1 = filter (\<lambda>x. f x < f r) L"
  define L2 where "L2 = filter (\<lambda>x. f r < f x) L"
  have L: "set L = set xs" "sorted (map f L)" "distinct L" using dist by (simp_all add: L_def)
  have "f x \<noteq> f r" if "x \<in> set xs" for x using inj new that by (auto simp: inj_on_def)
  then have sets: "set L1 \<union> set L2 = set xs" using L(1) by (auto simp: L1_def L2_def neq_iff)
  have srt: "sorted (map f L1)" "sorted (map f L2)" using L(2) by (simp_all add: L1_def L2_def sorted_filter)
  have bounds: "\<forall>x\<in>set L1. f x < f r" "\<forall>x\<in>set L2. f r < f x" by (auto simp: L1_def L2_def)
  have fd: "distinct (map f ys)" if "distinct ys" "set ys \<subseteq> insert r (set xs)" for ys
    using that inj by (auto simp: distinct_map intro: inj_on_subset)
  have disj: "set L1 \<inter> set L2 = {}" using bounds by fastforce
  have d12: "distinct (L1 @ L2)" "distinct (L1 @ r # L2)"
    using L(3) disj new sets by (auto simp: L1_def L2_def)
  have "f x \<le> f y" if "x \<in> set L1" "y \<in> set L2" for x y
    using bounds that by (meson less_imp_le less_trans)
  then have s12: "sorted (map f (L1 @ L2))" "sorted (map f (L1 @ r # L2))"
    using srt bounds by (auto simp: sorted_append intro: less_imp_le)
  have sub: "set (L1 @ L2) = set xs" "set (L1 @ r # L2) = insert r (set xs)" using sets by auto
  have d: "distinct (map f (L1 @ L2))" "distinct (map f (L1 @ r # L2))" "distinct (map f (sort_key f xs))"
      "distinct (map f (sort_key f (xs @ [r])))"
    by (rule fd; use d12 sub dist new in auto)+
  have "sort_key f xs = L1 @ L2"
    by (rule map_sorted_distinct_set_unique [OF _ _ d(3) s12(1) d(1)])
      (use inj sub(1) in \<open>simp_all add: inj_on_subset [OF inj] subset_insertI\<close>)
  moreover have "sort_key f (xs @ [r]) = L1 @ r # L2"
    by (rule map_sorted_distinct_set_unique [OF _ _ d(4) s12(2) d(2)])
      (use inj sub(2) in \<open>simp_all add: sorted_sort_key\<close>)
  ultimately show thesis using that bounds by blast
qed

lemma case_evidence_insert:
  assumes inv: "distinct (map ew_EvidenceID (sd_evidence s @ [r]))" and s': "s' = s\<lparr>sd_evidence := sd_evidence s @ [r]\<rparr>"
    and vis: "ew_CaseID r = c" "c \<in> vw_CaseID ` set (tenant_cases t s)"
  obtains L1 L2 where "case_evidence t c s = L1 @ L2" "case_evidence t c s' = L1 @ r # L2"
    "\<forall>x\<in>set L1. evidence_key x < evidence_key r" "\<forall>x\<in>set L2. evidence_key r < evidence_key x"
proof -
  define xs where "xs = filter (\<lambda>r. ew_CaseID r = c) (tenant_evidence t s)"
  have sub: "set xs \<subseteq> set (sd_evidence s)" by (auto simp: xs_def tenant_evidence_def)
  have xs': "filter (\<lambda>r. ew_CaseID r = c) (tenant_evidence t s') = xs @ [r]"
    using vis by (simp add: xs_def tenant_evidence_def s' tenant_cases_def)
  have ids: "inj_on ew_EvidenceID (insert r (set (sd_evidence s)))" using inv by (auto simp: distinct_map)
  have "inj_on evidence_key (insert r (set xs))"
  proof (rule inj_onI)
    fix x y assume xy: "x \<in> insert r (set xs)" "y \<in> insert r (set xs)" "evidence_key x = evidence_key y"
    then have "ew_EvidenceID x = ew_EvidenceID y" by simp
    then show "x = y" using inj_onD [OF ids, of x y] xy(1,2) sub by blast
  qed
  moreover have "r \<notin> set xs" using inv sub by auto
  moreover have "distinct xs" using inv by (simp add: xs_def tenant_evidence_def distinct_map)
  ultimately obtain L1 L2 where "sort_key evidence_key xs = L1 @ L2" "sort_key evidence_key (xs @ [r]) = L1 @ r # L2"
    "\<forall>x\<in>set L1. evidence_key x < evidence_key r" "\<forall>x\<in>set L2. evidence_key r < evidence_key x"
    by (rule sort_key_snoc)
  then show thesis
    using that [of L1 L2] unfolding case_evidence_def xs' xs_def [symmetric] by blast
qed

text \<open>Verification is exactly the chain of the listed items.\<close>

lemma VerifyEvidenceChain_Inr:
  "VerifyEvidenceChain X h t c w = (w', Inr ok) \<Longrightarrow>
     w_db w' = w_db w \<and> ok = chain_ok h EvidenceGenesisHash (case_evidence t c (db_safety (w_db w)))"
proof -
  have "wp (VerifyEvidenceChain X h t c)
      (\<lambda>ok w'. w_db w' = w_db w \<and> ok = chain_ok h EvidenceGenesisHash (case_evidence t c (db_safety (w_db w)))) (\<lambda>_ _. True) w"
    unfolding VerifyEvidenceChain_def ListEvidence_def WithTenant_def by (simp add: wp_simps)
  then show "VerifyEvidenceChain X h t c w = (w', Inr ok) \<Longrightarrow> ?thesis" by (rule wp_Inr)
qed

lemma last_hash_append: "last_hash g (xs @ ys) = last_hash (last_hash g xs) ys"
  by (simp add: last_hash_def)

lemma chain_insert:
  assumes ok: "chain_ok h EvidenceGenesisHash (L1 @ L2)" and hashes: "distinct (map ew_ChainHash (L1 @ L2))"
    and prev: "ew_PrevChainHash r = last_hash EvidenceGenesisHash (L1 @ L2)"
      "ew_ChainHash r = EvidenceChainHash h (ew_PrevChainHash r) (ew_ContentHash r)"
    and genesis: "L1 @ L2 \<noteq> [] \<Longrightarrow> last_hash EvidenceGenesisHash (L1 @ L2) \<noteq> EvidenceGenesisHash"
  shows "chain_ok h EvidenceGenesisHash (L1 @ r # L2) \<longleftrightarrow> L2 = []"
proof
  assume chain: "chain_ok h EvidenceGenesisHash (L1 @ r # L2)"
  show "L2 = []"
  proof (rule ccontr)
    assume L2: "L2 \<noteq> []"
    have "last_hash EvidenceGenesisHash L1 = last_hash EvidenceGenesisHash (L1 @ L2)"
      using chain prev(1) by (simp add: chain_ok_append split: if_splits)
    moreover have "last_hash EvidenceGenesisHash (L1 @ L2) = ew_ChainHash (last L2)" using L2 by (simp add: last_hash_def)
    ultimately have same: "last_hash EvidenceGenesisHash L1 = ew_ChainHash (last L2)"
      "last_hash EvidenceGenesisHash (L1 @ L2) = ew_ChainHash (last L2)" by simp_all
    show False
    proof (cases "L1 = []")
      case True
      then show False using same genesis L2 by (simp add: last_hash_def)
    next
      case False
      then have "ew_ChainHash (last L1) = ew_ChainHash (last L2)" using same(1) by (simp add: last_hash_def)
      then have "ew_ChainHash (last L2) \<in> ew_ChainHash ` set L1 \<inter> ew_ChainHash ` set L2"
        using False L2 by (metis IntI image_eqI last_in_set)
      then show False using hashes by (metis distinct_append empty_iff map_append set_map)
    qed
  qed
next
  assume "L2 = []"
  then show "chain_ok h EvidenceGenesisHash (L1 @ r # L2)"
    using ok prev by (simp add: chain_ok_append)
qed

lemma chain_binds:
  assumes "chain_ok h EvidenceGenesisHash xs" "chain_ok h EvidenceGenesisHash ys"
    "last_hash EvidenceGenesisHash xs = last_hash EvidenceGenesisHash ys"
    "\<And>r. r \<in> set xs \<union> set ys \<Longrightarrow> length (ew_ContentHash r) = 64"
    "\<And>r. r \<in> set xs \<union> set ys \<Longrightarrow> ew_ChainHash r \<noteq> EvidenceGenesisHash"
    "\<And>x y. x \<in> set xs \<Longrightarrow> y \<in> set ys \<Longrightarrow> ew_ChainHash x = ew_ChainHash y \<Longrightarrow>
       ew_PrevChainHash x @ ew_ContentHash x = ew_PrevChainHash y @ ew_ContentHash y"
  shows "map ew_ContentHash xs = map ew_ContentHash ys"
  using assms
proof (induction xs arbitrary: ys rule: rev_induct)
  case Nil
  show ?case
  proof (cases ys rule: rev_cases)
    case (snoc ys' y)
    then show ?thesis using Nil.prems(3) Nil.prems(5) [of y] by (simp add: last_hash_def)
  qed simp
next
  case (snoc x xs)
  show ?case
  proof (cases ys rule: rev_cases)
    case Nil
    then show ?thesis using snoc.prems(3) snoc.prems(5) [of x] by (simp add: last_hash_def)
  next
    case (snoc ys' y)
    note prems = snoc.prems [unfolded snoc]
    have chain: "chain_ok h EvidenceGenesisHash xs" "ew_PrevChainHash x = last_hash EvidenceGenesisHash xs"
        "chain_ok h EvidenceGenesisHash ys'" "ew_PrevChainHash y = last_hash EvidenceGenesisHash ys'"
      using prems(1,2) by (auto simp: chain_ok_append split: if_splits)
    have "ew_ChainHash x = ew_ChainHash y" using prems(3) by (simp add: last_hash_def)
    then have "ew_PrevChainHash x @ ew_ContentHash x = ew_PrevChainHash y @ ew_ContentHash y"
      using prems(6) by simp
    moreover have "length (ew_ContentHash x) = length (ew_ContentHash y)" using prems(4) by simp
    ultimately have eq: "ew_PrevChainHash x = ew_PrevChainHash y" "ew_ContentHash x = ew_ContentHash y"
      by (metis append_eq_append_conv)+
    have "map ew_ContentHash xs = map ew_ContentHash ys'"
    proof (rule snoc.IH [OF chain(1,3)], goal_cases)
      case 1
      show ?case using chain eq(1) by simp
    next
      case (2 r)
      then show ?case using prems(4) by auto
    next
      case (3 r)
      then show ?case using prems(5) by auto
    next
      case (4 a b)
      then show ?case by (intro prems(6)) auto
    qed
    then show ?thesis using eq(2) by (simp add: snoc)
  qed
qed

lemma tables_only_db:
  "tables_only w w' \<Longrightarrow> w_db w' = d \<Longrightarrow> w' = w\<lparr>w_tick := w_tick w', w_db := d\<rparr>"
  "tables_only w w' \<Longrightarrow> w_db w' = w_db w \<Longrightarrow> w' = w\<lparr>w_tick := w_tick w'\<rparr>"
  by (simp_all add: tables_only_def)

section \<open>Properties\<close>

text \<open>
  C14. The safety tables stay consistent. Start from empty safety tables in any world and make any sequence of the
  sixteen mutating calls, for any tenants and actors and under any outages. Then keys are unique, every inspection,
  deficiency, rescue incident, tasking, case and recommendation satisfies the constraints of its table, a
  detained vessel was released by another principal than the one who detained it, a verified deficiency was verified by
  another than the one who rectified it, an incident in a phase went through the phases before it, and a closed
  case was reported.
\<close>

theorem safety_tables_consistent:
  "safety_inv (db_safety (w_db (safety_run X h (w\<lparr>w_db := (w_db w)\<lparr>db_safety := empty_safety\<rparr>\<rparr>) ops)))"
  unfolding safety_run_def by (rule safety_runs.inv_run) (simp add: empty_safety_inv)

text \<open>
  C12. The calls implement the documented lifecycles. In consistent tables, a mutating call that succeeds makes exactly
  one step of the specification for its tenant: a new row, or one row moved along its state machine with the columns
  of that step recorded, the release of a detained vessel only by another principal and with every critical deficiency
  verified, evidence only in the EVIDENCE state and chained to the newest item. It touches no other table, no topic and
  no other part of the world. A call that fails leaves all tables as they were. Logged messages, evidence and
  findings are only ever appended to, and a closed inspection, incident or case is never changed.
\<close>

theorem safety_calls_refine_lifecycles:
  assumes "safety_inv (db_safety (w_db w))"
  shows "(case safety_call X h op w of
       (w', Inr _) \<Rightarrow> w' = w\<lparr>w_tick := w_tick w', w_db := (w_db w)\<lparr>db_safety := db_safety (w_db w')\<rparr>\<rparr>
          \<and> safety_step h (safety_tenant op) (db_safety (w_db w)) (db_safety (w_db w'))
     | (w', Inl _) \<Rightarrow> w' = w\<lparr>w_tick := w_tick w'\<rparr>)
    \<and> ledger_kept (db_safety (w_db w)) (db_safety (w_db (safety_run X h w ops)))"
proof
  obtain w' r where run: "safety_call X h op w = (w', r)" by (meson surj_pair)
  show "case safety_call X h op w of
       (w', Inr _) \<Rightarrow> w' = w\<lparr>w_tick := w_tick w', w_db := (w_db w)\<lparr>db_safety := db_safety (w_db w')\<rparr>\<rparr>
          \<and> safety_step h (safety_tenant op) (db_safety (w_db w)) (db_safety (w_db w'))
     | (w', Inl _) \<Rightarrow> w' = w\<lparr>w_tick := w_tick w'\<rparr>"
    using safety_call_wp [OF assms, of X h op] unfolding wp_def run steps_for_def untouched_def
    by (cases r) (auto dest: tables_only_db)
qed (rule safety_run_ledger [OF assms])

definition sample_template :: ChecklistTemplateRow where
  "sample_template = \<lparr>ct_TemplateID = ''tpl'', ct_TenantID = ''t'', ct_Regime = ''PSC'', ct_Version = 1, ct_Title = ''T'',
     ct_Items = [Some ''07120''], ct_CreatedBy = ''u'', ct_CreatedAt = 0\<rparr>"

theorem safety_calls_refine_lifecycles_witness:
  "safety_inv (db_safety (w_db empty_world))
   \<and> safety_step id ''t'' empty_safety (db_safety (w_db (fst (safety_call calm id (OpTemplate sample_template) empty_world))))"
proof -
  have inv: "safety_inv (db_safety (w_db empty_world))"
    by (simp add: empty_world_def empty_db_def empty_safety_inv)
  have run: "case safety_call calm id (OpTemplate sample_template) empty_world of (w', r) \<Rightarrow> r = Inr ()" by code_simp
  have "safety_step id (safety_tenant (OpTemplate sample_template)) (db_safety (w_db empty_world))
      (db_safety (w_db (fst (safety_call calm id (OpTemplate sample_template) empty_world))))"
    using safety_calls_refine_lifecycles [OF inv, where X = calm and h = id and op = "OpTemplate sample_template"] run
    by (auto split: prod.splits)
  then show ?thesis using inv by (simp add: sample_template_def empty_world_def empty_db_def)
qed

text \<open>
  C36. When the evidence chain stays verifiable. Take consistent tables in which the chain of a case verifies, append an
  item, and verify again. The chain verifies exactly when the new item sorts after every earlier one by time of
  collection and identifier. That time is the start of the appending transaction, not the moment it got the lock on
  the case, so of two concurrent appends the one that started first may be chained second; the case is then reported
  as tampered with from there on.
\<close>

theorem evidence_chain_order:
  assumes inv: "safety_inv (db_safety (w_db w))"
    and before: "VerifyEvidenceChain X1 h t c w = (w1, Inr True)"
    and append: "AppendEvidence X2 h t row w = (w2, Inr r)" "ew_CaseID row = c"
    and after: "VerifyEvidenceChain X3 h t c w2 = (w3, Inr ok)"
    and genesis: "\<forall>x\<in>set (sd_evidence (db_safety (w_db w))). ew_ChainHash x \<noteq> EvidenceGenesisHash"
  shows "ok \<longleftrightarrow> (\<forall>x\<in>set (case_evidence t c (db_safety (w_db w))).
      (ew_CollectedAt x, ew_EvidenceID x) < (ew_CollectedAt r, ew_EvidenceID r))"
proof -
  define s where "s = db_safety (w_db w)"
  from wp_Inr [OF AppendEvidence_wp append(1)] obtain now
    where st: "steps_for h t w w2" and r: "r = row\<lparr>ew_PrevChainHash := evidence_head t c s,
          ew_ChainHash := EvidenceChainHash h (evidence_head t c s) (ew_ContentHash row), ew_CollectedAt := now\<rparr>"
      and vis: "c \<in> vw_CaseID ` set (tenant_cases t s)" and s2: "db_safety (w_db w2) = s\<lparr>sd_evidence := sd_evidence s @ [r]\<rparr>"
    unfolding append(2) s_def by blast
  have "safety_inv (db_safety (w_db w2))"
    using st inv by (auto simp: steps_for_def dest: safety_step_inv)
  then have ids: "distinct (map ew_EvidenceID (sd_evidence s @ [r]))" by (simp add: s2 safety_inv_def table_ok_def)
  obtain L1 L2 where L: "case_evidence t c s = L1 @ L2" "case_evidence t c (db_safety (w_db w2)) = L1 @ r # L2"
      "\<forall>x\<in>set L1. evidence_key x < evidence_key r" "\<forall>x\<in>set L2. evidence_key r < evidence_key x"
    by (rule case_evidence_insert [OF ids s2 _ vis]) (simp add: r append(2))
  have rows: "set (L1 @ L2) \<subseteq> set (sd_evidence s)" "distinct (L1 @ L2)" "\<forall>x\<in>set (L1 @ L2). ew_CaseID x = c"
    using ids unfolding L(1) [symmetric] by (auto simp: case_evidence_def tenant_evidence_def distinct_map)
  have "inj_on (\<lambda>r. (ew_CaseID r, ew_ChainHash r)) (set (sd_evidence s))"
    using inv by (simp add: safety_inv_def distinct_map s_def)
  then have "inj_on ew_ChainHash (set (L1 @ L2))"
    using rows(1,3) unfolding inj_on_def by (metis subsetD)
  then have hashes: "distinct (map ew_ChainHash (L1 @ L2))" using rows(2) distinct_map by blast
  have "ok \<longleftrightarrow> chain_ok h EvidenceGenesisHash (L1 @ r # L2)"
    using VerifyEvidenceChain_Inr [OF after] L(2) by simp
  also have "\<dots> \<longleftrightarrow> L2 = []"
  proof (rule chain_insert [OF _ hashes])
    show "chain_ok h EvidenceGenesisHash (L1 @ L2)"
      using VerifyEvidenceChain_Inr [OF before] L(1) by (simp add: s_def)
    show "last_hash EvidenceGenesisHash (L1 @ L2) \<noteq> EvidenceGenesisHash" if "L1 @ L2 \<noteq> []"
      using that genesis rows(1) last_in_set [OF that] by (auto simp: last_hash_def s_def)
  qed (simp_all add: r evidence_head_last L(1))
  also have "\<dots> \<longleftrightarrow> (\<forall>x\<in>set (L1 @ L2). evidence_key x < evidence_key r)"
    using L(3,4) by (cases L2) (auto simp del: less_prod_simp dest: less_asym)
  finally show ?thesis using L(1) by (simp add: s_def)
qed

definition sample_case :: InvestigationCaseRow where
  "sample_case = \<lparr>vw_CaseID = ''c'', vw_TenantID = ''t'', vw_CasualtyType = ''FIRE'', vw_Severity = ''MINOR'',
     vw_VesselReference = ''v'', vw_OccurredAt = 0, vw_Location = None, vw_Classification = ''RESTRICTED'', vw_State = EVIDENCE,
     vw_LeadInvestigator = ''u'', vw_OpenedAt = 0, vw_ReportedBy = None, vw_ReportedAt = None, vw_ClosedBy = None, vw_ClosedAt = None\<rparr>"

definition sample_evidence :: "char \<Rightarrow> EvidenceRow" where
  "sample_evidence c = \<lparr>ew_EvidenceID = [c], ew_CaseID = ''c'', ew_Description = ''d'', ew_ContentHash = replicate 64 c, ew_PrevChainHash = [],
     ew_ChainHash = [], ew_CollectedBy = ''u'', ew_CollectedAt = 0\<rparr>"

definition sample_hash :: "nat list \<Rightarrow> nat list" where "sample_hash bs = replicate 32 (last bs)"

definition sample_link :: "char \<Rightarrow> string" where "sample_link c = hex_encode (replicate 32 (of_char c))"

lemma sample_chain_hash: "EvidenceChainHash sample_hash prev (replicate 64 c) = sample_link c"
proof -
  have "last (map of_char (prev @ replicate 64 c)) = (of_char c :: nat)" by (subst last_map) simp_all
  then show ?thesis by (simp add: EvidenceChainHash_def sample_hash_def sample_link_def)
qed

text \<open>A case with one item, collected at time 5, and a transaction that started at time 3.\<close>

definition sample_early :: externals where "sample_early = calm\<lparr>x_now := \<lambda>_. 3\<rparr>"

definition sample_first :: EvidenceRow where
  "sample_first = (sample_evidence CHR ''a'')\<lparr>ew_PrevChainHash := EvidenceGenesisHash,
     ew_ChainHash := sample_link CHR ''a'', ew_CollectedAt := 5\<rparr>"

definition sample_tables :: safety_db where
  "sample_tables = empty_safety\<lparr>sd_cases := [sample_case], sd_evidence := [sample_first]\<rparr>"

definition sample_collected :: world where
  "sample_collected = empty_world\<lparr>w_db := (w_db empty_world)\<lparr>db_safety := sample_tables\<rparr>\<rparr>"

lemma sample_collected_simps [simp]: "db_safety (w_db sample_collected) = sample_tables"
  by (simp add: sample_collected_def)

lemma sample_tables_inv: "safety_inv sample_tables"
  by (simp add: sample_tables_def empty_safety_def safety_inv_def table_ok_def sample_case_def case_ok_def case_coherent_def)

lemma sample_tables_rows:
  "find_case ''t'' ''c'' sample_tables = Some sample_case" "case_evidence ''t'' ''c'' sample_tables = [sample_first]"
  "vw_CaseID ` set (tenant_cases ''t'' sample_tables) = {''c''}" "sd_evidence sample_tables = [sample_first]"
  by (simp_all add: sample_tables_def empty_safety_def find_case_def case_evidence_def tenant_cases_def tenant_evidence_def
      sample_case_def sample_first_def sample_evidence_def)

lemma sample_link_text: "sample_link CHR ''a'' = concat (replicate 32 ''61'')" "sample_link CHR ''b'' = concat (replicate 32 ''62'')"
  by (simp_all only: sample_link_def hex_encode_def map_replicate) (code_simp+)

lemma repeated_pair:
  "0 < n \<Longrightarrow> concat (replicate n [a, b]) \<noteq> replicate k c \<or> c = a"
  "0 < n \<Longrightarrow> b \<noteq> d \<Longrightarrow> concat (replicate n [a, b]) \<noteq> concat (replicate n [a, d])"
  by (cases n; cases k; auto)+

lemma sample_links:
  "sample_link CHR ''a'' \<noteq> EvidenceGenesisHash" "sample_link CHR ''b'' \<noteq> sample_link CHR ''a''"
  "sha256_text (sample_link CHR ''a'')" "sha256_text (sample_link CHR ''b'')" "sha256_text (replicate 64 CHR ''b'')"
proof -
  show "sample_link CHR ''a'' \<noteq> EvidenceGenesisHash"
    using repeated_pair(1) [of 32 "CHR ''6''" "CHR ''1''" 64 "CHR ''0''"] by (simp add: sample_link_text EvidenceGenesisHash_def)
  show "sample_link CHR ''b'' \<noteq> sample_link CHR ''a''"
    unfolding sample_link_text by (rule repeated_pair(2)) simp_all
qed (simp_all add: sample_link_text sha256_text_def length_concat sum_list_replicate list_all_iff)

lemma sample_first_ok: "chain_ok sample_hash EvidenceGenesisHash [sample_first]" "ew_ChainHash sample_first \<noteq> EvidenceGenesisHash"
  by (simp_all add: sample_first_def sample_evidence_def sample_chain_hash sample_links)

definition sample_second :: EvidenceRow where
  "sample_second = (sample_evidence CHR ''b'')\<lparr>ew_PrevChainHash := sample_link CHR ''a'',
     ew_ChainHash := sample_link CHR ''b'', ew_CollectedAt := 3\<rparr>"

lemma sample_second_columns: "evidence_columns sample_second"
proof -
  have "id_text 127 ''b''" "text_within 1000 ''d''" "text_within 512 ''u''" by code_simp+
  then show ?thesis by (simp add: evidence_columns_def sample_second_def sample_evidence_def sample_links)
qed

lemma sample_second_inserted:
  "insert_evidence ''t'' sample_second sample_tables = Some (sample_tables\<lparr>sd_evidence := [sample_first, sample_second]\<rparr>, sample_second)"
  "case_evidence ''t'' ''c'' (sample_tables\<lparr>sd_evidence := [sample_first, sample_second]\<rparr>) = [sample_second, sample_first]"
  "\<not> chain_ok sample_hash EvidenceGenesisHash [sample_second, sample_first]"
proof -
  note rows = sample_first_def sample_second_def sample_evidence_def
  show "insert_evidence ''t'' sample_second sample_tables = Some (sample_tables\<lparr>sd_evidence := [sample_first, sample_second]\<rparr>, sample_second)"
    using sample_links(2) by (simp add: insert_evidence_def sample_second_columns sample_tables_rows) (simp add: rows)
  show "case_evidence ''t'' ''c'' (sample_tables\<lparr>sd_evidence := [sample_first, sample_second]\<rparr>) = [sample_second, sample_first]"
    by (simp add: case_evidence_def tenant_evidence_def tenant_cases_def sample_tables_def empty_safety_def sample_case_def rows)
  show "\<not> chain_ok sample_hash EvidenceGenesisHash [sample_second, sample_first]"
    using sample_links(1) by (simp add: rows)
qed

lemma sample_append:
  "wp (AppendEvidence sample_early sample_hash ''t'' (sample_evidence CHR ''b''))
     (\<lambda>r w. r = sample_second \<and> db_safety (w_db w) = sample_tables\<lparr>sd_evidence := [sample_first, sample_second]\<rparr>)
     (\<lambda>_ _. False) sample_collected"
proof -
  have X: "x_pg sample_early n" "x_now sample_early n = 3" for n by (simp_all add: sample_early_def calm_def)
  have t: "trim_space ''t'' \<noteq> []" by code_simp
  have row: "ew_CaseID (sample_evidence CHR ''b'') = ''c''" "ew_ContentHash (sample_evidence CHR ''b'') = replicate 64 CHR ''b''" "vw_State sample_case = EVIDENCE"
    by (simp_all add: sample_evidence_def sample_case_def)
  have second: "(sample_evidence CHR ''b'')\<lparr>ew_PrevChainHash := ew_ChainHash sample_first,
     ew_ChainHash := sample_link CHR ''b'', ew_CollectedAt := 3\<rparr> = sample_second"
    by (simp add: sample_second_def sample_first_def)
  show ?thesis
    unfolding AppendEvidence_def guarded_insert_def WithTenant_def
    by (simp add: wp_simps X t row on_safety_def sample_tables_rows evidence_head_def sample_chain_hash second
        sample_second_inserted(1))
qed

lemma sample_verify:
  "db_safety (w_db w) = s \<Longrightarrow>
     wp (VerifyEvidenceChain calm sample_hash ''t'' ''c'')
       (\<lambda>b _. b = chain_ok sample_hash EvidenceGenesisHash (case_evidence ''t'' ''c'' s)) (\<lambda>_ _. False) w"
proof -
  have X: "x_pg calm n" for n by (simp add: calm_def)
  have t: "trim_space ''t'' \<noteq> []" by code_simp
  show "db_safety (w_db w) = s \<Longrightarrow> ?thesis"
    unfolding VerifyEvidenceChain_def ListEvidence_def WithTenant_def by (simp add: wp_simps X t)
qed

theorem evidence_chain_order_witness:
  "\<not> (\<forall>x\<in>set (case_evidence ''t'' ''c'' (db_safety (w_db sample_collected))).
         (ew_CollectedAt x, ew_EvidenceID x) < (ew_CollectedAt sample_second, ew_EvidenceID sample_second))"
proof -
  obtain w2 where append: "AppendEvidence sample_early sample_hash ''t'' (sample_evidence CHR ''b'') sample_collected = (w2, Inr sample_second)"
      and s2: "db_safety (w_db w2) = sample_tables\<lparr>sd_evidence := [sample_first, sample_second]\<rparr>"
    using sample_append by (auto simp: wp_def split: prod.splits sum.splits)
  obtain w1 where before: "VerifyEvidenceChain calm sample_hash ''t'' ''c'' sample_collected = (w1, Inr True)"
    using sample_verify [of sample_collected sample_tables] sample_first_ok(1)
    by (auto simp: wp_def sample_tables_rows split: prod.splits sum.splits)
  obtain w3 where after: "VerifyEvidenceChain calm sample_hash ''t'' ''c'' w2 = (w3, Inr False)"
    using sample_verify [OF s2] sample_second_inserted(3)
    by (auto simp: wp_def sample_second_inserted(2) split: prod.splits sum.splits)
  have g: "\<forall>x\<in>set (sd_evidence (db_safety (w_db sample_collected))). ew_ChainHash x \<noteq> EvidenceGenesisHash"
    using sample_first_ok(2) by (simp add: sample_tables_rows)
  have inv: "safety_inv (db_safety (w_db sample_collected))" by (simp add: sample_tables_inv)
  have c: "ew_CaseID (sample_evidence CHR ''b'') = ''c''" by (simp add: sample_evidence_def)
  show ?thesis using evidence_chain_order [OF inv before append c after g] by blast
qed

text \<open>
  A verified chain binds its items. If two lists of evidence both verify and end in the same chain hash, they carry
  the same content hashes in the same order, unless the two lists themselves exhibit a collision of the hash function
  (two different chain inputs with the same chain hash) or a chain hash equal to the genesis value.
\<close>

theorem evidence_chain_binds:
  assumes "chain_ok h EvidenceGenesisHash xs" "chain_ok h EvidenceGenesisHash ys"
    "last_hash EvidenceGenesisHash xs = last_hash EvidenceGenesisHash ys"
    "\<forall>r\<in>set xs \<union> set ys. length (ew_ContentHash r) = 64"
  shows "map ew_ContentHash xs = map ew_ContentHash ys
    \<or> (\<exists>x\<in>set xs. \<exists>y\<in>set ys. ew_ChainHash x = ew_ChainHash y
         \<and> ew_PrevChainHash x @ ew_ContentHash x \<noteq> ew_PrevChainHash y @ ew_ContentHash y)
    \<or> (\<exists>r\<in>set xs \<union> set ys. ew_ChainHash r = EvidenceGenesisHash)"
  using chain_binds [OF assms(1-3)] assms(4) by blast

theorem evidence_chain_binds_witness:
  "let r = (sample_evidence CHR ''a'')\<lparr>ew_PrevChainHash := EvidenceGenesisHash,
         ew_ChainHash := EvidenceChainHash sample_hash EvidenceGenesisHash (replicate 64 CHR ''a'')\<rparr>
   in chain_ok sample_hash EvidenceGenesisHash [r]
     \<and> (map ew_ContentHash [r] = map ew_ContentHash [r] \<or> ew_ChainHash r = EvidenceGenesisHash)"
proof -
  define r where "r = (sample_evidence CHR ''a'')\<lparr>ew_PrevChainHash := EvidenceGenesisHash,
         ew_ChainHash := EvidenceChainHash sample_hash EvidenceGenesisHash (replicate 64 CHR ''a'')\<rparr>"
  have ok: "chain_ok sample_hash EvidenceGenesisHash [r]" by (simp add: r_def sample_evidence_def)
  have len: "\<forall>x\<in>set [r] \<union> set [r]. length (ew_ContentHash x) = 64" by (simp add: r_def sample_evidence_def)
  show ?thesis using evidence_chain_binds [OF ok ok refl len] ok unfolding r_def [symmetric] Let_def by auto
qed

lemma inspection_columns_step:
  assumes "inspection_columns r" "text_within 512 actor" "char_count text \<le> 1000" "action = ''detain'' \<longrightarrow> trim_space text \<noteq> []"
  shows "inspection_columns (step_inspection action actor text now r)"
proof -
  have "action = ''detain'' \<longrightarrow> text_within 1000 text"
    using assms(3,4) by (cases "text") (auto simp: text_within_def trim_space_def trim_left_def)
  then show ?thesis using assms(1,2) unfolding step_inspection_def inspection_columns_def column_within_def by simp
qed

text \<open>
  C21. The code and the table agree on the inspection steps. With a database that answers, in consistent tables, for a visible
  inspection whose columns are within their lengths, an actor of at most 512 characters and a text of at most 1000, a
  transition goes through exactly when its action leads somewhere from the present state, a detention
  names its grounds, and a release is made by another principal than the detention with no critical deficiency
  left unverified. The lengths are checks of the table that neither handler nor store makes: a longer ground of
  detention is a legal step that the database refuses.
\<close>

theorem inspection_steps_accepted:
  assumes "\<forall>n. x_pg X n" "safety_inv (db_safety (w_db w))" "trim_space t \<noteq> []"
    "find_inspection t i (db_safety (w_db w)) = Some r" "inspection_columns r" "text_within 512 actor" "char_count text \<le> 1000"
  shows "(\<exists>w' r'. TransitionInspection X t i actor action text w = (w', Inr r')) \<longleftrightarrow>
    inspection_next action (iw_State r) \<noteq> None \<and> (action = ''detain'' \<longrightarrow> trim_space text \<noteq> [])
    \<and> (action = ''release'' \<longrightarrow> iw_DetainedBy r \<noteq> Some actor \<and> open_critical t i (db_safety (w_db w)) = 0)" (is "?goes = ?legal")
proof
  note inv = safety_invD(1) [OF assms(2)]
  note r = inspections.get_Some [OF assms(4)]
  { assume ?goes
    then obtain w' r' where "TransitionInspection X t i actor action text w = (w', Inr r')" by blast
    from wp_Inr [OF transition_tx_wp [OF check_inspection_wp] this [unfolded TransitionInspection_def]] assms(4) r
    show ?legal by (metis option.sel) }
  { assume legal: ?legal
    have "wp (TransitionInspection X t i actor action text) (\<lambda>r' w'. \<exists>now. r' = step_inspection action actor text now r) (\<lambda>_ _. False) w"
      unfolding TransitionInspection_def
    proof (rule inspections.transition_accepted [OF inv assms(4)])
      show "inspection_allowed (step_inspection action actor text now r)" for now
      proof -
        have columns: "inspection_columns (step_inspection action actor text now r)"
          using inspection_columns_step [OF assms(5,6,7)] legal by blast
        have "inspection_ok r" using assms(2) r(1) by (simp add: safety_inv_def table_ok_def)
        moreover have "inspection_step actor r (step_inspection action actor text now r)"
          using legal by (intro inspection_steps) blast+
        ultimately have "inspection_ok (step_inspection action actor text now r)" by (rule inspection_step_ok [rotated])
        then show ?thesis using columns by (simp add: inspection_ok_def inspection_allowed_def)
      qed
      show "wp (check_inspection X t actor action text r) (\<lambda>_ w'. w_db w' = w_db w) (\<lambda>_ _. False) v" if "w_db v = w_db w" for v
        unfolding check_inspection_def using legal assms(1) r that by (simp add: wp_simps)
    qed (use assms in simp_all)
    then show ?goes by (auto simp: wp_def split: prod.splits sum.splits) }
qed

text \<open>A vessel under rectification: the detaining principal cannot release it, another can.\<close>

definition sample_inspection :: InspectionRow where
  "sample_inspection = \<lparr>iw_InspectionID = ''i'', iw_TenantID = ''t'', iw_Regime = ''PSC'', iw_TemplateID = ''tpl'',
     iw_VesselReference = ''v'', iw_PortCode = ''NGAPP'', iw_Classification = ''RESTRICTED'', iw_State = RECTIFICATION,
     iw_InspectorPrincipalID = ''u'', iw_CreatedAt = 0, iw_StartedAt = Some 1, iw_CompletedAt = Some 2, iw_DetainedBy = Some ''u'',
     iw_DetainedAt = Some 3, iw_DetentionGrounds = Some ''g'', iw_RectificationStartedBy = Some ''u'',
     iw_RectificationStartedAt = Some 4, iw_ReleasedBy = None, iw_ReleasedAt = None, iw_ClosedBy = None, iw_ClosedAt = None\<rparr>"

definition sample_detained :: safety_db where
  "sample_detained = empty_safety\<lparr>sd_inspections := [sample_inspection]\<rparr>"

lemma sample_detained_facts:
  "safety_inv sample_detained" "find_inspection ''t'' ''i'' sample_detained = Some sample_inspection"
  "inspection_next ''release'' (iw_State sample_inspection) \<noteq> None" "iw_DetainedBy sample_inspection = Some ''u''"
  "open_critical ''t'' ''i'' sample_detained = 0" "trim_space ''t'' \<noteq> []"
  "inspection_columns sample_inspection" "text_within 512 ''u''" "text_within 512 ''v''"
proof -
  have g: "trim_space ''g'' \<noteq> []" by code_simp
  show "safety_inv sample_detained"
    by (simp add: sample_detained_def empty_safety_def safety_inv_def table_ok_def sample_inspection_def inspection_ok_def
        inspection_coherent_def g)
qed code_simp+

theorem inspection_steps_accepted_witness:
  "let w = empty_world\<lparr>w_db := (w_db empty_world)\<lparr>db_safety := sample_detained\<rparr>\<rparr> in
   (\<exists>w' r'. TransitionInspection calm ''t'' ''i'' ''v'' ''release'' [] w = (w', Inr r'))
   \<and> \<not> (\<exists>w' r'. TransitionInspection calm ''t'' ''i'' ''u'' ''release'' [] w = (w', Inr r'))"
proof -
  define w where "w = empty_world\<lparr>w_db := (w_db empty_world)\<lparr>db_safety := sample_detained\<rparr>\<rparr>"
  have s: "db_safety (w_db w) = sample_detained" by (simp add: w_def)
  have pg: "\<forall>n. x_pg calm n" by (simp add: calm_def)
  note spec = inspection_steps_accepted [where action = "''release''" and w = w, unfolded s,
      OF pg sample_detained_facts(1,6,2,7), unfolded sample_detained_facts(4,5)]
  show ?thesis
    using sample_detained_facts(3) spec [OF sample_detained_facts(8), of "[]"] spec [OF sample_detained_facts(9), of "[]"]
    unfolding Let_def w_def [symmetric] by (simp add: char_count_def)
qed

end
