(* ===== verification/Safety_Api.thy ===== *)
theory Safety_Api
  imports Api_Server Safety_Machine
begin

text \<open>
  The REST boundary of the safety modules (\<open>internal/api/safety.go\<close>): request bodies, the clearance floor,
  all handlers and their route table, over the calls of \<open>Safety_Store\<close>.

  A body is decoded by the standard library; what arrives is no body, one that does not decode, or the decoded
  struct. A decoded struct with members missing has their zero values, as has the struct for no body. Times in a
  body are \<open>None\<close> when they are the zero time. The message of a 409 is the text of the wrapped error.
\<close>

section \<open>Requests and responses\<close>

datatype 'a json_body = Missing | Malformed | Decoded 'a

text \<open>The items of a template: absent, not an array of objects, or the \<open>code\<close> members of an array.\<close>

datatype raw_items = NoItems | BadItems | Items "string option list"

record checklistTemplateRequest =
  qt_TemplateID :: string
  qt_Regime :: string
  qt_Version :: int
  qt_Title :: string
  qt_Items :: raw_items

record inspectionRequest =
  qi_InspectionID :: string
  qi_Regime :: string
  qi_TemplateID :: string
  qi_VesselReference :: string
  qi_PortCode :: string
  qi_Classification :: string

record transitionRequest =
  qx_Action :: string
  qx_Note :: string
  qx_Reason :: string

record deficiencyRequest =
  qd_DeficiencyID :: string
  qd_Code :: string
  qd_Description :: string
  qd_Severity :: string
  qd_RectificationDeadline :: "int option"

record sarIncidentRequest =
  qg_IncidentID :: string
  qg_SosAlertID :: string
  qg_Title :: string
  qg_Classification :: string
  qg_LatitudeMicros :: "int option"
  qg_LongitudeMicros :: "int option"

record sarTaskingRequest =
  qk_TaskingID :: string
  qk_ResourceType :: string
  qk_ResourceName :: string

record sarCommsRequest =
  qc_Direction :: string
  qc_Channel :: string
  qc_Message :: string

record investigationCaseRequest =
  qv_CaseID :: string
  qv_CasualtyType :: string
  qv_Severity :: string
  qv_VesselReference :: string
  qv_OccurredAt :: "int option"
  qv_Classification :: string
  qv_LatitudeMicros :: "int option"
  qv_LongitudeMicros :: "int option"

record evidenceRequest =
  qe_EvidenceID :: string
  qe_Description :: string
  qe_ContentHash :: string

record findingRequest =
  qf_FindingID :: string
  qf_Finding :: string

record recommendationRequest =
  qm_RecommendationID :: string
  qm_Recommendation :: string

datatype safety_body =
    SError string
  | STemplateID string
  | STemplates "ChecklistTemplateRow list"
  | SInspection InspectionRow
  | SInspections "InspectionRow list"
  | SDeficiency DeficiencyRow
  | SDeficiencies "DeficiencyRow list"
  | SIncident SarIncidentRow
  | SIncidents "SarIncidentRow list"
  | STasking SarTaskingRow
  | SComms SarCommsRow
  | SCommsLog "SarCommsRow list"
  | SCase InvestigationCaseRow
  | SCases "InvestigationCaseRow list"
  | SEvidence EvidenceRow
  | SEvidenceList "EvidenceRow list" bool
  | SFinding FindingRow
  | SFindings "FindingRow list"
  | SRecommendation RecommendationRow
  | SRecommendations "RecommendationRow list"

record safety_response =
  sr_status :: nat
  sr_body :: safety_body

definition safety_json :: "nat \<Rightarrow> safety_body \<Rightarrow> safety_response" where
  "safety_json status b = \<lparr>sr_status = status, sr_body = b\<rparr>"

definition safety_error :: "nat \<Rightarrow> string \<Rightarrow> safety_response" where
  "safety_error status message = safety_json status (SError message)"

definition safety_refuse :: "refusal \<Rightarrow> safety_response" where
  "safety_refuse r = (case r of Unauthenticated \<Rightarrow> safety_error 401 ''unauthenticated'' | Forbidden \<Rightarrow> safety_error 403 ''forbidden'')"

section \<open>Guards\<close>

text \<open>What the handlers are wired to.\<close>

record Safety =
  sf_Events :: "signed_publish option"
  sf_SHA256 :: "nat list \<Rightarrow> nat list"

definition safetyIDPattern :: "string \<Rightarrow> bool" where
  "safetyIDPattern s \<longleftrightarrow> id_text 127 s"

definition sha256HexPattern :: "string \<Rightarrow> bool" where
  "sha256HexPattern s \<longleftrightarrow> sha256_text s"

definition safetyPrincipal :: "Principal option \<Rightarrow> (Principal \<Rightarrow> safety_response geo) \<Rightarrow> safety_response geo" where
  "safetyPrincipal ctx k =
     (case PrincipalFrom ctx of
        None \<Rightarrow> ret (safety_error 403 ''principal unavailable'')
      | Some p \<Rightarrow>
          (case ParseClassification (pn_Clearance p) of
             Inl _ \<Rightarrow> ret (safety_error 403 ''safety endpoints require RESTRICTED or higher clearance'')
           | Inr clearance \<Rightarrow>
               if Covers clearance ClassificationRestricted then k p
               else ret (safety_error 403 ''safety endpoints require RESTRICTED or higher clearance'')))"

definition publisherReady :: "Safety \<Rightarrow> (signed_publish \<Rightarrow> safety_response geo) \<Rightarrow> safety_response geo" where
  "publisherReady s k =
     (case sf_Events s of None \<Rightarrow> ret (safety_error 503 ''safety event publisher is not wired'') | Some pub \<Rightarrow> k pub)"

definition safetyPathID :: "string \<Rightarrow> (string \<Rightarrow> safety_response geo) \<Rightarrow> safety_response geo" where
  "safetyPathID i k = (if safetyIDPattern i then k i else ret (safety_error 400 ''path id is invalid''))"

definition decodeBody :: "'a \<Rightarrow> 'a json_body \<Rightarrow> ('a \<Rightarrow> safety_response geo) \<Rightarrow> safety_response geo" where
  "decodeBody zero b k =
     (case b of Missing \<Rightarrow> k zero | Malformed \<Rightarrow> ret (safety_error 400 ''request body is not valid JSON'') | Decoded x \<Rightarrow> k x)"

definition safetyStoreError :: "string \<Rightarrow> geo_error \<Rightarrow> safety_response" where
  "safetyStoreError context e =
     (case e of
        ErrSafetyNotFound \<Rightarrow> safety_error 404 (context @ '' not found'')
      | ErrSafetyMakerChecker \<Rightarrow> safety_error 409 ''maker-checker violation: the acting principal must differ from the maker''
      | ErrSafetyInvalidTransition \<Rightarrow> safety_error 409 ''safety lifecycle transition is not legal from the current state''
      | _ \<Rightarrow> safety_error 500 (context @ '' failed''))"

text \<open>\<open>row, err := s.Store\<dots>; if err != nil \<dots>\<close>.\<close>

definition or_reply :: "'a geo \<Rightarrow> (geo_error \<Rightarrow> safety_response) \<Rightarrow> ('a \<Rightarrow> safety_response geo) \<Rightarrow> safety_response geo" where
  "or_reply m fail k = bindA (attempt m) (\<lambda>r. case r of Inl e \<Rightarrow> ret (fail e) | Inr x \<Rightarrow> k x)"

definition failed500 :: "string \<Rightarrow> geo_error \<Rightarrow> safety_response" where
  "failed500 message e = safety_error 500 message"

definition require400 :: "bool \<Rightarrow> string \<Rightarrow> safety_response geo \<Rightarrow> safety_response geo" where
  "require400 ok message k = (if ok then k else ret (safety_error 400 message))"

definition label_floor :: "string \<Rightarrow> bool" where
  "label_floor label \<longleftrightarrow>
     (case ParseClassification label of Inl _ \<Rightarrow> False | Inr c \<Rightarrow> Covers c ClassificationRestricted)"

definition no_transition :: transitionRequest where
  "no_transition = \<lparr>qx_Action = [], qx_Note = [], qx_Reason = []\<rparr>"

section \<open>Inspections\<close>

definition createChecklistTemplate ::
  "externals \<Rightarrow> checklistTemplateRequest json_body \<Rightarrow> Principal option \<Rightarrow> safety_response geo" where
  "createChecklistTemplate X b ctx =
     safetyPrincipal ctx (\<lambda>p.
     decodeBody \<lparr>qt_TemplateID = [], qt_Regime = [], qt_Version = 0, qt_Title = [], qt_Items = NoItems\<rparr> b (\<lambda>payload.
     require400 (safetyIDPattern (qt_TemplateID payload) \<and> (qt_Regime payload = ''FSC'' \<or> qt_Regime payload = ''PSC'')
         \<and> 1 \<le> qt_Version payload \<and> qt_Title payload \<noteq> [] \<and> qt_Items payload \<noteq> NoItems)
       ''template id, regime (FSC|PSC), version, title and items are required''
     (case qt_Items payload of
        Items (code # codes) \<Rightarrow>
          require400 (list_all (\<lambda>c. c \<noteq> None \<and> c \<noteq> Some []) (code # codes)) ''every checklist item requires a code''
          (or_reply (CreateChecklistTemplate X
               \<lparr>ct_TemplateID = qt_TemplateID payload, ct_TenantID = pn_TenantID p, ct_Regime = qt_Regime payload,
                ct_Version = qt_Version payload, ct_Title = qt_Title payload, ct_Items = code # codes,
                ct_CreatedBy = pn_Subject p, ct_CreatedAt = 0\<rparr>)
             (failed500 ''checklist template creation failed'')
             (\<lambda>_. ret (safety_json 201 (STemplateID (qt_TemplateID payload)))))
      | _ \<Rightarrow> ret (safety_error 400 ''items must be a non-empty JSON array''))))"

definition listChecklistTemplates :: "externals \<Rightarrow> string \<Rightarrow> Principal option \<Rightarrow> safety_response geo" where
  "listChecklistTemplates X regime ctx =
     safetyPrincipal ctx (\<lambda>p.
     or_reply (ListChecklistTemplates X (pn_TenantID p) regime) (failed500 ''checklist template query failed'')
       (\<lambda>templates. ret (safety_json 200 (STemplates templates))))"

fun inspection_state_name :: "inspection_state \<Rightarrow> string" where
  "inspection_state_name SCHEDULED = ''SCHEDULED''"
| "inspection_state_name IN_PROGRESS = ''IN_PROGRESS''"
| "inspection_state_name COMPLETED = ''COMPLETED''"
| "inspection_state_name DETAINED = ''DETAINED''"
| "inspection_state_name RECTIFICATION = ''RECTIFICATION''"
| "inspection_state_name RELEASED = ''RELEASED''"
| "inspection_state_name INSPECTION_CLOSED = ''CLOSED''"

text \<open>The event, then the response the handler writes when it was published.\<close>

definition publishInspection ::
  "externals \<Rightarrow> signed_publish \<Rightarrow> InspectionRow \<Rightarrow> string \<Rightarrow> string \<Rightarrow> string \<Rightarrow> safety_response \<Rightarrow> safety_response geo" where
  "publishInspection X pub row actor action text success =
     bindA (clock X) (\<lambda>occurredAt.
     or_reply (pub EventSafetyInspection (iw_InspectionID row)
         (PSafetyInspection \<lparr>il_InspectionID = iw_InspectionID row, il_Regime = iw_Regime row,
            il_VesselReference = iw_VesselReference row, il_PortCode = iw_PortCode row, il_Action = action,
            il_State = inspection_state_name (iw_State row), il_Actor = actor, il_OccurredAt = occurredAt,
            il_Note = text, il_Classification = iw_Classification row\<rparr>)
         occurredAt (iw_Classification row) [''priority'' \<mapsto> ''SAFETY''])
       (failed500 ''safety inspection event publication failed'') (\<lambda>_. ret success))"

definition createInspection ::
  "externals \<Rightarrow> Safety \<Rightarrow> inspectionRequest json_body \<Rightarrow> Principal option \<Rightarrow> safety_response geo" where
  "createInspection X s b ctx =
     safetyPrincipal ctx (\<lambda>p. publisherReady s (\<lambda>pub.
     decodeBody \<lparr>qi_InspectionID = [], qi_Regime = [], qi_TemplateID = [], qi_VesselReference = [], qi_PortCode = [],
       qi_Classification = []\<rparr> b (\<lambda>payload.
     require400 (safetyIDPattern (qi_InspectionID payload) \<and> (qi_Regime payload = ''FSC'' \<or> qi_Regime payload = ''PSC'')
         \<and> safetyIDPattern (qi_TemplateID payload) \<and> qi_VesselReference payload \<noteq> [])
       ''inspection id, regime (FSC|PSC), template id and vessel reference are required''
     (require400 (label_floor (qi_Classification payload)) ''classification floor is RESTRICTED''
     (or_reply (CreateInspection X
          \<lparr>iw_InspectionID = qi_InspectionID payload, iw_TenantID = pn_TenantID p, iw_Regime = qi_Regime payload,
           iw_TemplateID = qi_TemplateID payload, iw_VesselReference = qi_VesselReference payload,
           iw_PortCode = qi_PortCode payload, iw_Classification = qi_Classification payload, iw_State = SCHEDULED,
           iw_InspectorPrincipalID = pn_Subject p, iw_CreatedAt = 0, iw_StartedAt = None, iw_CompletedAt = None,
           iw_DetainedBy = None, iw_DetainedAt = None, iw_DetentionGrounds = None, iw_RectificationStartedBy = None,
           iw_RectificationStartedAt = None, iw_ReleasedBy = None, iw_ReleasedAt = None, iw_ClosedBy = None,
           iw_ClosedAt = None\<rparr>)
        (safetyStoreError ''inspection creation'')
        (\<lambda>row. publishInspection X pub row (pn_Subject p) ''create'' [] (safety_json 201 (SInspection row))))))))"

definition getInspection :: "externals \<Rightarrow> string \<Rightarrow> Principal option \<Rightarrow> safety_response geo" where
  "getInspection X i ctx =
     safetyPrincipal ctx (\<lambda>p. safetyPathID i (\<lambda>i.
     or_reply (GetInspection X (pn_TenantID p) i) (safetyStoreError ''inspection'')
       (\<lambda>row. ret (safety_json 200 (SInspection row)))))"

definition listInspections :: "externals \<Rightarrow> string \<Rightarrow> Principal option \<Rightarrow> safety_response geo" where
  "listInspections X limit ctx =
     safetyPrincipal ctx (\<lambda>p.
     or_reply (ListInspections X (pn_TenantID p) (nat (parseLimit limit 100 1000))) (failed500 ''inspection query failed'')
       (\<lambda>rows. ret (safety_json 200 (SInspections rows))))"

definition checker :: "Principal \<Rightarrow> bool" where
  "checker p \<longleftrightarrow> HasRole p ''geo-inspection-checker'' \<or> HasRole p ''geo-admin''"

definition transitionInspection ::
  "externals \<Rightarrow> Safety \<Rightarrow> string \<Rightarrow> transitionRequest json_body \<Rightarrow> Principal option \<Rightarrow> safety_response geo" where
  "transitionInspection X s i b ctx =
     safetyPrincipal ctx (\<lambda>p. publisherReady s (\<lambda>pub. safetyPathID i (\<lambda>i. decodeBody no_transition b (\<lambda>payload.
     if qx_Action payload = ''release'' \<and> \<not> checker p
     then ret (safety_error 403 ''release requires the geo-inspection-checker role'')
     else or_reply (TransitionInspection X (pn_TenantID p) i (pn_Subject p) (qx_Action payload) (qx_Note payload))
       (safetyStoreError ''inspection transition'')
       (\<lambda>row. publishInspection X pub row (pn_Subject p) (qx_Action payload) (qx_Note payload)
          (safety_json 200 (SInspection row)))))))"

definition recordDeficiency ::
  "externals \<Rightarrow> string \<Rightarrow> deficiencyRequest json_body \<Rightarrow> Principal option \<Rightarrow> safety_response geo" where
  "recordDeficiency X i b ctx =
     safetyPrincipal ctx (\<lambda>p. safetyPathID i (\<lambda>i.
     decodeBody \<lparr>qd_DeficiencyID = [], qd_Code = [], qd_Description = [], qd_Severity = [], qd_RectificationDeadline = None\<rparr> b
       (\<lambda>payload.
     require400 (safetyIDPattern (qd_DeficiencyID payload) \<and> qd_Code payload \<noteq> [] \<and> qd_Description payload \<noteq> []
         \<and> (qd_Severity payload = ''MINOR'' \<or> qd_Severity payload = ''MAJOR'' \<or> qd_Severity payload = ''CRITICAL''))
       ''deficiency id, code, description and severity (MINOR|MAJOR|CRITICAL) are required''
     (or_reply (RecordDeficiency X (pn_TenantID p)
          \<lparr>dw_DeficiencyID = qd_DeficiencyID payload, dw_InspectionID = i, dw_Code = qd_Code payload,
           dw_Description = qd_Description payload, dw_Severity = qd_Severity payload, dw_State = OPEN,
           dw_RectificationDeadline = qd_RectificationDeadline payload, dw_RecordedBy = pn_Subject p, dw_RecordedAt = 0,
           dw_RectifiedBy = None, dw_RectifiedAt = None, dw_VerifiedBy = None, dw_VerifiedAt = None\<rparr>)
        (safetyStoreError ''deficiency recording'')
        (\<lambda>row. ret (safety_json 201 (SDeficiency row)))))))"

definition listDeficiencies :: "externals \<Rightarrow> string \<Rightarrow> Principal option \<Rightarrow> safety_response geo" where
  "listDeficiencies X i ctx =
     safetyPrincipal ctx (\<lambda>p. safetyPathID i (\<lambda>i.
     or_reply (ListDeficiencies X (pn_TenantID p) i) (failed500 ''deficiency query failed'')
       (\<lambda>rows. ret (safety_json 200 (SDeficiencies rows)))))"

definition transitionDeficiency ::
  "externals \<Rightarrow> string \<Rightarrow> transitionRequest json_body \<Rightarrow> Principal option \<Rightarrow> safety_response geo" where
  "transitionDeficiency X i b ctx =
     safetyPrincipal ctx (\<lambda>p. safetyPathID i (\<lambda>i. decodeBody no_transition b (\<lambda>payload.
     if qx_Action payload = ''verify'' \<and> \<not> checker p
     then ret (safety_error 403 ''verify requires the geo-inspection-checker role'')
     else or_reply (TransitionDeficiency X (pn_TenantID p) i (pn_Subject p) (qx_Action payload))
       (safetyStoreError ''deficiency transition'')
       (\<lambda>row. ret (safety_json 200 (SDeficiency row))))))"

section \<open>Search and rescue\<close>

fun sar_phase_name :: "sar_phase \<Rightarrow> string" where
  "sar_phase_name UNCERTAINTY = ''UNCERTAINTY''"
| "sar_phase_name ALERT = ''ALERT''"
| "sar_phase_name DISTRESS = ''DISTRESS''"
| "sar_phase_name RESCUE = ''RESCUE''"
| "sar_phase_name SAR_CLOSED = ''CLOSED''"

definition publishSar ::
  "externals \<Rightarrow> signed_publish \<Rightarrow> SarIncidentRow \<Rightarrow> string \<Rightarrow> string \<Rightarrow> string \<Rightarrow> string \<Rightarrow> safety_response
     \<Rightarrow> safety_response geo" where
  "publishSar X pub row actor action resourceName text success =
     bindA (clock X) (\<lambda>occurredAt.
     or_reply (pub EventSafetySAR (gw_IncidentID row)
         (PSafetySar \<lparr>rl_IncidentID = gw_IncidentID row,
            rl_SosAlertID = (case gw_SosAlertID row of None \<Rightarrow> [] | Some a \<Rightarrow> a), rl_Action = action,
            rl_Phase = sar_phase_name (gw_Phase row), rl_Actor = actor, rl_OccurredAt = occurredAt,
            rl_ResourceName = resourceName, rl_Note = text, rl_Classification = gw_Classification row\<rparr>)
         occurredAt (gw_Classification row) [''priority'' \<mapsto> ''SAFETY''])
       (failed500 ''sar event publication failed'') (\<lambda>_. ret success))"

definition createSarIncident ::
  "externals \<Rightarrow> Safety \<Rightarrow> sarIncidentRequest json_body \<Rightarrow> Principal option \<Rightarrow> safety_response geo" where
  "createSarIncident X s b ctx =
     safetyPrincipal ctx (\<lambda>p. publisherReady s (\<lambda>pub.
     decodeBody \<lparr>qg_IncidentID = [], qg_SosAlertID = [], qg_Title = [], qg_Classification = [], qg_LatitudeMicros = None,
       qg_LongitudeMicros = None\<rparr> b (\<lambda>payload.
     require400 (safetyIDPattern (qg_IncidentID payload) \<and> qg_Title payload \<noteq> []) ''incident id and title are required''
     (require400 (label_floor (qg_Classification payload)) ''classification floor is RESTRICTED''
     (require400 (qg_SosAlertID payload = [] \<or> safetyIDPattern (qg_SosAlertID payload)) ''sos alert id is invalid''
     (or_reply (CreateSarIncident X
          \<lparr>gw_IncidentID = qg_IncidentID payload, gw_TenantID = pn_TenantID p,
           gw_SosAlertID = (if qg_SosAlertID payload = [] then None else Some (qg_SosAlertID payload)),
           gw_Title = qg_Title payload, gw_Position = None, gw_Classification = qg_Classification payload,
           gw_Phase = UNCERTAINTY, gw_OpenedBy = pn_Subject p, gw_OpenedAt = 0, gw_AlertedBy = None, gw_AlertedAt = None,
           gw_DistressDeclaredBy = None, gw_DistressDeclaredAt = None, gw_RescueStartedBy = None, gw_RescueStartedAt = None,
           gw_ClosedBy = None, gw_ClosedAt = None, gw_ClosureReason = None\<rparr>
          (qg_LatitudeMicros payload) (qg_LongitudeMicros payload))
        (safetyStoreError ''sar incident creation'')
        (\<lambda>row. publishSar X pub row (pn_Subject p) ''open'' [] [] (safety_json 201 (SIncident row)))))))))"

definition getSarIncident :: "externals \<Rightarrow> string \<Rightarrow> Principal option \<Rightarrow> safety_response geo" where
  "getSarIncident X i ctx =
     safetyPrincipal ctx (\<lambda>p. safetyPathID i (\<lambda>i.
     or_reply (GetSarIncident X (pn_TenantID p) i) (safetyStoreError ''sar incident'')
       (\<lambda>row. ret (safety_json 200 (SIncident row)))))"

definition listSarIncidents :: "externals \<Rightarrow> string \<Rightarrow> Principal option \<Rightarrow> safety_response geo" where
  "listSarIncidents X limit ctx =
     safetyPrincipal ctx (\<lambda>p.
     or_reply (ListSarIncidents X (pn_TenantID p) (nat (parseLimit limit 100 1000))) (failed500 ''sar incident query failed'')
       (\<lambda>rows. ret (safety_json 200 (SIncidents rows))))"

definition transitionSarIncident ::
  "externals \<Rightarrow> Safety \<Rightarrow> string \<Rightarrow> transitionRequest json_body \<Rightarrow> Principal option \<Rightarrow> safety_response geo" where
  "transitionSarIncident X s i b ctx =
     safetyPrincipal ctx (\<lambda>p. publisherReady s (\<lambda>pub. safetyPathID i (\<lambda>i. decodeBody no_transition b (\<lambda>payload.
     or_reply (TransitionSarIncident X (pn_TenantID p) i (pn_Subject p) (qx_Action payload) (qx_Reason payload))
       (safetyStoreError ''sar incident transition'')
       (\<lambda>row. publishSar X pub row (pn_Subject p) (qx_Action payload) [] (qx_Reason payload)
          (safety_json 200 (SIncident row)))))))"

definition taskSarResource ::
  "externals \<Rightarrow> Safety \<Rightarrow> string \<Rightarrow> sarTaskingRequest json_body \<Rightarrow> Principal option \<Rightarrow> safety_response geo" where
  "taskSarResource X s i b ctx =
     safetyPrincipal ctx (\<lambda>p. publisherReady s (\<lambda>pub. safetyPathID i (\<lambda>i.
     decodeBody \<lparr>qk_TaskingID = [], qk_ResourceType = [], qk_ResourceName = []\<rparr> b (\<lambda>payload.
     require400 (safetyIDPattern (qk_TaskingID payload) \<and> qk_ResourceName payload \<noteq> []
         \<and> (qk_ResourceType payload = ''VESSEL'' \<or> qk_ResourceType payload = ''AIRCRAFT'' \<or> qk_ResourceType payload = ''TEAM''
            \<or> qk_ResourceType payload = ''OTHER''))
       ''tasking id, resource type (VESSEL|AIRCRAFT|TEAM|OTHER) and resource name are required''
     (or_reply (TaskSarResource X (pn_TenantID p)
          \<lparr>tw_TaskingID = qk_TaskingID payload, tw_IncidentID = i, tw_ResourceType = qk_ResourceType payload,
           tw_ResourceName = qk_ResourceName payload, tw_State = TASKED, tw_TaskedBy = pn_Subject p, tw_TaskedAt = 0,
           tw_ReleasedBy = None, tw_ReleasedAt = None\<rparr>)
        (safetyStoreError ''sar resource tasking'')
        (\<lambda>row. or_reply (GetSarIncident X (pn_TenantID p) i) (safetyStoreError ''sar incident'')
          (\<lambda>incident. publishSar X pub incident (pn_Subject p) ''task'' (qk_ResourceName payload) []
             (safety_json 201 (STasking row)))))))))"

definition transitionSarTasking ::
  "externals \<Rightarrow> string \<Rightarrow> transitionRequest json_body \<Rightarrow> Principal option \<Rightarrow> safety_response geo" where
  "transitionSarTasking X i b ctx =
     safetyPrincipal ctx (\<lambda>p. safetyPathID i (\<lambda>i. decodeBody no_transition b (\<lambda>payload.
     or_reply (TransitionSarTasking X (pn_TenantID p) i (pn_Subject p) (qx_Action payload))
       (safetyStoreError ''sar tasking transition'')
       (\<lambda>row. ret (safety_json 200 (STasking row))))))"

definition appendSarComms ::
  "externals \<Rightarrow> string \<Rightarrow> sarCommsRequest json_body \<Rightarrow> Principal option \<Rightarrow> safety_response geo" where
  "appendSarComms X i b ctx =
     safetyPrincipal ctx (\<lambda>p. safetyPathID i (\<lambda>i.
     decodeBody \<lparr>qc_Direction = [], qc_Channel = [], qc_Message = []\<rparr> b (\<lambda>payload.
     require400 ((qc_Direction payload = ''INBOUND'' \<or> qc_Direction payload = ''OUTBOUND'')
         \<and> qc_Channel payload \<noteq> [] \<and> qc_Message payload \<noteq> [])
       ''direction (INBOUND|OUTBOUND), channel and message are required''
     (or_reply (AppendSarComms X (pn_TenantID p)
          \<lparr>cw_EntryID = 0, cw_IncidentID = i, cw_Direction = qc_Direction payload, cw_Channel = qc_Channel payload,
           cw_Message = qc_Message payload, cw_LoggedBy = pn_Subject p, cw_LoggedAt = 0\<rparr>)
        (safetyStoreError ''sar comms entry'')
        (\<lambda>row. ret (safety_json 201 (SComms row)))))))"

definition listSarComms :: "externals \<Rightarrow> string \<Rightarrow> string \<Rightarrow> Principal option \<Rightarrow> safety_response geo" where
  "listSarComms X i limit ctx =
     safetyPrincipal ctx (\<lambda>p. safetyPathID i (\<lambda>i.
     or_reply (ListSarComms X (pn_TenantID p) i (nat (parseLimit limit 500 5000))) (failed500 ''sar comms query failed'')
       (\<lambda>rows. ret (safety_json 200 (SCommsLog rows)))))"

section \<open>Investigations\<close>

fun case_state_name :: "case_state \<Rightarrow> string" where
  "case_state_name CASE_OPEN = ''OPEN''"
| "case_state_name EVIDENCE = ''EVIDENCE''"
| "case_state_name ANALYSIS = ''ANALYSIS''"
| "case_state_name REPORTED = ''REPORTED''"
| "case_state_name CASE_CLOSED = ''CLOSED''"

definition publishInvestigation ::
  "externals \<Rightarrow> signed_publish \<Rightarrow> InvestigationCaseRow \<Rightarrow> string \<Rightarrow> string \<Rightarrow> string \<Rightarrow> string \<Rightarrow> safety_response
     \<Rightarrow> safety_response geo" where
  "publishInvestigation X pub row actor action evidenceID chainHash success =
     bindA (clock X) (\<lambda>occurredAt.
     or_reply (pub EventSafetyInvestigation (vw_CaseID row)
         (PSafetyInvestigation \<lparr>nl_CaseID = vw_CaseID row, nl_CasualtyType = vw_CasualtyType row, nl_Action = action,
            nl_State = case_state_name (vw_State row), nl_Actor = actor, nl_OccurredAt = occurredAt,
            nl_EvidenceID = evidenceID, nl_ChainHash = chainHash, nl_Classification = vw_Classification row\<rparr>)
         occurredAt (vw_Classification row) [''priority'' \<mapsto> ''SAFETY''])
       (failed500 ''investigation event publication failed'') (\<lambda>_. ret success))"

definition createInvestigationCase ::
  "externals \<Rightarrow> Safety \<Rightarrow> investigationCaseRequest json_body \<Rightarrow> Principal option \<Rightarrow> safety_response geo" where
  "createInvestigationCase X s b ctx =
     safetyPrincipal ctx (\<lambda>p. publisherReady s (\<lambda>pub.
     decodeBody \<lparr>qv_CaseID = [], qv_CasualtyType = [], qv_Severity = [], qv_VesselReference = [], qv_OccurredAt = None,
       qv_Classification = [], qv_LatitudeMicros = None, qv_LongitudeMicros = None\<rparr> b (\<lambda>payload.
     case qv_OccurredAt payload of
       None \<Rightarrow> ret (safety_error 400 ''case id, vessel reference and occurredAt are required'')
     | Some occurredAt \<Rightarrow>
     require400 (safetyIDPattern (qv_CaseID payload) \<and> qv_VesselReference payload \<noteq> [])
       ''case id, vessel reference and occurredAt are required''
     (require400 (label_floor (qv_Classification payload)) ''classification floor is RESTRICTED''
     (or_reply (CreateInvestigationCase X
          \<lparr>vw_CaseID = qv_CaseID payload, vw_TenantID = pn_TenantID p, vw_CasualtyType = qv_CasualtyType payload,
           vw_Severity = qv_Severity payload, vw_VesselReference = qv_VesselReference payload, vw_OccurredAt = occurredAt,
           vw_Location = None, vw_Classification = qv_Classification payload, vw_State = CASE_OPEN,
           vw_LeadInvestigator = pn_Subject p, vw_OpenedAt = 0, vw_ReportedBy = None, vw_ReportedAt = None,
           vw_ClosedBy = None, vw_ClosedAt = None\<rparr>
          (qv_LatitudeMicros payload) (qv_LongitudeMicros payload))
        (safetyStoreError ''investigation case creation'')
        (\<lambda>row. publishInvestigation X pub row (pn_Subject p) ''open'' [] [] (safety_json 201 (SCase row))))))))"

definition getInvestigationCase :: "externals \<Rightarrow> string \<Rightarrow> Principal option \<Rightarrow> safety_response geo" where
  "getInvestigationCase X i ctx =
     safetyPrincipal ctx (\<lambda>p. safetyPathID i (\<lambda>i.
     or_reply (GetInvestigationCase X (pn_TenantID p) i) (safetyStoreError ''investigation case'')
       (\<lambda>row. ret (safety_json 200 (SCase row)))))"

definition listInvestigationCases :: "externals \<Rightarrow> string \<Rightarrow> Principal option \<Rightarrow> safety_response geo" where
  "listInvestigationCases X limit ctx =
     safetyPrincipal ctx (\<lambda>p.
     or_reply (ListInvestigationCases X (pn_TenantID p) (nat (parseLimit limit 100 1000)))
       (failed500 ''investigation case query failed'') (\<lambda>rows. ret (safety_json 200 (SCases rows))))"

definition transitionInvestigationCase ::
  "externals \<Rightarrow> Safety \<Rightarrow> string \<Rightarrow> transitionRequest json_body \<Rightarrow> Principal option \<Rightarrow> safety_response geo" where
  "transitionInvestigationCase X s i b ctx =
     safetyPrincipal ctx (\<lambda>p. publisherReady s (\<lambda>pub. safetyPathID i (\<lambda>i. decodeBody no_transition b (\<lambda>payload.
     or_reply (TransitionInvestigationCase X (pn_TenantID p) i (pn_Subject p) (qx_Action payload))
       (safetyStoreError ''investigation case transition'')
       (\<lambda>row. publishInvestigation X pub row (pn_Subject p) (qx_Action payload) [] []
          (safety_json 200 (SCase row)))))))"

definition appendEvidence ::
  "externals \<Rightarrow> Safety \<Rightarrow> string \<Rightarrow> evidenceRequest json_body \<Rightarrow> Principal option \<Rightarrow> safety_response geo" where
  "appendEvidence X s i b ctx =
     safetyPrincipal ctx (\<lambda>p. publisherReady s (\<lambda>pub. safetyPathID i (\<lambda>i.
     decodeBody \<lparr>qe_EvidenceID = [], qe_Description = [], qe_ContentHash = []\<rparr> b (\<lambda>payload.
     require400 (safetyIDPattern (qe_EvidenceID payload) \<and> qe_Description payload \<noteq> [] \<and> sha256HexPattern (qe_ContentHash payload))
       ''evidence id, description and a lowercase-hex sha256 contentHash are required''
     (or_reply (AppendEvidence X (sf_SHA256 s) (pn_TenantID p)
          \<lparr>ew_EvidenceID = qe_EvidenceID payload, ew_CaseID = i, ew_Description = qe_Description payload,
           ew_ContentHash = qe_ContentHash payload, ew_PrevChainHash = [], ew_ChainHash = [],
           ew_CollectedBy = pn_Subject p, ew_CollectedAt = 0\<rparr>)
        (safetyStoreError ''evidence append'')
        (\<lambda>row. or_reply (GetInvestigationCase X (pn_TenantID p) i) (safetyStoreError ''investigation case'')
          (\<lambda>caseRow. publishInvestigation X pub caseRow (pn_Subject p) ''evidence'' (ew_EvidenceID row) (ew_ChainHash row)
             (safety_json 201 (SEvidence row)))))))))"

definition listEvidence :: "externals \<Rightarrow> Safety \<Rightarrow> string \<Rightarrow> Principal option \<Rightarrow> safety_response geo" where
  "listEvidence X s i ctx =
     safetyPrincipal ctx (\<lambda>p. safetyPathID i (\<lambda>i.
     or_reply (ListEvidence X (pn_TenantID p) i) (failed500 ''evidence query failed'') (\<lambda>rows.
     or_reply (VerifyEvidenceChain X (sf_SHA256 s) (pn_TenantID p) i) (failed500 ''evidence chain verification failed'')
       (\<lambda>valid. ret (safety_json 200 (SEvidenceList rows valid))))))"

definition addFinding ::
  "externals \<Rightarrow> string \<Rightarrow> findingRequest json_body \<Rightarrow> Principal option \<Rightarrow> safety_response geo" where
  "addFinding X i b ctx =
     safetyPrincipal ctx (\<lambda>p. safetyPathID i (\<lambda>i. decodeBody \<lparr>qf_FindingID = [], qf_Finding = []\<rparr> b (\<lambda>payload.
     require400 (safetyIDPattern (qf_FindingID payload) \<and> qf_Finding payload \<noteq> []) ''finding id and finding text are required''
     (or_reply (AddFinding X (pn_TenantID p)
          \<lparr>fw_FindingID = qf_FindingID payload, fw_CaseID = i, fw_Finding = qf_Finding payload, fw_CreatedBy = pn_Subject p,
           fw_CreatedAt = 0\<rparr>)
        (safetyStoreError ''finding'') (\<lambda>row. ret (safety_json 201 (SFinding row)))))))"

definition listFindings :: "externals \<Rightarrow> string \<Rightarrow> Principal option \<Rightarrow> safety_response geo" where
  "listFindings X i ctx =
     safetyPrincipal ctx (\<lambda>p. safetyPathID i (\<lambda>i.
     or_reply (ListFindings X (pn_TenantID p) i) (failed500 ''finding query failed'')
       (\<lambda>rows. ret (safety_json 200 (SFindings rows)))))"

definition addRecommendation ::
  "externals \<Rightarrow> string \<Rightarrow> recommendationRequest json_body \<Rightarrow> Principal option \<Rightarrow> safety_response geo" where
  "addRecommendation X i b ctx =
     safetyPrincipal ctx (\<lambda>p. safetyPathID i (\<lambda>i. decodeBody \<lparr>qm_RecommendationID = [], qm_Recommendation = []\<rparr> b (\<lambda>payload.
     require400 (safetyIDPattern (qm_RecommendationID payload) \<and> qm_Recommendation payload \<noteq> [])
       ''recommendation id and text are required''
     (or_reply (AddRecommendation X (pn_TenantID p)
          \<lparr>rw_RecommendationID = qm_RecommendationID payload, rw_CaseID = i, rw_Recommendation = qm_Recommendation payload,
           rw_Status = PROPOSED, rw_CreatedBy = pn_Subject p, rw_CreatedAt = 0, rw_DecidedBy = None, rw_DecidedAt = None\<rparr>)
        (safetyStoreError ''recommendation'') (\<lambda>row. ret (safety_json 201 (SRecommendation row)))))))"

definition listRecommendations :: "externals \<Rightarrow> string \<Rightarrow> Principal option \<Rightarrow> safety_response geo" where
  "listRecommendations X i ctx =
     safetyPrincipal ctx (\<lambda>p. safetyPathID i (\<lambda>i.
     or_reply (ListRecommendations X (pn_TenantID p) i) (failed500 ''recommendation query failed'')
       (\<lambda>rows. ret (safety_json 200 (SRecommendations rows)))))"

definition decideRecommendation ::
  "externals \<Rightarrow> string \<Rightarrow> transitionRequest json_body \<Rightarrow> Principal option \<Rightarrow> safety_response geo" where
  "decideRecommendation X i b ctx =
     safetyPrincipal ctx (\<lambda>p. safetyPathID i (\<lambda>i. decodeBody no_transition b (\<lambda>payload.
     or_reply (DecideRecommendation X (pn_TenantID p) i (pn_Subject p) (qx_Action payload))
       (safetyStoreError ''recommendation transition'')
       (\<lambda>row. ret (safety_json 200 (SRecommendation row))))))"

section \<open>The route table\<close>

datatype safety_route =
    GetInspections string
  | GetInspectionByID string
  | GetDeficiencies string
  | GetTemplates string
  | PostTemplate "checklistTemplateRequest json_body"
  | PostInspection "inspectionRequest json_body"
  | PostInspectionMove string "transitionRequest json_body"
  | PostDeficiency string "deficiencyRequest json_body"
  | PostDeficiencyMove string "transitionRequest json_body"
  | GetIncidents string
  | GetIncidentByID string
  | GetComms string string
  | PostIncident "sarIncidentRequest json_body"
  | PostIncidentMove string "transitionRequest json_body"
  | PostTasking string "sarTaskingRequest json_body"
  | PostTaskingMove string "transitionRequest json_body"
  | PostComms string "sarCommsRequest json_body"
  | GetCases string
  | GetCaseByID string
  | GetEvidence string
  | GetFindings string
  | GetRecommendations string
  | PostCase "investigationCaseRequest json_body"
  | PostCaseMove string "transitionRequest json_body"
  | PostEvidence string "evidenceRequest json_body"
  | PostFinding string "findingRequest json_body"
  | PostRecommendation string "recommendationRequest json_body"
  | PostRecommendationMove string "transitionRequest json_body"

definition safety_readers :: "string list" where
  "safety_readers = [''geo-reader'', ''geo-inspector'', ''geo-inspection-checker'', ''geo-sar-coordinator'', ''geo-investigator'', ''geo-admin'']"

definition safety_roles :: "safety_route \<Rightarrow> string list" where
  "safety_roles route =
     (case route of
        PostTemplate _ \<Rightarrow> [''geo-inspector'', ''geo-admin'']
      | PostInspection _ \<Rightarrow> [''geo-inspector'', ''geo-admin'']
      | PostInspectionMove _ _ \<Rightarrow> [''geo-inspector'', ''geo-inspection-checker'', ''geo-admin'']
      | PostDeficiency _ _ \<Rightarrow> [''geo-inspector'', ''geo-admin'']
      | PostDeficiencyMove _ _ \<Rightarrow> [''geo-inspector'', ''geo-inspection-checker'', ''geo-admin'']
      | PostIncident _ \<Rightarrow> [''geo-sar-coordinator'', ''geo-admin'']
      | PostIncidentMove _ _ \<Rightarrow> [''geo-sar-coordinator'', ''geo-admin'']
      | PostTasking _ _ \<Rightarrow> [''geo-sar-coordinator'', ''geo-admin'']
      | PostTaskingMove _ _ \<Rightarrow> [''geo-sar-coordinator'', ''geo-admin'']
      | PostComms _ _ \<Rightarrow> [''geo-sar-coordinator'', ''geo-admin'']
      | PostCase _ \<Rightarrow> [''geo-investigator'', ''geo-admin'']
      | PostCaseMove _ _ \<Rightarrow> [''geo-investigator'', ''geo-admin'']
      | PostEvidence _ _ \<Rightarrow> [''geo-investigator'', ''geo-admin'']
      | PostFinding _ _ \<Rightarrow> [''geo-investigator'', ''geo-admin'']
      | PostRecommendation _ _ \<Rightarrow> [''geo-investigator'', ''geo-admin'']
      | PostRecommendationMove _ _ \<Rightarrow> [''geo-investigator'', ''geo-admin'']
      | _ \<Rightarrow> safety_readers)"

fun safety_handler :: "externals \<Rightarrow> Safety \<Rightarrow> safety_route \<Rightarrow> Principal option \<Rightarrow> safety_response geo" where
  "safety_handler X s (GetInspections limit) = listInspections X limit"
| "safety_handler X s (GetInspectionByID i) = getInspection X i"
| "safety_handler X s (GetDeficiencies i) = listDeficiencies X i"
| "safety_handler X s (GetTemplates regime) = listChecklistTemplates X regime"
| "safety_handler X s (PostTemplate b) = createChecklistTemplate X b"
| "safety_handler X s (PostInspection b) = createInspection X s b"
| "safety_handler X s (PostInspectionMove i b) = transitionInspection X s i b"
| "safety_handler X s (PostDeficiency i b) = recordDeficiency X i b"
| "safety_handler X s (PostDeficiencyMove i b) = transitionDeficiency X i b"
| "safety_handler X s (GetIncidents limit) = listSarIncidents X limit"
| "safety_handler X s (GetIncidentByID i) = getSarIncident X i"
| "safety_handler X s (GetComms i limit) = listSarComms X i limit"
| "safety_handler X s (PostIncident b) = createSarIncident X s b"
| "safety_handler X s (PostIncidentMove i b) = transitionSarIncident X s i b"
| "safety_handler X s (PostTasking i b) = taskSarResource X s i b"
| "safety_handler X s (PostTaskingMove i b) = transitionSarTasking X i b"
| "safety_handler X s (PostComms i b) = appendSarComms X i b"
| "safety_handler X s (GetCases limit) = listInvestigationCases X limit"
| "safety_handler X s (GetCaseByID i) = getInvestigationCase X i"
| "safety_handler X s (GetEvidence i) = listEvidence X s i"
| "safety_handler X s (GetFindings i) = listFindings X i"
| "safety_handler X s (GetRecommendations i) = listRecommendations X i"
| "safety_handler X s (PostCase b) = createInvestigationCase X s b"
| "safety_handler X s (PostCaseMove i b) = transitionInvestigationCase X s i b"
| "safety_handler X s (PostEvidence i b) = appendEvidence X s i b"
| "safety_handler X s (PostFinding i b) = addFinding X i b"
| "safety_handler X s (PostRecommendation i b) = addRecommendation X i b"
| "safety_handler X s (PostRecommendationMove i b) = decideRecommendation X i b"

definition safety_handle :: "externals \<Rightarrow> Safety \<Rightarrow> string + Principal \<Rightarrow> safety_route \<Rightarrow> safety_response geo" where
  "safety_handle X s auth route =
     Middleware auth
       (RequireRoles (safety_roles route) (safety_handler X s route) (\<lambda>r. ret (safety_refuse r)))
       (\<lambda>r. ret (safety_refuse r))"

section \<open>What an answer may do\<close>

definition success :: "safety_response \<Rightarrow> bool" where
  "success r \<longleftrightarrow> sr_status r = 200 \<or> sr_status r = 201"

definition moved_to :: "(nat list \<Rightarrow> nat list) \<Rightarrow> string \<Rightarrow> world \<Rightarrow> world \<Rightarrow> bool" where
  "moved_to h t w w' \<longleftrightarrow> w_db w' = (w_db w)\<lparr>db_safety := db_safety (w_db w')\<rparr>
     \<and> safety_step h t (db_safety (w_db w)) (db_safety (w_db w'))"

text \<open>Every row in the body belongs to the tenant.\<close>

fun of_tenant :: "string \<Rightarrow> safety_db \<Rightarrow> safety_body \<Rightarrow> bool" where
  "of_tenant t s (STemplates rs) = (\<forall>r\<in>set rs. ct_TenantID r = t)"
| "of_tenant t s (SInspection r) = (iw_TenantID r = t)"
| "of_tenant t s (SInspections rs) = (\<forall>r\<in>set rs. iw_TenantID r = t)"
| "of_tenant t s (SDeficiency r) = (dw_InspectionID r \<in> iw_InspectionID ` set (tenant_inspections t s))"
| "of_tenant t s (SDeficiencies rs) = (\<forall>r\<in>set rs. dw_InspectionID r \<in> iw_InspectionID ` set (tenant_inspections t s))"
| "of_tenant t s (SIncident r) = (gw_TenantID r = t)"
| "of_tenant t s (SIncidents rs) = (\<forall>r\<in>set rs. gw_TenantID r = t)"
| "of_tenant t s (STasking r) = (tw_IncidentID r \<in> gw_IncidentID ` set (tenant_incidents t s))"
| "of_tenant t s (SComms r) = (cw_IncidentID r \<in> gw_IncidentID ` set (tenant_incidents t s))"
| "of_tenant t s (SCommsLog rs) = (\<forall>r\<in>set rs. cw_IncidentID r \<in> gw_IncidentID ` set (tenant_incidents t s))"
| "of_tenant t s (SCase r) = (vw_TenantID r = t)"
| "of_tenant t s (SCases rs) = (\<forall>r\<in>set rs. vw_TenantID r = t)"
| "of_tenant t s (SEvidence r) = (ew_CaseID r \<in> vw_CaseID ` set (tenant_cases t s))"
| "of_tenant t s (SEvidenceList rs _) = (\<forall>r\<in>set rs. ew_CaseID r \<in> vw_CaseID ` set (tenant_cases t s))"
| "of_tenant t s (SFinding r) = (fw_CaseID r \<in> vw_CaseID ` set (tenant_cases t s))"
| "of_tenant t s (SFindings rs) = (\<forall>r\<in>set rs. fw_CaseID r \<in> vw_CaseID ` set (tenant_cases t s))"
| "of_tenant t s (SRecommendation r) = (rw_CaseID r \<in> vw_CaseID ` set (tenant_cases t s))"
| "of_tenant t s (SRecommendations rs) = (\<forall>r\<in>set rs. rw_CaseID r \<in> vw_CaseID ` set (tenant_cases t s))"
| "of_tenant t s _ = True"

text \<open>A read changes nothing; a silent write makes its step exactly when it is answered with success; an announced
  write publishes exactly one event then, and none otherwise.\<close>

datatype effect = Reads | Writes | Announces EventKind

definition safety_effect :: "safety_route \<Rightarrow> effect" where
  "safety_effect route =
     (case route of
        PostTemplate _ \<Rightarrow> Writes | PostDeficiency _ _ \<Rightarrow> Writes | PostDeficiencyMove _ _ \<Rightarrow> Writes
      | PostTaskingMove _ _ \<Rightarrow> Writes | PostComms _ _ \<Rightarrow> Writes | PostFinding _ _ \<Rightarrow> Writes
      | PostRecommendation _ _ \<Rightarrow> Writes | PostRecommendationMove _ _ \<Rightarrow> Writes
      | PostInspection _ \<Rightarrow> Announces EventSafetyInspection | PostInspectionMove _ _ \<Rightarrow> Announces EventSafetyInspection
      | PostIncident _ \<Rightarrow> Announces EventSafetySAR | PostIncidentMove _ _ \<Rightarrow> Announces EventSafetySAR
      | PostTasking _ _ \<Rightarrow> Announces EventSafetySAR
      | PostCase _ \<Rightarrow> Announces EventSafetyInvestigation | PostCaseMove _ _ \<Rightarrow> Announces EventSafetyInvestigation
      | PostEvidence _ _ \<Rightarrow> Announces EventSafetyInvestigation
      | _ \<Rightarrow> Reads)"

fun answered :: "effect \<Rightarrow> (nat list \<Rightarrow> nat list) \<Rightarrow> string \<Rightarrow> world \<Rightarrow> safety_response \<Rightarrow> world \<Rightarrow> bool" where
  "answered Reads h t w r w' \<longleftrightarrow> w_db w' = w_db w \<and> w_kafka w' = w_kafka w \<and> of_tenant t (db_safety (w_db w)) (sr_body r)"
| "answered Writes h t w r w' \<longleftrightarrow> w_kafka w' = w_kafka w \<and> of_tenant t (db_safety (w_db w')) (sr_body r)
     \<and> (if success r then moved_to h t w w' else w_db w' = w_db w)"
| "answered (Announces kind) h t w r w' \<longleftrightarrow> of_tenant t (db_safety (w_db w')) (sr_body r)
     \<and> (if success r then moved_to h t w w' \<and> (\<exists>corr m. w_kafka w' = w_kafka w @ [m] \<and> envelope_message kind corr m)
        else w_kafka w' = w_kafka w \<and> (w_db w' = w_db w \<or> moved_to h t w w'))"

text \<open>Two actions need the checker role.\<close>

fun body_action :: "transitionRequest json_body \<Rightarrow> string" where
  "body_action (Decoded b) = qx_Action b"
| "body_action _ = []"

fun gated :: "Principal \<Rightarrow> safety_route \<Rightarrow> bool" where
  "gated p (PostInspectionMove i b) = (body_action b = ''release'' \<longrightarrow> checker p)"
| "gated p (PostDeficiencyMove i b) = (body_action b = ''verify'' \<longrightarrow> checker p)"
| "gated p _ = True"

definition safety_wired :: "externals \<Rightarrow> Pipeline \<Rightarrow> Safety \<Rightarrow> bool" where
  "safety_wired X P s \<longleftrightarrow> (\<forall>pub. sf_Events s = Some pub \<longrightarrow> pub = PublishSignedEnvelope X P)"

section \<open>Rules for the guards\<close>

definition refusable :: "(safety_response \<Rightarrow> world \<Rightarrow> bool) \<Rightarrow> world \<Rightarrow> bool" where
  "refusable Q w \<longleftrightarrow> (\<forall>n m. n \<notin> {200, 201} \<longrightarrow> Q (safety_error n m) w)"

lemma safety_response_sel [simp]:
  "sr_status (safety_error n m) = n" "sr_body (safety_error n m) = SError m"
  "sr_status (safety_json n b) = n" "sr_body (safety_json n b) = b"
  by (simp_all add: safety_error_def safety_json_def)

lemma success_simps [simp]: "success (safety_json n b) = (n = 200 \<or> n = 201)" "success (safety_error n m) = (n = 200 \<or> n = 201)"
  by (simp_all add: success_def)

lemma refusable_answered [simp]: "refusable (answered e h t w) w"
  by (cases e) (auto simp: refusable_def)

lemma safetyStoreError_status [simp]: "\<not> success (safetyStoreError c e)" "of_tenant t s (sr_body (safetyStoreError c e))"
  by (cases e; simp add: safetyStoreError_def success_def)+

lemma failed500_status [simp]: "\<not> success (failed500 c e)" "of_tenant t s (sr_body (failed500 c e))"
  by (simp_all add: failed500_def success_def)

lemma or_reply_wp: "wp (or_reply m f k) Q E w = wp m (\<lambda>x. wp (k x) Q E) (\<lambda>e. Q (f e)) w"
  by (simp add: or_reply_def wp_simps cong: sum.case_cong)

lemma guard_rules:
  "refusable Q w \<Longrightarrow> (\<And>pub. sf_Events s = Some pub \<Longrightarrow> wp (k1 pub) Q E w) \<Longrightarrow> wp (publisherReady s k1) Q E w"
  "refusable Q w \<Longrightarrow> wp (k2 i) Q E w \<Longrightarrow> wp (safetyPathID i k2) Q E w"
  "refusable Q w \<Longrightarrow> (\<And>x. wp (k3 x) Q E w) \<Longrightarrow> wp (decodeBody zero b k3) Q E w"
  "refusable Q w \<Longrightarrow> (ok \<Longrightarrow> wp k4 Q E w) \<Longrightarrow> wp (require400 ok msg k4) Q E w"
  by (auto simp: publisherReady_def safetyPathID_def decodeBody_def require400_def wp_simps refusable_def
      split: option.split json_body.split)

lemma safetyPrincipal_wp:
  assumes "pn_Subject p \<noteq> []" "sos_cleared p \<Longrightarrow> wp (k p) Q (\<lambda>_ _. False) w"
  shows "wp (safetyPrincipal (Some p) k) (\<lambda>r w'. (sr_status r = 403 \<and> w' = w) \<or> (sos_cleared p \<and> Q r w')) (\<lambda>_ _. False) w"
  using assms unfolding safetyPrincipal_def PrincipalFrom_def sos_cleared_def
  by (auto simp: wp_simps split: sum.split intro: wp_mono)

section \<open>Rules for the calls\<close>

lemma steps_for_moved:
  "steps_for h t w w' \<Longrightarrow> moved_to h t w w'" "steps_for h t w w' \<Longrightarrow> w_kafka w' = w_kafka w"
  by (auto simp: steps_for_def moved_to_def dest: tables_only_kafka)

lemma untouched_world: "untouched w w' \<Longrightarrow> w_db w' = w_db w" "untouched w w' \<Longrightarrow> w_kafka w' = w_kafka w"
  by (auto simp: untouched_def dest: tables_only_kafka)

lemma untouched_trans: "untouched a b \<Longrightarrow> untouched b c \<Longrightarrow> untouched a c"
  by (auto simp: untouched_def intro: tables_only_trans)

text \<open>A write that is not announced.\<close>

lemma silent_wp:
  assumes call: "wp m (\<lambda>x w1. steps_for h t w w1 \<and> P x (db_safety (w_db w1))) (\<lambda>_. untouched w) w"
    and ok: "\<And>x s. P x s \<Longrightarrow> success (f x) \<and> of_tenant t s (sr_body (f x))"
    and fail: "\<And>e. \<not> success (g e)" "\<And>e s. of_tenant t s (sr_body (g e))"
  shows "wp (or_reply m g (\<lambda>x. ret (f x))) (answered Writes h t w) (\<lambda>_ _. False) w"
  unfolding or_reply_wp wp_ret
  by (rule wp_mono [OF call]) (auto simp: fail dest: steps_for_moved untouched_world ok)

text \<open>A read.\<close>

lemma read_wp:
  assumes call: "wp m (\<lambda>x w1. untouched w w1 \<and> P x (db_safety (w_db w))) (\<lambda>_. untouched w) w"
    and ok: "\<And>x s. P x s \<Longrightarrow> of_tenant t s (sr_body (f x))" and fail: "\<And>e s. of_tenant t s (sr_body (g e))"
  shows "wp (or_reply m g (\<lambda>x. ret (f x))) (answered Reads h t w) (\<lambda>_ _. False) w"
  unfolding or_reply_wp wp_ret
  by (rule wp_mono [OF call]) (auto simp: fail dest: untouched_world ok)

text \<open>Publishing the event of a write that was made.\<close>

definition announced :: "EventKind \<Rightarrow> safety_response \<Rightarrow> world \<Rightarrow> safety_response \<Rightarrow> world \<Rightarrow> bool" where
  "announced kind ok v r w' \<longleftrightarrow> w_db w' = w_db v
     \<and> (r = ok \<and> (\<exists>corr m. w_kafka w' = w_kafka v @ [m] \<and> envelope_message kind corr m)
        \<or> (\<exists>msg. r = safety_error 500 msg) \<and> w_kafka w' = w_kafka v)"

lemma publish_wp:
  "wp (bindA (clock X) (\<lambda>t. or_reply (PublishSignedEnvelope Y P kind corr (pl t) t cls hs) (failed500 msg) (\<lambda>_. ret ok)))
     (announced kind ok v) (\<lambda>_ _. False) v"
  unfolding wp_bind wp_clock or_reply_wp wp_ret
  by (rule wp_mono [OF PublishSignedEnvelope_wp]) (auto simp: announced_def same_but_kafka_def failed500_def)

lemma publishers_wp:
  "wp (publishInspection X (PublishSignedEnvelope Y P) a b c d ok) (announced EventSafetyInspection ok v) (\<lambda>_ _. False) v"
  "wp (publishSar X (PublishSignedEnvelope Y P) e b c d f ok) (announced EventSafetySAR ok v) (\<lambda>_ _. False) v"
  "wp (publishInvestigation X (PublishSignedEnvelope Y P) g b c d f ok) (announced EventSafetyInvestigation ok v) (\<lambda>_ _. False) v"
  unfolding publishInspection_def publishSar_def publishInvestigation_def by (rule publish_wp)+

lemma announced_answered:
  assumes "steps_for h t w v" "announced kind ok v r w'" "success ok" "of_tenant t (db_safety (w_db v)) (sr_body ok)"
  shows "answered (Announces kind) h t w r w'"
  using assms steps_for_moved [OF assms(1)] by (auto simp: announced_def moved_to_def success_def)

lemma announced_wp:
  assumes call: "wp m (\<lambda>x w1. steps_for h t w w1 \<and> P x (db_safety (w_db w1))) (\<lambda>_. untouched w) w"
    and pub: "\<And>x v. wp (k x) (announced kind (f x) v) (\<lambda>_ _. False) v"
    and ok: "\<And>x s. P x s \<Longrightarrow> success (f x) \<and> of_tenant t s (sr_body (f x))"
    and fail: "\<And>e. \<not> success (g e)" "\<And>e s. of_tenant t s (sr_body (g e))"
  shows "wp (or_reply m g k) (answered (Announces kind) h t w) (\<lambda>_ _. False) w"
  unfolding or_reply_wp
proof (rule wp_mono [OF call], goal_cases)
  case (1 x v)
  then have v: "steps_for h t w v" "success (f x)" "of_tenant t (db_safety (w_db v)) (sr_body (f x))" using ok by auto
  show ?case by (rule wp_mono [OF pub], erule announced_answered [OF v(1) _ v(2,3)], simp)
next
  case (2 e v)
  then show ?case by (auto simp: fail dest: untouched_world)
qed

text \<open>The tasking and the evidence are announced with a row read after the write.\<close>

lemma reread_wp:
  assumes call: "wp m (\<lambda>x w1. steps_for h t w w1 \<and> P x (db_safety (w_db w1))) (\<lambda>_. untouched w) w"
    and get: "\<And>v. wp l (\<lambda>_. untouched v) (\<lambda>_. untouched v) v"
    and pub: "\<And>x y v. wp (k x y) (announced kind (f x) v) (\<lambda>_ _. False) v"
    and ok: "\<And>x s. P x s \<Longrightarrow> success (f x) \<and> of_tenant t s (sr_body (f x))"
    and fail: "\<And>e. \<not> success (g e)" "\<And>e s. of_tenant t s (sr_body (g e))" "\<And>e. \<not> success (g' e)" "\<And>e s. of_tenant t s (sr_body (g' e))"
  shows "wp (or_reply m g (\<lambda>x. or_reply l g' (k x))) (answered (Announces kind) h t w) (\<lambda>_ _. False) w"
  unfolding or_reply_wp
proof (rule wp_mono [OF call], goal_cases)
  case (1 x v)
  then have v: "steps_for h t w v" "success (f x)" "of_tenant t (db_safety (w_db v)) (sr_body (f x))" using ok by auto
  show ?case
  proof (rule wp_mono [OF get], goal_cases)
    case (1 y u)
    then have u: "steps_for h t w u"
      using v(1) by (auto simp: steps_for_def untouched_def intro: tables_only_trans)
    have "of_tenant t (db_safety (w_db u)) (sr_body (f x))" using 1 v(3) by (simp add: untouched_def)
    then show ?case by (intro wp_mono [OF pub], elim announced_answered [OF u _ v(2)]) simp_all
  next
    case (2 e u)
    have "moved_to h t w u" "w_kafka u = w_kafka w"
      using steps_for_moved [OF v(1)] untouched_world [OF 2] by (simp_all add: moved_to_def)
    then show ?case by (simp add: fail)
  qed
next
  case (2 e v)
  then show ?case by (auto simp: fail dest: untouched_world)
qed

lemma tenant_read:
  "wp (WithTenant X t (safety_query X l q)) (\<lambda>r w'. untouched w w' \<and> r = q (db_safety (w_db w))) (\<lambda>_. untouched w) w"
  by (auto simp: WithTenant_def wp_simps untouched_def)

lemma tenant_get:
  "wp (WithTenant X t (bindA (safety_query X l q) found)) (\<lambda>r w'. untouched w w' \<and> q (db_safety (w_db w)) = Some r) (\<lambda>_. untouched w) w"
  by (auto simp: WithTenant_def found_def wp_simps untouched_def split: option.split)

section \<open>Every handler\<close>

text \<open>The reads, row by row of the table.\<close>

lemma found_rows:
  "find_inspection t i s = Some r \<Longrightarrow> iw_TenantID r = t" "find_incident t i s = Some g \<Longrightarrow> gw_TenantID g = t"
  "find_case t i s = Some v \<Longrightarrow> vw_TenantID v = t"
  by (auto dest: inspections.get_Some incidents.get_Some investigations.get_Some)

lemma get_untouched:
  "wp (GetSarIncident X t i) (\<lambda>_. untouched v) (\<lambda>_. untouched v) v"
  "wp (GetInvestigationCase X t i) (\<lambda>_. untouched v) (\<lambda>_. untouched v) v"
  unfolding GetSarIncident_def GetInvestigationCase_def by (rule wp_mono [OF tenant_get]; simp)+

lemma VerifyEvidenceChain_untouched: "wp (VerifyEvidenceChain X h t c) (\<lambda>_. untouched w) (\<lambda>_. untouched w) w"
  unfolding VerifyEvidenceChain_def ListEvidence_def wp_bind wp_ret by (rule wp_mono [OF tenant_read]) auto

lemma reads_answered:
  "wp (or_reply (ListInspections X t n) (failed500 m) (\<lambda>rows. ret (safety_json 200 (SInspections rows)))) (answered Reads h t w) (\<lambda>_ _. False) w"
  "wp (or_reply (GetInspection X t i) (safetyStoreError m) (\<lambda>row. ret (safety_json 200 (SInspection row)))) (answered Reads h t w) (\<lambda>_ _. False) w"
  "wp (or_reply (ListDeficiencies X t i) (failed500 m) (\<lambda>rows. ret (safety_json 200 (SDeficiencies rows)))) (answered Reads h t w) (\<lambda>_ _. False) w"
  "wp (or_reply (ListChecklistTemplates X t i) (failed500 m) (\<lambda>rows. ret (safety_json 200 (STemplates rows)))) (answered Reads h t w) (\<lambda>_ _. False) w"
  unfolding ListInspections_def GetInspection_def ListDeficiencies_def ListChecklistTemplates_def
  by (rule read_wp [OF tenant_read] read_wp [OF tenant_get];
      force simp: tenant_inspections_def tenant_deficiencies_def tenant_templates_def dest: in_set_takeD found_rows)+

lemma more_reads_answered:
  "wp (or_reply (ListSarIncidents X t n) (failed500 m) (\<lambda>rows. ret (safety_json 200 (SIncidents rows)))) (answered Reads h t w) (\<lambda>_ _. False) w"
  "wp (or_reply (GetSarIncident X t i) (safetyStoreError m) (\<lambda>row. ret (safety_json 200 (SIncident row)))) (answered Reads h t w) (\<lambda>_ _. False) w"
  "wp (or_reply (ListSarComms X t i n) (failed500 m) (\<lambda>rows. ret (safety_json 200 (SCommsLog rows)))) (answered Reads h t w) (\<lambda>_ _. False) w"
  "wp (or_reply (ListInvestigationCases X t n) (failed500 m) (\<lambda>rows. ret (safety_json 200 (SCases rows)))) (answered Reads h t w) (\<lambda>_ _. False) w"
  "wp (or_reply (GetInvestigationCase X t i) (safetyStoreError m) (\<lambda>row. ret (safety_json 200 (SCase row)))) (answered Reads h t w) (\<lambda>_ _. False) w"
  "wp (or_reply (ListFindings X t i) (failed500 m) (\<lambda>rows. ret (safety_json 200 (SFindings rows)))) (answered Reads h t w) (\<lambda>_ _. False) w"
  "wp (or_reply (ListRecommendations X t i) (failed500 m) (\<lambda>rows. ret (safety_json 200 (SRecommendations rows)))) (answered Reads h t w) (\<lambda>_ _. False) w"
  unfolding ListSarIncidents_def GetSarIncident_def ListSarComms_def ListInvestigationCases_def GetInvestigationCase_def ListFindings_def
    ListRecommendations_def
  by (rule read_wp [OF tenant_read] read_wp [OF tenant_get];
      force simp: tenant_incidents_def tenant_comms_def tenant_cases_def tenant_findings_def tenant_recommendations_def
        dest: in_set_takeD found_rows)+

lemma evidence_answered:
  "wp (or_reply (ListEvidence X t i) (failed500 m) (\<lambda>rows.
     or_reply (VerifyEvidenceChain X g t i) (failed500 m') (\<lambda>valid. ret (safety_json 200 (SEvidenceList rows valid)))))
     (answered Reads h t w) (\<lambda>_ _. False) w"
  unfolding ListEvidence_def
proof (subst or_reply_wp, rule wp_mono [OF tenant_read], goal_cases)
  case (1 rows v)
  then have rows: "\<forall>r\<in>set rows. ew_CaseID r \<in> vw_CaseID ` set (tenant_cases t (db_safety (w_db w)))"
    by (auto simp: case_evidence_def tenant_evidence_def)
  show ?case unfolding or_reply_wp wp_ret
    by (rule wp_mono [OF VerifyEvidenceChain_untouched]) (use 1 rows in \<open>auto dest!: untouched_trans [of w v] dest: untouched_world\<close>)
qed (auto dest: untouched_world)

text \<open>What a request of a principal comes to.\<close>

definition outcome :: "effect \<Rightarrow> Safety \<Rightarrow> Principal \<Rightarrow> world \<Rightarrow> safety_response \<Rightarrow> world \<Rightarrow> bool" where
  "outcome e s p w r w' \<longleftrightarrow>
     (sr_status r = 403 \<and> w' = w) \<or> (sos_cleared p \<and> answered e (sf_SHA256 s) (pn_TenantID p) w r w')"

lemma outcomeI:
  assumes "pn_Subject p \<noteq> []" "sos_cleared p \<Longrightarrow> wp (k p) (answered e (sf_SHA256 s) (pn_TenantID p) w) (\<lambda>_ _. False) w"
  shows "wp (safetyPrincipal (Some p) k) (outcome e s p w) (\<lambda>_ _. False) w"
  using safetyPrincipal_wp [of p k, OF assms] unfolding outcome_def .

lemmas guarded = outcomeI guard_rules refusable_answered

lemma reads_outcome:
  assumes "pn_Subject p \<noteq> []"
  shows "wp (listInspections X l (Some p)) (outcome Reads s p w) (\<lambda>_ _. False) w"
    "wp (getInspection X i (Some p)) (outcome Reads s p w) (\<lambda>_ _. False) w"
    "wp (listDeficiencies X i (Some p)) (outcome Reads s p w) (\<lambda>_ _. False) w"
    "wp (listChecklistTemplates X regime (Some p)) (outcome Reads s p w) (\<lambda>_ _. False) w"
    "wp (listSarIncidents X l (Some p)) (outcome Reads s p w) (\<lambda>_ _. False) w"
    "wp (getSarIncident X i (Some p)) (outcome Reads s p w) (\<lambda>_ _. False) w"
    "wp (listSarComms X i l (Some p)) (outcome Reads s p w) (\<lambda>_ _. False) w"
    "wp (listInvestigationCases X l (Some p)) (outcome Reads s p w) (\<lambda>_ _. False) w"
    "wp (getInvestigationCase X i (Some p)) (outcome Reads s p w) (\<lambda>_ _. False) w"
    "wp (listEvidence X s i (Some p)) (outcome Reads s p w) (\<lambda>_ _. False) w"
    "wp (listFindings X i (Some p)) (outcome Reads s p w) (\<lambda>_ _. False) w"
    "wp (listRecommendations X i (Some p)) (outcome Reads s p w) (\<lambda>_ _. False) w"
  unfolding listInspections_def getInspection_def listDeficiencies_def listChecklistTemplates_def listSarIncidents_def
    getSarIncident_def listSarComms_def listInvestigationCases_def getInvestigationCase_def listEvidence_def listFindings_def
    listRecommendations_def
  by (intro guarded assms reads_answered more_reads_answered evidence_answered)+

text \<open>The calls that take the tenant from the row.\<close>

lemma creates_wp:
  "ct_TenantID a = t \<Longrightarrow> wp (CreateChecklistTemplate X a) (\<lambda>_ w'. steps_for h t w w' \<and> True) (\<lambda>_. untouched w) w"
  "iw_TenantID b = t \<Longrightarrow> wp (CreateInspection X b) (\<lambda>r w'. steps_for h t w w' \<and> iw_TenantID r = t) (\<lambda>_. untouched w) w"
  "gw_TenantID c = t \<Longrightarrow> wp (CreateSarIncident X c lat lon) (\<lambda>r w'. steps_for h t w w' \<and> gw_TenantID r = t) (\<lambda>_. untouched w) w"
  "vw_TenantID d = t \<Longrightarrow> wp (CreateInvestigationCase X d lat lon) (\<lambda>r w'. steps_for h t w w' \<and> vw_TenantID r = t) (\<lambda>_. untouched w) w"
  using CreateChecklistTemplate_wp [of X a] CreateInspection_wp [of X b] CreateSarIncident_wp [of X c lat lon]
    CreateInvestigationCase_wp [of X d lat lon] by auto

lemma writes_outcome:
  assumes p: "pn_Subject p \<noteq> []" and inv: "safety_inv (db_safety (w_db w))"
  shows "wp (recordDeficiency X i b1 (Some p)) (outcome Writes s p w) (\<lambda>_ _. False) w"
    "wp (transitionSarTasking X i b2 (Some p)) (outcome Writes s p w) (\<lambda>_ _. False) w"
    "wp (appendSarComms X i b3 (Some p)) (outcome Writes s p w) (\<lambda>_ _. False) w"
    "wp (addFinding X i b4 (Some p)) (outcome Writes s p w) (\<lambda>_ _. False) w"
    "wp (addRecommendation X i b5 (Some p)) (outcome Writes s p w) (\<lambda>_ _. False) w"
    "wp (decideRecommendation X i b6 (Some p)) (outcome Writes s p w) (\<lambda>_ _. False) w"
  unfolding recordDeficiency_def transitionSarTasking_def appendSarComms_def addFinding_def addRecommendation_def decideRecommendation_def
  by (intro guarded p silent_wp [OF RecordDeficiency_wp] silent_wp [OF TransitionSarTasking_wp [OF inv]] silent_wp [OF AppendSarComms_wp]
      silent_wp [OF AddFinding_wp] silent_wp [OF AddRecommendation_wp] silent_wp [OF DecideRecommendation_wp [OF inv]]; simp)+

lemma items_wp:
  assumes "\<And>code codes. wp (k code codes) (answered Writes h t w) (\<lambda>_ _. False) w"
  shows "wp (case x of Items (code # codes) \<Rightarrow> k code codes | _ \<Rightarrow> ret (safety_error 400 m)) (answered Writes h t w) (\<lambda>_ _. False) w"
  using assms by (auto simp: wp_simps split: raw_items.split list.split)

lemma template_outcome:
  assumes "pn_Subject p \<noteq> []"
  shows "wp (createChecklistTemplate X b (Some p)) (outcome Writes s p w) (\<lambda>_ _. False) w"
  unfolding createChecklistTemplate_def by (intro guarded assms items_wp silent_wp [OF creates_wp(1)]; simp)

lemma gated_outcome:
  assumes p: "pn_Subject p \<noteq> []" and inv: "safety_inv (db_safety (w_db w))"
  shows "wp (transitionDeficiency X i b (Some p)) (outcome Writes s p w) (\<lambda>_ _. False) w"
  unfolding transitionDeficiency_def
proof (intro guarded p, goal_cases)
  case (1 payload)
  show ?case
    by (cases "qx_Action payload = ''verify'' \<and> \<not> checker p")
      (simp_all add: wp_simps silent_wp [OF TransitionDeficiency_wp [OF inv]])
qed

lemma AppendEvidence_for:
  "wp (AppendEvidence X h t r) (\<lambda>r' w'. steps_for h t w w' \<and> ew_CaseID r' \<in> vw_CaseID ` set (tenant_cases t (db_safety (w_db w')))) (\<lambda>_. untouched w) w"
  by (rule wp_mono [OF AppendEvidence_wp]) auto

lemma announced_outcome:
  assumes p: "pn_Subject p \<noteq> []" and inv: "safety_inv (db_safety (w_db w))" and pub: "safety_wired Y P s"
  shows "wp (createInspection X s b1 (Some p)) (outcome (Announces EventSafetyInspection) s p w) (\<lambda>_ _. False) w"
    "wp (createSarIncident X s b2 (Some p)) (outcome (Announces EventSafetySAR) s p w) (\<lambda>_ _. False) w"
    "wp (createInvestigationCase X s b3 (Some p)) (outcome (Announces EventSafetyInvestigation) s p w) (\<lambda>_ _. False) w"
    "wp (transitionSarIncident X s i b4 (Some p)) (outcome (Announces EventSafetySAR) s p w) (\<lambda>_ _. False) w"
    "wp (transitionInvestigationCase X s i b5 (Some p)) (outcome (Announces EventSafetyInvestigation) s p w) (\<lambda>_ _. False) w"
    "wp (transitionInspection X s i b6 (Some p)) (outcome (Announces EventSafetyInspection) s p w) (\<lambda>_ _. False) w"
    "wp (taskSarResource X s i b7 (Some p)) (outcome (Announces EventSafetySAR) s p w) (\<lambda>_ _. False) w"
    "wp (appendEvidence X s i b8 (Some p)) (outcome (Announces EventSafetyInvestigation) s p w) (\<lambda>_ _. False) w"
proof -
  have events: "v = PublishSignedEnvelope Y P" if "sf_Events s = Some v" for v using pub that by (simp add: safety_wired_def)
  note publish = publishers_wp [of X Y P]
  show "wp (createInspection X s b1 (Some p)) (outcome (Announces EventSafetyInspection) s p w) (\<lambda>_ _. False) w"
    unfolding createInspection_def
    by (intro guarded p, drule events, simp only:, rule announced_wp [OF creates_wp(2) publish(1)]) simp_all
  show "wp (createSarIncident X s b2 (Some p)) (outcome (Announces EventSafetySAR) s p w) (\<lambda>_ _. False) w"
    unfolding createSarIncident_def
    by (intro guarded p, drule events, simp only:, rule announced_wp [OF creates_wp(3) publish(2)]) simp_all
  show "wp (transitionSarIncident X s i b4 (Some p)) (outcome (Announces EventSafetySAR) s p w) (\<lambda>_ _. False) w"
    unfolding transitionSarIncident_def
    by (intro guarded p, drule events, simp only:, rule announced_wp [OF TransitionSarIncident_wp [OF inv] publish(2)]) simp_all
  show "wp (transitionInvestigationCase X s i b5 (Some p)) (outcome (Announces EventSafetyInvestigation) s p w) (\<lambda>_ _. False) w"
    unfolding transitionInvestigationCase_def
    by (intro guarded p, drule events, simp only:, rule announced_wp [OF TransitionInvestigationCase_wp [OF inv] publish(3)]) simp_all
  show "wp (taskSarResource X s i b7 (Some p)) (outcome (Announces EventSafetySAR) s p w) (\<lambda>_ _. False) w"
    unfolding taskSarResource_def
    by (intro guarded p, drule events, simp only:, rule reread_wp [OF TaskSarResource_wp get_untouched(1) publish(2)]) simp_all
  show "wp (appendEvidence X s i b8 (Some p)) (outcome (Announces EventSafetyInvestigation) s p w) (\<lambda>_ _. False) w"
    unfolding appendEvidence_def
    by (intro guarded p, drule events, simp only:, rule reread_wp [OF AppendEvidence_for get_untouched(2) publish(3)]) simp_all
  show "wp (createInvestigationCase X s b3 (Some p)) (outcome (Announces EventSafetyInvestigation) s p w) (\<lambda>_ _. False) w"
    unfolding createInvestigationCase_def
  proof (intro guarded p, drule events, goal_cases)
    case (1 v x)
    show ?case
      unfolding 1(2)
      by (split option.split, intro conjI allI impI guarded)
        (simp_all add: wp_simps announced_wp [OF creates_wp(4) publish(3)])
  qed
  show "wp (transitionInspection X s i b6 (Some p)) (outcome (Announces EventSafetyInspection) s p w) (\<lambda>_ _. False) w"
    unfolding transitionInspection_def
  proof (intro guarded p, drule events, goal_cases)
    case (1 v x)
    show ?case
      unfolding 1(2)
      by (cases "qx_Action x = ''release'' \<and> \<not> checker p")
        (simp_all add: wp_simps announced_wp [OF TransitionInspection_wp [OF inv] publish(1)])
  qed
qed

lemma handler_outcome:
  assumes p: "pn_Subject p \<noteq> []" and inv: "safety_inv (db_safety (w_db w))" and pub: "safety_wired Y P s"
  shows "wp (safety_handler X s route (Some p)) (outcome (safety_effect route) s p w) (\<lambda>_ _. False) w"
  using reads_outcome [OF p, of X] writes_outcome [OF p inv, of X] template_outcome [OF p, of X]
    gated_outcome [OF p inv, of X] announced_outcome [OF p inv pub, of X]
  by (cases route) (simp_all add: safety_effect_def)

text \<open>Without the checker role the two gated actions change nothing.\<close>

lemma ungated_unchanged:
  assumes "\<not> gated p route"
  shows "wp (safety_handler X s route (Some p)) (\<lambda>_ w'. w' = w) (\<lambda>_ _. False) w"
proof (cases route)
  case (PostInspectionMove i b)
  with assms obtain r where "b = Decoded r" "qx_Action r = ''release''" "\<not> checker p" by (cases b) auto
  then show ?thesis
    unfolding PostInspectionMove safety_handler.simps transitionInspection_def safetyPrincipal_def publisherReady_def safetyPathID_def decodeBody_def
    by (simp add: wp_simps PrincipalFrom_def split: option.split sum.split)
next
  case (PostDeficiencyMove i b)
  with assms obtain r where "b = Decoded r" "qx_Action r = ''verify''" "\<not> checker p" by (cases b) auto
  then show ?thesis
    unfolding PostDeficiencyMove safety_handler.simps transitionDeficiency_def safetyPrincipal_def safetyPathID_def decodeBody_def
    by (simp add: wp_simps PrincipalFrom_def split: option.split sum.split)
qed (use assms in simp_all)

section \<open>Properties\<close>

text \<open>
  C4. Every request to the safety endpoints is answered, and the answer is authorised. Without an authenticated subject
  with one of the route's roles and RESTRICTED clearance it is 401 or 403 and the world stays as it is. Otherwise a read
  changes nothing and returns rows of the caller's tenant only; a write that succeeds makes exactly one documented
  step of that tenant's lifecycles; the routes that announce their write publish exactly one signed event of their kind
  when they answer with success and none when they do not; the others never publish. Releasing a vessel and
  verifying a deficiency take the checker role.
\<close>

theorem safety_requests_authorised:
  assumes "safety_handle X s auth route w = (w', res)" "safety_wired Y P s" "safety_inv (db_safety (w_db w))"
  shows "\<exists>resp. res = Inr resp \<and>
    ((sr_status resp \<in> {401, 403} \<and> w' = w)
     \<or> (\<exists>p. auth = Inr p \<and> pn_Subject p \<noteq> [] \<and> pn_Roles p \<inter> set (safety_roles route) \<noteq> {} \<and> sos_cleared p
          \<and> answered (safety_effect route) (sf_SHA256 s) (pn_TenantID p) w resp w' \<and> (gated p route \<or> w' = w)))"
proof (cases "\<exists>p. auth = Inr p \<and> pn_Subject p \<noteq> [] \<and> pn_Roles p \<inter> set (safety_roles route) \<noteq> {}")
  case True
  then obtain p where p: "auth = Inr p" "pn_Subject p \<noteq> []" "pn_Roles p \<inter> set (safety_roles route) \<noteq> {}" by blast
  then have "safety_handle X s auth route = safety_handler X s route (Some p)"
    by (simp add: safety_handle_def gate_exact)
  with assms(1) have run: "safety_handler X s route (Some p) w = (w', res)" by simp
  note handled = handler_outcome [OF p(2) assms(3,2), of X route]
  show ?thesis
  proof (cases res)
    case (Inl e)
    from wp_Inl [OF handled run [unfolded Inl]] show ?thesis by simp
  next
    case (Inr resp)
    have "gated p route \<or> w' = w"
      using wp_Inr [OF ungated_unchanged run [unfolded Inr]] by blast
    with wp_Inr [OF handled run [unfolded Inr]] p Inr show ?thesis by (auto simp: outcome_def)
  qed
next
  case False
  then have "\<exists>r. safety_handle X s auth route = ret (safety_refuse r)"
    by (cases auth) (auto simp: safety_handle_def gate_exact)
  with assms(1) obtain r where "res = Inr (safety_refuse r)" "w' = w" by (auto simp: ret_def)
  then show ?thesis by (cases r) (auto simp: safety_refuse_def)
qed

definition sample_safety :: "externals \<Rightarrow> Safety" where
  "sample_safety X = \<lparr>sf_Events = Some (PublishSignedEnvelope X sample_pipeline), sf_SHA256 = sample_hash\<rparr>"

lemma safety_wired_sample [simp]: "safety_wired X sample_pipeline (sample_safety X)"
  by (simp add: safety_wired_def sample_safety_def)

theorem safety_requests_authorised_witness:
  "\<exists>w' resp. safety_handle calm (sample_safety calm) (Inr (sample_principal_of ''geo-reader'' ClassificationRestricted))
       (GetEvidence ''c'') sample_collected = (w', Inr resp) \<and> w_db w' = w_db sample_collected"
proof -
  let ?p = "sample_principal_of ''geo-reader'' ClassificationRestricted"
  obtain w' res where run: "safety_handle calm (sample_safety calm) (Inr ?p) (GetEvidence ''c'') sample_collected = (w', res)"
    by fastforce
  have inv: "safety_inv (db_safety (w_db sample_collected))" by (simp add: sample_tables_inv)
  from safety_requests_authorised [OF run safety_wired_sample inv] run show ?thesis
    by (auto simp: safety_effect_def)
qed

text \<open>
  The safety reads do not look at the label of a row. With a database that answers, whoever has RESTRICTED clearance
  and a reader role reads every inspection of its tenant, whatever its classification.
\<close>

theorem safety_reads_ignore_labels:
  assumes "pn_Subject p \<noteq> []" "sos_cleared p" "trim_space (pn_TenantID p) \<noteq> []" "\<forall>n. x_pg X n" "safetyIDPattern i"
    and "find_inspection (pn_TenantID p) i (db_safety (w_db w)) = Some row" "\<not> cleared p (iw_Classification row)"
  shows "\<exists>w'. getInspection X i (Some p) w = (w', Inr (safety_json 200 (SInspection row)))"
proof -
  have "wp (getInspection X i (Some p)) (\<lambda>r _. r = safety_json 200 (SInspection row)) (\<lambda>_ _. False) w"
    using assms unfolding getInspection_def safetyPrincipal_def PrincipalFrom_def safetyPathID_def GetInspection_def WithTenant_def sos_cleared_def
    by (auto simp: wp_simps or_reply_wp found_def split: sum.splits)
  then show ?thesis by (auto simp: wp_def split: prod.splits sum.splits)
qed

definition secret_world :: world where
  "secret_world = empty_world\<lparr>w_db := (w_db empty_world)\<lparr>db_safety :=
     empty_safety\<lparr>sd_inspections := [sample_inspection\<lparr>iw_TenantID := ''t1'', iw_Classification := ClassificationSecret\<rparr>]\<rparr>\<rparr>\<rparr>"

theorem safety_reads_ignore_labels_witness:
  "\<exists>w' row. getInspection calm ''i'' (Some (sample_principal_of ''geo-reader'' ClassificationRestricted)) secret_world
     = (w', Inr (safety_json 200 (SInspection row))) \<and> iw_Classification row = ClassificationSecret"
proof -
  let ?p = "sample_principal_of ''geo-reader'' ClassificationRestricted"
  let ?row = "sample_inspection\<lparr>iw_TenantID := ''t1'', iw_Classification := ClassificationSecret\<rparr>"
  have p: "pn_Subject ?p \<noteq> []" "sos_cleared ?p" "trim_space (pn_TenantID ?p) \<noteq> []" "safetyIDPattern ''i''" by code_simp+
  have row: "find_inspection (pn_TenantID ?p) ''i'' (db_safety (w_db secret_world)) = Some ?row"
    by (simp add: secret_world_def find_inspection_def tenant_inspections_def sample_inspection_def sample_principal_of_def)
  have secret: "\<not> cleared ?p (iw_Classification ?row)" by code_simp
  have pg: "\<forall>n. x_pg calm n" by (simp add: calm_def)
  from safety_reads_ignore_labels [OF p(1-3) pg p(4) row secret] obtain w'
    where "getInspection calm ''i'' (Some ?p) secret_world = (w', Inr (safety_json 200 (SInspection ?row)))" by blast
  moreover have "iw_Classification ?row = ClassificationSecret" by simp
  ultimately show ?thesis by blast
qed

section \<open>Lost events\<close>

lemma step_not_repeated:
  "inspection_next action (iw_State r) \<noteq> None \<Longrightarrow> inspection_next action (iw_State (step_inspection action actor text now r)) = None"
  unfolding inspection_next_def step_inspection_def by (auto split: if_splits)

text \<open>After a step the same action leads nowhere.\<close>

definition exhausted :: "string \<Rightarrow> string \<Rightarrow> string \<Rightarrow> db \<Rightarrow> bool" where
  "exhausted t i action d \<longleftrightarrow>
     (\<exists>row. find_inspection t i (db_safety d) = Some row \<and> inspection_next action (iw_State row) = None)"

lemma TransitionInspection_exhausted:
  assumes "safety_inv (db_safety (w_db w))"
  shows "wp (TransitionInspection X t i actor action text) (\<lambda>_ w'. exhausted t i action (w_db w')) (\<lambda>_. untouched w) w"
  unfolding TransitionInspection_def
proof (rule wp_mono [OF inspections.transition_wp [OF safety_invD(1) [OF assms] check_inspection_wp]], goal_cases)
  case (5 r' w')
  then obtain r now where r: "r \<in> set (sd_inspections (db_safety (w_db w)))" "iw_TenantID r = t" "iw_InspectionID r = i"
      "inspection_next action (iw_State r) \<noteq> None" "r' = step_inspection action actor text now r"
      "w_db w' = (w_db w)\<lparr>db_safety := (db_safety (w_db w))\<lparr>sd_inspections := replace_row iw_InspectionID r' (sd_inspections (db_safety (w_db w)))\<rparr>\<rparr>"
    by (auto simp: Let_def)
  have "find_inspection t i (db_safety (w_db w)) = Some r"
    using inspections.get_unique [OF safety_invD(1) [OF assms] r(1,2)] r(3) by simp
  with inspections.get_replaced [OF safety_invD(1) [OF assms] this, of r'] r
  show ?case by (simp add: exhausted_def step_not_repeated)
qed (simp_all add: untouched_def)

lemma TransitionInspection_refused:
  assumes "exhausted t i action (w_db w)"
  shows "wp (TransitionInspection X t i actor action text) (\<lambda>_ _. False) (\<lambda>_. untouched w) w"
  unfolding TransitionInspection_def
  by (rule wp_mono [OF transition_tx_wp [OF check_inspection_wp]]) (use assms in \<open>auto simp: exhausted_def untouched_def\<close>)

lemma transitionInspection_made:
  assumes "safety_inv (db_safety (w_db w))" "pn_Subject p \<noteq> []" "safety_wired Y P s"
  shows "wp (transitionInspection X s i b (Some p))
     (\<lambda>_ w'. w_db w' = w_db w \<or> exhausted (pn_TenantID p) i (body_action b) (w_db w')) (\<lambda>_ _. False) w"
proof -
  let ?Q = "\<lambda>action _ w'. w_db w' = w_db w \<or> exhausted (pn_TenantID p) i action (w_db w')"
  have "wp (or_reply (TransitionInspection X (pn_TenantID p) i (pn_Subject p) action text) (safetyStoreError c)
      (\<lambda>row. publishInspection X (PublishSignedEnvelope Y P) row (pn_Subject p) action text (safety_json 200 (SInspection row))))
     (?Q action) (\<lambda>_ _. False) w" for action "text" c
    unfolding or_reply_wp
    by (rule wp_mono [OF TransitionInspection_exhausted [OF assms(1)]], rule wp_mono [OF publishers_wp(1)])
      (auto simp: announced_def untouched_def)
  then show ?thesis
    using assms(2,3)
    unfolding transitionInspection_def safetyPrincipal_def PrincipalFrom_def publisherReady_def safetyPathID_def decodeBody_def safety_wired_def
    by (cases b) (auto simp: wp_simps no_transition_def split: option.split sum.split)
qed

lemma transitionInspection_again:
  assumes "exhausted (pn_TenantID p) i (body_action b) (w_db w)"
  shows "wp (transitionInspection X s i b (Some p)) (\<lambda>r w'. \<not> success r \<and> w_db w' = w_db w \<and> w_kafka w' = w_kafka w) (\<lambda>_ _. False) w"
proof -
  have "wp (or_reply (TransitionInspection X (pn_TenantID p) i actor (body_action b) text) (safetyStoreError c) k)
     (\<lambda>r w'. \<not> success r \<and> w_db w' = w_db w \<and> w_kafka w' = w_kafka w) (\<lambda>_ _. False) w" for actor "text" c k
    unfolding or_reply_wp
    by (rule wp_mono [OF TransitionInspection_refused [OF assms]]) (auto dest: untouched_world)
  then show ?thesis
    unfolding transitionInspection_def safetyPrincipal_def publisherReady_def safetyPathID_def decodeBody_def
    by (cases b) (auto simp: wp_simps PrincipalFrom_def no_transition_def split: option.split sum.split)
qed

text \<open>
  A lifecycle step is persisted before it is announced. When a transition of an inspection changed the tables and was
  not answered with success, no event was published, and a repeated request for the same action in the resulting state, by
  anyone of the tenant and with whatever services, publishes none and changes nothing: the event of that step is lost.
\<close>

theorem safety_event_lost:
  assumes "transitionInspection X s i b (Some p) w = (w1, Inr resp)" "pn_Subject p \<noteq> []" "safety_wired Y P s"
    and "safety_inv (db_safety (w_db w))" "w_db w1 \<noteq> w_db w" "\<not> success resp"
    and "transitionInspection X2 s2 i b2 (Some p2) w1 = (w2, Inr resp2)" "pn_TenantID p2 = pn_TenantID p" "body_action b2 = body_action b"
  shows "w_kafka w1 = w_kafka w \<and> \<not> success resp2 \<and> w_db w2 = w_db w1 \<and> w_kafka w2 = w_kafka w1"
proof -
  have "exhausted (pn_TenantID p2) i (body_action b2) (w_db w1)"
    using wp_Inr [OF transitionInspection_made [OF assms(4,2,3)] assms(1)] assms(5,8,9) by simp
  from wp_Inr [OF transitionInspection_again [OF this] assms(7)]
    wp_Inr [OF announced_outcome(6) [OF assms(2,4,3)] assms(1)] assms(5,6)
  show ?thesis by (auto simp: outcome_def)
qed

definition release_body :: "transitionRequest json_body" where
  "release_body = Decoded \<lparr>qx_Action = ''release'', qx_Note = [], qx_Reason = []\<rparr>"

lemma secret_world_inv: "safety_inv (db_safety (w_db secret_world))"
proof -
  have g: "trim_space ''g'' \<noteq> []" by code_simp
  show ?thesis
    by (simp add: secret_world_def empty_safety_def safety_inv_def table_ok_def sample_inspection_def inspection_ok_def inspection_coherent_def g)
qed

lemma sample_release:
  "case transitionInspection no_kafka (sample_safety no_kafka) ''i'' release_body
        (Some (sample_principal_of ''geo-admin'' ClassificationSecret)) secret_world of
     (w', r) \<Rightarrow> map iw_State (sd_inspections (db_safety (w_db w'))) = [RELEASED]
       \<and> (case r of Inr resp \<Rightarrow> sr_status resp = 500 | Inl _ \<Rightarrow> False)"
  by code_simp

theorem safety_event_lost_witness:
  "\<exists>w1 r1 w2 r2. transitionInspection no_kafka (sample_safety no_kafka) ''i'' release_body
        (Some (sample_principal_of ''geo-admin'' ClassificationSecret)) secret_world = (w1, Inr r1)
    \<and> transitionInspection calm (sample_safety calm) ''i'' release_body
        (Some (sample_principal_of ''geo-admin'' ClassificationSecret)) w1 = (w2, Inr r2)
    \<and> w_db w1 \<noteq> w_db secret_world \<and> w_kafka w2 = []"
proof -
  let ?p = "sample_principal_of ''geo-admin'' ClassificationSecret"
  have p: "pn_Subject ?p \<noteq> []" by (simp add: sample_principal_of_def)
  let ?run = "transitionInspection no_kafka (sample_safety no_kafka) ''i'' release_body (Some ?p) secret_world"
  obtain w1 r1 where run: "?run = (w1, Inr r1)" "\<not> success r1" "map iw_State (sd_inspections (db_safety (w_db w1))) = [RELEASED]"
    using sample_release by (cases ?run; cases "snd ?run") (auto simp: success_def)
  have "map iw_State (sd_inspections (db_safety (w_db secret_world))) = [RECTIFICATION]"
    by (simp add: secret_world_def sample_inspection_def)
  with run(3) have moved: "w_db w1 \<noteq> w_db secret_world" by auto
  have inv1: "safety_inv (db_safety (w_db w1))"
    using wp_Inr [OF announced_outcome(6) [OF p secret_world_inv safety_wired_sample] run(1)] moved secret_world_inv run(2)
    by (auto simp: outcome_def moved_to_def intro: safety_step_inv)
  obtain w2 res where again: "transitionInspection calm (sample_safety calm) ''i'' release_body (Some ?p) w1 = (w2, res)" by fastforce
  have "res \<noteq> Inl e" for e
    using wp_Inl [OF announced_outcome(6) [OF p inv1 safety_wired_sample]] again by metis
  then obtain r2 where r2: "res = Inr r2" by (cases res) auto
  have "w_kafka secret_world = []" by (simp add: secret_world_def empty_world_def)
  with safety_event_lost [OF run(1) p safety_wired_sample secret_world_inv moved run(2) again [unfolded r2] refl refl] run again r2 moved
  show ?thesis by auto
qed

end
