(* ===== verification/Device_Sign.thy ===== *)
theory Device_Sign
  imports World Auth
begin

text \<open>
  Device signatures (\<open>internal/devices/envelope.go\<close>) and firmware manifests
  (\<open>internal/devices/manifest.go\<close>): key identifiers, the compact JWS over canonical JSON, device envelopes,
  action proofs, and the rollout of releases.

  Code of other packages is the record \<open>device_codec\<close>: the canonicalizer on raw bytes, the JSON encoding of
  the JWS header and the JSON decoders of the structs, SHA-256, the random source and the RFC 3339 rendering.
  \<open>x_crypto\<close> supplies Ed25519, the canonical form of a value and the decoder of the header. An error is its
  message without the cause it wraps or the value it quotes.
\<close>

section \<open>Data\<close>

record DeviceEnvelope =
  de_EnvelopeVersion :: string
  de_DeviceID :: string
  de_KeyEpoch :: int
  de_PayloadType :: string
  de_OccurredAt :: int
  de_Payload :: string
  de_Signature :: string

record Proof =
  pf_Action :: string
  pf_DeviceID :: string
  pf_KeyEpoch :: int

record Manifest =
  mf_DeviceID :: string
  mf_Kind :: string
  mf_Version :: string
  mf_ArtifactSHA256 :: string
  mf_ArtifactURL :: string
  mf_RolloutPercent :: int
  mf_MinEpoch :: int
  mf_GeneratedAt :: int
  mf_Signature :: string

record device_codec =
  dc_transform :: "string \<Rightarrow> string option"
  dc_header :: "string \<Rightarrow> string"
  dc_kid :: "string \<Rightarrow> string option"
  dc_valid :: "string \<Rightarrow> bool"
  dc_envelope :: "string \<Rightarrow> DeviceEnvelope option"
  dc_proof :: "string \<Rightarrow> Proof option"
  dc_position :: "string \<Rightarrow> VesselPositionReported option"
  dc_static :: "string \<Rightarrow> VesselStaticReported option"
  dc_sha256 :: "string \<Rightarrow> string"
  dc_random :: "nat \<Rightarrow> string option"
  dc_rfc3339nano :: "int \<Rightarrow> string"

definition DeviceEnvelopeVersion :: string where
  "DeviceEnvelopeVersion = ''1.0''"

definition ProofActionFirmware :: string where
  "ProofActionFirmware = ''GET_FIRMWARE''"

definition ProofActionMQTTAuth :: string where
  "ProofActionMQTTAuth = ''MQTT_AUTH''"

section \<open>Key identifiers\<close>

definition device_keyIDPrefix :: string where
  "device_keyIDPrefix = ''geo-device-''"

definition KeyID :: "string \<Rightarrow> int \<Rightarrow> string" where
  "KeyID deviceID epoch = device_keyIDPrefix @ deviceID @ ''-'' @ show_int epoch"

text \<open>\<open>strings.LastIndex(s, "-")\<close>, \<open>None\<close> for -1.\<close>

definition last_dash :: "string \<Rightarrow> nat option" where
  "last_dash s =
     (if CHR ''-'' \<in> set s
      then Some (length s - 1 - length (takeWhile (\<lambda>c. c \<noteq> CHR ''-'') (rev s))) else None)"

text \<open>
  \<open>fmt.Sscanf(s, "%d", &epoch)\<close>: leading blanks but no line break, an optional sign, digits; what follows
  them is left unread, and a value outside the range of int is an error.
\<close>

definition sscanf_d :: "string \<Rightarrow> int option" where
  "sscanf_d s =
     (let t = dropWhile (\<lambda>c. is_space c \<and> c \<noteq> CHR 0x0A) s;
          negative = (t \<noteq> [] \<and> hd t = CHR ''-'');
          u = (if t \<noteq> [] \<and> (hd t = CHR ''-'' \<or> hd t = CHR ''+'') then tl t else t);
          digits = takeWhile is_digit u;
          v = (if negative then - int (read_nat digits) else int (read_nat digits))
      in if digits = [] \<or> \<not> in_int64 v then None else Some v)"

definition ParseKeyID :: "string \<Rightarrow> string + string \<times> int" where
  "ParseKeyID kid =
     (if take (length device_keyIDPrefix) kid \<noteq> device_keyIDPrefix then Inl ''kid is not a geo-device key''
      else let rest = drop (length device_keyIDPrefix) kid in
        case last_dash rest of
          None \<Rightarrow> Inl ''kid does not carry a device id and epoch''
        | Some separator \<Rightarrow>
            if separator = 0 \<or> separator = length rest - 1 then Inl ''kid does not carry a device id and epoch''
            else case sscanf_d (drop (Suc separator) rest) of
              None \<Rightarrow> Inl ''kid carries an invalid epoch''
            | Some epoch \<Rightarrow>
                if epoch < 1 then Inl ''kid carries an invalid epoch'' else Inr (take separator rest, epoch))"

section \<open>Compact signatures\<close>

definition canonicalJSON :: "crypto \<Rightarrow> json \<Rightarrow> string + string" where
  "canonicalJSON X v = (case cr_jcs X v of None \<Rightarrow> Inl ''JCS-canonicalize payload'' | Some s \<Rightarrow> Inr s)"

definition SignPayload :: "crypto \<Rightarrow> device_codec \<Rightarrow> string \<Rightarrow> string \<Rightarrow> json \<Rightarrow> string + string" where
  "SignPayload X C privateKey kid payload =
     (if length privateKey \<noteq> 64 then Inl ''signing private key must be a valid Ed25519 key''
      else if trim_space kid = [] then Inl ''JWS kid is required''
      else case canonicalJSON X payload of
        Inl e \<Rightarrow> Inl e
      | Inr canonical \<Rightarrow>
          (let signingInput = base64_encode (dc_header C kid) @ ''.'' @ base64_encode canonical
           in Inr (signingInput @ ''.'' @ base64_encode (cr_sign X privateKey signingInput))))"

definition verifyJWS :: "crypto \<Rightarrow> device_codec \<Rightarrow> string \<Rightarrow> string \<Rightarrow> string \<Rightarrow> string + string" where
  "verifyJWS X C jws expectedKeyID publicKey =
     (if length publicKey \<noteq> 32 then Inl ''verification public key must be a valid Ed25519 key''
      else case split_dots jws of
        [p0, p1, p2] \<Rightarrow>
          (case base64_decode p0 of
             None \<Rightarrow> Inl ''decode JWS protected header''
           | Some header \<Rightarrow>
             (case cr_parse_header X header of
                None \<Rightarrow> Inl ''parse JWS protected header''
              | Some (alg, kid) \<Rightarrow>
                if alg \<noteq> ''EdDSA'' then Inl ''JWS alg is not EdDSA''
                else if kid \<noteq> expectedKeyID then Inl ''JWS kid does not match the expected device key''
                else case base64_decode p2 of
                  None \<Rightarrow> Inl ''decode JWS signature''
                | Some signature \<Rightarrow>
                  (case base64_decode p1 of
                     None \<Rightarrow> Inl ''decode JWS payload''
                   | Some payloadBytes \<Rightarrow>
                     (case dc_transform C payloadBytes of
                        None \<Rightarrow> Inl ''JCS-canonicalize JWS payload''
                      | Some canonical \<Rightarrow>
                          if canonical \<noteq> payloadBytes then Inl ''JWS payload is not in JCS-canonical form''
                          else if \<not> cr_verify X publicKey (p0 @ ''.'' @ p1) signature
                          then Inl ''JWS signature verification failed''
                          else Inr payloadBytes))))
      | _ \<Rightarrow> Inl ''signature is not a JWS compact serialization'')"

section \<open>Device envelopes and proofs\<close>

definition device_envelope_json :: "DeviceEnvelope \<Rightarrow> fields" where
  "device_envelope_json e =
     [(''envelopeVersion'', JStr (de_EnvelopeVersion e)), (''deviceId'', JStr (de_DeviceID e)),
      (''keyEpoch'', JInt (de_KeyEpoch e)), (''payloadType'', JStr (de_PayloadType e)),
      (''occurredAt'', JTime (de_OccurredAt e)), (''payload'', JRaw (de_Payload e)),
      (''signature'', JStr (de_Signature e))]"

definition unsignedEnvelopePayload :: "DeviceEnvelope \<Rightarrow> json" where
  "unsignedEnvelopePayload e = JObj (filter (\<lambda>(k, v). k \<noteq> ''signature'') (device_envelope_json e))"

definition SignEnvelope :: "crypto \<Rightarrow> device_codec \<Rightarrow> string \<Rightarrow> DeviceEnvelope \<Rightarrow> string + DeviceEnvelope" where
  "SignEnvelope X C privateKey e =
     (let envelope = (if de_EnvelopeVersion e = [] then e\<lparr>de_EnvelopeVersion := DeviceEnvelopeVersion\<rparr> else e) in
      case SignPayload X C privateKey (KeyID (de_DeviceID envelope) (de_KeyEpoch envelope)) (unsignedEnvelopePayload envelope) of
        Inl err \<Rightarrow> Inl err
      | Inr signature \<Rightarrow> Inr (envelope\<lparr>de_Signature := signature\<rparr>))"

definition VerifyEnvelopeSignature :: "crypto \<Rightarrow> device_codec \<Rightarrow> DeviceEnvelope \<Rightarrow> string \<Rightarrow> string option" where
  "VerifyEnvelopeSignature X C envelope publicKey =
     (case canonicalJSON X (unsignedEnvelopePayload envelope) of
        Inl e \<Rightarrow> Some e
      | Inr expectedCanonical \<Rightarrow>
        (case verifyJWS X C (de_Signature envelope) (KeyID (de_DeviceID envelope) (de_KeyEpoch envelope)) publicKey of
           Inl e \<Rightarrow> Some e
         | Inr payloadBytes \<Rightarrow>
             if payloadBytes \<noteq> expectedCanonical then Some ''envelope does not match the signed canonical payload''
             else None))"

definition VerifyProof :: "crypto \<Rightarrow> device_codec \<Rightarrow> string \<Rightarrow> string \<Rightarrow> string + Proof" where
  "VerifyProof X C jws publicKey =
     (case split_dots jws of
        [p0, p1, p2] \<Rightarrow>
          (case base64_decode p0 of
             None \<Rightarrow> Inl ''decode JWS protected header''
           | Some header \<Rightarrow>
             (case dc_kid C header of
                None \<Rightarrow> Inl ''parse JWS protected header''
              | Some kid \<Rightarrow>
                (case verifyJWS X C jws kid publicKey of
                   Inl e \<Rightarrow> Inl e
                 | Inr payloadBytes \<Rightarrow>
                   (case dc_proof C payloadBytes of
                      None \<Rightarrow> Inl ''decode signed proof''
                    | Some proof \<Rightarrow>
                        if KeyID (pf_DeviceID proof) (pf_KeyEpoch proof) \<noteq> kid
                        then Inl ''proof kid does not match the signed device id and epoch''
                        else Inr proof))))
      | _ \<Rightarrow> Inl ''proof is not a JWS compact serialization'')"

text \<open>The claimed device and epoch, before any signature is checked (\<open>internal/devices/verify.go\<close>).\<close>

definition proofClaims :: "device_codec \<Rightarrow> string \<Rightarrow> string + string \<times> int" where
  "proofClaims C jws =
     (case split_dots jws of
        [p0, p1, p2] \<Rightarrow>
          (case base64_decode p0 of
             None \<Rightarrow> Inl ''proof header is not base64url''
           | Some header \<Rightarrow>
             (case dc_kid C header of
                None \<Rightarrow> Inl ''proof header is not valid JSON''
              | Some kid \<Rightarrow> ParseKeyID kid))
      | _ \<Rightarrow> Inl ''proof is not a JWS compact serialization'')"

section \<open>Firmware manifests\<close>

definition RolloutBucket :: "device_codec \<Rightarrow> string \<Rightarrow> string \<Rightarrow> int" where
  "RolloutBucket C releaseID deviceID =
     int (bytes_nat (take 8 (dc_sha256 C (releaseID @ '':'' @ deviceID))) mod 100)"

definition eligible :: "device_codec \<Rightarrow> Device \<Rightarrow> Release \<Rightarrow> bool" where
  "eligible C device release \<longleftrightarrow>
     \<not> (fl_Kind release \<noteq> dv_Kind device \<or> fl_TenantID release \<noteq> dv_TenantID device)
     \<and> \<not> dv_KeyEpoch device < fl_MinEpoch release
     \<and> \<not> fl_RolloutPercent release \<le> 0
     \<and> \<not> RolloutBucket C (fl_ID release) (dv_ID device) \<ge> fl_RolloutPercent release"

fun SelectRelease :: "device_codec \<Rightarrow> Release list \<Rightarrow> Device \<Rightarrow> Release option" where
  "SelectRelease C [] device = None"
| "SelectRelease C (release # releases) device =
     (if eligible C device release then Some release else SelectRelease C releases device)"

definition manifest_json :: "Manifest \<Rightarrow> json" where
  "manifest_json m = JObj
     ([(''deviceId'', JStr (mf_DeviceID m)), (''kind'', JStr (mf_Kind m)), (''version'', JStr (mf_Version m)),
       (''artifactSha256'', JStr (mf_ArtifactSHA256 m)), (''artifactUrl'', JStr (mf_ArtifactURL m)),
       (''rolloutPercent'', JInt (mf_RolloutPercent m)), (''minEpoch'', JInt (mf_MinEpoch m)),
       (''generatedAt'', JTime (mf_GeneratedAt m))]
      @ omit_str ''signature'' (mf_Signature m))"

definition SignManifest :: "(string \<Rightarrow> json \<Rightarrow> string + string) \<Rightarrow> Manifest \<Rightarrow> string \<Rightarrow> string + Manifest" where
  "SignManifest signFn manifest kid =
     (case signFn kid (manifest_json (manifest\<lparr>mf_Signature := []\<rparr>)) of
        Inl e \<Rightarrow> Inl e
      | Inr signature \<Rightarrow> Inr (manifest\<lparr>mf_Signature := signature\<rparr>))"

definition VerifyManifest :: "crypto \<Rightarrow> device_codec \<Rightarrow> Manifest \<Rightarrow> string \<Rightarrow> string \<Rightarrow> string option" where
  "VerifyManifest X C manifest publicKey expectedKeyID =
     (if mf_Signature manifest = [] then Some ''manifest is unsigned''
      else case canonicalJSON X (manifest_json (manifest\<lparr>mf_Signature := []\<rparr>)) of
        Inl e \<Rightarrow> Some e
      | Inr expected \<Rightarrow>
        (case verifyJWS X C (mf_Signature manifest) expectedKeyID publicKey of
           Inl e \<Rightarrow> Some e
         | Inr payloadBytes \<Rightarrow>
             if payloadBytes \<noteq> expected then Some ''manifest does not match the signed canonical payload'' else None))"

section \<open>Facts about key identifiers\<close>

lemma digit_not_dash: "is_digit c \<Longrightarrow> c \<noteq> CHR ''-'' \<and> \<not> is_space c \<and> c \<noteq> CHR ''+''"
  by (auto simp: is_digit_def is_space_def Let_def)

lemma last_dash_snoc:
  assumes "CHR ''-'' \<notin> set b"
  shows "last_dash (a @ CHR ''-'' # b) = Some (length a)"
proof -
  have "takeWhile (\<lambda>c. c \<noteq> CHR ''-'') (rev b @ CHR ''-'' # rev a) = rev b"
    using assms by (subst takeWhile_append2) auto
  then show ?thesis by (simp add: last_dash_def)
qed

lemma show_nat_no_dash: "CHR ''-'' \<notin> set (show_nat n)"
  using show_nat_digits digit_not_dash by blast

lemma sscanf_show:
  assumes "int n < 9223372036854775808"
  shows "sscanf_d (show_nat n) = Some (int n)"
proof -
  have h: "is_digit (hd (show_nat n))" using show_nat_digits [of n] by simp
  have t: "takeWhile is_digit (show_nat n) = show_nat n"
    using show_nat_digits by (simp add: takeWhile_eq_all_conv)
  have d: "dropWhile (\<lambda>c. is_space c \<and> c \<noteq> CHR 0x0A) (show_nat n) = show_nat n"
    using digit_not_dash [OF h] by (subst dropWhile_eq_self_iff) simp
  show ?thesis
    using digit_not_dash [OF h] assms unfolding sscanf_d_def Let_def d by (simp add: in_int64_def t)
qed

lemma ParseKeyID_KeyID:
  assumes "deviceID \<noteq> []" "1 \<le> epoch" "in_int64 epoch"
  shows "ParseKeyID (KeyID deviceID epoch) = Inr (deviceID, epoch)"
proof -
  have e: "show_int epoch = show_nat (nat epoch)" using assms(2) by (simp add: show_int_def)
  have "last_dash (deviceID @ CHR ''-'' # show_nat (nat epoch)) = Some (length deviceID)"
    by (rule last_dash_snoc [OF show_nat_no_dash])
  moreover have "sscanf_d (show_nat (nat epoch)) = Some epoch"
    using sscanf_show [of "nat epoch"] assms(2,3) by (simp add: in_int64_def)
  moreover have "length (show_nat (nat epoch)) \<noteq> 0" by simp
  ultimately show ?thesis
    using assms(1,2) unfolding ParseKeyID_def KeyID_def e by (simp add: Let_def)
qed

lemma KeyID_inject:
  assumes "KeyID d e = KeyID d' e'" "d \<noteq> []" "1 \<le> e" "in_int64 e" "d' \<noteq> []" "1 \<le> e'" "in_int64 e'"
  shows "d = d' \<and> e = e'"
proof -
  have "Inr (d, e) = (Inr (d', e') :: string + string \<times> int)"
    using ParseKeyID_KeyID [OF assms(2-4)] ParseKeyID_KeyID [OF assms(5-7)] unfolding assms(1) by (rule trans [OF sym])
  then show ?thesis by simp
qed

section \<open>Facts about signatures\<close>

text \<open>
  What is relied on of Ed25519, of the header codec and of the canonicalizer: a signature verifies under the
  public half, the header decodes to what was encoded, and a canonical text is its own canonical form.
\<close>

definition device_laws :: "crypto \<Rightarrow> device_codec \<Rightarrow> string \<Rightarrow> string \<Rightarrow> bool" where
  "device_laws X C privateKey kid \<longleftrightarrow>
     length (cr_public X privateKey) = 32
     \<and> (\<forall>m. cr_verify X (cr_public X privateKey) m (cr_sign X privateKey m))
     \<and> cr_parse_header X (dc_header C kid) = Some (''EdDSA'', kid)
     \<and> (\<forall>j s. cr_jcs X j = Some s \<longrightarrow> dc_transform C s = Some s)"

lemma verifyJWS_Inr:
  "verifyJWS X C s kid pk = Inr payload \<longleftrightarrow> length pk = 32 \<and> (\<exists>p0 p1 p2 header sig.
     split_dots s = [p0, p1, p2] \<and> base64_decode p0 = Some header \<and> cr_parse_header X header = Some (''EdDSA'', kid)
     \<and> base64_decode p2 = Some sig \<and> base64_decode p1 = Some payload \<and> dc_transform C payload = Some payload
     \<and> cr_verify X pk (p0 @ ''.'' @ p1) sig)"
  unfolding verifyJWS_def
  by (auto split: list.splits option.splits if_splits prod.splits)

lemma verifyJWS_SignPayload:
  assumes "device_laws X C sk kid" "SignPayload X C sk kid j = Inr s"
  shows "s \<noteq> [] \<and> (\<exists>c. canonicalJSON X j = Inr c \<and> verifyJWS X C s kid (cr_public X sk) = Inr c)"
proof -
  from assms(2) obtain c where c: "canonicalJSON X j = Inr c"
    and s: "s = (let m = base64_encode (dc_header C kid) @ ''.'' @ base64_encode c
                 in m @ ''.'' @ base64_encode (cr_sign X sk m))"
    by (auto simp: SignPayload_def Let_def split: if_splits sum.splits)
  let ?m = "base64_encode (dc_header C kid) @ ''.'' @ base64_encode c"
  have "split_dots s = [base64_encode (dc_header C kid), base64_encode c, base64_encode (cr_sign X sk ?m)]"
    unfolding s Let_def using split_dots_compact by simp
  moreover have "dc_transform C c = Some c"
    using assms(1) c by (auto simp: device_laws_def canonicalJSON_def split: option.splits)
  ultimately have "verifyJWS X C s kid (cr_public X sk) = Inr c"
    unfolding verifyJWS_Inr using assms(1) by (auto simp: device_laws_def base64_round_trip)
  with c s show ?thesis by (simp add: Let_def)
qed

lemma unsigned_signature [simp]:
  "unsignedEnvelopePayload (e\<lparr>de_Signature := s\<rparr>) = unsignedEnvelopePayload e"
  by (simp add: unsignedEnvelopePayload_def device_envelope_json_def)

lemma VerifyEnvelopeSignature_None:
  "VerifyEnvelopeSignature X C e pk = None \<longleftrightarrow>
     (\<exists>c. canonicalJSON X (unsignedEnvelopePayload e) = Inr c
        \<and> verifyJWS X C (de_Signature e) (KeyID (de_DeviceID e) (de_KeyEpoch e)) pk = Inr c)"
  by (auto simp: VerifyEnvelopeSignature_def split: sum.splits if_splits)

lemma VerifyProof_Inr:
  "VerifyProof X C jws pk = Inr proof \<longleftrightarrow> (\<exists>p0 p1 p2 header payload.
     split_dots jws = [p0, p1, p2] \<and> base64_decode p0 = Some header
     \<and> dc_kid C header = Some (KeyID (pf_DeviceID proof) (pf_KeyEpoch proof))
     \<and> verifyJWS X C jws (KeyID (pf_DeviceID proof) (pf_KeyEpoch proof)) pk = Inr payload
     \<and> dc_proof C payload = Some proof)"
  unfolding VerifyProof_def
  by (auto split: list.splits option.splits sum.splits if_splits)

lemma SelectRelease_Some:
  "SelectRelease C rs d = Some r \<longleftrightarrow>
     (\<exists>before after. rs = before @ r # after \<and> eligible C d r \<and> (\<forall>x\<in>set before. \<not> eligible C d x))"
proof (induction rs)
  case (Cons a rs)
  show ?case
  proof (cases "eligible C d a")
    case True
    then show ?thesis by (auto simp: Cons_eq_append_conv)
  next
    case False
    have "(\<exists>b c. a # rs = b @ r # c \<and> eligible C d r \<and> (\<forall>x\<in>set b. \<not> eligible C d x))
       \<longleftrightarrow> (\<exists>b c. rs = b @ r # c \<and> eligible C d r \<and> (\<forall>x\<in>set b. \<not> eligible C d x))"
    proof
      assume "\<exists>b c. a # rs = b @ r # c \<and> eligible C d r \<and> (\<forall>x\<in>set b. \<not> eligible C d x)"
      then obtain b c where b: "a # rs = b @ r # c" "eligible C d r" "\<forall>x\<in>set b. \<not> eligible C d x" by blast
      with False obtain b' where "b = a # b'" by (cases b) auto
      with b show "\<exists>b c. rs = b @ r # c \<and> eligible C d r \<and> (\<forall>x\<in>set b. \<not> eligible C d x)" by auto
    next
      assume "\<exists>b c. rs = b @ r # c \<and> eligible C d r \<and> (\<forall>x\<in>set b. \<not> eligible C d x)"
      then obtain b c where "rs = b @ r # c" "eligible C d r" "\<forall>x\<in>set b. \<not> eligible C d x" by blast
      with False show "\<exists>b c. a # rs = b @ r # c \<and> eligible C d r \<and> (\<forall>x\<in>set b. \<not> eligible C d x)"
        by (intro exI [of _ "a # b"] exI [of _ c]) auto
    qed
    with False Cons.IH show ?thesis by (simp only: SelectRelease.simps if_False)
  qed
qed simp

lemma RolloutBucket_range: "0 \<le> RolloutBucket C r d" "RolloutBucket C r d < 100"
  by (simp_all add: RolloutBucket_def)

lemma SignEnvelope_signed:
  assumes "device_laws X C sk (KeyID (de_DeviceID e) (de_KeyEpoch e))" "SignEnvelope X C sk e = Inr e'"
  shows "VerifyEnvelopeSignature X C e' (cr_public X sk) = None
    \<and> e' = e\<lparr>de_EnvelopeVersion := (if de_EnvelopeVersion e = [] then DeviceEnvelopeVersion else de_EnvelopeVersion e),
             de_Signature := de_Signature e'\<rparr>"
proof -
  let ?e = "e\<lparr>de_EnvelopeVersion := (if de_EnvelopeVersion e = [] then DeviceEnvelopeVersion else de_EnvelopeVersion e)\<rparr>"
  have e: "(if de_EnvelopeVersion e = [] then e\<lparr>de_EnvelopeVersion := DeviceEnvelopeVersion\<rparr> else e) = ?e"
    by (cases e) simp
  from assms(2) obtain s where
    s: "SignPayload X C sk (KeyID (de_DeviceID e) (de_KeyEpoch e)) (unsignedEnvelopePayload ?e) = Inr s"
    and e': "e' = ?e\<lparr>de_Signature := s\<rparr>"
    unfolding SignEnvelope_def Let_def e by (auto split: sum.splits)
  from verifyJWS_SignPayload [OF assms(1) s] show ?thesis
    unfolding VerifyEnvelopeSignature_None e' by simp
qed

lemma SignEnvelope_fields:
  assumes "SignEnvelope X C sk e = Inr e'"
  shows "de_DeviceID e' = de_DeviceID e" "de_KeyEpoch e' = de_KeyEpoch e"
  using assms by (auto simp: SignEnvelope_def Let_def split: sum.splits)

section \<open>Properties\<close>

text \<open>
  A concrete codec for the witnesses: the header is the key identifier itself, every text is canonical, and
  the digest is constant.
\<close>

definition sample_codec :: device_codec where
  "sample_codec =
     \<lparr>dc_transform = Some, dc_header = protectedHeaderJSON,
      dc_kid = (\<lambda>h. Some (take (length h - 24) (drop 22 h))), dc_valid = (\<lambda>s. True),
      dc_envelope = (\<lambda>s. None), dc_proof = (\<lambda>s. None), dc_position = (\<lambda>s. None), dc_static = (\<lambda>s. None),
      dc_sha256 = (\<lambda>s. replicate 32 (CHR ''h'')), dc_random = (\<lambda>n. Some (replicate 32 (CHR ''r''))),
      dc_rfc3339nano = show_int\<rparr>"

definition sample_key :: string where
  "sample_key = replicate 64 (CHR ''k'')"

definition sample_device_envelope :: DeviceEnvelope where
  "sample_device_envelope =
     \<lparr>de_EnvelopeVersion = [], de_DeviceID = ''d1'', de_KeyEpoch = 1, de_PayloadType = ''geo.vessel-position.v1'',
      de_OccurredAt = 5, de_Payload = ''p'', de_Signature = []\<rparr>"

lemma sample_device_laws: "device_laws sample_crypto sample_codec sample_key kid"
  by (simp add: device_laws_def sample_crypto_def sample_codec_def sample_key_def protectedHeaderJSON_def)

lemma sample_SignPayload:
  "trim_space kid \<noteq> [] \<Longrightarrow> \<exists>s. SignPayload sample_crypto sample_codec sample_key kid j = Inr s"
  by (simp add: SignPayload_def canonicalJSON_def sample_crypto_def sample_key_def)

text \<open>
  A device envelope signed with a private key verifies against the registered public half, and signing
  changes nothing but the signature (and fills in a missing version): what the registry authenticates is what
  the device signed, under the key identifier of exactly that device and epoch.
\<close>

theorem SignEnvelope_verifies:
  assumes "device_laws X C sk (KeyID (de_DeviceID e) (de_KeyEpoch e))" "SignEnvelope X C sk e = Inr e'"
  shows "VerifyEnvelopeSignature X C e' (cr_public X sk) = None
    \<and> e' = e\<lparr>de_EnvelopeVersion := (if de_EnvelopeVersion e = [] then DeviceEnvelopeVersion else de_EnvelopeVersion e),
             de_Signature := de_Signature e'\<rparr>"
  using assms by (rule SignEnvelope_signed)

theorem SignEnvelope_verifies_witness:
  "\<exists>e'. SignEnvelope sample_crypto sample_codec sample_key sample_device_envelope = Inr e'
     \<and> VerifyEnvelopeSignature sample_crypto sample_codec e' (cr_public sample_crypto sample_key) = None"
proof -
  have "trim_space (KeyID ''d1'' 1) \<noteq> []"
    by (simp add: KeyID_def device_keyIDPrefix_def show_int_def show_nat.simps digit_char_def trim_space_def trim_left_def is_space_def)
  note signs = sample_SignPayload [OF this]
  have "\<exists>e'. SignEnvelope sample_crypto sample_codec sample_key sample_device_envelope = Inr e'"
    using signs [of "unsignedEnvelopePayload (sample_device_envelope\<lparr>de_EnvelopeVersion := DeviceEnvelopeVersion\<rparr>)"]
    by (auto simp: SignEnvelope_def sample_device_envelope_def Let_def)
  then obtain e' where "SignEnvelope sample_crypto sample_codec sample_key sample_device_envelope = Inr e'" ..
  with SignEnvelope_verifies [OF sample_device_laws this] show ?thesis by blast
qed

text \<open>
  Key identifiers are read back exactly: the identifier of a device and a positive epoch parses to that
  device and epoch, whatever characters the device id has, so different keys have different identifiers.
\<close>

theorem key_ids_round_trip:
  assumes "deviceID \<noteq> []" "1 \<le> epoch" "in_int64 epoch"
  shows "ParseKeyID (KeyID deviceID epoch) = Inr (deviceID, epoch)
    \<and> (\<forall>d e. d \<noteq> [] \<and> 1 \<le> e \<and> in_int64 e \<and> KeyID d e = KeyID deviceID epoch \<longrightarrow> d = deviceID \<and> e = epoch)"
  using ParseKeyID_KeyID [OF assms] KeyID_inject [OF _ _ _ _ assms] by blast

theorem key_ids_round_trip_witness:
  "ParseKeyID (KeyID ''a-1'' 12) = Inr (''a-1'', 12)"
  using key_ids_round_trip [of "''a-1''" 12] by (simp add: in_int64_def)

definition sample_device :: Device where
  "sample_device = \<lparr>dv_ID = ''d1'', dv_TenantID = ''t'', dv_Kind = ''AIS'', dv_OwnerAgency = ''a'', dv_Label = ''l'',
     dv_Status = StatusActive, dv_KeyEpoch = 1, dv_Metadata = [], dv_CreatedBy = ''m'', dv_CreatedAt = 0, dv_UpdatedAt = 0\<rparr>"

definition sample_release :: Release where
  "sample_release = \<lparr>fl_ID = ''r1'', fl_TenantID = ''t'', fl_Kind = ''AIS'', fl_Version = ''1'',
     fl_ArtifactSHA256 = replicate 64 (CHR ''a''), fl_ArtifactURL = ''u'', fl_RolloutPercent = 100, fl_MinEpoch = 1,
     fl_CreatedAt = 0\<rparr>"

end
