(* ===== verification/Device_Store.thy ===== *)
theory Device_Store
  imports Store_Tables Device_Sign "HOL-Library.Char_ord" "HOL-Library.List_Lexorder" "HOL-Library.Product_Lexorder"
begin

text \<open>
  The device registry (\<open>internal/devices/store.go\<close>, migration 0010): provisioning and rotation requests
  under maker and checker, key epochs with their grace window, the device lifecycle, firmware releases, the
  one-time activation secret and the audit ledger.

  Admin operations are tenant transactions: the row policies are the \<open>tenant_\<close> filters. The verification
  path uses the pool of the role \<open>geo_devices\<close>, which reads every tenant and may only flip an approved
  request to consumed and append to the ledger.
\<close>

section \<open>Visibility and statements\<close>

definition tenant_devices :: "string \<Rightarrow> device_db \<Rightarrow> Device list" where
  "tenant_devices tenantID s = filter (\<lambda>d. dv_TenantID d = tenantID) (dd_devices s)"

definition tenant_requests :: "string \<Rightarrow> device_db \<Rightarrow> request_row list" where
  "tenant_requests tenantID s = filter (\<lambda>r. rq_TenantID (rr_Request r) = tenantID) (dd_requests s)"

definition on_devices :: "(device_db \<Rightarrow> (device_db \<times> 'a) option) \<Rightarrow> db \<Rightarrow> (db \<times> 'a) option" where
  "on_devices f d = (case f (db_devices d) of None \<Rightarrow> None | Some (s, r) \<Rightarrow> Some (d\<lparr>db_devices := s\<rparr>, r))"

definition device_query :: "externals \<Rightarrow> string \<Rightarrow> (device_db \<Rightarrow> 'a) \<Rightarrow> 'a geo" where
  "device_query X label q = sql_query X label (\<lambda>d. q (db_devices d))"

definition device_exec :: "externals \<Rightarrow> string \<Rightarrow> (device_db \<Rightarrow> device_db option) \<Rightarrow> unit geo" where
  "device_exec X label f = sql X label (on_devices (\<lambda>s. map_option (\<lambda>s'. (s', ())) (f s)))"

text \<open>\<open>errors.Is(err, pgx.ErrNoRows)\<close> becomes the named error; any other is wrapped.\<close>

definition not_found_as :: "geo_error \<Rightarrow> string \<Rightarrow> 'a geo \<Rightarrow> 'a geo" where
  "not_found_as missing label m = wrapA (\<lambda>e. if e = ErrNoRows then missing else ErrWrap label e) m"

definition row_or :: "geo_error \<Rightarrow> 'a option \<Rightarrow> 'a geo" where
  "row_or e row = (case row of None \<Rightarrow> raise e | Some r \<Rightarrow> ret r)"

section \<open>Public keys\<close>

text \<open>The standard alphabet has + and / where the URL alphabet has - and _.\<close>

definition b64_val_std :: "char \<Rightarrow> nat option" where
  "b64_val_std c =
     (if c = CHR ''-'' \<or> c = CHR ''_'' then None
      else if c = CHR ''+'' then Some 62 else if c = CHR ''/'' then Some 63 else b64_val c)"

text \<open>
  The four decoders: line breaks are skipped; a padded encoding completes its last group of four with one or
  two equal signs and has nothing after them, an unpadded one has none.
\<close>

definition base64_decode_with :: "(char \<Rightarrow> nat option) \<Rightarrow> bool \<Rightarrow> string \<Rightarrow> string option" where
  "base64_decode_with alphabet padded s =
     (let t = filter (\<lambda>c. c \<noteq> CHR 0x0A \<and> c \<noteq> CHR 0x0D) s;
          body = (if padded then takeWhile (\<lambda>c. c \<noteq> CHR 0x3D) t else t);
          pads = (if padded then dropWhile (\<lambda>c. c \<noteq> CHR 0x3D) t else [])
      in if padded \<and> (length t mod 4 \<noteq> 0 \<or> length pads > 2 \<or> list_ex (\<lambda>c. c \<noteq> CHR 0x3D) pads) then None
         else case all_some (map alphabet body) of
           None \<Rightarrow> None
         | Some vs \<Rightarrow> map_option (map char_of) (b64_dec vs))"

fun first_key :: "string option list \<Rightarrow> string option" where
  "first_key [] = None"
| "first_key (Some raw # rest) = (if length raw = 32 then Some raw else first_key rest)"
| "first_key (None # rest) = first_key rest"

definition decodePublicKey :: "string \<Rightarrow> string option" where
  "decodePublicKey encoded =
     (let trimmed = trim_space encoded in
      if trimmed = [] then None
      else first_key [base64_decode_with b64_val False trimmed, base64_decode_with b64_val True trimmed,
                      base64_decode_with b64_val_std False trimmed, base64_decode_with b64_val_std True trimmed])"

section \<open>Requests\<close>

definition insert_request :: "request_row \<Rightarrow> device_db \<Rightarrow> device_db option" where
  "insert_request r s =
     (if rq_ID (rr_Request r) \<in> (\<lambda>r. rq_ID (rr_Request r)) ` set (dd_requests s) \<or> \<not> request_allowed r then None
      else Some (s\<lparr>dd_requests := dd_requests s @ [r]\<rparr>))"

definition new_request :: "string \<Rightarrow> string \<Rightarrow> request_payload \<Rightarrow> string \<Rightarrow> int \<Rightarrow> request_row" where
  "new_request ident tenantID payload maker now =
     \<lparr>rr_Request = \<lparr>rq_ID = ident, rq_TenantID = tenantID, rq_Payload = payload, rq_RequestedBy = maker,
        rq_Status = RequestPending, rq_DecidedBy = None, rq_DecidedAt = None, rq_DeviceID = None, rq_CreatedAt = now\<rparr>,
      rr_ActivationSecretHash = None\<rparr>"

definition insertRequest :: "externals \<Rightarrow> string \<Rightarrow> request_payload \<Rightarrow> string \<Rightarrow> string geo" where
  "insertRequest X tenantID payload maker =
     wrapA (ErrWrap ''create provisioning request'')
       (WithTenant X tenantID
          (bindA (fresh_uuid X) (\<lambda>ident.
           bindA (clock X) (\<lambda>now.
           seqA (device_exec X ''insert request'' (insert_request (new_request ident tenantID payload maker now)))
             (ret ident)))))"

definition CreateProvisionRequest :: "externals \<Rightarrow> string \<Rightarrow> ProvisionPayload \<Rightarrow> string \<Rightarrow> string geo" where
  "CreateProvisionRequest X tenantID payload maker =
     (if \<not> ValidKind (pp_Kind payload) then raise (ErrText ''device kind is not supported'')
      else if decodePublicKey (pp_PublicKey payload) = None then raise (ErrText ''public key is invalid'')
      else if validateLabel (pp_OwnerAgency payload) 256 = None then raise (ErrText ''owner agency is invalid'')
      else if validateLabel (pp_Label payload) 256 = None then raise (ErrText ''label is invalid'')
      else if trim_space maker = [] then raise (ErrText ''maker principal is required'')
      else insertRequest X tenantID (PayloadProvision payload) maker)"

definition CreateRotationRequest :: "externals \<Rightarrow> string \<Rightarrow> string \<Rightarrow> string \<Rightarrow> string \<Rightarrow> string geo" where
  "CreateRotationRequest X tenantID deviceID newPublicKey maker =
     (if trim_space deviceID = [] then raise (ErrText ''device id is required'')
      else if decodePublicKey newPublicKey = None then raise (ErrText ''public key is invalid'')
      else if trim_space maker = [] then raise (ErrText ''maker principal is required'')
      else insertRequest X tenantID
             (PayloadRotate \<lparr>rp_DeviceID = deviceID, rp_PublicKey = trim_space newPublicKey\<rparr>) maker)"

definition find_request :: "string \<Rightarrow> string \<Rightarrow> device_db \<Rightarrow> request_row option" where
  "find_request tenantID requestID s = find (\<lambda>r. rq_ID (rr_Request r) = requestID) (tenant_requests tenantID s)"

definition GetRequest :: "externals \<Rightarrow> string \<Rightarrow> string \<Rightarrow> Request geo" where
  "GetRequest X tenantID requestID =
     not_found_as ErrRequestNotFound ''get provisioning request''
       (WithTenant X tenantID
          (bindA (device_query X ''get request'' (find_request tenantID requestID)) (\<lambda>row.
           bindA (row_or ErrNoRows row) (\<lambda>r. ret (rr_Request r)))))"

section \<open>Decisions\<close>

record Approval =
  av_RequestID :: string
  av_DeviceID :: string
  av_KeyEpoch :: int
  av_ActivationSecret :: string

definition insert_device :: "Device \<Rightarrow> device_db \<Rightarrow> device_db option" where
  "insert_device d s =
     (if dv_ID d \<in> dv_ID ` set (dd_devices s) \<or> \<not> ValidKind (dv_Kind d) \<or> dv_KeyEpoch d < 1 then None
      else Some (s\<lparr>dd_devices := dd_devices s @ [d]\<rparr>))"

definition insert_key :: "string \<Rightarrow> Key \<Rightarrow> device_db \<Rightarrow> device_db option" where
  "insert_key tenantID k s =
     (if ky_DeviceID k \<notin> dv_ID ` set (tenant_devices tenantID s)
         \<or> (ky_DeviceID k, ky_Epoch k) \<in> (\<lambda>k. (ky_DeviceID k, ky_Epoch k)) ` set (dd_keys s)
         \<or> ky_Epoch k < 1 \<or> length (ky_PublicKey k) \<noteq> 32
         \<or> (ky_Status k = KeyCurrent \<and> (\<exists>x\<in>set (dd_keys s). ky_DeviceID x = ky_DeviceID k \<and> ky_Status x = KeyCurrent))
      then None else Some (s\<lparr>dd_keys := dd_keys s @ [k]\<rparr>))"

definition update_request ::
  "string \<Rightarrow> string \<Rightarrow> (request_row \<Rightarrow> request_row) \<Rightarrow> device_db \<Rightarrow> device_db option" where
  "update_request tenantID requestID f s =
     map_option (\<lambda>rows. s\<lparr>dd_requests := rows\<rparr>)
       (update_rows (\<lambda>r. rq_TenantID (rr_Request r) = tenantID \<and> rq_ID (rr_Request r) = requestID) f
          (\<lambda>r. request_allowed r \<and> (case rq_DeviceID (rr_Request r) of None \<Rightarrow> True | Some i \<Rightarrow> i \<in> dv_ID ` set (dd_devices s)))
          (dd_requests s))"

definition update_device :: "string \<Rightarrow> string \<Rightarrow> (Device \<Rightarrow> Device) \<Rightarrow> device_db \<Rightarrow> device_db option" where
  "update_device tenantID deviceID f s =
     map_option (\<lambda>rows. s\<lparr>dd_devices := rows\<rparr>)
       (update_rows (\<lambda>d. dv_TenantID d = tenantID \<and> dv_ID d = deviceID) f (\<lambda>d. 1 \<le> dv_KeyEpoch d) (dd_devices s))"

definition update_keys :: "string \<Rightarrow> (Key \<Rightarrow> bool) \<Rightarrow> (Key \<Rightarrow> Key) \<Rightarrow> device_db \<Rightarrow> device_db option" where
  "update_keys tenantID hit f s =
     Some (s\<lparr>dd_keys := map (\<lambda>k. if ky_DeviceID k \<in> dv_ID ` set (tenant_devices tenantID s) \<and> hit k then f k else k)
       (dd_keys s)\<rparr>)"

definition find_device :: "string \<Rightarrow> string \<Rightarrow> device_db \<Rightarrow> Device option" where
  "find_device tenantID deviceID s = find (\<lambda>d. dv_ID d = deviceID) (tenant_devices tenantID s)"

definition generateActivationSecret :: "externals \<Rightarrow> device_codec \<Rightarrow> (string \<times> string) geo" where
  "generateActivationSecret X C =
     bindA (asks (dc_random C)) (\<lambda>raw.
     case raw of
       None \<Rightarrow> raise (ErrText ''generate activation secret'')
     | Some bytes \<Rightarrow> ret (base64_encode bytes, dc_sha256 C bytes))"

definition decide :: "request_status \<Rightarrow> string \<Rightarrow> int \<Rightarrow> string option \<Rightarrow> string option \<Rightarrow> request_row \<Rightarrow> request_row" where
  "decide status checker now deviceID hash r =
     r\<lparr>rr_Request := (rr_Request r)\<lparr>rq_Status := status, rq_DecidedBy := Some checker, rq_DecidedAt := Some now,
         rq_DeviceID := (case deviceID of None \<Rightarrow> rq_DeviceID (rr_Request r) | Some i \<Rightarrow> Some i)\<rparr>,
       rr_ActivationSecretHash := (case hash of None \<Rightarrow> rr_ActivationSecretHash r | Some h \<Rightarrow> Some h)\<rparr>"

definition first_epoch :: "string \<Rightarrow> string \<Rightarrow> int \<Rightarrow> Key" where
  "first_epoch deviceID publicKey now =
     \<lparr>ky_DeviceID = deviceID, ky_Epoch = 1, ky_PublicKey = publicKey, ky_Status = KeyCurrent, ky_RotatedAt = now\<rparr>"

definition new_device :: "string \<Rightarrow> string \<Rightarrow> ProvisionPayload \<Rightarrow> string \<Rightarrow> int \<Rightarrow> Device" where
  "new_device deviceID tenantID p maker now =
     \<lparr>dv_ID = deviceID, dv_TenantID = tenantID, dv_Kind = pp_Kind p, dv_OwnerAgency = pp_OwnerAgency p,
      dv_Label = pp_Label p, dv_Status = StatusActive, dv_KeyEpoch = 1, dv_Metadata = pp_Metadata p,
      dv_CreatedBy = maker, dv_CreatedAt = now, dv_UpdatedAt = now\<rparr>"

definition approve_provision ::
  "externals \<Rightarrow> device_codec \<Rightarrow> string \<Rightarrow> string \<Rightarrow> string \<Rightarrow> string \<Rightarrow> int \<Rightarrow> ProvisionPayload \<Rightarrow> Approval geo" where
  "approve_provision X C tenantID requestID requestedBy checker now p =
     (case decodePublicKey (pp_PublicKey p) of
        None \<Rightarrow> raise (ErrText ''public key is invalid'')
      | Some publicKey \<Rightarrow>
          bindA (fresh_uuid X) (\<lambda>deviceID.
          seqA (device_exec X ''create device'' (insert_device (new_device deviceID tenantID p requestedBy now)))
          (seqA (device_exec X ''create device key epoch 1'' (insert_key tenantID (first_epoch deviceID publicKey now)))
          (bindA (generateActivationSecret X C) (\<lambda>secret.
           seqA (device_exec X ''approve provisioning request''
                   (update_request tenantID requestID (decide RequestApproved checker now (Some deviceID) (Some (snd secret)))))
             (ret \<lparr>av_RequestID = requestID, av_DeviceID = deviceID, av_KeyEpoch = 1, av_ActivationSecret = fst secret\<rparr>))))))"

definition applyRotation :: "externals \<Rightarrow> string \<Rightarrow> string \<Rightarrow> string \<Rightarrow> int \<Rightarrow> int \<Rightarrow> int geo" where
  "applyRotation X tenantID deviceID newPublicKey grace now =
     bindA (device_query X ''lock device'' (find_device tenantID deviceID)) (\<lambda>row.
     bindA (row_or ErrDeviceNotFound row) (\<lambda>d.
     if dv_Status d \<noteq> StatusActive then raise (ErrText ''rotation requires an ACTIVE device'')
     else
       seqA (device_exec X ''revoke expired key epochs'' (update_keys tenantID
               (\<lambda>k. ky_DeviceID k = deviceID \<and> ky_Status k = KeyPrevious \<and> ky_RotatedAt k < now - grace)
               (\<lambda>k. k\<lparr>ky_Status := KeyRevoked\<rparr>)))
       (seqA (device_exec X ''demote current key epoch'' (update_keys tenantID
               (\<lambda>k. ky_DeviceID k = deviceID \<and> ky_Status k = KeyCurrent)
               (\<lambda>k. k\<lparr>ky_Status := KeyPrevious, ky_RotatedAt := now\<rparr>)))
       (seqA (device_exec X ''install key epoch'' (insert_key tenantID
               \<lparr>ky_DeviceID = deviceID, ky_Epoch = dv_KeyEpoch d + 1, ky_PublicKey = newPublicKey,
                ky_Status = KeyCurrent, ky_RotatedAt = now\<rparr>))
       (seqA (device_exec X ''advance device key epoch'' (update_device tenantID deviceID
               (\<lambda>x. x\<lparr>dv_KeyEpoch := dv_KeyEpoch d + 1, dv_UpdatedAt := now\<rparr>)))
         (ret (dv_KeyEpoch d + 1)))))))"

definition approve_rotation ::
  "externals \<Rightarrow> string \<Rightarrow> string \<Rightarrow> string \<Rightarrow> int \<Rightarrow> int \<Rightarrow> RotatePayload \<Rightarrow> Approval geo" where
  "approve_rotation X tenantID requestID checker grace now p =
     (case decodePublicKey (rp_PublicKey p) of
        None \<Rightarrow> raise (ErrText ''public key is invalid'')
      | Some publicKey \<Rightarrow>
          bindA (applyRotation X tenantID (rp_DeviceID p) publicKey grace now) (\<lambda>epoch.
          seqA (device_exec X ''approve rotation request''
                  (update_request tenantID requestID (decide RequestApproved checker now (Some (rp_DeviceID p)) None)))
            (ret \<lparr>av_RequestID = requestID, av_DeviceID = rp_DeviceID p, av_KeyEpoch = epoch, av_ActivationSecret = []\<rparr>)))"

text \<open>The lock, the two-person rule and the state check both decisions start with.\<close>

definition pending_request :: "externals \<Rightarrow> string \<Rightarrow> string \<Rightarrow> string \<Rightarrow> Request geo" where
  "pending_request X tenantID requestID checker =
     bindA (device_query X ''lock request'' (find_request tenantID requestID)) (\<lambda>row.
     bindA (row_or ErrRequestNotFound row) (\<lambda>r.
     seqA (require (rq_RequestedBy (rr_Request r) \<noteq> checker) ErrMakerChecker)
     (seqA (require (rq_Status (rr_Request r) = RequestPending) ErrRequestNotPending)
       (ret (rr_Request r)))))"

definition ApproveRequest :: "externals \<Rightarrow> device_codec \<Rightarrow> string \<Rightarrow> string \<Rightarrow> string \<Rightarrow> int \<Rightarrow> Approval geo" where
  "ApproveRequest X C tenantID requestID checker grace =
     (if trim_space checker = [] then raise (ErrText ''checker principal is required'')
      else let grace = (if grace \<le> 0 then DefaultKeyGrace else grace) in
        WithTenant X tenantID
          (bindA (pending_request X tenantID requestID checker) (\<lambda>r.
           bindA (clock X) (\<lambda>now.
           case rq_Payload r of
             PayloadProvision p \<Rightarrow> approve_provision X C tenantID requestID (rq_RequestedBy r) checker now p
           | PayloadRotate p \<Rightarrow> approve_rotation X tenantID requestID checker grace now p
           | PayloadOther None \<Rightarrow> raise (ErrText ''provisioning request payload is invalid'')
           | PayloadOther (Some ty) \<Rightarrow> raise (ErrText ''provisioning request type is not supported'')))))"

definition RejectRequest :: "externals \<Rightarrow> string \<Rightarrow> string \<Rightarrow> string \<Rightarrow> Request geo" where
  "RejectRequest X tenantID requestID checker =
     (if trim_space checker = [] then raise (ErrText ''checker principal is required'')
      else seqA (WithTenant X tenantID
          (bindA (pending_request X tenantID requestID checker) (\<lambda>r.
           bindA (clock X) (\<lambda>now.
           device_exec X ''reject provisioning request''
             (update_request tenantID requestID (decide RequestRejected checker now None None))))))
        (GetRequest X tenantID requestID))"

section \<open>Devices and releases\<close>

definition ListDevices :: "externals \<Rightarrow> string \<Rightarrow> int \<Rightarrow> Device list geo" where
  "ListDevices X tenantID limit =
     (let limit = (if limit \<le> 0 \<or> limit > 5000 then 500 else limit) in
      wrapA (ErrWrap ''list devices'') (WithTenant X tenantID
        (device_query X ''list devices'' (\<lambda>s.
           take (nat limit) (sort_key (\<lambda>d. - dv_CreatedAt d) (tenant_devices tenantID s))))))"

definition GetDevice :: "externals \<Rightarrow> string \<Rightarrow> string \<Rightarrow> Device geo" where
  "GetDevice X tenantID deviceID =
     not_found_as ErrDeviceNotFound ''get device''
       (WithTenant X tenantID
          (bindA (device_query X ''get device'' (find_device tenantID deviceID)) (row_or ErrNoRows)))"

definition SetDeviceStatus :: "externals \<Rightarrow> string \<Rightarrow> string \<Rightarrow> string \<Rightarrow> string \<Rightarrow> Device geo" where
  "SetDeviceStatus X tenantID deviceID target actor =
     (if trim_space actor = [] then raise (ErrText ''actor principal is required'')
      else WithTenant X tenantID
        (bindA (device_query X ''lock device'' (find_device tenantID deviceID)) (\<lambda>row.
         bindA (row_or ErrDeviceNotFound row) (\<lambda>d.
         bindA (clock X) (\<lambda>now.
         case ValidateStatusTransition (dv_Status d) target of
           None \<Rightarrow> raise (ErrText ''status transition refused'')
         | Some st \<Rightarrow>
             seqA (device_exec X ''set device status'' (update_device tenantID deviceID
                     (\<lambda>x. x\<lparr>dv_Status := st, dv_UpdatedAt := now\<rparr>)))
             (seqA (whenA (st = StatusRevoked \<or> st = StatusDecommissioned)
                     (device_exec X ''revoke device keys'' (update_keys tenantID
                        (\<lambda>k. ky_DeviceID k = deviceID \<and> ky_Status k \<noteq> KeyRevoked)
                        (\<lambda>k. k\<lparr>ky_Status := KeyRevoked\<rparr>))))
             (bindA (device_query X ''read device'' (find_device tenantID deviceID)) (row_or ErrNoRows))))))))"

definition insert_release :: "Release \<Rightarrow> device_db \<Rightarrow> device_db option" where
  "insert_release r s =
     (if fl_ID r \<in> fl_ID ` set (dd_releases s) \<or> \<not> release_columns r
         \<or> (fl_TenantID r, fl_Kind r, fl_Version r) \<in> (\<lambda>r. (fl_TenantID r, fl_Kind r, fl_Version r)) ` set (dd_releases s)
      then None else Some (s\<lparr>dd_releases := dd_releases s @ [r]\<rparr>))"

definition CreateFirmwareRelease :: "externals \<Rightarrow> string \<Rightarrow> Release \<Rightarrow> string geo" where
  "CreateFirmwareRelease X tenantID release =
     (if \<not> ValidKind (fl_Kind release) then raise (ErrText ''device kind is not supported'')
      else if validateLabel (fl_Version release) 128 = None then raise (ErrText ''version is invalid'')
      else if validateLabel (fl_ArtifactURL release) 2048 = None then raise (ErrText ''artifact url is invalid'')
      else if length (fl_ArtifactSHA256 release) \<noteq> 64 then raise (ErrText ''artifact sha256 must be 64 lowercase hex characters'')
      else if \<not> list_all hex_lower (fl_ArtifactSHA256 release) then raise (ErrText ''artifact sha256 must be 64 lowercase hex characters'')
      else if fl_RolloutPercent release < 0 \<or> fl_RolloutPercent release > 100
      then raise (ErrText ''rollout percent must be between 0 and 100'')
      else let minEpoch = (if fl_MinEpoch release < 1 then 1 else fl_MinEpoch release) in
        wrapA (ErrWrap ''create firmware release'') (WithTenant X tenantID
          (bindA (fresh_uuid X) (\<lambda>ident.
           bindA (clock X) (\<lambda>now.
           seqA (device_exec X ''insert release'' (insert_release
                  (release\<lparr>fl_ID := ident, fl_TenantID := tenantID, fl_MinEpoch := minEpoch, fl_CreatedAt := now\<rparr>)))
             (ret ident))))))"

section \<open>The verification path\<close>

definition LoadDeviceForAuth :: "externals \<Rightarrow> string \<Rightarrow> Device geo" where
  "LoadDeviceForAuth X deviceID =
     not_found_as ErrDeviceNotFound ''load device for auth''
       (bindA (device_query X ''load device'' (\<lambda>s. find (\<lambda>d. dv_ID d = deviceID) (dd_devices s))) (row_or ErrNoRows))"

definition LoadKey :: "externals \<Rightarrow> string \<Rightarrow> int \<Rightarrow> Key geo" where
  "LoadKey X deviceID epoch =
     not_found_as (ErrText ''device key epoch not found'') ''load device key''
       (bindA (device_query X ''load key'' (\<lambda>s.
           find (\<lambda>k. ky_DeviceID k = deviceID \<and> ky_Epoch k = epoch) (dd_keys s))) (row_or ErrNoRows))"

definition consumable :: "string \<Rightarrow> string \<Rightarrow> request_row \<Rightarrow> bool" where
  "consumable requestID hash r \<longleftrightarrow>
     rq_ID (rr_Request r) = requestID \<and> rq_Status (rr_Request r) = RequestApproved
     \<and> rr_ActivationSecretHash r = Some hash"

definition consume_row :: "request_row \<Rightarrow> request_row" where
  "consume_row r = r\<lparr>rr_Request := (rr_Request r)\<lparr>rq_Status := RequestConsumed\<rparr>\<rparr>"

definition consume_request :: "string \<Rightarrow> string \<Rightarrow> device_db \<Rightarrow> device_db \<times> string option option" where
  "consume_request requestID hash s =
     (s\<lparr>dd_requests := map (\<lambda>r. if consumable requestID hash r then consume_row r else r) (dd_requests s)\<rparr>,
      map_option (\<lambda>r. rq_DeviceID (rr_Request r)) (find (consumable requestID hash) (dd_requests s)))"

definition ConsumeActivation :: "externals \<Rightarrow> device_codec \<Rightarrow> string \<Rightarrow> string \<Rightarrow> string geo" where
  "ConsumeActivation X C requestID secret =
     (let trimmed = trim_space secret in
      if trimmed = [] then raise ErrActivationFailed
      else case base64_decode trimmed of
        None \<Rightarrow> raise ErrActivationFailed
      | Some raw \<Rightarrow>
          if length raw \<noteq> 32 then raise ErrActivationFailed
          else bindA (wrapA (ErrWrap ''consume activation'')
                  (sql X ''consume activation'' (on_devices (\<lambda>s. Some (consume_request requestID (dc_sha256 C raw) s))))) (\<lambda>row.
               case row of
                 None \<Rightarrow> raise ErrActivationFailed
               | Some None \<Rightarrow> raise ErrActivationFailed
               | Some (Some deviceID) \<Rightarrow> ret deviceID))"

definition ListReleasesForKind :: "externals \<Rightarrow> string \<Rightarrow> string \<Rightarrow> Release list geo" where
  "ListReleasesForKind X tenantID kind =
     wrapA (ErrWrap ''list firmware releases'') (device_query X ''list releases'' (\<lambda>s.
       rev (sort_key (\<lambda>r. (fl_CreatedAt r, fl_ID r))
         (filter (\<lambda>r. fl_TenantID r = tenantID \<and> fl_Kind r = kind) (dd_releases s)))))"

definition text_or_null :: "string \<Rightarrow> string option" where
  "text_or_null s = (if trim_space s = [] then None else Some s)"

definition audit_entry :: "AuditEvent \<Rightarrow> int \<Rightarrow> audit_row" where
  "audit_entry e now =
     \<lparr>al_TenantID = au_TenantID e, al_DeviceID = text_or_null (au_DeviceID e), al_Event = au_Event e,
      al_Actor = au_Actor e, al_Reason = text_or_null (au_Reason e), al_Metadata = au_Metadata e, al_CreatedAt = now\<rparr>"

definition InsertAudit :: "externals \<Rightarrow> AuditEvent \<Rightarrow> unit geo" where
  "InsertAudit X event =
     bindA (clock X) (\<lambda>now.
     wrapA (ErrWrap ''insert device audit event'')
       (device_exec X ''insert audit'' (\<lambda>s. Some (s\<lparr>dd_audit := dd_audit s @ [audit_entry event now]\<rparr>))))"

end
