(* ===== verification/Device_Machine.thy ===== *)
theory Device_Machine
  imports Device_Store
begin

text \<open>
  Runs of the device registry. Every successful admin call is one documented step of its tenant, the
  verification path makes only its own steps, a failed call changes no table, and the registry stays
  consistent: one current key per living device, none for a retired one, and two persons behind every key.
\<close>

section \<open>The documented steps\<close>

definition req_id :: "request_row \<Rightarrow> string" where
  "req_id r = rq_ID (rr_Request r)"

definition rotate_key :: "string \<Rightarrow> int \<Rightarrow> int \<Rightarrow> Key \<Rightarrow> Key" where
  "rotate_key deviceID grace now k =
     (if ky_DeviceID k \<noteq> deviceID then k
      else if ky_Status k = KeyPrevious \<and> ky_RotatedAt k < now - grace then k\<lparr>ky_Status := KeyRevoked\<rparr>
      else if ky_Status k = KeyCurrent then k\<lparr>ky_Status := KeyPrevious, ky_RotatedAt := now\<rparr>
      else k)"

definition revoke_key :: "string \<Rightarrow> Key \<Rightarrow> Key" where
  "revoke_key deviceID k = (if ky_DeviceID k = deviceID then k\<lparr>ky_Status := KeyRevoked\<rparr> else k)"

definition terminal :: "device_status \<Rightarrow> bool" where
  "terminal st \<longleftrightarrow> st = StatusRevoked \<or> st = StatusDecommissioned"

text \<open>A pending request of the tenant that someone other than its maker decides.\<close>

definition decidable :: "string \<Rightarrow> string \<Rightarrow> device_db \<Rightarrow> request_row \<Rightarrow> bool" where
  "decidable tenant checker s r \<longleftrightarrow>
     r \<in> set (dd_requests s) \<and> rq_TenantID (rr_Request r) = tenant \<and> rq_Status (rr_Request r) = RequestPending
     \<and> rq_RequestedBy (rr_Request r) \<noteq> checker"

inductive device_step :: "string \<Rightarrow> device_db \<Rightarrow> device_db \<Rightarrow> bool" for tenant where
  request: "i \<notin> req_id ` set (dd_requests s) \<Longrightarrow>
    device_step tenant s (s\<lparr>dd_requests := dd_requests s @ [new_request i tenant payload maker now]\<rparr>)"
| provision: "decidable tenant checker s r \<Longrightarrow> rq_Payload (rr_Request r) = PayloadProvision p \<Longrightarrow>
    decodePublicKey (pp_PublicKey p) = Some pk \<Longrightarrow> ValidKind (pp_Kind p) \<Longrightarrow> dev \<notin> dv_ID ` set (dd_devices s) \<Longrightarrow>
    length hash = 32 \<Longrightarrow>
    device_step tenant s
      (s\<lparr>dd_devices := dd_devices s @ [new_device dev tenant p (rq_RequestedBy (rr_Request r)) now],
         dd_keys := dd_keys s @ [first_epoch dev pk now],
         dd_requests := replace_row req_id (decide RequestApproved checker now (Some dev) (Some hash) r) (dd_requests s)\<rparr>)"
| rotate: "decidable tenant checker s r \<Longrightarrow> rq_Payload (rr_Request r) = PayloadRotate p \<Longrightarrow>
    decodePublicKey (rp_PublicKey p) = Some pk \<Longrightarrow> d \<in> set (dd_devices s) \<Longrightarrow> dv_ID d = rp_DeviceID p \<Longrightarrow>
    dv_TenantID d = tenant \<Longrightarrow> dv_Status d = StatusActive \<Longrightarrow>
    device_step tenant s
      (s\<lparr>dd_devices := replace_row dv_ID (d\<lparr>dv_KeyEpoch := dv_KeyEpoch d + 1, dv_UpdatedAt := now\<rparr>) (dd_devices s),
         dd_keys := map (rotate_key (dv_ID d) grace now) (dd_keys s) @
           [\<lparr>ky_DeviceID = dv_ID d, ky_Epoch = dv_KeyEpoch d + 1, ky_PublicKey = pk, ky_Status = KeyCurrent, ky_RotatedAt = now\<rparr>],
         dd_requests := replace_row req_id (decide RequestApproved checker now (Some (dv_ID d)) None r) (dd_requests s)\<rparr>)"
| reject: "decidable tenant checker s r \<Longrightarrow>
    device_step tenant s (s\<lparr>dd_requests := replace_row req_id (decide RequestRejected checker now None None r) (dd_requests s)\<rparr>)"
| status: "d \<in> set (dd_devices s) \<Longrightarrow> dv_TenantID d = tenant \<Longrightarrow> ValidateStatusTransition (dv_Status d) target = Some st \<Longrightarrow>
    device_step tenant s
      (s\<lparr>dd_devices := replace_row dv_ID (d\<lparr>dv_Status := st, dv_UpdatedAt := now\<rparr>) (dd_devices s),
         dd_keys := (if terminal st then map (revoke_key (dv_ID d)) (dd_keys s) else dd_keys s)\<rparr>)"
| release: "fl_ID r \<notin> fl_ID ` set (dd_releases s) \<Longrightarrow> fl_TenantID r = tenant \<Longrightarrow> release_columns r \<Longrightarrow>
    device_step tenant s (s\<lparr>dd_releases := dd_releases s @ [r]\<rparr>)"

text \<open>The steps of the verification path.\<close>

inductive plane_step :: "device_db \<Rightarrow> device_db \<Rightarrow> bool" where
  consume: "r \<in> set (dd_requests s) \<Longrightarrow> rq_Status (rr_Request r) = RequestApproved \<Longrightarrow> rr_ActivationSecretHash r \<noteq> None \<Longrightarrow>
    plane_step s (s\<lparr>dd_requests := replace_row req_id (consume_row r) (dd_requests s)\<rparr>)"
| audit: "plane_step s (s\<lparr>dd_audit := dd_audit s @ [a]\<rparr>)"

section \<open>The invariant\<close>

definition device_ok :: "device_db \<Rightarrow> Device \<Rightarrow> bool" where
  "device_ok s d \<longleftrightarrow>
     1 \<le> dv_KeyEpoch d
     \<and> ky_Epoch ` {k \<in> set (dd_keys s). ky_DeviceID k = dv_ID d} = {1 .. dv_KeyEpoch d}
     \<and> (\<forall>k\<in>set (dd_keys s). ky_DeviceID k = dv_ID d \<longrightarrow>
          (if terminal (dv_Status d) then ky_Status k = KeyRevoked
           else (ky_Status k = KeyCurrent) = (ky_Epoch k = dv_KeyEpoch d)))"

definition payload_key :: "request_payload \<Rightarrow> string option" where
  "payload_key p = (case p of
     PayloadProvision q \<Rightarrow> decodePublicKey (pp_PublicKey q)
   | PayloadRotate q \<Rightarrow> decodePublicKey (rp_PublicKey q)
   | PayloadOther _ \<Rightarrow> None)"

text \<open>A decided request was decided by someone other than its maker; only a provisioned one can be consumed.\<close>

definition request_ok :: "request_row \<Rightarrow> bool" where
  "request_ok r \<longleftrightarrow>
     (let q = rr_Request r in
      (rq_Status q = RequestPending) = (rq_DecidedBy q = None)
      \<and> rq_DecidedBy q \<noteq> Some (rq_RequestedBy q)
      \<and> (rq_Status q = RequestPending \<or> rq_Status q = RequestRejected \<longrightarrow> rq_DeviceID q = None \<and> rr_ActivationSecretHash r = None)
      \<and> (rq_Status q = RequestApproved \<or> rq_Status q = RequestConsumed \<longrightarrow> rq_DeviceID q \<noteq> None)
      \<and> (rq_Status q = RequestConsumed \<longrightarrow> rr_ActivationSecretHash r \<noteq> None))"

definition vouched :: "device_db \<Rightarrow> Key \<Rightarrow> bool" where
  "vouched s k \<longleftrightarrow>
     (\<exists>r\<in>set (dd_requests s). rq_DeviceID (rr_Request r) = Some (ky_DeviceID k)
        \<and> payload_key (rq_Payload (rr_Request r)) = Some (ky_PublicKey k)
        \<and> rq_Status (rr_Request r) \<in> {RequestApproved, RequestConsumed}
        \<and> (\<exists>d\<in>set (dd_devices s). dv_ID d = ky_DeviceID k \<and> dv_TenantID d = rq_TenantID (rr_Request r)))"

definition devices_inv :: "device_db \<Rightarrow> bool" where
  "devices_inv s \<longleftrightarrow>
     distinct (map dv_ID (dd_devices s))
     \<and> distinct (map req_id (dd_requests s))
     \<and> distinct (map (\<lambda>k. (ky_DeviceID k, ky_Epoch k)) (dd_keys s))
     \<and> ky_DeviceID ` set (dd_keys s) \<subseteq> dv_ID ` set (dd_devices s)
     \<and> (\<forall>d\<in>set (dd_devices s). device_ok s d)
     \<and> (\<forall>r\<in>set (dd_requests s). request_ok r)
     \<and> (\<forall>k\<in>set (dd_keys s). vouched s k)"

lemma devices_invI:
  assumes "distinct (map dv_ID (dd_devices s))" "distinct (map req_id (dd_requests s))"
    "distinct (map (\<lambda>k. (ky_DeviceID k, ky_Epoch k)) (dd_keys s))"
    "ky_DeviceID ` set (dd_keys s) \<subseteq> dv_ID ` set (dd_devices s)"
    "\<And>d. d \<in> set (dd_devices s) \<Longrightarrow> device_ok s d" "\<forall>r\<in>set (dd_requests s). request_ok r"
    "\<And>k. k \<in> set (dd_keys s) \<Longrightarrow> vouched s k"
  shows "devices_inv s"
  using assms unfolding devices_inv_def by blast

lemma devices_invD:
  assumes "devices_inv s"
  shows "distinct (map dv_ID (dd_devices s))" "distinct (map req_id (dd_requests s))"
    "distinct (map (\<lambda>k. (ky_DeviceID k, ky_Epoch k)) (dd_keys s))"
    "ky_DeviceID ` set (dd_keys s) \<subseteq> dv_ID ` set (dd_devices s)"
    "d \<in> set (dd_devices s) \<Longrightarrow> device_ok s d" "\<forall>r\<in>set (dd_requests s). request_ok r"
    "k \<in> set (dd_keys s) \<Longrightarrow> vouched s k"
  using assms unfolding devices_inv_def by blast+

lemma empty_devices_inv: "devices_inv empty_devices"
  by (simp add: devices_inv_def empty_devices_def)

section \<open>Replacing one row\<close>

lemma replace_row_keys:
  assumes "ident r' = ident r"
  shows "map ident (replace_row ident r' rows) = map ident rows"
  using assms by (induction rows) (auto simp: replace_row_def)

lemma replace_row_set:
  assumes "distinct (map ident rows)" "r \<in> set rows" "ident r' = ident r"
  shows "set (replace_row ident r' rows) = insert r' (set rows - {r})"
proof -
  have "(if ident x = ident r' then r' else x) = (if x = r then r' else x)" if "x \<in> set rows" for x
    using that assms by (metis distinct_map inj_onD)
  then have "set (replace_row ident r' rows) = (\<lambda>x. if x = r then r' else x) ` set rows"
    unfolding replace_row_def set_map by (rule image_cong [OF refl])
  also have "\<dots> = (\<lambda>x. if x = r then r' else x) ` insert r (set rows - {r})"
    using assms(2) by (simp add: insert_absorb)
  also have "\<dots> = insert r' ((\<lambda>x. if x = r then r' else x) ` (set rows - {r}))"
    by (simp only: image_insert if_True simp_thms)
  also have "(\<lambda>x. if x = r then r' else x) ` (set rows - {r}) = id ` (set rows - {r})"
    by (rule image_cong) auto
  finally show ?thesis by auto
qed

lemma update_rows_replace:
  assumes "update_rows hit f ok rows = Some rows'" "distinct (map ident rows)" "r \<in> set rows" "hit r"
    "\<And>x. x \<in> set rows \<Longrightarrow> hit x \<Longrightarrow> ident x = ident r" "ident (f r) = ident r"
  shows "rows' = replace_row ident (f r) rows \<and> ok (f r)"
proof -
  have only: "x = r" if "x \<in> set rows" "ident x = ident r" for x
    using that assms(2,3) by (metis distinct_map inj_onD)
  have ok: "ok (f r)" and rows': "rows' = map (\<lambda>x. if hit x then f x else x) rows"
    using assms(1,3,4) by (auto simp: update_rows_def split: if_splits)
  have "map (\<lambda>x. if hit x then f x else x) rows = replace_row ident (f r) rows"
    unfolding replace_row_def using only assms(4-6) by (intro map_cong [OF refl]) metis
  with ok rows' show ?thesis by simp
qed

section \<open>Every step keeps the invariant\<close>

lemma decide_sel [simp]:
  "req_id (decide st c now i h r) = req_id r"
  "rq_Payload (rr_Request (decide st c now i h r)) = rq_Payload (rr_Request r)"
  "rq_TenantID (rr_Request (decide st c now i h r)) = rq_TenantID (rr_Request r)"
  "rq_Status (rr_Request (decide st c now i h r)) = st"
  "rq_RequestedBy (rr_Request (decide st c now i h r)) = rq_RequestedBy (rr_Request r)"
  "rq_DecidedBy (rr_Request (decide st c now i h r)) = Some c"
  "rq_DeviceID (rr_Request (decide st c now (Some dev) h r)) = Some dev"
  "rq_DeviceID (rr_Request (decide st c now None h r)) = rq_DeviceID (rr_Request r)"
  "rr_ActivationSecretHash (decide st c now i (Some x) r) = Some x"
  "rr_ActivationSecretHash (decide st c now i None r) = rr_ActivationSecretHash r"
  by (simp_all add: decide_def req_id_def)

lemma consume_sel [simp]:
  "req_id (consume_row r) = req_id r"
  "rr_Request (consume_row r) = (rr_Request r)\<lparr>rq_Status := RequestConsumed\<rparr>"
  "rr_ActivationSecretHash (consume_row r) = rr_ActivationSecretHash r"
  by (simp_all add: consume_row_def req_id_def)

text \<open>What vouches for a key survives when approved requests stay approved or are consumed.\<close>

definition carried :: "device_db \<Rightarrow> device_db \<Rightarrow> bool" where
  "carried s s' \<longleftrightarrow>
     (\<forall>r\<in>set (dd_requests s). rq_Status (rr_Request r) \<in> {RequestApproved, RequestConsumed} \<longrightarrow>
        (\<exists>r'\<in>set (dd_requests s'). rq_DeviceID (rr_Request r') = rq_DeviceID (rr_Request r)
           \<and> rq_Payload (rr_Request r') = rq_Payload (rr_Request r) \<and> rq_TenantID (rr_Request r') = rq_TenantID (rr_Request r)
           \<and> rq_Status (rr_Request r') \<in> {RequestApproved, RequestConsumed}))
     \<and> (\<lambda>d. (dv_ID d, dv_TenantID d)) ` set (dd_devices s) \<subseteq> (\<lambda>d. (dv_ID d, dv_TenantID d)) ` set (dd_devices s')"

lemma vouched_carried:
  assumes "carried s s'" "vouched s k" "ky_DeviceID k' = ky_DeviceID k" "ky_PublicKey k' = ky_PublicKey k"
  shows "vouched s' k'"
proof -
  from assms(2) obtain r d where r: "r \<in> set (dd_requests s)" "rq_DeviceID (rr_Request r) = Some (ky_DeviceID k)"
    "payload_key (rq_Payload (rr_Request r)) = Some (ky_PublicKey k)"
    "rq_Status (rr_Request r) \<in> {RequestApproved, RequestConsumed}"
    and d: "d \<in> set (dd_devices s)" "dv_ID d = ky_DeviceID k" "rq_TenantID (rr_Request r) = dv_TenantID d"
    unfolding vouched_def by metis
  from assms(1) r obtain r' where r': "r' \<in> set (dd_requests s')" "rq_DeviceID (rr_Request r') = rq_DeviceID (rr_Request r)"
    "rq_Payload (rr_Request r') = rq_Payload (rr_Request r)" "rq_TenantID (rr_Request r') = rq_TenantID (rr_Request r)"
    "rq_Status (rr_Request r') \<in> {RequestApproved, RequestConsumed}"
    unfolding carried_def by blast
  from assms(1) d(1) have "(dv_ID d, dv_TenantID d) \<in> (\<lambda>d. (dv_ID d, dv_TenantID d)) ` set (dd_devices s')"
    unfolding carried_def by blast
  then obtain d' where "d' \<in> set (dd_devices s')" "dv_ID d' = dv_ID d" "dv_TenantID d' = dv_TenantID d" by auto
  with r r' d assms(3,4) show ?thesis
    unfolding vouched_def by (intro bexI [OF _ r'(1)] conjI bexI [of _ d']) auto
qed

lemma carried_requests:
  assumes "distinct (map req_id (dd_requests s))" "r \<in> set (dd_requests s)" "req_id r' = req_id r"
    and "rq_Status (rr_Request r) \<in> {RequestApproved, RequestConsumed} \<Longrightarrow>
      rq_DeviceID (rr_Request r') = rq_DeviceID (rr_Request r) \<and> rq_Payload (rr_Request r') = rq_Payload (rr_Request r)
      \<and> rq_TenantID (rr_Request r') = rq_TenantID (rr_Request r)
      \<and> rq_Status (rr_Request r') \<in> {RequestApproved, RequestConsumed}"
    and "dd_requests s' = replace_row req_id r' (dd_requests s)"
    and "(\<lambda>d. (dv_ID d, dv_TenantID d)) ` set (dd_devices s) \<subseteq> (\<lambda>d. (dv_ID d, dv_TenantID d)) ` set (dd_devices s')"
  shows "carried s s'"
proof -
  have "set (dd_requests s') = insert r' (set (dd_requests s) - {r})"
    using replace_row_set [OF assms(1-3)] assms(5) by simp
  then show ?thesis unfolding carried_def
    using assms(4,6) by (metis (no_types, lifting) DiffI insertCI singletonD)
qed

lemma carried_devices:
  assumes "dd_requests s' = dd_requests s"
    "(\<lambda>d. (dv_ID d, dv_TenantID d)) ` set (dd_devices s) \<subseteq> (\<lambda>d. (dv_ID d, dv_TenantID d)) ` set (dd_devices s')"
  shows "carried s s'"
  unfolding carried_def assms(1) using assms(2) by blast

lemma replaced_identity:
  assumes "distinct (map dv_ID ds)" "d \<in> set ds" "dv_ID d' = dv_ID d" "dv_TenantID d' = dv_TenantID d"
  shows "(\<lambda>d. (dv_ID d, dv_TenantID d)) ` set (replace_row dv_ID d' ds) = (\<lambda>d. (dv_ID d, dv_TenantID d)) ` set ds"
    "dv_ID ` set (replace_row dv_ID d' ds) = dv_ID ` set ds"
  unfolding replace_row_set [OF assms(1-3)] using assms(2-4) by (auto simp: image_iff)

text \<open>The requests after one of them was replaced.\<close>

lemma replaced_requests:
  assumes "devices_inv s" "r \<in> set (dd_requests s)" "req_id r' = req_id r" "request_ok r'"
  shows "distinct (map req_id (replace_row req_id r' (dd_requests s)))"
    "\<forall>x\<in>set (replace_row req_id r' (dd_requests s)). request_ok x"
proof -
  have d: "distinct (map req_id (dd_requests s))" using assms(1) by (simp add: devices_inv_def)
  show "distinct (map req_id (replace_row req_id r' (dd_requests s)))"
    using d replace_row_keys [where ident = req_id, OF assms(3)] by simp
  show "\<forall>x\<in>set (replace_row req_id r' (dd_requests s)). request_ok x"
    unfolding replace_row_set [OF d assms(2,3)] using assms(1,4) by (auto simp: devices_inv_def)
qed

lemma device_ok_cong:
  assumes "device_ok s d" "\<And>k. ky_DeviceID k = dv_ID d \<Longrightarrow> k \<in> set (dd_keys s') \<longleftrightarrow> k \<in> set (dd_keys s)"
  shows "device_ok s' d"
proof -
  have "{k \<in> set (dd_keys s'). ky_DeviceID k = dv_ID d} = {k \<in> set (dd_keys s). ky_DeviceID k = dv_ID d}"
    using assms(2) by blast
  with assms show ?thesis unfolding device_ok_def by auto
qed

lemma device_okI:
  assumes "1 \<le> dv_KeyEpoch d" "ky_Epoch ` {k \<in> set (dd_keys s). ky_DeviceID k = dv_ID d} = {1 .. dv_KeyEpoch d}"
    "\<And>k. k \<in> set (dd_keys s) \<Longrightarrow> ky_DeviceID k = dv_ID d \<Longrightarrow>
       (if terminal (dv_Status d) then ky_Status k = KeyRevoked else (ky_Status k = KeyCurrent) = (ky_Epoch k = dv_KeyEpoch d))"
  shows "device_ok s d"
  using assms unfolding device_ok_def by blast

lemma device_okD:
  assumes "device_ok s d"
  shows "1 \<le> dv_KeyEpoch d" "ky_Epoch ` {k \<in> set (dd_keys s). ky_DeviceID k = dv_ID d} = {1 .. dv_KeyEpoch d}"
    "k \<in> set (dd_keys s) \<Longrightarrow> ky_DeviceID k = dv_ID d \<Longrightarrow>
       (if terminal (dv_Status d) then ky_Status k = KeyRevoked else (ky_Status k = KeyCurrent) = (ky_Epoch k = dv_KeyEpoch d))"
  using assms unfolding device_ok_def by blast+

lemma request_step_inv:
  assumes inv: "devices_inv s" and "i \<notin> req_id ` set (dd_requests s)"
  shows "devices_inv (s\<lparr>dd_requests := dd_requests s @ [new_request i tenant payload maker now]\<rparr>)"
proof -
  let ?s = "s\<lparr>dd_requests := dd_requests s @ [new_request i tenant payload maker now]\<rparr>"
  have "carried s ?s" by (auto simp: carried_def)
  then have "vouched ?s k" if "vouched s k" for k using vouched_carried that by blast
  moreover have "request_ok (new_request i tenant payload maker now)" "req_id (new_request i tenant payload maker now) = i"
    by (simp_all add: request_ok_def new_request_def Let_def req_id_def)
  moreover have "device_ok ?s d" if "device_ok s d" for d by (rule device_ok_cong [OF that]) simp
  ultimately show ?thesis using inv assms(2) unfolding devices_inv_def by auto
qed

lemma decided_ok:
  assumes "devices_inv s" "decidable tenant checker s r"
  shows "request_ok (decide RequestApproved checker now (Some dev) h r)"
    "request_ok (decide RequestRejected checker now None None r)"
  using assms by (auto simp: devices_inv_def decidable_def request_ok_def Let_def)

lemma provision_step_inv:
  assumes inv: "devices_inv s" and r: "decidable tenant checker s r" "rq_Payload (rr_Request r) = PayloadProvision p"
    "decodePublicKey (pp_PublicKey p) = Some pk" and dev: "dev \<notin> dv_ID ` set (dd_devices s)"
  shows "devices_inv (s\<lparr>dd_devices := dd_devices s @ [new_device dev tenant p maker now],
         dd_keys := dd_keys s @ [first_epoch dev pk now],
         dd_requests := replace_row req_id (decide RequestApproved checker now (Some dev) (Some hash) r) (dd_requests s)\<rparr>)"
    (is "devices_inv ?s")
proof -
  let ?r = "decide RequestApproved checker now (Some dev) (Some hash) r"
  have rin: "r \<in> set (dd_requests s)" using r(1) by (simp add: decidable_def)
  have dist: "distinct (map req_id (dd_requests s))" using inv by (simp add: devices_inv_def)
  have nokey: "dev \<notin> ky_DeviceID ` set (dd_keys s)" using inv dev by (auto simp: devices_inv_def)
  have "carried s ?s"
    by (rule carried_requests [OF dist rin, of ?r]) (use r(1) in \<open>auto simp: decidable_def\<close>)
  then have old: "vouched ?s k" if "vouched s k" for k using vouched_carried that by blast
  have "?r \<in> set (dd_requests ?s)" using replace_row_set [OF dist rin, of ?r] by simp
  then have new: "vouched ?s (first_epoch dev pk now)"
    unfolding vouched_def using r by (intro bexI [of _ ?r]) (auto simp: first_epoch_def payload_key_def new_device_def decidable_def)
  have okold: "device_ok ?s d" if d: "d \<in> set (dd_devices s)" for d
  proof (rule device_ok_cong [OF devices_invD(5) [OF inv d]])
    fix k :: Key
    assume "ky_DeviceID k = dv_ID d"
    then have "k \<noteq> first_epoch dev pk now" using d dev by (auto simp: first_epoch_def)
    then show "k \<in> set (dd_keys ?s) \<longleftrightarrow> k \<in> set (dd_keys s)" by simp
  qed
  have only: "k = first_epoch dev pk now" if "k \<in> set (dd_keys ?s)" "ky_DeviceID k = dev" for k
    using that nokey by auto
  moreover have "first_epoch dev pk now \<in> {k \<in> set (dd_keys ?s). ky_DeviceID k = dev}" by (simp add: first_epoch_def)
  ultimately have "{k \<in> set (dd_keys ?s). ky_DeviceID k = dev} = {first_epoch dev pk now}" by blast
  then have "ky_Epoch ` {k \<in> set (dd_keys ?s). ky_DeviceID k = dev} = {1}" by (simp add: first_epoch_def)
  moreover have "ky_Status k = KeyCurrent \<and> ky_Epoch k = 1" if "k \<in> set (dd_keys ?s)" "ky_DeviceID k = dev" for k
    using only [OF that] by (simp add: first_epoch_def)
  ultimately have oknew: "device_ok ?s (new_device dev tenant p maker now)"
    by (intro device_okI) (simp_all add: new_device_def terminal_def)
  note reqs = replaced_requests [OF inv rin decide_sel(1) decided_ok(1) [OF inv r(1)], of now dev "Some hash"]
  show ?thesis
  proof (rule devices_invI, goal_cases)
    case 1
    show ?case using devices_invD(1) [OF inv] dev by (simp add: new_device_def)
  next
    case 2
    show ?case using reqs(1) by simp
  next
    case 3
    show ?case using devices_invD(3) [OF inv] nokey by (auto simp: first_epoch_def)
  next
    case 4
    show ?case using devices_invD(4) [OF inv] by (auto simp: first_epoch_def new_device_def)
  next
    case (5 d)
    then show ?case using okold oknew by auto
  next
    case 6
    show ?case using reqs(2) by simp
  next
    case (7 k)
    then show ?case using old [OF devices_invD(7) [OF inv]] new by auto
  qed
qed

text \<open>Steps that replace one request and leave devices and keys alone.\<close>

lemma request_replaced_inv:
  assumes inv: "devices_inv s" and rin: "r \<in> set (dd_requests s)" and r': "req_id r' = req_id r" "request_ok r'"
    and same: "rq_Status (rr_Request r) \<in> {RequestApproved, RequestConsumed} \<Longrightarrow>
      rq_DeviceID (rr_Request r') = rq_DeviceID (rr_Request r) \<and> rq_Payload (rr_Request r') = rq_Payload (rr_Request r)
      \<and> rq_TenantID (rr_Request r') = rq_TenantID (rr_Request r) \<and> rq_Status (rr_Request r') \<in> {RequestApproved, RequestConsumed}"
  shows "devices_inv (s\<lparr>dd_requests := replace_row req_id r' (dd_requests s)\<rparr>)" (is "devices_inv ?s")
proof -
  have "carried s ?s"
    by (rule carried_requests [OF devices_invD(2) [OF inv] rin r'(1) same]) auto
  then have old: "vouched ?s k" if "vouched s k" for k using vouched_carried that by blast
  have ok: "device_ok ?s d" if "device_ok s d" for d by (rule device_ok_cong [OF that]) simp
  show ?thesis
    by (rule devices_invI)
      (use devices_invD [OF inv] replaced_requests [OF inv rin r'] old ok in simp_all)
qed

lemma rotate_key_sel [simp]:
  "ky_DeviceID (rotate_key dev g now k) = ky_DeviceID k" "ky_Epoch (rotate_key dev g now k) = ky_Epoch k"
  "ky_PublicKey (rotate_key dev g now k) = ky_PublicKey k"
  "ky_DeviceID k \<noteq> dev \<Longrightarrow> rotate_key dev g now k = k"
  by (simp_all add: rotate_key_def)

lemma rotate_key_status: "ky_DeviceID k = dev \<Longrightarrow> ky_Status (rotate_key dev g now k) \<noteq> KeyCurrent"
  by (cases "ky_Status k") (simp_all add: rotate_key_def)

lemma revoke_key_sel [simp]:
  "ky_DeviceID (revoke_key dev k) = ky_DeviceID k" "ky_Epoch (revoke_key dev k) = ky_Epoch k"
  "ky_PublicKey (revoke_key dev k) = ky_PublicKey k" "ky_DeviceID k \<noteq> dev \<Longrightarrow> revoke_key dev k = k"
  "ky_DeviceID k = dev \<Longrightarrow> ky_Status (revoke_key dev k) = KeyRevoked"
  by (simp_all add: revoke_key_def)

text \<open>Keys of other devices are the same before and after a map that fixes them.\<close>

lemma mapped_keys_other:
  assumes "\<And>k. ky_DeviceID k \<noteq> dev \<Longrightarrow> f k = k" "\<And>k. ky_DeviceID (f k) = ky_DeviceID k" "ky_DeviceID k \<noteq> dev"
  shows "k \<in> f ` set ks \<longleftrightarrow> k \<in> set ks"
  using assms by (metis image_iff)

lemma status_step_inv:
  assumes inv: "devices_inv s" and d: "d \<in> set (dd_devices s)" "ValidateStatusTransition (dv_Status d) target = Some st"
  shows "devices_inv
      (s\<lparr>dd_devices := replace_row dv_ID (d\<lparr>dv_Status := st, dv_UpdatedAt := now\<rparr>) (dd_devices s),
         dd_keys := (if terminal st then map (revoke_key (dv_ID d)) (dd_keys s) else dd_keys s)\<rparr>)"
    (is "devices_inv ?s")
proof -
  let ?d = "d\<lparr>dv_Status := st, dv_UpdatedAt := now\<rparr>"
  define f where "f = (if terminal st then revoke_key (dv_ID d) else id)"
  have keys: "dd_keys ?s = map f (dd_keys s)" by (simp add: f_def)
  have f: "ky_DeviceID (f k) = ky_DeviceID k" "ky_Epoch (f k) = ky_Epoch k" "ky_PublicKey (f k) = ky_PublicKey k"
    "ky_DeviceID k \<noteq> dv_ID d \<Longrightarrow> f k = k" for k by (simp_all add: f_def)
  have sel: "dv_ID ?d = dv_ID d" "dv_TenantID ?d = dv_TenantID d" by simp_all
  note ds = replace_row_set [OF devices_invD(1) [OF inv] d(1) sel(1)]
  note ident = replaced_identity [OF devices_invD(1) [OF inv] d(1) sel]
  have devs: "dd_devices ?s = replace_row dv_ID ?d (dd_devices s)" by simp
  have c: "carried s ?s" by (rule carried_devices) (simp, simp only: devs ident(1) order.refl)
  have v: "vouched ?s (f k)" if "vouched s k" for k by (rule vouched_carried [OF c that f(1) f(3)])
  have living: "\<not> terminal (dv_Status d)" using d(2) by (simp add: ValidateStatusTransition_Some terminal_def)
  have "{k \<in> set (dd_keys ?s). ky_DeviceID k = dv_ID d} = f ` {k \<in> set (dd_keys s). ky_DeviceID k = dv_ID d}"
    unfolding keys using f(1) by auto
  then have "ky_Epoch ` {k \<in> set (dd_keys ?s). ky_DeviceID k = dv_ID d} = ky_Epoch ` {k \<in> set (dd_keys s). ky_DeviceID k = dv_ID d}"
    by (simp add: image_image f(2))
  then have okd: "device_ok ?s ?d"
  proof (intro device_okI, goal_cases)
    case (3 k)
    then obtain k0 where k0: "k0 \<in> set (dd_keys s)" "k = f k0" "ky_DeviceID k0 = dv_ID d"
      unfolding keys using f(1) by auto
    from device_okD(3) [OF devices_invD(5) [OF inv d(1)] k0(1,3)] living k0
    show ?case by (auto simp: f_def)
  qed (use device_okD [OF devices_invD(5) [OF inv d(1)]] in simp_all)
  have oko: "device_ok ?s x" if x: "x \<in> set (dd_devices s)" "x \<noteq> d" for x
  proof (rule device_ok_cong [OF devices_invD(5) [OF inv x(1)]])
    fix k :: Key
    assume "ky_DeviceID k = dv_ID x"
    moreover have "dv_ID x \<noteq> dv_ID d" using x d(1) devices_invD(1) [OF inv] by (metis distinct_map inj_onD)
    ultimately show "k \<in> set (dd_keys ?s) \<longleftrightarrow> k \<in> set (dd_keys s)"
      unfolding keys set_map using mapped_keys_other [of "dv_ID d" f k] f by metis
  qed
  show ?thesis
  proof (rule devices_invI, goal_cases)
    case 1
    show ?case unfolding devs replace_row_keys [where ident = dv_ID, OF sel(1)] by (rule devices_invD(1) [OF inv])
  next
    case 3
    show ?case unfolding keys using devices_invD(3) [OF inv] by (simp add: comp_def f)
  next
    case 4
    show ?case unfolding keys devs ident(2) using devices_invD(4) [OF inv] by (simp add: image_image f)
  next
    case (5 x)
    then show ?case unfolding devs ds using okd oko by blast
  next
    case (7 k)
    then show ?case unfolding keys using v devices_invD(7) [OF inv] by auto
  qed (use devices_invD [OF inv] in simp_all)
qed

text \<open>The epochs of a device after a rotation: the old ones and the next.\<close>

lemma rotate_step_inv:
  assumes inv: "devices_inv s" and r: "decidable tenant checker s r" "rq_Payload (rr_Request r) = PayloadRotate p"
    "decodePublicKey (rp_PublicKey p) = Some pk"
    and d: "d \<in> set (dd_devices s)" "dv_TenantID d = tenant" "dv_Status d = StatusActive"
  shows "devices_inv
      (s\<lparr>dd_devices := replace_row dv_ID (d\<lparr>dv_KeyEpoch := dv_KeyEpoch d + 1, dv_UpdatedAt := now\<rparr>) (dd_devices s),
         dd_keys := map (rotate_key (dv_ID d) grace now) (dd_keys s) @
           [\<lparr>ky_DeviceID = dv_ID d, ky_Epoch = dv_KeyEpoch d + 1, ky_PublicKey = pk, ky_Status = KeyCurrent, ky_RotatedAt = now\<rparr>],
         dd_requests := replace_row req_id (decide RequestApproved checker now (Some (dv_ID d)) None r) (dd_requests s)\<rparr>)"
    (is "devices_inv ?s")
proof -
  let ?d = "d\<lparr>dv_KeyEpoch := dv_KeyEpoch d + 1, dv_UpdatedAt := now\<rparr>"
  let ?k = "\<lparr>ky_DeviceID = dv_ID d, ky_Epoch = dv_KeyEpoch d + 1, ky_PublicKey = pk, ky_Status = KeyCurrent, ky_RotatedAt = now\<rparr>"
  let ?r = "decide RequestApproved checker now (Some (dv_ID d)) None r"
  let ?f = "rotate_key (dv_ID d) grace now"
  have keys: "dd_keys ?s = map ?f (dd_keys s) @ [?k]" and devs: "dd_devices ?s = replace_row dv_ID ?d (dd_devices s)"
    and reqs: "dd_requests ?s = replace_row req_id ?r (dd_requests s)" by simp_all
  have rin: "r \<in> set (dd_requests s)" using r(1) by (simp add: decidable_def)
  have sel: "dv_ID ?d = dv_ID d" "dv_TenantID ?d = dv_TenantID d" by simp_all
  note ds = replace_row_set [OF devices_invD(1) [OF inv] d(1) sel(1)]
  note ident = replaced_identity [OF devices_invD(1) [OF inv] d(1) sel]
  note rs = replace_row_set [OF devices_invD(2) [OF inv] rin decide_sel(1)]
  note ok = device_okD [OF devices_invD(5) [OF inv d(1)]]
  have c: "carried s ?s"
    by (rule carried_requests [OF devices_invD(2) [OF inv] rin decide_sel(1) _ reqs])
      (use r(1) in \<open>simp add: decidable_def\<close>, simp only: devs ident(1) order.refl)
  have old: "vouched ?s (?f k)" if "vouched s k" for k by (rule vouched_carried [OF c that]) simp_all
  have "?r \<in> set (dd_requests ?s)" unfolding reqs rs by simp
  moreover have "?d \<in> set (dd_devices ?s)" unfolding devs ds by simp
  ultimately have new: "vouched ?s ?k"
    unfolding vouched_def using r d(2) by (intro bexI [of _ ?r] conjI bexI [of _ ?d]) (simp_all add: payload_key_def decidable_def)
  have epochs: "ky_Epoch k \<le> dv_KeyEpoch d" if "k \<in> set (dd_keys s)" "ky_DeviceID k = dv_ID d" for k
    using ok(2) that by auto
  have "{k \<in> set (dd_keys ?s). ky_DeviceID k = dv_ID d} = insert ?k (?f ` {k \<in> set (dd_keys s). ky_DeviceID k = dv_ID d})"
    unfolding keys by auto
  then have "ky_Epoch ` {k \<in> set (dd_keys ?s). ky_DeviceID k = dv_ID d} = insert (dv_KeyEpoch d + 1) {1 .. dv_KeyEpoch d}"
    by (simp add: image_image ok(2))
  also have "\<dots> = {1 .. dv_KeyEpoch d + 1}" using ok(1) by auto
  finally have okd: "device_ok ?s ?d"
  proof (intro device_okI, goal_cases)
    case (3 k)
    then consider "k = ?k" | k0 where "k0 \<in> set (dd_keys s)" "k = ?f k0" "ky_DeviceID k0 = dv_ID d"
      unfolding keys by auto
    then show ?case
    proof cases
      case 1
      then show ?thesis using d(3) by (simp add: terminal_def)
    next
      case 2
      with rotate_key_status [OF 2(3)] epochs [OF 2(1,3)] d(3) show ?thesis by (simp add: terminal_def)
    qed
  qed (use ok(1) in simp_all)
  have oko: "device_ok ?s x" if x: "x \<in> set (dd_devices s)" "x \<noteq> d" for x
  proof (rule device_ok_cong [OF devices_invD(5) [OF inv x(1)]])
    fix k :: Key
    assume "ky_DeviceID k = dv_ID x"
    moreover have "dv_ID x \<noteq> dv_ID d" using x d(1) devices_invD(1) [OF inv] by (metis distinct_map inj_onD)
    ultimately have k: "ky_DeviceID k \<noteq> dv_ID d" by simp
    have "k \<in> ?f ` set (dd_keys s) \<longleftrightarrow> k \<in> set (dd_keys s)"
      by (rule mapped_keys_other [OF _ _ k]) simp_all
    moreover have "k \<noteq> ?k" using k by auto
    ultimately show "k \<in> set (dd_keys ?s) \<longleftrightarrow> k \<in> set (dd_keys s)" unfolding keys by simp
  qed
  note rr = replaced_requests [OF inv rin decide_sel(1) decided_ok(1) [OF inv r(1)]]
  show ?thesis
  proof (rule devices_invI, goal_cases)
    case 1
    show ?case unfolding devs replace_row_keys [where ident = dv_ID, OF sel(1)] by (rule devices_invD(1) [OF inv])
  next
    case 2
    show ?case unfolding reqs by (rule rr(1))
  next
    case 3
    show ?case unfolding keys using devices_invD(3) [OF inv] epochs by (fastforce simp: comp_def)
  next
    case 4
    show ?case unfolding keys devs ident(2) using devices_invD(4) [OF inv] d(1) by (auto simp: image_image)
  next
    case (5 x)
    then show ?case unfolding devs ds using okd oko by blast
  next
    case 6
    show ?case unfolding reqs by (rule rr(2))
  next
    case (7 k)
    then show ?case unfolding keys using old devices_invD(7) [OF inv] new by auto
  qed
qed

lemma device_step_inv: "device_step tenant s s' \<Longrightarrow> devices_inv s \<Longrightarrow> devices_inv s'"
proof (induction rule: device_step.induct)
  case (request i s payload maker now)
  then show ?case by (rule request_step_inv [rotated])
next
  case (provision checker s r p pk dev hash now)
  then show ?case by (intro provision_step_inv)
next
  case (rotate checker s r p pk d now grace)
  then show ?case by (intro rotate_step_inv)
next
  case (reject checker s r now)
  then show ?case
    by (intro request_replaced_inv [OF _ _ decide_sel(1) decided_ok(2)]) (auto simp: decidable_def)
next
  case (status d s target st now)
  then show ?case by (intro status_step_inv)
next
  case (release r s)
  have ok: "device_ok (s\<lparr>dd_releases := rs\<rparr>) d = device_ok s d" "vouched (s\<lparr>dd_releases := rs\<rparr>) k = vouched s k" for d k rs
    by (simp_all add: device_ok_def vouched_def)
  from release show ?case unfolding devices_inv_def ok by simp
qed

lemma plane_step_inv: "plane_step s s' \<Longrightarrow> devices_inv s \<Longrightarrow> devices_inv s'"
proof (induction rule: plane_step.induct)
  case (consume r s)
  then have "request_ok r" by (simp add: devices_invD(6))
  with consume show ?case
    by (intro request_replaced_inv) (auto simp: request_ok_def Let_def)
next
  case (audit s a)
  have ok: "device_ok (s\<lparr>dd_audit := rs\<rparr>) d = device_ok s d" "vouched (s\<lparr>dd_audit := rs\<rparr>) k = vouched s k" for d k rs
    by (simp_all add: device_ok_def vouched_def)
  from audit show ?case unfolding devices_inv_def ok by simp
qed

section \<open>Every call is a step\<close>

definition registry_moved :: "(device_db \<Rightarrow> device_db \<Rightarrow> bool) \<Rightarrow> world \<Rightarrow> world \<Rightarrow> bool" where
  "registry_moved P w w' \<longleftrightarrow>
     tables_only w w' \<and> (\<exists>s'. w_db w' = (w_db w)\<lparr>db_devices := s'\<rparr> \<and> P (db_devices (w_db w)) s')"

definition registry_kept :: "world \<Rightarrow> world \<Rightarrow> bool" where
  "registry_kept w w' \<longleftrightarrow> tables_only w w' \<and> w_db w' = w_db w"

lemma registry_kept_trans: "registry_kept u v \<Longrightarrow> registry_kept v w \<Longrightarrow> registry_kept u w"
  unfolding registry_kept_def by (auto intro: tables_only_trans)

lemma registry_kept_tables: "tables_only w w' \<and> w_db w' = w_db w \<longleftrightarrow> registry_kept w w'"
  by (simp add: registry_kept_def)

lemma on_devices_case:
  "(case on_devices f d of None \<Rightarrow> a | Some r \<Rightarrow> g r)
     = (case f (db_devices d) of None \<Rightarrow> a | Some (s, r) \<Rightarrow> g (d\<lparr>db_devices := s\<rparr>, r))"
  by (simp add: on_devices_def split: option.split)

lemma device_query_wp [wp_simps]:
  "wp (device_query X l q) Q E = (\<lambda>w. wp (sql_query X l (\<lambda>d. q (db_devices d))) Q E w)"
  by (simp add: device_query_def)

lemma device_exec_wp [wp_simps]:
  "wp (device_exec X l f) Q E = (\<lambda>w.
     (if \<not> x_pg X (w_tick w) then E (ErrDB l) (w\<lparr>w_tick := Suc (w_tick w)\<rparr>)
      else case f (db_devices (w_db w)) of
        None \<Rightarrow> E (ErrDB l) (w\<lparr>w_tick := Suc (w_tick w)\<rparr>)
      | Some s \<Rightarrow> Q () (w\<lparr>w_tick := Suc (w_tick w), w_db := (w_db w)\<lparr>db_devices := s\<rparr>\<rparr>)))"
  by (simp add: fun_eq_iff device_exec_def wp_sql on_devices_case split: option.split)

lemma row_or_wp [wp_simps]: "wp (row_or e row) Q E = (\<lambda>w. case row of None \<Rightarrow> E e w | Some r \<Rightarrow> Q r w)"
  by (simp add: fun_eq_iff row_or_def wp_simps split: option.split)

lemma not_found_as_wp [wp_simps]:
  "wp (not_found_as missing l m) Q E = (\<lambda>w. wp m Q (\<lambda>e. E (if e = ErrNoRows then missing else ErrWrap l e)) w)"
  by (simp add: not_found_as_def wp_simps)

text \<open>A tenant transaction whose body moves the registry moves it, and a failed one leaves it.\<close>

lemma WithTenant_moved:
  assumes "\<And>v. registry_kept w v \<Longrightarrow>
      wp m (\<lambda>r w'. tables_only w w' \<and> (\<exists>s'. w_db w' = (w_db w)\<lparr>db_devices := s'\<rparr> \<and> P r (db_devices (w_db w)) s')) (\<lambda>_. tables_only w) v"
  shows "wp (WithTenant X t m) (\<lambda>r w'. trim_space t \<noteq> [] \<and> registry_moved (P r) w w') (\<lambda>_. registry_kept w) w"
  by (rule wp_mono [OF WithTenant_tables [where Q = "\<lambda>r d. \<exists>s'. d = (w_db w)\<lparr>db_devices := s'\<rparr> \<and> P r (db_devices (w_db w)) s'"]])
    (auto simp: registry_moved_def registry_kept_def intro!: assms)

lemma insertRequest_wp:
  "wp (insertRequest X t payload maker)
     (\<lambda>i w'. trim_space t \<noteq> [] \<and> registry_moved (\<lambda>s s'. \<exists>now. i \<notin> req_id ` set (dd_requests s)
        \<and> s' = s\<lparr>dd_requests := dd_requests s @ [new_request i t payload maker now]\<rparr>) w w')
     (\<lambda>_. registry_kept w) w"
proof -
  have ident: "rq_ID (rr_Request (new_request i t payload maker now)) = i" for i now by (simp add: new_request_def)
  show ?thesis
    unfolding insertRequest_def wp_wrap
    by (rule WithTenant_moved)
      (auto simp: wp_simps registry_kept_def insert_request_def req_id_def ident split: option.splits if_splits)
qed

lemma find_request_Some:
  "find_request t i s = Some r \<Longrightarrow> r \<in> set (dd_requests s) \<and> rq_TenantID (rr_Request r) = t \<and> req_id r = i"
  unfolding find_request_def tenant_requests_def req_id_def by (auto simp: find_Some_iff dest: nth_mem)

lemma find_device_Some:
  "find_device t i s = Some d \<Longrightarrow> d \<in> set (dd_devices s) \<and> dv_TenantID d = t \<and> dv_ID d = i"
  unfolding find_device_def tenant_devices_def by (auto simp: find_Some_iff dest: nth_mem)

lemma pending_request_wp:
  assumes "registry_kept w v"
  shows "wp (pending_request X t i c)
     (\<lambda>q w'. registry_kept w w' \<and> (\<exists>r. decidable t c (db_devices (w_db w)) r \<and> req_id r = i \<and> rr_Request r = q))
     (\<lambda>_. tables_only w) v"
  using assms unfolding pending_request_def
  by (auto simp: wp_simps registry_kept_def decidable_def dest!: find_request_Some split: option.splits)

lemma update_request_step:
  assumes "update_request t i f s2 = Some s3" "dd_requests s2 = dd_requests s" "distinct (map req_id (dd_requests s))"
    "decidable t c s r" "req_id r = i" "req_id (f r) = req_id r"
  shows "s3 = s2\<lparr>dd_requests := replace_row req_id (f r) (dd_requests s)\<rparr> \<and> request_allowed (f r)"
proof -
  from assms(1) obtain rows where
    u: "update_rows (\<lambda>r. rq_TenantID (rr_Request r) = t \<and> rq_ID (rr_Request r) = i) f
          (\<lambda>r. request_allowed r \<and> (case rq_DeviceID (rr_Request r) of None \<Rightarrow> True | Some i \<Rightarrow> i \<in> dv_ID ` set (dd_devices s2)))
          (dd_requests s) = Some rows"
    and s3: "s3 = s2\<lparr>dd_requests := rows\<rparr>"
    unfolding update_request_def assms(2) by auto
  have "rows = replace_row req_id (f r) (dd_requests s) \<and> request_allowed (f r)"
    using update_rows_replace [OF u assms(3)] assms(4-6) by (auto simp: decidable_def req_id_def)
  with s3 show ?thesis by simp
qed

text \<open>The secret an approval hands out is the one whose digest the request row holds.\<close>

definition issued :: "device_codec \<Rightarrow> string \<Rightarrow> Approval \<Rightarrow> device_db \<Rightarrow> bool" where
  "issued C i a s \<longleftrightarrow>
     (\<exists>n raw r. dc_random C n = Some raw \<and> av_ActivationSecret a = base64_encode raw \<and> r \<in> set (dd_requests s)
        \<and> consumable i (dc_sha256 C raw) r \<and> rq_DeviceID (rr_Request r) = Some (av_DeviceID a))"

lemma approve_provision_wp:
  assumes inv: "devices_inv (db_devices (w_db w))" and v: "registry_kept w v"
    and r: "decidable t c (db_devices (w_db w)) r" "req_id r = i" "rq_Payload (rr_Request r) = PayloadProvision p"
  shows "wp (approve_provision X C t i (rq_RequestedBy (rr_Request r)) c now p)
     (\<lambda>a w'. tables_only w w' \<and> (\<exists>s'. w_db w' = (w_db w)\<lparr>db_devices := s'\<rparr> \<and> device_step t (db_devices (w_db w)) s' \<and> issued C i a s'))
     (\<lambda>_. tables_only w) v"
proof -
  let ?s = "db_devices (w_db w)"
  have step: "device_step t ?s s3 \<and> issued C i \<lparr>av_RequestID = i, av_DeviceID = dev, av_KeyEpoch = 1, av_ActivationSecret = base64_encode raw\<rparr> s3"
    if "decodePublicKey (pp_PublicKey p) = Some pk" and
      "insert_device (new_device dev t p (rq_RequestedBy (rr_Request r)) now) ?s = Some s1"
      "insert_key t (first_epoch dev pk now) s1 = Some s2"
      "update_request t i (decide RequestApproved c now (Some dev) (Some (dc_sha256 C raw))) s2 = Some s3" "dc_random C n = Some raw" for pk dev s1 s2 s3 raw n
  proof -
    have s2: "s2 = ?s\<lparr>dd_devices := dd_devices ?s @ [new_device dev t p (rq_RequestedBy (rr_Request r)) now],
        dd_keys := dd_keys ?s @ [first_epoch dev pk now]\<rparr>"
      and dev: "dev \<notin> dv_ID ` set (dd_devices ?s)" "ValidKind (pp_Kind p)"
      using that(2,3) by (auto simp: insert_device_def insert_key_def new_device_def split: if_splits)
    have same: "dd_requests s2 = dd_requests ?s" by (simp add: s2)
    note u = update_request_step [OF that(4) same devices_invD(2) [OF inv] r(1,2) decide_sel(1)]
    then have "length (dc_sha256 C raw) = 32" by (simp add: request_allowed_def)
    note step = device_step.provision [OF r(1,3) that(1) dev(2,1) this]
    let ?r = "decide RequestApproved c now (Some dev) (Some (dc_sha256 C raw)) r"
    have rin: "r \<in> set (dd_requests ?s)" using r(1) by (simp add: decidable_def)
    have "?r \<in> set (dd_requests s3)"
      using u replace_row_set [OF devices_invD(2) [OF inv] rin decide_sel(1)] by simp
    moreover have "consumable i (dc_sha256 C raw) ?r" using r(2) by (simp add: consumable_def) (simp add: req_id_def decide_def)
    ultimately have "issued C i \<lparr>av_RequestID = i, av_DeviceID = dev, av_KeyEpoch = 1, av_ActivationSecret = base64_encode raw\<rparr> s3"
      unfolding issued_def using that(5) by (intro exI [of _ n] exI [of _ raw] exI [of _ ?r]) simp
    with step u show ?thesis by (simp add: s2)
  qed
  then have ends: "\<exists>s'. (w_db w)\<lparr>db_devices := s3\<rparr> = (w_db w)\<lparr>db_devices := s'\<rparr> \<and> device_step t ?s s'
      \<and> issued C i \<lparr>av_RequestID = i, av_DeviceID = dev, av_KeyEpoch = 1, av_ActivationSecret = base64_encode raw\<rparr> s'"
    if "decodePublicKey (pp_PublicKey p) = Some pk"
      "insert_device (new_device dev t p (rq_RequestedBy (rr_Request r)) now) ?s = Some s1"
      "insert_key t (first_epoch dev pk now) s1 = Some s2"
      "update_request t i (decide RequestApproved c now (Some dev) (Some (dc_sha256 C raw))) s2 = Some s3"
      "dc_random C n = Some raw" for pk dev s1 s2 s3 raw n
    using that by blast
  show ?thesis
    using v unfolding approve_provision_def generateActivationSecret_def
    by (auto simp: wp_simps registry_kept_def split: option.splits) (rule ends, assumption+)
qed

lemma update_device_step:
  assumes "update_device t i f s2 = Some s3" "dd_devices s2 = dd_devices s" "distinct (map dv_ID (dd_devices s))"
    "find_device t i s = Some d" "dv_ID (f d) = dv_ID d"
  shows "s3 = s2\<lparr>dd_devices := replace_row dv_ID (f d) (dd_devices s)\<rparr>"
proof -
  note d = find_device_Some [OF assms(4)]
  from assms(1) obtain rows where
    u: "update_rows (\<lambda>d. dv_TenantID d = t \<and> dv_ID d = i) f (\<lambda>d. 1 \<le> dv_KeyEpoch d) (dd_devices s) = Some rows"
    and s3: "s3 = s2\<lparr>dd_devices := rows\<rparr>"
    unfolding update_device_def assms(2) by auto
  have "rows = replace_row dv_ID (f d) (dd_devices s)"
    using update_rows_replace [OF u assms(3)] d assms(5) by blast
  with s3 show ?thesis by simp
qed

text \<open>The two updates of the keys amount to one pass: expired epochs are revoked, the current one is demoted.\<close>

lemma rotate_updates:
  assumes "i \<in> dv_ID ` set (tenant_devices t s)"
    "update_keys t (\<lambda>k. ky_DeviceID k = i \<and> ky_Status k = KeyPrevious \<and> ky_RotatedAt k < now - grace)
       (\<lambda>k. k\<lparr>ky_Status := KeyRevoked\<rparr>) s = Some s1"
    "update_keys t (\<lambda>k. ky_DeviceID k = i \<and> ky_Status k = KeyCurrent)
       (\<lambda>k. k\<lparr>ky_Status := KeyPrevious, ky_RotatedAt := now\<rparr>) s1 = Some s2"
  shows "s2 = s\<lparr>dd_keys := map (rotate_key i grace now) (dd_keys s)\<rparr>"
proof -
  have t: "tenant_devices t (s\<lparr>dd_keys := ks\<rparr>) = tenant_devices t s" for ks by (simp add: tenant_devices_def)
  from assms show ?thesis
    unfolding update_keys_def by (auto simp: t rotate_key_def)
qed

definition rotated :: "string \<Rightarrow> string \<Rightarrow> string \<Rightarrow> int \<Rightarrow> int \<Rightarrow> int \<Rightarrow> device_db \<Rightarrow> device_db \<Rightarrow> bool" where
  "rotated t i pk grace now e s s' \<longleftrightarrow> (\<exists>d\<in>set (dd_devices s).
     dv_ID d = i \<and> dv_TenantID d = t \<and> dv_Status d = StatusActive \<and> e = dv_KeyEpoch d + 1
     \<and> s' = s\<lparr>dd_devices := replace_row dv_ID (d\<lparr>dv_KeyEpoch := dv_KeyEpoch d + 1, dv_UpdatedAt := now\<rparr>) (dd_devices s),
         dd_keys := map (rotate_key (dv_ID d) grace now) (dd_keys s) @
           [\<lparr>ky_DeviceID = dv_ID d, ky_Epoch = dv_KeyEpoch d + 1, ky_PublicKey = pk, ky_Status = KeyCurrent, ky_RotatedAt = now\<rparr>]\<rparr>)"

lemma applyRotation_wp:
  assumes inv: "devices_inv (db_devices (w_db w))" and v: "registry_kept w v"
  shows "wp (applyRotation X t i pk grace now)
     (\<lambda>e w'. tables_only w w' \<and> (\<exists>s'. w_db w' = (w_db w)\<lparr>db_devices := s'\<rparr> \<and> rotated t i pk grace now e (db_devices (w_db w)) s'))
     (\<lambda>_. tables_only w) v"
proof -
  let ?s = "db_devices (w_db w)"
  have step: "rotated t i pk grace now (dv_KeyEpoch d + 1) ?s s4"
    if d: "find_device t i ?s = Some d" "dv_Status d = StatusActive" and u:
      "update_keys t (\<lambda>k. ky_DeviceID k = i \<and> ky_Status k = KeyPrevious \<and> ky_RotatedAt k < now - grace)
         (\<lambda>k. k\<lparr>ky_Status := KeyRevoked\<rparr>) ?s = Some s1"
      "update_keys t (\<lambda>k. ky_DeviceID k = i \<and> ky_Status k = KeyCurrent)
         (\<lambda>k. k\<lparr>ky_Status := KeyPrevious, ky_RotatedAt := now\<rparr>) s1 = Some s2"
      "insert_key t \<lparr>ky_DeviceID = i, ky_Epoch = dv_KeyEpoch d + 1, ky_PublicKey = pk, ky_Status = KeyCurrent, ky_RotatedAt = now\<rparr> s2 = Some s3"
      "update_device t i (\<lambda>x. x\<lparr>dv_KeyEpoch := dv_KeyEpoch d + 1, dv_UpdatedAt := now\<rparr>) s3 = Some s4" for d s1 s2 s3 s4
  proof -
    note found = find_device_Some [OF d(1)]
    then have "i \<in> dv_ID ` set (tenant_devices t ?s)" by (auto simp: tenant_devices_def)
    note s2 = rotate_updates [OF this u(1,2)]
    from u(3) have s3: "s3 = s2\<lparr>dd_keys := dd_keys s2 @
      [\<lparr>ky_DeviceID = i, ky_Epoch = dv_KeyEpoch d + 1, ky_PublicKey = pk, ky_Status = KeyCurrent, ky_RotatedAt = now\<rparr>]\<rparr>"
      by (simp add: insert_key_def split: if_splits)
    then have "dd_devices s3 = dd_devices ?s" by (simp add: s2)
    from update_device_step [OF u(4) this devices_invD(1) [OF inv] d(1)] found d(2) show ?thesis
      unfolding rotated_def by (intro bexI [of _ d]) (simp_all add: s3 s2)
  qed
  show ?thesis
    using v unfolding applyRotation_def
    by (auto simp: wp_simps registry_kept_def split: option.splits intro!: step)
qed

lemma approve_rotation_wp:
  assumes inv: "devices_inv (db_devices (w_db w))" and v: "registry_kept w v"
    and r: "decidable t c (db_devices (w_db w)) r" "req_id r = i" "rq_Payload (rr_Request r) = PayloadRotate p"
  shows "wp (approve_rotation X t i c grace now p)
     (\<lambda>a w'. tables_only w w' \<and> (\<exists>s'. w_db w' = (w_db w)\<lparr>db_devices := s'\<rparr> \<and> device_step t (db_devices (w_db w)) s'
        \<and> (av_ActivationSecret a \<noteq> [] \<longrightarrow> issued C i a s')))
     (\<lambda>_. tables_only w) v"
proof (cases "decodePublicKey (rp_PublicKey p)")
  case None
  with v show ?thesis by (simp add: approve_rotation_def wp_simps registry_kept_def)
next
  case (Some pk)
  show ?thesis
    unfolding approve_rotation_def Some option.case wp_bind
  proof (rule wp_mono [OF applyRotation_wp [OF inv v]], goal_cases)
    case (1 e u)
    then obtain d s1 where d: "d \<in> set (dd_devices (db_devices (w_db w)))" "dv_ID d = rp_DeviceID p" "dv_TenantID d = t"
      "dv_Status d = StatusActive" and u: "tables_only w u" "w_db u = (w_db w)\<lparr>db_devices := s1\<rparr>"
      and s1: "s1 = (db_devices (w_db w))\<lparr>
            dd_devices := replace_row dv_ID (d\<lparr>dv_KeyEpoch := dv_KeyEpoch d + 1, dv_UpdatedAt := now\<rparr>) (dd_devices (db_devices (w_db w))),
            dd_keys := map (rotate_key (dv_ID d) grace now) (dd_keys (db_devices (w_db w))) @
              [\<lparr>ky_DeviceID = dv_ID d, ky_Epoch = dv_KeyEpoch d + 1, ky_PublicKey = pk, ky_Status = KeyCurrent, ky_RotatedAt = now\<rparr>]\<rparr>"
      by (auto simp: rotated_def)
    have step: "device_step t (db_devices (w_db w)) s2"
      if "update_request t i (decide RequestApproved c now (Some (rp_DeviceID p)) None) s1 = Some s2" for s2
    proof -
      have "dd_requests s1 = dd_requests (db_devices (w_db w))" by (simp add: s1)
      note up = update_request_step [OF that this devices_invD(2) [OF inv] r(1,2) decide_sel(1)]
      from device_step.rotate [OF r(1,3) Some d] up show ?thesis by (simp add: s1 d(2))
    qed
    show ?case using u step by (auto simp: wp_simps split: option.splits)
  qed simp
qed

lemma ApproveRequest_wp:
  assumes inv: "devices_inv (db_devices (w_db w))"
  shows "wp (ApproveRequest X C t i c grace)
     (\<lambda>a w'. trim_space t \<noteq> [] \<and> registry_moved (\<lambda>s s'. device_step t s s' \<and> (av_ActivationSecret a \<noteq> [] \<longrightarrow> issued C i a s')) w w') (\<lambda>_. registry_kept w) w"
proof -
  have body: "wp (bindA (clock X) (\<lambda>now. case q of
             PayloadProvision p \<Rightarrow> approve_provision X C t i m c now p
           | PayloadRotate p \<Rightarrow> approve_rotation X t i c g now p
           | PayloadOther None \<Rightarrow> raise (ErrText ''provisioning request payload is invalid'')
           | PayloadOther (Some ty) \<Rightarrow> raise (ErrText ''provisioning request type is not supported'')))
     (\<lambda>a w'. tables_only w w' \<and> (\<exists>s'. w_db w' = (w_db w)\<lparr>db_devices := s'\<rparr> \<and> device_step t (db_devices (w_db w)) s'
        \<and> (av_ActivationSecret a \<noteq> [] \<longrightarrow> issued C i a s')))
     (\<lambda>_. tables_only w) u"
    if u: "registry_kept w u" and r: "decidable t c (db_devices (w_db w)) r" "req_id r = i"
      "rq_Payload (rr_Request r) = q" "rq_RequestedBy (rr_Request r) = m" for q m r u g
  proof -
    have k: "registry_kept w (u\<lparr>w_tick := n\<rparr>)" for n using u by (simp add: registry_kept_def)
    show ?thesis
      using approve_rotation_wp [OF inv k r(1,2)] r(3,4) u
      by (cases q) (auto simp: wp_bind wp_clock wp_raise registry_kept_def split: option.split
        intro!: wp_mono [OF approve_provision_wp [OF inv k r(1,2)]])
  qed
  have tx: "wp (WithTenant X t (bindA (pending_request X t i c) (\<lambda>q. bindA (clock X) (\<lambda>now. case rq_Payload q of
             PayloadProvision p \<Rightarrow> approve_provision X C t i (rq_RequestedBy q) c now p
           | PayloadRotate p \<Rightarrow> approve_rotation X t i c g now p
           | PayloadOther None \<Rightarrow> raise (ErrText ''provisioning request payload is invalid'')
           | PayloadOther (Some ty) \<Rightarrow> raise (ErrText ''provisioning request type is not supported'')))))
     (\<lambda>a w'. trim_space t \<noteq> [] \<and> registry_moved (\<lambda>s s'. device_step t s s' \<and> (av_ActivationSecret a \<noteq> [] \<longrightarrow> issued C i a s')) w w') (\<lambda>_. registry_kept w) w" for g
  proof (rule WithTenant_moved, goal_cases)
    case (1 v)
    show ?case
      unfolding wp_bind [of "pending_request X t i c"]
      by (rule wp_mono [OF pending_request_wp [OF 1]]) (use body in blast)+
  qed
  show ?thesis
    unfolding ApproveRequest_def Let_def wp_if wp_raise using tx by (simp add: registry_kept_def)
qed

lemma wp_reading:
  assumes "\<And>v. registry_kept w v \<Longrightarrow> wp m (\<lambda>r w'. registry_kept w w' \<and> Q r) (\<lambda>_. tables_only w) v"
  shows "wp (WithTenant X t m) (\<lambda>r w'. registry_kept w w' \<and> Q r) (\<lambda>_. registry_kept w) w"
  by (rule wp_mono [OF WithTenant_tables [where Q = "\<lambda>r d. d = w_db w \<and> Q r"]])
    (auto simp: registry_kept_def intro!: wp_mono [OF assms])

lemma GetRequest_wp:
  "wp (GetRequest X t i)
     (\<lambda>q w'. registry_kept w w' \<and> (\<exists>r. find_request t i (db_devices (w_db w)) = Some r \<and> q = rr_Request r))
     (\<lambda>_. registry_kept w) w"
  unfolding GetRequest_def not_found_as_wp
  by (rule wp_reading) (auto simp: wp_simps registry_kept_def split: option.splits)

lemma GetDevice_wp:
  "wp (GetDevice X t i) (\<lambda>d w'. registry_kept w w' \<and> find_device t i (db_devices (w_db w)) = Some d) (\<lambda>_. registry_kept w) w"
  unfolding GetDevice_def not_found_as_wp
  by (rule wp_reading) (auto simp: wp_simps registry_kept_def split: option.splits)

lemma ListDevices_wp:
  "wp (ListDevices X t n)
     (\<lambda>ds w'. registry_kept w w' \<and> set ds \<subseteq> {d \<in> set (dd_devices (db_devices (w_db w))). dv_TenantID d = t})
     (\<lambda>_. registry_kept w) w"
  unfolding ListDevices_def Let_def wp_wrap
  by (rule wp_reading)
    (auto simp: wp_simps registry_kept_def tenant_devices_def dest!: in_set_takeD)

lemma RejectRequest_wp:
  assumes inv: "devices_inv (db_devices (w_db w))"
  shows "wp (RejectRequest X t i c) (\<lambda>q w'. trim_space t \<noteq> [] \<and> registry_moved (device_step t) w w')
     (\<lambda>_ w'. registry_kept w w' \<or> registry_moved (device_step t) w w') w"
proof -
  have step: "device_step t (db_devices (w_db w)) s'"
    if "decidable t c (db_devices (w_db w)) r" "req_id r = i"
      "update_request t i (decide RequestRejected c now None None) (db_devices (w_db w)) = Some s'" for r now s'
    using update_request_step [OF that(3) refl devices_invD(2) [OF inv] that(1,2) decide_sel(1)]
      device_step.reject [OF that(1)] by simp
  have tx: "wp (WithTenant X t (bindA (pending_request X t i c) (\<lambda>r. bindA (clock X) (\<lambda>now.
           device_exec X ''reject provisioning request'' (update_request t i (decide RequestRejected c now None None))))))
     (\<lambda>_ w'. trim_space t \<noteq> [] \<and> registry_moved (device_step t) w w') (\<lambda>_. registry_kept w) w"
  proof (rule WithTenant_moved, goal_cases)
    case (1 v)
    show ?case
      unfolding wp_bind [of "pending_request X t i c"]
      by (rule wp_mono [OF pending_request_wp [OF 1]])
        (auto simp: wp_simps registry_kept_def split: option.splits intro!: step)
  qed
  have kept: "registry_moved P w u'" if "registry_moved P w u" "registry_kept u u'" for P u u'
    using that unfolding registry_moved_def registry_kept_def by (auto intro: tables_only_trans)
  show ?thesis
    unfolding RejectRequest_def wp_if wp_raise wp_seq
    by (auto simp: registry_kept_def [of w w] intro!: wp_mono [OF tx] wp_mono [OF GetRequest_wp] intro: kept)
qed

lemma SetDeviceStatus_wp:
  assumes inv: "devices_inv (db_devices (w_db w))"
  shows "wp (SetDeviceStatus X t i target actor)
     (\<lambda>d w'. trim_space t \<noteq> [] \<and> registry_moved (device_step t) w w') (\<lambda>_. registry_kept w) w"
proof -
  let ?s = "db_devices (w_db w)"
  have step: "device_step t ?s s2"
    if d: "find_device t i ?s = Some d" and "ValidateStatusTransition (dv_Status d) target = Some st"
      "update_device t i (\<lambda>x. x\<lparr>dv_Status := st, dv_UpdatedAt := now\<rparr>) ?s = Some s1"
      "terminal st \<Longrightarrow> update_keys t (\<lambda>k. ky_DeviceID k = i \<and> ky_Status k \<noteq> KeyRevoked) (\<lambda>k. k\<lparr>ky_Status := KeyRevoked\<rparr>) s1 = Some s2"
      "\<not> terminal st \<Longrightarrow> s2 = s1" for d st now s1 s2
  proof -
    note found = find_device_Some [OF d]
    have s1: "s1 = ?s\<lparr>dd_devices := replace_row dv_ID (d\<lparr>dv_Status := st, dv_UpdatedAt := now\<rparr>) (dd_devices ?s)\<rparr>"
      using update_device_step [OF that(3) refl devices_invD(1) [OF inv] d] by simp
    have sel: "dv_ID (d\<lparr>dv_Status := st, dv_UpdatedAt := now\<rparr>) = dv_ID d" by simp
    have "d\<lparr>dv_Status := st, dv_UpdatedAt := now\<rparr> \<in> set (dd_devices s1)"
      unfolding s1 using replace_row_set [OF devices_invD(1) [OF inv] _ sel] found by simp
    then have vis: "i \<in> dv_ID ` set (tenant_devices t s1)"
      using found by (intro image_eqI [of _ _ "d\<lparr>dv_Status := st, dv_UpdatedAt := now\<rparr>"]) (simp_all add: tenant_devices_def)
    have s2: "s2 = s1\<lparr>dd_keys := (if terminal st then map (revoke_key (dv_ID d)) (dd_keys s1) else dd_keys s1)\<rparr>"
    proof (cases "terminal st")
      case True
      from that(4) [OF True] vis found show ?thesis
        unfolding update_keys_def by (auto simp: True revoke_key_def)
    qed (use that(5) in simp)
    have "s2 = ?s\<lparr>dd_devices := replace_row dv_ID (d\<lparr>dv_Status := st, dv_UpdatedAt := now\<rparr>) (dd_devices ?s),
         dd_keys := (if terminal st then map (revoke_key (dv_ID d)) (dd_keys ?s) else dd_keys ?s)\<rparr>"
      unfolding s2 s1 by simp
    then show ?thesis
      using device_step.status [OF conjunct1 [OF found] conjunct1 [OF conjunct2 [OF found]] that(2), of now] by (simp only:)
  qed
  have body: "wp (bindA (device_query X ''lock device'' (find_device t i)) (\<lambda>row.
         bindA (row_or ErrDeviceNotFound row) (\<lambda>d.
         bindA (clock X) (\<lambda>now.
         case ValidateStatusTransition (dv_Status d) target of
           None \<Rightarrow> raise (ErrText ''status transition refused'')
         | Some st \<Rightarrow>
             seqA (device_exec X ''set device status'' (update_device t i (\<lambda>x. x\<lparr>dv_Status := st, dv_UpdatedAt := now\<rparr>)))
             (seqA (whenA (st = StatusRevoked \<or> st = StatusDecommissioned)
                     (device_exec X ''revoke device keys'' (update_keys t
                        (\<lambda>k. ky_DeviceID k = i \<and> ky_Status k \<noteq> KeyRevoked) (\<lambda>k. k\<lparr>ky_Status := KeyRevoked\<rparr>))))
             (bindA (device_query X ''read device'' (find_device t i)) (row_or ErrNoRows)))))))
       (\<lambda>d w'. tables_only w w' \<and> (\<exists>s'. w_db w' = (w_db w)\<lparr>db_devices := s'\<rparr> \<and> device_step t ?s s')) (\<lambda>_. tables_only w) v"
    if "registry_kept w v" for v
  proof -
    have ends: "\<exists>s'. (w_db w)\<lparr>db_devices := s2\<rparr> = (w_db w)\<lparr>db_devices := s'\<rparr> \<and> device_step t ?s s'"
      if "find_device t i ?s = Some d" "ValidateStatusTransition (dv_Status d) target = Some st"
        "update_device t i (\<lambda>x. x\<lparr>dv_Status := st, dv_UpdatedAt := now\<rparr>) ?s = Some s1"
        "update_keys t (\<lambda>k. ky_DeviceID k = i \<and> ky_Status k \<noteq> KeyRevoked) (\<lambda>k. k\<lparr>ky_Status := KeyRevoked\<rparr>) s1 = Some s2"
        "terminal st" for d st now s1 s2
      using step [OF that(1-3)] that(4,5) by blast
    have stays: "\<exists>s'. (w_db w)\<lparr>db_devices := s1\<rparr> = (w_db w)\<lparr>db_devices := s'\<rparr> \<and> device_step t ?s s'"
      if "find_device t i ?s = Some d" "ValidateStatusTransition (dv_Status d) target = Some st"
        "update_device t i (\<lambda>x. x\<lparr>dv_Status := st, dv_UpdatedAt := now\<rparr>) ?s = Some s1" "\<not> terminal st" for d st now s1
      using step [OF that(1-3)] that(4) by blast
    show ?thesis
      using \<open>registry_kept w v\<close>
      by (auto simp: wp_simps registry_kept_def split: option.splits if_splits)
        (rule ends, assumption+, force simp: terminal_def | rule stays, assumption+, force simp: terminal_def)+
  qed
  show ?thesis
    unfolding SetDeviceStatus_def wp_if wp_raise using WithTenant_moved [where P = "\<lambda>_. device_step t", OF body] by (simp add: registry_kept_def)
qed

lemma CreateFirmwareRelease_wp:
  "wp (CreateFirmwareRelease X t release)
     (\<lambda>d w'. trim_space t \<noteq> [] \<and> registry_moved (device_step t) w w') (\<lambda>_. registry_kept w) w"
proof -
  have step: "device_step t s s'" if "insert_release r s = Some s'" "fl_TenantID r = t" for r s s'
    using that device_step.release [of r s t] by (simp add: insert_release_def split: if_splits)
  have tx: "wp (WithTenant X t (bindA (fresh_uuid X) (\<lambda>ident. bindA (clock X) (\<lambda>now.
           seqA (device_exec X ''insert release'' (insert_release
                  (release\<lparr>fl_ID := ident, fl_TenantID := t, fl_MinEpoch := m, fl_CreatedAt := now\<rparr>)))
             (ret ident)))))
     (\<lambda>d w'. trim_space t \<noteq> [] \<and> registry_moved (device_step t) w w') (\<lambda>_. registry_kept w) w" for m
    by (rule WithTenant_moved)
      (auto simp: wp_simps registry_kept_def split: option.splits intro!: step)
  show ?thesis
    unfolding CreateFirmwareRelease_def Let_def wp_if wp_raise wp_wrap using tx by (simp add: registry_kept_def)
qed

lemma create_requests_wp:
  "wp (CreateProvisionRequest X t p maker)
     (\<lambda>i w'. trim_space t \<noteq> [] \<and> registry_moved (device_step t) w w') (\<lambda>_. registry_kept w) w"
  "wp (CreateRotationRequest X t dev k maker)
     (\<lambda>i w'. trim_space t \<noteq> [] \<and> registry_moved (device_step t) w w') (\<lambda>_. registry_kept w) w"
proof -
  have step: "wp (insertRequest X t payload maker)
     (\<lambda>i w'. trim_space t \<noteq> [] \<and> registry_moved (device_step t) w w') (\<lambda>_. registry_kept w) w" for payload
    by (rule wp_mono [OF insertRequest_wp]) (auto simp: registry_moved_def intro: device_step.request)
  show "wp (CreateProvisionRequest X t p maker)
     (\<lambda>i w'. trim_space t \<noteq> [] \<and> registry_moved (device_step t) w w') (\<lambda>_. registry_kept w) w"
    unfolding CreateProvisionRequest_def wp_if wp_raise using step by (simp add: registry_kept_def)
  show "wp (CreateRotationRequest X t dev k maker)
     (\<lambda>i w'. trim_space t \<noteq> [] \<and> registry_moved (device_step t) w w') (\<lambda>_. registry_kept w) w"
    unfolding CreateRotationRequest_def wp_if wp_raise using step by (simp add: registry_kept_def)
qed

text \<open>The activation consumes the one request that holds the digest of the presented secret, or nothing.\<close>

lemma consume_request_step:
  assumes inv: "devices_inv s" and "consume_request i h s = (s', row)"
  shows "(row = None \<and> s' = s) \<or> (\<exists>r dev. r \<in> set (dd_requests s) \<and> consumable i h r \<and> rq_DeviceID (rr_Request r) = Some dev
     \<and> row = Some (Some dev) \<and> s' = s\<lparr>dd_requests := replace_row req_id (consume_row r) (dd_requests s)\<rparr>)"
proof (cases "find (consumable i h) (dd_requests s)")
  case None
  then have "map (\<lambda>r. if consumable i h r then consume_row r else r) (dd_requests s) = dd_requests s"
    by (auto simp: find_None_iff intro: map_idI)
  with None assms(2) show ?thesis by (simp add: consume_request_def)
next
  case (Some r)
  then have r: "r \<in> set (dd_requests s)" "consumable i h r" by (auto simp: find_Some_iff dest: nth_mem)
  then have only: "x = r" if "x \<in> set (dd_requests s)" "req_id x = i" for x
    using that devices_invD(2) [OF inv] by (metis consumable_def distinct_map inj_onD req_id_def)
  have "req_id (consume_row r) = i" using r(2) by (simp add: consumable_def) (simp add: req_id_def)
  then have rows: "map (\<lambda>x. if consumable i h x then consume_row x else x) (dd_requests s) = replace_row req_id (consume_row r) (dd_requests s)"
    unfolding replace_row_def using only r(2) by (intro map_cong [OF refl]) (metis consumable_def req_id_def)
  have "request_ok r" using r(1) devices_invD(6) [OF inv] by blast
  then obtain dev where "rq_DeviceID (rr_Request r) = Some dev"
    using r(2) by (auto simp: request_ok_def consumable_def Let_def)
  with r Some rows assms(2) show ?thesis by (auto simp: consume_request_def)
qed

lemma ConsumeActivation_wp:
  assumes inv: "devices_inv (db_devices (w_db w))"
  shows "wp (ConsumeActivation X C i secret)
     (\<lambda>dev w'. tables_only w w' \<and> (\<exists>raw r. base64_decode (trim_space secret) = Some raw \<and> length raw = 32
        \<and> r \<in> set (dd_requests (db_devices (w_db w))) \<and> consumable i (dc_sha256 C raw) r
        \<and> rq_DeviceID (rr_Request r) = Some dev
        \<and> w_db w' = (w_db w)\<lparr>db_devices := (db_devices (w_db w))\<lparr>dd_requests :=
             replace_row req_id (consume_row r) (dd_requests (db_devices (w_db w)))\<rparr>\<rparr>))
     (\<lambda>_. registry_kept w) w"
proof -
  have step: "wp (bindA (wrapA (ErrWrap ''consume activation'')
                  (sql X ''consume activation'' (on_devices (\<lambda>s. Some (consume_request i h s))))) (\<lambda>row.
               case row of None \<Rightarrow> raise ErrActivationFailed | Some None \<Rightarrow> raise ErrActivationFailed | Some (Some dev) \<Rightarrow> ret dev))
     (\<lambda>dev w'. tables_only w w' \<and> (\<exists>r. r \<in> set (dd_requests (db_devices (w_db w))) \<and> consumable i h r
        \<and> rq_DeviceID (rr_Request r) = Some dev
        \<and> w_db w' = (w_db w)\<lparr>db_devices := (db_devices (w_db w))\<lparr>dd_requests :=
             replace_row req_id (consume_row r) (dd_requests (db_devices (w_db w)))\<rparr>\<rparr>))
     (\<lambda>_. registry_kept w) w" for h
  proof -
    obtain s' row where c: "consume_request i h (db_devices (w_db w)) = (s', row)" by fastforce
    from consume_request_step [OF inv c] show ?thesis
      by (auto simp: wp_simps on_devices_case c registry_kept_def)
  qed
  show ?thesis
    unfolding ConsumeActivation_def Let_def wp_if wp_raise wp_option
    by (auto simp: registry_kept_def [of w w] split: option.split intro!: wp_mono [OF step])
qed

lemma InsertAudit_wp:
  "wp (InsertAudit X event)
     (\<lambda>_ w'. registry_moved (\<lambda>s s'. \<exists>now. s' = s\<lparr>dd_audit := dd_audit s @ [audit_entry event now]\<rparr>) w w')
     (\<lambda>_. registry_kept w) w"
  unfolding InsertAudit_def by (auto simp: wp_simps registry_moved_def registry_kept_def)

section \<open>Runs\<close>

datatype device_call =
    DProvision string ProvisionPayload string
  | DRotate string string string string
  | DApprove string string string int
  | DReject string string string
  | DStatus string string string string
  | DRelease string Release
  | DConsume string string
  | DAudit AuditEvent

fun device_call_run :: "externals \<Rightarrow> device_codec \<Rightarrow> device_call \<Rightarrow> unit geo" where
  "device_call_run X C (DProvision t p maker) = seqA (CreateProvisionRequest X t p maker) (ret ())"
| "device_call_run X C (DRotate t dev k maker) = seqA (CreateRotationRequest X t dev k maker) (ret ())"
| "device_call_run X C (DApprove t i c grace) = seqA (ApproveRequest X C t i c grace) (ret ())"
| "device_call_run X C (DReject t i c) = seqA (RejectRequest X t i c) (ret ())"
| "device_call_run X C (DStatus t dev st actor) = seqA (SetDeviceStatus X t dev st actor) (ret ())"
| "device_call_run X C (DRelease t r) = seqA (CreateFirmwareRelease X t r) (ret ())"
| "device_call_run X C (DConsume i secret) = seqA (ConsumeActivation X C i secret) (ret ())"
| "device_call_run X C (DAudit e) = InsertAudit X e"

fun call_step :: "device_call \<Rightarrow> device_db \<Rightarrow> device_db \<Rightarrow> bool" where
  "call_step (DProvision t p maker) = device_step t"
| "call_step (DRotate t dev k maker) = device_step t"
| "call_step (DApprove t i c grace) = device_step t"
| "call_step (DReject t i c) = device_step t"
| "call_step (DStatus t dev st actor) = device_step t"
| "call_step (DRelease t r) = device_step t"
| "call_step (DConsume i secret) = plane_step"
| "call_step (DAudit e) = plane_step"

lemma call_step_inv: "call_step c s s' \<Longrightarrow> devices_inv s \<Longrightarrow> devices_inv s'"
  by (cases c) (auto intro: device_step_inv plane_step_inv)

text \<open>A rejection is committed before its row is read back, so its error may come after the step.\<close>

lemma device_call_wp:
  assumes inv: "devices_inv (db_devices (w_db w))"
  shows "wp (device_call_run X C c) (\<lambda>_. registry_moved (call_step c) w)
     (\<lambda>_ w'. registry_kept w w' \<or> ((\<exists>t i k. c = DReject t i k) \<and> registry_moved (call_step c) w w')) w"
proof (cases c)
  case (DConsume i secret)
  have "plane_step s (s\<lparr>dd_requests := replace_row req_id (consume_row r) (dd_requests s)\<rparr>)"
    if "r \<in> set (dd_requests s)" "consumable i h r" for r s h
    using that by (intro plane_step.consume) (auto simp: consumable_def)
  then show ?thesis
    unfolding DConsume device_call_run.simps call_step.simps wp_seq wp_ret
    by (intro wp_mono [OF ConsumeActivation_wp [OF inv]]) (auto simp: registry_moved_def)
next
  case (DAudit e)
  show ?thesis
    unfolding DAudit device_call_run.simps call_step.simps
    by (rule wp_mono [OF InsertAudit_wp]) (auto simp: registry_moved_def intro: plane_step.audit)
next
  case (DReject t i k)
  show ?thesis
    unfolding DReject device_call_run.simps call_step.simps wp_seq wp_ret
    by (rule wp_mono [OF RejectRequest_wp [OF inv]]) auto
next
  case (DApprove t i k grace)
  show ?thesis
    unfolding DApprove device_call_run.simps call_step.simps wp_seq wp_ret
    by (rule wp_mono [OF ApproveRequest_wp [OF inv]]) (auto simp: registry_moved_def)
qed (simp only: device_call_run.simps call_step.simps wp_seq wp_ret;
     rule wp_mono [OF create_requests_wp(1)] wp_mono [OF create_requests_wp(2)]
       wp_mono [OF SetDeviceStatus_wp [OF inv]] wp_mono [OF CreateFirmwareRelease_wp]; blast)+

definition device_world_step :: "externals \<Rightarrow> device_codec \<Rightarrow> world \<Rightarrow> device_call \<Rightarrow> world" where
  "device_world_step X C w c = fst (device_call_run X C c w)"

lemma world_step_cases:
  assumes "devices_inv (db_devices (w_db w))"
  shows "db_devices (w_db (device_world_step X C w c)) = db_devices (w_db w)
    \<or> call_step c (db_devices (w_db w)) (db_devices (w_db (device_world_step X C w c)))"
  using device_call_wp [OF assms, of X C c]
  by (auto simp: wp_def device_world_step_def registry_moved_def registry_kept_def split: prod.splits sum.splits)

interpretation device_run: kept_invariant "device_world_step X C" "\<lambda>w. devices_inv (db_devices (w_db w))" for X C
proof
  fix w :: world and c
  assume "devices_inv (db_devices (w_db w))"
  with world_step_cases [OF this, of X C c] show "devices_inv (db_devices (w_db (device_world_step X C w c)))"
    by (auto dest: call_step_inv)
qed

text \<open>Decisions that are final: a rejected or consumed request and a retired device stay as they are.\<close>

lemma steps_final:
  assumes "devices_inv s" "call_step c s s'"
  shows "r \<in> set (dd_requests s) \<Longrightarrow> rq_Status (rr_Request r) \<in> {RequestRejected, RequestConsumed} \<Longrightarrow> r \<in> set (dd_requests s')"
    and "d \<in> set (dd_devices s) \<Longrightarrow> terminal (dv_Status d) \<Longrightarrow> d \<in> set (dd_devices s')"
proof -
  note dist = devices_invD(1,2) [OF assms(1)]
  have reqs: "r \<in> set (replace_row req_id x' (dd_requests s))"
    if "r \<in> set (dd_requests s)" "x \<in> set (dd_requests s)" "req_id x' = req_id x" "x \<noteq> r" for r x x'
    unfolding replace_row_set [OF dist(2) that(2,3)] using that by blast
  have devs: "d \<in> set (replace_row dv_ID x' (dd_devices s))"
    if "d \<in> set (dd_devices s)" "x \<in> set (dd_devices s)" "dv_ID x' = dv_ID x" "x \<noteq> d" for d x x'
    unfolding replace_row_set [OF dist(1) that(2,3)] using that by blast
  have step: "(r \<in> set (dd_requests s) \<longrightarrow> rq_Status (rr_Request r) \<in> {RequestRejected, RequestConsumed} \<longrightarrow> r \<in> set (dd_requests s'))
      \<and> (d \<in> set (dd_devices s) \<longrightarrow> terminal (dv_Status d) \<longrightarrow> d \<in> set (dd_devices s'))"
    if "device_step t s s' \<or> plane_step s s'" for t r d
    using that
  proof
    assume "device_step t s s'"
    then show ?thesis
      by (cases rule: device_step.cases)
        (auto simp: decidable_def terminal_def ValidateStatusTransition_Some intro!: reqs devs)
  next
    assume "plane_step s s'"
    then show ?thesis
      by (cases rule: plane_step.cases) (auto intro!: reqs)
  qed
  have "(\<exists>t. device_step t s s') \<or> plane_step s s'" using assms(2) by (cases c) auto
  with step show "r \<in> set (dd_requests s) \<Longrightarrow> rq_Status (rr_Request r) \<in> {RequestRejected, RequestConsumed} \<Longrightarrow> r \<in> set (dd_requests s')"
    "d \<in> set (dd_devices s) \<Longrightarrow> terminal (dv_Status d) \<Longrightarrow> d \<in> set (dd_devices s')" by blast+
qed

interpretation final_request: absorbing_state "device_world_step X C"
  "\<lambda>w. devices_inv (db_devices (w_db w)) \<and> r \<in> set (dd_requests (db_devices (w_db w)))
     \<and> rq_Status (rr_Request r) \<in> {RequestRejected, RequestConsumed}" for X C r
  by unfold_locales (metis device_run.inv_step world_step_cases steps_final(1))

interpretation retired_device: absorbing_state "device_world_step X C"
  "\<lambda>w. devices_inv (db_devices (w_db w)) \<and> d \<in> set (dd_devices (db_devices (w_db w))) \<and> terminal (dv_Status d)" for X C d
  by unfold_locales (metis device_run.inv_step world_step_cases steps_final(2))

section \<open>Properties\<close>

text \<open>A first request, its approval by someone else, and a rotation.\<close>

definition sample_payload :: ProvisionPayload where
  "sample_payload = \<lparr>pp_Kind = ''AIS'', pp_OwnerAgency = ''NIMASA'', pp_Label = ''mast'',
     pp_PublicKey = replicate 43 (CHR ''A''), pp_Metadata = []\<rparr>"

definition pending_row :: request_row where
  "pending_row = new_request ''r1'' ''t'' (PayloadProvision sample_payload) ''maker'' 0"

definition device_world :: "request_row list \<Rightarrow> world" where
  "device_world rs = empty_world\<lparr>w_db := empty_db\<lparr>db_devices := empty_devices\<lparr>dd_requests := rs\<rparr>\<rparr>\<rparr>"

lemma device_world_inv: "devices_inv (db_devices (w_db (device_world [pending_row])))"
  by (simp add: device_world_def pending_row_def devices_inv_def empty_devices_def new_request_def request_ok_def)

lemma sample_approved:
  "case ApproveRequest calm sample_codec ''t'' ''r1'' ''checker'' 0 (device_world [pending_row]) of
     (w', Inr a) \<Rightarrow> av_DeviceID a = ''4'' \<and> map rq_Status (map rr_Request (dd_requests (db_devices (w_db w')))) = [RequestApproved]
       \<and> map ky_Epoch (dd_keys (db_devices (w_db w'))) = [1]
   | (w', Inl e) \<Rightarrow> False"
  by code_simp

lemma registry_facts:
  assumes inv: "devices_inv s"
  shows "d \<in> set (dd_devices s) \<Longrightarrow> \<not> terminal (dv_Status d) \<Longrightarrow>
      \<exists>!k. k \<in> set (dd_keys s) \<and> ky_DeviceID k = dv_ID d \<and> ky_Status k = KeyCurrent"
    and "d \<in> set (dd_devices s) \<Longrightarrow> terminal (dv_Status d) \<Longrightarrow> k \<in> set (dd_keys s) \<Longrightarrow> ky_DeviceID k = dv_ID d \<Longrightarrow>
      ky_Status k = KeyRevoked"
    and "k \<in> set (dd_keys s) \<Longrightarrow> \<exists>r\<in>set (dd_requests s). payload_key (rq_Payload (rr_Request r)) = Some (ky_PublicKey k)
      \<and> rq_DeviceID (rr_Request r) = Some (ky_DeviceID k) \<and> rq_Status (rr_Request r) \<in> {RequestApproved, RequestConsumed}
      \<and> (\<exists>c. rq_DecidedBy (rr_Request r) = Some c \<and> c \<noteq> rq_RequestedBy (rr_Request r))"
proof -
  show "\<exists>!k. k \<in> set (dd_keys s) \<and> ky_DeviceID k = dv_ID d \<and> ky_Status k = KeyCurrent"
    if d: "d \<in> set (dd_devices s)" "\<not> terminal (dv_Status d)"
  proof -
    note ok = device_okD [OF devices_invD(5) [OF inv d(1)]]
    have "dv_KeyEpoch d \<in> ky_Epoch ` {k \<in> set (dd_keys s). ky_DeviceID k = dv_ID d}" unfolding ok(2) using ok(1) by simp
    then obtain k where k: "k \<in> set (dd_keys s)" "ky_DeviceID k = dv_ID d" "ky_Epoch k = dv_KeyEpoch d" by auto
    have "x = k" if "x \<in> set (dd_keys s)" "ky_DeviceID x = dv_ID d" "ky_Status x = KeyCurrent" for x
    proof -
      have "ky_Epoch x = ky_Epoch k" using ok(3) [OF that(1,2)] that(3) d(2) k(3) by simp
      moreover have "inj_on (\<lambda>k. (ky_DeviceID k, ky_Epoch k)) (set (dd_keys s))"
        using devices_invD(3) [OF inv] by (simp add: distinct_map)
      ultimately show ?thesis using that k by (auto elim: inj_onD)
    qed
    moreover have "ky_Status k = KeyCurrent" using ok(3) [OF k(1,2)] k(3) d(2) by simp
    ultimately show ?thesis using k by blast
  qed
  show "ky_Status k = KeyRevoked"
    if "d \<in> set (dd_devices s)" "terminal (dv_Status d)" "k \<in> set (dd_keys s)" "ky_DeviceID k = dv_ID d"
    using device_okD(3) [OF devices_invD(5) [OF inv that(1)] that(3,4)] that(2) by simp
  show "\<exists>r\<in>set (dd_requests s). payload_key (rq_Payload (rr_Request r)) = Some (ky_PublicKey k)
      \<and> rq_DeviceID (rr_Request r) = Some (ky_DeviceID k) \<and> rq_Status (rr_Request r) \<in> {RequestApproved, RequestConsumed}
      \<and> (\<exists>c. rq_DecidedBy (rr_Request r) = Some c \<and> c \<noteq> rq_RequestedBy (rr_Request r))" if k: "k \<in> set (dd_keys s)"
  proof -
    from devices_invD(7) [OF inv k] obtain r where r: "r \<in> set (dd_requests s)"
      "rq_DeviceID (rr_Request r) = Some (ky_DeviceID k)" "payload_key (rq_Payload (rr_Request r)) = Some (ky_PublicKey k)"
      "rq_Status (rr_Request r) \<in> {RequestApproved, RequestConsumed}" unfolding vouched_def by blast
    have "request_ok r" using r(1) devices_invD(6) [OF inv] by blast
    with r(4) obtain c where "rq_DecidedBy (rr_Request r) = Some c" "c \<noteq> rq_RequestedBy (rr_Request r)"
      by (auto simp: request_ok_def Let_def)
    with r show ?thesis by blast
  qed
qed

text \<open>
  C8. After any sequence of registry calls by any principals, with any failures in between, device identifiers
  are unique and so are the epochs of a device's keys, which are exactly 1 up to its key epoch; a device that is
  not retired has exactly one current key, the one of its key epoch; a retired device has only revoked keys;
  and every registered key is the one carried by an approved (or since consumed) request for that device,
  which one person made and another one decided.
\<close>

theorem device_registry_consistent:
  assumes "s = db_devices (w_db (run_steps (device_world_step X C) empty_world calls))"
  shows "distinct (map dv_ID (dd_devices s)) \<and> distinct (map (\<lambda>k. (ky_DeviceID k, ky_Epoch k)) (dd_keys s))
    \<and> (\<forall>d\<in>set (dd_devices s).
      (if dv_Status d \<in> {StatusRevoked, StatusDecommissioned}
       then \<forall>k\<in>set (dd_keys s). ky_DeviceID k = dv_ID d \<longrightarrow> ky_Status k = KeyRevoked
       else (\<exists>!k. k \<in> set (dd_keys s) \<and> ky_DeviceID k = dv_ID d \<and> ky_Status k = KeyCurrent)
         \<and> (\<forall>k\<in>set (dd_keys s). ky_DeviceID k = dv_ID d \<longrightarrow> (ky_Status k = KeyCurrent) = (ky_Epoch k = dv_KeyEpoch d)))
      \<and> ky_Epoch ` {k \<in> set (dd_keys s). ky_DeviceID k = dv_ID d} = {1 .. dv_KeyEpoch d})
    \<and> (\<forall>k\<in>set (dd_keys s). \<exists>r\<in>set (dd_requests s).
      payload_key (rq_Payload (rr_Request r)) = Some (ky_PublicKey k) \<and> rq_DeviceID (rr_Request r) = Some (ky_DeviceID k)
      \<and> rq_Status (rr_Request r) \<in> {RequestApproved, RequestConsumed}
      \<and> (\<exists>c. rq_DecidedBy (rr_Request r) = Some c \<and> c \<noteq> rq_RequestedBy (rr_Request r)))"
proof -
  have inv: "devices_inv s"
    unfolding assms by (rule device_run.inv_run) (simp add: empty_world_def empty_db_def empty_devices_inv)
  have t: "terminal st \<longleftrightarrow> st \<in> {StatusRevoked, StatusDecommissioned}" for st by (simp add: terminal_def)
  show ?thesis
    unfolding t [symmetric]
    using devices_invD(1,3) [OF inv] registry_facts [OF inv] device_okD(2,3) [OF devices_invD(5) [OF inv]]
    by (intro conjI ballI) (simp_all del: ex_simps)
qed

definition sample_calls :: "device_call list" where
  "sample_calls = [DProvision ''t'' sample_payload ''maker'', DApprove ''t'' ''2'' ''checker'' 0]"

lemma sample_run:
  "map (\<lambda>d. (dv_ID d, dv_Status d)) (dd_devices (db_devices (w_db (run_steps (device_world_step calm sample_codec) empty_world sample_calls))))
     = [(''10'', StatusActive)]"
  by code_simp

theorem device_registry_consistent_witness:
  "\<exists>k. ky_DeviceID k = ''10'' \<and> ky_Status k = KeyCurrent
    \<and> k \<in> set (dd_keys (db_devices (w_db (run_steps (device_world_step calm sample_codec) empty_world sample_calls))))"
proof -
  let ?s = "db_devices (w_db (run_steps (device_world_step calm sample_codec) empty_world sample_calls))"
  from sample_run obtain d where "d \<in> set (dd_devices ?s)" "dv_ID d = ''10''" "dv_Status d = StatusActive"
    by (cases "dd_devices ?s") auto
  with device_registry_consistent [OF refl, of calm sample_codec sample_calls] show ?thesis by fastforce
qed

text \<open>
  C9. The registry implements the documented provisioning ledger: every successful call is exactly one step
  of it (a pending request; an approval by a second person that creates the device with its first key, or
  demotes the current key, revokes the expired ones and installs the next epoch; a rejection; a status change
  that revokes all keys when it is terminal; a release; the activation of an approved request; an audit row),
  for the caller's tenant, and touches nothing else. A failed call changes no table, except that a
  rejection may be committed although reading it back failed.
\<close>

theorem device_calls_refine_ledger:
  assumes "devices_inv (db_devices (w_db w))" "device_call_run X C c w = (w', res)"
  shows "tables_only w w' \<and> devices_inv (db_devices (w_db w'))
    \<and> (res = Inr () \<longrightarrow> call_step c (db_devices (w_db w)) (db_devices (w_db w'))
         \<and> w_db w' = (w_db w)\<lparr>db_devices := db_devices (w_db w')\<rparr>)
    \<and> (isl res \<and> w_db w' \<noteq> w_db w \<longrightarrow> (\<exists>t i k. c = DReject t i k) \<and> call_step c (db_devices (w_db w)) (db_devices (w_db w')))"
proof -
  have "tables_only w w' \<and> (res = Inr () \<longrightarrow> registry_moved (call_step c) w w')
    \<and> (isl res \<longrightarrow> registry_kept w w' \<or> ((\<exists>t i k. c = DReject t i k) \<and> registry_moved (call_step c) w w'))"
    using device_call_wp [OF assms(1), of X C c] assms(2)
    by (cases res) (auto simp: wp_def registry_moved_def registry_kept_def)
  moreover have "devices_inv (db_devices (w_db w'))"
    using device_run.inv_step [OF assms(1), of X C c] assms(2) by (simp add: device_world_step_def)
  moreover have "call_step c (db_devices (w_db w)) (db_devices (w_db w')) \<and> w_db w' = (w_db w)\<lparr>db_devices := db_devices (w_db w')\<rparr>"
    if "registry_moved (call_step c) w w'"
    using that by (auto simp: registry_moved_def)
  ultimately show ?thesis by (auto simp: registry_kept_def)
qed

theorem device_calls_refine_ledger_witness:
  "\<exists>w'. device_call_run calm sample_codec (DApprove ''t'' ''r1'' ''checker'' 0) (device_world [pending_row]) = (w', Inr ())
    \<and> device_step ''t'' (db_devices (w_db (device_world [pending_row]))) (db_devices (w_db w'))"
proof -
  obtain w' a where "ApproveRequest calm sample_codec ''t'' ''r1'' ''checker'' 0 (device_world [pending_row]) = (w', Inr a)"
    using sample_approved by (auto split: prod.splits sum.splits)
  then have r: "device_call_run calm sample_codec (DApprove ''t'' ''r1'' ''checker'' 0) (device_world [pending_row]) = (w', Inr ())"
    by (simp add: seqA_def bindA_def ret_def)
  with device_calls_refine_ledger [OF device_world_inv r] show ?thesis by auto
qed

lemma ConsumeActivation_Inr:
  assumes "devices_inv (db_devices (w_db w))" "ConsumeActivation X C i secret w = (w', Inr dev)"
  obtains raw r where "base64_decode (trim_space secret) = Some raw" "length raw = 32" "r \<in> set (dd_requests (db_devices (w_db w)))"
    "consumable i (dc_sha256 C raw) r" "rq_DeviceID (rr_Request r) = Some dev" "devices_inv (db_devices (w_db w'))"
    "consume_row r \<in> set (dd_requests (db_devices (w_db w')))"
proof -
  from wp_Inr [OF ConsumeActivation_wp [OF assms(1)] assms(2)] obtain raw r where
    r: "base64_decode (trim_space secret) = Some raw" "length raw = 32" "r \<in> set (dd_requests (db_devices (w_db w)))"
      "consumable i (dc_sha256 C raw) r" "rq_DeviceID (rr_Request r) = Some dev"
    and w': "w_db w' = (w_db w)\<lparr>db_devices := (db_devices (w_db w))\<lparr>dd_requests :=
             replace_row req_id (consume_row r) (dd_requests (db_devices (w_db w)))\<rparr>\<rparr>" by blast
  have "plane_step (db_devices (w_db w)) (db_devices (w_db w'))"
    using plane_step.consume [OF r(3)] r(4) w' by (simp add: consumable_def)
  then have "devices_inv (db_devices (w_db w'))" by (rule plane_step_inv [OF _ assms(1)])
  moreover have "consume_row r \<in> set (dd_requests (db_devices (w_db w')))"
    using replace_row_set [OF devices_invD(2) [OF assms(1)] r(3) consume_sel(1)] w' by simp
  ultimately show ?thesis using that r by blast
qed

text \<open>
  C18. A device is activated exactly once: an activation succeeds only for an approved request whose stored
  digest is that of the presented 32-byte secret and returns the device of that request, and afterwards,
  whatever calls follow and whatever secret is presented, no activation of that request succeeds again.
\<close>

theorem activation_exactly_once:
  assumes inv: "devices_inv (db_devices (w_db w))" and c: "ConsumeActivation X C i secret w = (w1, Inr dev)"
  shows "(\<exists>raw r. base64_decode (trim_space secret) = Some raw \<and> length raw = 32
       \<and> r \<in> set (dd_requests (db_devices (w_db w))) \<and> rq_ID (rr_Request r) = i \<and> rq_Status (rr_Request r) = RequestApproved
       \<and> rr_ActivationSecretHash r = Some (dc_sha256 C raw) \<and> rq_DeviceID (rr_Request r) = Some dev)
    \<and> (\<forall>calls Y Z D secret' w2 res.
         ConsumeActivation Z D i secret' (run_steps (device_world_step Y D) w1 calls) = (w2, res) \<longrightarrow> isl res)"
proof -
  from ConsumeActivation_Inr [OF assms] obtain raw r where r: "base64_decode (trim_space secret) = Some raw" "length raw = 32"
    "r \<in> set (dd_requests (db_devices (w_db w)))" "consumable i (dc_sha256 C raw) r" "rq_DeviceID (rr_Request r) = Some dev"
    and w1: "devices_inv (db_devices (w_db w1))" "consume_row r \<in> set (dd_requests (db_devices (w_db w1)))" by metis
  have "isl res" if run: "ConsumeActivation Z D i secret' (run_steps (device_world_step Y D) w1 calls) = (w2, res)"
    for calls Y Z D secret' w2 res
  proof (rule ccontr)
    let ?w = "run_steps (device_world_step Y D) w1 calls"
    have w: "devices_inv (db_devices (w_db ?w))" "consume_row r \<in> set (dd_requests (db_devices (w_db ?w)))"
      using final_request.inv_run [of w1 "consume_row r" Y D calls] w1 by simp_all
    assume "\<not> isl res"
    then obtain dev' where "res = Inr dev'" by (cases res) auto
    from ConsumeActivation_Inr [OF w(1) run [unfolded this]] obtain raw' r' where
      r': "r' \<in> set (dd_requests (db_devices (w_db ?w)))" "consumable i (dc_sha256 D raw') r'" by metis
    have "req_id r' = req_id (consume_row r)" using r(4) r'(2) by (simp add: consumable_def) (simp add: req_id_def)
    then have "r' = consume_row r" using devices_invD(2) [OF w(1)] w(2) r'(1) by (metis distinct_map inj_onD)
    with r'(2) show False by (simp add: consumable_def)
  qed
  with r show ?thesis by (auto simp: consumable_def)
qed

lemma b64_char_no_space: "n < 64 \<Longrightarrow> \<not> is_space (b64_char n)"
  by (auto simp: b64_char_def is_space_def Let_def)

lemma trim_base64: "trim_space (base64_encode s) = base64_encode s"
proof -
  have "\<not> is_space c" if "c \<in> set (base64_encode s)" for c
  proof -
    have "\<forall>b\<in>set (map of_char s). b < (256::nat)" by auto
    with that obtain n where "c = b64_char n" "n < 64" using b64_enc_range by (fastforce simp: base64_encode_def)
    then show ?thesis using b64_char_no_space by simp
  qed
  then show ?thesis by (intro trim_space_id) (auto simp: hd_in_set last_in_set)
qed

text \<open>
  C25. The one-time secret an approval returns activates its device: presented to a database that answers,
  it is accepted and names the device the approval created. Relied on: the random source fills 32 bytes.
\<close>

theorem approval_secret_activates:
  assumes inv: "devices_inv (db_devices (w_db w))" and a: "ApproveRequest X C t i checker grace w = (w1, Inr a)"
    and secret: "av_ActivationSecret a \<noteq> []" and random: "\<forall>n raw. dc_random C n = Some raw \<longrightarrow> length raw = 32"
    and pg: "\<forall>n. x_pg Y n"
  shows "\<exists>w2. ConsumeActivation Y C i (av_ActivationSecret a) w1 = (w2, Inr (av_DeviceID a))"
proof -
  from wp_Inr [OF ApproveRequest_wp [OF inv] a] secret
  have moved: "call_step (DApprove t i checker grace) (db_devices (w_db w)) (db_devices (w_db w1))"
    and iss: "issued C i a (db_devices (w_db w1))" by (auto simp: registry_moved_def)
  have inv1: "devices_inv (db_devices (w_db w1))" by (rule call_step_inv [OF moved inv])
  from iss obtain n raw r where r: "dc_random C n = Some raw" "av_ActivationSecret a = base64_encode raw"
    "r \<in> set (dd_requests (db_devices (w_db w1)))" "consumable i (dc_sha256 C raw) r" "rq_DeviceID (rr_Request r) = Some (av_DeviceID a)"
    unfolding issued_def by blast
  have only: "x = r" if "x \<in> set (dd_requests (db_devices (w_db w1)))" "consumable i (dc_sha256 C raw) x" for x
    using that r(3,4) devices_invD(2) [OF inv1] by (metis consumable_def distinct_map inj_onD req_id_def)
  have "find (consumable i (dc_sha256 C raw)) (dd_requests (db_devices (w_db w1))) \<noteq> None"
    unfolding find_None_iff using r(3,4) by blast
  then obtain x where x: "find (consumable i (dc_sha256 C raw)) (dd_requests (db_devices (w_db w1))) = Some x" by blast
  then have "x \<in> set (dd_requests (db_devices (w_db w1)))" "consumable i (dc_sha256 C raw) x"
    by (auto simp: find_Some_iff)
  with only x have "find (consumable i (dc_sha256 C raw)) (dd_requests (db_devices (w_db w1))) = Some r" by simp
  then have row: "snd (consume_request i (dc_sha256 C raw) (db_devices (w_db w1))) = Some (Some (av_DeviceID a))"
    by (simp add: consume_request_def r(5))
  have "length raw = 32" using random r(1) by blast
  moreover have "base64_encode raw \<noteq> []" using secret r(2) by simp
  ultimately have "wp (ConsumeActivation Y C i (av_ActivationSecret a)) (\<lambda>dev _. dev = av_DeviceID a) (\<lambda>_ _. False) w1"
    using pg row by (auto simp: ConsumeActivation_def r(2) trim_base64 base64_round_trip wp_simps on_devices_case case_prod_beta)
  then show ?thesis by (auto simp: wp_def split: prod.splits sum.splits)
qed

lemma sample_secret:
  "case ApproveRequest calm sample_codec ''t'' ''r1'' ''checker'' 0 (device_world [pending_row]) of
     (w', Inr a) \<Rightarrow> av_ActivationSecret a \<noteq> [] | (w', Inl e) \<Rightarrow> False"
  by code_simp

theorem approval_secret_activates_witness:
  "\<exists>w1 a w2. ApproveRequest calm sample_codec ''t'' ''r1'' ''checker'' 0 (device_world [pending_row]) = (w1, Inr a)
     \<and> ConsumeActivation calm sample_codec ''r1'' (av_ActivationSecret a) w1 = (w2, Inr (av_DeviceID a))"
proof -
  obtain w1 a where a: "ApproveRequest calm sample_codec ''t'' ''r1'' ''checker'' 0 (device_world [pending_row]) = (w1, Inr a)"
    and "av_ActivationSecret a \<noteq> []" using sample_secret by (auto split: prod.splits sum.splits)
  with approval_secret_activates [OF device_world_inv a, of calm] show ?thesis
    by (auto simp: sample_codec_def calm_def)
qed

definition approved_row :: request_row where
  "approved_row = decide RequestApproved ''checker'' 1 (Some ''d1'') (Some (replicate 32 (CHR ''h''))) pending_row"

definition approved_world :: world where
  "approved_world = empty_world\<lparr>w_db := empty_db\<lparr>db_devices := empty_devices\<lparr>dd_requests := [approved_row]\<rparr>\<rparr>\<rparr>"

lemma approved_world_inv: "devices_inv (db_devices (w_db approved_world))"
  by (simp add: approved_world_def approved_row_def pending_row_def devices_inv_def empty_devices_def new_request_def
      request_ok_def decide_def)

definition sample_secret_text :: string where
  "sample_secret_text = replicate 43 (CHR ''A'')"

lemma sample_activation:
  "case ConsumeActivation calm sample_codec ''r1'' sample_secret_text approved_world of
     (w', Inr dev) \<Rightarrow> dev = ''d1'' | (w', Inl e) \<Rightarrow> False"
  by code_simp

theorem activation_exactly_once_witness:
  "\<exists>w1 w2 res. ConsumeActivation calm sample_codec ''r1'' sample_secret_text approved_world = (w1, Inr ''d1'')
     \<and> ConsumeActivation calm sample_codec ''r1'' sample_secret_text w1 = (w2, res) \<and> isl res"
proof -
  obtain w1 where c: "ConsumeActivation calm sample_codec ''r1'' sample_secret_text approved_world = (w1, Inr ''d1'')"
    using sample_activation by (auto split: prod.splits sum.splits)
  obtain w2 res where r: "ConsumeActivation calm sample_codec ''r1'' sample_secret_text w1 = (w2, res)" by fastforce
  then have "ConsumeActivation calm sample_codec ''r1'' sample_secret_text (run_steps (device_world_step calm sample_codec) w1 []) = (w2, res)"
    by simp
  with activation_exactly_once [OF approved_world_inv c] c r show ?thesis by metis
qed

end
