(* ===== verification/Device_Verify.thy ===== *)
theory Device_Verify
  imports Device_Machine Bus
begin

text \<open>
  Verification at ingest (\<open>internal/devices/verify.go\<close>): a posted envelope or an action proof is
  authenticated against the registry, and every rejection is counted and written to the audit ledger.
\<close>

section \<open>The verifier\<close>

record Verifier =
  vf_Grace :: int

record VerifiedDevice =
  vd_Device :: Device
  vd_KeyEpoch :: int

text \<open>The reader and the metrics registry are present or nil.\<close>

definition NewVerifier :: "bool \<Rightarrow> bool \<Rightarrow> int \<Rightarrow> string + Verifier" where
  "NewVerifier reader registry grace =
     (if \<not> reader then Inl ''devices: verifier auth reader is required''
      else if \<not> registry then Inl ''devices: verifier metrics registry is required''
      else Inr \<lparr>vf_Grace = (if grace \<le> 0 then DefaultKeyGrace else grace)\<rparr>)"

definition auth_audit :: "string \<Rightarrow> string \<Rightarrow> auth_reason \<Rightarrow> string \<Rightarrow> AuditEvent" where
  "auth_audit deviceID tenantID reason detail =
     \<lparr>au_TenantID = tenantID, au_DeviceID = deviceID, au_Event = AuditAuthFailed, au_Actor = ''device:'' @ deviceID,
      au_Reason = reason_text reason, au_Metadata = [(''detail'', detail)]\<rparr>"

definition auth_label :: "auth_reason \<Rightarrow> string" where
  "auth_label reason = ''fail/'' @ reason_text reason"

definition reject :: "externals \<Rightarrow> string \<Rightarrow> string \<Rightarrow> auth_reason \<Rightarrow> string \<Rightarrow> unit geo" where
  "reject X deviceID tenantID reason detail =
     seqA (count ''geo_device_auth_total'' (auth_label reason))
       (seqA (attempt (InsertAudit X (auth_audit deviceID tenantID reason detail))) (ret ()))"

definition accept :: "unit geo" where
  "accept = count ''geo_device_auth_total'' ''ok''"

text \<open>A rejection recorded under one device id and returned under another text.\<close>

definition denied :: "externals \<Rightarrow> string \<Rightarrow> string \<Rightarrow> auth_reason \<Rightarrow> string \<Rightarrow> string \<Rightarrow> string \<Rightarrow> 'a geo" where
  "denied X deviceID tenantID reason logged errDevice detail =
     seqA (reject X deviceID tenantID reason logged)
       (raise (ErrAuth \<lparr>ae_Reason = reason, ae_DeviceID = errDevice, ae_Detail = detail\<rparr>))"

definition denied_device :: "externals \<Rightarrow> Device \<Rightarrow> auth_reason \<Rightarrow> string \<Rightarrow> 'a geo" where
  "denied_device X d reason detail = denied X (dv_ID d) (dv_TenantID d) reason detail (dv_ID d) detail"

definition authenticate :: "externals \<Rightarrow> Verifier \<Rightarrow> string \<Rightarrow> int \<Rightarrow> (Device \<times> Key) geo" where
  "authenticate X V deviceID epoch =
     bindA (attempt (LoadDeviceForAuth X deviceID)) (\<lambda>loaded.
     case loaded of
       Inl e \<Rightarrow>
         if e = ErrDeviceNotFound
         then denied X deviceID [] ReasonDeviceUnknown ''device is not registered'' deviceID ''device is not registered''
         else raise (ErrWrap ''load device for auth'' e)
     | Inr device \<Rightarrow>
         (case dv_Status device of
            StatusSuspended \<Rightarrow> denied_device X device ReasonDeviceSuspended ''device is suspended''
          | StatusRevoked \<Rightarrow> denied_device X device ReasonDeviceRevoked ''device is revoked''
          | StatusDecommissioned \<Rightarrow> denied_device X device ReasonDeviceRetired ''device is decommissioned''
          | StatusActive \<Rightarrow>
              bindA (attempt (LoadKey X deviceID epoch)) (\<lambda>found.
              case found of
                Inl e \<Rightarrow> denied_device X device ReasonEpochUnknown ''key epoch is not registered''
              | Inr key \<Rightarrow>
                  (case ky_Status key of
                     KeyCurrent \<Rightarrow>
                       if epoch \<noteq> dv_KeyEpoch device
                       then denied_device X device ReasonEpochUnknown ''key epoch is not the device current epoch''
                       else ret (device, key)
                   | KeyPrevious \<Rightarrow>
                       bindA (clock X) (\<lambda>now.
                       if time_sub now (ky_RotatedAt key) > vf_Grace V
                       then denied_device X device ReasonGraceExpired ''previous key epoch is past the rotation grace window''
                       else ret (device, key))
                   | KeyRevoked \<Rightarrow> denied_device X device ReasonKeyRevoked ''key epoch is revoked''))))"

definition incomplete :: "DeviceEnvelope \<Rightarrow> bool" where
  "incomplete e \<longleftrightarrow>
     trim_space (de_DeviceID e) = [] \<or> de_KeyEpoch e < 1 \<or> trim_space (de_PayloadType e) = [] \<or> de_Payload e = []
     \<or> de_OccurredAt e = zero_time \<or> trim_space (de_Signature e) = []"

definition VerifyTelemetry ::
  "externals \<Rightarrow> Verifier \<Rightarrow> device_codec \<Rightarrow> string \<Rightarrow> string \<Rightarrow> (DeviceEnvelope \<times> VerifiedDevice) geo" where
  "VerifyTelemetry X V C pathDeviceID raw =
     (case dc_envelope C raw of
        None \<Rightarrow> denied X [] [] ReasonEnvelopeMalformed ''envelope is not valid JSON'' [] ''envelope is not valid JSON''
      | Some e \<Rightarrow>
          if de_EnvelopeVersion e \<noteq> DeviceEnvelopeVersion
          then denied X (de_DeviceID e) [] ReasonEnvelopeMalformed ''envelopeVersion is not 1.0'' (de_DeviceID e) ''envelopeVersion is not 1.0''
          else if incomplete e
          then denied X (de_DeviceID e) [] ReasonEnvelopeMalformed ''envelope fields are incomplete'' (de_DeviceID e) ''envelope fields are incomplete''
          else if de_DeviceID e \<noteq> pathDeviceID
          then denied X (de_DeviceID e) [] ReasonDeviceIDMismatch ''path device id does not match the envelope'' (de_DeviceID e)
                 ''path device id does not match the envelope''
          else bindA (authenticate X V (de_DeviceID e) (de_KeyEpoch e)) (\<lambda>dk.
            case VerifyEnvelopeSignature (x_crypto X) C e (ky_PublicKey (snd dk)) of
              Some err \<Rightarrow> denied X (dv_ID (fst dk)) (dv_TenantID (fst dk)) ReasonSignatureInvalid err (dv_ID (fst dk))
                            ''signature verification failed''
            | None \<Rightarrow> seqA accept (ret (e, \<lparr>vd_Device = fst dk, vd_KeyEpoch = de_KeyEpoch e\<rparr>))))"

definition Verifier_VerifyProof ::
  "externals \<Rightarrow> Verifier \<Rightarrow> device_codec \<Rightarrow> string \<Rightarrow> string \<Rightarrow> VerifiedDevice geo" where
  "Verifier_VerifyProof X V C jws expectedAction =
     (if trim_space jws = [] then denied X [] [] ReasonEnvelopeMalformed ''proof is required'' [] ''proof is required''
      else case proofClaims C jws of
        Inl e \<Rightarrow> denied X [] [] ReasonEnvelopeMalformed e [] e
      | Inr claims \<Rightarrow>
          bindA (authenticate X V (fst claims) (snd claims)) (\<lambda>dk.
          case VerifyProof (x_crypto X) C jws (ky_PublicKey (snd dk)) of
            Inl err \<Rightarrow> denied X (dv_ID (fst dk)) (dv_TenantID (fst dk)) ReasonSignatureInvalid err (dv_ID (fst dk))
                         ''proof signature verification failed''
          | Inr proof \<Rightarrow>
              if pf_Action proof \<noteq> expectedAction
              then denied_device X (fst dk) ReasonActionMismatch ''proof action does not match the endpoint''
              else if pf_DeviceID proof \<noteq> fst claims \<or> pf_KeyEpoch proof \<noteq> snd claims
              then denied_device X (fst dk) ReasonDeviceIDMismatch ''proof claims do not match the key id''
              else seqA accept (ret \<lparr>vd_Device = fst dk, vd_KeyEpoch = snd claims\<rparr>)))"

section \<open>What a verification leaves behind\<close>

text \<open>A rejection: one count, and one ledger row at most; nothing else of the world moves.\<close>

definition refused :: "auth_reason \<Rightarrow> world \<Rightarrow> world \<Rightarrow> bool" where
  "refused reason w w' \<longleftrightarrow>
     w_kafka w' = w_kafka w \<and> w_metrics w' = w_metrics w @ [(''geo_device_auth_total'', auth_label reason)]
     \<and> (w_db w' = w_db w \<or> (\<exists>a. al_Event a = AuditAuthFailed \<and> al_Reason a = Some (reason_text reason)
          \<and> w_db w' = (w_db w)\<lparr>db_devices := (db_devices (w_db w))\<lparr>dd_audit := dd_audit (db_devices (w_db w)) @ [a]\<rparr>\<rparr>))"

definition undisturbed :: "world \<Rightarrow> world \<Rightarrow> bool" where
  "undisturbed w w' \<longleftrightarrow> w_kafka w' = w_kafka w \<and> w_metrics w' = w_metrics w \<and> w_db w' = w_db w"

lemma undisturbed_tick [simp]:
  "undisturbed w (v\<lparr>w_tick := n\<rparr>) = undisturbed w v" "undisturbed w w"
  by (simp_all add: undisturbed_def)

definition refused_for :: "world \<Rightarrow> geo_error \<Rightarrow> world \<Rightarrow> bool" where
  "refused_for w e w' \<longleftrightarrow> (case e of ErrAuth a \<Rightarrow> refused (ae_Reason a) w w' | _ \<Rightarrow> undisturbed w w')"

lemma reason_text_kept: "text_or_null (reason_text r) = Some (reason_text r)"
  by (cases r) (simp_all add: text_or_null_def trim_space_def trim_left_def is_space_def)

lemma tables_only_metrics: "tables_only w w' \<Longrightarrow> w_metrics w' = w_metrics w"
  unfolding tables_only_def by (cases w; cases w') simp

lemma denied_wp:
  assumes "undisturbed w v"
  shows "wp (denied X dev t reason logged errDev detail) Q (refused_for w) v"
proof -
  let ?v = "v\<lparr>w_metrics := w_metrics v @ [(''geo_device_auth_total'', auth_label reason)]\<rparr>"
  have entry: "al_Event (audit_entry (auth_audit dev t reason logged) now) = AuditAuthFailed
      \<and> al_Reason (audit_entry (auth_audit dev t reason logged) now) = Some (reason_text reason)" for now
    by (simp add: audit_entry_def auth_audit_def reason_text_kept)
  have kept: "w_kafka u = w_kafka v \<and> w_metrics u = w_metrics ?v" if "tables_only ?v u" for u
    using tables_only_kafka [OF that] tables_only_metrics [OF that] by simp
  have "wp (attempt (InsertAudit X (auth_audit dev t reason logged))) (\<lambda>_. refused reason w) (\<lambda>_ _. False) ?v"
    unfolding wp_attempt
  proof (rule wp_mono [OF InsertAudit_wp], goal_cases)
    case (1 x u)
    then show ?case
      using assms kept [of u] entry by (auto simp: refused_def registry_moved_def undisturbed_def)
  next
    case (2 e u)
    then show ?case using assms kept [of u] by (auto simp: refused_def registry_kept_def undisturbed_def)
  qed
  then show ?thesis
    unfolding denied_def reject_def wp_seq wp_count wp_ret wp_raise
    by (rule wp_mono) (simp_all add: refused_for_def)
qed

lemma LoadDeviceForAuth_wp:
  "wp (LoadDeviceForAuth X i)
     (\<lambda>d w'. undisturbed w w' \<and> find (\<lambda>d. dv_ID d = i) (dd_devices (db_devices (w_db w))) = Some d)
     (\<lambda>e w'. undisturbed w w' \<and> (e = ErrDeviceNotFound \<longrightarrow> find (\<lambda>d. dv_ID d = i) (dd_devices (db_devices (w_db w))) = None)) w"
  unfolding LoadDeviceForAuth_def by (auto simp: wp_simps split: option.splits)

lemma LoadKey_wp:
  "wp (LoadKey X i e)
     (\<lambda>k w'. undisturbed w w' \<and> find (\<lambda>k. ky_DeviceID k = i \<and> ky_Epoch k = e) (dd_keys (db_devices (w_db w))) = Some k)
     (\<lambda>_ w'. undisturbed w w') w"
  unfolding LoadKey_def by (auto simp: wp_simps split: option.splits)

text \<open>The registry gates: the device is active, and the key is current, or previous and within its grace.\<close>

definition registered :: "externals \<Rightarrow> Verifier \<Rightarrow> string \<Rightarrow> int \<Rightarrow> device_db \<Rightarrow> Device \<Rightarrow> Key \<Rightarrow> bool" where
  "registered X V i epoch s d k \<longleftrightarrow>
     d \<in> set (dd_devices s) \<and> dv_ID d = i \<and> dv_Status d = StatusActive
     \<and> k \<in> set (dd_keys s) \<and> ky_DeviceID k = i \<and> ky_Epoch k = epoch
     \<and> ((ky_Status k = KeyCurrent \<and> epoch = dv_KeyEpoch d)
        \<or> (ky_Status k = KeyPrevious \<and> (\<exists>n. time_sub (x_now X n) (ky_RotatedAt k) \<le> vf_Grace V)))"

lemma find_member: "find P xs = Some x \<Longrightarrow> x \<in> set xs \<and> P x"
  by (auto simp: find_Some_iff)

lemma denied_device_wp:
  "undisturbed w v \<Longrightarrow> wp (denied_device X d reason detail) Q (refused_for w) v"
  unfolding denied_device_def by (rule denied_wp)

lemma authenticate_wp:
  "wp (authenticate X V i epoch)
     (\<lambda>dk w'. undisturbed w w' \<and> registered X V i epoch (db_devices (w_db w)) (fst dk) (snd dk)) (refused_for w) w"
proof -
  have key: "wp (bindA (attempt (LoadKey X i epoch)) (\<lambda>found.
              case found of
                Inl e \<Rightarrow> denied_device X d ReasonEpochUnknown ''key epoch is not registered''
              | Inr key \<Rightarrow>
                  (case ky_Status key of
                     KeyCurrent \<Rightarrow>
                       if epoch \<noteq> dv_KeyEpoch d
                       then denied_device X d ReasonEpochUnknown ''key epoch is not the device current epoch''
                       else ret (d, key)
                   | KeyPrevious \<Rightarrow>
                       bindA (clock X) (\<lambda>now.
                       if time_sub now (ky_RotatedAt key) > vf_Grace V
                       then denied_device X d ReasonGraceExpired ''previous key epoch is past the rotation grace window''
                       else ret (d, key))
                   | KeyRevoked \<Rightarrow> denied_device X d ReasonKeyRevoked ''key epoch is revoked'')))
     (\<lambda>dk w'. undisturbed w w' \<and> registered X V i epoch (db_devices (w_db w)) (fst dk) (snd dk)) (refused_for w) v"
    if v: "undisturbed w v" and d: "find (\<lambda>d. dv_ID d = i) (dd_devices (db_devices (w_db w))) = Some d" "dv_Status d = StatusActive" for d v
    unfolding wp_bind wp_attempt
  proof (rule wp_mono [OF LoadKey_wp], goal_cases)
    case (1 k u)
    with v have u: "undisturbed w u"
      and k: "find (\<lambda>k. ky_DeviceID k = i \<and> ky_Epoch k = epoch) (dd_keys (db_devices (w_db w))) = Some k"
      by (auto simp: undisturbed_def)
    show ?case
      using u find_member [OF k] find_member [OF d(1)] d(2)
      by (cases "ky_Status k")
        (auto simp: wp_if wp_ret wp_bind wp_clock registered_def not_less intro!: denied_device_wp)
  next
    case (2 e u)
    with v have "undisturbed w u" by (auto simp: undisturbed_def)
    then show ?case by (simp add: denied_device_wp)
  qed
  show ?thesis
    unfolding authenticate_def wp_bind [of "attempt (LoadDeviceForAuth X i)"] wp_attempt
  proof (rule wp_mono [OF LoadDeviceForAuth_wp], goal_cases)
    case (1 d u)
    then show ?case by (cases "dv_Status d") (simp_all add: denied_device_wp key)
  next
    case (2 e u)
    then show ?case by (auto simp: wp_raise refused_for_def intro!: denied_wp)
  qed
qed

definition admitted :: "world \<Rightarrow> world \<Rightarrow> bool" where
  "admitted w w' \<longleftrightarrow> w_kafka w' = w_kafka w \<and> w_db w' = w_db w
     \<and> w_metrics w' = w_metrics w @ [(''geo_device_auth_total'', ''ok'')]"

lemma accept_wp: "undisturbed w v \<Longrightarrow> wp (seqA accept (ret x)) (\<lambda>y w'. y = x \<and> admitted w w') E v"
  by (simp add: accept_def wp_simps undisturbed_def admitted_def)

lemma undisturbed_trans: "undisturbed u v \<Longrightarrow> undisturbed v w \<Longrightarrow> undisturbed u w"
  by (simp add: undisturbed_def)

definition telemetry_proven ::
  "externals \<Rightarrow> Verifier \<Rightarrow> device_codec \<Rightarrow> string \<Rightarrow> string \<Rightarrow> device_db \<Rightarrow> DeviceEnvelope \<Rightarrow> VerifiedDevice \<Rightarrow> bool" where
  "telemetry_proven X V C path raw s e vd \<longleftrightarrow>
     dc_envelope C raw = Some e \<and> de_EnvelopeVersion e = DeviceEnvelopeVersion \<and> \<not> incomplete e \<and> de_DeviceID e = path
     \<and> vd_KeyEpoch vd = de_KeyEpoch e
     \<and> (\<exists>k. registered X V path (de_KeyEpoch e) s (vd_Device vd) k
          \<and> VerifyEnvelopeSignature (x_crypto X) C e (ky_PublicKey k) = None)"

lemma VerifyTelemetry_wp:
  "wp (VerifyTelemetry X V C path raw)
     (\<lambda>r w'. admitted w w' \<and> telemetry_proven X V C path raw (db_devices (w_db w)) (fst r) (snd r)) (refused_for w) w"
proof (cases "dc_envelope C raw")
  case None
  then show ?thesis by (simp add: VerifyTelemetry_def denied_wp)
next
  case (Some e)
  have checked: "wp (bindA (authenticate X V (de_DeviceID e) (de_KeyEpoch e)) (\<lambda>dk.
            case VerifyEnvelopeSignature (x_crypto X) C e (ky_PublicKey (snd dk)) of
              Some err \<Rightarrow> denied X (dv_ID (fst dk)) (dv_TenantID (fst dk)) ReasonSignatureInvalid err (dv_ID (fst dk))
                            ''signature verification failed''
            | None \<Rightarrow> seqA accept (ret (e, \<lparr>vd_Device = fst dk, vd_KeyEpoch = de_KeyEpoch e\<rparr>))))
     (\<lambda>r w'. admitted w w' \<and> telemetry_proven X V C path raw (db_devices (w_db w)) (fst r) (snd r)) (refused_for w) w"
    if "de_EnvelopeVersion e = DeviceEnvelopeVersion" "\<not> incomplete e" "de_DeviceID e = path"
    unfolding wp_bind
  proof (rule wp_mono [OF authenticate_wp], goal_cases)
    case (1 dk u)
    show ?case
    proof (cases "VerifyEnvelopeSignature (x_crypto X) C e (ky_PublicKey (snd dk))")
      case None
      have "telemetry_proven X V C path raw (db_devices (w_db w)) e \<lparr>vd_Device = fst dk, vd_KeyEpoch = de_KeyEpoch e\<rparr>"
        unfolding telemetry_proven_def using 1 None Some that by auto
      with None show ?thesis
        by (simp add: wp_mono [OF accept_wp [OF conjunct1 [OF 1]]])
    qed (use 1 in \<open>simp add: denied_wp\<close>)
  qed
  show ?thesis
    unfolding VerifyTelemetry_def Some option.case wp_if
    using checked by (simp add: denied_wp)
qed

definition proof_proven ::
  "externals \<Rightarrow> Verifier \<Rightarrow> device_codec \<Rightarrow> string \<Rightarrow> string \<Rightarrow> device_db \<Rightarrow> VerifiedDevice \<Rightarrow> bool" where
  "proof_proven X V C jws action s vd \<longleftrightarrow>
     (\<exists>k p. registered X V (pf_DeviceID p) (pf_KeyEpoch p) s (vd_Device vd) k
        \<and> VerifyProof (x_crypto X) C jws (ky_PublicKey k) = Inr p \<and> pf_Action p = action \<and> vd_KeyEpoch vd = pf_KeyEpoch p)"

lemma Verifier_VerifyProof_wp:
  "wp (Verifier_VerifyProof X V C jws action)
     (\<lambda>vd w'. admitted w w' \<and> proof_proven X V C jws action (db_devices (w_db w)) vd) (refused_for w) w"
proof (cases "proofClaims C jws")
  case (Inl e)
  then show ?thesis by (simp add: Verifier_VerifyProof_def wp_if denied_wp)
next
  case (Inr claims)
  have checked: "wp (bindA (authenticate X V (fst claims) (snd claims)) (\<lambda>dk.
          case VerifyProof (x_crypto X) C jws (ky_PublicKey (snd dk)) of
            Inl err \<Rightarrow> denied X (dv_ID (fst dk)) (dv_TenantID (fst dk)) ReasonSignatureInvalid err (dv_ID (fst dk))
                         ''proof signature verification failed''
          | Inr proof \<Rightarrow>
              if pf_Action proof \<noteq> action
              then denied_device X (fst dk) ReasonActionMismatch ''proof action does not match the endpoint''
              else if pf_DeviceID proof \<noteq> fst claims \<or> pf_KeyEpoch proof \<noteq> snd claims
              then denied_device X (fst dk) ReasonDeviceIDMismatch ''proof claims do not match the key id''
              else seqA accept (ret \<lparr>vd_Device = fst dk, vd_KeyEpoch = snd claims\<rparr>)))
     (\<lambda>vd w'. admitted w w' \<and> proof_proven X V C jws action (db_devices (w_db w)) vd) (refused_for w) w"
    unfolding wp_bind
  proof (rule wp_mono [OF authenticate_wp], goal_cases)
    case (1 dk u)
    note u = conjunct1 [OF 1]
    show ?case
    proof (cases "VerifyProof (x_crypto X) C jws (ky_PublicKey (snd dk))")
      case (Inr p)
      have "proof_proven X V C jws action (db_devices (w_db w)) \<lparr>vd_Device = fst dk, vd_KeyEpoch = snd claims\<rparr>"
        if "pf_Action p = action" "pf_DeviceID p = fst claims" "pf_KeyEpoch p = snd claims"
        unfolding proof_proven_def using 1 Inr that by (intro exI [of _ "snd dk"] exI [of _ p]) simp
      with Inr u show ?thesis
        by (auto simp: wp_if intro!: denied_device_wp wp_mono [OF accept_wp [OF u]])
    qed (use 1 in \<open>simp add: denied_wp\<close>)
  qed
  show ?thesis
    unfolding Verifier_VerifyProof_def Inr sum.case wp_if
    using checked by (simp add: denied_wp)
qed

section \<open>Properties\<close>

text \<open>
  C7. Telemetry is accepted only when it is proven: the posted envelope names the device of the path, that
  device is registered and active, its key epoch is the current one, or the previous one within the grace
  window, and the signature verifies under that key. Acceptance changes no table and publishes nothing yet; a
  rejection is counted under its reason and leaves at most one ledger row, with that reason; an
  infrastructure error leaves no trace.
\<close>

theorem telemetry_authenticated:
  "case VerifyTelemetry X V C path raw w of
     (w', Inr (e, vd)) \<Rightarrow> admitted w w' \<and> telemetry_proven X V C path raw (db_devices (w_db w)) e vd
   | (w', Inl err) \<Rightarrow> refused_for w err w'"
  using VerifyTelemetry_wp [of X V C path raw w] by (auto simp: wp_def split: prod.splits sum.splits)

lemma registered_living:
  assumes "devices_inv s" "d \<in> set (dd_devices s)" "registered X V (dv_ID d) epoch s d' k"
  shows "d' = d \<and> \<not> terminal (dv_Status d)"
proof -
  have "inj_on dv_ID (set (dd_devices s))" using devices_invD(1) [OF assms(1)] by (simp add: distinct_map)
  then have "d' = d" using assms(2,3) by (auto simp: registered_def elim: inj_onD)
  with assms(3) show ?thesis by (simp add: registered_def terminal_def)
qed

text \<open>
  C19. A retired device never authenticates again: once a device is revoked or decommissioned, after any
  sequence of registry calls neither an envelope posted for it nor any action proof is accepted for it.
\<close>

theorem retired_never_authenticates:
  assumes "devices_inv (db_devices (w_db w))" "d \<in> set (dd_devices (db_devices (w_db w)))"
    "dv_Status d \<in> {StatusRevoked, StatusDecommissioned}"
    and "w1 = run_steps (device_world_step Y D) w calls"
  shows "isl (snd (VerifyTelemetry X V C (dv_ID d) raw w1))
    \<and> (\<forall>w2 vd. Verifier_VerifyProof X V C jws action w1 = (w2, Inr vd) \<longrightarrow> dv_ID (vd_Device vd) \<noteq> dv_ID d)"
proof -
  have w1: "devices_inv (db_devices (w_db w1))" "d \<in> set (dd_devices (db_devices (w_db w1)))" "terminal (dv_Status d)"
    unfolding assms(4) using retired_device.inv_run [of w d Y D calls] assms(1-3) by (auto simp: terminal_def)
  have no: False if "registered X V (dv_ID d) epoch (db_devices (w_db w1)) d' k" for epoch d' k
    using registered_living [OF w1(1,2) that] w1(3) by blast
  have "isl (snd (VerifyTelemetry X V C (dv_ID d) raw w1))"
    using VerifyTelemetry_wp [of X V C "dv_ID d" raw w1] no
    by (auto simp: wp_def telemetry_proven_def isl_def split: prod.splits sum.splits)
  moreover have "dv_ID (vd_Device vd) \<noteq> dv_ID d" if "Verifier_VerifyProof X V C jws action w1 = (w2, Inr vd)" for w2 vd
  proof
    assume same: "dv_ID (vd_Device vd) = dv_ID d"
    from wp_Inr [OF Verifier_VerifyProof_wp that] obtain k :: Key and p :: Proof where
      "registered X V (pf_DeviceID p) (pf_KeyEpoch p) (db_devices (w_db w1)) (vd_Device vd) k"
      unfolding proof_proven_def by blast
    moreover from this same have "pf_DeviceID p = dv_ID d" by (simp add: registered_def)
    ultimately show False using no by simp
  qed
  ultimately show ?thesis by blast
qed

definition retired_world :: world where
  "retired_world = empty_world\<lparr>w_db := empty_db\<lparr>db_devices :=
     empty_devices\<lparr>dd_devices := [sample_device\<lparr>dv_Status := StatusRevoked\<rparr>],
       dd_keys := [\<lparr>ky_DeviceID = ''d1'', ky_Epoch = 1, ky_PublicKey = take 32 sample_key, ky_Status = KeyRevoked, ky_RotatedAt = 0\<rparr>],
       dd_requests := [approved_row\<lparr>rr_Request := (rr_Request approved_row)\<lparr>rq_Payload :=
          PayloadRotate \<lparr>rp_DeviceID = ''d1'', rp_PublicKey = base64_encode (take 32 sample_key)\<rparr>\<rparr>\<rparr>]\<rparr>\<rparr>\<rparr>"

lemma sample_key_decodes: "decodePublicKey (base64_encode (take 32 sample_key)) = Some (take 32 sample_key)"
  by code_simp

lemma retired_world_inv: "devices_inv (db_devices (w_db retired_world))"
proof (rule devices_invI, goal_cases)
  case (5 d)
  have e: "{k \<in> set (dd_keys (db_devices (w_db retired_world))). ky_DeviceID k = ''d1''}
    = {\<lparr>ky_DeviceID = ''d1'', ky_Epoch = 1, ky_PublicKey = take 32 sample_key, ky_Status = KeyRevoked, ky_RotatedAt = 0\<rparr>}"
    by (auto simp: retired_world_def)
  from 5 have d: "dv_ID d = ''d1''" "dv_KeyEpoch d = 1" "dv_Status d = StatusRevoked"
    by (auto simp: retired_world_def sample_device_def)
  have "ky_Epoch ` {k \<in> set (dd_keys (db_devices (w_db retired_world))). ky_DeviceID k = ''d1''} = {1 .. 1}"
    unfolding e by simp
  then show ?case unfolding device_ok_def d by (auto simp: terminal_def retired_world_def)
qed (auto simp: retired_world_def sample_device_def approved_row_def pending_row_def new_request_def decide_def
      request_ok_def vouched_def payload_key_def sample_key_decodes empty_devices_def)

theorem retired_never_authenticates_witness:
  "isl (snd (VerifyTelemetry calm \<lparr>vf_Grace = 1\<rparr> sample_codec ''d1'' ''x''
     (run_steps (device_world_step calm sample_codec) retired_world [DStatus ''t'' ''d1'' ''ACTIVE'' ''admin''])))"
proof -
  let ?d = "sample_device\<lparr>dv_Status := StatusRevoked\<rparr>"
  have d: "?d \<in> set (dd_devices (db_devices (w_db retired_world)))" "dv_Status ?d \<in> {StatusRevoked, StatusDecommissioned}"
    by (simp_all add: retired_world_def)
  have "dv_ID ?d = ''d1''" by (simp add: sample_device_def)
  note this [symmetric]
  show ?thesis
    unfolding \<open>''d1'' = dv_ID ?d\<close> by (rule conjunct1 [OF retired_never_authenticates [OF retired_world_inv d refl]])
qed

text \<open>
  An action proof is accepted only for the device and epoch it was signed for: the accepted device is
  registered and active, its key is current or within grace, the compact signature verifies under that key
  and is over a proof of exactly the requested action that names this device and epoch. Nothing is published
  and a rejection is counted and ledgered as for telemetry.
\<close>

theorem proof_authenticated:
  "case Verifier_VerifyProof X V C jws action w of
     (w', Inr vd) \<Rightarrow> admitted w w' \<and> proof_proven X V C jws action (db_devices (w_db w)) vd
   | (w', Inl err) \<Rightarrow> refused_for w err w'"
  using Verifier_VerifyProof_wp [of X V C jws action w] by (auto simp: wp_def split: prod.splits sum.splits)

lemma find_unique:
  assumes "x \<in> set xs" "P x" "\<And>y. y \<in> set xs \<Longrightarrow> P y \<Longrightarrow> y = x"
  shows "find P xs = Some x"
proof -
  have "find P xs \<noteq> None" unfolding find_None_iff using assms(1,2) by blast
  then obtain y where "find P xs = Some y" by blast
  with find_member [OF this] assms(3) show ?thesis by blast
qed

lemma signed_telemetry_wp:
  assumes inv: "devices_inv (db_devices (w_db w))" and pg: "\<forall>n. x_pg X n"
    and d: "d \<in> set (dd_devices (db_devices (w_db w)))" "dv_Status d = StatusActive"
    and k: "k \<in> set (dd_keys (db_devices (w_db w)))" "ky_DeviceID k = dv_ID d" "ky_PublicKey k = cr_public (x_crypto X) sk"
    and live: "ky_Status k = KeyCurrent \<or> (ky_Status k = KeyPrevious \<and> (\<forall>n. time_sub (x_now X n) (ky_RotatedAt k) \<le> vf_Grace V))"
    and laws: "device_laws (x_crypto X) C sk (KeyID (de_DeviceID e) (de_KeyEpoch e))"
    and e: "SignEnvelope (x_crypto X) C sk e = Inr e'" "de_DeviceID e = dv_ID d" "de_KeyEpoch e = ky_Epoch k"
      "de_EnvelopeVersion e' = DeviceEnvelopeVersion" "\<not> incomplete e'"
    and raw: "dc_envelope C raw = Some e'"
  shows "wp (VerifyTelemetry X V C (dv_ID d) raw) (\<lambda>r _. r = (e', \<lparr>vd_Device = d, vd_KeyEpoch = de_KeyEpoch e'\<rparr>)) (\<lambda>_ _. False) w"
proof -
  let ?s = "db_devices (w_db w)"
  note ok = device_okD(3) [OF devices_invD(5) [OF inv d(1)] k(1,2)]
  have inj: "inj_on dv_ID (set (dd_devices ?s))" "inj_on (\<lambda>k. (ky_DeviceID k, ky_Epoch k)) (set (dd_keys ?s))"
    using devices_invD(1,3) [OF inv] by (simp_all add: distinct_map)
  have fd: "find (\<lambda>x. dv_ID x = dv_ID d) (dd_devices ?s) = Some d"
    using d(1) inj(1) by (intro find_unique) (auto elim: inj_onD)
  have fk: "find (\<lambda>x. ky_DeviceID x = dv_ID d \<and> ky_Epoch x = ky_Epoch k) (dd_keys ?s) = Some k"
    using k(1,2) inj(2) by (intro find_unique) (auto elim: inj_onD)
  have e': "de_DeviceID e' = dv_ID d" "de_KeyEpoch e' = ky_Epoch k"
    and sig: "VerifyEnvelopeSignature (x_crypto X) C e' (ky_PublicKey k) = None"
    using conjunct1 [OF SignEnvelope_signed [OF laws e(1)]] SignEnvelope_fields [OF e(1)] e(2,3) k(3) by simp_all
  have cur: "ky_Status k = KeyCurrent \<Longrightarrow> ky_Epoch k = dv_KeyEpoch d" using ok d(2) by (simp add: terminal_def)
  have auth: "wp (authenticate X V (dv_ID d) (ky_Epoch k)) (\<lambda>dk _. dk = (d, k)) (\<lambda>_ _. False) w"
    unfolding authenticate_def LoadDeviceForAuth_def LoadKey_def
    using pg live cur
    by (auto simp: wp_simps fd fk d(2) not_less [symmetric])
  show ?thesis
    unfolding VerifyTelemetry_def raw option.case wp_if
    using e(4,5) e' by (auto simp: wp_bind intro!: wp_mono [OF auth]) (simp add: sig accept_def wp_simps)
qed

text \<open>
  C24. What a registered device signs is accepted: with a database that answers, a complete envelope signed
  with the private half of a registered key of an active device, posted under its own id, is accepted, when
  the key is the current one and also when it is the previous one and the clock is within the grace window.
\<close>

theorem signed_telemetry_accepted:
  assumes inv: "devices_inv (db_devices (w_db w))" and pg: "\<forall>n. x_pg X n"
    and d: "d \<in> set (dd_devices (db_devices (w_db w)))" "dv_Status d = StatusActive"
    and k: "k \<in> set (dd_keys (db_devices (w_db w)))" "ky_DeviceID k = dv_ID d" "ky_PublicKey k = cr_public (x_crypto X) sk"
    and live: "ky_Status k = KeyCurrent \<or> (ky_Status k = KeyPrevious \<and> (\<forall>n. time_sub (x_now X n) (ky_RotatedAt k) \<le> vf_Grace V))"
    and laws: "device_laws (x_crypto X) C sk (KeyID (de_DeviceID e) (de_KeyEpoch e))"
    and e: "SignEnvelope (x_crypto X) C sk e = Inr e'" "de_DeviceID e = dv_ID d" "de_KeyEpoch e = ky_Epoch k"
      "de_EnvelopeVersion e' = DeviceEnvelopeVersion" "\<not> incomplete e'"
    and raw: "dc_envelope C raw = Some e'"
  shows "\<exists>w' vd. VerifyTelemetry X V C (dv_ID d) raw w = (w', Inr (e', vd)) \<and> vd_Device vd = d"
  using signed_telemetry_wp [OF assms] by (auto simp: wp_def split: prod.splits sum.splits)

definition signed_envelope :: DeviceEnvelope where
  "signed_envelope = (case SignEnvelope sample_crypto sample_codec sample_key sample_device_envelope of Inr e \<Rightarrow> e | Inl _ \<Rightarrow> sample_device_envelope)"

definition telemetry_codec :: device_codec where
  "telemetry_codec = sample_codec\<lparr>dc_envelope := \<lambda>s. Some signed_envelope\<rparr>"

definition active_world :: world where
  "active_world = empty_world\<lparr>w_db := empty_db\<lparr>db_devices :=
     empty_devices\<lparr>dd_devices := [sample_device],
       dd_keys := [\<lparr>ky_DeviceID = ''d1'', ky_Epoch = 1, ky_PublicKey = take 32 sample_key, ky_Status = KeyCurrent, ky_RotatedAt = 0\<rparr>],
       dd_requests := [approved_row\<lparr>rr_Request := (rr_Request approved_row)\<lparr>rq_Payload :=
          PayloadRotate \<lparr>rp_DeviceID = ''d1'', rp_PublicKey = base64_encode (take 32 sample_key)\<rparr>\<rparr>\<rparr>]\<rparr>\<rparr>\<rparr>"

lemma active_world_inv: "devices_inv (db_devices (w_db active_world))"
proof (rule devices_invI, goal_cases)
  case (5 d)
  have e: "{k \<in> set (dd_keys (db_devices (w_db active_world))). ky_DeviceID k = ''d1''}
    = {\<lparr>ky_DeviceID = ''d1'', ky_Epoch = 1, ky_PublicKey = take 32 sample_key, ky_Status = KeyCurrent, ky_RotatedAt = 0\<rparr>}"
    by (auto simp: active_world_def)
  from 5 have d: "dv_ID d = ''d1''" "dv_KeyEpoch d = 1" "dv_Status d = StatusActive"
    by (auto simp: active_world_def sample_device_def)
  have "ky_Epoch ` {k \<in> set (dd_keys (db_devices (w_db active_world))). ky_DeviceID k = ''d1''} = {1 .. 1}"
    unfolding e by simp
  then show ?case unfolding device_ok_def d by (auto simp: terminal_def active_world_def)
qed (auto simp: active_world_def sample_device_def approved_row_def pending_row_def new_request_def decide_def
      request_ok_def vouched_def payload_key_def sample_key_decodes empty_devices_def)

lemma signed_envelope_facts:
  "SignEnvelope sample_crypto telemetry_codec sample_key sample_device_envelope = Inr signed_envelope"
  "de_EnvelopeVersion signed_envelope = DeviceEnvelopeVersion" "\<not> incomplete signed_envelope"
proof -
  have h: "dc_header telemetry_codec = dc_header sample_codec" by (simp add: telemetry_codec_def)
  have c: "SignEnvelope sample_crypto telemetry_codec sample_key sample_device_envelope
      = SignEnvelope sample_crypto sample_codec sample_key sample_device_envelope"
    unfolding SignEnvelope_def SignPayload_def h ..
  have "case SignEnvelope sample_crypto sample_codec sample_key sample_device_envelope of
      Inr e \<Rightarrow> de_EnvelopeVersion e = DeviceEnvelopeVersion \<and> \<not> incomplete e | Inl _ \<Rightarrow> False"
    by code_simp
  then show "SignEnvelope sample_crypto telemetry_codec sample_key sample_device_envelope = Inr signed_envelope"
    "de_EnvelopeVersion signed_envelope = DeviceEnvelopeVersion" "\<not> incomplete signed_envelope"
    unfolding c by (auto simp: signed_envelope_def split: sum.splits)
qed

theorem signed_telemetry_accepted_witness:
  "\<exists>w' vd. VerifyTelemetry calm \<lparr>vf_Grace = 1\<rparr> telemetry_codec ''d1'' ''raw'' active_world = (w', Inr (signed_envelope, vd))
     \<and> vd_Device vd = sample_device"
proof -
  let ?k = "\<lparr>ky_DeviceID = ''d1'', ky_Epoch = 1, ky_PublicKey = take 32 sample_key, ky_Status = KeyCurrent, ky_RotatedAt = 0\<rparr>"
  have laws: "device_laws (x_crypto calm) telemetry_codec sample_key kid" for kid
    using sample_device_laws [of kid] by (simp add: device_laws_def telemetry_codec_def calm_def)
  have "\<exists>w' vd. VerifyTelemetry calm \<lparr>vf_Grace = 1\<rparr> telemetry_codec (dv_ID sample_device) ''raw'' active_world
     = (w', Inr (signed_envelope, vd)) \<and> vd_Device vd = sample_device"
    by (rule signed_telemetry_accepted [OF active_world_inv _ _ _ _ _ _ _ laws, where k = ?k and e = sample_device_envelope])
      (use signed_envelope_facts in \<open>auto simp: active_world_def sample_device_def sample_device_envelope_def telemetry_codec_def
         calm_def sample_crypto_def\<close>)
  then show ?thesis by (simp add: sample_device_def)
qed

end
