(* ===== verification/Device_Api.thy ===== *)
theory Device_Api
  imports Http Device_Verify
begin

text \<open>
  The HTTP boundary of the device plane (\<open>internal/devices/api.go\<close>): the fleet-administration endpoints
  behind the platform authenticator, and the endpoints a device reaches with its own signature or its one-time
  activation secret.

  A posted body is unreadable, does not decode, or is the decoded struct; a body over the size limit is cut and
  then does not decode. The telemetry body stays raw, because its signature covers it. An answer is its status
  and its JSON object. The label of a metric joins the values of its label set.
\<close>

section \<open>Requests and answers\<close>

datatype 'a posted = Unreadable | NotJSON | Posted 'a

record provisionRequestBody =
  bp_Kind :: string
  bp_OwnerAgency :: string
  bp_Label :: string
  bp_PublicKey :: string
  bp_Metadata :: metadata

record statusRequestBody =
  bs_Status :: string

record rotationRequestBody =
  br_PublicKey :: string

record firmwareReleaseBody =
  bf_Kind :: string
  bf_Version :: string
  bf_ArtifactSHA256 :: string
  bf_ArtifactURL :: string
  bf_RolloutPercent :: int
  bf_MinEpoch :: int

record mqttAuthRequest =
  bm_ClientID :: string
  bm_Username :: string
  bm_Password :: string

record activateRequestBody =
  ba_RequestID :: string
  ba_ActivationSecret :: string

datatype device_reply =
    RError string
  | RPending string
  | RRequest Request
  | RApproval Approval
  | RDecided string request_status
  | RDevices "Device list"
  | RDevice Device
  | RRotated string int
  | RRelease string
  | RPublished EventKind
  | RDeadLettered auth_reason
  | RManifest Manifest
  | RNoContent
  | RMqtt bool bool
  | RConsumed string

record device_response =
  er_status :: nat
  er_reply :: device_reply

definition writeDeviceJSON :: "nat \<Rightarrow> device_reply \<Rightarrow> device_response" where
  "writeDeviceJSON status b = \<lparr>er_status = status, er_reply = b\<rparr>"

definition writeDeviceError :: "nat \<Rightarrow> string \<Rightarrow> device_response" where
  "writeDeviceError status message = writeDeviceJSON status (RError message)"

definition device_refuse :: "refusal \<Rightarrow> device_response" where
  "device_refuse r = (case r of Unauthenticated \<Rightarrow> writeDeviceError 401 ''unauthenticated'' | Forbidden \<Rightarrow> writeDeviceError 403 ''forbidden'')"

section \<open>Wiring\<close>

record API =
  ap_Verifier :: Verifier
  ap_Events :: signed_publish
  ap_DeadLetters :: BusProducer
  ap_ManifestKey :: string
  ap_ManifestKeyID :: string
  ap_Grace :: int

text \<open>The store and the metrics registry are present or nil; so are the parts that are \<open>None\<close>.\<close>

definition NewAPI ::
  "bool \<Rightarrow> Verifier option \<Rightarrow> bool \<Rightarrow> signed_publish option \<Rightarrow> BusProducer option \<Rightarrow> string \<Rightarrow> string \<Rightarrow> int \<Rightarrow> string + API" where
  "NewAPI store verifier registry events deadLetters key kid grace =
     (case (verifier, events, deadLetters) of
        (Some v, Some ev, Some dl) \<Rightarrow>
          if \<not> store \<or> \<not> registry then Inl ''devices: store, verifier and metrics registry are required''
          else if length key \<noteq> 64 \<or> trim_space kid = [] then Inl ''devices: manifest signing key and key id are required''
          else Inr \<lparr>ap_Verifier = v, ap_Events = ev, ap_DeadLetters = dl, ap_ManifestKey = key, ap_ManifestKeyID = kid,
                    ap_Grace = (if grace \<le> 0 then DefaultKeyGrace else grace)\<rparr>
      | (verifier, events, _) \<Rightarrow>
          if \<not> store \<or> verifier = None \<or> \<not> registry then Inl ''devices: store, verifier and metrics registry are required''
          else if events = None then Inl ''devices: event publisher is required''
          else Inl ''devices: dead-letter publisher is required'')"

section \<open>Helpers\<close>

text \<open>\<open>errors.Is\<close> and \<open>errors.As\<close> look through the wrappers.\<close>

fun errors_is :: "geo_error \<Rightarrow> geo_error \<Rightarrow> bool" where
  "errors_is target (ErrWrap l e) \<longleftrightarrow> ErrWrap l e = target \<or> errors_is target e"
| "errors_is target e \<longleftrightarrow> e = target"

fun as_auth :: "geo_error \<Rightarrow> AuthError option" where
  "as_auth (ErrAuth a) = Some a"
| "as_auth (ErrWrap _ e) = as_auth e"
| "as_auth _ = None"

definition device_principalOrFail :: "Principal option \<Rightarrow> (Principal \<Rightarrow> device_response geo) \<Rightarrow> device_response geo" where
  "device_principalOrFail ctx k =
     (case PrincipalFrom ctx of
        None \<Rightarrow> ret (writeDeviceError 403 ''principal unavailable'')
      | Some p \<Rightarrow>
          if trim_space (pn_TenantID p) = [] then ret (writeDeviceError 403 ''principal has no tenant binding'')
          else k p)"

definition decodeJSON :: "'a posted \<Rightarrow> ('a \<Rightarrow> device_response geo) \<Rightarrow> device_response geo" where
  "decodeJSON b k =
     (case b of
        Unreadable \<Rightarrow> ret (writeDeviceError 400 ''request body unreadable'')
      | NotJSON \<Rightarrow> ret (writeDeviceError 400 ''request body is not valid JSON'')
      | Posted x \<Rightarrow> k x)"

definition answer_or :: "'a geo \<Rightarrow> (geo_error \<Rightarrow> device_response) \<Rightarrow> ('a \<Rightarrow> device_response geo) \<Rightarrow> device_response geo" where
  "answer_or m f k = bindA (attempt m) (\<lambda>r. case r of Inl e \<Rightarrow> ret (f e) | Inr x \<Rightarrow> k x)"

definition audit :: "externals \<Rightarrow> AuditEvent \<Rightarrow> unit geo" where
  "audit X event =
     bindA (attempt (InsertAudit X event)) (\<lambda>r. case r of
       Inl e \<Rightarrow> count ''geo_device_audit_errors_total'' []
     | Inr u \<Rightarrow> ret ())"

text \<open>The ledger entry of a handler: no reason unless it names one.\<close>

definition ledger :: "string \<Rightarrow> string \<Rightarrow> audit_name \<Rightarrow> string \<Rightarrow> metadata \<Rightarrow> AuditEvent" where
  "ledger tenantID deviceID event actor metadata =
     \<lparr>au_TenantID = tenantID, au_DeviceID = deviceID, au_Event = event, au_Actor = actor, au_Reason = [], au_Metadata = metadata\<rparr>"

fun status_text :: "device_status \<Rightarrow> string" where
  "status_text StatusActive = ''ACTIVE''"
| "status_text StatusSuspended = ''SUSPENDED''"
| "status_text StatusRevoked = ''REVOKED''"
| "status_text StatusDecommissioned = ''DECOMMISSIONED''"

text \<open>
  \<open>strings.ToUpper\<close> as far as it can yield letters of ASCII: the dotless i (C4 B1) and the long s (C5 BF)
  become I and S. Any other text beyond ASCII keeps letters beyond ASCII, which no status has.
\<close>

fun to_upper_text :: "string \<Rightarrow> string" where
  "to_upper_text [] = []"
| "to_upper_text (c # cs) =
     (if c = CHR 0xC4 \<and> cs \<noteq> [] \<and> hd cs = CHR 0xB1 then CHR ''I'' # to_upper_text (tl cs)
      else if c = CHR 0xC5 \<and> cs \<noteq> [] \<and> hd cs = CHR 0xBF then CHR ''S'' # to_upper_text (tl cs)
      else (if 97 \<le> (of_char c :: nat) \<and> of_char c \<le> (122 :: nat) then char_of (of_char c - 32 :: nat) else c) # to_upper_text cs)"

definition validClassification :: "string \<Rightarrow> bool" where
  "validClassification v \<longleftrightarrow> (case ParseClassification v of Inl _ \<Rightarrow> False | Inr _ \<Rightarrow> True)"

definition mmsiLike :: "string \<Rightarrow> bool" where
  "mmsiLike v \<longleftrightarrow> length v = 9 \<and> list_all is_digit v"

text \<open>The answers of the two decisions on a request.\<close>

definition decision_error :: "string \<Rightarrow> geo_error \<Rightarrow> device_response" where
  "decision_error failed e =
     (if errors_is ErrMakerChecker e then writeDeviceError 409 ''maker may not decide their own request (four-eyes)''
      else if errors_is ErrRequestNotPending e then writeDeviceError 409 ''provisioning request is not pending''
      else if errors_is ErrRequestNotFound e then writeDeviceError 404 ''provisioning request not found''
      else writeDeviceError 500 failed)"

section \<open>Fleet administration\<close>

definition createProvisionRequest :: "externals \<Rightarrow> provisionRequestBody posted \<Rightarrow> Principal option \<Rightarrow> device_response geo" where
  "createProvisionRequest X b ctx =
     device_principalOrFail ctx (\<lambda>p.
     decodeJSON b (\<lambda>body.
     answer_or (CreateProvisionRequest X (pn_TenantID p)
          \<lparr>pp_Kind = bp_Kind body, pp_OwnerAgency = bp_OwnerAgency body, pp_Label = bp_Label body,
           pp_PublicKey = bp_PublicKey body, pp_Metadata = bp_Metadata body\<rparr> (pn_Subject p))
       (\<lambda>e. writeDeviceError 400 ''provisioning request rejected'')
       (\<lambda>i.
        seqA (audit X (ledger (pn_TenantID p) [] AuditProvisionRequested (pn_Subject p) [(''requestId'', i), (''kind'', bp_Kind body)]))
        (seqA (count ''geo_device_provisioning_total'' ''requested'')
          (ret (writeDeviceJSON 202 (RPending i)))))))"

definition getProvisionRequest :: "externals \<Rightarrow> string \<Rightarrow> Principal option \<Rightarrow> device_response geo" where
  "getProvisionRequest X i ctx =
     device_principalOrFail ctx (\<lambda>p.
     answer_or (GetRequest X (pn_TenantID p) i)
       (\<lambda>e. if errors_is ErrRequestNotFound e then writeDeviceError 404 ''provisioning request not found''
            else writeDeviceError 500 ''provisioning request query failed'')
       (\<lambda>stored. ret (writeDeviceJSON 200 (RRequest stored))))"

definition approveProvisionRequest ::
  "externals \<Rightarrow> API \<Rightarrow> device_codec \<Rightarrow> string \<Rightarrow> Principal option \<Rightarrow> device_response geo" where
  "approveProvisionRequest X A C i ctx =
     device_principalOrFail ctx (\<lambda>p.
     answer_or (ApproveRequest X C (pn_TenantID p) i (pn_Subject p) (ap_Grace A))
       (decision_error ''provisioning approval failed'')
       (\<lambda>approval.
        seqA (audit X (ledger (pn_TenantID p) (av_DeviceID approval) AuditProvisionApproved (pn_Subject p)
                [(''requestId'', av_RequestID approval)]))
        (seqA (count ''geo_device_provisioning_total'' ''approved'')
          (ret (writeDeviceJSON 200 (RApproval approval))))))"

definition rejectProvisionRequest :: "externals \<Rightarrow> string \<Rightarrow> Principal option \<Rightarrow> device_response geo" where
  "rejectProvisionRequest X i ctx =
     device_principalOrFail ctx (\<lambda>p.
     answer_or (RejectRequest X (pn_TenantID p) i (pn_Subject p))
       (decision_error ''provisioning rejection failed'')
       (\<lambda>stored.
        seqA (audit X (ledger (pn_TenantID p) [] AuditProvisionRejected (pn_Subject p) [(''requestId'', rq_ID stored)]))
        (seqA (count ''geo_device_provisioning_total'' ''rejected'')
          (ret (writeDeviceJSON 200 (RDecided (rq_ID stored) (rq_Status stored)))))))"

definition listDevices :: "externals \<Rightarrow> Principal option \<Rightarrow> device_response geo" where
  "listDevices X ctx =
     device_principalOrFail ctx (\<lambda>p.
     answer_or (ListDevices X (pn_TenantID p) 0) (\<lambda>e. writeDeviceError 500 ''device query failed'')
       (\<lambda>devices. ret (writeDeviceJSON 200 (RDevices devices))))"

definition device_read_error :: "geo_error \<Rightarrow> device_response" where
  "device_read_error e =
     (if errors_is ErrDeviceNotFound e then writeDeviceError 404 ''device not found''
      else writeDeviceError 500 ''device query failed'')"

definition getDevice :: "externals \<Rightarrow> string \<Rightarrow> Principal option \<Rightarrow> device_response geo" where
  "getDevice X i ctx =
     device_principalOrFail ctx (\<lambda>p.
     answer_or (GetDevice X (pn_TenantID p) i) device_read_error
       (\<lambda>device. ret (writeDeviceJSON 200 (RDevice device))))"

definition setDeviceStatus :: "externals \<Rightarrow> string \<Rightarrow> statusRequestBody posted \<Rightarrow> Principal option \<Rightarrow> device_response geo" where
  "setDeviceStatus X i b ctx =
     device_principalOrFail ctx (\<lambda>p.
     decodeJSON b (\<lambda>body.
     answer_or (SetDeviceStatus X (pn_TenantID p) i (to_upper_text (trim_space (bs_Status body))) (pn_Subject p))
       (\<lambda>e. if errors_is ErrDeviceNotFound e then writeDeviceError 404 ''device not found''
            else writeDeviceError 409 ''device status transition rejected'')
       (\<lambda>device.
        seqA (audit X (ledger (pn_TenantID p) (dv_ID device) AuditStatusChanged (pn_Subject p)
                [(''status'', status_text (dv_Status device))]))
          (ret (writeDeviceJSON 200 (RDevice device))))))"

definition requestRotation :: "externals \<Rightarrow> string \<Rightarrow> rotationRequestBody posted \<Rightarrow> Principal option \<Rightarrow> device_response geo" where
  "requestRotation X deviceID b ctx =
     device_principalOrFail ctx (\<lambda>p.
     decodeJSON b (\<lambda>body.
     answer_or (GetDevice X (pn_TenantID p) deviceID) device_read_error
       (\<lambda>_.
        answer_or (CreateRotationRequest X (pn_TenantID p) deviceID (br_PublicKey body) (pn_Subject p))
          (\<lambda>e. writeDeviceError 400 ''rotation request rejected'')
          (\<lambda>i.
           seqA (audit X (ledger (pn_TenantID p) deviceID AuditRotationRequested (pn_Subject p) [(''requestId'', i)]))
           (seqA (count ''geo_device_rotations_total'' ''requested'')
             (ret (writeDeviceJSON 202 (RPending i))))))))"

text \<open>A payload of another type, or one that does not decode, is no rotation.\<close>

definition rotation_of :: "string \<Rightarrow> Request \<Rightarrow> bool" where
  "rotation_of deviceID stored \<longleftrightarrow>
     (case rq_Payload stored of PayloadRotate r \<Rightarrow> rp_DeviceID r = deviceID | _ \<Rightarrow> False)"

definition approveRotation ::
  "externals \<Rightarrow> API \<Rightarrow> device_codec \<Rightarrow> string \<Rightarrow> string \<Rightarrow> Principal option \<Rightarrow> device_response geo" where
  "approveRotation X A C deviceID requestID ctx =
     device_principalOrFail ctx (\<lambda>p.
     answer_or (GetRequest X (pn_TenantID p) requestID)
       (\<lambda>e. if errors_is ErrRequestNotFound e then writeDeviceError 404 ''rotation request not found''
            else writeDeviceError 500 ''rotation request query failed'')
       (\<lambda>stored.
        if \<not> rotation_of deviceID stored then ret (writeDeviceError 409 ''request is not a rotation for this device'')
        else answer_or (ApproveRequest X C (pn_TenantID p) (rq_ID stored) (pn_Subject p) (ap_Grace A))
          (\<lambda>e. if errors_is ErrMakerChecker e then writeDeviceError 409 ''maker may not decide their own request (four-eyes)''
               else if errors_is ErrRequestNotPending e then writeDeviceError 409 ''provisioning request is not pending''
               else writeDeviceError 500 ''rotation approval failed'')
          (\<lambda>approval.
           seqA (audit X (ledger (pn_TenantID p) deviceID AuditRotationApplied (pn_Subject p)
                   [(''requestId'', rq_ID stored), (''keyEpoch'', show_int (av_KeyEpoch approval))]))
           (seqA (count ''geo_device_rotations_total'' ''applied'')
             (ret (writeDeviceJSON 200 (RRotated (av_DeviceID approval) (av_KeyEpoch approval))))))))"

definition createFirmwareRelease :: "externals \<Rightarrow> firmwareReleaseBody posted \<Rightarrow> Principal option \<Rightarrow> device_response geo" where
  "createFirmwareRelease X b ctx =
     device_principalOrFail ctx (\<lambda>p.
     decodeJSON b (\<lambda>body.
     answer_or (CreateFirmwareRelease X (pn_TenantID p)
          \<lparr>fl_ID = [], fl_TenantID = [], fl_Kind = bf_Kind body, fl_Version = bf_Version body,
           fl_ArtifactSHA256 = bf_ArtifactSHA256 body, fl_ArtifactURL = bf_ArtifactURL body,
           fl_RolloutPercent = bf_RolloutPercent body, fl_MinEpoch = bf_MinEpoch body, fl_CreatedAt = zero_time\<rparr>)
       (\<lambda>e. writeDeviceError 400 ''firmware release rejected'')
       (\<lambda>i. ret (writeDeviceJSON 201 (RRelease i)))))"

section \<open>Telemetry\<close>

text \<open>
  The record carries the posted bytes as a raw JSON value: encoding it fails, and the handler returns, when they
  are not exactly one JSON value. The encoding also drops white space between the tokens of the value.
\<close>

definition deadLetter :: "externals \<Rightarrow> API \<Rightarrow> device_codec \<Rightarrow> string \<Rightarrow> auth_reason \<Rightarrow> string \<Rightarrow> unit geo" where
  "deadLetter X A C deviceID reason body =
     bindA (clock X) (\<lambda>t1. bindA (clock X) (\<lambda>t2.
     if \<not> dc_valid C body then ret ()
     else
       bindA (attempt (Publish X (ap_DeadLetters A) TopicVesselQuarantine deviceID
           (VDeadLetter \<lparr>dl_DeadLetterID = ''ddl-'' @ deviceID @ ''-'' @ show_int t1, dl_DeviceID = deviceID,
              dl_Reason = reason, dl_Envelope = body, dl_OccurredAt = t2\<rparr>)
           [''dead-letter-reason'' \<mapsto> reason_text reason])) (\<lambda>r. case r of
         Inl e \<Rightarrow> count ''geo_device_dead_letter_errors_total'' []
       | Inr u \<Rightarrow>
           seqA (count ''geo_device_telemetry_total'' (''dead_letter/'' @ reason_text reason))
             (audit X ((ledger [] deviceID AuditTelemetryDeadLetter (''device:'' @ deviceID) [])\<lparr>au_Reason := reason_text reason\<rparr>)))))"

definition forwardTelemetry ::
  "API \<Rightarrow> device_codec \<Rightarrow> DeviceEnvelope \<Rightarrow> VerifiedDevice \<Rightarrow> EventKind \<Rightarrow> payload \<Rightarrow> string \<Rightarrow> device_response geo" where
  "forwardTelemetry A C envelope verified kind pl classification =
     answer_or (ap_Events A kind
         (de_DeviceID envelope @ '':'' @ event_type_name kind @ '':'' @ dc_rfc3339nano C (de_OccurredAt envelope))
         pl (de_OccurredAt envelope) classification
         [''device-id'' \<mapsto> dv_ID (vd_Device verified), ''device-kind'' \<mapsto> dv_Kind (vd_Device verified),
          ''key-epoch'' \<mapsto> show_int (de_KeyEpoch envelope)])
       (\<lambda>e. writeDeviceError 502 ''event pipeline publication failed'')
       (\<lambda>_. seqA (count ''geo_device_telemetry_total'' (''published/'' @ event_type_name kind))
             (ret (writeDeviceJSON 202 (RPublished kind))))"

text \<open>The payloads the plane forwards: the kind, the decoded payload and its label.\<close>

definition supported :: "device_codec \<Rightarrow> DeviceEnvelope \<Rightarrow> (EventKind \<times> payload \<times> string) option" where
  "supported C envelope =
     (if de_PayloadType envelope = event_type_name EventVesselPosition
      then (case dc_position C (de_Payload envelope) of
              None \<Rightarrow> None
            | Some p \<Rightarrow> if \<not> mmsiLike (vp_MMSI p) \<or> \<not> validClassification (vp_Classification p) then None
                        else Some (EventVesselPosition, PVesselPosition p, vp_Classification p))
      else if de_PayloadType envelope = event_type_name EventVesselStatic
      then (case dc_static C (de_Payload envelope) of
              None \<Rightarrow> None
            | Some p \<Rightarrow> if \<not> mmsiLike (vs_MMSI p) \<or> \<not> validClassification (vs_Classification p) then None
                        else Some (EventVesselStatic, PVesselStatic p, vs_Classification p))
      else None)"

definition dead_lettered :: "auth_reason \<Rightarrow> bool" where
  "dead_lettered reason \<longleftrightarrow>
     reason \<noteq> ReasonEnvelopeMalformed \<and> reason \<noteq> ReasonDeviceUnknown \<and> reason \<noteq> ReasonDeviceIDMismatch"

definition ingestTelemetry :: "externals \<Rightarrow> API \<Rightarrow> device_codec \<Rightarrow> string \<Rightarrow> string option \<Rightarrow> device_response geo" where
  "ingestTelemetry X A C deviceID posted =
     (case posted of
        None \<Rightarrow> ret (writeDeviceError 400 ''request body unreadable'')
      | Some body \<Rightarrow>
          bindA (attempt (VerifyTelemetry X (ap_Verifier A) C deviceID body)) (\<lambda>r. case r of
            Inl e \<Rightarrow>
              (case as_auth e of
                 Some a \<Rightarrow>
                   seqA (whenA (dead_lettered (ae_Reason a)) (deadLetter X A C deviceID (ae_Reason a) body))
                     (ret (writeDeviceError (if ae_Reason a = ReasonEnvelopeMalformed then 400 else 403)
                        (''device authentication failed: '' @ reason_text (ae_Reason a))))
               | None \<Rightarrow> ret (writeDeviceError 500 ''device authentication unavailable''))
          | Inr verified \<Rightarrow>
              (case supported C (fst verified) of
                 Some (kind, pl, classification) \<Rightarrow> forwardTelemetry A C (fst verified) (snd verified) kind pl classification
               | None \<Rightarrow>
                   seqA (deadLetter X A C deviceID ReasonPayloadUnsupported body)
                     (ret (writeDeviceJSON 202 (RDeadLettered ReasonPayloadUnsupported))))))"

section \<open>Firmware, broker and activation\<close>

text \<open>\<open>SplitN(value, " ", 2)\<close> and a case-insensitive scheme; no letter beyond ASCII folds to one of its letters.\<close>

definition deviceAuthorization :: "string \<Rightarrow> string option" where
  "deviceAuthorization header =
     (let v = trim_space header;
          scheme = takeWhile (\<lambda>c. c \<noteq> CHR '' '') v;
          rest = dropWhile (\<lambda>c. c \<noteq> CHR '' '') v
      in if rest = [] \<or> map to_lower scheme \<noteq> ''device'' \<or> trim_space (tl rest) = [] then None
         else Some (trim_space (tl rest)))"

definition release_manifest :: "Device \<Rightarrow> Release \<Rightarrow> int \<Rightarrow> Manifest" where
  "release_manifest device release now =
     \<lparr>mf_DeviceID = dv_ID device, mf_Kind = fl_Kind release, mf_Version = fl_Version release,
      mf_ArtifactSHA256 = fl_ArtifactSHA256 release, mf_ArtifactURL = fl_ArtifactURL release,
      mf_RolloutPercent = fl_RolloutPercent release, mf_MinEpoch = fl_MinEpoch release, mf_GeneratedAt = now, mf_Signature = []\<rparr>"

text \<open>From the proven device to its signed manifest.\<close>

definition serve_release :: "externals \<Rightarrow> API \<Rightarrow> device_codec \<Rightarrow> string \<Rightarrow> Device \<Rightarrow> device_response geo" where
  "serve_release X A C deviceID device =
     answer_or (ListReleasesForKind X (dv_TenantID device) (dv_Kind device))
       (\<lambda>e. writeDeviceError 500 ''firmware release query failed'')
       (\<lambda>releases.
        case SelectRelease C releases device of
          None \<Rightarrow> ret (writeDeviceJSON 204 RNoContent)
        | Some release \<Rightarrow>
            bindA (clock X) (\<lambda>now.
            case SignManifest (SignPayload (x_crypto X) C (ap_ManifestKey A))
                   (release_manifest device release now) (ap_ManifestKeyID A) of
              Inl e \<Rightarrow> ret (writeDeviceError 500 ''manifest signing failed'')
            | Inr manifest \<Rightarrow>
                seqA (audit X (ledger (dv_TenantID device) deviceID AuditFirmwareServed (''device:'' @ deviceID)
                        [(''version'', fl_Version release)]))
                (seqA (count ''geo_device_firmware_served_total'' (fl_Kind release))
                  (ret (writeDeviceJSON 200 (RManifest manifest))))))"

definition serveFirmware :: "externals \<Rightarrow> API \<Rightarrow> device_codec \<Rightarrow> string \<Rightarrow> string \<Rightarrow> device_response geo" where
  "serveFirmware X A C deviceID header =
     (case deviceAuthorization header of
        None \<Rightarrow> ret (writeDeviceError 401 ''Device authorization proof is required'')
      | Some jws \<Rightarrow>
          answer_or (Verifier_VerifyProof X (ap_Verifier A) C jws ProofActionFirmware)
            (\<lambda>e. writeDeviceError 403 ''device authentication failed'')
            (\<lambda>verified.
             if dv_ID (vd_Device verified) \<noteq> deviceID
             then ret (writeDeviceError 403 ''proof device does not match the path device'')
             else serve_release X A C deviceID (vd_Device verified)))"

definition mqtt_deny :: "device_response geo" where
  "mqtt_deny = seqA (count ''geo_device_mqtt_auth_total'' ''deny'') (ret (writeDeviceJSON 200 (RMqtt False False)))"

definition mqtt_proof :: "string \<Rightarrow> string" where
  "mqtt_proof password =
     (let trimmed = trim_space password in
      trim_space (if take 7 trimmed = ''Device '' then drop 7 trimmed else trimmed))"

definition serveMQTTAuth :: "externals \<Rightarrow> API \<Rightarrow> device_codec \<Rightarrow> mqttAuthRequest posted \<Rightarrow> device_response geo" where
  "serveMQTTAuth X A C b =
     decodeJSON b (\<lambda>body.
     if trim_space (bm_ClientID body) = [] then mqtt_deny
     else bindA (attempt (Verifier_VerifyProof X (ap_Verifier A) C (mqtt_proof (bm_Password body)) ProofActionMQTTAuth)) (\<lambda>r. case r of
       Inl e \<Rightarrow> mqtt_deny
     | Inr verified \<Rightarrow>
         if dv_ID (vd_Device verified) \<noteq> bm_ClientID body then mqtt_deny
         else seqA (count ''geo_device_mqtt_auth_total'' ''allow'') (ret (writeDeviceJSON 200 (RMqtt True False)))))"

definition activate :: "externals \<Rightarrow> device_codec \<Rightarrow> activateRequestBody posted \<Rightarrow> device_response geo" where
  "activate X C b =
     decodeJSON b (\<lambda>body.
     bindA (attempt (ConsumeActivation X C (ba_RequestID body) (ba_ActivationSecret body))) (\<lambda>r. case r of
       Inl e \<Rightarrow>
         if errors_is ErrActivationFailed e
         then seqA (count ''geo_device_provisioning_total'' ''consume_failed'')
                (ret (writeDeviceError 409 ''activation failed: secret mismatch or request already consumed''))
         else ret (writeDeviceError 500 ''activation unavailable'')
     | Inr deviceID \<Rightarrow>
         seqA (audit X (ledger [] deviceID AuditProvisionConsumed (''device:'' @ deviceID) [(''requestId'', ba_RequestID body)]))
         (seqA (count ''geo_device_provisioning_total'' ''consumed'')
           (ret (writeDeviceJSON 200 (RConsumed deviceID))))))"

section \<open>Routes\<close>

datatype admin_route =
    PostProvision "provisionRequestBody posted"
  | GetProvision string
  | PostProvisionApprove string
  | PostProvisionReject string
  | GetDevices
  | GetDeviceByID string
  | PostDeviceStatus string "statusRequestBody posted"
  | PostRotation string "rotationRequestBody posted"
  | PostRotationApprove string string
  | PostRelease "firmwareReleaseBody posted"

definition device_readers :: "string list" where
  "device_readers = [''geo-device-reader'', ''geo-device-maker'', ''geo-device-checker'', ''geo-device-admin'']"

fun admin_roles :: "admin_route \<Rightarrow> string list" where
  "admin_roles (PostProvision _) = [''geo-device-maker'', ''geo-device-admin'']"
| "admin_roles (GetProvision _) = device_readers"
| "admin_roles (PostProvisionApprove _) = [''geo-device-checker'', ''geo-device-admin'']"
| "admin_roles (PostProvisionReject _) = [''geo-device-checker'', ''geo-device-admin'']"
| "admin_roles GetDevices = device_readers"
| "admin_roles (GetDeviceByID _) = device_readers"
| "admin_roles (PostDeviceStatus _ _) = [''geo-device-admin'']"
| "admin_roles (PostRotation _ _) = [''geo-device-maker'', ''geo-device-admin'']"
| "admin_roles (PostRotationApprove _ _) = [''geo-device-checker'', ''geo-device-admin'']"
| "admin_roles (PostRelease _) = [''geo-device-admin'']"

fun admin_handler :: "externals \<Rightarrow> API \<Rightarrow> device_codec \<Rightarrow> admin_route \<Rightarrow> Principal option \<Rightarrow> device_response geo" where
  "admin_handler X A C (PostProvision b) = createProvisionRequest X b"
| "admin_handler X A C (GetProvision i) = getProvisionRequest X i"
| "admin_handler X A C (PostProvisionApprove i) = approveProvisionRequest X A C i"
| "admin_handler X A C (PostProvisionReject i) = rejectProvisionRequest X i"
| "admin_handler X A C GetDevices = listDevices X"
| "admin_handler X A C (GetDeviceByID i) = getDevice X i"
| "admin_handler X A C (PostDeviceStatus i b) = setDeviceStatus X i b"
| "admin_handler X A C (PostRotation i b) = requestRotation X i b"
| "admin_handler X A C (PostRotationApprove i q) = approveRotation X A C i q"
| "admin_handler X A C (PostRelease b) = createFirmwareRelease X b"

definition admin_handle :: "externals \<Rightarrow> API \<Rightarrow> device_codec \<Rightarrow> string + Principal \<Rightarrow> admin_route \<Rightarrow> device_response geo" where
  "admin_handle X A C auth route =
     Middleware auth
       (RequireRoles (admin_roles route) (admin_handler X A C route) (\<lambda>r. ret (device_refuse r)))
       (\<lambda>r. ret (device_refuse r))"

datatype device_route =
    PostTelemetry string "string option"
  | GetFirmware string string
  | PostMqttAuth "mqttAuthRequest posted"
  | PostActivate "activateRequestBody posted"

fun device_handle :: "externals \<Rightarrow> API \<Rightarrow> device_codec \<Rightarrow> device_route \<Rightarrow> device_response geo" where
  "device_handle X A C (PostTelemetry i b) = ingestTelemetry X A C i b"
| "device_handle X A C (GetFirmware i h) = serveFirmware X A C i h"
| "device_handle X A C (PostMqttAuth b) = serveMQTTAuth X A C b"
| "device_handle X A C (PostActivate b) = activate X C b"

section \<open>What an answer may do\<close>

text \<open>Ledger rows are appended; nothing else of the tables moves.\<close>

definition ledgered :: "world \<Rightarrow> world \<Rightarrow> bool" where
  "ledgered w w' \<longleftrightarrow>
     (\<exists>rows. w_db w' = (w_db w)\<lparr>db_devices := (db_devices (w_db w))\<lparr>dd_audit := dd_audit (db_devices (w_db w)) @ rows\<rparr>\<rparr>)"

text \<open>One step of the registry of a tenant, then at most one ledger row.\<close>

definition stepped :: "string \<Rightarrow> world \<Rightarrow> world \<Rightarrow> bool" where
  "stepped t w w' \<longleftrightarrow>
     (\<exists>s rows. device_step t (db_devices (w_db w)) s \<and> length rows \<le> 1
        \<and> w_db w' = (w_db w)\<lparr>db_devices := s\<lparr>dd_audit := dd_audit s @ rows\<rparr>\<rparr>)"

fun admin_read :: "admin_route \<Rightarrow> bool" where
  "admin_read (GetProvision _) = True"
| "admin_read GetDevices = True"
| "admin_read (GetDeviceByID _) = True"
| "admin_read _ = False"

fun of_caller :: "string \<Rightarrow> device_db \<Rightarrow> device_reply \<Rightarrow> bool" where
  "of_caller t s (RRequest q) = (q \<in> rr_Request ` set (dd_requests s) \<and> rq_TenantID q = t)"
| "of_caller t s (RDevices ds) = (\<forall>d\<in>set ds. d \<in> set (dd_devices s) \<and> dv_TenantID d = t)"
| "of_caller t s (RDevice d) = (d \<in> set (dd_devices s) \<and> dv_TenantID d = t)"
| "of_caller t s _ = True"

definition succeeded :: "device_response \<Rightarrow> bool" where
  "succeeded r \<longleftrightarrow> er_status r \<in> {200, 201, 202}"

text \<open>
  A read changes nothing and discloses rows of the caller's tenant. A write that succeeds is one step of that
  tenant's registry. A request that fails changes nothing; only a rejection may have taken effect.
\<close>

definition administered :: "admin_route \<Rightarrow> string \<Rightarrow> world \<Rightarrow> device_response \<Rightarrow> world \<Rightarrow> bool" where
  "administered route t w r w' \<longleftrightarrow>
     w_kafka w' = w_kafka w
     \<and> (if succeeded r
        then (if admin_read route then w_db w' = w_db w \<and> of_caller t (db_devices (w_db w)) (er_reply r) else stepped t w w')
        else w_db w' = w_db w \<or> ((\<exists>i. route = PostProvisionReject i) \<and> stepped t w w'))"

lemma device_response_sel [simp]:
  "er_status (writeDeviceJSON n b) = n" "er_reply (writeDeviceJSON n b) = b"
  "er_status (writeDeviceError n m) = n" "er_reply (writeDeviceError n m) = RError m"
  by (simp_all add: writeDeviceError_def writeDeviceJSON_def)

lemma succeeded_simps [simp]:
  "succeeded (writeDeviceJSON n b) = (n \<in> {200, 201, 202})" "succeeded (writeDeviceError n m) = (n \<in> {200, 201, 202})"
  by (simp_all add: succeeded_def)

lemma answer_or_wp: "wp (answer_or m f k) Q E = (\<lambda>w. wp m (\<lambda>x. wp (k x) Q E) (\<lambda>e. Q (f e)) w)"
  by (simp add: answer_or_def wp_simps cong: sum.case_cong)

lemma audit_wp:
  "wp (audit X ev)
     (\<lambda>_ w'. w_kafka w' = w_kafka w \<and> (\<exists>rows. length rows \<le> 1
        \<and> w_db w' = (w_db w)\<lparr>db_devices := (db_devices (w_db w))\<lparr>dd_audit := dd_audit (db_devices (w_db w)) @ rows\<rparr>\<rparr>)) E w"
  unfolding audit_def wp_bind wp_attempt
proof (rule wp_mono [OF InsertAudit_wp], goal_cases)
  case (1 u v)
  then obtain now where v: "tables_only w v"
    "w_db v = (w_db w)\<lparr>db_devices := (db_devices (w_db w))\<lparr>dd_audit := dd_audit (db_devices (w_db w)) @ [audit_entry ev now]\<rparr>\<rparr>"
    by (auto simp: registry_moved_def)
  with tables_only_kafka [OF v(1)] show ?case
    by (auto simp: wp_ret intro!: exI [of _ "[audit_entry ev now]"])
next
  case (2 e v)
  then have v: "tables_only w v" "w_db v = w_db w" by (auto simp: registry_kept_def)
  with tables_only_kafka [OF v(1)] show ?case
    by (auto simp: wp_count intro!: exI [of _ "[]"])
qed

lemma steppedI:
  "device_step t (db_devices (w_db w)) s \<Longrightarrow> length rows \<le> 1 \<Longrightarrow>
     w_db w' = (w_db w)\<lparr>db_devices := s\<lparr>dd_audit := dd_audit s @ rows\<rparr>\<rparr> \<Longrightarrow> stepped t w w'"
  unfolding stepped_def by blast

lemma audited_step:
  assumes "registry_moved (device_step t) w v"
  shows "wp (audit X ev) (\<lambda>_ w'. w_kafka w' = w_kafka w \<and> stepped t w w') E v"
proof (rule wp_mono [OF audit_wp])
  fix u and w' :: world
  assume "w_kafka w' = w_kafka v \<and> (\<exists>rows. length rows \<le> 1
      \<and> w_db w' = (w_db v)\<lparr>db_devices := (db_devices (w_db v))\<lparr>dd_audit := dd_audit (db_devices (w_db v)) @ rows\<rparr>\<rparr>)"
  with assms tables_only_kafka [of w v] show "w_kafka w' = w_kafka w \<and> stepped t w w'"
    by (auto simp: registry_moved_def intro: steppedI)
qed simp

lemma unaudited_step:
  assumes "registry_moved (device_step t) w v"
  shows "w_kafka v = w_kafka w" "stepped t w v"
  using assms tables_only_kafka [of w v]
  by (auto simp: registry_moved_def intro!: steppedI [where rows = "[]"])

lemma kept_world: "registry_kept w v \<Longrightarrow> w_kafka v = w_kafka w \<and> w_db v = w_db w"
  by (auto simp: registry_kept_def dest: tables_only_kafka)

text \<open>Every refusal of a store call is answered with an error status.\<close>

lemma error_answers [simp]:
  "\<not> succeeded (decision_error m e)" "\<not> succeeded (device_read_error e)"
  by (simp_all add: decision_error_def device_read_error_def)

section \<open>Administration\<close>

lemma write_administered:
  assumes "wp m (\<lambda>x w'. trim_space t \<noteq> [] \<and> registry_moved (device_step t) w w') (\<lambda>_. registry_kept w) w"
    and "\<And>e. \<not> succeeded (f e)" "\<not> admin_read route"
    and "\<And>x v. registry_moved (device_step t) w v \<Longrightarrow>
       wp (k x) (\<lambda>r w'. succeeded r \<and> w_kafka w' = w_kafka w \<and> stepped t w w') (\<lambda>_ _. False) v"
  shows "wp (answer_or m f k) (administered route t w) (\<lambda>_ _. False) w"
  unfolding answer_or_wp
proof (rule wp_mono [OF assms(1)], goal_cases)
  case (1 x v)
  then show ?case
    using assms(3) by (auto simp: administered_def intro: wp_mono [OF assms(4)])
next
  case (2 e v)
  with kept_world [of w v] assms(2) show ?case by (simp add: administered_def)
qed

lemma finish_wp:
  assumes "registry_moved (device_step t) w v" "n \<in> {200, 201, 202}"
  shows "wp (seqA (audit X ev) (seqA (count c l) (ret (writeDeviceJSON n b))))
      (\<lambda>r w'. succeeded r \<and> w_kafka w' = w_kafka w \<and> stepped t w w') (\<lambda>_ _. False) v"
    "wp (seqA (audit X ev) (ret (writeDeviceJSON n b)))
      (\<lambda>r w'. succeeded r \<and> w_kafka w' = w_kafka w \<and> stepped t w w') (\<lambda>_ _. False) v"
    "wp (ret (writeDeviceJSON n b)) (\<lambda>r w'. succeeded r \<and> w_kafka w' = w_kafka w \<and> stepped t w w') (\<lambda>_ _. False) v"
  unfolding wp_seq wp_ret wp_count
  using assms unaudited_step [OF assms(1)]
  by (auto simp: stepped_def intro!: wp_mono [OF audited_step [OF assms(1)]])

definition admin_outcome :: "admin_route \<Rightarrow> Principal \<Rightarrow> world \<Rightarrow> device_response \<Rightarrow> world \<Rightarrow> bool" where
  "admin_outcome route p w r w' \<longleftrightarrow>
     (er_status r = 403 \<and> w' = w) \<or> (trim_space (pn_TenantID p) \<noteq> [] \<and> administered route (pn_TenantID p) w r w')"

lemma guards_wp:
  "pn_Subject p \<noteq> [] \<Longrightarrow> wp (k p) (administered route (pn_TenantID p) w) (\<lambda>_ _. False) w \<Longrightarrow>
     wp (device_principalOrFail (Some p) k) (admin_outcome route p w) (\<lambda>_ _. False) w"
  unfolding device_principalOrFail_def PrincipalFrom_def
  by (cases "trim_space (pn_TenantID p) = []") (simp_all add: wp_ret admin_outcome_def, erule wp_mono, simp_all add: admin_outcome_def)

lemma decodeJSON_wp:
  "\<not> admin_read route \<Longrightarrow> (\<And>x. wp (k x) (administered route t w) (\<lambda>_ _. False) w) \<Longrightarrow>
     wp (decodeJSON b k) (administered route t w) (\<lambda>_ _. False) w"
  by (cases b) (auto simp: decodeJSON_def wp_simps administered_def)

lemma writes_administered:
  assumes p: "pn_Subject p \<noteq> []" and inv: "devices_inv (db_devices (w_db w))"
  shows
    "wp (createProvisionRequest X b1 (Some p))
       (admin_outcome (PostProvision b1) p w) (\<lambda>_ _. False) w"
    "wp (approveProvisionRequest X A C i (Some p))
       (admin_outcome (PostProvisionApprove i) p w) (\<lambda>_ _. False) w"
    "wp (setDeviceStatus X i b2 (Some p))
       (admin_outcome (PostDeviceStatus i b2) p w) (\<lambda>_ _. False) w"
    "wp (createFirmwareRelease X b3 (Some p))
       (admin_outcome (PostRelease b3) p w) (\<lambda>_ _. False) w"
proof -
  have approve: "wp (ApproveRequest X C (pn_TenantID p) i (pn_Subject p) (ap_Grace A))
      (\<lambda>x w'. trim_space (pn_TenantID p) \<noteq> [] \<and> registry_moved (device_step (pn_TenantID p)) w w') (\<lambda>_. registry_kept w) w"
    by (rule wp_mono [OF ApproveRequest_wp [OF inv]]) (auto simp: registry_moved_def)
  show "wp (createProvisionRequest X b1 (Some p))
       (admin_outcome (PostProvision b1) p w) (\<lambda>_ _. False) w"
    unfolding createProvisionRequest_def
    by (intro guards_wp [OF p] decodeJSON_wp write_administered [OF create_requests_wp(1)] finish_wp) simp_all
  show "wp (approveProvisionRequest X A C i (Some p))
       (admin_outcome (PostProvisionApprove i) p w) (\<lambda>_ _. False) w"
    unfolding approveProvisionRequest_def
    by (intro guards_wp [OF p] write_administered [OF approve] finish_wp) simp_all
  show "wp (setDeviceStatus X i b2 (Some p))
       (admin_outcome (PostDeviceStatus i b2) p w) (\<lambda>_ _. False) w"
    unfolding setDeviceStatus_def
    by (intro guards_wp [OF p] decodeJSON_wp write_administered [OF SetDeviceStatus_wp [OF inv]] finish_wp) simp_all
  show "wp (createFirmwareRelease X b3 (Some p))
       (admin_outcome (PostRelease b3) p w) (\<lambda>_ _. False) w"
    unfolding createFirmwareRelease_def
    by (intro guards_wp [OF p] decodeJSON_wp write_administered [OF CreateFirmwareRelease_wp] finish_wp) simp_all
qed

lemma kept_then_moved: "registry_kept w v \<Longrightarrow> registry_moved R v u \<Longrightarrow> registry_moved R w u"
  by (auto simp: registry_kept_def registry_moved_def intro: tables_only_trans)

lemma later_write:
  assumes v: "registry_kept w v"
    and "wp m (\<lambda>x w'. trim_space t \<noteq> [] \<and> registry_moved (device_step t) v w') (\<lambda>_. registry_kept v) v"
    and "\<And>e. \<not> succeeded (f e)" "\<not> admin_read route"
    and "\<And>x u. registry_moved (device_step t) w u \<Longrightarrow>
       wp (k x) (\<lambda>r w'. succeeded r \<and> w_kafka w' = w_kafka w \<and> stepped t w w') (\<lambda>_ _. False) u"
  shows "wp (answer_or m f k) (administered route t w) (\<lambda>_ _. False) v"
  unfolding answer_or_wp
proof (rule wp_mono [OF assms(2)], goal_cases)
  case (1 x u)
  with kept_then_moved [OF v] show ?case
    using assms(4) by (auto simp: administered_def intro: wp_mono [OF assms(5)])
next
  case (2 e u)
  with kept_world [of w u] registry_kept_trans [OF v] assms(3) show ?case by (simp add: administered_def)
qed

lemma rotations_administered:
  assumes p: "pn_Subject p \<noteq> []" and inv: "devices_inv (db_devices (w_db w))"
  shows
    "wp (requestRotation X i b (Some p)) (admin_outcome (PostRotation i b) p w) (\<lambda>_ _. False) w"
    "wp (approveRotation X A C i q (Some p)) (admin_outcome (PostRotationApprove i q) p w) (\<lambda>_ _. False) w"
proof -
  let ?t = "pn_TenantID p"
  have approve: "wp (ApproveRequest X C ?t j (pn_Subject p) (ap_Grace A))
      (\<lambda>x w'. trim_space ?t \<noteq> [] \<and> registry_moved (device_step ?t) v w') (\<lambda>_. registry_kept v) v" if "registry_kept w v" for v j
  proof -
    from that inv have "devices_inv (db_devices (w_db v))" by (simp add: registry_kept_def)
    then show ?thesis by (rule wp_mono [OF ApproveRequest_wp]) (auto simp: registry_moved_def)
  qed
  show "wp (requestRotation X i b (Some p)) (admin_outcome (PostRotation i b) p w) (\<lambda>_ _. False) w"
    unfolding requestRotation_def
  proof (intro guards_wp [OF p] decodeJSON_wp, simp)
    fix body
    show "wp (answer_or (GetDevice X ?t i) device_read_error (\<lambda>_.
        answer_or (CreateRotationRequest X ?t i (br_PublicKey body) (pn_Subject p)) (\<lambda>e. writeDeviceError 400 ''rotation request rejected'')
          (\<lambda>ia. seqA (audit X (ledger ?t i AuditRotationRequested (pn_Subject p) [(''requestId'', ia)]))
           (seqA (count ''geo_device_rotations_total'' ''requested'') (ret (writeDeviceJSON 202 (RPending ia)))))))
        (administered (PostRotation i b) ?t w) (\<lambda>_ _. False) w"
      unfolding answer_or_wp [of "GetDevice X ?t i"]
      by (rule wp_mono [OF GetDevice_wp])
        (auto simp: administered_def kept_world intro!: later_write [OF _ create_requests_wp(2)] finish_wp)
  qed
  show "wp (approveRotation X A C i q (Some p)) (admin_outcome (PostRotationApprove i q) p w) (\<lambda>_ _. False) w"
    unfolding approveRotation_def
  proof (intro guards_wp [OF p], unfold answer_or_wp [of "GetRequest X ?t q"], rule wp_mono [OF GetRequest_wp], goal_cases)
    case (1 stored v)
    then have v: "registry_kept w v" by simp
    show ?case
      unfolding wp_if wp_ret
      using kept_world [OF v]
      by (auto simp: administered_def intro!: later_write [OF v approve [OF v]] finish_wp split: if_splits)
  next
    case (2 e v)
    then show ?case using kept_world [of w v] by (simp add: administered_def)
  qed
qed

lemma reject_administered:
  assumes p: "pn_Subject p \<noteq> []" and inv: "devices_inv (db_devices (w_db w))"
  shows "wp (rejectProvisionRequest X i (Some p)) (admin_outcome (PostProvisionReject i) p w) (\<lambda>_ _. False) w"
  unfolding rejectProvisionRequest_def
proof (rule guards_wp [OF p], unfold answer_or_wp, rule wp_mono [OF RejectRequest_wp [OF inv]], goal_cases)
  case (1 stored v)
  then show ?case
    by (intro wp_mono [OF finish_wp(1)]) (auto simp: administered_def)
next
  case (2 e v)
  then show ?case
    using kept_world [of w v] unaudited_step [of "pn_TenantID p" w v] by (auto simp: administered_def)
qed

lemma reads_administered:
  assumes p: "pn_Subject p \<noteq> []"
  shows
    "wp (getProvisionRequest X i (Some p)) (admin_outcome (GetProvision i) p w) (\<lambda>_ _. False) w"
    "wp (listDevices X (Some p)) (admin_outcome GetDevices p w) (\<lambda>_ _. False) w"
    "wp (getDevice X i (Some p)) (admin_outcome (GetDeviceByID i) p w) (\<lambda>_ _. False) w"
proof -
  show "wp (getProvisionRequest X i (Some p)) (admin_outcome (GetProvision i) p w) (\<lambda>_ _. False) w"
    unfolding getProvisionRequest_def
    by (rule guards_wp [OF p], unfold answer_or_wp wp_ret, rule wp_mono [OF GetRequest_wp])
      (auto simp: administered_def kept_world dest: find_request_Some)
  show "wp (listDevices X (Some p)) (admin_outcome GetDevices p w) (\<lambda>_ _. False) w"
    unfolding listDevices_def
    by (rule guards_wp [OF p], unfold answer_or_wp wp_ret, rule wp_mono [OF ListDevices_wp])
      (auto simp: administered_def kept_world)
  show "wp (getDevice X i (Some p)) (admin_outcome (GetDeviceByID i) p w) (\<lambda>_ _. False) w"
    unfolding getDevice_def
    by (rule guards_wp [OF p], unfold answer_or_wp wp_ret, rule wp_mono [OF GetDevice_wp])
      (auto simp: administered_def kept_world dest: find_device_Some)
qed

lemma admin_handler_outcome:
  assumes "pn_Subject p \<noteq> []" "devices_inv (db_devices (w_db w))"
  shows "wp (admin_handler X A C route (Some p)) (admin_outcome route p w) (\<lambda>_ _. False) w"
  by (cases route)
    (simp_all only: admin_handler.simps writes_administered [OF assms] rotations_administered [OF assms]
       reject_administered [OF assms] reads_administered [OF assms(1)])

text \<open>
  C6. Every request to the fleet endpoints is answered, and the answer is authorised. Without an authenticated
  subject that has one of the route's roles and a tenant it is 401 or 403 and the world stays as it is. Otherwise
  nothing is published; a read changes nothing and discloses rows of the caller's tenant only; a write that
  succeeds is exactly one step of that tenant's registry, followed by at most one ledger row; a request that is
  not answered with success has changed no table, with the one exception that a rejection may have been recorded.
\<close>

theorem device_requests_authorised:
  assumes "admin_handle X A C auth route w = (w', res)" "devices_inv (db_devices (w_db w))"
  shows "\<exists>resp. res = Inr resp \<and>
    ((er_status resp \<in> {401, 403} \<and> w' = w)
     \<or> (\<exists>p. auth = Inr p \<and> pn_Subject p \<noteq> [] \<and> pn_Roles p \<inter> set (admin_roles route) \<noteq> {} \<and> trim_space (pn_TenantID p) \<noteq> []
          \<and> administered route (pn_TenantID p) w resp w'))"
proof (cases "\<exists>p. auth = Inr p \<and> pn_Subject p \<noteq> [] \<and> pn_Roles p \<inter> set (admin_roles route) \<noteq> {}")
  case True
  then obtain p where p: "auth = Inr p" "pn_Subject p \<noteq> []" "pn_Roles p \<inter> set (admin_roles route) \<noteq> {}" by blast
  then have "admin_handle X A C auth route = admin_handler X A C route (Some p)"
    by (simp add: admin_handle_def gate_exact)
  with assms(1) have run: "admin_handler X A C route (Some p) w = (w', res)" by simp
  note handled = admin_handler_outcome [OF p(2) assms(2), of X A C route]
  show ?thesis
  proof (cases res)
    case (Inl e)
    from wp_Inl [OF handled run [unfolded Inl]] show ?thesis by simp
  next
    case (Inr resp)
    from wp_Inr [OF handled run [unfolded Inr]] p Inr show ?thesis by (auto simp: admin_outcome_def)
  qed
next
  case False
  then have "\<exists>r. admin_handle X A C auth route = ret (device_refuse r)"
    by (cases auth) (auto simp: admin_handle_def gate_exact)
  with assms(1) obtain r where "res = Inr (device_refuse r)" "w' = w" by (auto simp: ret_def)
  then show ?thesis by (cases r) (auto simp: device_refuse_def)
qed

section \<open>Telemetry\<close>

definition dead_letter_message :: "string \<Rightarrow> auth_reason \<Rightarrow> string \<Rightarrow> message \<Rightarrow> bool" where
  "dead_letter_message deviceID reason body m \<longleftrightarrow> km_topic m = TopicVesselQuarantine \<and> km_key m = deviceID
     \<and> (\<exists>r. km_value m = VDeadLetter r \<and> dl_DeviceID r = deviceID \<and> dl_Reason r = reason \<and> dl_Envelope r = body)"

text \<open>A dead letter reaches the topic, and then the count and the ledger, or none of them; a broker failure is counted.\<close>

definition dead_letter_done :: "device_codec \<Rightarrow> string \<Rightarrow> auth_reason \<Rightarrow> string \<Rightarrow> world \<Rightarrow> world \<Rightarrow> bool" where
  "dead_letter_done C deviceID reason body w w' \<longleftrightarrow> ledgered w w'
     \<and> (if dc_valid C body
        then (\<exists>m. w_kafka w' = w_kafka w @ [m] \<and> dead_letter_message deviceID reason body m)
             \<or> (w_kafka w' = w_kafka w \<and> w_db w' = w_db w
                \<and> w_metrics w' = w_metrics w @ [(''geo_device_dead_letter_errors_total'', [])])
        else undisturbed w w')"

lemma ledgered_refl: "w_db w' = w_db w \<Longrightarrow> ledgered w w'"
  unfolding ledgered_def by (rule exI [of _ "[]"]) simp

lemma ledgered_trans:
  assumes "ledgered u v" "ledgered v w"
  shows "ledgered u w"
proof -
  from assms obtain r1 r2 where
    "w_db v = (w_db u)\<lparr>db_devices := (db_devices (w_db u))\<lparr>dd_audit := dd_audit (db_devices (w_db u)) @ r1\<rparr>\<rparr>"
    "w_db w = (w_db v)\<lparr>db_devices := (db_devices (w_db v))\<lparr>dd_audit := dd_audit (db_devices (w_db v)) @ r2\<rparr>\<rparr>"
    unfolding ledgered_def by blast
  then show ?thesis unfolding ledgered_def by (intro exI [of _ "r1 @ r2"]) simp
qed

lemma audit_ledgered: "wp (audit X ev) (\<lambda>_ w'. w_kafka w' = w_kafka w \<and> ledgered w w') E w"
  by (rule wp_mono [OF audit_wp]) (auto simp: ledgered_def)

lemma deadLetter_wp: "wp (deadLetter X A C dev reason body) (\<lambda>_. dead_letter_done C dev reason body w) (\<lambda>_ _. False) w"
proof (cases "dc_valid C body")
  case False
  then show ?thesis
    unfolding deadLetter_def by (simp add: wp_simps dead_letter_done_def ledgered_refl)
next
  case True
  let ?w = "w\<lparr>w_tick := Suc (Suc (w_tick w))\<rparr>"
  show ?thesis
    unfolding deadLetter_def wp_bind [of "clock X"] wp_clock wp_bind [of "attempt _"] wp_attempt if_P [OF True] not_not
    using True
  proof (simp only: not_True_eq_False if_False wp_bind wp_attempt world.select_convs world.update_convs, intro wp_mono [OF bus.publish_wp], goal_cases)
    case (1 u v)
    then obtain m where v: "w_kafka v = w_kafka w @ [m]" "dead_letter_message dev reason body m" "w_db v = w_db w"
      by (auto simp: dead_letter_message_def same_but_kafka_def)
    show ?case
      unfolding sum.case wp_seq wp_count
      by (rule wp_mono [OF audit_ledgered]) (use v True in \<open>auto simp: dead_letter_done_def ledgered_def\<close>)
  next
    case (2 e v)
    then show ?case
      using True by (simp add: wp_count dead_letter_done_def ledgered_refl same_but_kafka_def)
  qed
qed

lemma as_auth_refused:
  "refused_for w e v \<Longrightarrow> as_auth e = Some a \<Longrightarrow> (\<exists>l e'. e = ErrWrap l e') \<or> refused (ae_Reason a) w v"
  by (cases e) (auto simp: refused_for_def)

lemma refused_world: "refused reason w v \<Longrightarrow> w_kafka v = w_kafka w \<and> ledgered w v"
  by (auto simp: refused_def ledgered_def intro: exI [of _ "[]"])

lemma refused_for_world: "refused_for w e v \<Longrightarrow> w_kafka v = w_kafka w \<and> ledgered w v"
  by (cases e) (auto simp: refused_for_def undisturbed_def dest: refused_world intro: ledgered_refl)

text \<open>
  What a telemetry request may lead to: a proven envelope with a supported payload is published once, as a
  service-signed event that carries the device, the type and the time of the envelope as its correlation; a
  proven one with another payload is a dead letter; a refused one is a dead letter only when it names a registered
  device.
\<close>

fun telemetry_outcome ::
  "externals \<Rightarrow> API \<Rightarrow> device_codec \<Rightarrow> string \<Rightarrow> string \<Rightarrow> world \<Rightarrow> world \<Rightarrow> nat \<Rightarrow> device_reply \<Rightarrow> bool" where
  "telemetry_outcome X A C dev body w w' status (RPublished kind) \<longleftrightarrow> status = 202
     \<and> (\<exists>e vd pl cls m. telemetry_proven X (ap_Verifier A) C dev body (db_devices (w_db w)) e vd \<and> supported C e = Some (kind, pl, cls)
          \<and> w_kafka w' = w_kafka w @ [m]
          \<and> envelope_message kind (dev @ '':'' @ event_type_name kind @ '':'' @ dc_rfc3339nano C (de_OccurredAt e)) m)"
| "telemetry_outcome X A C dev body w w' status (RDeadLettered reason) \<longleftrightarrow> status = 202 \<and> reason = ReasonPayloadUnsupported
     \<and> (\<exists>e vd. telemetry_proven X (ap_Verifier A) C dev body (db_devices (w_db w)) e vd \<and> supported C e = None)
     \<and> (w_kafka w' = w_kafka w \<or> (\<exists>m. w_kafka w' = w_kafka w @ [m] \<and> dead_letter_message dev reason body m))"
| "telemetry_outcome X A C dev body w w' status (RError msg) \<longleftrightarrow> status \<in> {400, 403, 500, 502}
     \<and> (w_kafka w' = w_kafka w \<or> (status = 403
          \<and> (\<exists>reason m. dead_lettered reason \<and> w_kafka w' = w_kafka w @ [m] \<and> dead_letter_message dev reason body m)))"
| "telemetry_outcome X A C dev body w w' status _ \<longleftrightarrow> False"

lemma dead_letter_kafka:
  "dead_letter_done C dev reason body w w' \<Longrightarrow>
     w_kafka w' = w_kafka w \<or> (\<exists>m. w_kafka w' = w_kafka w @ [m] \<and> dead_letter_message dev reason body m)"
  by (auto simp: dead_letter_done_def undisturbed_def split: if_splits)

lemma letter_wp:
  assumes "w_kafka v = w_kafka w" "ledgered w v"
  shows "wp (deadLetter X A C dev reason body)
     (\<lambda>_ w'. ledgered w w' \<and> (w_kafka w' = w_kafka w \<or> (\<exists>m. w_kafka w' = w_kafka w @ [m] \<and> dead_letter_message dev reason body m)))
     (\<lambda>_ _. False) v"
proof (rule wp_mono [OF deadLetter_wp])
  fix u and w' :: world
  assume d: "dead_letter_done C dev reason body v w'"
  then have "ledgered v w'" by (simp add: dead_letter_done_def)
  with ledgered_trans [OF assms(2)] dead_letter_kafka [OF d] assms(1)
  show "ledgered w w' \<and> (w_kafka w' = w_kafka w \<or> (\<exists>m. w_kafka w' = w_kafka w @ [m] \<and> dead_letter_message dev reason body m))"
    by simp
qed

lemma ingestTelemetry_wp:
  assumes "ap_Events A = PublishSignedEnvelope Y P"
  shows "wp (ingestTelemetry X A C dev (Some body))
     (\<lambda>r w'. ledgered w w' \<and> telemetry_outcome X A C dev body w w' (er_status r) (er_reply r)) (\<lambda>_ _. False) w"
  unfolding ingestTelemetry_def option.case wp_bind wp_attempt
proof (rule wp_mono [OF VerifyTelemetry_wp], goal_cases)
  case (1 verified v)
  then have v: "w_kafka v = w_kafka w" "w_db v = w_db w"
    and proven: "telemetry_proven X (ap_Verifier A) C dev body (db_devices (w_db w)) (fst verified) (snd verified)"
    by (auto simp: admitted_def)
  then have dev: "de_DeviceID (fst verified) = dev" by (simp add: telemetry_proven_def)
  show ?case
  proof (cases "supported C (fst verified)")
    case None
    with proven show ?thesis
      by (auto simp: wp_seq wp_ret intro!: wp_mono [OF letter_wp [OF v(1) ledgered_refl [OF v(2)]]])
  next
    case (Some x)
    obtain kind pl cls where x: "x = (kind, pl, cls)" by (cases x)
    show ?thesis
      unfolding sum.case Some option.case x prod.case forwardTelemetry_def answer_or_wp assms dev
      by (rule wp_mono [OF PublishSignedEnvelope_wp])
        (use v proven Some x in \<open>auto simp: wp_simps same_but_kafka_def intro!: ledgered_refl\<close>)
  qed
next
  case (2 e v)
  note world = refused_for_world [OF 2]
  show ?case
  proof (cases "as_auth e")
    case None
    with world show ?thesis by (simp add: wp_ret)
  next
    case (Some a)
    show ?thesis
    proof (cases "dead_lettered (ae_Reason a)")
      case True
      then have "ae_Reason a \<noteq> ReasonEnvelopeMalformed" by (simp add: dead_lettered_def)
      then show ?thesis
        using True Some by (auto simp: wp_seq wp_ret whenA_def intro!: wp_mono [OF letter_wp [OF conjunct1 [OF world] conjunct2 [OF world]]])
    next
      case False
      with Some world show ?thesis by (simp add: wp_seq wp_ret whenA_def)
    qed
  qed
qed

section \<open>Firmware, broker and activation\<close>

text \<open>A served manifest: the newest release of the proven device that its rollout reaches.\<close>

definition release_served :: "externals \<Rightarrow> API \<Rightarrow> device_codec \<Rightarrow> Device \<Rightarrow> device_db \<Rightarrow> Manifest \<Rightarrow> bool" where
  "release_served X A C device s m \<longleftrightarrow>
     (\<exists>release now. release \<in> set (dd_releases s) \<and> fl_TenantID release = dv_TenantID device \<and> fl_Kind release = dv_Kind device
        \<and> eligible C device release
        \<and> (\<forall>r\<in>set (dd_releases s). fl_TenantID r = dv_TenantID device \<and> fl_Kind r = dv_Kind device
             \<and> eligible C device r \<longrightarrow> fl_CreatedAt r \<le> fl_CreatedAt release)
        \<and> SignManifest (SignPayload (x_crypto X) C (ap_ManifestKey A)) (release_manifest device release now) (ap_ManifestKeyID A) = Inr m)"

definition firmware_served ::
  "externals \<Rightarrow> API \<Rightarrow> device_codec \<Rightarrow> string \<Rightarrow> string \<Rightarrow> device_db \<Rightarrow> Manifest \<Rightarrow> bool" where
  "firmware_served X A C dev header s m \<longleftrightarrow>
     (\<exists>jws vd. deviceAuthorization header = Some jws
        \<and> proof_proven X (ap_Verifier A) C jws ProofActionFirmware s vd \<and> dv_ID (vd_Device vd) = dev
        \<and> release_served X A C (vd_Device vd) s m)"

lemma sorted_rev_after:
  assumes "rev (sort_key f xs) = b @ r # a" "x \<in> set a"
  shows "f x \<le> (f r :: 'k :: linorder)"
proof -
  have "sort_key f xs = rev a @ r # rev b" using arg_cong [OF assms(1), of rev] by simp
  moreover have "sorted (map f (sort_key f xs))" by (rule sorted_sort_key)
  ultimately have "sorted (map f (rev a @ r # rev b))" by simp
  with assms(2) show ?thesis by (simp add: sorted_append)
qed

lemma newest_release:
  assumes "SelectRelease C (rev (sort_key (\<lambda>r. (fl_CreatedAt r, fl_ID r)) rs)) d = Some release"
  shows "release \<in> set rs \<and> eligible C d release \<and> (\<forall>r\<in>set rs. eligible C d r \<longrightarrow> fl_CreatedAt r \<le> fl_CreatedAt release)"
proof -
  let ?l = "rev (sort_key (\<lambda>r. (fl_CreatedAt r, fl_ID r)) rs)"
  from assms obtain b a where l: "?l = b @ release # a" and e: "eligible C d release" and b: "\<forall>x\<in>set b. \<not> eligible C d x"
    unfolding SelectRelease_Some by blast
  have "set rs = set ?l" by simp
  then have rs: "set rs = set b \<union> {release} \<union> set a" unfolding l by auto
  have "fl_CreatedAt r \<le> fl_CreatedAt release" if "r \<in> set a" for r
    using sorted_rev_after [OF l that] by (auto simp: less_eq_prod_def)
  with rs e b show ?thesis by auto
qed

lemma ListReleasesForKind_wp:
  "wp (ListReleasesForKind X t kind)
     (\<lambda>rs w'. undisturbed w w' \<and> rs = rev (sort_key (\<lambda>r. (fl_CreatedAt r, fl_ID r))
        (filter (\<lambda>r. fl_TenantID r = t \<and> fl_Kind r = kind) (dd_releases (db_devices (w_db w))))))
     (\<lambda>_ w'. undisturbed w w') w"
  unfolding ListReleasesForKind_def by (simp add: wp_simps)

definition plane_kept :: "world \<Rightarrow> world \<Rightarrow> bool" where
  "plane_kept w w' \<longleftrightarrow> w_kafka w' = w_kafka w \<and> ledgered w w'"

lemma plane_kept_intros:
  "admitted w v \<Longrightarrow> plane_kept w v" "undisturbed w v \<Longrightarrow> plane_kept w v" "refused_for w e v \<Longrightarrow> plane_kept w v"
  by (auto simp: plane_kept_def admitted_def undisturbed_def ledgered_refl dest: refused_for_world)

lemma plane_kept_trans: "plane_kept u v \<Longrightarrow> plane_kept v w \<Longrightarrow> plane_kept u w"
  by (auto simp: plane_kept_def intro: ledgered_trans)

lemma plane_kept_simps [simp]:
  "plane_kept w (v\<lparr>w_tick := n\<rparr>) = plane_kept w v" "plane_kept w (v\<lparr>w_metrics := ms\<rparr>) = plane_kept w v" "plane_kept w w"
  by (auto simp: plane_kept_def ledgered_def intro: exI [of _ "[]"])

lemma audit_plane: "plane_kept w v \<Longrightarrow> wp (audit X ev) (\<lambda>_. plane_kept w) E v"
  by (rule wp_mono [OF audit_ledgered]) (auto simp: plane_kept_def intro: ledgered_trans)

fun firmware_answer :: "(Manifest \<Rightarrow> bool) \<Rightarrow> nat \<Rightarrow> device_reply \<Rightarrow> bool" where
  "firmware_answer ok status (RManifest m) \<longleftrightarrow> status = 200 \<and> ok m"
| "firmware_answer ok status RNoContent \<longleftrightarrow> status = 204"
| "firmware_answer ok status (RError msg) \<longleftrightarrow> status \<in> {401, 403, 500}"
| "firmware_answer ok status _ \<longleftrightarrow> False"

lemma serve_release_wp:
  "wp (serve_release X A C dev d)
     (\<lambda>r w'. plane_kept w w' \<and> firmware_answer (release_served X A C d (db_devices (w_db w))) (er_status r) (er_reply r)) (\<lambda>_ _. False) w"
  unfolding serve_release_def answer_or_wp
proof (rule wp_mono [OF ListReleasesForKind_wp], goal_cases)
  case (1 rs u)
  let ?mine = "filter (\<lambda>r. fl_TenantID r = dv_TenantID d \<and> fl_Kind r = dv_Kind d) (dd_releases (db_devices (w_db w)))"
  from 1 have u: "plane_kept w u" and rs: "rs = rev (sort_key (\<lambda>r. (fl_CreatedAt r, fl_ID r)) ?mine)"
    by (auto intro: plane_kept_intros)
  show ?case
  proof (cases "SelectRelease C rs d")
    case None
    then show ?thesis using u by (simp add: wp_ret)
  next
    case (Some release)
    note newest = newest_release [OF Some [unfolded rs]]
    have served: "release_served X A C d (db_devices (w_db w)) m"
      if "SignManifest (SignPayload (x_crypto X) C (ap_ManifestKey A)) (release_manifest d release now) (ap_ManifestKeyID A) = Inr m" for m now
      unfolding release_served_def using newest that by (intro exI [of _ release] exI [of _ now]) auto
    show ?thesis
      unfolding Some option.case wp_bind wp_clock
      using u by (auto simp: wp_simps split: sum.split intro!: wp_mono [OF audit_plane] dest: served)
  qed
next
  case (2 e u)
  then show ?case by (auto intro: plane_kept_intros)
qed

lemma serveFirmware_wp:
  "wp (serveFirmware X A C dev header)
     (\<lambda>r w'. plane_kept w w' \<and> firmware_answer (firmware_served X A C dev header (db_devices (w_db w))) (er_status r) (er_reply r)) (\<lambda>_ _. False) w"
proof (cases "deviceAuthorization header")
  case None
  then show ?thesis by (simp add: serveFirmware_def wp_ret)
next
  case (Some jws)
  show ?thesis
    unfolding serveFirmware_def Some option.case answer_or_wp
  proof (rule wp_mono [OF Verifier_VerifyProof_wp], goal_cases)
    case (1 vd v)
    then have v: "plane_kept w v" "w_db v = w_db w" and proven: "proof_proven X (ap_Verifier A) C jws ProofActionFirmware (db_devices (w_db w)) vd"
      by (simp_all add: plane_kept_intros(1)) (simp add: admitted_def)
    have answer: "firmware_answer (firmware_served X A C dev header (db_devices (w_db w))) n r"
      if "firmware_answer (release_served X A C (vd_Device vd) (db_devices (w_db w))) n r" "dv_ID (vd_Device vd) = dev" for n r
      using that Some proven by (cases r) (auto simp: firmware_served_def)
    show ?case
    proof (cases "dv_ID (vd_Device vd) = dev")
      case True
      have "wp (serve_release X A C dev (vd_Device vd))
         (\<lambda>r w'. plane_kept w w' \<and> firmware_answer (firmware_served X A C dev header (db_devices (w_db w))) (er_status r) (er_reply r)) (\<lambda>_ _. False) v"
        by (rule wp_mono [OF serve_release_wp]) (simp_all add: v(2) answer True plane_kept_trans [OF v(1)])
      with True show ?thesis by simp
    next
      case False
      with v show ?thesis by (simp add: wp_ret)
    qed
  next
    case (2 e v)
    then show ?case by (auto dest: plane_kept_intros(3))
  qed
qed

lemma serveMQTTAuth_wp:
  "wp (serveMQTTAuth X A C (Posted body))
     (\<lambda>r w'. plane_kept w w' \<and> (\<exists>allow. r = writeDeviceJSON 200 (RMqtt allow False)
        \<and> (allow \<longrightarrow> (\<exists>vd. proof_proven X (ap_Verifier A) C (mqtt_proof (bm_Password body)) ProofActionMQTTAuth (db_devices (w_db w)) vd
             \<and> dv_ID (vd_Device vd) = bm_ClientID body)))) (\<lambda>_ _. False) w"
proof -
  have deny: "wp mqtt_deny (\<lambda>r w'. plane_kept w w' \<and> r = writeDeviceJSON 200 (RMqtt False False)) (\<lambda>_ _. False) v"
    if "plane_kept w v" for v
    using that by (simp add: mqtt_deny_def wp_simps)
  have checked: "wp (bindA (attempt (Verifier_VerifyProof X (ap_Verifier A) C (mqtt_proof (bm_Password body)) ProofActionMQTTAuth)) (\<lambda>r. case r of
       Inl e \<Rightarrow> mqtt_deny
     | Inr verified \<Rightarrow>
         if dv_ID (vd_Device verified) \<noteq> bm_ClientID body then mqtt_deny
         else seqA (count ''geo_device_mqtt_auth_total'' ''allow'') (ret (writeDeviceJSON 200 (RMqtt True False)))))
     (\<lambda>r w'. plane_kept w w' \<and> (\<exists>allow. r = writeDeviceJSON 200 (RMqtt allow False)
        \<and> (allow \<longrightarrow> (\<exists>vd. proof_proven X (ap_Verifier A) C (mqtt_proof (bm_Password body)) ProofActionMQTTAuth (db_devices (w_db w)) vd
             \<and> dv_ID (vd_Device vd) = bm_ClientID body)))) (\<lambda>_ _. False) w"
    unfolding wp_bind wp_attempt
  proof (rule wp_mono [OF Verifier_VerifyProof_wp], goal_cases)
    case (1 vd v)
    then have v: "plane_kept w v" by (simp add: plane_kept_intros(1))
    show ?case
    proof (cases "dv_ID (vd_Device vd) = bm_ClientID body")
      case True
      with 1 v show ?thesis by (auto simp: wp_simps)
    next
      case False
      then show ?thesis by (auto intro: wp_mono [OF deny [OF v]])
    qed
  next
    case (2 e v)
    show ?case unfolding sum.case by (rule wp_mono [OF deny [OF plane_kept_intros(3) [OF 2]]]) auto
  qed
  show ?thesis
    unfolding serveMQTTAuth_def decodeJSON_def posted.case wp_if
    using checked by (auto intro: wp_mono [OF deny])
qed

definition activated :: "device_codec \<Rightarrow> activateRequestBody \<Rightarrow> device_db \<Rightarrow> device_db \<Rightarrow> string \<Rightarrow> bool" where
  "activated C b s s' dev \<longleftrightarrow>
     (\<exists>raw r. base64_decode (trim_space (ba_ActivationSecret b)) = Some raw \<and> length raw = 32
        \<and> r \<in> set (dd_requests s) \<and> consumable (ba_RequestID b) (dc_sha256 C raw) r \<and> rq_DeviceID (rr_Request r) = Some dev
        \<and> dd_requests s' = replace_row req_id (consume_row r) (dd_requests s))"

lemma activate_wp:
  assumes "devices_inv (db_devices (w_db w))"
  shows "wp (activate X C (Posted b))
     (\<lambda>r w'. w_kafka w' = w_kafka w \<and> (case er_reply r of
         RConsumed dev \<Rightarrow> er_status r = 200 \<and> activated C b (db_devices (w_db w)) (db_devices (w_db w')) dev
       | RError msg \<Rightarrow> er_status r \<in> {409, 500} \<and> w_db w' = w_db w
       | _ \<Rightarrow> False)) (\<lambda>_ _. False) w"
  unfolding activate_def decodeJSON_def posted.case wp_bind wp_attempt
proof (rule wp_mono [OF ConsumeActivation_wp [OF assms]], goal_cases)
  case (1 dev v)
  then have kafka: "w_kafka v = w_kafka w" by (auto dest: tables_only_kafka)
  from 1 have act: "activated C b (db_devices (w_db w)) (db_devices (w_db v)) dev"
    unfolding activated_def by auto
  show ?case
    unfolding sum.case wp_seq wp_count wp_ret
    by (rule wp_mono [OF audit_ledgered]) (use kafka act in \<open>auto simp: ledgered_def activated_def\<close>)
next
  case (2 e v)
  then show ?case using kept_world [of w v] by (simp add: wp_simps)
qed

text \<open>A malformed body is a 400 and nothing else.\<close>

lemma bad_body_wp: "(\<forall>x. b \<noteq> Posted x) \<Longrightarrow> wp (decodeJSON b k) (\<lambda>r w'. w' = w \<and> er_status r = 400 \<and> (\<exists>m. er_reply r = RError m)) E w"
  by (cases b) (simp_all add: decodeJSON_def wp_ret)

section \<open>Properties of the device endpoints\<close>

text \<open>What each endpoint of the device plane may do.\<close>

fun acted :: "externals \<Rightarrow> API \<Rightarrow> device_codec \<Rightarrow> device_route \<Rightarrow> world \<Rightarrow> device_response \<Rightarrow> world \<Rightarrow> bool" where
  "acted X A C (PostTelemetry dev (Some body)) w r w' \<longleftrightarrow>
     ledgered w w' \<and> telemetry_outcome X A C dev body w w' (er_status r) (er_reply r)"
| "acted X A C (GetFirmware dev header) w r w' \<longleftrightarrow>
     plane_kept w w' \<and> firmware_answer (firmware_served X A C dev header (db_devices (w_db w))) (er_status r) (er_reply r)"
| "acted X A C (PostMqttAuth (Posted b)) w r w' \<longleftrightarrow>
     plane_kept w w' \<and> (\<exists>allow. r = writeDeviceJSON 200 (RMqtt allow False)
        \<and> (allow \<longrightarrow> (\<exists>vd. proof_proven X (ap_Verifier A) C (mqtt_proof (bm_Password b)) ProofActionMQTTAuth (db_devices (w_db w)) vd
             \<and> dv_ID (vd_Device vd) = bm_ClientID b)))"
| "acted X A C (PostActivate (Posted b)) w r w' \<longleftrightarrow>
     w_kafka w' = w_kafka w \<and> (case er_reply r of
         RConsumed dev \<Rightarrow> er_status r = 200 \<and> activated C b (db_devices (w_db w)) (db_devices (w_db w')) dev
       | RError msg \<Rightarrow> er_status r \<in> {409, 500} \<and> w_db w' = w_db w
       | _ \<Rightarrow> False)"
| "acted X A C _ w r w' \<longleftrightarrow> er_status r = 400 \<and> w' = w"

lemma device_handle_wp:
  assumes "devices_inv (db_devices (w_db w))" "ap_Events A = PublishSignedEnvelope Y P"
  shows "wp (device_handle X A C route) (acted X A C route w) (\<lambda>_ _. False) w"
proof (cases route)
  case (PostTelemetry dev b)
  show ?thesis
  proof (cases b)
    case None
    then show ?thesis using PostTelemetry by (simp add: ingestTelemetry_def wp_ret)
  next
    case (Some body)
    show ?thesis
      unfolding PostTelemetry Some device_handle.simps by (rule wp_mono [OF ingestTelemetry_wp [OF assms(2)]]) simp_all
  qed
next
  case (GetFirmware dev h)
  show ?thesis
    unfolding GetFirmware device_handle.simps by (rule wp_mono [OF serveFirmware_wp]) simp_all
next
  case (PostMqttAuth b)
  show ?thesis
  proof (cases b)
    case (Posted x)
    show ?thesis
      unfolding PostMqttAuth Posted device_handle.simps by (rule wp_mono [OF serveMQTTAuth_wp]) simp_all
  qed (use PostMqttAuth in \<open>simp_all add: serveMQTTAuth_def decodeJSON_def wp_ret\<close>)
next
  case (PostActivate b)
  show ?thesis
  proof (cases b)
    case (Posted x)
    show ?thesis
      unfolding PostActivate Posted device_handle.simps by (rule wp_mono [OF activate_wp [OF assms(1)]]) simp_all
  qed (use PostActivate in \<open>simp_all add: activate_def decodeJSON_def wp_ret\<close>)
qed

text \<open>
  C5. The endpoints outside the platform authenticator act only for what was proven to them, and every request is
  answered. Telemetry answered \<^emph>\<open>published\<close> was proven to come from the active device of the path under a usable
  key, carries a supported contract, and put exactly one service-signed event on the topic, with the device, type
  and time of the envelope as correlation; answered \<^emph>\<open>dead-lettered\<close> it was proven and is at most one dead
  letter; answered with an error it published no event. A manifest is served only for a proof of the firmware
  action by the device of the path, and is the newest release of its tenant and kind whose rollout reaches it. The
  broker is told to allow only a client that proved to be that device, and never as superuser. An activation
  consumed the approved request whose secret was presented. No table but the ledger moves otherwise.
\<close>

theorem device_endpoints_authenticated:
  assumes "device_handle X A C route w = (w', res)" "devices_inv (db_devices (w_db w))" "ap_Events A = PublishSignedEnvelope Y P"
  shows "\<exists>resp. res = Inr resp \<and> acted X A C route w resp w'"
proof (cases res)
  case (Inl e)
  from wp_Inl [OF device_handle_wp [OF assms(2,3)] assms(1) [unfolded Inl]] show ?thesis ..
next
  case (Inr resp)
  from wp_Inr [OF device_handle_wp [OF assms(2,3)] assms(1) [unfolded Inr]] Inr show ?thesis by simp
qed

definition sample_api :: "externals \<Rightarrow> API" where
  "sample_api X = \<lparr>ap_Verifier = \<lparr>vf_Grace = 1\<rparr>, ap_Events = PublishSignedEnvelope X sample_pipeline, ap_DeadLetters = sample_producer,
     ap_ManifestKey = sample_key, ap_ManifestKeyID = ''svc-1'', ap_Grace = 1\<rparr>"

definition fleet_admin :: Principal where
  "fleet_admin = \<lparr>pn_Subject = ''checker'', pn_Roles = {''geo-device-admin''}, pn_Clearance = ''PUBLIC'', pn_TenantID = ''t''\<rparr>"

lemma sample_activate_request:
  "case device_handle calm (sample_api calm) sample_codec
      (PostActivate (Posted \<lparr>ba_RequestID = ''r1'', ba_ActivationSecret = sample_secret_text\<rparr>)) approved_world of
     (w', Inr r) \<Rightarrow> er_reply r = RConsumed ''d1''
   | (w', Inl e) \<Rightarrow> False"
  by code_simp

lemma sample_approval:
  "case admin_handle calm (sample_api calm) sample_codec (Inr fleet_admin) (PostProvisionApprove ''r1'') (device_world [pending_row]) of
     (w', Inr r) \<Rightarrow> er_status r = 200
   | (w', Inl e) \<Rightarrow> False"
  by code_simp

theorem device_endpoints_authenticated_witness:
  "\<exists>w' :: world. activated sample_codec \<lparr>ba_RequestID = ''r1'', ba_ActivationSecret = sample_secret_text\<rparr>
     (db_devices (w_db approved_world)) (db_devices (w_db w')) ''d1''"
proof -
  let ?r = "PostActivate (Posted \<lparr>ba_RequestID = ''r1'', ba_ActivationSecret = sample_secret_text\<rparr>)"
  obtain w' r where run: "device_handle calm (sample_api calm) sample_codec ?r approved_world = (w', Inr r)" "er_reply r = RConsumed ''d1''"
    using sample_activate_request by (auto split: prod.splits sum.splits)
  have wired: "ap_Events (sample_api calm) = PublishSignedEnvelope calm sample_pipeline" by (simp add: sample_api_def)
  from device_endpoints_authenticated [OF run(1) approved_world_inv wired] run(2) show ?thesis
    by (intro exI [of _ w']) auto
qed

theorem device_requests_authorised_witness:
  "\<exists>w'. stepped ''t'' (device_world [pending_row]) w'"
proof -
  obtain w' r where run: "admin_handle calm (sample_api calm) sample_codec (Inr fleet_admin) (PostProvisionApprove ''r1'')
      (device_world [pending_row]) = (w', Inr r)" "er_status r = 200"
    using sample_approval by (auto split: prod.splits sum.splits)
  from device_requests_authorised [OF run(1) device_world_inv] run(2) show ?thesis
    by (auto simp: administered_def succeeded_def fleet_admin_def)
qed

text \<open>
  A manifest the firmware endpoint serves verifies under the public key of the service, so a device that holds
  that key accepts exactly what the service registered.
\<close>

theorem served_manifest_verifies:
  assumes "serveFirmware X A C dev header w = (w', Inr resp)" "er_reply resp = RManifest m"
    and "device_laws (x_crypto X) C (ap_ManifestKey A) (ap_ManifestKeyID A)"
  shows "VerifyManifest (x_crypto X) C m (cr_public (x_crypto X) (ap_ManifestKey A)) (ap_ManifestKeyID A) = None \<and> mf_DeviceID m = dev"
proof -
  from wp_Inr [OF serveFirmware_wp assms(1)] assms(2) have "firmware_served X A C dev header (db_devices (w_db w)) m" by simp
  then obtain d release now where dev: "dv_ID d = dev"
    and m: "SignManifest (SignPayload (x_crypto X) C (ap_ManifestKey A)) (release_manifest d release now) (ap_ManifestKeyID A) = Inr m"
    unfolding firmware_served_def release_served_def by blast
  let ?m = "release_manifest d release now"
  have blank: "?m\<lparr>mf_Signature := []\<rparr> = ?m" by (simp add: release_manifest_def)
  from m obtain sig where sig: "SignPayload (x_crypto X) C (ap_ManifestKey A) (ap_ManifestKeyID A) (manifest_json ?m) = Inr sig"
    and m': "m = ?m\<lparr>mf_Signature := sig\<rparr>"
    unfolding SignManifest_def blank by (auto split: sum.splits)
  from verifyJWS_SignPayload [OF assms(3) sig] show ?thesis
    unfolding VerifyManifest_def m' using dev by (auto simp: blank release_manifest_def)
qed

lemma wp_trivial: "wp m (\<lambda>_ _. True) (\<lambda>_ _. True) w"
  by (simp add: wp_def split: prod.split sum.split)

text \<open>
  C38. A dead letter can be lost without a trace. The telemetry decoder reads one JSON value and ignores what follows
  it, while the dead-letter record embeds the whole body, which then cannot be encoded: an authentic envelope
  with an unsupported payload and bytes after it is answered \<^emph>\<open>dead-lettered\<close>, although nothing is published,
  nothing but the successful authentication is counted and no ledger row is written.
\<close>

theorem dead_letter_lost:
  assumes "ingestTelemetry X A C dev (Some body) w = (w', Inr resp)" "er_reply resp = RDeadLettered reason" "\<not> dc_valid C body"
  shows "er_status resp = 202 \<and> w_kafka w' = w_kafka w \<and> w_db w' = w_db w \<and> w_metrics w' = w_metrics w @ [(''geo_device_auth_total'', ''ok'')]"
proof -
  have "wp (ingestTelemetry X A C dev (Some body))
     (\<lambda>r w'. \<forall>reason. er_reply r = RDeadLettered reason \<longrightarrow> er_status r = 202 \<and> admitted w w') (\<lambda>_ _. True) w"
    unfolding ingestTelemetry_def option.case wp_bind wp_attempt
  proof (rule wp_mono [OF VerifyTelemetry_wp], goal_cases)
    case (1 verified v)
    then have v: "admitted w v" by simp
    have "wp (deadLetter X A C dev r body) (\<lambda>_. admitted w) (\<lambda>_ _. True) v" for r
      by (rule wp_mono [OF deadLetter_wp]) (use assms(3) v in \<open>auto simp: dead_letter_done_def undisturbed_def admitted_def\<close>)
    then show ?case
      by (auto simp: wp_simps forwardTelemetry_def answer_or_wp split: option.split intro!: wp_trivial elim: wp_mono)
  next
    case (2 e v)
    then show ?case by (auto simp: wp_simps split: option.split intro!: wp_trivial)
  qed
  from wp_Inr [OF this assms(1)] assms(2) show ?thesis by (simp add: admitted_def)
qed

definition trailing_codec :: device_codec where
  "trailing_codec = telemetry_codec\<lparr>dc_valid := \<lambda>s. False\<rparr>"

lemma trailing_accepted:
  "wp (VerifyTelemetry calm \<lparr>vf_Grace = 1\<rparr> trailing_codec ''d1'' ''raw'') (\<lambda>r _. fst r = signed_envelope) (\<lambda>_ _. False) active_world"
proof -
  let ?k = "\<lparr>ky_DeviceID = ''d1'', ky_Epoch = 1, ky_PublicKey = take 32 sample_key, ky_Status = KeyCurrent, ky_RotatedAt = 0\<rparr>"
  have laws: "device_laws (x_crypto calm) trailing_codec sample_key kid" for kid
    using sample_device_laws [of kid] by (simp add: device_laws_def telemetry_codec_def trailing_codec_def calm_def)
  have header: "dc_header trailing_codec = dc_header telemetry_codec" by (simp add: trailing_codec_def)
  have sign: "SignEnvelope sample_crypto trailing_codec sk e = SignEnvelope sample_crypto telemetry_codec sk e" for sk e
    unfolding SignEnvelope_def SignPayload_def header ..
  have "wp (VerifyTelemetry calm \<lparr>vf_Grace = 1\<rparr> trailing_codec (dv_ID sample_device) ''raw'')
     (\<lambda>r _. r = (signed_envelope, \<lparr>vd_Device = sample_device, vd_KeyEpoch = de_KeyEpoch signed_envelope\<rparr>)) (\<lambda>_ _. False) active_world"
    by (rule signed_telemetry_wp [OF active_world_inv _ _ _ _ _ _ _ laws, where k = ?k and e = sample_device_envelope])
      (use signed_envelope_facts sign in \<open>auto simp: active_world_def sample_device_def sample_device_envelope_def telemetry_codec_def
         trailing_codec_def calm_def sample_crypto_def\<close>)
  then show ?thesis by (auto simp: sample_device_def elim: wp_mono)
qed

theorem dead_letter_lost_witness:
  "\<exists>w' resp. ingestTelemetry calm (sample_api calm) trailing_codec ''d1'' (Some ''raw'') active_world = (w', Inr resp)
     \<and> er_reply resp = RDeadLettered ReasonPayloadUnsupported \<and> w_kafka w' = w_kafka active_world \<and> w_db w' = w_db active_world"
proof -
  have v: "ap_Verifier (sample_api calm) = \<lparr>vf_Grace = 1\<rparr>" by (simp add: sample_api_def)
  have none: "supported trailing_codec signed_envelope = None"
    by (simp add: supported_def trailing_codec_def telemetry_codec_def sample_codec_def)
  have "wp (ingestTelemetry calm (sample_api calm) trailing_codec ''d1'' (Some ''raw''))
     (\<lambda>r _. er_reply r = RDeadLettered ReasonPayloadUnsupported) (\<lambda>_ _. False) active_world"
    unfolding ingestTelemetry_def option.case wp_bind wp_attempt v
    by (rule wp_mono [OF trailing_accepted])
      (auto simp: none wp_seq wp_ret intro!: wp_mono [OF deadLetter_wp])
  then obtain w' resp where run: "ingestTelemetry calm (sample_api calm) trailing_codec ''d1'' (Some ''raw'') active_world = (w', Inr resp)"
    "er_reply resp = RDeadLettered ReasonPayloadUnsupported"
    by (auto simp: wp_def split: prod.splits sum.splits)
  have "\<not> dc_valid trailing_codec ''raw''" by (simp add: trailing_codec_def)
  from dead_letter_lost [OF run this] run show ?thesis by blast
qed

end
