(* ===== verification/Mrv_Math.thy ===== *)
theory Mrv_Math
  imports Geo_Prelude Complex_Main
begin

text \<open>
  The arithmetic of the emissions module: AIS-derived activity (\<open>internal/mrv/activity.go\<close>), emission factors
  (\<open>internal/mrv/factors.go\<close>), the carbon-intensity indicator (\<open>internal/mrv/cii.go\<close>) and the allocation of fuel
  to a voyage (\<open>internal/mrv/voyage_emissions.go\<close>).

  A \<open>uint64\<close> is an integer with its wrap-around written out. The few floating-point steps are exact real
  arithmetic. Instants and durations are nanoseconds.
\<close>

section \<open>Activity\<close>

record ActivityParams =
  ac_SogThresholdMilliknots :: int
  ac_SegmentGap :: int
  ac_MinCoveragePermille :: int

definition DefaultActivityParams :: ActivityParams where
  "DefaultActivityParams =
     \<lparr>ac_SogThresholdMilliknots = 1000, ac_SegmentGap = 2 * 3600 * second, ac_MinCoveragePermille = 500\<rparr>"

definition ActivityParams_Validate :: "ActivityParams \<Rightarrow> string option" where
  "ActivityParams_Validate p =
     (if ac_SogThresholdMilliknots p = 0 then Some ''AIS under-way SOG threshold must be positive''
      else if ac_SegmentGap p \<le> 0 \<or> ac_SegmentGap p > 24 * 3600 * second then Some ''AIS segmentation gap must be in (0, 24h]''
      else if ac_MinCoveragePermille p = 0 \<or> ac_MinCoveragePermille p > 1000
      then Some ''AIS minimum coverage must be in (0, 1000] permille''
      else None)"

record ActivityFix =
  fx_ObservedAt :: int
  fx_LatMicros :: int
  fx_LonMicros :: int
  fx_SogMilliknots :: int

record ActivityEstimate =
  es_DistanceNmMilli :: int
  es_HoursUnderwayMinutes :: int
  es_InsufficientCoverage :: bool
  es_FixCount :: nat
  es_InputDigestSha256 :: string

text \<open>\<open>math.Round\<close> of a non-negative number.\<close>

definition round_nonneg :: "real \<Rightarrow> int" where
  "round_nonneg x = \<lfloor>x + 1 / 2\<rfloor>"

definition micro_radians :: "int \<Rightarrow> real" where
  "micro_radians micros = real_of_int micros / 1000000 * pi / 180"

definition greatCircleMetres :: "int \<Rightarrow> int \<Rightarrow> int \<Rightarrow> int \<Rightarrow> real" where
  "greatCircleMetres latMicrosA lonMicrosA latMicrosB lonMicrosB =
     (let latA = micro_radians latMicrosA; latB = micro_radians latMicrosB;
          dLat = latB - latA; dLon = micro_radians lonMicrosB - micro_radians lonMicrosA;
          h = sin (dLat / 2) * sin (dLat / 2) + cos latA * cos latB * sin (dLon / 2) * sin (dLon / 2)
      in 2 * 6371008.8 * arcsin (min 1 (sqrt h)))"

definition greatCircleMilliNM :: "int \<Rightarrow> int \<Rightarrow> int \<Rightarrow> int \<Rightarrow> int" where
  "greatCircleMilliNM latMicrosA lonMicrosA latMicrosB lonMicrosB =
     round_nonneg (greatCircleMetres latMicrosA lonMicrosA latMicrosB lonMicrosB / 1.852 * 1000)"

text \<open>The digest of the rendered fixes is an argument; so is the rendering of an instant to the second.\<close>

definition digestFixes :: "(string \<Rightarrow> string) \<Rightarrow> (int \<Rightarrow> string) \<Rightarrow> ActivityFix list \<Rightarrow> string" where
  "digestFixes sha rfc3339 fixes =
     ''sha256:'' @ sha (concat (map (\<lambda>f. rfc3339 (fx_ObservedAt f) @ ''|'' @ show_int (fx_LatMicros f) @ ''|''
        @ show_int (fx_LonMicros f) @ ''|'' @ show_int (fx_SogMilliknots f) @ [CHR 0x0A]) fixes))"

text \<open>
  The loop over consecutive fixes: the index, the start of the current segment and the two sums. A gap is at most
  a day here, so its seconds are its whole seconds.
\<close>

fun underway_loop :: "ActivityParams \<Rightarrow> nat \<Rightarrow> nat \<Rightarrow> ActivityFix \<Rightarrow> ActivityFix list \<Rightarrow> int \<Rightarrow> int \<Rightarrow> int \<times> int" where
  "underway_loop params i segmentStart previous [] distance seconds = (distance, seconds)"
| "underway_loop params i segmentStart previous (current # rest) distance seconds =
     (let gap = time_sub (fx_ObservedAt current) (fx_ObservedAt previous) in
      if gap > ac_SegmentGap params then underway_loop params (Suc i) i current rest distance seconds
      else if gap \<le> 0 then underway_loop params (Suc i) segmentStart current rest distance seconds
      else if i = segmentStart then underway_loop params (Suc i) segmentStart current rest distance seconds
      else if fx_SogMilliknots current < ac_SogThresholdMilliknots params
      then underway_loop params (Suc i) segmentStart current rest distance seconds
      else underway_loop params (Suc i) segmentStart current rest
        (wrap_uint64 (distance + greatCircleMilliNM (fx_LatMicros previous) (fx_LonMicros previous)
           (fx_LatMicros current) (fx_LonMicros current)))
        (wrap_int64 (seconds + gap div second)))"

text \<open>\<open>PanicDivide\<close> is the run-time panic of an integer division by zero.\<close>

datatype activity_error = PeriodOrder | BadParams string | PanicDivide

definition millis :: "int \<Rightarrow> int" where
  "millis d = quot d 1000000"

definition EstimateActivity ::
  "(string \<Rightarrow> string) \<Rightarrow> (int \<Rightarrow> string) \<Rightarrow> ActivityFix list \<Rightarrow> int \<Rightarrow> int \<Rightarrow> ActivityParams \<Rightarrow> activity_error + ActivityEstimate" where
  "EstimateActivity sha rfc3339 fixes t1 t2 params =
     (if \<not> t1 < t2 then Inl PeriodOrder
      else case ActivityParams_Validate params of
        Some e \<Rightarrow> Inl (BadParams e)
      | None \<Rightarrow>
          (let estimate = \<lparr>es_DistanceNmMilli = 0, es_HoursUnderwayMinutes = 0, es_InsufficientCoverage = False,
                           es_FixCount = length fixes, es_InputDigestSha256 = digestFixes sha rfc3339 fixes\<rparr>
           in case fixes of
             f # g # rest \<Rightarrow>
               (let observedSpan = time_sub (fx_ObservedAt (last fixes)) (fx_ObservedAt f);
                    periodSpan = time_sub t2 t1
                in if periodSpan > 0 \<and> millis periodSpan = 0 then Inl PanicDivide
                   else
                     (let coverage = (if periodSpan > 0 then quot (millis observedSpan * 1000) (millis periodSpan) else 0)
                      in if coverage < ac_MinCoveragePermille params
                         then Inr (estimate\<lparr>es_InsufficientCoverage := True\<rparr>)
                         else (case underway_loop params 1 0 f (g # rest) 0 0 of
                           (distance, seconds) \<Rightarrow>
                             Inr (estimate\<lparr>es_DistanceNmMilli := distance,
                                           es_HoursUnderwayMinutes := wrap_uint64 (quot seconds 60)\<rparr>))))
           | _ \<Rightarrow> Inr (estimate\<lparr>es_InsufficientCoverage := True\<rparr>)))"

datatype CrosscheckResult =
    CrosscheckMatch
  | CrosscheckDiscrepant
  | CrosscheckInsufficientCoverage
  | CrosscheckNoReportedValues

definition within_tolerance :: "int \<Rightarrow> int \<Rightarrow> int \<Rightarrow> bool" where
  "within_tolerance tolerancePermille reported estimated \<longleftrightarrow>
     (if reported = 0 then estimated = 0
      else let delta = (if estimated > reported then estimated - reported else reported - estimated)
           in wrap_uint64 (delta * 1000) \<le> wrap_uint64 (reported * tolerancePermille))"

definition Crosscheck :: "ActivityEstimate \<Rightarrow> int \<Rightarrow> int \<Rightarrow> int \<Rightarrow> CrosscheckResult" where
  "Crosscheck estimate reportedDistanceNmMilli reportedHoursMinutes tolerancePermille =
     (if es_InsufficientCoverage estimate then CrosscheckInsufficientCoverage
      else if reportedDistanceNmMilli = 0 \<and> reportedHoursMinutes = 0 then CrosscheckNoReportedValues
      else if within_tolerance tolerancePermille reportedDistanceNmMilli (es_DistanceNmMilli estimate)
           \<and> within_tolerance tolerancePermille reportedHoursMinutes (es_HoursUnderwayMinutes estimate)
      then CrosscheckMatch else CrosscheckDiscrepant)"

section \<open>Emission factors\<close>

record FactorRow =
  fa_FactorKey :: string
  fa_Gas :: string
  fa_FactorNano :: int
  fa_Unit :: string
  fa_SourceCitation :: string
  fa_ValidFrom :: int

definition max_uint64 :: int where
  "max_uint64 = 2 ^ 64 - 1"

definition nano_unit :: int where
  "nano_unit = 1000000000"

lemma max_uint64_eq: "max_uint64 = 18446744073709551615"
  by (simp add: max_uint64_def)

datatype factor_error = FactorZero | FactorOverflow

definition CO2MilliTonnes :: "int \<Rightarrow> int \<Rightarrow> factor_error + int" where
  "CO2MilliTonnes fuelTonnesMilli factorNano =
     (if factorNano = 0 then Inl FactorZero
      else if fuelTonnesMilli > max_uint64 div factorNano then Inl FactorOverflow
      else Inr (wrap_uint64 (fuelTonnesMilli * factorNano) div nano_unit))"

text \<open>A date is its day number; \<open>iso_date\<close> renders it.\<close>

definition factor_line :: "(int \<Rightarrow> string) \<Rightarrow> FactorRow \<Rightarrow> string" where
  "factor_line iso_date r =
     fa_FactorKey r @ ''|'' @ fa_Gas r @ ''|'' @ show_int (fa_FactorNano r) @ ''|'' @ fa_Unit r @ ''|''
     @ fa_SourceCitation r @ ''|'' @ iso_date (fa_ValidFrom r)"

definition FactorSetHash :: "(string \<Rightarrow> string) \<Rightarrow> (string list \<Rightarrow> string list) \<Rightarrow> (int \<Rightarrow> string) \<Rightarrow> FactorRow list \<Rightarrow> string" where
  "FactorSetHash sha sort_strings iso_date rows =
     ''sha256:'' @ sha (concat (map (\<lambda>line. line @ [CHR 0x0A]) (sort_strings (map (factor_line iso_date) rows))))"

section \<open>Fixed-point parameters\<close>

datatype nano_error = NanoEmpty | NanoNegative | NanoPlain | NanoDigits | NanoInvalid | NanoOverflow

text \<open>\<open>strings.Cut(text, ".")\<close>.\<close>

definition cut_dot :: "string \<Rightarrow> string \<times> string \<times> bool" where
  "cut_dot s =
     (let whole = takeWhile (\<lambda>c. c \<noteq> CHR ''.'') s; rest = dropWhile (\<lambda>c. c \<noteq> CHR ''.'') s
      in (whole, tl rest, rest \<noteq> []))"

definition parseNano :: "string \<Rightarrow> nano_error + int" where
  "parseNano raw =
     (let s = trim_space raw in
      if s = [] then Inl NanoEmpty
      else if hd s = CHR ''-'' then Inl NanoNegative
      else case cut_dot s of (whole0, fraction0, hasFraction) \<Rightarrow>
        (let whole = (if whole0 = [] then ''0'' else whole0) in
         if \<not> list_all is_digit whole then Inl NanoPlain
         else if hasFraction \<and> length fraction0 > 9 then Inl NanoDigits
         else
           (let fraction = fraction0 @ replicate (9 - length fraction0) CHR ''0'' in
            if \<not> list_all is_digit fraction then Inl NanoPlain
            else
              (let wholePart = int (read_nat whole); fractionPart = int (read_nat fraction) in
               if wholePart > max_uint64 then Inl NanoInvalid
               else if wholePart > (max_uint64 - fractionPart) div nano_unit then Inl NanoOverflow
               else Inr (wholePart * nano_unit + fractionPart)))))"

section \<open>The carbon-intensity indicator\<close>

record CIIShipTypeCfg =
  ct_CapacityField :: string
  ct_ReferenceLineANano :: string
  ct_ReferenceLineCNano :: string
  ct_ReductionFactorsZNano :: "(string \<times> string) list"
  ct_RatingBoundariesNano :: "string list"
  ct_Citation :: string

record CIIConfig =
  cg_Version :: string
  cg_ApprovedBy :: string
  cg_ApprovedAt :: string
  cg_Citation :: string
  cg_ShipTypes :: "(string \<times> CIIShipTypeCfg) list"

definition nano_ok :: "string \<Rightarrow> bool" where
  "nano_ok s \<longleftrightarrow> (case parseNano s of Inl _ \<Rightarrow> False | Inr _ \<Rightarrow> True)"

text \<open>\<open>x, _ := parseNano(text)\<close>.\<close>

definition nano_or_zero :: "string \<Rightarrow> int" where
  "nano_or_zero s = (case parseNano s of Inl _ \<Rightarrow> 0 | Inr v \<Rightarrow> v)"

fun boundaries_ascend :: "int option \<Rightarrow> string list \<Rightarrow> bool" where
  "boundaries_ascend previous [] = True"
| "boundaries_ascend previous (b # bs) =
     (case parseNano b of
        Inl _ \<Rightarrow> False
      | Inr v \<Rightarrow> (case previous of None \<Rightarrow> True | Some q \<Rightarrow> v > q) \<and> boundaries_ascend (Some v) bs)"

definition ship_type_ok :: "CIIShipTypeCfg \<Rightarrow> bool" where
  "ship_type_ok c \<longleftrightarrow>
     (ct_CapacityField c = ''DWT'' \<or> ct_CapacityField c = ''GT'')
     \<and> nano_ok (ct_ReferenceLineANano c) \<and> nano_ok (ct_ReferenceLineCNano c)
     \<and> ct_ReductionFactorsZNano c \<noteq> []
     \<and> list_all (\<lambda>(year, z). case parseNano z of Inl _ \<Rightarrow> False | Inr v \<Rightarrow> v < nano_unit) (ct_ReductionFactorsZNano c)
     \<and> length (ct_RatingBoundariesNano c) = 4
     \<and> boundaries_ascend None (ct_RatingBoundariesNano c)
     \<and> trim_space (ct_Citation c) \<noteq> []"

text \<open>
  The document a path leads to: no path, a file that does not read or decode, or the decoded document. The map of
  ship types is validated entry by entry; which entry's error is reported first is not determined.
\<close>

datatype cii_document = NoPath | BadDocument | Document CIIConfig

definition LoadCIIConfig :: "cii_document \<Rightarrow> string + CIIConfig option" where
  "LoadCIIConfig d =
     (case d of
        NoPath \<Rightarrow> Inr None
      | BadDocument \<Rightarrow> Inl ''CII config is not readable''
      | Document c \<Rightarrow>
          if trim_space (cg_Version c) = [] \<or> trim_space (cg_ApprovedBy c) = [] \<or> trim_space (cg_Citation c) = []
          then Inl ''CII config must carry version, approvedBy and citation''
          else if cg_ShipTypes c = [] then Inl ''CII config must configure at least one ship type''
          else if \<not> list_all (\<lambda>(t, e). ship_type_ok e) (cg_ShipTypes c) then Inl ''CII config ship type is invalid''
          else Inr (Some c))"

datatype rating = RatingA | RatingB | RatingC | RatingD | RatingE

definition below_boundary :: "int \<Rightarrow> int \<Rightarrow> int \<Rightarrow> bool" where
  "below_boundary attainedNano requiredNano multiplier \<longleftrightarrow> attainedNano \<le> (requiredNano * multiplier) div nano_unit"

fun rating_loop :: "int \<Rightarrow> int \<Rightarrow> rating list \<Rightarrow> int list \<Rightarrow> rating" where
  "rating_loop attained required (r # rs) (m # ms) =
     (if below_boundary attained required m then r else rating_loop attained required rs ms)"
| "rating_loop attained required _ _ = RatingE"

definition ciiRating :: "int \<Rightarrow> int \<Rightarrow> CIIShipTypeCfg \<Rightarrow> rating" where
  "ciiRating attainedNano requiredNano entry =
     rating_loop attainedNano requiredNano [RatingA, RatingB, RatingC, RatingD] (map nano_or_zero (ct_RatingBoundariesNano entry))"

datatype CIIOutcome =
    NotComputable string
  | Computed int int rating string string

definition requiredCII :: "int \<Rightarrow> int \<Rightarrow> int \<Rightarrow> int \<Rightarrow> real" where
  "requiredCII aNano cNano zNano capacity =
     (1 - real_of_int zNano / 1000000000) * (real_of_int aNano / 1000000000)
     * (real_of_int capacity powr (- (real_of_int cNano / 1000000000)))"

definition ComputeCII :: "CIIConfig option \<Rightarrow> string \<Rightarrow> int \<Rightarrow> int \<Rightarrow> int \<Rightarrow> int \<Rightarrow> int \<Rightarrow> CIIOutcome" where
  "ComputeCII config shipType gt dwt year co2TonnesMilli distanceNMMilli =
     (case config of
        None \<Rightarrow> NotComputable ''no operator-approved CII configuration is loaded''
      | Some cfg \<Rightarrow>
        (case map_of (cg_ShipTypes cfg) shipType of
           None \<Rightarrow> NotComputable ''ship type is not covered by the approved CII configuration''
         | Some entry \<Rightarrow>
           (case map_of (ct_ReductionFactorsZNano entry) (show_int year) of
              None \<Rightarrow> NotComputable ''calendar year is not covered by the approved CII configuration''
            | Some zText \<Rightarrow>
              (let capacity = (if ct_CapacityField entry = ''DWT'' then dwt else gt) in
               if capacity = 0 then NotComputable ''capacity datum is absent''
               else if distanceNMMilli = 0 then NotComputable ''distance travelled is zero''
               else
                 (let attained = (co2TonnesMilli * 1000000000000000) div (capacity * distanceNMMilli) in
                  if \<not> in_uint64 attained then NotComputable ''attained CII overflows the fixed-point range''
                  else
                    (let required = requiredCII (nano_or_zero (ct_ReferenceLineANano entry)) (nano_or_zero (ct_ReferenceLineCNano entry))
                                      (nano_or_zero zText) capacity in
                     if required \<le> 0 then NotComputable ''required CII is not computable from the configured parameters''
                     else
                       (let requiredNano = wrap_uint64 (round_nonneg (required * 1000000000)) in
                        Computed attained requiredNano (ciiRating attained requiredNano entry) (cg_Version cfg) (ct_Citation entry))))))))"

section \<open>Allocation to a voyage\<close>

definition allocateOverlap :: "int \<Rightarrow> int \<Rightarrow> int \<Rightarrow> int \<Rightarrow> int \<Rightarrow> int" where
  "allocateOverlap periodFrom periodTo windowFrom windowTo fuelTonnesMilli =
     (let start = (if windowFrom > periodFrom then windowFrom else periodFrom);
          finish = (if windowTo < periodTo then windowTo else periodTo);
          overlap = time_sub finish start;
          period = time_sub periodTo periodFrom
      in if overlap \<le> 0 \<or> period \<le> 0 then 0
         else wrap_uint64 ((fuelTonnesMilli * overlap) div period))"

section \<open>Facts\<close>

text \<open>Fuel times factor is exact or refused: no product that leaves the range is ever truncated.\<close>

lemma product_fits:
  fixes c m f :: int
  assumes "0 < c"
  shows "m div c < f \<longleftrightarrow> m < f * c"
proof
  assume "m div c < f"
  then have "(m div c + 1) * c \<le> f * c" using assms by (intro mult_right_mono) simp_all
  moreover have "m < (m div c + 1) * c"
    using div_mult_mod_eq [of m c] pos_mod_bound [OF assms, of m] by (simp only: distrib_right mult_1_left)
  ultimately show "m < f * c" by linarith
next
  assume less: "m < f * c"
  have "f * c \<le> m" if "f \<le> m div c"
    using mult_right_mono [OF that, of c] assms div_mult_mod_eq [of m c] pos_mod_sign [of c m] by linarith
  with less show "m div c < f" by linarith
qed

text \<open>
  C37. For any 64-bit fuel quantity and factor the emitted mass is exactly the product divided by a billion, rounded down; it is
  refused as an overflow exactly when the product leaves 64 bits, and a zero factor is refused.
\<close>

theorem CO2MilliTonnes_exact:
  assumes "in_uint64 fuel" "in_uint64 factor"
  shows "CO2MilliTonnes fuel factor =
    (if factor = 0 then Inl FactorZero
     else if fuel * factor > max_uint64 then Inl FactorOverflow
     else Inr (fuel * factor div nano_unit))"
proof (cases "factor = 0")
  case False
  with assms have "0 \<le> fuel" "0 < factor" by (simp_all add: in_uint64_def)
  moreover from this have "0 \<le> fuel * factor" by simp
  ultimately show ?thesis
    by (simp add: CO2MilliTonnes_def product_fits wrap_uint64_id max_uint64_def)
qed (simp add: CO2MilliTonnes_def)

subsection \<open>Allocation\<close>

definition overlap_of :: "int \<Rightarrow> int \<Rightarrow> int \<times> int \<Rightarrow> int" where
  "overlap_of periodFrom periodTo w = max 0 (min (snd w) periodTo - max (fst w) periodFrom)"

lemma overlap_of_bounds:
  assumes "pf < pt"
  shows "0 \<le> overlap_of pf pt w" "overlap_of pf pt w \<le> pt - pf"
  using assms by (auto simp: overlap_of_def)

lemma allocateOverlap_eq:
  assumes "pf < pt" "pt - pf < 9223372036854775808" "in_uint64 fuel"
  shows "allocateOverlap pf pt wa wb fuel = fuel * overlap_of pf pt (wa, wb) div (pt - pf)"
proof -
  let ?o = "overlap_of pf pt (wa, wb)"
  have fuel: "0 \<le> fuel" "fuel < 18446744073709551616" using assms(3) by (simp_all add: in_uint64_def)
  have "fuel * ?o \<le> fuel * (pt - pf)"
    using overlap_of_bounds [OF assms(1)] fuel by (intro mult_left_mono) auto
  then have "fuel * ?o div (pt - pf) \<le> fuel" using assms(1) zdiv_mono1 [of "fuel * ?o" "fuel * (pt - pf)" "pt - pf"] by simp
  moreover have "0 \<le> fuel * ?o div (pt - pf)"
    using fuel overlap_of_bounds(1) [OF assms(1)] assms(1) by (simp add: pos_imp_zdiv_nonneg_iff)
  ultimately have wrap: "wrap_uint64 (fuel * ?o div (pt - pf)) = fuel * ?o div (pt - pf)"
    using fuel by (intro wrap_uint64_id) linarith+
  have window: "(if wb < pt then wb else pt) = min wb pt" "(if wa > pf then wa else pf) = max wa pf" by simp_all
  have period: "time_sub pt pf = pt - pf" using assms(1,2) by (simp add: time_sub_def)
  show ?thesis
  proof (cases "0 < ?o")
    case True
    then have o: "min wb pt - max wa pf = ?o" by (simp add: overlap_of_def)
    have "time_sub (if wb < pt then wb else pt) (if wa > pf then wa else pf) = ?o"
      unfolding window o [symmetric] time_sub_def
      using True o overlap_of_bounds(2) [OF assms(1), of "(wa, wb)"] assms(2) by simp
    with True period assms(1) wrap show ?thesis by (simp add: allocateOverlap_def Let_def)
  next
    case False
    then have "?o = 0" using overlap_of_bounds(1) [OF assms(1), of "(wa, wb)"] by simp
    moreover from this have "min wb pt - max wa pf \<le> 0" by (simp add: overlap_of_def)
    then have "time_sub (if wb < pt then wb else pt) (if wa > pf then wa else pf) \<le> 0"
      unfolding window time_sub_def by simp
    ultimately show ?thesis by (simp add: allocateOverlap_def Let_def)
  qed
qed

text \<open>Windows one after the other, and windows that leave no time between them.\<close>

fun disjoint_from :: "int \<Rightarrow> (int \<times> int) list \<Rightarrow> bool" where
  "disjoint_from l [] = True"
| "disjoint_from l (w # ws) = (l \<le> fst w \<and> fst w \<le> snd w \<and> disjoint_from (snd w) ws)"

fun tiles :: "int \<Rightarrow> (int \<times> int) list \<Rightarrow> int \<Rightarrow> bool" where
  "tiles l [] r = (l = r)"
| "tiles l (w # ws) r = (l = fst w \<and> fst w \<le> snd w \<and> tiles (snd w) ws r)"

lemma tiles_disjoint: "tiles l ws r \<Longrightarrow> disjoint_from l ws"
  by (induction ws arbitrary: l) auto

lemma tiles_le: "tiles l ws r \<Longrightarrow> l \<le> r"
  by (induction ws arbitrary: l) force+

lemma disjoint_overlap:
  "disjoint_from l ws \<Longrightarrow> (\<Sum>w\<leftarrow>ws. overlap_of pf pt w) \<le> max 0 (pt - max l pf)"
proof (induction ws arbitrary: l)
  case (Cons w ws)
  then have "(\<Sum>w\<leftarrow>ws. overlap_of pf pt w) \<le> max 0 (pt - max (snd w) pf)" "l \<le> fst w" "fst w \<le> snd w" by auto
  then show ?case by (auto simp: overlap_of_def min_def max_def split: if_splits)
qed simp

lemma tiles_overlap:
  "tiles l ws r \<Longrightarrow> pt \<le> r \<Longrightarrow> l \<le> pt \<Longrightarrow> (\<Sum>w\<leftarrow>ws. overlap_of pf pt w) \<ge> pt - max l pf"
proof (induction ws arbitrary: l)
  case (Cons w ws)
  show ?case
  proof (cases "snd w \<le> pt")
    case True
    with Cons have "(\<Sum>w\<leftarrow>ws. overlap_of pf pt w) \<ge> pt - max (snd w) pf" "l = fst w" "fst w \<le> snd w" by auto
    with True show ?thesis by (auto simp: overlap_of_def min_def max_def split: if_splits)
  next
    case False
    have "0 \<le> (\<Sum>w\<leftarrow>ws. overlap_of pf pt w)" by (intro sum_list_nonneg) (auto simp: overlap_of_def)
    with False Cons.prems show ?thesis by (auto simp: overlap_of_def min_def max_def split: if_splits)
  qed
qed simp

lemma sum_div:
  fixes P :: int
  assumes "0 < P"
  shows "(\<Sum>x\<leftarrow>xs. g x div P) * P \<le> (\<Sum>x\<leftarrow>xs. g x)" 
    and "(\<Sum>x\<leftarrow>xs. g x) \<le> (\<Sum>x\<leftarrow>xs. g x div P) * P + int (length xs) * (P - 1)"
proof (induction xs)
  case (Cons x xs)
  have x: "g x = g x div P * P + g x mod P" "0 \<le> g x mod P" "g x mod P \<le> P - 1"
    using assms pos_mod_bound [OF assms, of "g x"] by simp_all
  have n: "int (length (x # xs)) * (P - 1) = P - 1 + int (length xs) * (P - 1)" by (simp add: distrib_right)
  case 1
  show ?case using Cons.IH(1) x unfolding list.map sum_list.Cons distrib_right by linarith
  case 2
  show ?case using Cons.IH(2) x n unfolding list.map sum_list.Cons distrib_right by linarith
qed simp_all

text \<open>
  However a ship's fuel period is cut into disjoint voyage windows, the shares allocated to them never
  add up to more than the reported fuel, and windows that cover the period leave less than one milli-tonne per
  voyage unallocated.
\<close>

theorem voyage_allocation_conserves_fuel:
  assumes "pf < pt" "pt - pf < 9223372036854775808" "in_uint64 fuel" "disjoint_from l ws"
  shows "(\<Sum>w\<leftarrow>ws. allocateOverlap pf pt (fst w) (snd w) fuel) \<le> fuel
    \<and> (ws \<noteq> [] \<and> tiles l ws r \<and> l \<le> pf \<and> pt \<le> r \<longrightarrow>
        fuel - (\<Sum>w\<leftarrow>ws. allocateOverlap pf pt (fst w) (snd w) fuel) < int (length ws))"
proof -
  let ?P = "pt - pf"
  let ?S = "\<Sum>w\<leftarrow>ws. fuel * overlap_of pf pt w div ?P"
  have P: "0 < ?P" "0 \<le> fuel" using assms by (simp_all add: in_uint64_def)
  have S: "(\<Sum>w\<leftarrow>ws. allocateOverlap pf pt (fst w) (snd w) fuel) = ?S"
    using assms by (simp add: allocateOverlap_eq)
  have total: "(\<Sum>w\<leftarrow>ws. fuel * overlap_of pf pt w) = fuel * (\<Sum>w\<leftarrow>ws. overlap_of pf pt w)"
    by (simp add: sum_list_const_mult)
  have "(\<Sum>w\<leftarrow>ws. overlap_of pf pt w) \<le> ?P"
    using disjoint_overlap [OF assms(4), of pf pt] assms(1) by (simp add: max_def split: if_splits)
  then have "?S * ?P \<le> fuel * ?P"
    using sum_div(1) [OF P(1), of "\<lambda>w. fuel * overlap_of pf pt w" ws] mult_left_mono [OF _ P(2)] unfolding total
    by (meson order_trans)
  then have le: "?S \<le> fuel" using P(1) by simp
  have "fuel - ?S < int (length ws)" if "ws \<noteq> []" "tiles l ws r" "l \<le> pf" "pt \<le> r"
  proof -
    have "?P \<le> (\<Sum>w\<leftarrow>ws. overlap_of pf pt w)" using tiles_overlap [OF that(2,4), of pf] that(3) assms(1) by simp
    then have "fuel * ?P \<le> fuel * (\<Sum>w\<leftarrow>ws. overlap_of pf pt w)" using P(2) by (rule mult_left_mono)
    then have "fuel * ?P \<le> ?S * ?P + int (length ws) * (?P - 1)"
      using sum_div(2) [OF P(1), of "\<lambda>w. fuel * overlap_of pf pt w" ws] unfolding total by linarith
    moreover have "0 < int (length ws)" using that(1) by simp
    moreover have "int (length ws) * (?P - 1) = int (length ws) * ?P - int (length ws)" by (simp add: right_diff_distrib)
    ultimately have "(fuel - ?S) * ?P < int (length ws) * ?P" unfolding left_diff_distrib [of fuel ?S ?P] by linarith
    then show ?thesis using P(1) mult_less_cancel_right_pos by blast
  qed
  with le S show ?thesis by simp
qed

theorem voyage_allocation_conserves_fuel_witness:
  "allocateOverlap 0 10 0 4 7 + allocateOverlap 0 10 4 10 7 \<le> 7
   \<and> 7 - (allocateOverlap 0 10 0 4 7 + allocateOverlap 0 10 4 10 7) < 2"
  using voyage_allocation_conserves_fuel [of 0 10 7 0 "[(0, 4), (4, 10)]" 10] by (simp add: in_uint64_def)

subsection \<open>Parameters and ratings\<close>

definition show_nano :: "int \<Rightarrow> string" where
  "show_nano v = show_nat (nat (v div nano_unit)) @ ''.'' @ show_padded 9 (nat (v mod nano_unit))"

lemma show_nat_length: "n < 10 ^ k \<Longrightarrow> 0 < k \<Longrightarrow> length (show_nat n) \<le> k"
proof (induction n arbitrary: k rule: show_nat.induct)
  case (1 n)
  show ?case
  proof (cases "n < 10")
    case False
    then obtain m where m: "k = Suc m" "0 < m" using 1(2,3) by (cases k; cases "k - 1") auto
    have "n div 10 < 10 ^ m" using 1(2) m by (simp add: div_less_iff_less_mult mult.commute)
    from 1(1) [OF False this m(2)] show ?thesis using False m by (subst show_nat.simps) simp
  qed (use 1 in \<open>subst show_nat.simps, simp\<close>)
qed

lemma show_padded_length: "n < 10 ^ k \<Longrightarrow> 0 < k \<Longrightarrow> length (show_padded k n) = k"
  using show_nat_length [of n k] by (simp add: show_padded_def Let_def)

lemma show_padded_digits: "c \<in> set (show_padded k n) \<Longrightarrow> is_digit c"
  using show_nat_digits [of n] by (auto simp: show_padded_def Let_def is_digit_def)

lemma digit_chars: "is_digit c \<Longrightarrow> \<not> is_space c" "is_digit c \<Longrightarrow> c \<noteq> CHR ''-''" "is_digit c \<Longrightarrow> c \<noteq> CHR ''.''"
  by (auto simp: is_digit_def is_space_def Let_def)

text \<open>
  A parameter written with all nine fractional digits is read back exactly over the whole range of a
  64-bit unsigned integer, and whatever is accepted lies in that range.
\<close>

theorem parseNano_roundtrip:
  "(in_uint64 v \<longrightarrow> parseNano (show_nano v) = Inr v) \<and> (parseNano s = Inr u \<longrightarrow> in_uint64 u)"
proof (intro conjI impI)
  assume v: "in_uint64 v"
  let ?w = "show_nat (nat (v div nano_unit))" and ?f = "show_padded 9 (nat (v mod nano_unit))"
  have f9: "length ?f = 9" by (rule show_padded_length) (simp_all add: nano_unit_def nat_less_iff)
  have fd: "is_digit c" if "c \<in> set ?f" for c using show_padded_digits that by blast
  have wd: "is_digit c" if "c \<in> set ?w" for c using show_nat_digits that by blast
  have ends: "is_digit (hd (show_nano v))" "is_digit (last (show_nano v))"
    unfolding show_nano_def using wd fd f9 by (auto simp: hd_append)
  then have trim: "trim_space (show_nano v) = show_nano v" by (intro trim_space_id) (auto dest: digit_chars)
  have plain: "takeWhile (\<lambda>c. c \<noteq> CHR ''.'') (show_nano v) = ?w" "dropWhile (\<lambda>c. c \<noteq> CHR ''.'') (show_nano v) = CHR ''.'' # ?f"
    unfolding show_nano_def using wd digit_chars(3) by (auto simp: takeWhile_append2 dropWhile_append2)
  have parts: "v = v div nano_unit * nano_unit + v mod nano_unit" "0 \<le> v mod nano_unit" "0 \<le> v div nano_unit"
    using v by (simp_all add: nano_unit_def in_uint64_def pos_imp_zdiv_nonneg_iff)
  then have "v div nano_unit * nano_unit \<le> max_uint64 - v mod nano_unit"
    using v max_uint64_eq unfolding in_uint64_def by linarith
  then have "\<not> (max_uint64 - v mod nano_unit) div nano_unit < v div nano_unit" "\<not> max_uint64 < v div nano_unit"
    using product_fits [of nano_unit "max_uint64 - v mod nano_unit" "v div nano_unit"] parts
    by (auto simp: nano_unit_def)
  moreover have "show_nano v \<noteq> []" "hd (show_nano v) \<noteq> CHR ''-''" using ends(1) digit_chars(2) by (auto simp: show_nano_def)
  ultimately show "parseNano (show_nano v) = Inr v"
    using wd fd f9 parts by (simp add: parseNano_def trim cut_dot_def plain list_all_iff)
next
  assume "parseNano s = Inr u"
  then obtain w f :: nat where "int f \<le> max_uint64 \<longrightarrow> \<not> int w > (max_uint64 - int f) div nano_unit" "u = int w * nano_unit + int f"
    "\<not> int w > (max_uint64 - int f) div nano_unit"
    by (auto simp: parseNano_def Let_def split: if_splits prod.splits)
  then have "u \<le> max_uint64" "0 \<le> u" using product_fits [of nano_unit "max_uint64 - int f" "int w"]
    by (simp_all add: nano_unit_def)
  then show "in_uint64 u" by (simp add: in_uint64_def max_uint64_def)
qed

theorem parseNano_roundtrip_witness: "parseNano (show_nano 3114000000) = Inr 3114000000 \<and> in_uint64 3114000000"
  using parseNano_roundtrip [of 3114000000 "show_nano 3114000000" 3114000000] by (simp add: in_uint64_def)

fun rating_rank :: "rating \<Rightarrow> nat" where
  "rating_rank RatingA = 0" | "rating_rank RatingB = 1" | "rating_rank RatingC = 2"
| "rating_rank RatingD = 3" | "rating_rank RatingE = 4"

definition exceeded :: "int \<Rightarrow> int \<Rightarrow> int list \<Rightarrow> nat" where
  "exceeded attained required ms = length (filter (\<lambda>m. required * m div nano_unit < attained) ms)"

lemma boundaries_ascend_values:
  "boundaries_ascend q bs \<Longrightarrow> sorted (map nano_or_zero bs) \<and> (\<forall>p. q = Some p \<longrightarrow> (\<forall>b\<in>set bs. p \<le> nano_or_zero b))"
proof (induction bs arbitrary: q)
  case (Cons b bs)
  then obtain v where v: "parseNano b = Inr v" "boundaries_ascend (Some v) bs"
    "\<forall>p. q = Some p \<longrightarrow> p \<le> v" by (auto split: sum.splits option.splits)
  from Cons.IH [OF v(2)] v show ?case by (fastforce simp: nano_or_zero_def)
qed simp

lemma rating_loop_four:
  assumes "sorted ms" "length ms = 4" "0 \<le> required"
  shows "rating_rank (rating_loop attained required [RatingA, RatingB, RatingC, RatingD] ms) = exceeded attained required ms"
proof -
  obtain a b c d where ms: "ms = [a, b, c, d]" using assms(2) by (auto simp: length_Suc_conv eval_nat_numeral)
  have "required * x div nano_unit \<le> required * y div nano_unit" if "x \<le> y" for x y
    using that assms(3) by (intro zdiv_mono1 mult_left_mono) (simp_all add: nano_unit_def)
  from this [of a b] this [of b c] this [of c d] assms(1) show ?thesis
    by (auto simp: ms exceeded_def below_boundary_def)
qed

lemma exceeded_mono: "a \<le> b \<Longrightarrow> exceeded a required ms \<le> exceeded b required ms"
  unfolding exceeded_def by (induction ms) auto

text \<open>
  Under every configuration that loads, the rating is the number of boundaries the attained indicator
  exceeds, so the ladder A to E is total and emitting more never improves it.
\<close>

theorem ciiRating_counts_boundaries:
  assumes "LoadCIIConfig d = Inr (Some cfg)" "(shipType, entry) \<in> set (cg_ShipTypes cfg)" "0 \<le> required"
  shows "rating_rank (ciiRating attained required entry) = exceeded attained required (map nano_or_zero (ct_RatingBoundariesNano entry))
    \<and> (lower \<le> attained \<longrightarrow> rating_rank (ciiRating lower required entry) \<le> rating_rank (ciiRating attained required entry))"
proof -
  have "ship_type_ok entry"
    using assms(1,2) by (auto simp: LoadCIIConfig_def list_all_iff split: cii_document.splits if_splits)
  then have "boundaries_ascend None (ct_RatingBoundariesNano entry)" "length (map nano_or_zero (ct_RatingBoundariesNano entry)) = 4"
    by (simp_all add: ship_type_ok_def)
  then have "rating_rank (ciiRating a required entry) = exceeded a required (map nano_or_zero (ct_RatingBoundariesNano entry))" for a
    unfolding ciiRating_def using boundaries_ascend_values assms(3) by (intro rating_loop_four) blast+
  then show ?thesis using exceeded_mono by simp
qed

subsection \<open>Activity\<close>

lemma underway_seconds:
  assumes "sorted (map fx_ObservedAt (previous # rest))" "0 \<le> seconds"
    and "seconds * second + (fx_ObservedAt (last (previous # rest)) - fx_ObservedAt previous) < 9223372036854775808"
    and "underway_loop params i start previous rest distance seconds = (d, s)"
  shows "0 \<le> s \<and> s * second \<le> seconds * second + (fx_ObservedAt (last (previous # rest)) - fx_ObservedAt previous)"
  using assms
proof (induction rest arbitrary: previous i start distance seconds)
  case (Cons current rest)
  let ?gap = "fx_ObservedAt current - fx_ObservedAt previous"
  have order: "fx_ObservedAt previous \<le> fx_ObservedAt current" "sorted (map fx_ObservedAt (current # rest))"
    "fx_ObservedAt current \<le> fx_ObservedAt (last (current # rest))"
    using Cons.prems(1) by (auto simp: last_in_set)
  have span: "fx_ObservedAt (last (previous # current # rest)) = fx_ObservedAt (last (current # rest))" by simp
  have sec: "0 \<le> seconds * second" using Cons.prems(2) by (simp add: second_def)
  have gap: "time_sub (fx_ObservedAt current) (fx_ObservedAt previous) = ?gap"
    using order Cons.prems(3) sec unfolding span by (simp add: time_sub_def)
  have grow: "?gap div second * second \<le> ?gap" "0 \<le> ?gap div second" using order(1) by (simp_all add: second_def)
  have "seconds + ?gap div second \<le> seconds * second + ?gap"
    using grow Cons.prems(2) by (simp add: second_def)
  then have small: "wrap_int64 (seconds + ?gap div second) = seconds + ?gap div second"
    using Cons.prems(2,3) grow(2) order(3) unfolding span by (intro wrap_int64_id) linarith+
  have skip: ?case if "underway_loop params (Suc i) j current rest e seconds = (d, s)" for j e
    using Cons.IH [OF order(2) Cons.prems(2) _ that] Cons.prems(3) order(1) unfolding span by simp
  have leg: ?case if "underway_loop params (Suc i) start current rest e (seconds + ?gap div second) = (d, s)" for e
    using Cons.IH [OF order(2) _ _ that] Cons.prems(2,3) grow unfolding span by (simp add: distrib_right)
  have "(\<exists>j e. underway_loop params (Suc i) j current rest e seconds = (d, s))
      \<or> (\<exists>e. underway_loop params (Suc i) start current rest e (seconds + ?gap div second) = (d, s))"
    using Cons.prems(4) by (auto simp: gap small Let_def split: if_splits)
  then show ?case using skip leg by blast
qed simp

text \<open>
  The hours under way an estimate reports never exceed the time between the first and the last fix, and an
  estimate flagged for insufficient coverage carries no quantity.
\<close>

theorem activity_hours_bounded:
  assumes "EstimateActivity sha rfc3339 fxs t1 t2 params = Inr e" "sorted (map fx_ObservedAt fxs)" "fxs \<noteq> []"
    and "fx_ObservedAt (last fxs) - fx_ObservedAt (hd fxs) < 9223372036854775808"
  shows "0 \<le> es_HoursUnderwayMinutes e
    \<and> es_HoursUnderwayMinutes e * 60 * second \<le> fx_ObservedAt (last fxs) - fx_ObservedAt (hd fxs)
    \<and> (es_InsufficientCoverage e \<longrightarrow> es_HoursUnderwayMinutes e = 0 \<and> es_DistanceNmMilli e = 0)"
proof (cases "es_HoursUnderwayMinutes e = 0 \<and> (es_InsufficientCoverage e \<longrightarrow> es_DistanceNmMilli e = 0)")
  case True
  have "fx_ObservedAt (hd fxs) \<le> fx_ObservedAt (last fxs)"
    using assms(2,3) by (cases fxs) auto
  with True show ?thesis by simp
next
  case False
  then obtain f g rest d s where run: "fxs = f # g # rest" "underway_loop params 1 0 f (g # rest) 0 0 = (d, s)"
    "es_HoursUnderwayMinutes e = wrap_uint64 (quot s 60)" "\<not> es_InsufficientCoverage e"
    using assms(1) by (auto simp: EstimateActivity_def Let_def split: if_splits option.splits list.splits prod.splits)
  have "0 \<le> s \<and> s * second \<le> fx_ObservedAt (last fxs) - fx_ObservedAt (hd fxs)"
    using underway_seconds [OF _ _ _ run(2)] assms(2,4) unfolding run(1) by simp
  moreover from this have "s < 9223372036854775808" using assms(4) by (simp add: second_def)
  moreover from calculation have "quot s 60 = s div 60" "wrap_uint64 (s div 60) = s div 60"
    by (simp_all add: quot_nonneg wrap_uint64_def div_pos_pos_trivial pos_imp_zdiv_nonneg_iff)
  moreover have "s div 60 * 60 * second \<le> s * second" by (simp add: second_def)
  ultimately show ?thesis using run(3,4) by (auto intro: order_trans)
qed

subsection \<open>The unit of a leg\<close>

text \<open>A nautical mile is 1852 metres.\<close>

definition leg_milli_nm :: "ActivityFix \<Rightarrow> ActivityFix \<Rightarrow> real" where
  "leg_milli_nm f g = greatCircleMetres (fx_LatMicros f) (fx_LonMicros f) (fx_LatMicros g) (fx_LonMicros g) / 1852 * 1000"

lemma cos_micro_radians: "\<bar>m\<bar> \<le> 90000000 \<Longrightarrow> 0 \<le> cos (micro_radians m)"
proof -
  assume m: "\<bar>m\<bar> \<le> 90000000"
  then have "\<bar>real_of_int m\<bar> \<le> 90000000" by linarith
  then have "\<bar>real_of_int m\<bar> * pi \<le> 90000000 * pi" by (intro mult_right_mono) simp_all
  then have "\<bar>micro_radians m\<bar> \<le> pi / 2" by (simp add: micro_radians_def abs_mult)
  then show ?thesis by (intro cos_ge_zero) linarith+
qed

lemma greatCircleMetres_bounds:
  assumes "\<bar>a\<bar> \<le> 90000000" "\<bar>c\<bar> \<le> 90000000"
  shows "0 \<le> greatCircleMetres a b c d" "greatCircleMetres a b c d \<le> 2 * 6371008.8 * 2"
proof -
  define h where "h = sin ((micro_radians c - micro_radians a) / 2) * sin ((micro_radians c - micro_radians a) / 2)
    + cos (micro_radians a) * cos (micro_radians c) * sin ((micro_radians d - micro_radians b) / 2) * sin ((micro_radians d - micro_radians b) / 2)"
  have "0 \<le> h" unfolding h_def using cos_micro_radians [OF assms(1)] cos_micro_radians [OF assms(2)]
    by (simp add: mult.assoc)
  then have "0 \<le> min 1 (sqrt h)" "min 1 (sqrt h) \<le> 1" "- 1 \<le> min 1 (sqrt h)"
    using real_sqrt_ge_zero [of h] by (simp, simp, linarith)
  then have "0 \<le> arcsin (min 1 (sqrt h))" "arcsin (min 1 (sqrt h)) \<le> pi / 2"
    using arcsin_le_arcsin [of 0 "min 1 (sqrt h)"] arcsin_ubound [of "min 1 (sqrt h)"] by (simp, blast)
  moreover have "pi / 2 < 2" using pi_less_4 by simp
  ultimately show "0 \<le> greatCircleMetres a b c d" "greatCircleMetres a b c d \<le> 2 * 6371008.8 * 2"
    unfolding greatCircleMetres_def Let_def h_def by simp_all
qed

lemma leg_counted_thousandfold:
  assumes "\<bar>fx_LatMicros f\<bar> \<le> 90000000" "\<bar>fx_LatMicros g\<bar> \<le> 90000000"
  defines "leg \<equiv> greatCircleMilliNM (fx_LatMicros f) (fx_LonMicros f) (fx_LatMicros g) (fx_LonMicros g)"
  shows "real_of_int leg > 1000 * leg_milli_nm f g - 1" "0 \<le> leg" "leg \<le> 14000000000"
proof -
  note b = greatCircleMetres_bounds [OF assms(1,2), of "fx_LonMicros f" "fx_LonMicros g"]
  have "leg = \<lfloor>1000 * leg_milli_nm f g + 1 / 2\<rfloor>"
    unfolding leg_def greatCircleMilliNM_def round_nonneg_def leg_milli_nm_def by (simp add: field_simps)
  moreover have "0 \<le> 1000 * leg_milli_nm f g" "1000 * leg_milli_nm f g \<le> 13800000000"
    unfolding leg_milli_nm_def using b by simp_all
  ultimately show "real_of_int leg > 1000 * leg_milli_nm f g - 1" "0 \<le> leg" "leg \<le> 14000000000" by linarith+
qed

text \<open>
  The leg length is computed as metres / 1.852 * 1000, which is a thousandth of a milli-nautical mile: an
  operator who reports exactly the distance its two fixes are apart, to the milli-nautical mile, is classed
  discrepant at every tolerance the service admits.
\<close>

theorem honest_distance_discrepant:
  assumes "ActivityParams_Validate params = None" "t1 < t2" "tolerance \<le> 1000"
    and "fx_ObservedAt f < fx_ObservedAt g" "fx_ObservedAt g - fx_ObservedAt f \<le> ac_SegmentGap params"
    and "ac_SogThresholdMilliknots params \<le> fx_SogMilliknots g"
    and "millis (time_sub t2 t1) \<noteq> 0"
    and "ac_MinCoveragePermille params \<le> quot (millis (fx_ObservedAt g - fx_ObservedAt f) * 1000) (millis (time_sub t2 t1))"
    and "\<bar>fx_LatMicros f\<bar> \<le> 90000000" "\<bar>fx_LatMicros g\<bar> \<le> 90000000"
    and "reported = round_nonneg (leg_milli_nm f g)" "0 < reported" "0 \<le> tolerance"
  shows "\<exists>e. EstimateActivity sha rfc3339 [f, g] t1 t2 params = Inr e
    \<and> Crosscheck e reported hours tolerance = CrosscheckDiscrepant"
proof -
  let ?leg = "greatCircleMilliNM (fx_LatMicros f) (fx_LonMicros f) (fx_LatMicros g) (fx_LonMicros g)"
  note leg = leg_counted_thousandfold [OF assms(9,10)]
  have gap: "time_sub (fx_ObservedAt g) (fx_ObservedAt f) = fx_ObservedAt g - fx_ObservedAt f"
    using assms(1,4,5) by (auto simp: ActivityParams_Validate_def time_sub_def second_def split: if_splits)
  have span: "0 < time_sub t2 t1" using assms(2) by (simp add: time_sub_def)
  obtain s where loop: "underway_loop params 1 0 f [g] 0 0 = (?leg, s)"
    using assms(4,5,6) leg(2,3) by (simp add: gap wrap_uint64_id)
  obtain e where e: "EstimateActivity sha rfc3339 [f, g] t1 t2 params = Inr e" "es_DistanceNmMilli e = ?leg"
    "\<not> es_InsufficientCoverage e"
    using assms(1,2,7,8) span loop by (simp add: EstimateActivity_def Let_def gap del: underway_loop.simps)
  have "real_of_int reported \<le> leg_milli_nm f g + 1 / 2" unfolding assms(11) round_nonneg_def by linarith
  then have big: "2 * reported < ?leg" using leg(1) assms(12) by linarith
  have "reported * tolerance \<le> reported * 1000" using assms(3,12) by (intro mult_left_mono) simp_all
  moreover have "0 \<le> reported * tolerance" using assms(12,13) by simp
  moreover from calculation have "wrap_uint64 (reported * tolerance) = reported * tolerance"
    using big leg(3) by (intro wrap_uint64_id) linarith+
  moreover have "reported * 1000 < (?leg - reported) * 1000" using big by simp
  ultimately have "\<not> within_tolerance tolerance reported ?leg"
    using big leg(3) assms(12) order.strict_trans1 [of "reported * tolerance" "reported * 1000" "(?leg - reported) * 1000"]
    by (simp add: within_tolerance_def Let_def wrap_uint64_id del: mult_le_cancel_left mult_less_cancel_right)
  then have "Crosscheck e reported hours tolerance = CrosscheckDiscrepant"
    using e(2,3) assms(12) by (simp add: Crosscheck_def)
  with e(1) show ?thesis by blast
qed

definition sample_fix :: "int \<Rightarrow> int \<Rightarrow> ActivityFix" where
  "sample_fix t lat = \<lparr>fx_ObservedAt = t, fx_LatMicros = lat, fx_LonMicros = 0, fx_SogMilliknots = 12000\<rparr>"

lemma sample_leg: "1 \<le> round_nonneg (leg_milli_nm (sample_fix t 0) (sample_fix u 60000))"
proof -
  let ?x = "3 / 100 * pi / 180 :: real"
  have x: "0 \<le> ?x" "?x \<le> pi / 2" using pi_ge_two by simp_all
  then have "sqrt (sin ?x * sin ?x) = sin ?x" by (simp add: sin_ge_zero)
  then have "greatCircleMetres 0 0 60000 0 = 2 * 6371008.8 * ?x"
    using x by (simp add: greatCircleMetres_def micro_radians_def arcsin_sin)
  then have "1 \<le> leg_milli_nm (sample_fix t 0) (sample_fix u 60000)"
    using pi_ge_two by (simp add: leg_milli_nm_def sample_fix_def)
  then show ?thesis unfolding round_nonneg_def by linarith
qed

theorem honest_distance_discrepant_witness:
  "\<exists>e. EstimateActivity (\<lambda>s. s) show_int [sample_fix 0 0, sample_fix (3600 * second) 60000] 0 (3601 * second) DefaultActivityParams = Inr e
    \<and> Crosscheck e (round_nonneg (leg_milli_nm (sample_fix 0 0) (sample_fix (3600 * second) 60000))) 60 100 = CrosscheckDiscrepant"
  by (rule honest_distance_discrepant)
    (use sample_leg [of 0 "3600 * second"] in \<open>simp_all add: sample_fix_def DefaultActivityParams_def ActivityParams_Validate_def
      second_def millis_def time_sub_def quot_def\<close>)

theorem CO2MilliTonnes_exact_witness:
  "CO2MilliTonnes 1000 3114000000 = Inr 3114 \<and> CO2MilliTonnes 10000000000 3114000000 = Inl FactorOverflow"
  using CO2MilliTonnes_exact [of 1000 3114000000] CO2MilliTonnes_exact [of 10000000000 3114000000]
  by (simp add: in_uint64_def max_uint64_def nano_unit_def)

end
