(* ===== verification/Mrv_Rows.thy ===== *)
theory Mrv_Rows
  imports Mrv_Math World
begin

text \<open>
  The state of the emissions service (\<open>internal/mrv\<close>, migration 0012): its tables with their keys, references,
  cross-column constraints and triggers, the signed outbox, and the calls that reach them. It is a process of its
  own (\<open>cmd/mrv-api\<close>), so it has its own world; of the geo service it reads the position and zone-event tables.

  As in the geo service, a statement is a partial function on the tables and a value a column's own CHECK refuses
  is a statement the database does not accept (\<open>mx_pg\<close>). A statement that fails aborts its transaction: every
  later statement of it, commit included, fails too. An empty optional text is a NULL column. A
  \<open>TIMESTAMPTZ\<close> keeps microseconds.
\<close>

section \<open>Vocabulary\<close>

datatype plan_state = PlanStateDraft | PlanStateSubmitted | PlanStateConfirmed | PlanStateSuperseded

datatype report_state =
    ReportStateDraft
  | ReportStateSubmitted
  | ReportStateVerifierReview
  | ReportStateVerified
  | ReportStateRejected

datatype decision = DecisionVerify | DecisionReject | DecisionClarify

definition parse_decision :: "string \<Rightarrow> decision option" where
  "parse_decision s =
     map_of [(''VERIFY'', DecisionVerify), (''REJECT'', DecisionReject), (''REQUEST_CLARIFICATION'', DecisionClarify)] s"

fun decision_text :: "decision \<Rightarrow> string" where
  "decision_text DecisionVerify = ''VERIFY''"
| "decision_text DecisionReject = ''REJECT''"
| "decision_text DecisionClarify = ''REQUEST_CLARIFICATION''"

fun report_state_text :: "report_state \<Rightarrow> string" where
  "report_state_text ReportStateDraft = ''DRAFT''"
| "report_state_text ReportStateSubmitted = ''SUBMITTED''"
| "report_state_text ReportStateVerifierReview = ''VERIFIER_REVIEW''"
| "report_state_text ReportStateVerified = ''VERIFIED''"
| "report_state_text ReportStateRejected = ''REJECTED''"

fun rating_text :: "rating \<Rightarrow> string" where
  "rating_text RatingA = ''A''"
| "rating_text RatingB = ''B''"
| "rating_text RatingC = ''C''"
| "rating_text RatingD = ''D''"
| "rating_text RatingE = ''E''"

fun crosscheck_text :: "CrosscheckResult \<Rightarrow> string" where
  "crosscheck_text CrosscheckMatch = ''match''"
| "crosscheck_text CrosscheckDiscrepant = ''discrepant''"
| "crosscheck_text CrosscheckInsufficientCoverage = ''insufficient_coverage''"
| "crosscheck_text CrosscheckNoReportedValues = ''no_reported_values''"

definition consumer_types :: "string list" where
  "consumer_types = [''MAIN_ENGINE'', ''AUX_ENGINE'', ''BOILER'', ''INERT_GAS'', ''NOT_UNDER_WAY'']"

definition monitoring_methods :: "string list" where
  "monitoring_methods = [''A'', ''B'', ''C'', ''D'']"

section \<open>Rows\<close>

record Ship =
  ms_ImoNumber :: string
  ms_MMSI :: string
  ms_ShipName :: string
  ms_GT :: int
  ms_DWT :: "int option"
  ms_ShipType :: string
  ms_FlagState :: string
  ms_InternationalVoyages :: bool
  ms_DcsScope :: bool
  ms_RegisteredBy :: string
  ms_CreatedAt :: int

record MonitoringPlan =
  mp_PlanID :: string
  mp_ImoNumber :: string
  mp_Version :: int
  mp_Methods :: "(string \<times> string) list"
  mp_FuelGrades :: "string list"
  mp_State :: plan_state
  mp_CreatedBy :: string
  mp_CreatedAt :: int
  mp_ConfirmedBy :: "string option"
  mp_ConfirmedAt :: "int option"

record FuelReport =
  fu_ReportID :: string
  fu_ImoNumber :: string
  fu_ExternalRef :: string
  fu_PeriodFrom :: int
  fu_PeriodTo :: int
  fu_Consumer :: string
  fu_FuelGrade :: string
  fu_Method :: string
  fu_FuelTonnesMilli :: int
  fu_DistanceNmMilli :: "int option"
  fu_HoursUnderwayMinutes :: "int option"
  fu_BdnRef :: string
  fu_Evidence :: string
  fu_EvidenceDigestSha256 :: string
  fu_ReportedBy :: string
  fu_CreatedAt :: int

record Voyage =
  mv_VoyageID :: string
  mv_ImoNumber :: string
  mv_BospAt :: "int option"
  mv_BospPort :: string
  mv_EospAt :: "int option"
  mv_EospPort :: string
  mv_CargoTonnesMilli :: "int option"
  mv_LadenDistanceNmMilli :: "int option"
  mv_Source :: string
  mv_GeofenceEvidence :: "string list"
  mv_RecordedBy :: string
  mv_CreatedAt :: int

record gradeTotal =
  gt_FuelGrade :: string
  gt_FuelTonnesMilli :: int
  gt_CO2TonnesMilli :: int
  gt_FactorNano :: int
  gt_FactorCitation :: string

record reportTotals =
  rt_PerGrade :: "gradeTotal list"
  rt_TotalFuelTonnesMilli :: int
  rt_CO2TonnesMilli :: int
  rt_DistanceNmMilli :: int
  rt_HoursUnderwayMinutes :: int
  rt_FuelReportCount :: nat

record AnnualReport =
  mr_ReportID :: string
  mr_ImoNumber :: string
  mr_CalendarYear :: int
  mr_Totals :: reportTotals
  mr_AttainedCiiNano :: "int option"
  mr_RequiredCiiNano :: "int option"
  mr_CiiRating :: "rating option"
  mr_FactorSetHash :: string
  mr_State :: report_state
  mr_CompiledBy :: string
  mr_SubmittedBy :: "string option"
  mr_CreatedAt :: int
  mr_SubmittedAt :: "int option"

record Verification =
  mn_VerificationID :: string
  mn_ReportID :: string
  mn_Decision :: decision
  mn_Verifier :: string
  mn_Reason :: string
  mn_AISCrosscheck :: fields
  mn_DecidedAt :: int

record soc_row =
  mc_SocID :: string
  mc_ReportID :: string
  mc_IssuedBy :: string
  mc_IssuedAt :: int
  mc_ArtifactSha256 :: string

record artifact_row =
  mt_ReportID :: string
  mt_ArtifactJSON :: fields
  mt_ArtifactSha256 :: string

record outbox_row =
  mo_EventID :: string
  mo_AggregateID :: string
  mo_EventType :: string
  mo_Payload :: Envelope
  mo_CreatedAt :: int
  mo_PublishedAt :: "int option"

record mrv_db =
  md_ships :: "Ship list"
  md_plans :: "MonitoringPlan list"
  md_fuel :: "FuelReport list"
  md_voyages :: "Voyage list"
  md_factors :: "FactorRow list"
  md_reports :: "AnnualReport list"
  md_verifications :: "Verification list"
  md_socs :: "soc_row list"
  md_artifacts :: "artifact_row list"
  md_outbox :: "outbox_row list"
  md_positions :: "position_row list"
  md_zone_events :: "GeofenceEvent list"

record mrv_message =
  mk_topic :: string
  mk_key :: string
  mk_value :: Envelope
  mk_headers :: "(string \<times> string) list"

record mrv_world =
  mw_tick :: nat
  mw_db :: mrv_db
  mw_aborted :: bool
  mw_kafka :: "mrv_message list"
  mw_metrics :: "(string \<times> string) list"

datatype mrv_error =
    MrvText string
  | MrvDB string
  | MrvNoRows
  | MrvSign sign_error
  | MrvActivity activity_error
  | MrvFactor factor_error
  | MrvFactorUnavailable
  | MrvShipNotFound
  | MrvPlanNotFound
  | MrvPlanState
  | MrvMakerCheckerConflict
  | MrvIdempotencyKeyNeeded
  | MrvIdempotencyConflict
  | MrvReportNotFound
  | MrvReportState
  | MrvSoCExists
  | MrvNoConfirmedPlan
  | MrvVoyageNotFound
  | MrvVoyageWindowIncomplete
  | MrvVoyageZeroDurationWindow
  | MrvPublish string
  | MrvWrap string mrv_error

type_synonym 'a mrv = "(mrv_world, mrv_error, 'a) act"

section \<open>Time\<close>

text \<open>\<open>Truncate(time.Microsecond)\<close> and what a \<open>TIMESTAMPTZ\<close> keeps; the UTC day; the first instant of a year.\<close>

definition micro :: "int \<Rightarrow> int" where
  "micro t = t div 1000 * 1000"

definition utc_day :: "int \<Rightarrow> int" where
  "utc_day t = t div (86400 * second)"

definition year_start :: "int \<Rightarrow> int" where
  "year_start year = (let p = year - 1 in (365 * p + p div 4 - p div 100 + p div 400 - 719162) * (86400 * second))"

section \<open>Calls to the outside\<close>

text \<open>
  \<open>mx_render\<close> is \<open>json.Marshal\<close> of an object, \<open>mx_sha\<close> the hexadecimal SHA-256, \<open>mx_json_valid\<close> is
  \<open>json.Valid\<close>; \<open>mx_rfc3339\<close> and \<open>mx_iso_date\<close> render instants and days.
\<close>

record mrv_externals =
  mx_pg :: "nat \<Rightarrow> bool"
  mx_kafka :: "nat \<Rightarrow> bool"
  mx_uuid :: "nat \<Rightarrow> string"
  mx_now :: "nat \<Rightarrow> int"
  mx_sha :: "string \<Rightarrow> string"
  mx_render :: "fields \<Rightarrow> string"
  mx_json_valid :: "string \<Rightarrow> bool"
  mx_uuid_ok :: "string \<Rightarrow> bool"
  mx_rfc3339 :: "int \<Rightarrow> string"
  mx_iso_date :: "int \<Rightarrow> string"
  mx_crypto :: crypto

definition mrv_asks :: "(nat \<Rightarrow> 'a) \<Rightarrow> 'a mrv" where
  "mrv_asks f w = (w\<lparr>mw_tick := Suc (mw_tick w)\<rparr>, Inr (f (mw_tick w)))"

definition mrv_uuid :: "mrv_externals \<Rightarrow> string mrv" where
  "mrv_uuid X = mrv_asks (mx_uuid X)"

definition mrv_now :: "mrv_externals \<Rightarrow> int mrv" where
  "mrv_now X = mrv_asks (\<lambda>n. micro (mx_now X n))"

definition mrv_sql :: "mrv_externals \<Rightarrow> string \<Rightarrow> (mrv_db \<Rightarrow> (mrv_db \<times> 'a) option) \<Rightarrow> 'a mrv" where
  "mrv_sql X label f w =
     (let w1 = w\<lparr>mw_tick := Suc (mw_tick w)\<rparr> in
      if mw_aborted w \<or> \<not> mx_pg X (mw_tick w) then (w1\<lparr>mw_aborted := True\<rparr>, Inl (MrvDB label))
      else case f (mw_db w) of
        None \<Rightarrow> (w1\<lparr>mw_aborted := True\<rparr>, Inl (MrvDB label))
      | Some r \<Rightarrow> (w1\<lparr>mw_db := fst r\<rparr>, Inr (snd r)))"

definition mrv_query :: "mrv_externals \<Rightarrow> string \<Rightarrow> (mrv_db \<Rightarrow> 'a) \<Rightarrow> 'a mrv" where
  "mrv_query X label q = mrv_sql X label (\<lambda>d. Some (d, q d))"

definition mrv_exec :: "mrv_externals \<Rightarrow> string \<Rightarrow> (mrv_db \<Rightarrow> mrv_db option) \<Rightarrow> unit mrv" where
  "mrv_exec X label f = mrv_sql X label (\<lambda>d. map_option (\<lambda>d'. (d', ())) (f d))"

definition row_or_error :: "mrv_error \<Rightarrow> 'a option \<Rightarrow> 'a mrv" where
  "row_or_error e row = (case row of None \<Rightarrow> raise e | Some r \<Rightarrow> ret r)"

text \<open>Begin on a fresh connection, bind the actor, run, commit; a failure after begin rolls the tables back.\<close>

definition mrv_begin :: "mrv_externals \<Rightarrow> unit mrv" where
  "mrv_begin X w =
     (let w1 = w\<lparr>mw_tick := Suc (mw_tick w), mw_aborted := False\<rparr> in
      if mx_pg X (mw_tick w) then (w1, Inr ()) else (w1, Inl (MrvDB ''begin mrv transaction'')))"

definition mrv_rolls_back :: "'a mrv \<Rightarrow> 'a mrv" where
  "mrv_rolls_back m w = (case m w of
     (w', Inl e) \<Rightarrow> (w'\<lparr>mw_db := mw_db w\<rparr>, Inl e) | (w', Inr x) \<Rightarrow> (w', Inr x))"

definition withActor :: "mrv_externals \<Rightarrow> string \<Rightarrow> 'a mrv \<Rightarrow> 'a mrv" where
  "withActor X actor fn =
     (if trim_space actor = [] then raise (MrvText ''mrv actor principal is required for mrv access'')
      else seqA (mrv_begin X)
        (mrv_rolls_back (seqA (mrv_exec X ''bind mrv actor'' Some)
           (bindA fn (\<lambda>r. seqA (mrv_exec X ''commit'' Some) (ret r))))))"

definition mrv_count :: "string \<Rightarrow> string \<Rightarrow> unit mrv" where
  "mrv_count name label = modifies (\<lambda>w. w\<lparr>mw_metrics := mw_metrics w @ [(name, label)]\<rparr>)"

definition mrv_publish :: "mrv_externals \<Rightarrow> mrv_message \<Rightarrow> unit mrv" where
  "mrv_publish X m =
     bindA (mrv_asks (mx_kafka X)) (\<lambda>ok.
       if ok then modifies (\<lambda>w. w\<lparr>mw_kafka := mw_kafka w @ [m]\<rparr>) else raise (MrvPublish (mk_topic m)))"

section \<open>Symbolic execution\<close>

lemma wp_mrv_asks [wp_simps]: "wp (mrv_asks f) Q E = (\<lambda>w. Q (f (mw_tick w)) (w\<lparr>mw_tick := Suc (mw_tick w)\<rparr>))"
  by (simp add: fun_eq_iff wp_def mrv_asks_def)

lemma wp_mrv_uuid [wp_simps]: "wp (mrv_uuid X) Q E = (\<lambda>w. Q (mx_uuid X (mw_tick w)) (w\<lparr>mw_tick := Suc (mw_tick w)\<rparr>))"
  by (simp add: fun_eq_iff mrv_uuid_def wp_mrv_asks)

lemma wp_mrv_now [wp_simps]: "wp (mrv_now X) Q E = (\<lambda>w. Q (micro (mx_now X (mw_tick w))) (w\<lparr>mw_tick := Suc (mw_tick w)\<rparr>))"
  by (simp add: fun_eq_iff mrv_now_def wp_mrv_asks)

lemma wp_mrv_sql [wp_simps]:
  "wp (mrv_sql X l f) Q E = (\<lambda>w.
     (if mw_aborted w \<or> \<not> mx_pg X (mw_tick w) then E (MrvDB l) (w\<lparr>mw_tick := Suc (mw_tick w), mw_aborted := True\<rparr>)
      else case f (mw_db w) of
        None \<Rightarrow> E (MrvDB l) (w\<lparr>mw_tick := Suc (mw_tick w), mw_aborted := True\<rparr>)
      | Some r \<Rightarrow> Q (snd r) (w\<lparr>mw_tick := Suc (mw_tick w), mw_db := fst r\<rparr>)))"
  by (simp add: fun_eq_iff wp_def mrv_sql_def Let_def split: option.split)

lemma wp_mrv_query [wp_simps]:
  "wp (mrv_query X l q) Q E = (\<lambda>w.
     (if mw_aborted w \<or> \<not> mx_pg X (mw_tick w) then E (MrvDB l) (w\<lparr>mw_tick := Suc (mw_tick w), mw_aborted := True\<rparr>)
      else Q (q (mw_db w)) (w\<lparr>mw_tick := Suc (mw_tick w)\<rparr>)))"
  by (simp add: fun_eq_iff mrv_query_def wp_mrv_sql)

lemma wp_mrv_exec [wp_simps]:
  "wp (mrv_exec X l f) Q E = (\<lambda>w.
     (if mw_aborted w \<or> \<not> mx_pg X (mw_tick w) then E (MrvDB l) (w\<lparr>mw_tick := Suc (mw_tick w), mw_aborted := True\<rparr>)
      else case f (mw_db w) of
        None \<Rightarrow> E (MrvDB l) (w\<lparr>mw_tick := Suc (mw_tick w), mw_aborted := True\<rparr>)
      | Some d \<Rightarrow> Q () (w\<lparr>mw_tick := Suc (mw_tick w), mw_db := d\<rparr>)))"
  by (simp add: fun_eq_iff mrv_exec_def wp_mrv_sql split: option.split)

lemma wp_row_or_error [wp_simps]:
  "wp (row_or_error e row) Q E = (\<lambda>w. (case row of None \<Rightarrow> E e w | Some r \<Rightarrow> Q r w))"
  by (simp add: fun_eq_iff row_or_error_def wp_simps split: option.split)

lemma wp_mrv_count [wp_simps]: "wp (mrv_count n l) Q E = (\<lambda>w. Q () (w\<lparr>mw_metrics := mw_metrics w @ [(n, l)]\<rparr>))"
  by (simp add: fun_eq_iff mrv_count_def wp_simps)

lemma wp_mrv_publish [wp_simps]:
  "wp (mrv_publish X m) Q E = (\<lambda>w.
     (if mx_kafka X (mw_tick w) then Q () (w\<lparr>mw_tick := Suc (mw_tick w), mw_kafka := mw_kafka w @ [m]\<rparr>)
      else E (MrvPublish (mk_topic m)) (w\<lparr>mw_tick := Suc (mw_tick w)\<rparr>)))"
  by (simp add: fun_eq_iff mrv_publish_def wp_simps)


lemma wp_mrv_begin [wp_simps]:
  "wp (mrv_begin X) Q E = (\<lambda>w.
     (if mx_pg X (mw_tick w) then Q () (w\<lparr>mw_tick := Suc (mw_tick w), mw_aborted := False\<rparr>)
      else E (MrvDB ''begin mrv transaction'') (w\<lparr>mw_tick := Suc (mw_tick w), mw_aborted := False\<rparr>)))"
  by (simp add: fun_eq_iff wp_def mrv_begin_def Let_def)

lemma wp_mrv_rolls_back: "wp (mrv_rolls_back b) Q E = (\<lambda>v. wp b Q (\<lambda>e u. E e (u\<lparr>mw_db := mw_db v\<rparr>)) v)"
  by (simp add: fun_eq_iff wp_def mrv_rolls_back_def split: prod.split sum.split)

text \<open>
  A transaction by its body: the body starts on the tables as they are, in a healthy transaction; it is known to
  have succeeded only if the transaction is still healthy, and a failure leaves the tables as they were.
\<close>

lemma wp_withActor:
  "wp (withActor X actor fn) Q E = (\<lambda>w.
     (if trim_space actor = [] then E (MrvText ''mrv actor principal is required for mrv access'') w
      else if \<not> mx_pg X (mw_tick w)
      then E (MrvDB ''begin mrv transaction'') (w\<lparr>mw_tick := Suc (mw_tick w), mw_aborted := False\<rparr>)
      else if \<not> mx_pg X (Suc (mw_tick w))
      then E (MrvDB ''bind mrv actor'') (w\<lparr>mw_tick := Suc (Suc (mw_tick w)), mw_aborted := True\<rparr>)
      else wp fn
        (\<lambda>r u. if mw_aborted u \<or> \<not> mx_pg X (mw_tick u)
               then E (MrvDB ''commit'') (u\<lparr>mw_tick := Suc (mw_tick u), mw_aborted := True, mw_db := mw_db w\<rparr>)
               else Q r (u\<lparr>mw_tick := Suc (mw_tick u)\<rparr>))
        (\<lambda>e u. E e (u\<lparr>mw_db := mw_db w\<rparr>))
        (w\<lparr>mw_tick := Suc (Suc (mw_tick w)), mw_aborted := False\<rparr>)))"
  by (auto simp: fun_eq_iff withActor_def wp_simps wp_mrv_rolls_back intro!: arg_cong [where f = "wp fn _ _"])

lemma withActor_tables:
  assumes "\<And>v. mw_db v = mw_db w \<Longrightarrow> \<not> mw_aborted v \<Longrightarrow> trim_space actor \<noteq> []
      \<Longrightarrow> wp fn (\<lambda>r u. \<not> mw_aborted u \<longrightarrow> Q r (mw_db u)) (\<lambda>e u. True) v"
  shows "wp (withActor X actor fn) (\<lambda>r u. Q r (mw_db u)) (\<lambda>e u. mw_db u = mw_db w) w"
proof (cases "trim_space actor = []")
  case False
  have "wp fn (\<lambda>r u. \<not> mw_aborted u \<longrightarrow> Q r (mw_db u)) (\<lambda>e u. True) (w\<lparr>mw_tick := Suc (Suc (mw_tick w)), mw_aborted := False\<rparr>)"
    using False by (intro assms) simp_all
  from wp_mono [OF this] show ?thesis
    using False unfolding wp_withActor by (auto elim!: wp_mono)
qed (simp add: wp_withActor)

text \<open>What does not depend on the tables is kept by a transaction that keeps it in its body.\<close>

lemma keeps_withActor:
  assumes frame: "\<And>w n a d. I w \<Longrightarrow> I (w\<lparr>mw_tick := n, mw_aborted := a, mw_db := d\<rparr>)" and fn: "keeps I fn"
  shows "keeps I (withActor X actor fn)"
proof -
  have *: "I (w\<lparr>mw_tick := n, mw_aborted := a\<rparr>)" "I (w\<lparr>mw_tick := n\<rparr>)" "I (w\<lparr>mw_db := d\<rparr>)" if "I w" for w n a d
    using frame [OF that, where n = n and a = a and d = "mw_db w"]
      frame [OF that, where n = n and a = "mw_aborted w" and d = "mw_db w"]
      frame [OF that, where n = "mw_tick w" and a = "mw_aborted w" and d = d] by simp_all
  have "wp (withActor X actor fn) (\<lambda>_. I) (\<lambda>_. I) w" if I: "I w" for w
  proof -
    have "wp fn (\<lambda>_. I) (\<lambda>_. I) (w\<lparr>mw_tick := Suc (Suc (mw_tick w)), mw_aborted := False\<rparr>)"
      using keepsD [OF fn *(1) [OF I]] by (auto simp: wp_def split: prod.splits sum.splits)
    then show ?thesis
      unfolding wp_withActor using I * by (auto elim!: wp_mono intro: frame)
  qed
  then show ?thesis unfolding keeps_triple triple_wp by blast
qed

end
