(* ===== verification/Mrv_Service.thy ===== *)
theory Mrv_Service
  imports Mrv_Rows "HOL-Library.Char_ord" "HOL-Library.List_Lexorder" "HOL-Library.Product_Lexorder"
begin

text \<open>
  The operations of the emissions service (\<open>internal/mrv/service.go\<close>, \<open>ops.go\<close>, \<open>voyage.go\<close>,
  \<open>voyage_emissions.go\<close>, \<open>report.go\<close>, \<open>outbox.go\<close>, \<open>envelope.go\<close>, \<open>payloads.go\<close>): registration of
  ships, monitoring plans under maker and checker, fuel reports, voyages, the annual report with its verification
  and statement of compliance, and the outbox every mutation writes its signed event to.

  Text columns sort bytewise.
\<close>

section \<open>Statements\<close>

definition mrv_update :: "('r \<Rightarrow> bool) \<Rightarrow> ('r \<Rightarrow> 'r) \<Rightarrow> ('r \<Rightarrow> 'r \<Rightarrow> bool) \<Rightarrow> 'r list \<Rightarrow> 'r list option" where
  "mrv_update hit f allowed rows =
     (if \<exists>r\<in>set rows. hit r \<and> \<not> allowed r (f r) then None else Some (map (\<lambda>r. if hit r then f r else r) rows))"

definition ship_known :: "string \<Rightarrow> mrv_db \<Rightarrow> bool" where
  "ship_known imo d \<longleftrightarrow> imo \<in> ms_ImoNumber ` set (md_ships d)"

definition find_ship :: "string \<Rightarrow> mrv_db \<Rightarrow> Ship option" where
  "find_ship imo d = find (\<lambda>s. ms_ImoNumber s = imo) (md_ships d)"

definition insert_ship :: "Ship \<Rightarrow> mrv_db \<Rightarrow> mrv_db option" where
  "insert_ship s d = (if ship_known (ms_ImoNumber s) d then None else Some (d\<lparr>md_ships := md_ships d @ [s]\<rparr>))"

definition plan_ok :: "MonitoringPlan \<Rightarrow> bool" where
  "plan_ok p \<longleftrightarrow>
     (mp_ConfirmedBy p = None \<longleftrightarrow> mp_ConfirmedAt p = None)
     \<and> (mp_ConfirmedBy p \<noteq> None \<longleftrightarrow> mp_State p = PlanStateConfirmed \<or> mp_State p = PlanStateSuperseded)
     \<and> mp_ConfirmedBy p \<noteq> Some (mp_CreatedBy p)"

definition insert_plan :: "MonitoringPlan \<Rightarrow> mrv_db \<Rightarrow> mrv_db option" where
  "insert_plan p d =
     (if mp_PlanID p \<in> mp_PlanID ` set (md_plans d) \<or> \<not> ship_known (mp_ImoNumber p) d
         \<or> (mp_ImoNumber p, mp_Version p) \<in> (\<lambda>q. (mp_ImoNumber q, mp_Version q)) ` set (md_plans d) \<or> \<not> plan_ok p
      then None else Some (d\<lparr>md_plans := md_plans d @ [p]\<rparr>))"

definition update_plans :: "(MonitoringPlan \<Rightarrow> bool) \<Rightarrow> (MonitoringPlan \<Rightarrow> MonitoringPlan) \<Rightarrow> mrv_db \<Rightarrow> mrv_db option" where
  "update_plans hit f d =
     (case mrv_update hit f (\<lambda>r. plan_ok) (md_plans d) of None \<Rightarrow> None | Some ps \<Rightarrow> Some (d\<lparr>md_plans := ps\<rparr>))"

definition fuel_ok :: "FuelReport \<Rightarrow> bool" where
  "fuel_ok r \<longleftrightarrow> fu_PeriodFrom r < fu_PeriodTo r \<and> (fu_Method r = ''A'' \<longrightarrow> fu_BdnRef r \<noteq> [])"

definition insert_fuel :: "FuelReport \<Rightarrow> mrv_db \<Rightarrow> mrv_db option" where
  "insert_fuel r d =
     (if fu_ReportID r \<in> fu_ReportID ` set (md_fuel d) \<or> \<not> ship_known (fu_ImoNumber r) d
         \<or> fu_ExternalRef r \<in> fu_ExternalRef ` set (md_fuel d) \<or> \<not> fuel_ok r
      then None else Some (d\<lparr>md_fuel := md_fuel d @ [r]\<rparr>))"

definition voyage_ok :: "Voyage \<Rightarrow> bool" where
  "voyage_ok v \<longleftrightarrow> (case (mv_BospAt v, mv_EospAt v) of (Some b, Some e) \<Rightarrow> b < e | _ \<Rightarrow> True)"

definition insert_voyage :: "Voyage \<Rightarrow> mrv_db \<Rightarrow> mrv_db option" where
  "insert_voyage v d =
     (if mv_VoyageID v \<in> mv_VoyageID ` set (md_voyages d) \<or> \<not> ship_known (mv_ImoNumber v) d \<or> \<not> voyage_ok v
      then None else Some (d\<lparr>md_voyages := md_voyages d @ [v]\<rparr>))"

definition report_ok :: "AnnualReport \<Rightarrow> bool" where
  "report_ok r \<longleftrightarrow>
     (mr_State r = ReportStateDraft \<longleftrightarrow> mr_SubmittedBy r = None)
     \<and> (mr_CiiRating r = None \<longleftrightarrow> mr_AttainedCiiNano r = None \<or> mr_RequiredCiiNano r = None)"

definition insert_report :: "AnnualReport \<Rightarrow> mrv_db \<Rightarrow> mrv_db option" where
  "insert_report r d =
     (if mr_ReportID r \<in> mr_ReportID ` set (md_reports d) \<or> \<not> ship_known (mr_ImoNumber r) d
         \<or> (mr_ImoNumber r, mr_CalendarYear r) \<in> (\<lambda>q. (mr_ImoNumber q, mr_CalendarYear q)) ` set (md_reports d)
         \<or> \<not> report_ok r
      then None else Some (d\<lparr>md_reports := md_reports d @ [r]\<rparr>))"

text \<open>The trigger \<open>mrv_annual_report_state_guard\<close>.\<close>

definition legal_transition :: "report_state \<Rightarrow> report_state \<Rightarrow> bool" where
  "legal_transition old new \<longleftrightarrow>
     (old = ReportStateDraft \<and> (new = ReportStateDraft \<or> new = ReportStateSubmitted))
     \<or> (old = ReportStateSubmitted \<and> new = ReportStateVerifierReview)
     \<or> (old = ReportStateVerifierReview
        \<and> (new = ReportStateVerified \<or> new = ReportStateRejected \<or> new = ReportStateSubmitted))"

definition same_figures :: "AnnualReport \<Rightarrow> AnnualReport \<Rightarrow> bool" where
  "same_figures old new \<longleftrightarrow>
     mr_Totals new = mr_Totals old \<and> mr_FactorSetHash new = mr_FactorSetHash old
     \<and> mr_AttainedCiiNano new = mr_AttainedCiiNano old \<and> mr_RequiredCiiNano new = mr_RequiredCiiNano old
     \<and> mr_CiiRating new = mr_CiiRating old"

definition state_guard :: "AnnualReport \<Rightarrow> AnnualReport \<Rightarrow> bool" where
  "state_guard old new \<longleftrightarrow>
     \<not> (mr_State old = mr_State new \<and> mr_State old \<noteq> ReportStateDraft)
     \<and> legal_transition (mr_State old) (mr_State new)
     \<and> (mr_State old \<noteq> ReportStateDraft \<longrightarrow> same_figures old new)"

definition update_report :: "(AnnualReport \<Rightarrow> bool) \<Rightarrow> (AnnualReport \<Rightarrow> AnnualReport) \<Rightarrow> mrv_db \<Rightarrow> mrv_db option" where
  "update_report hit f d =
     (case mrv_update hit f (\<lambda>old new. report_ok new \<and> state_guard old new) (md_reports d) of
        None \<Rightarrow> None | Some rs \<Rightarrow> Some (d\<lparr>md_reports := rs\<rparr>))"

definition find_report :: "string \<Rightarrow> mrv_db \<Rightarrow> AnnualReport option" where
  "find_report ident d = find (\<lambda>r. mr_ReportID r = ident) (md_reports d)"

text \<open>The trigger \<open>mrv_verification_four_eyes\<close> and the reference to the report.\<close>

definition insert_verification :: "Verification \<Rightarrow> mrv_db \<Rightarrow> mrv_db option" where
  "insert_verification v d =
     (if mn_VerificationID v \<in> mn_VerificationID ` set (md_verifications d)
         \<or> (mn_Decision v \<noteq> DecisionVerify \<and> mn_Reason v = [])
      then None
      else case find_report (mn_ReportID v) d of
        None \<Rightarrow> None
      | Some r \<Rightarrow>
          if mr_SubmittedBy r = Some (mn_Verifier v) then None
          else Some (d\<lparr>md_verifications := md_verifications d @ [v]\<rparr>))"

text \<open>The trigger \<open>mrv_soc_requires_verified\<close>.\<close>

definition insert_soc :: "soc_row \<Rightarrow> mrv_db \<Rightarrow> mrv_db option" where
  "insert_soc s d =
     (if mc_SocID s \<in> mc_SocID ` set (md_socs d) \<or> mc_ReportID s \<in> mc_ReportID ` set (md_socs d) then None
      else case find_report (mc_ReportID s) d of
        None \<Rightarrow> None
      | Some r \<Rightarrow>
          if mr_State r \<noteq> ReportStateVerified then None else Some (d\<lparr>md_socs := md_socs d @ [s]\<rparr>))"

definition insert_artifact :: "artifact_row \<Rightarrow> mrv_db \<Rightarrow> mrv_db option" where
  "insert_artifact a d =
     (if mt_ReportID a \<in> mt_ReportID ` set (md_artifacts d) \<or> find_report (mt_ReportID a) d = None then None
      else Some (d\<lparr>md_artifacts := md_artifacts d @ [a]\<rparr>))"

text \<open>The event types the table's CHECK admits.\<close>

definition outbox_types :: "string list" where
  "outbox_types = [''mrv.fuel-report.v1'', ''mrv.voyage.v1'', ''mrv.verification.v1'', ''mrv.emissions-annual.v1'',
     ''mrv.soc.v1'', ''mrv.activity-estimate.v1'']"

definition insert_outbox :: "outbox_row \<Rightarrow> mrv_db \<Rightarrow> mrv_db option" where
  "insert_outbox o1 d =
     (if mo_EventID o1 \<in> mo_EventID ` set (md_outbox d) \<or> mo_EventType o1 \<notin> set outbox_types then None
      else Some (d\<lparr>md_outbox := md_outbox d @ [o1]\<rparr>))"

definition mark_published :: "string \<Rightarrow> int \<Rightarrow> mrv_db \<Rightarrow> mrv_db option" where
  "mark_published ident now d =
     Some (d\<lparr>md_outbox := map (\<lambda>r. if mo_EventID r = ident then r\<lparr>mo_PublishedAt := Some now\<rparr> else r) (md_outbox d)\<rparr>)"

section \<open>Events\<close>

record eventContract =
  ec_topic :: string
  ec_resourceType :: string
  ec_classification :: string

definition EventFuelReport :: string where "EventFuelReport = ''mrv.fuel-report.v1''"
definition EventVoyage :: string where "EventVoyage = ''mrv.voyage.v1''"
definition EventVerification :: string where "EventVerification = ''mrv.verification.v1''"
definition EventEmissionsAnnual :: string where "EventEmissionsAnnual = ''mrv.emissions-annual.v1''"
definition EventSoC :: string where "EventSoC = ''mrv.soc.v1''"
definition EventActivityEstimate :: string where "EventActivityEstimate = ''mrv.activity-estimate.v1''"
definition EventVoyageEmissions :: string where "EventVoyageEmissions = ''mrv.voyage-emissions.v1''"

definition contract :: "string \<Rightarrow> string \<Rightarrow> string \<Rightarrow> eventContract" where
  "contract tp resource label = \<lparr>ec_topic = tp, ec_resourceType = resource, ec_classification = label\<rparr>"

definition eventContracts :: "string \<Rightarrow> eventContract option" where
  "eventContracts = map_of
     [(EventFuelReport, contract ''mrv.fuel-reports'' ''MrvFuelReportRecorded'' ''CONFIDENTIAL''),
      (EventVoyage, contract ''mrv.voyages'' ''MrvVoyageRecorded'' ''CONFIDENTIAL''),
      (EventVerification, contract ''mrv.verifications'' ''MrvVerificationRecorded'' ''CONFIDENTIAL''),
      (EventEmissionsAnnual, contract ''mrv.annual-reports'' ''MrvEmissionsAnnualReportSubmitted'' ''CONFIDENTIAL''),
      (EventSoC, contract ''mrv.soc'' ''MrvStatementOfComplianceIssued'' ''INTERNAL''),
      (EventActivityEstimate, contract ''mrv.activity-estimates'' ''MrvActivityEstimateComputed'' ''INTERNAL''),
      (EventVoyageEmissions, contract ''mrv.voyage-emissions'' ''MrvVoyageEmissionsComputed'' ''CONFIDENTIAL'')]"

definition ProducerName :: string where
  "ProducerName = ''blueeconomy-geo-service-mrv''"

text \<open>
  The three identifiers are the caller's event id and those of the bundle and the entry. The
  classifications of the contracts are labels of the ladder, so \<open>MustClassification\<close> returns them.
\<close>

definition mrv_unsigned ::
  "string \<times> string \<times> string \<Rightarrow> string \<Rightarrow> string \<Rightarrow> eventContract \<Rightarrow> fields \<Rightarrow> int \<Rightarrow> Provenance \<Rightarrow> string \<Rightarrow> Envelope" where
  "mrv_unsigned uuids eventType correlationID c resource occurredAt prin ledgerCommitHash =
     \<lparr>en_EnvelopeVersion = ''1.0'', en_EventID = snd (snd uuids), en_EventType = eventType,
      en_OccurredAt = occurredAt, en_Producer = ProducerName, en_CorrelationID = correlationID,
      en_Classification = ec_classification c,
      en_RecordClassification = (if ec_classification c = ''CONFIDENTIAL'' then ''CONFIDENTIAL'' else []),
      en_FHIR = \<lparr>fb_BundleID = ''bdl-'' @ fst uuids, fb_FullURL = ''urn:uuid:'' @ fst (snd uuids),
                 fb_Resource = (''@type'', JStr (typeURLPrefix @ ec_resourceType c)) # resource\<rparr>,
      en_Provenance = \<lparr>pv_PrincipalID = pv_PrincipalID prin, pv_PrincipalRole = pv_PrincipalRole prin,
                       pv_LedgerCommitHash = ledgerCommitHash, pv_Signature = []\<rparr>\<rparr>"

definition BuildSignedEnvelope ::
  "crypto \<Rightarrow> (string \<Rightarrow> bool) \<Rightarrow> string \<times> string \<times> string \<Rightarrow> string \<Rightarrow> string \<Rightarrow> fields \<Rightarrow> int \<Rightarrow> Provenance \<Rightarrow> string
     \<Rightarrow> Signer \<Rightarrow> mrv_error + Envelope" where
  "BuildSignedEnvelope C uuid_ok uuids eventType correlationID resource occurredAt prin ledgerCommitHash signer =
     (case eventContracts eventType of
        None \<Rightarrow> Inl (MrvText ''event type is not an mrv v1 contract type'')
      | Some c \<Rightarrow>
          if \<not> uuid_ok (snd (snd uuids)) then Inl (MrvText ''event id must be a UUID'')
          else if trim_space correlationID = [] then Inl (MrvText ''correlation id is required'')
          else if trim_space (pv_PrincipalID prin) = [] \<or> trim_space (pv_PrincipalRole prin) = []
          then Inl (MrvText ''provenance principal id and role are required'')
          else if occurredAt = zero_time then Inl (MrvText ''occurredAt is required'')
          else if resource = [] then Inl (MrvText ''resource must be a JSON object'')
          else if map_of resource ''@type'' \<noteq> None then Inl (MrvText ''resource must not carry an @type key'')
          else
            (let envelope = mrv_unsigned uuids eventType correlationID c resource occurredAt prin ledgerCommitHash
             in case Sign C signer envelope of
                  Inl e \<Rightarrow> Inl (MrvSign e)
                | Inr signature \<Rightarrow>
                    Inr (envelope\<lparr>en_Provenance := (en_Provenance envelope)\<lparr>pv_Signature := signature\<rparr>\<rparr>)))"

section \<open>The service\<close>

record Service =
  sv_Signer :: Signer
  sv_Principal :: Provenance
  sv_CII :: "CIIConfig option"
  sv_SoCIssuance :: string
  sv_ActivityParams :: ActivityParams
  sv_CrosscheckTolerancePermille :: int
  sv_DcsGTThreshold :: int

text \<open>The pool, the signer and the registry are present or the program does not start: their nil checks are left out.\<close>

definition NewService ::
  "Signer \<Rightarrow> Provenance \<Rightarrow> CIIConfig option \<Rightarrow> string \<Rightarrow> ActivityParams \<Rightarrow> int \<Rightarrow> int \<Rightarrow> mrv_error + Service" where
  "NewService signer prin cii socDeadline activity tolerancePermille dcsGTThreshold =
     (if trim_space (pv_PrincipalID prin) = [] \<or> trim_space (pv_PrincipalRole prin) = []
      then Inl (MrvText ''mrv producer principal is required'')
      else case ActivityParams_Validate activity of
        Some e \<Rightarrow> Inl (MrvText e)
      | None \<Rightarrow>
          if tolerancePermille = 0 \<or> tolerancePermille > 1000
          then Inl (MrvText ''AIS cross-check tolerance must be in (0, 1000] permille'')
          else if dcsGTThreshold = 0 then Inl (MrvText ''DCS GT threshold is configuration and must be positive'')
          else Inr \<lparr>sv_Signer = signer, sv_Principal = prin, sv_CII = cii, sv_SoCIssuance = socDeadline,
                    sv_ActivityParams = activity, sv_CrosscheckTolerancePermille = tolerancePermille,
                    sv_DcsGTThreshold = dcsGTThreshold\<rparr>)"

definition enqueueOutbox ::
  "mrv_externals \<Rightarrow> Service \<Rightarrow> string \<Rightarrow> string \<Rightarrow> string \<Rightarrow> fields \<Rightarrow> int \<Rightarrow> string \<Rightarrow> string mrv" where
  "enqueueOutbox X S eventType aggregateID correlationID resource occurredAt ledgerCommitHash =
     bindA (mrv_uuid X) (\<lambda>eventID.
     bindA (mrv_uuid X) (\<lambda>bundle.
     bindA (mrv_uuid X) (\<lambda>entry.
     case BuildSignedEnvelope (mx_crypto X) (mx_uuid_ok X) (bundle, entry, eventID) eventType correlationID resource
            occurredAt (sv_Principal S) ledgerCommitHash (sv_Signer S) of
       Inl e \<Rightarrow> raise e
     | Inr envelope \<Rightarrow>
         bindA (mrv_now X) (\<lambda>now.
         seqA (mrv_exec X ''insert mrv outbox row''
                (insert_outbox \<lparr>mo_EventID = eventID, mo_AggregateID = aggregateID, mo_EventType = eventType,
                   mo_Payload = envelope, mo_CreatedAt = now, mo_PublishedAt = None\<rparr>))
           (ret eventID)))))"

definition digestEvidence :: "mrv_externals \<Rightarrow> string \<Rightarrow> mrv_error + string" where
  "digestEvidence X evidence0 =
     (let evidence = (if evidence0 = [] then [CHR 0x7B, CHR 0x7D] else evidence0) in
      if \<not> mx_json_valid X evidence then Inl (MrvText ''evidence must be a valid JSON object'')
      else Inr (''sha256:'' @ mx_sha X evidence))"

section \<open>Ships and monitoring plans\<close>

definition digits :: "nat \<Rightarrow> string \<Rightarrow> bool" where
  "digits n s \<longleftrightarrow> length s = n \<and> list_all is_digit s"

definition RegisterShip :: "mrv_externals \<Rightarrow> Service \<Rightarrow> string \<Rightarrow> Ship \<Rightarrow> Ship mrv" where
  "RegisterShip X S actor ship0 =
     (if \<not> digits 7 (ms_ImoNumber ship0) then raise (MrvText ''imoNumber must be exactly 7 digits'')
      else if ms_MMSI ship0 \<noteq> [] \<and> \<not> digits 9 (ms_MMSI ship0) then raise (MrvText ''mmsi must be exactly 9 digits'')
      else if trim_space (ms_ShipName ship0) = [] \<or> ms_GT ship0 = 0 then raise (MrvText ''shipName and gt are required'')
      else
        (let ship = ship0\<lparr>ms_DcsScope := ms_GT ship0 \<ge> sv_DcsGTThreshold S \<and> ms_InternationalVoyages ship0,
                           ms_FlagState := (if ms_FlagState ship0 = [] then ''NG'' else ms_FlagState ship0),
                           ms_RegisteredBy := actor\<rparr>
         in seqA (wrapA (MrvWrap ''register ship'')
                   (withActor X actor
                     (bindA (mrv_now X) (\<lambda>stored.
                      mrv_exec X ''insert ship'' (insert_ship (ship\<lparr>ms_CreatedAt := stored\<rparr>))))))
              (bindA (mrv_asks (mx_now X)) (\<lambda>now. ret (ship\<lparr>ms_CreatedAt := now\<rparr>)))))"

definition GetShip :: "mrv_externals \<Rightarrow> string \<Rightarrow> string \<Rightarrow> Ship mrv" where
  "GetShip X actor imoNumber =
     wrapA (\<lambda>e. if e = MrvNoRows then MrvShipNotFound else MrvWrap ''get ship'' e)
       (withActor X actor
         (bindA (mrv_query X ''get ship'' (find_ship imoNumber)) (\<lambda>row. row_or_error MrvNoRows row)))"

fun methods_error :: "(string \<times> string) list \<Rightarrow> string option" where
  "methods_error [] = None"
| "methods_error ((consumer, method) # rest) =
     (if consumer \<notin> set consumer_types then Some ''methods key is not a DCS consumer type''
      else if method \<notin> set monitoring_methods then Some ''method is not an EU MRV Annex I method''
      else methods_error rest)"

definition next_version :: "string \<Rightarrow> mrv_db \<Rightarrow> int" where
  "next_version imo d = foldr (\<lambda>p m. max (mp_Version p) m) (filter (\<lambda>p. mp_ImoNumber p = imo) (md_plans d)) 0 + 1"

definition PutMonitoringPlan ::
  "mrv_externals \<Rightarrow> string \<Rightarrow> string \<Rightarrow> (string \<times> string) list \<Rightarrow> string list \<Rightarrow> MonitoringPlan mrv" where
  "PutMonitoringPlan X actor imoNumber methods fuelGrades =
     (if methods = [] \<or> fuelGrades = [] then raise (MrvText ''methods and fuelGrades are required'')
      else case methods_error methods of
        Some e \<Rightarrow> raise (MrvText e)
      | None \<Rightarrow>
          if list_ex (\<lambda>g. trim_space g = []) fuelGrades then raise (MrvText ''fuelGrades must not contain empty grades'')
          else
            bindA (mrv_uuid X) (\<lambda>planID.
            bindA (withActor X actor
              (bindA (mrv_query X ''ship exists'' (ship_known imoNumber)) (\<lambda>exists.
               if \<not> exists then raise MrvShipNotFound
               else
                 bindA (mrv_query X ''next plan version'' (next_version imoNumber)) (\<lambda>version.
                 bindA (mrv_now X) (\<lambda>stored.
                 let plan = \<lparr>mp_PlanID = planID, mp_ImoNumber = imoNumber, mp_Version = version, mp_Methods = methods,
                             mp_FuelGrades = fuelGrades, mp_State = PlanStateDraft, mp_CreatedBy = actor,
                             mp_CreatedAt = stored, mp_ConfirmedBy = None, mp_ConfirmedAt = None\<rparr>
                 in seqA (mrv_exec X ''insert plan'' (insert_plan plan)) (ret plan)))))) (\<lambda>plan.
            bindA (mrv_asks (mx_now X)) (\<lambda>now. ret (plan\<lparr>mp_CreatedAt := now\<rparr>)))))"

definition find_plan :: "string \<Rightarrow> mrv_db \<Rightarrow> MonitoringPlan option" where
  "find_plan planID d = find (\<lambda>p. mp_PlanID p = planID) (md_plans d)"

text \<open>The answer carries no creation time: the statement does not read the column.\<close>

definition ConfirmMonitoringPlan :: "mrv_externals \<Rightarrow> string \<Rightarrow> string \<Rightarrow> MonitoringPlan mrv" where
  "ConfirmMonitoringPlan X actor planID =
     withActor X actor
       (bindA (mrv_query X ''lock plan'' (find_plan planID)) (\<lambda>row.
        bindA (row_or_error MrvPlanNotFound row) (\<lambda>plan.
        if mp_CreatedBy plan = actor then raise MrvMakerCheckerConflict
        else if mp_State plan \<noteq> PlanStateDraft \<and> mp_State plan \<noteq> PlanStateSubmitted then raise MrvPlanState
        else
          bindA (mrv_now X) (\<lambda>now.
          seqA (mrv_exec X ''supersede plans''
                 (update_plans (\<lambda>p. mp_ImoNumber p = mp_ImoNumber plan \<and> mp_State p = PlanStateConfirmed)
                    (\<lambda>p. p\<lparr>mp_State := PlanStateSuperseded\<rparr>)))
         (seqA (mrv_exec X ''confirm plan''
                 (update_plans (\<lambda>p. mp_PlanID p = planID)
                    (\<lambda>p. p\<lparr>mp_State := PlanStateConfirmed, mp_ConfirmedBy := Some actor, mp_ConfirmedAt := Some now\<rparr>)))
           (ret (plan\<lparr>mp_State := PlanStateConfirmed, mp_CreatedAt := zero_time, mp_ConfirmedBy := Some actor,
                      mp_ConfirmedAt := Some now\<rparr>)))))))"

section \<open>Emission factors\<close>

definition factor_rows :: "string \<Rightarrow> string \<Rightarrow> int \<Rightarrow> mrv_db \<Rightarrow> FactorRow list" where
  "factor_rows fuelGrade gas periodDate d =
     sort_key (\<lambda>r. - fa_ValidFrom r)
       (filter (\<lambda>r. fa_FactorKey r = fuelGrade \<and> fa_Gas r = gas \<and> fa_ValidFrom r \<le> utc_day periodDate) (md_factors d))"

definition ResolveFactor :: "mrv_externals \<Rightarrow> string \<Rightarrow> string \<Rightarrow> int \<Rightarrow> FactorRow mrv" where
  "ResolveFactor X fuelGrade gas periodDate =
     bindA (mrv_query X ''resolve emission factor'' (factor_rows fuelGrade gas periodDate)) (\<lambda>rows.
     case rows of [] \<Rightarrow> raise MrvFactorUnavailable | r # _ \<Rightarrow> ret r)"

definition ListFactors :: "mrv_externals \<Rightarrow> FactorRow list mrv" where
  "ListFactors X =
     mrv_query X ''list emission factors'' (\<lambda>d. sort_key (\<lambda>r. (fa_FactorKey r, fa_Gas r, fa_ValidFrom r)) (md_factors d))"

section \<open>Fuel reports\<close>

definition validateFuelReport :: "FuelReport \<Rightarrow> string option" where
  "validateFuelReport r =
     (if fu_PeriodFrom r = zero_time \<or> fu_PeriodTo r = zero_time \<or> \<not> fu_PeriodTo r > fu_PeriodFrom r
      then Some ''periodFrom/periodTo are required and periodTo must be after periodFrom''
      else if fu_Consumer r \<notin> set consumer_types then Some ''consumer is not a DCS consumer type''
      else if fu_Method r \<notin> set monitoring_methods then Some ''method is not an EU MRV Annex I method''
      else if fu_Method r = ''A'' \<and> trim_space (fu_BdnRef r) = [] then Some ''bdnReference is mandatory for method A''
      else if trim_space (fu_FuelGrade r) = [] then Some ''fuelGrade is required''
      else None)"

definition plan_covers :: "string \<Rightarrow> FuelReport \<Rightarrow> mrv_db \<Rightarrow> bool" where
  "plan_covers imo r d \<longleftrightarrow>
     list_ex (\<lambda>p. mp_ImoNumber p = imo \<and> mp_State p = PlanStateConfirmed
        \<and> map_of (mp_Methods p) (fu_Consumer r) = Some (fu_Method r) \<and> fu_FuelGrade r \<in> set (mp_FuelGrades p)) (md_plans d)"

definition same_report :: "FuelReport \<Rightarrow> FuelReport \<Rightarrow> bool" where
  "same_report existing report \<longleftrightarrow>
     fu_PeriodFrom existing = fu_PeriodFrom report \<and> fu_PeriodTo existing = fu_PeriodTo report
     \<and> fu_Consumer existing = fu_Consumer report \<and> fu_FuelGrade existing = fu_FuelGrade report
     \<and> fu_Method existing = fu_Method report \<and> fu_FuelTonnesMilli existing = fu_FuelTonnesMilli report
     \<and> fu_DistanceNmMilli existing = fu_DistanceNmMilli report
     \<and> fu_HoursUnderwayMinutes existing = fu_HoursUnderwayMinutes report
     \<and> fu_BdnRef existing = fu_BdnRef report"

definition U64 :: "int \<Rightarrow> json" where
  "U64 v = JStr (show_int v)"

definition omit_U64 :: "string \<Rightarrow> int option \<Rightarrow> fields" where
  "omit_U64 k v = (case v of None \<Rightarrow> [] | Some x \<Rightarrow> [(k, U64 x)])"

definition FuelReportResource :: "FuelReport \<Rightarrow> int \<Rightarrow> fields" where
  "FuelReportResource r now =
     [(''reportId'', JStr (fu_ReportID r)), (''imoNumber'', JStr (fu_ImoNumber r)),
      (''externalReference'', JStr (fu_ExternalRef r)), (''periodFrom'', JTime (fu_PeriodFrom r)),
      (''periodTo'', JTime (fu_PeriodTo r)), (''consumer'', JStr (fu_Consumer r)), (''fuelGrade'', JStr (fu_FuelGrade r)),
      (''method'', JStr (fu_Method r)), (''fuelTonnesMilli'', U64 (fu_FuelTonnesMilli r))]
     @ omit_U64 ''distanceNmMilli'' (fu_DistanceNmMilli r)
     @ omit_U64 ''hoursUnderwayMinutes'' (fu_HoursUnderwayMinutes r)
     @ omit_str ''bdnReference'' (fu_BdnRef r)
     @ [(''evidenceDigestSha256'', JStr (fu_EvidenceDigestSha256 r)), (''reportedAt'', JTime now)]"

text \<open>The row keeps the instants to the microsecond; the stored evidence of a replay is not read back.\<close>

definition fuel_row :: "FuelReport \<Rightarrow> FuelReport" where
  "fuel_row r = r\<lparr>fu_PeriodFrom := micro (fu_PeriodFrom r), fu_PeriodTo := micro (fu_PeriodTo r)\<rparr>"

definition record_fuel :: "mrv_externals \<Rightarrow> Service \<Rightarrow> FuelReport \<Rightarrow> (FuelReport \<times> bool) mrv" where
  "record_fuel X S report0 =
     bindA (mrv_uuid X) (\<lambda>ident.
     bindA (mrv_now X) (\<lambda>now.
     let report = report0\<lparr>fu_ReportID := ident, fu_CreatedAt := now,
           fu_Evidence := (if fu_Evidence report0 = [] then [CHR 0x7B, CHR 0x7D] else fu_Evidence report0)\<rparr>
     in seqA (mrv_exec X ''insert fuel report'' (insert_fuel (fuel_row report)))
       (seqA (enqueueOutbox X S EventFuelReport (fu_ImoNumber report) ident (FuelReportResource report now) now [])
         (ret (report, False)))))"

definition SubmitFuelReport ::
  "mrv_externals \<Rightarrow> Service \<Rightarrow> string \<Rightarrow> string \<Rightarrow> string \<Rightarrow> FuelReport \<Rightarrow> (FuelReport \<times> bool) mrv" where
  "SubmitFuelReport X S actor imoNumber idempotencyKey report0 =
     (if trim_space idempotencyKey = [] then raise MrvIdempotencyKeyNeeded
      else case validateFuelReport report0 of
        Some e \<Rightarrow> raise (MrvText e)
      | None \<Rightarrow>
        (case digestEvidence X (fu_Evidence report0) of
           Inl e \<Rightarrow> raise e
         | Inr digest \<Rightarrow>
           (let report = report0\<lparr>fu_ImoNumber := imoNumber, fu_ExternalRef := idempotencyKey, fu_ReportedBy := actor,
                                  fu_EvidenceDigestSha256 := digest\<rparr>
            in withActor X actor
              (bindA (mrv_query X ''ship exists'' (ship_known imoNumber)) (\<lambda>exists.
               if \<not> exists then raise MrvShipNotFound
               else
                 bindA (mrv_query X ''confirmed plan'' (plan_covers imoNumber report)) (\<lambda>planOK.
                 if \<not> planOK then raise MrvNoConfirmedPlan
                 else
                   seqA (ResolveFactor X (fu_FuelGrade report) ''CO2'' (fu_PeriodTo report))
                   (bindA (mrv_query X ''replay'' (\<lambda>d. find (\<lambda>r. fu_ExternalRef r = idempotencyKey) (md_fuel d))) (\<lambda>found.
                    case found of
                      Some existing \<Rightarrow>
                        if same_report existing report
                        then ret (existing\<lparr>fu_ImoNumber := imoNumber, fu_ExternalRef := idempotencyKey, fu_Evidence := []\<rparr>, True)
                        else raise MrvIdempotencyConflict
                    | None \<Rightarrow> record_fuel X S report))))))))"

section \<open>Voyages and activity\<close>

text \<open>
  Migration 0007 lets a session read the zone events of the tenant it has bound (\<open>app.tenant_id\<close>);
  a transaction of this service binds its actor only.
\<close>

definition policy_events :: "string option \<Rightarrow> mrv_db \<Rightarrow> GeofenceEvent list" where
  "policy_events tenant d = filter (\<lambda>e. tenant = Some (gv_TenantID e)) (md_zone_events d)"

definition geofence_rows :: "string \<Rightarrow> int \<Rightarrow> int \<Rightarrow> mrv_db \<Rightarrow> GeofenceEvent list" where
  "geofence_rows mmsi t1 t2 d =
     take 100 (sort_key gv_OccurredAt
       (filter (\<lambda>e. gv_MMSI e = mmsi \<and> t1 \<le> gv_OccurredAt e \<and> gv_OccurredAt e \<le> t2) (policy_events None d)))"

definition event_digest :: "mrv_externals \<Rightarrow> GeofenceEvent \<Rightarrow> string" where
  "event_digest X e =
     ''sha256:'' @ mx_sha X (gv_GeofenceEventID e @ ''|'' @ gv_ZoneID e @ ''|'' @ gv_Event e @ ''|'' @ mx_rfc3339 X (gv_OccurredAt e))"

definition day :: int where
  "day = 24 * 3600 * second"

definition geofenceEvidenceDigests :: "mrv_externals \<Rightarrow> string \<Rightarrow> int option \<Rightarrow> int option \<Rightarrow> string list mrv" where
  "geofenceEvidenceDigests X mmsi bosp eosp =
     (case (bosp, eosp) of
        (None, None) \<Rightarrow> ret []
      | (Some b, Some e) \<Rightarrow> bindA (mrv_query X ''geofence evidence query'' (geofence_rows mmsi b e)) (\<lambda>rows. ret (map (event_digest X) rows))
      | (Some b, None) \<Rightarrow>
          bindA (mrv_query X ''geofence evidence query'' (geofence_rows mmsi (b - day) (b + day))) (\<lambda>rows. ret (map (event_digest X) rows))
      | (None, Some e) \<Rightarrow>
          bindA (mrv_query X ''geofence evidence query'' (geofence_rows mmsi (e - day) (e + day))) (\<lambda>rows. ret (map (event_digest X) rows)))"

definition VoyageResource :: "Voyage \<Rightarrow> int \<Rightarrow> fields" where
  "VoyageResource v now =
     [(''voyageId'', JStr (mv_VoyageID v)), (''imoNumber'', JStr (mv_ImoNumber v)), (''source'', JStr (mv_Source v))]
     @ omit_time ''bospAt'' (mv_BospAt v) @ omit_str ''bospPortCode'' (mv_BospPort v)
     @ omit_time ''eospAt'' (mv_EospAt v) @ omit_str ''eospPortCode'' (mv_EospPort v)
     @ omit_U64 ''cargoTonnesMilli'' (mv_CargoTonnesMilli v)
     @ omit_U64 ''ladenDistanceNmMilli'' (mv_LadenDistanceNmMilli v)
     @ [(''geofenceEvidenceDigestSha256'', JList (map JStr (mv_GeofenceEvidence v))), (''recordedAt'', JTime now)]"

definition voyage_row :: "Voyage \<Rightarrow> Voyage" where
  "voyage_row v = v\<lparr>mv_BospAt := map_option micro (mv_BospAt v), mv_EospAt := map_option micro (mv_EospAt v)\<rparr>"

definition store_voyage :: "mrv_externals \<Rightarrow> Service \<Rightarrow> string \<Rightarrow> string \<Rightarrow> Voyage \<Rightarrow> string list \<Rightarrow> Voyage mrv" where
  "store_voyage X S actor imoNumber voyage0 evidence =
     bindA (mrv_uuid X) (\<lambda>ident.
     bindA (mrv_now X) (\<lambda>now.
     let voyage = voyage0\<lparr>mv_VoyageID := ident, mv_ImoNumber := imoNumber, mv_Source := ''OPERATOR'',
                           mv_GeofenceEvidence := evidence, mv_RecordedBy := actor, mv_CreatedAt := now\<rparr>
     in seqA (mrv_exec X ''insert voyage'' (insert_voyage (voyage_row voyage)))
       (seqA (enqueueOutbox X S EventVoyage imoNumber ident (VoyageResource voyage now) now [])
          (ret (voyage\<lparr>mv_ImoNumber := mv_ImoNumber voyage0\<rparr>)))))"

definition RecordVoyage :: "mrv_externals \<Rightarrow> Service \<Rightarrow> string \<Rightarrow> string \<Rightarrow> Voyage \<Rightarrow> Voyage mrv" where
  "RecordVoyage X S actor imoNumber voyage0 =
     (if \<not> voyage_ok voyage0 then raise (MrvText ''eospAt must be after bospAt'')
      else
        withActor X actor
          (bindA (mrv_query X ''ship'' (find_ship imoNumber)) (\<lambda>row.
           bindA (row_or_error MrvShipNotFound row) (\<lambda>ship.
           bindA (if ms_MMSI ship = [] then ret []
                  else geofenceEvidenceDigests X (ms_MMSI ship) (mv_BospAt voyage0) (mv_EospAt voyage0)) (\<lambda>evidence.
           store_voyage X S actor imoNumber voyage0 evidence)))))"

definition position_fixes :: "string \<Rightarrow> int \<Rightarrow> int \<Rightarrow> (string \<Rightarrow> bool) \<Rightarrow> mrv_db \<Rightarrow> ActivityFix list" where
  "position_fixes mmsi t1 t2 label d =
     map (\<lambda>r. \<lparr>fx_ObservedAt = po_ObservedAt r, fx_LatMicros = po_LatitudeMicros r, fx_LonMicros = po_LongitudeMicros r,
               fx_SogMilliknots = (case po_SpeedOverGroundMilliknots r of None \<Rightarrow> 0 | Some v \<Rightarrow> v)\<rparr>)
       (sort_key po_ObservedAt
         (filter (\<lambda>r. po_MMSI r = mmsi \<and> t1 \<le> po_ObservedAt r \<and> po_ObservedAt r < t2 \<and> label (po_Classification r))
            (map ro_Position (md_positions d))))"

definition activityFixes :: "mrv_externals \<Rightarrow> string \<Rightarrow> int \<Rightarrow> int \<Rightarrow> string list \<Rightarrow> ActivityFix list mrv" where
  "activityFixes X mmsi t1 t2 labels =
     mrv_query X ''activity position query'' (position_fixes mmsi t1 t2 (\<lambda>l. l \<in> set labels))"

definition estimate_or_raise :: "mrv_externals \<Rightarrow> Service \<Rightarrow> ActivityFix list \<Rightarrow> int \<Rightarrow> int \<Rightarrow> ActivityEstimate mrv" where
  "estimate_or_raise X S fxs t1 t2 =
     (case EstimateActivity (mx_sha X) (mx_rfc3339 X) fxs t1 t2 (sv_ActivityParams S) of
        Inl e \<Rightarrow> raise (MrvActivity e) | Inr e \<Rightarrow> ret e)"

record ActivityEstimateResource =
  ae_EstimateID :: string
  ae_ImoNumber :: string
  ae_Mmsi :: string
  ae_PeriodFrom :: int
  ae_PeriodTo :: int
  ae_DistanceNmMilli :: int
  ae_HoursUnderwayMinutes :: int
  ae_InsufficientCoverage :: bool
  ae_InputDigestSha256 :: string
  ae_ComputedAt :: int

definition activity_fields :: "ActivityEstimateResource \<Rightarrow> fields" where
  "activity_fields a =
     [(''estimateId'', JStr (ae_EstimateID a)), (''imoNumber'', JStr (ae_ImoNumber a)), (''mmsi'', JStr (ae_Mmsi a)),
      (''periodFrom'', JTime (ae_PeriodFrom a)), (''periodTo'', JTime (ae_PeriodTo a)),
      (''distanceNmMilli'', U64 (ae_DistanceNmMilli a)), (''hoursUnderwayMinutes'', U64 (ae_HoursUnderwayMinutes a)),
      (''insufficientCoverage'', JRaw (if ae_InsufficientCoverage a then ''true'' else ''false'')),
      (''inputDigestSha256'', JStr (ae_InputDigestSha256 a)), (''computedAt'', JTime (ae_ComputedAt a))]"

definition estimate_resource :: "string \<Rightarrow> string \<Rightarrow> string \<Rightarrow> int \<Rightarrow> int \<Rightarrow> ActivityEstimate \<Rightarrow> int \<Rightarrow> ActivityEstimateResource" where
  "estimate_resource ident imoNumber mmsi t1 t2 e now =
     \<lparr>ae_EstimateID = ident, ae_ImoNumber = imoNumber, ae_Mmsi = mmsi, ae_PeriodFrom = t1, ae_PeriodTo = t2,
      ae_DistanceNmMilli = es_DistanceNmMilli e, ae_HoursUnderwayMinutes = es_HoursUnderwayMinutes e,
      ae_InsufficientCoverage = es_InsufficientCoverage e, ae_InputDigestSha256 = es_InputDigestSha256 e, ae_ComputedAt = now\<rparr>"

definition EstimateActivityForShip ::
  "mrv_externals \<Rightarrow> Service \<Rightarrow> string \<Rightarrow> string \<Rightarrow> int \<Rightarrow> int \<Rightarrow> string list \<Rightarrow> ActivityEstimateResource mrv" where
  "EstimateActivityForShip X S actor imoNumber t1 t2 labels =
     (if \<not> t1 < t2 then raise (MrvText ''from must be before to'')
      else if labels = [] then raise (MrvText ''caller clearance covers no position classifications'')
      else
        withActor X actor
          (bindA (mrv_query X ''ship'' (find_ship imoNumber)) (\<lambda>row.
           bindA (row_or_error MrvShipNotFound row) (\<lambda>ship.
           if ms_MMSI ship = [] then raise (MrvText ''ship has no confirmed AIS link'')
           else
             bindA (activityFixes X (ms_MMSI ship) t1 t2 labels) (\<lambda>fxs.
             bindA (estimate_or_raise X S fxs t1 t2) (\<lambda>e.
             bindA (mrv_now X) (\<lambda>now.
             bindA (mrv_uuid X) (\<lambda>ident.
             let result = estimate_resource ident imoNumber (ms_MMSI ship) t1 t2 e now
             in seqA (enqueueOutbox X S EventActivityEstimate (ms_MMSI ship) ident (activity_fields result) now [])
                  (ret result)))))))))"

section \<open>Emissions of a voyage\<close>

record VoyageGradeEmissions =
  vg_FuelGrade :: string
  vg_AllocatedFuelTonnesMilli :: int
  vg_CO2TonnesMilli :: int
  vg_FactorNano :: int
  vg_FactorCitation :: string

record VoyageEmissionsResource =
  ve_ComputationID :: string
  ve_VoyageID :: string
  ve_ImoNumber :: string
  ve_BospAt :: int
  ve_EospAt :: int
  ve_PerGrade :: "VoyageGradeEmissions list"
  ve_TotalCO2TonnesMilli :: int
  ve_AllocatedFuelTonnesMilli :: int
  ve_FuelReportCount :: nat
  ve_ActivityCrosscheck :: "ActivityEstimateResource option"
  ve_ComputedAt :: int

definition grade_emissions_fields :: "VoyageGradeEmissions \<Rightarrow> fields" where
  "grade_emissions_fields g =
     [(''fuelGrade'', JStr (vg_FuelGrade g)), (''allocatedFuelTonnesMilli'', U64 (vg_AllocatedFuelTonnesMilli g)),
      (''co2TonnesMilli'', U64 (vg_CO2TonnesMilli g)), (''factorNano'', U64 (vg_FactorNano g)),
      (''factorCitation'', JStr (vg_FactorCitation g))]"

definition voyage_emissions_fields :: "VoyageEmissionsResource \<Rightarrow> fields" where
  "voyage_emissions_fields v =
     [(''computationId'', JStr (ve_ComputationID v)), (''voyageId'', JStr (ve_VoyageID v)), (''imoNumber'', JStr (ve_ImoNumber v)),
      (''bospAt'', JTime (ve_BospAt v)), (''eospAt'', JTime (ve_EospAt v)),
      (''perGrade'', JList (map (JObj \<circ> grade_emissions_fields) (ve_PerGrade v))),
      (''totalCo2TonnesMilli'', U64 (ve_TotalCO2TonnesMilli v)),
      (''allocatedFuelTonnesMilli'', U64 (ve_AllocatedFuelTonnesMilli v)),
      (''fuelReportCount'', JInt (int (ve_FuelReportCount v))),
      (''allocationMethod'', JStr ''time-proportional overlap of each fuel report period with the BOSP/EOSP voyage window; factors resolved per row from the source-cited registry'')]
     @ (case ve_ActivityCrosscheck v of None \<Rightarrow> [] | Some a \<Rightarrow> [(''activityCrosscheck'', JObj (activity_fields a))])
     @ [(''computedAt'', JTime (ve_ComputedAt v))]"

fun add_voyage_grade :: "string \<Rightarrow> int \<Rightarrow> int \<Rightarrow> FactorRow \<Rightarrow> VoyageGradeEmissions list \<Rightarrow> VoyageGradeEmissions list" where
  "add_voyage_grade grade allocated co2 factor [] =
     [\<lparr>vg_FuelGrade = grade, vg_AllocatedFuelTonnesMilli = wrap_uint64 allocated, vg_CO2TonnesMilli = wrap_uint64 co2,
       vg_FactorNano = fa_FactorNano factor, vg_FactorCitation = fa_SourceCitation factor\<rparr>]"
| "add_voyage_grade grade allocated co2 factor (g # gs) =
     (if vg_FuelGrade g = grade
      then g\<lparr>vg_AllocatedFuelTonnesMilli := wrap_uint64 (vg_AllocatedFuelTonnesMilli g + allocated),
             vg_CO2TonnesMilli := wrap_uint64 (vg_CO2TonnesMilli g + co2)\<rparr> # gs
      else g # add_voyage_grade grade allocated co2 factor gs)"

definition co2_or_raise :: "int \<Rightarrow> FactorRow \<Rightarrow> int mrv" where
  "co2_or_raise fuelMilli factor =
     (case CO2MilliTonnes fuelMilli (fa_FactorNano factor) of Inl e \<Rightarrow> raise (MrvFactor e) | Inr v \<Rightarrow> ret v)"

fun allocate_rows :: "mrv_externals \<Rightarrow> FuelReport list \<Rightarrow> VoyageEmissionsResource \<Rightarrow> VoyageEmissionsResource mrv" where
  "allocate_rows X [] acc = ret acc"
| "allocate_rows X (r # rs) acc =
     (let allocated = allocateOverlap (fu_PeriodFrom r) (fu_PeriodTo r) (ve_BospAt acc) (ve_EospAt acc) (fu_FuelTonnesMilli r) in
      if allocated = 0 then allocate_rows X rs acc
      else
        bindA (ResolveFactor X (fu_FuelGrade r) ''CO2'' (fu_PeriodTo r)) (\<lambda>factor.
        bindA (co2_or_raise allocated factor) (\<lambda>co2.
        allocate_rows X rs
          (acc\<lparr>ve_PerGrade := add_voyage_grade (fu_FuelGrade r) allocated co2 factor (ve_PerGrade acc),
               ve_AllocatedFuelTonnesMilli := wrap_uint64 (ve_AllocatedFuelTonnesMilli acc + allocated),
               ve_TotalCO2TonnesMilli := wrap_uint64 (ve_TotalCO2TonnesMilli acc + co2),
               ve_FuelReportCount := Suc (ve_FuelReportCount acc)\<rparr>))))"

definition find_voyage :: "string \<Rightarrow> string \<Rightarrow> mrv_db \<Rightarrow> (Voyage \<times> Ship) option" where
  "find_voyage voyageID imoNumber d =
     (case find (\<lambda>v. mv_VoyageID v = voyageID \<and> mv_ImoNumber v = imoNumber) (md_voyages d) of
        None \<Rightarrow> None
      | Some v \<Rightarrow> (case find_ship imoNumber d of None \<Rightarrow> None | Some s \<Rightarrow> Some (v, s)))"

definition overlapping_fuel :: "string \<Rightarrow> int \<Rightarrow> int \<Rightarrow> mrv_db \<Rightarrow> FuelReport list" where
  "overlapping_fuel imoNumber t1 t2 d =
     sort_key (\<lambda>r. (fu_FuelGrade r, fu_PeriodFrom r))
       (filter (\<lambda>r. fu_ImoNumber r = imoNumber \<and> fu_PeriodFrom r < t2 \<and> fu_PeriodTo r > t1) (md_fuel d))"

definition voyage_crosscheck ::
  "mrv_externals \<Rightarrow> Service \<Rightarrow> string \<Rightarrow> Ship \<Rightarrow> int \<Rightarrow> int \<Rightarrow> string list \<Rightarrow> ActivityEstimateResource option mrv" where
  "voyage_crosscheck X S imoNumber ship t1 t2 labels =
     (if ms_MMSI ship = [] \<or> labels = [] then ret None
      else
        bindA (activityFixes X (ms_MMSI ship) t1 t2 labels) (\<lambda>fxs.
        bindA (estimate_or_raise X S fxs t1 t2) (\<lambda>e.
        bindA (mrv_uuid X) (\<lambda>estimateID.
        bindA (mrv_now X) (\<lambda>now.
        ret (Some (estimate_resource estimateID imoNumber (ms_MMSI ship) t1 t2 e now)))))))"

definition VoyageEmissions ::
  "mrv_externals \<Rightarrow> Service \<Rightarrow> string \<Rightarrow> string \<Rightarrow> string \<Rightarrow> string list \<Rightarrow> VoyageEmissionsResource mrv" where
  "VoyageEmissions X S actor imoNumber voyageID labels =
     withActor X actor
       (bindA (mrv_query X ''voyage'' (find_voyage voyageID imoNumber)) (\<lambda>row.
        bindA (row_or_error MrvVoyageNotFound row) (\<lambda>(voyage, ship).
        case (mv_BospAt voyage, mv_EospAt voyage) of
          (Some t1, Some t2) \<Rightarrow>
            if \<not> t1 < t2 then raise MrvVoyageZeroDurationWindow
            else
              bindA (mrv_query X ''voyage fuel overlap query'' (overlapping_fuel imoNumber t1 t2)) (\<lambda>rows.
              bindA (mrv_uuid X) (\<lambda>ident.
              bindA (allocate_rows X rows
                \<lparr>ve_ComputationID = ident, ve_VoyageID = voyageID, ve_ImoNumber = imoNumber, ve_BospAt = t1, ve_EospAt = t2,
                 ve_PerGrade = [], ve_TotalCO2TonnesMilli = 0, ve_AllocatedFuelTonnesMilli = 0, ve_FuelReportCount = 0,
                 ve_ActivityCrosscheck = None, ve_ComputedAt = zero_time\<rparr>) (\<lambda>result.
              bindA (voyage_crosscheck X S imoNumber ship t1 t2 labels) (\<lambda>check.
              bindA (mrv_now X) (\<lambda>now.
              let final = result\<lparr>ve_ActivityCrosscheck := check, ve_ComputedAt := now\<rparr>
              in seqA (enqueueOutbox X S EventVoyageEmissions imoNumber ident (voyage_emissions_fields final) now [])
                   (ret final))))))
        | _ \<Rightarrow> raise MrvVoyageWindowIncomplete)))"

record VoyageSkip =
  vk_VoyageID :: string
  vk_Reason :: mrv_error

record VoyageEmissionsSummary =
  vy_ImoNumber :: string
  vy_WindowFrom :: int
  vy_WindowTo :: int
  vy_Voyages :: "VoyageEmissionsResource list"
  vy_Skipped :: "VoyageSkip list"
  vy_TotalCO2TonnesMilli :: int
  vy_ComputedAt :: int

definition complete_voyages :: "string \<Rightarrow> int \<Rightarrow> int \<Rightarrow> mrv_db \<Rightarrow> (string \<times> int \<times> int) list" where
  "complete_voyages imo t1 t2 d =
     sort_key (\<lambda>(i, b, e). b)
       (concat (map (\<lambda>v. case (mv_BospAt v, mv_EospAt v) of
            (Some b, Some e) \<Rightarrow> if mv_ImoNumber v = imo \<and> b < t2 \<and> e > t1 then [(mv_VoyageID v, b, e)] else []
          | _ \<Rightarrow> []) (md_voyages d)))"

definition incomplete_voyages :: "string \<Rightarrow> int \<Rightarrow> int \<Rightarrow> mrv_db \<Rightarrow> string list" where
  "incomplete_voyages imo t1 t2 d =
     map mv_VoyageID (filter (\<lambda>v. mv_ImoNumber v = imo \<and> (mv_BospAt v = None \<or> mv_EospAt v = None)
       \<and> (let known = (case mv_BospAt v of Some b \<Rightarrow> b | None \<Rightarrow> (case mv_EospAt v of Some e \<Rightarrow> e | None \<Rightarrow> mv_CreatedAt v))
          in t1 \<le> known \<and> known < t2)) (md_voyages d))"

text \<open>The result of a read whose transaction error is dropped: what was read stays read, whether or not commit succeeds.\<close>

definition best_effort :: "mrv_externals \<Rightarrow> string \<Rightarrow> 'a \<Rightarrow> 'a mrv \<Rightarrow> 'a mrv" where
  "best_effort X actor fallback body =
     (if trim_space actor = [] then ret fallback
      else
        bindA (attempt (mrv_begin X)) (\<lambda>started.
        if isl started then ret fallback
        else
          bindA (attempt (seqA (mrv_exec X ''bind mrv actor'' Some) body)) (\<lambda>r.
          case r of
            Inl e \<Rightarrow> ret fallback
          | Inr v \<Rightarrow> seqA (attempt (mrv_exec X ''commit'' Some)) (ret v))))"

text \<open>The voyages whose window overlaps that of another one.\<close>

definition windows_overlap :: "string \<times> int \<times> int \<Rightarrow> string \<times> int \<times> int \<Rightarrow> bool" where
  "windows_overlap a b \<longleftrightarrow> fst (snd a) < snd (snd b) \<and> fst (snd b) < snd (snd a)"

fun overlapping_ids :: "(string \<times> int \<times> int) list \<Rightarrow> string list" where
  "overlapping_ids [] = []"
| "overlapping_ids (a # rest) =
     concat (map (\<lambda>b. if windows_overlap a b then [fst a, fst b] else []) rest) @ overlapping_ids rest"

definition skip :: "string \<Rightarrow> mrv_error \<Rightarrow> VoyageSkip" where
  "skip ident reason = \<lparr>vk_VoyageID = ident, vk_Reason = reason\<rparr>"

fun summarise ::
  "mrv_externals \<Rightarrow> Service \<Rightarrow> string \<Rightarrow> string \<Rightarrow> string list \<Rightarrow> string list \<Rightarrow> (string \<times> int \<times> int) list
     \<Rightarrow> VoyageEmissionsSummary \<Rightarrow> VoyageEmissionsSummary mrv" where
  "summarise X S actor imo labels overlapping [] summary = ret summary"
| "summarise X S actor imo labels overlapping (v # rest) summary =
     (if fst v \<in> set overlapping
      then summarise X S actor imo labels overlapping rest
             (summary\<lparr>vy_Skipped := vy_Skipped summary @ [skip (fst v) (MrvText ''OVERLAPPING_VOYAGE_WINDOW'')]\<rparr>)
      else
        bindA (attempt (VoyageEmissions X S actor imo (fst v) labels)) (\<lambda>r.
        case r of
          Inl e \<Rightarrow>
            if e = MrvVoyageNotFound \<or> e = MrvVoyageWindowIncomplete \<or> e = MrvVoyageZeroDurationWindow
            then summarise X S actor imo labels overlapping rest (summary\<lparr>vy_Skipped := vy_Skipped summary @ [skip (fst v) e]\<rparr>)
            else raise e
        | Inr computed \<Rightarrow>
            summarise X S actor imo labels overlapping rest
              (summary\<lparr>vy_Voyages := vy_Voyages summary @ [computed],
                       vy_TotalCO2TonnesMilli := wrap_uint64 (vy_TotalCO2TonnesMilli summary + ve_TotalCO2TonnesMilli computed)\<rparr>)))"

definition VoyageEmissionsSummaryForShip ::
  "mrv_externals \<Rightarrow> Service \<Rightarrow> string \<Rightarrow> string \<Rightarrow> int \<Rightarrow> int \<Rightarrow> string list \<Rightarrow> VoyageEmissionsSummary mrv" where
  "VoyageEmissionsSummaryForShip X S actor imo t1 t2 labels =
     (if \<not> t1 < t2 then raise (MrvText ''from must be before to'')
      else
        bindA (mrv_now X) (\<lambda>now.
        bindA (withActor X actor
                (bindA (mrv_query X ''ship exists'' (ship_known imo)) (\<lambda>exists.
                 if \<not> exists then raise MrvShipNotFound
                 else mrv_query X ''complete voyages'' (complete_voyages imo t1 t2)))) (\<lambda>voyages.
        bindA (best_effort X actor [] (mrv_query X ''incomplete voyages'' (incomplete_voyages imo t1 t2))) (\<lambda>incomplete.
        let zero = filter (\<lambda>v. \<not> fst (snd v) < snd (snd v)) voyages;
            computable = filter (\<lambda>v. fst (snd v) < snd (snd v)) voyages
        in summarise X S actor imo labels (overlapping_ids computable) computable
             \<lparr>vy_ImoNumber = imo, vy_WindowFrom = t1, vy_WindowTo = t2, vy_Voyages = [],
              vy_Skipped = map (\<lambda>i. skip i MrvVoyageWindowIncomplete) incomplete
                 @ map (\<lambda>v. skip (fst v) MrvVoyageZeroDurationWindow) zero,
              vy_TotalCO2TonnesMilli = 0, vy_ComputedAt = now\<rparr>))))"

section \<open>The annual report\<close>

fun add_grade :: "FuelReport \<Rightarrow> int \<Rightarrow> FactorRow \<Rightarrow> gradeTotal list \<Rightarrow> gradeTotal list" where
  "add_grade r co2 factor [] =
     [\<lparr>gt_FuelGrade = fu_FuelGrade r, gt_FuelTonnesMilli = wrap_uint64 (fu_FuelTonnesMilli r), gt_CO2TonnesMilli = wrap_uint64 co2,
       gt_FactorNano = fa_FactorNano factor, gt_FactorCitation = fa_SourceCitation factor\<rparr>]"
| "add_grade r co2 factor (g # gs) =
     (if gt_FuelGrade g = fu_FuelGrade r
      then g\<lparr>gt_FuelTonnesMilli := wrap_uint64 (gt_FuelTonnesMilli g + fu_FuelTonnesMilli r),
             gt_CO2TonnesMilli := wrap_uint64 (gt_CO2TonnesMilli g + co2)\<rparr> # gs
      else g # add_grade r co2 factor gs)"

definition nat_or_zero :: "int option \<Rightarrow> int" where
  "nat_or_zero v = (case v of None \<Rightarrow> 0 | Some x \<Rightarrow> x)"

definition add_totals :: "FuelReport \<Rightarrow> int \<Rightarrow> FactorRow \<Rightarrow> reportTotals \<Rightarrow> reportTotals" where
  "add_totals r co2 factor t =
     t\<lparr>rt_PerGrade := add_grade r co2 factor (rt_PerGrade t),
       rt_TotalFuelTonnesMilli := wrap_uint64 (rt_TotalFuelTonnesMilli t + fu_FuelTonnesMilli r),
       rt_CO2TonnesMilli := wrap_uint64 (rt_CO2TonnesMilli t + co2),
       rt_DistanceNmMilli := wrap_uint64 (rt_DistanceNmMilli t + nat_or_zero (fu_DistanceNmMilli r)),
       rt_HoursUnderwayMinutes := wrap_uint64 (rt_HoursUnderwayMinutes t + nat_or_zero (fu_HoursUnderwayMinutes r)),
       rt_FuelReportCount := Suc (rt_FuelReportCount t)\<rparr>"

fun aggregate :: "mrv_externals \<Rightarrow> FuelReport list \<Rightarrow> reportTotals \<Rightarrow> FactorRow list \<Rightarrow> (reportTotals \<times> FactorRow list) mrv" where
  "aggregate X [] totals factors = ret (totals, factors)"
| "aggregate X (r # rs) totals factors =
     bindA (ResolveFactor X (fu_FuelGrade r) ''CO2'' (fu_PeriodTo r)) (\<lambda>factor.
     bindA (co2_or_raise (fu_FuelTonnesMilli r) factor) (\<lambda>co2.
     aggregate X rs (add_totals r co2 factor totals)
       (if factor \<in> set factors then factors else factors @ [factor])))"

definition zero_totals :: reportTotals where
  "zero_totals = \<lparr>rt_PerGrade = [], rt_TotalFuelTonnesMilli = 0, rt_CO2TonnesMilli = 0, rt_DistanceNmMilli = 0,
     rt_HoursUnderwayMinutes = 0, rt_FuelReportCount = 0\<rparr>"

definition year_fuel :: "string \<Rightarrow> int \<Rightarrow> mrv_db \<Rightarrow> FuelReport list" where
  "year_fuel imo year d =
     sort_key (\<lambda>r. (fu_FuelGrade r, fu_PeriodFrom r))
       (filter (\<lambda>r. fu_ImoNumber r = imo \<and> year_start year \<le> fu_PeriodFrom r \<and> fu_PeriodTo r \<le> year_start (year + 1)) (md_fuel d))"

definition year_report :: "string \<Rightarrow> int \<Rightarrow> mrv_db \<Rightarrow> AnnualReport option" where
  "year_report imo year d = find (\<lambda>r. mr_ImoNumber r = imo \<and> mr_CalendarYear r = year) (md_reports d)"

definition EmissionsAnnualResource :: "AnnualReport \<Rightarrow> int \<Rightarrow> fields" where
  "EmissionsAnnualResource r submittedAt =
     [(''annualReportId'', JStr (mr_ReportID r)), (''imoNumber'', JStr (mr_ImoNumber r)), (''calendarYear'', JInt (mr_CalendarYear r)),
      (''state'', JStr (report_state_text (mr_State r))), (''co2TonnesMilli'', U64 (rt_CO2TonnesMilli (mr_Totals r))),
      (''distanceNmMilli'', U64 (rt_DistanceNmMilli (mr_Totals r))),
      (''hoursUnderwayMinutes'', U64 (rt_HoursUnderwayMinutes (mr_Totals r))),
      (''factorSetDigestSha256'', JStr (mr_FactorSetHash r))]
     @ omit_U64 ''attainedCiiNano'' (mr_AttainedCiiNano r) @ omit_U64 ''requiredCiiNano'' (mr_RequiredCiiNano r)
     @ (case mr_CiiRating r of None \<Rightarrow> [] | Some g \<Rightarrow> [(''ciiRating'', JStr (rating_text g))])
     @ [(''submittedAt'', JTime submittedAt)]"

definition enqueueAnnualEvent :: "mrv_externals \<Rightarrow> Service \<Rightarrow> AnnualReport \<Rightarrow> int \<Rightarrow> unit mrv" where
  "enqueueAnnualEvent X S report t =
     seqA (enqueueOutbox X S EventEmissionsAnnual (mr_ReportID report) (mr_ReportID report)
            (EmissionsAnnualResource report (case mr_SubmittedAt report of None \<Rightarrow> t | Some u \<Rightarrow> u)) t [])
       (ret ())"

text \<open>The figures a compilation writes, on a new or an existing draft.\<close>

definition compiled_report ::
  "mrv_externals \<Rightarrow> Service \<Rightarrow> Ship \<Rightarrow> string \<Rightarrow> string \<Rightarrow> int \<Rightarrow> reportTotals \<Rightarrow> FactorRow list \<Rightarrow> string \<Rightarrow> int \<Rightarrow> AnnualReport" where
  "compiled_report X S ship ident imo year totals factors actor now =
     (let cii = ComputeCII (sv_CII S) (ms_ShipType ship) (ms_GT ship) (nat_or_zero (ms_DWT ship)) year
                  (rt_CO2TonnesMilli totals) (rt_DistanceNmMilli totals)
      in \<lparr>mr_ReportID = ident, mr_ImoNumber = imo, mr_CalendarYear = year, mr_Totals = totals,
          mr_AttainedCiiNano = (case cii of NotComputable _ \<Rightarrow> None | Computed a r g v c \<Rightarrow> Some a),
          mr_RequiredCiiNano = (case cii of NotComputable _ \<Rightarrow> None | Computed a r g v c \<Rightarrow> Some r),
          mr_CiiRating = (case cii of NotComputable _ \<Rightarrow> None | Computed a r g v c \<Rightarrow> Some g),
          mr_FactorSetHash = FactorSetHash (mx_sha X) sort (mx_iso_date X) factors, mr_State = ReportStateDraft,
          mr_CompiledBy = actor, mr_SubmittedBy = None, mr_CreatedAt = now, mr_SubmittedAt = None\<rparr>)"

definition recompile :: "AnnualReport \<Rightarrow> AnnualReport \<Rightarrow> AnnualReport" where
  "recompile new old =
     old\<lparr>mr_Totals := mr_Totals new, mr_AttainedCiiNano := mr_AttainedCiiNano new, mr_RequiredCiiNano := mr_RequiredCiiNano new,
         mr_CiiRating := mr_CiiRating new, mr_FactorSetHash := mr_FactorSetHash new, mr_CompiledBy := mr_CompiledBy new\<rparr>"

definition store_report ::
  "mrv_externals \<Rightarrow> Service \<Rightarrow> Ship \<Rightarrow> string \<Rightarrow> string \<Rightarrow> int \<Rightarrow> reportTotals \<Rightarrow> FactorRow list \<Rightarrow> AnnualReport mrv" where
  "store_report X S ship actor imo year totals factors =
     bindA (mrv_query X ''lock report'' (year_report imo year)) (\<lambda>existing.
     bindA (mrv_now X) (\<lambda>now.
     case existing of
       None \<Rightarrow>
         bindA (mrv_uuid X) (\<lambda>ident.
         let report = compiled_report X S ship ident imo year totals factors actor now
         in seqA (mrv_exec X ''insert report'' (insert_report report))
              (seqA (enqueueAnnualEvent X S report now) (ret report)))
     | Some old \<Rightarrow>
         if mr_State old \<noteq> ReportStateDraft then raise MrvReportState
         else
           (let report = compiled_report X S ship (mr_ReportID old) imo year totals factors actor now
            in seqA (mrv_exec X ''recompile report''
                      (update_report (\<lambda>r. mr_ReportID r = mr_ReportID old \<and> mr_State r = ReportStateDraft) (recompile report)))
                 (seqA (enqueueAnnualEvent X S report now) (ret report)))))"

definition CompileAnnualReport :: "mrv_externals \<Rightarrow> Service \<Rightarrow> string \<Rightarrow> string \<Rightarrow> int \<Rightarrow> AnnualReport mrv" where
  "CompileAnnualReport X S actor imo year =
     (if year < 2019 \<or> year > 2200 then raise (MrvText ''calendar year out of range'')
      else
        withActor X actor
          (bindA (mrv_query X ''ship'' (find_ship imo)) (\<lambda>row.
           bindA (row_or_error MrvShipNotFound row) (\<lambda>ship.
           bindA (mrv_query X ''aggregate fuel reports'' (year_fuel imo year)) (\<lambda>rows.
           bindA (aggregate X rows zero_totals []) (\<lambda>(totals, factors).
           store_report X S ship actor imo year totals factors))))))"

definition lockReport :: "mrv_externals \<Rightarrow> string \<Rightarrow> AnnualReport mrv" where
  "lockReport X reportID =
     bindA (mrv_query X ''lock report'' (find_report reportID)) (\<lambda>row. row_or_error MrvReportNotFound row)"

definition SubmitAnnualReport :: "mrv_externals \<Rightarrow> Service \<Rightarrow> string \<Rightarrow> string \<Rightarrow> AnnualReport mrv" where
  "SubmitAnnualReport X S actor reportID =
     withActor X actor
       (bindA (lockReport X reportID) (\<lambda>loaded.
        if mr_State loaded \<noteq> ReportStateDraft then raise MrvReportState
        else if mr_CompiledBy loaded \<noteq> actor then raise (MrvText ''only the compiling reporter submits the report'')
        else
          bindA (mrv_now X) (\<lambda>now.
          let submit = (\<lambda>r. r\<lparr>mr_State := ReportStateSubmitted, mr_SubmittedBy := Some actor, mr_SubmittedAt := Some now\<rparr>)
          in seqA (mrv_exec X ''submit report'' (update_report (\<lambda>r. mr_ReportID r = reportID) submit))
               (seqA (enqueueAnnualEvent X S (submit loaded) now) (ret (submit loaded))))))"

section \<open>Verification and statement of compliance\<close>

definition marshalCrosscheck :: "mrv_externals \<Rightarrow> fields \<Rightarrow> CrosscheckResult \<Rightarrow> fields \<times> string \<times> CrosscheckResult" where
  "marshalCrosscheck X rec result =
     (let canonical = (case cr_jcs (mx_crypto X) (JObj rec) of Some c \<Rightarrow> c | None \<Rightarrow> mx_render X rec)
      in (rec, ''sha256:'' @ mx_sha X canonical, result))"

definition crosscheck_record :: "ActivityEstimate \<Rightarrow> reportTotals \<Rightarrow> CrosscheckResult \<Rightarrow> fields" where
  "crosscheck_record e totals result =
     [(''result'', JStr (crosscheck_text result)), (''estimatedDistanceNmMilli'', U64 (es_DistanceNmMilli e)),
      (''estimatedHoursUnderwayMinutes'', U64 (es_HoursUnderwayMinutes e)),
      (''reportedDistanceNmMilli'', U64 (rt_DistanceNmMilli totals)),
      (''reportedHoursUnderwayMinutes'', U64 (rt_HoursUnderwayMinutes totals)), (''fixCount'', JInt (int (es_FixCount e))),
      (''inputDigestSha256'', JStr (es_InputDigestSha256 e))]"

definition aisCrosscheck :: "mrv_externals \<Rightarrow> Service \<Rightarrow> AnnualReport \<Rightarrow> (fields \<times> string \<times> CrosscheckResult) mrv" where
  "aisCrosscheck X S report =
     bindA (attempt (mrv_query X ''ship'' (find_ship (mr_ImoNumber report)))) (\<lambda>found.
     case found of
       Inr (Some ship) \<Rightarrow>
         if ms_MMSI ship = []
         then ret (marshalCrosscheck X [(''result'', JStr (crosscheck_text CrosscheckNoReportedValues)), (''note'', JStr ''no confirmed AIS link'')]
                     CrosscheckNoReportedValues)
         else
           bindA (attempt (mrv_query X ''position plane''
                    (position_fixes (ms_MMSI ship) (year_start (mr_CalendarYear report)) (year_start (mr_CalendarYear report + 1)) (\<lambda>l. True)))) (\<lambda>rows.
           case rows of
             Inl e \<Rightarrow>
               ret (marshalCrosscheck X [(''result'', JStr (crosscheck_text CrosscheckInsufficientCoverage)), (''note'', JStr ''position plane query failed'')]
                      CrosscheckInsufficientCoverage)
           | Inr fxs \<Rightarrow>
               (case EstimateActivity (mx_sha X) (mx_rfc3339 X) fxs (year_start (mr_CalendarYear report)) (year_start (mr_CalendarYear report + 1)) (sv_ActivityParams S) of
                  Inl e \<Rightarrow>
                    ret (marshalCrosscheck X [(''result'', JStr (crosscheck_text CrosscheckInsufficientCoverage))] CrosscheckInsufficientCoverage)
                | Inr e \<Rightarrow>
                    (let result = Crosscheck e (rt_DistanceNmMilli (mr_Totals report)) (rt_HoursUnderwayMinutes (mr_Totals report))
                                    (sv_CrosscheckTolerancePermille S)
                     in ret (marshalCrosscheck X (crosscheck_record e (mr_Totals report) result) result))))
     | _ \<Rightarrow>
         ret (marshalCrosscheck X [(''result'', JStr (crosscheck_text CrosscheckNoReportedValues)), (''note'', JStr ''no confirmed AIS link'')]
                CrosscheckNoReportedValues))"

fun decided_state :: "decision \<Rightarrow> report_state" where
  "decided_state DecisionVerify = ReportStateVerified"
| "decided_state DecisionReject = ReportStateRejected"
| "decided_state DecisionClarify = ReportStateSubmitted"

fun decision_reason :: "decision \<Rightarrow> string" where
  "decision_reason DecisionVerify = []"
| "decision_reason DecisionReject = ''VERIFICATION_REJECTED''"
| "decision_reason DecisionClarify = ''OPERATOR_CLARIFICATION_REQUIRED''"

definition VerificationResource :: "Verification \<Rightarrow> string \<Rightarrow> fields" where
  "VerificationResource v crosscheckDigest =
     [(''verificationId'', JStr (mn_VerificationID v)), (''annualReportId'', JStr (mn_ReportID v)),
      (''decision'', JStr (decision_text (mn_Decision v))), (''reasonCode'', JStr (decision_reason (mn_Decision v)))]
     @ omit_str ''aisCrosscheckDigestSha256'' crosscheckDigest @ [(''decidedAt'', JTime (mn_DecidedAt v))]"

definition with_state :: "report_state \<Rightarrow> AnnualReport \<Rightarrow> AnnualReport" where
  "with_state st r = r\<lparr>mr_State := st\<rparr>"

definition store_decision ::
  "mrv_externals \<Rightarrow> Service \<Rightarrow> string \<Rightarrow> AnnualReport \<Rightarrow> string \<Rightarrow> decision \<Rightarrow> string \<Rightarrow> fields \<Rightarrow> string \<Rightarrow> CrosscheckResult
     \<Rightarrow> (Verification \<times> CrosscheckResult) mrv" where
  "store_decision X S actor report reportID dec reason crosscheck crosscheckDigest result =
     seqA (whenA (mr_State report = ReportStateSubmitted)
            (mrv_exec X ''enter review'' (update_report (\<lambda>r. mr_ReportID r = reportID) (with_state ReportStateVerifierReview))))
    (seqA (mrv_exec X ''decide report'' (update_report (\<lambda>r. mr_ReportID r = reportID) (with_state (decided_state dec))))
    (bindA (mrv_now X) (\<lambda>now.
     bindA (mrv_uuid X) (\<lambda>ident.
     let v = \<lparr>mn_VerificationID = ident, mn_ReportID = reportID, mn_Decision = dec, mn_Verifier = actor,
              mn_Reason = reason, mn_AISCrosscheck = crosscheck, mn_DecidedAt = now\<rparr>
     in seqA (mrv_exec X ''insert verification'' (insert_verification v))
          (seqA (enqueueOutbox X S EventVerification reportID ident (VerificationResource v crosscheckDigest) now [])
             (ret (v, result)))))))"

definition RecordDecision ::
  "mrv_externals \<Rightarrow> Service \<Rightarrow> string \<Rightarrow> string \<Rightarrow> string \<Rightarrow> string \<Rightarrow> (Verification \<times> CrosscheckResult) mrv" where
  "RecordDecision X S actor reportID decisionText reason =
     (case parse_decision decisionText of
        None \<Rightarrow> raise (MrvText ''decision is not a contract decision'')
      | Some dec \<Rightarrow>
          if dec \<noteq> DecisionVerify \<and> trim_space reason = []
          then raise (MrvText ''reason is mandatory for REJECT and REQUEST_CLARIFICATION'')
          else
            withActor X actor
              (bindA (lockReport X reportID) (\<lambda>report.
               if mr_State report \<noteq> ReportStateSubmitted \<and> mr_State report \<noteq> ReportStateVerifierReview then raise MrvReportState
               else if mr_SubmittedBy report = Some actor then raise MrvMakerCheckerConflict
               else
                 bindA (aisCrosscheck X S report) (\<lambda>(crosscheck, crosscheckDigest, result).
                 store_decision X S actor report reportID dec reason crosscheck crosscheckDigest result))))"

definition grade_fields :: "gradeTotal \<Rightarrow> fields" where
  "grade_fields g =
     [(''fuelGrade'', JStr (gt_FuelGrade g)), (''fuelTonnesMilli'', U64 (gt_FuelTonnesMilli g)), (''co2TonnesMilli'', U64 (gt_CO2TonnesMilli g)),
      (''factorNano'', U64 (gt_FactorNano g)), (''factorCitation'', JStr (gt_FactorCitation g))]"

definition totals_fields :: "reportTotals \<Rightarrow> fields" where
  "totals_fields t =
     [(''perGrade'', JList (map (JObj \<circ> grade_fields) (rt_PerGrade t))), (''totalFuelTonnesMilli'', U64 (rt_TotalFuelTonnesMilli t)),
      (''co2TonnesMilli'', U64 (rt_CO2TonnesMilli t)), (''distanceNmMilli'', U64 (rt_DistanceNmMilli t)),
      (''hoursUnderwayMinutes'', U64 (rt_HoursUnderwayMinutes t)), (''fuelReportCount'', JInt (int (rt_FuelReportCount t)))]"

definition artifact_document :: "mrv_externals \<Rightarrow> AnnualReport \<Rightarrow> int \<Rightarrow> fields" where
  "artifact_document X r t =
     [(''artifactType'', JStr ''mrv-annual-report-artifact/v1''), (''annualReportId'', JStr (mr_ReportID r)),
      (''imoNumber'', JStr (mr_ImoNumber r)), (''calendarYear'', JInt (mr_CalendarYear r)),
      (''state'', JStr (report_state_text (mr_State r))), (''factorSetDigestSha256'', JStr (mr_FactorSetHash r)),
      (''issuedAt'', JStr (mx_rfc3339 X t)), (''producer'', JStr ProducerName), (''totals'', JObj (totals_fields (mr_Totals r)))]
     @ (case mr_AttainedCiiNano r of
          None \<Rightarrow> [(''cii'', JStr ''NOT_COMPUTABLE'')]
        | Some a \<Rightarrow>
            [(''attainedCiiNano'', U64 a), (''requiredCiiNano'', U64 (nat_or_zero (mr_RequiredCiiNano r))),
             (''ciiRating'', JStr (case mr_CiiRating r of None \<Rightarrow> [] | Some g \<Rightarrow> rating_text g))])"

text \<open>\<open>SignCanonical\<close>: the payload is already canonical.\<close>

definition SignCanonical :: "crypto \<Rightarrow> (string \<Rightarrow> bool) \<Rightarrow> Signer \<Rightarrow> string \<Rightarrow> sign_error + string" where
  "SignCanonical C json_valid signer payload =
     (if payload = [] \<or> \<not> json_valid payload then Inl EmptyPayload else Inr (jws_compact C signer payload))"

definition buildArtifact :: "mrv_externals \<Rightarrow> Service \<Rightarrow> AnnualReport \<Rightarrow> int \<Rightarrow> mrv_error + fields \<times> string" where
  "buildArtifact X S report t =
     (let document = artifact_document X report t in
      case cr_jcs (mx_crypto X) (JObj document) of
        None \<Rightarrow> Inl (MrvText ''canonicalize artifact'')
      | Some canonical \<Rightarrow>
          (case SignCanonical (mx_crypto X) (mx_json_valid X) (sv_Signer S) canonical of
             Inl e \<Rightarrow> Inl (MrvSign e)
           | Inr signature \<Rightarrow>
               (let full = document @ [(''signature'', JStr signature)] in Inr (full, mx_sha X (mx_render X full)))))"

definition StatementOfComplianceResource :: "string \<Rightarrow> AnnualReport \<Rightarrow> string \<Rightarrow> int \<Rightarrow> fields" where
  "StatementOfComplianceResource socID r artifactDigest now =
     [(''socId'', JStr socID), (''annualReportId'', JStr (mr_ReportID r)), (''imoNumber'', JStr (mr_ImoNumber r)),
      (''calendarYear'', JInt (mr_CalendarYear r)), (''artifactDigestSha256'', JStr artifactDigest), (''issuedAt'', JTime now)]"

definition store_soc ::
  "mrv_externals \<Rightarrow> Service \<Rightarrow> string \<Rightarrow> AnnualReport \<Rightarrow> string \<Rightarrow> fields \<Rightarrow> string \<Rightarrow> int \<Rightarrow> (string \<times> string) mrv" where
  "store_soc X S actor report reportID artifact artifactSum now =
     seqA (mrv_exec X ''insert artifact''
            (insert_artifact \<lparr>mt_ReportID = reportID, mt_ArtifactJSON = artifact, mt_ArtifactSha256 = artifactSum\<rparr>))
    (bindA (mrv_uuid X) (\<lambda>socID.
     seqA (mrv_exec X ''insert statement''
            (insert_soc \<lparr>mc_SocID = socID, mc_ReportID = reportID, mc_IssuedBy = actor, mc_IssuedAt = now,
                         mc_ArtifactSha256 = artifactSum\<rparr>))
    (seqA (enqueueOutbox X S EventSoC socID reportID
            (StatementOfComplianceResource socID report (''sha256:'' @ artifactSum) now) now (''sha256:'' @ artifactSum))
       (ret (socID, artifactSum)))))"

definition IssueSoC :: "mrv_externals \<Rightarrow> Service \<Rightarrow> string \<Rightarrow> string \<Rightarrow> (string \<times> string) mrv" where
  "IssueSoC X S actor reportID =
     withActor X actor
       (bindA (lockReport X reportID) (\<lambda>report.
        if mr_State report \<noteq> ReportStateVerified then raise MrvReportState
        else
          bindA (mrv_query X ''statement exists'' (\<lambda>d. reportID \<in> mc_ReportID ` set (md_socs d))) (\<lambda>existing.
          if existing then raise MrvSoCExists
          else
            bindA (mrv_now X) (\<lambda>now.
            case buildArtifact X S report now of
              Inl e \<Rightarrow> raise e
            | Inr (artifact, artifactSum) \<Rightarrow> store_soc X S actor report reportID artifact artifactSum now))))"

definition GetAnnualReport :: "mrv_externals \<Rightarrow> string \<Rightarrow> string \<Rightarrow> AnnualReport mrv" where
  "GetAnnualReport X actor reportID = withActor X actor (lockReport X reportID)"

definition GetArtifact :: "mrv_externals \<Rightarrow> string \<Rightarrow> string \<Rightarrow> (fields \<times> string) mrv" where
  "GetArtifact X actor reportID =
     wrapA (\<lambda>e. if e = MrvNoRows then MrvReportNotFound else e)
       (withActor X actor
         (bindA (mrv_query X ''artifact'' (\<lambda>d. find (\<lambda>a. mt_ReportID a = reportID) (md_artifacts d))) (\<lambda>row.
          bindA (row_or_error MrvNoRows row) (\<lambda>a. ret (mt_ArtifactJSON a, mt_ArtifactSha256 a)))))"

section \<open>The outbox publisher\<close>

definition NewOutboxPublisher :: "int \<Rightarrow> nat" where
  "NewOutboxPublisher batchSize = nat (if batchSize \<le> 0 \<or> batchSize > 500 then 100 else batchSize)"

definition pending_rows :: "nat \<Rightarrow> mrv_db \<Rightarrow> outbox_row list" where
  "pending_rows batchSize d = take batchSize (sort_key mo_CreatedAt (filter (\<lambda>r. mo_PublishedAt r = None) (md_outbox d)))"

definition outbox_message :: "eventContract \<Rightarrow> outbox_row \<Rightarrow> mrv_message" where
  "outbox_message c r =
     \<lparr>mk_topic = ec_topic c, mk_key = mo_AggregateID r, mk_value = mo_Payload r,
      mk_headers = [(''content-type'', ''application/json''), (''eventType'', mo_EventType r), (''eventId'', mo_EventID r)]\<rparr>"

definition publish_row :: "mrv_externals \<Rightarrow> outbox_row \<Rightarrow> unit mrv" where
  "publish_row X r =
     (case eventContracts (mo_EventType r) of
        None \<Rightarrow> raise (MrvText ''outbox event has unknown type (fail closed)'')
      | Some c \<Rightarrow>
          bindA (attempt (mrv_publish X (outbox_message c r))) (\<lambda>sent.
          case sent of
            Inl e \<Rightarrow> seqA (mrv_count ''mrv_outbox_publish_total'' ''error'') (raise e)
          | Inr u \<Rightarrow>
              bindA (mrv_now X) (\<lambda>now.
              seqA (mrv_exec X ''mark published'' (mark_published (mo_EventID r) now))
                (mrv_count ''mrv_outbox_publish_total'' ''ok''))))"

definition Drain :: "mrv_externals \<Rightarrow> Service \<Rightarrow> nat \<Rightarrow> unit mrv" where
  "Drain X S batchSize =
     withActor X (pv_PrincipalID (sv_Principal S))
       (bindA (mrv_query X ''poll mrv outbox'' (pending_rows batchSize)) (\<lambda>batch. eachA (publish_row X) batch))"

end
