(* ===== verification/Mrv_Machine.thy ===== *)
theory Mrv_Machine
  imports Mrv_Service
begin

text \<open>
  What any sequence of calls of the emissions service leaves behind. Every call is one transaction: if it succeeds it
  had exactly the effect \<open>effect\<close> names for it, if it fails the tables are as before. The invariant of the tables
  follows from the effects alone; the lifecycle of a report is refined by them.
\<close>

section \<open>Calls\<close>

datatype mrv_op =
    OpRegister Ship
  | OpPlan string "(string \<times> string) list" "string list"
  | OpConfirm string
  | OpFuel string string FuelReport
  | OpVoyage string Voyage
  | OpEstimate string int int "string list"
  | OpVoyageEmissions string string "string list"
  | OpCompile string int
  | OpSubmit string
  | OpDecide string string string
  | OpIssue string
  | OpDrain nat

definition ignore_result :: "'a mrv \<Rightarrow> unit mrv" where
  "ignore_result m = seqA m (ret ())"

fun mrv_call :: "mrv_externals \<Rightarrow> Service \<Rightarrow> string \<Rightarrow> mrv_op \<Rightarrow> unit mrv" where
  "mrv_call X S actor (OpRegister ship) = ignore_result (RegisterShip X S actor ship)"
| "mrv_call X S actor (OpPlan imo methods grades) = ignore_result (PutMonitoringPlan X actor imo methods grades)"
| "mrv_call X S actor (OpConfirm planID) = ignore_result (ConfirmMonitoringPlan X actor planID)"
| "mrv_call X S actor (OpFuel imo key report) = ignore_result (SubmitFuelReport X S actor imo key report)"
| "mrv_call X S actor (OpVoyage imo voyage) = ignore_result (RecordVoyage X S actor imo voyage)"
| "mrv_call X S actor (OpEstimate imo t1 t2 labels) = ignore_result (EstimateActivityForShip X S actor imo t1 t2 labels)"
| "mrv_call X S actor (OpVoyageEmissions imo voyageID labels) = ignore_result (VoyageEmissions X S actor imo voyageID labels)"
| "mrv_call X S actor (OpCompile imo year) = ignore_result (CompileAnnualReport X S actor imo year)"
| "mrv_call X S actor (OpSubmit reportID) = ignore_result (SubmitAnnualReport X S actor reportID)"
| "mrv_call X S actor (OpDecide reportID dec reason) = ignore_result (RecordDecision X S actor reportID dec reason)"
| "mrv_call X S actor (OpIssue reportID) = ignore_result (IssueSoC X S actor reportID)"
| "mrv_call X S actor (OpDrain n) = Drain X S n"

definition mrv_step :: "mrv_externals \<Rightarrow> Service \<Rightarrow> mrv_world \<Rightarrow> string \<times> mrv_op \<Rightarrow> mrv_world" where
  "mrv_step X S w c = fst (mrv_call X S (fst c) (snd c) w)"

section \<open>Effects\<close>

text \<open>One signed event, not yet published, of the given type about the given aggregate.\<close>

definition signed_row :: "mrv_externals \<Rightarrow> Service \<Rightarrow> outbox_row \<Rightarrow> bool" where
  "signed_row X S row \<longleftrightarrow>
     (\<exists>uu corr res t h. snd (snd uu) = mo_EventID row
        \<and> BuildSignedEnvelope (mx_crypto X) (mx_uuid_ok X) uu (mo_EventType row) corr res t (sv_Principal S) h (sv_Signer S)
            = Inr (mo_Payload row))"

definition announces :: "mrv_externals \<Rightarrow> Service \<Rightarrow> string \<Rightarrow> string \<Rightarrow> mrv_db \<Rightarrow> mrv_db \<Rightarrow> bool" where
  "announces X S ty agg d d' \<longleftrightarrow>
     (\<exists>row. insert_outbox row d = Some d' \<and> mo_EventType row = ty \<and> mo_AggregateID row = agg
        \<and> mo_PublishedAt row = None \<and> signed_row X S row)"

definition marks :: "string set \<Rightarrow> mrv_db \<Rightarrow> mrv_db \<Rightarrow> bool" where
  "marks ids d d' \<longleftrightarrow> d' = d\<lparr>md_outbox := md_outbox d'\<rparr>
     \<and> list_all2 (\<lambda>r r'. if mo_EventID r \<in> ids then \<exists>now. r' = r\<lparr>mo_PublishedAt := Some now\<rparr> else r' = r) (md_outbox d) (md_outbox d')"

definition submitted :: "string \<Rightarrow> int \<Rightarrow> AnnualReport \<Rightarrow> AnnualReport" where
  "submitted actor now r = r\<lparr>mr_State := ReportStateSubmitted, mr_SubmittedBy := Some actor, mr_SubmittedAt := Some now\<rparr>"

definition draft_report :: "AnnualReport \<Rightarrow> string \<Rightarrow> string \<Rightarrow> int \<Rightarrow> bool" where
  "draft_report r actor imo year \<longleftrightarrow> mr_State r = ReportStateDraft \<and> mr_CompiledBy r = actor \<and> mr_SubmittedBy r = None
     \<and> mr_ImoNumber r = imo \<and> mr_CalendarYear r = year"

definition registered_ship :: "Service \<Rightarrow> string \<Rightarrow> Ship \<Rightarrow> int \<Rightarrow> Ship" where
  "registered_ship S actor ship now =
     ship\<lparr>ms_DcsScope := ms_GT ship \<ge> sv_DcsGTThreshold S \<and> ms_InternationalVoyages ship,
          ms_FlagState := (if ms_FlagState ship = [] then ''NG'' else ms_FlagState ship), ms_RegisteredBy := actor, ms_CreatedAt := now\<rparr>"

definition same_fuel :: "FuelReport \<Rightarrow> FuelReport \<Rightarrow> bool" where
  "same_fuel r report \<longleftrightarrow> fu_Consumer r = fu_Consumer report \<and> fu_FuelGrade r = fu_FuelGrade report \<and> fu_Method r = fu_Method report
     \<and> fu_FuelTonnesMilli r = fu_FuelTonnesMilli report \<and> fu_PeriodFrom r = micro (fu_PeriodFrom report)
     \<and> fu_PeriodTo r = micro (fu_PeriodTo report) \<and> fu_BdnRef r = fu_BdnRef report"

fun mrv_effect :: "mrv_externals \<Rightarrow> Service \<Rightarrow> string \<Rightarrow> mrv_op \<Rightarrow> mrv_db \<Rightarrow> mrv_db \<Rightarrow> bool" where
  "mrv_effect X S actor (OpRegister ship) d d' = (\<exists>t. insert_ship (registered_ship S actor ship t) d = Some d')"
| "mrv_effect X S actor (OpPlan imo methods grades) d d' =
     (\<exists>p. insert_plan p d = Some d' \<and> mp_ImoNumber p = imo \<and> mp_State p = PlanStateDraft \<and> mp_CreatedBy p = actor
        \<and> mp_Methods p = methods \<and> mp_FuelGrades p = grades \<and> mp_Version p = next_version imo d)"
| "mrv_effect X S actor (OpConfirm planID) d d' =
     (\<exists>p now d1. find_plan planID d = Some p \<and> mp_CreatedBy p \<noteq> actor
        \<and> (mp_State p = PlanStateDraft \<or> mp_State p = PlanStateSubmitted)
        \<and> update_plans (\<lambda>q. mp_ImoNumber q = mp_ImoNumber p \<and> mp_State q = PlanStateConfirmed)
             (\<lambda>q. q\<lparr>mp_State := PlanStateSuperseded\<rparr>) d = Some d1
        \<and> update_plans (\<lambda>q. mp_PlanID q = planID)
             (\<lambda>q. q\<lparr>mp_State := PlanStateConfirmed, mp_ConfirmedBy := Some actor, mp_ConfirmedAt := Some now\<rparr>) d1 = Some d')"
| "mrv_effect X S actor (OpFuel imo key report) d d' =
     (d' = d \<and> key \<in> fu_ExternalRef ` set (md_fuel d)
      \<or> (\<exists>r d1. insert_fuel r d = Some d1 \<and> announces X S EventFuelReport imo d1 d' \<and> fu_ImoNumber r = imo
           \<and> fu_ExternalRef r = key \<and> fu_ReportedBy r = actor \<and> same_fuel r report \<and> plan_covers imo r d
           \<and> factor_rows (fu_FuelGrade r) ''CO2'' (fu_PeriodTo report) d \<noteq> []))"
| "mrv_effect X S actor (OpVoyage imo voyage) d d' =
     (\<exists>v d1. insert_voyage v d = Some d1 \<and> announces X S EventVoyage imo d1 d' \<and> mv_RecordedBy v = actor \<and> mv_ImoNumber v = imo
        \<and> mv_BospAt v = map_option micro (mv_BospAt voyage) \<and> mv_EospAt v = map_option micro (mv_EospAt voyage))"
| "mrv_effect X S actor (OpEstimate imo t1 t2 labels) d d' =
     (\<exists>s. find_ship imo d = Some s \<and> announces X S EventActivityEstimate (ms_MMSI s) d d')"
| "mrv_effect X S actor (OpVoyageEmissions imo voyageID labels) d d' = False"
| "mrv_effect X S actor (OpCompile imo year) d d' =
     (\<exists>r d1. draft_report r actor imo year \<and> announces X S EventEmissionsAnnual (mr_ReportID r) d1 d'
        \<and> (insert_report r d = Some d1
           \<or> update_report (\<lambda>q. mr_ReportID q = mr_ReportID r \<and> mr_State q = ReportStateDraft) (recompile r) d = Some d1))"
| "mrv_effect X S actor (OpSubmit reportID) d d' =
     (\<exists>r now d1. find_report reportID d = Some r \<and> mr_State r = ReportStateDraft \<and> mr_CompiledBy r = actor
        \<and> update_report (\<lambda>q. mr_ReportID q = reportID) (submitted actor now) d = Some d1
        \<and> announces X S EventEmissionsAnnual (mr_ReportID r) d1 d')"
| "mrv_effect X S actor (OpDecide reportID text reason) d d' =
     (\<exists>dec r v d1 d2 d3. parse_decision text = Some dec \<and> find_report reportID d = Some r
        \<and> (mr_State r = ReportStateSubmitted \<or> mr_State r = ReportStateVerifierReview) \<and> mr_SubmittedBy r \<noteq> Some actor
        \<and> (if mr_State r = ReportStateSubmitted
           then update_report (\<lambda>q. mr_ReportID q = reportID) (with_state ReportStateVerifierReview) d = Some d1 else d1 = d)
        \<and> update_report (\<lambda>q. mr_ReportID q = reportID) (with_state (decided_state dec)) d1 = Some d2
        \<and> insert_verification v d2 = Some d3 \<and> mn_ReportID v = reportID \<and> mn_Decision v = dec \<and> mn_Verifier v = actor
        \<and> announces X S EventVerification reportID d3 d')"
| "mrv_effect X S actor (OpIssue reportID) d d' =
     (\<exists>r a s d1 d2 t. find_report reportID d = Some r \<and> mr_State r = ReportStateVerified
        \<and> insert_artifact a d = Some d1 \<and> insert_soc s d1 = Some d2 \<and> mt_ReportID a = reportID \<and> mc_ReportID s = reportID
        \<and> mc_IssuedBy s = actor \<and> mc_ArtifactSha256 s = mt_ArtifactSha256 a
        \<and> buildArtifact X S r t = Inr (mt_ArtifactJSON a, mt_ArtifactSha256 a) \<and> announces X S EventSoC (mc_SocID s) d2 d')"
| "mrv_effect X S actor (OpDrain n) d d' =
     marks (mo_EventID ` set (pending_rows n d)) d d'"

declare mrv_effect.simps [simp del]

section \<open>Every call has its effect\<close>

lemma enqueueOutbox_wp:
  "wp (enqueueOutbox X S ty agg corr res t h) (\<lambda>_ u. announces X S ty agg (mw_db v) (mw_db u)) (\<lambda>e u. True) v"
proof -
  let ?uu = "(mx_uuid X (Suc (mw_tick v)), mx_uuid X (Suc (Suc (mw_tick v))), mx_uuid X (mw_tick v))"
  have "announces X S ty agg (mw_db v) d"
    if "BuildSignedEnvelope (mx_crypto X) (mx_uuid_ok X) ?uu ty corr res t (sv_Principal S) h (sv_Signer S) = Inr env"
      "insert_outbox \<lparr>mo_EventID = mx_uuid X (mw_tick v), mo_AggregateID = agg, mo_EventType = ty, mo_Payload = env,
          mo_CreatedAt = now, mo_PublishedAt = None\<rparr> (mw_db v) = Some d" for env d now
    unfolding announces_def signed_row_def using that
    by (intro exI [of _ "\<lparr>mo_EventID = mx_uuid X (mw_tick v), mo_AggregateID = agg, mo_EventType = ty, mo_Payload = env,
          mo_CreatedAt = now, mo_PublishedAt = None\<rparr>"] conjI exI [of _ ?uu] exI [of _ corr] exI [of _ res] exI [of _ t] exI [of _ h])
      simp_all
  then show ?thesis
    by (auto simp: enqueueOutbox_def wp_simps split: sum.splits option.splits)
qed

lemma enqueueAnnualEvent_wp:
  "wp (enqueueAnnualEvent X S r t) (\<lambda>_ u. announces X S EventEmissionsAnnual (mr_ReportID r) (mw_db v) (mw_db u)) (\<lambda>e u. True) v"
  unfolding enqueueAnnualEvent_def wp_simps by (rule enqueueOutbox_wp)

text \<open>What a call did, from what its transaction did.\<close>

definition has_effect :: "mrv_externals \<Rightarrow> Service \<Rightarrow> string \<Rightarrow> mrv_op \<Rightarrow> bool" where
  "has_effect X S actor c \<longleftrightarrow>
     (\<forall>w. wp (mrv_call X S actor c) (\<lambda>_ u. mrv_effect X S actor c (mw_db w) (mw_db u)) (\<lambda>e u. mw_db u = mw_db w) w)"

lemma wp_ignore_result [wp_simps]: "wp (ignore_result m) Q E = (\<lambda>w. wp m (\<lambda>_ u. Q () u) E w)"
  by (simp add: fun_eq_iff ignore_result_def wp_simps)


lemma register_effect: "has_effect X S actor (OpRegister ship)"
proof -
  have tx: "wp (withActor X actor (bindA (mrv_now X) (\<lambda>stored. mrv_exec X l (insert_ship (s\<lparr>ms_CreatedAt := stored\<rparr>)))))
      (\<lambda>_ u. \<exists>t. insert_ship (registered_ship S actor ship t) (mw_db w) = Some (mw_db u)) (\<lambda>e u. mw_db u = mw_db w) w"
    if "\<And>t. s\<lparr>ms_CreatedAt := t\<rparr> = registered_ship S actor ship t" for s :: Ship and w l
    unfolding that by (rule withActor_tables) (auto simp: wp_simps split: option.splits)
  show ?thesis
    unfolding has_effect_def mrv_call.simps mrv_effect.simps RegisterShip_def Let_def
    by (auto simp: wp_simps registered_ship_def simp del: ex_simps intro!: wp_mono [OF tx])
qed

lemma plan_effect: "has_effect X S actor (OpPlan imo methods grades)"
proof -
  have tx: "wp (withActor X actor
      (bindA (mrv_query X l1 (ship_known imo)) (\<lambda>exists.
       if \<not> exists then raise MrvShipNotFound
       else bindA (mrv_query X l2 (next_version imo)) (\<lambda>version.
            bindA (mrv_now X) (\<lambda>stored.
            let plan = \<lparr>mp_PlanID = planID, mp_ImoNumber = imo, mp_Version = version, mp_Methods = methods,
                        mp_FuelGrades = grades, mp_State = PlanStateDraft, mp_CreatedBy = actor,
                        mp_CreatedAt = stored, mp_ConfirmedBy = None, mp_ConfirmedAt = None\<rparr>
            in seqA (mrv_exec X l3 (insert_plan plan)) (ret plan))))))
      (\<lambda>_ u. mrv_effect X S actor (OpPlan imo methods grades) (mw_db w) (mw_db u)) (\<lambda>e u. mw_db u = mw_db w) w" for w l1 l2 l3 planID
    by (rule withActor_tables) (auto simp: wp_simps mrv_effect.simps Let_def split: option.splits)
  show ?thesis
    unfolding has_effect_def mrv_call.simps PutMonitoringPlan_def
    by (auto simp: wp_simps split: option.split intro!: wp_mono [OF tx])
qed

lemma confirm_effect: "has_effect X S actor (OpConfirm planID)"
  unfolding has_effect_def mrv_call.simps ConfirmMonitoringPlan_def wp_ignore_result mrv_effect.simps
  by (intro allI withActor_tables) (auto simp: wp_simps split: option.splits)

text \<open>A statement followed by its event.\<close>

lemma exec_enqueue_wp:
  assumes "\<And>d1 d2. f (mw_db v) = Some d1 \<Longrightarrow> announces X S ty agg d1 d2 \<Longrightarrow> Q d2"
  shows "wp (seqA (mrv_exec X l f) (seqA (enqueueOutbox X S ty agg corr res t h) (ret r))) (\<lambda>_ u. Q (mw_db u)) (\<lambda>e u. True) v"
  by (auto simp: wp_simps split: option.split intro!: wp_mono [OF enqueueOutbox_wp] assms)

lemma plan_covers_row: "plan_covers imo (r\<lparr>fu_ReportID := i, fu_CreatedAt := t, fu_Evidence := e, fu_PeriodFrom := a, fu_PeriodTo := b\<rparr>) d \<longleftrightarrow> plan_covers imo r d"
  by (simp add: plan_covers_def)

lemma record_fuel_wp:
  assumes "plan_covers imo r (mw_db v)" "factor_rows (fu_FuelGrade r) ''CO2'' (fu_PeriodTo report) (mw_db v) \<noteq> []"
    "fu_ImoNumber r = imo" "fu_ExternalRef r = key" "fu_ReportedBy r = actor" "same_fuel (fuel_row r) report"
  shows "wp (record_fuel X S r) (\<lambda>_ u. mrv_effect X S actor (OpFuel imo key report) (mw_db v) (mw_db u)) (\<lambda>e u. True) v"
proof -
  have "mrv_effect X S actor (OpFuel imo key report) (mw_db v) d2"
    if "insert_fuel (fuel_row (r\<lparr>fu_ReportID := i, fu_CreatedAt := t, fu_Evidence := e\<rparr>)) (mw_db v) = Some d1"
      "announces X S EventFuelReport imo d1 d2" for i t e d1 d2
    using that assms unfolding mrv_effect.simps
    by (intro disjI2 exI [of _ "fuel_row (r\<lparr>fu_ReportID := i, fu_CreatedAt := t, fu_Evidence := e\<rparr>)"] exI [of _ d1])
      (simp add: fuel_row_def plan_covers_def same_fuel_def)
  note stored = this this [where e = "fu_Evidence r", simplified]
  show ?thesis
    unfolding record_fuel_def Let_def using assms(3) stored
    by (auto simp: wp_simps split: option.split intro!: wp_mono [OF enqueueOutbox_wp])
qed

lemma fuel_effect: "has_effect X S actor (OpFuel imo key report)"
proof -
  have tx: "wp (withActor X actor
      (bindA (mrv_query X l1 (ship_known imo)) (\<lambda>exists.
       if \<not> exists then raise MrvShipNotFound
       else bindA (mrv_query X l2 (plan_covers imo r)) (\<lambda>planOK.
         if \<not> planOK then raise MrvNoConfirmedPlan
         else seqA (ResolveFactor X (fu_FuelGrade r) ''CO2'' (fu_PeriodTo r))
           (bindA (mrv_query X l3 (\<lambda>d. find (\<lambda>r. fu_ExternalRef r = key) (md_fuel d))) (\<lambda>found.
            case found of
              Some existing \<Rightarrow>
                if same_report existing r
                then ret (existing\<lparr>fu_ImoNumber := imo, fu_ExternalRef := key, fu_Evidence := []\<rparr>, True)
                else raise MrvIdempotencyConflict
            | None \<Rightarrow> record_fuel X S r))))))
      (\<lambda>_ u. mrv_effect X S actor (OpFuel imo key report) (mw_db w) (mw_db u)) (\<lambda>e u. mw_db u = mw_db w) w"
    if r: "fu_ImoNumber r = imo" "fu_ExternalRef r = key" "fu_ReportedBy r = actor" "fu_PeriodTo r = fu_PeriodTo report" "same_fuel (fuel_row r) report" for r w l1 l2 l3
  proof (rule withActor_tables, goal_cases)
    case (1 v)
    have replay: "mrv_effect X S actor (OpFuel imo key report) (mw_db v) (mw_db v)"
      if "find (\<lambda>r. fu_ExternalRef r = key) (md_fuel (mw_db v)) = Some existing" for existing
      using that by (auto simp: find_Some_iff mrv_effect.simps)
    have rec: "wp (record_fuel X S r) (\<lambda>_ u. \<not> mw_aborted u \<longrightarrow> mrv_effect X S actor (OpFuel imo key report) (mw_db v) (mw_db u)) (\<lambda>e u. True) (v\<lparr>mw_tick := n\<rparr>)"
      if "plan_covers imo r (mw_db v)" "factor_rows (fu_FuelGrade r) ''CO2'' (fu_PeriodTo r) (mw_db v) \<noteq> []" for n
      using record_fuel_wp [of imo r "v\<lparr>mw_tick := n\<rparr>" report key actor X S] that r
      by (auto elim!: wp_mono)
    show ?case
      unfolding 1(1) [symmetric] ResolveFactor_def using replay rec
      by (auto simp: wp_simps split: option.split list.split)
  qed
  show ?thesis
    unfolding has_effect_def mrv_call.simps SubmitFuelReport_def Let_def wp_ignore_result
    by (auto simp: wp_simps same_fuel_def fuel_row_def split: option.split sum.split intro!: wp_mono [OF tx])
qed

lemma store_voyage_wp:
  "wp (store_voyage X S actor imo voyage evidence) (\<lambda>_ u. mrv_effect X S actor (OpVoyage imo voyage) (mw_db v) (mw_db u)) (\<lambda>e u. True) v"
proof -
  have "mrv_effect X S actor (OpVoyage imo voyage) (mw_db v) d2"
    if "insert_voyage v1 (mw_db v) = Some d1" "announces X S EventVoyage imo d1 d2" "mv_RecordedBy v1 = actor" "mv_ImoNumber v1 = imo"
      "mv_BospAt v1 = map_option micro (mv_BospAt voyage)" "mv_EospAt v1 = map_option micro (mv_EospAt voyage)" for v1 d1 d2
    using that by (auto simp: mrv_effect.simps)
  then show ?thesis
    unfolding store_voyage_def Let_def
    by (auto simp: wp_simps voyage_row_def split: option.split intro!: wp_mono [OF enqueueOutbox_wp])
qed

lemma geofenceEvidenceDigests_wp:
  "wp (geofenceEvidenceDigests X mmsi b e) (\<lambda>ds u. mw_db u = mw_db v \<and> ds = []) (\<lambda>e u. True) v"
  unfolding geofenceEvidenceDigests_def geofence_rows_def policy_events_def by (auto simp: wp_simps split: option.split)

lemma voyage_effect: "has_effect X S actor (OpVoyage imo voyage)"
proof -
  have "wp (withActor X actor (bindA (mrv_query X l (find_ship imo)) (\<lambda>row.
           bindA (row_or_error MrvShipNotFound row) (\<lambda>ship.
           bindA (if ms_MMSI ship = [] then ret []
                  else geofenceEvidenceDigests X (ms_MMSI ship) (mv_BospAt voyage) (mv_EospAt voyage)) (\<lambda>evidence.
           store_voyage X S actor imo voyage evidence)))))
      (\<lambda>_ u. mrv_effect X S actor (OpVoyage imo voyage) (mw_db w) (mw_db u)) (\<lambda>e u. mw_db u = mw_db w) w" for w l
  proof (rule withActor_tables, goal_cases)
    case (1 v)
    have store: "wp (store_voyage X S actor imo voyage evidence)
        (\<lambda>_ u. \<not> mw_aborted u \<longrightarrow> mrv_effect X S actor (OpVoyage imo voyage) (mw_db w) (mw_db u)) (\<lambda>e u. True) u"
      if "mw_db u = mw_db v" for u evidence
      using store_voyage_wp [of X S actor imo voyage evidence u] that 1 by (auto elim!: wp_mono)
    show ?case
      unfolding wp_bind wp_mrv_query wp_row_or_error
      using 1 store by (auto simp: wp_if wp_ret split: option.split intro!: wp_mono [OF geofenceEvidenceDigests_wp])
  qed
  then show ?thesis
    unfolding has_effect_def mrv_call.simps RecordVoyage_def wp_ignore_result by (simp add: wp_raise)
qed

lemma estimate_effect: "has_effect X S actor (OpEstimate imo t1 t2 labels)"
proof -
  have "wp (withActor X actor (bindA (mrv_query X l (find_ship imo)) (\<lambda>row.
           bindA (row_or_error MrvShipNotFound row) (\<lambda>ship.
           if ms_MMSI ship = [] then raise (MrvText m)
           else
             bindA (activityFixes X (ms_MMSI ship) t1 t2 labels) (\<lambda>fxs.
             bindA (estimate_or_raise X S fxs t1 t2) (\<lambda>e.
             bindA (mrv_now X) (\<lambda>now.
             bindA (mrv_uuid X) (\<lambda>ident.
             let result = estimate_resource ident imo (ms_MMSI ship) t1 t2 e now
             in seqA (enqueueOutbox X S EventActivityEstimate (ms_MMSI ship) ident (activity_fields result) now [])
                  (ret result))))))))) 
      (\<lambda>_ u. mrv_effect X S actor (OpEstimate imo t1 t2 labels) (mw_db w) (mw_db u)) (\<lambda>e u. mw_db u = mw_db w) w" for w l m
    unfolding Let_def activityFixes_def estimate_or_raise_def mrv_effect.simps
    by (rule withActor_tables) (auto simp: wp_simps split: option.split sum.split intro!: wp_mono [OF enqueueOutbox_wp])
  then show ?thesis
    unfolding has_effect_def mrv_call.simps EstimateActivityForShip_def wp_ignore_result by (simp add: wp_raise)
qed

lemma submitted_sel [simp]:
  "mr_ReportID (submitted a t r) = mr_ReportID r" "mr_State (submitted a t r) = ReportStateSubmitted"
  "mr_CompiledBy (submitted a t r) = mr_CompiledBy r" "mr_SubmittedBy (submitted a t r) = Some a"
  "mr_ImoNumber (submitted a t r) = mr_ImoNumber r" "mr_CalendarYear (submitted a t r) = mr_CalendarYear r"
  "same_figures r (submitted a t r)"
  by (simp_all add: submitted_def same_figures_def)

lemma submit_effect: "has_effect X S actor (OpSubmit reportID)"
proof -
  have effect: "mrv_effect X S actor (OpSubmit reportID) d d2"
    if "find_report reportID d = Some r" "mr_State r = ReportStateDraft" "mr_CompiledBy r = actor"
      "update_report (\<lambda>q. mr_ReportID q = reportID) (submitted actor now) d = Some d1"
      "announces X S EventEmissionsAnnual (mr_ReportID r) d1 d2" for r d d1 d2 now actor
    using that by (auto simp: mrv_effect.simps)
  show ?thesis
    unfolding has_effect_def mrv_call.simps SubmitAnnualReport_def wp_ignore_result lockReport_def Let_def submitted_def [symmetric]
    by (intro allI withActor_tables)
      (auto simp: wp_simps split: option.split intro!: wp_mono [OF enqueueAnnualEvent_wp] intro: effect)
qed

lemma compiled_report_draft: "draft_report (compiled_report X S ship i imo year totals factors actor now) actor imo year"
  "mr_ReportID (compiled_report X S ship i imo year totals factors actor now) = i"
  by (simp_all add: compiled_report_def draft_report_def Let_def)

lemma ResolveFactor_wp: "wp (ResolveFactor X g gas t) (\<lambda>_ u. mw_db u = mw_db v) (\<lambda>e u. True) v"
  by (auto simp: ResolveFactor_def wp_simps split: list.split)

lemma aggregate_wp: "wp (aggregate X rows totals factors) (\<lambda>_ u. mw_db u = mw_db v) (\<lambda>e u. True) v"
proof (induction rows arbitrary: totals factors v)
  case (Cons r rows)
  have "wp (aggregate X rows t fs) (\<lambda>_ u. mw_db u = mw_db v) (\<lambda>e u. True) u" if "mw_db u = mw_db v" for t fs u
    using Cons.IH [of t fs u] that by simp
  then show ?case
    by (auto simp: wp_simps co2_or_raise_def split: sum.split intro!: wp_mono [OF ResolveFactor_wp])
qed (simp add: wp_simps)

lemma store_report_wp:
  "wp (store_report X S ship actor imo year totals factors)
     (\<lambda>_ u. mrv_effect X S actor (OpCompile imo year) (mw_db v) (mw_db u)) (\<lambda>e u. True) v"
proof -
  have effect: "mrv_effect X S actor (OpCompile imo year) d d2"
    if "draft_report r actor imo year" "announces X S EventEmissionsAnnual (mr_ReportID r) d1 d2"
      "insert_report r d = Some d1
        \<or> update_report (\<lambda>q. mr_ReportID q = mr_ReportID r \<and> mr_State q = ReportStateDraft) (recompile r) d = Some d1" for r d d1 d2
    using that by (auto simp: mrv_effect.simps)
  show ?thesis
    unfolding store_report_def Let_def
    by (auto simp: wp_simps compiled_report_draft(2) split: option.split intro!: wp_mono [OF enqueueAnnualEvent_wp]
        intro: effect [OF compiled_report_draft(1)])
qed

lemma compile_effect: "has_effect X S actor (OpCompile imo year)"
proof -
  have "wp (withActor X actor (bindA (mrv_query X l (find_ship imo)) (\<lambda>row.
           bindA (row_or_error MrvShipNotFound row) (\<lambda>ship.
           bindA (mrv_query X l2 (year_fuel imo year)) (\<lambda>rows.
           bindA (aggregate X rows zero_totals []) (\<lambda>(totals, factors).
           store_report X S ship actor imo year totals factors))))))
      (\<lambda>_ u. mrv_effect X S actor (OpCompile imo year) (mw_db w) (mw_db u)) (\<lambda>e u. mw_db u = mw_db w) w" for w l l2
  proof (rule withActor_tables, goal_cases)
    case (1 v)
    have store: "wp (store_report X S ship actor imo year totals factors)
        (\<lambda>_ u. \<not> mw_aborted u \<longrightarrow> mrv_effect X S actor (OpCompile imo year) (mw_db w) (mw_db u)) (\<lambda>e u. True) u"
      if "mw_db u = mw_db v" for u ship totals factors
      using store_report_wp [of X S ship actor imo year totals factors u] that 1 by (auto elim!: wp_mono)
    show ?case
      unfolding wp_bind wp_mrv_query wp_row_or_error
      using 1 store by (auto simp: wp_pair split: option.split prod.split intro!: wp_mono [OF aggregate_wp])
  qed
  then show ?thesis
    unfolding has_effect_def mrv_call.simps CompileAnnualReport_def wp_ignore_result by (simp add: wp_raise)
qed

lemma store_decision_wp:
  assumes "parse_decision dtext = Some dec" "find_report reportID (mw_db v) = Some r" "mr_SubmittedBy r \<noteq> Some actor"
    "mr_State r = ReportStateSubmitted \<or> mr_State r = ReportStateVerifierReview"
  shows "wp (store_decision X S actor r reportID dec reason cc ccd result)
     (\<lambda>_ u. mrv_effect X S actor (OpDecide reportID dtext reason) (mw_db v) (mw_db u)) (\<lambda>e u. True) v"
proof -
  have effect: "mrv_effect X S actor (OpDecide reportID dtext reason) (mw_db v) d4"
    if "if mr_State r = ReportStateSubmitted
        then update_report (\<lambda>q. mr_ReportID q = reportID) (with_state ReportStateVerifierReview) (mw_db v) = Some d1 else d1 = mw_db v"
      "update_report (\<lambda>q. mr_ReportID q = reportID) (with_state (decided_state dec)) d1 = Some d2"
      "insert_verification n d2 = Some d3" "mn_ReportID n = reportID" "mn_Decision n = dec" "mn_Verifier n = actor"
      "announces X S EventVerification reportID d3 d4" for d1 d2 d3 d4 n
    using that assms unfolding mrv_effect.simps by blast
  show ?thesis
    unfolding store_decision_def Let_def wp_simps
    by (cases "mr_State r = ReportStateSubmitted")
      (auto simp: wp_simps split: option.split intro!: wp_mono [OF enqueueOutbox_wp] intro: effect [rotated -1])
qed

lemma aisCrosscheck_wp: "wp (aisCrosscheck X S r) (\<lambda>_ u. mw_db u = mw_db v) (\<lambda>e u. True) v"
  unfolding aisCrosscheck_def Let_def by (auto simp: wp_simps split: option.split sum.split)

lemma decide_effect: "has_effect X S actor (OpDecide reportID dtext reason)"
proof -
  have tx: "wp (withActor X actor (bindA (lockReport X reportID) (\<lambda>report.
       if mr_State report \<noteq> ReportStateSubmitted \<and> mr_State report \<noteq> ReportStateVerifierReview then raise MrvReportState
       else if mr_SubmittedBy report = Some actor then raise MrvMakerCheckerConflict
       else bindA (aisCrosscheck X S report) (\<lambda>(crosscheck, crosscheckDigest, result).
            store_decision X S actor report reportID dec reason crosscheck crosscheckDigest result))))
      (\<lambda>_ u. mrv_effect X S actor (OpDecide reportID dtext reason) (mw_db w) (mw_db u)) (\<lambda>e u. mw_db u = mw_db w) w"
    if dec: "parse_decision dtext = Some dec" for w dec
  proof (rule withActor_tables, goal_cases)
    case (1 v)
    have store: "wp (store_decision X S actor r reportID dec reason cc ccd result)
        (\<lambda>_ u. \<not> mw_aborted u \<longrightarrow> mrv_effect X S actor (OpDecide reportID dtext reason) (mw_db w) (mw_db u)) (\<lambda>e u. True) u"
      if "mw_db u = mw_db v" "find_report reportID (mw_db v) = Some r" "mr_SubmittedBy r \<noteq> Some actor"
        "mr_State r = ReportStateSubmitted \<or> mr_State r = ReportStateVerifierReview" for u r cc ccd result
      using store_decision_wp [OF dec, of reportID u r actor X S reason cc ccd result] that 1 by (auto elim!: wp_mono)
    show ?case
      unfolding wp_bind wp_mrv_query wp_row_or_error lockReport_def
      using 1 store by (auto simp: wp_if wp_raise wp_pair wp_bind split: option.split prod.split intro!: wp_mono [OF aisCrosscheck_wp])
  qed
  show ?thesis
    unfolding has_effect_def mrv_call.simps RecordDecision_def wp_ignore_result
    by (auto simp: wp_if wp_raise wp_option split: option.split intro!: wp_mono [OF tx])
qed


lemma store_soc_wp:
  assumes "find_report reportID (mw_db v) = Some r" "mr_State r = ReportStateVerified" "buildArtifact X S r t = Inr (artifact, asum)"
  shows "wp (store_soc X S actor r reportID artifact asum now)
     (\<lambda>_ u. mrv_effect X S actor (OpIssue reportID) (mw_db v) (mw_db u)) (\<lambda>e u. True) v"
proof -
  have "mrv_effect X S actor (OpIssue reportID) (mw_db v) d3"
    if "insert_artifact a (mw_db v) = Some d1" "insert_soc s d1 = Some d2" "announces X S EventSoC (mc_SocID s) d2 d3"
      "a = \<lparr>mt_ReportID = reportID, mt_ArtifactJSON = artifact, mt_ArtifactSha256 = asum\<rparr>"
      "s = \<lparr>mc_SocID = i, mc_ReportID = reportID, mc_IssuedBy = actor, mc_IssuedAt = now, mc_ArtifactSha256 = asum\<rparr>" for a s i d1 d2 d3
    unfolding mrv_effect.simps using that assms
    by (intro exI [of _ r] exI [of _ a] exI [of _ s] exI [of _ d1] exI [of _ d2] exI [of _ t]) simp
  then show ?thesis
    unfolding store_soc_def by (auto simp: wp_simps split: option.split intro!: wp_mono [OF enqueueOutbox_wp])
qed

lemma issue_effect: "has_effect X S actor (OpIssue reportID)"
  unfolding has_effect_def mrv_call.simps wp_ignore_result IssueSoC_def lockReport_def
proof (intro allI, rule withActor_tables, goal_cases)
  case (1 w v)
  have "wp (store_soc X S actor r reportID artifact asum now)
      (\<lambda>_ u. \<not> mw_aborted u \<longrightarrow> mrv_effect X S actor (OpIssue reportID) (mw_db w) (mw_db u)) (\<lambda>e u. True) u"
    if "mw_db u = mw_db v" "find_report reportID (mw_db v) = Some r" "mr_State r = ReportStateVerified"
      "buildArtifact X S r now = Inr (artifact, asum)" for u r artifact asum now
    using store_soc_wp [of reportID u r X S now artifact asum actor now] that 1 by (auto elim!: wp_mono)
  then show ?case
    using 1 by (auto simp: wp_simps split: option.split sum.split prod.split)
qed

subsection \<open>The emissions of a voyage\<close>

lemma voyage_emissions_type: "\<not> announces X S EventVoyageEmissions agg d d'"
  by (auto simp: announces_def insert_outbox_def outbox_types_def EventVoyageEmissions_def)


text \<open>A call that never succeeds.\<close>

definition never :: "'a mrv \<Rightarrow> bool" where
  "never m \<longleftrightarrow> (\<forall>w. wp m (\<lambda>_ _. False) (\<lambda>_ _. True) w)"

lemma neverD: "never m \<Longrightarrow> wp m (\<lambda>_ _. False) (\<lambda>_ _. True) w"
  by (simp add: never_def)

lemma never_raise: "never (raise e)"
  by (simp add: never_def wp_simps)

lemma never_bind: "(\<And>x. never (f x)) \<Longrightarrow> never (bindA m f)"
  by (auto simp: never_def wp_bind) (simp add: wp_def split: prod.splits sum.splits)

lemma never_seq_left: "never m \<Longrightarrow> never (seqA m n)"
  unfolding never_def wp_seq by (intro allI wp_mono [OF neverD]) (auto simp: never_def)

lemma never_if: "never m \<Longrightarrow> never n \<Longrightarrow> never (if b then m else n)"
  by simp

lemma never_withActor: "never fn \<Longrightarrow> never (withActor X actor fn)"
  unfolding never_def [of "withActor X actor fn"] wp_withActor by (auto intro!: wp_mono [OF neverD])

lemma enqueue_never: "never (enqueueOutbox X S EventVoyageEmissions agg corr res t h)"
  unfolding never_def by (intro allI wp_mono [OF enqueueOutbox_wp]) (simp_all add: voyage_emissions_type)

lemma voyage_emissions_never: "never (VoyageEmissions X S actor imo voyageID labels)"
  unfolding VoyageEmissions_def Let_def
  by (auto intro!: never_withActor never_bind never_seq_left never_if never_raise enqueue_never split: prod.split option.split)

lemma voyage_emissions_effect: "has_effect X S actor (OpVoyageEmissions imo voyageID labels)"
proof -
  have "wp (VoyageEmissions X S actor imo voyageID labels) (\<lambda>_ u. True) (\<lambda>e u. mw_db u = mw_db w) w" for w
    unfolding VoyageEmissions_def by (rule withActor_tables) (auto simp: wp_def split: prod.split sum.split)
  with neverD [OF voyage_emissions_never [of X S actor imo voyageID labels]]
  have "wp (VoyageEmissions X S actor imo voyageID labels) (\<lambda>_ u. False) (\<lambda>e u. mw_db u = mw_db w) w" for w
    unfolding wp_def by (smt (verit) case_prod_beta sum.case_eq_if)
  then show ?thesis
    unfolding has_effect_def mrv_call.simps wp_ignore_result mrv_effect.simps by blast
qed

subsection \<open>The outbox publisher\<close>

definition sends :: "outbox_row list \<Rightarrow> mrv_message list \<Rightarrow> bool" where
  "sends rs ms \<longleftrightarrow> list_all2 (\<lambda>r m. \<exists>c. eventContracts (mo_EventType r) = Some c \<and> m = outbox_message c r) rs ms"

lemma marks_refl: "marks {} d d"
  by (simp add: marks_def list_all2_same)

lemma marks_trans: "marks I d d1 \<Longrightarrow> marks J d1 d2 \<Longrightarrow> marks (I \<union> J) d d2"
proof -
  assume m: "marks I d d1" "marks J d1 d2"
  let ?P = "\<lambda>I r r'. if mo_EventID r \<in> I then \<exists>now. r' = r\<lparr>mo_PublishedAt := Some now\<rparr> else r' = r"
  have all: "list_all2 (?P I) (md_outbox d) (md_outbox d1)" "list_all2 (?P J) (md_outbox d1) (md_outbox d2)"
    using m by (simp_all add: marks_def)
  have "list_all2 (?P (I \<union> J)) (md_outbox d) (md_outbox d2)"
    by (rule list_all2_trans [OF _ all]) (auto split: if_splits)
  moreover have "d2 = d\<lparr>md_outbox := md_outbox d2\<rparr>" using m by (cases d, cases d1, cases d2) (simp add: marks_def)
  ultimately show ?thesis by (simp add: marks_def)
qed

lemma mark_published_marks: "mark_published i now d = Some d' \<Longrightarrow> marks {i} d d'"
  by (auto simp: mark_published_def marks_def list_all2_conv_all_nth)

lemma publish_row_wp:
  "wp (publish_row X r) (\<lambda>_ u. marks {mo_EventID r} (mw_db v) (mw_db u) \<and> (\<exists>m. sends [r] [m] \<and> mw_kafka u = mw_kafka v @ [m]))
     (\<lambda>e u. mw_kafka u = mw_kafka v \<or> (\<exists>m. sends [r] [m] \<and> mw_kafka u = mw_kafka v @ [m])) v"
  unfolding publish_row_def
  by (auto simp: wp_simps sends_def dest: mark_published_marks split: option.split)

lemma each_publish_wp:
  "wp (eachA (publish_row X) rs)
     (\<lambda>_ u. marks (mo_EventID ` set rs) (mw_db v) (mw_db u) \<and> (\<exists>ms. sends rs ms \<and> mw_kafka u = mw_kafka v @ ms))
     (\<lambda>e u. \<exists>k ms. sends (take k rs) ms \<and> mw_kafka u = mw_kafka v @ ms) v"
proof (induction rs arbitrary: v)
  case Nil
  then show ?case by (simp add: wp_simps marks_refl sends_def)
next
  case (Cons r rs)
  show ?case
    unfolding eachA.simps wp_seq
  proof (rule wp_mono [OF publish_row_wp], goal_cases)
    case (1 x u)
    then obtain m where m: "marks {mo_EventID r} (mw_db v) (mw_db u)" "sends [r] [m]" "mw_kafka u = mw_kafka v @ [m]" by blast
    show ?case
    proof (rule wp_mono [OF Cons.IH [of u]], goal_cases)
      case (1 y z)
      then obtain ms where "marks (mo_EventID ` set rs) (mw_db u) (mw_db z)" "sends rs ms" "mw_kafka z = mw_kafka u @ ms" by blast
      then have "marks (mo_EventID ` set (r # rs)) (mw_db v) (mw_db z)" "sends (r # rs) (m # ms)" "mw_kafka z = mw_kafka v @ m # ms"
        using m marks_trans [OF m(1)] by (simp_all add: sends_def)
      then show ?case by blast
    next
      case (2 e z)
      then obtain k ms where "sends (take k rs) ms" "mw_kafka z = mw_kafka u @ ms" by blast
      then have "sends (take (Suc k) (r # rs)) (m # ms)" "mw_kafka z = mw_kafka v @ m # ms" using m by (simp_all add: sends_def)
      then show ?case by blast
    qed
  next
    case (2 e u)
    then consider "mw_kafka u = mw_kafka v" | m where "sends [r] [m]" "mw_kafka u = mw_kafka v @ [m]" by blast
    then show ?case
    proof cases
      case 1
      then show ?thesis by (intro exI [of _ 0] exI [of _ "[]"]) (simp add: sends_def)
    next
      case 2
      then show ?thesis by (intro exI [of _ 1] exI [of _ "[m]"]) simp
    qed
  qed
qed

lemma Drain_wp:
  "wp (Drain X S n)
     (\<lambda>_ u. marks (mo_EventID ` set (pending_rows n (mw_db w))) (mw_db w) (mw_db u)
        \<and> (\<exists>ms. sends (pending_rows n (mw_db w)) ms \<and> mw_kafka u = mw_kafka w @ ms))
     (\<lambda>e u. mw_db u = mw_db w \<and> (\<exists>k ms. sends (take k (pending_rows n (mw_db w))) ms \<and> mw_kafka u = mw_kafka w @ ms)) w"
proof -
  have none: "\<exists>k ms. sends (take k rs) ms \<and> mw_kafka w = mw_kafka w @ ms" for rs
    by (intro exI [of _ 0] exI [of _ "[]"]) (simp add: sends_def)
  have all: "\<exists>k ms'. sends (take k rs) ms' \<and> kafka @ ms = kafka @ ms'" if "sends rs ms" for rs ms kafka
    using that by (intro exI [of _ "length rs"] exI [of _ ms]) simp
  show ?thesis
    unfolding Drain_def wp_withActor using none all
    by (auto simp: wp_simps intro!: wp_mono [OF each_publish_wp])
qed

lemma drain_effect: "has_effect X S actor (OpDrain n)"
  unfolding has_effect_def mrv_call.simps mrv_effect.simps by (intro allI wp_mono [OF Drain_wp]) auto

lemma every_call_has_effect: "has_effect X S actor c"
  by (cases c) (simp_all add: register_effect plan_effect confirm_effect fuel_effect voyage_effect estimate_effect
      voyage_emissions_effect compile_effect submit_effect decide_effect issue_effect drain_effect)

section \<open>The invariant of the tables\<close>

definition plans_inv :: "MonitoringPlan list \<Rightarrow> bool" where
  "plans_inv ps \<longleftrightarrow> distinct (map mp_PlanID ps) \<and> (\<forall>p\<in>set ps. plan_ok p)
     \<and> (\<forall>p\<in>set ps. \<forall>q\<in>set ps. mp_State p = PlanStateConfirmed \<and> mp_State q = PlanStateConfirmed
          \<and> mp_ImoNumber p = mp_ImoNumber q \<longrightarrow> p = q)"

definition confirmed_cover :: "MonitoringPlan list \<Rightarrow> FuelReport \<Rightarrow> bool" where
  "confirmed_cover ps r \<longleftrightarrow> (\<exists>p\<in>set ps. mp_ImoNumber p = fu_ImoNumber r \<and> mp_ConfirmedBy p \<noteq> None
     \<and> map_of (mp_Methods p) (fu_Consumer r) = Some (fu_Method r) \<and> fu_FuelGrade r \<in> set (mp_FuelGrades p))"

definition fuel_inv :: "MonitoringPlan list \<Rightarrow> FuelReport list \<Rightarrow> bool" where
  "fuel_inv ps fs \<longleftrightarrow> distinct (map fu_ExternalRef fs) \<and> (\<forall>f\<in>set fs. confirmed_cover ps f)"

definition backed :: "Verification list \<Rightarrow> AnnualReport \<Rightarrow> bool" where
  "backed vs r \<longleftrightarrow> (\<exists>v\<in>set vs. mn_ReportID v = mr_ReportID r \<and> mn_Decision v = DecisionVerify \<and> mr_SubmittedBy r \<noteq> Some (mn_Verifier v))"

definition reports_inv :: "AnnualReport list \<Rightarrow> Verification list \<Rightarrow> bool" where
  "reports_inv rs vs \<longleftrightarrow> distinct (map mr_ReportID rs)
     \<and> (\<forall>r\<in>set rs. report_ok r \<and> (mr_SubmittedBy r = None \<or> mr_SubmittedBy r = Some (mr_CompiledBy r))
          \<and> (mr_State r = ReportStateVerified \<longrightarrow> backed vs r))"

definition socs_inv :: "mrv_externals \<Rightarrow> Service \<Rightarrow> AnnualReport list \<Rightarrow> artifact_row list \<Rightarrow> soc_row list \<Rightarrow> bool" where
  "socs_inv X S rs arts ss \<longleftrightarrow> distinct (map mc_ReportID ss)
     \<and> (\<forall>s\<in>set ss. \<exists>r\<in>set rs. \<exists>a\<in>set arts. \<exists>t. mr_ReportID r = mc_ReportID s \<and> mr_State r = ReportStateVerified
          \<and> mt_ReportID a = mc_ReportID s \<and> mt_ArtifactSha256 a = mc_ArtifactSha256 s
          \<and> buildArtifact X S r t = Inr (mt_ArtifactJSON a, mt_ArtifactSha256 a))"

definition outbox_inv :: "mrv_externals \<Rightarrow> Service \<Rightarrow> outbox_row list \<Rightarrow> bool" where
  "outbox_inv X S os \<longleftrightarrow> distinct (map mo_EventID os) \<and> (\<forall>r\<in>set os. signed_row X S r)"

definition mrv_inv :: "mrv_externals \<Rightarrow> Service \<Rightarrow> mrv_db \<Rightarrow> bool" where
  "mrv_inv X S d \<longleftrightarrow> plans_inv (md_plans d) \<and> fuel_inv (md_plans d) (md_fuel d)
     \<and> reports_inv (md_reports d) (md_verifications d) \<and> socs_inv X S (md_reports d) (md_artifacts d) (md_socs d)
     \<and> outbox_inv X S (md_outbox d)"

subsection \<open>Statements on the invariant\<close>

lemma announces_tables:
  assumes "announces X S ty agg d d'"
  obtains row where "d' = d\<lparr>md_outbox := md_outbox d @ [row]\<rparr>" "mo_EventID row \<notin> mo_EventID ` set (md_outbox d)"
    "signed_row X S row" "mo_PublishedAt row = None"
  using assms by (auto simp: announces_def insert_outbox_def split: if_splits)

lemma mrv_inv_announces:
  assumes "announces X S ty agg d d'" "mrv_inv X S d"
  shows "mrv_inv X S d'"
  using assms(1)
proof (rule announces_tables)
  fix row
  assume "d' = d\<lparr>md_outbox := md_outbox d @ [row]\<rparr>" "mo_EventID row \<notin> mo_EventID ` set (md_outbox d)" "signed_row X S row"
  with assms(2) show ?thesis by (simp add: mrv_inv_def outbox_inv_def)
qed

lemma update_report_tables:
  assumes "update_report hit f d = Some d'"
  shows "d' = d\<lparr>md_reports := map (\<lambda>r. if hit r then f r else r) (md_reports d)\<rparr>"
    "r \<in> set (md_reports d) \<Longrightarrow> hit r \<Longrightarrow> report_ok (f r) \<and> state_guard r (f r)"
  using assms by (auto simp: update_report_def mrv_update_def split: option.splits if_splits)

lemma update_plans_tables:
  assumes "update_plans hit f d = Some d'"
  shows "d' = d\<lparr>md_plans := map (\<lambda>p. if hit p then f p else p) (md_plans d)\<rparr>"
    "p \<in> set (md_plans d) \<Longrightarrow> hit p \<Longrightarrow> plan_ok (f p)"
  using assms by (auto simp: update_plans_def mrv_update_def split: option.splits if_splits)

lemma guard_not_verified: "state_guard r r' \<Longrightarrow> mr_State r \<noteq> ReportStateVerified"
  by (auto simp: state_guard_def legal_transition_def)

lemma socs_inv_update:
  assumes "socs_inv X S rs arts ss" "\<And>r. r \<in> set rs \<Longrightarrow> hit r \<Longrightarrow> mr_State r \<noteq> ReportStateVerified"
  shows "socs_inv X S (map (\<lambda>r. if hit r then f r else r) rs) arts ss"
  unfolding socs_inv_def
proof (intro conjI ballI)
  show "distinct (map mc_ReportID ss)" using assms(1) by (simp add: socs_inv_def)
  fix s
  assume "s \<in> set ss"
  with assms(1) obtain r a t where r: "r \<in> set rs" "a \<in> set arts" "mr_ReportID r = mc_ReportID s" "mr_State r = ReportStateVerified"
    "mt_ReportID a = mc_ReportID s" "mt_ArtifactSha256 a = mc_ArtifactSha256 s"
    "buildArtifact X S r t = Inr (mt_ArtifactJSON a, mt_ArtifactSha256 a)"
    unfolding socs_inv_def by blast
  then have "r \<in> set (map (\<lambda>r. if hit r then f r else r) rs)" using assms(2) by (force simp: image_iff)
  with r show "\<exists>r\<in>set (map (\<lambda>r. if hit r then f r else r) rs). \<exists>a\<in>set arts. \<exists>t. mr_ReportID r = mc_ReportID s
      \<and> mr_State r = ReportStateVerified \<and> mt_ReportID a = mc_ReportID s \<and> mt_ArtifactSha256 a = mc_ArtifactSha256 s
      \<and> buildArtifact X S r t = Inr (mt_ArtifactJSON a, mt_ArtifactSha256 a)" by blast
qed

lemma mrv_inv_update_report:
  assumes "update_report hit f d = Some d'" "mrv_inv X S d"
    and "\<And>r. mr_ReportID (f r) = mr_ReportID r"
    and "\<And>r. r \<in> set (md_reports d) \<Longrightarrow> hit r \<Longrightarrow>
        (mr_SubmittedBy (f r) = None \<or> mr_SubmittedBy (f r) = Some (mr_CompiledBy (f r))) \<and> mr_State (f r) \<noteq> ReportStateVerified"
  shows "mrv_inv X S d'"
proof -
  note t = update_report_tables [OF assms(1)]
  let ?g = "\<lambda>r. if hit r then f r else r"
  have ids: "mr_ReportID (?g r) = mr_ReportID r" for r using assms(3) by simp
  have "reports_inv (map ?g (md_reports d)) (md_verifications d)"
    using assms(2,4) t(2) unfolding mrv_inv_def reports_inv_def by (auto simp: comp_def ids)
  moreover have "socs_inv X S (map ?g (md_reports d)) (md_artifacts d) (md_socs d)"
    using assms(2) t(2) guard_not_verified by (intro socs_inv_update) (auto simp: mrv_inv_def)
  ultimately show ?thesis using assms(2) unfolding t(1) by (simp add: mrv_inv_def)
qed

lemma find_report_Some: "find_report i d = Some r \<Longrightarrow> r \<in> set (md_reports d) \<and> mr_ReportID r = i"
  by (auto simp: find_report_def find_Some_iff)

lemma report_unique:
  assumes "mrv_inv X S d" "r \<in> set (md_reports d)" "q \<in> set (md_reports d)" "mr_ReportID r = mr_ReportID q"
  shows "r = q"
  using assms by (auto simp: mrv_inv_def reports_inv_def distinct_map dest: inj_onD)

lemma confirmed_cover_mono:
  assumes "confirmed_cover ps r"
    "\<And>p. p \<in> set ps \<Longrightarrow> mp_ConfirmedBy p \<noteq> None \<Longrightarrow> \<exists>q\<in>set ps'. mp_ImoNumber q = mp_ImoNumber p \<and> mp_ConfirmedBy q \<noteq> None
        \<and> mp_Methods q = mp_Methods p \<and> mp_FuelGrades q = mp_FuelGrades p"
  shows "confirmed_cover ps' r"
  using assms unfolding confirmed_cover_def by (metis (no_types, lifting))

subsection \<open>Effects on the invariant\<close>

lemma confirm_inv:
  assumes inv: "mrv_inv X S d" and eff: "mrv_effect X S actor (OpConfirm planID) d d'"
  shows "mrv_inv X S d'"
proof -
  from eff obtain p now d1 where p: "find_plan planID d = Some p" "mp_CreatedBy p \<noteq> actor"
    "mp_State p = PlanStateDraft \<or> mp_State p = PlanStateSubmitted"
    and u1: "update_plans (\<lambda>q. mp_ImoNumber q = mp_ImoNumber p \<and> mp_State q = PlanStateConfirmed) (\<lambda>q. q\<lparr>mp_State := PlanStateSuperseded\<rparr>) d = Some d1"
    and u2: "update_plans (\<lambda>q. mp_PlanID q = planID)
        (\<lambda>q. q\<lparr>mp_State := PlanStateConfirmed, mp_ConfirmedBy := Some actor, mp_ConfirmedAt := Some now\<rparr>) d1 = Some d'"
    unfolding mrv_effect.simps by blast
  note t1 = update_plans_tables [OF u1] and t2 = update_plans_tables [OF u2]
  let ?f = "\<lambda>q. if mp_ImoNumber q = mp_ImoNumber p \<and> mp_State q = PlanStateConfirmed then q\<lparr>mp_State := PlanStateSuperseded\<rparr> else q"
  let ?g = "\<lambda>q. if mp_PlanID q = planID
      then q\<lparr>mp_State := PlanStateConfirmed, mp_ConfirmedBy := Some actor, mp_ConfirmedAt := Some now\<rparr> else q"
  have ps: "md_plans d' = map (?g \<circ> ?f) (md_plans d)" using t1(1) t2(1) by simp
  have dist: "distinct (map mp_PlanID (md_plans d))" and ok: "\<forall>p\<in>set (md_plans d). plan_ok p"
    and one: "\<forall>p\<in>set (md_plans d). \<forall>q\<in>set (md_plans d). mp_State p = PlanStateConfirmed \<and> mp_State q = PlanStateConfirmed
          \<and> mp_ImoNumber p = mp_ImoNumber q \<longrightarrow> p = q" and fuel: "fuel_inv (md_plans d) (md_fuel d)"
    using inv by (auto simp: mrv_inv_def plans_inv_def)
  have pin: "p \<in> set (md_plans d)" "mp_PlanID p = planID" using p(1) by (auto simp: find_plan_def find_Some_iff)
  have only: "q = p" if "q \<in> set (md_plans d)" "mp_PlanID q = planID" for q
    using dist that pin by (auto simp: distinct_map dest: inj_onD)
  have "map mp_PlanID (md_plans d') = map mp_PlanID (md_plans d)" unfolding ps by simp
  moreover have "plan_ok q" if "q \<in> set (md_plans d')" for q
    using that t1 t2 ok by auto
  moreover have "a = b" if "a \<in> set (md_plans d')" "b \<in> set (md_plans d')" "mp_State a = PlanStateConfirmed" "mp_State b = PlanStateConfirmed"
      "mp_ImoNumber a = mp_ImoNumber b" for a b
  proof -
    have claim: "q = p \<or> mp_State q = PlanStateConfirmed \<and> mp_ImoNumber q \<noteq> mp_ImoNumber p \<and> (?g \<circ> ?f) q = q"
      if "q \<in> set (md_plans d)" "mp_State ((?g \<circ> ?f) q) = PlanStateConfirmed" for q
    proof (cases "mp_PlanID q = planID")
      case True
      then show ?thesis using only [OF that(1)] by blast
    next
      case False
      then have "(?g \<circ> ?f) q = ?f q" by simp
      then show ?thesis using that(2) by (cases "mp_ImoNumber q = mp_ImoNumber p \<and> mp_State q = PlanStateConfirmed") auto
    qed
    have imo: "mp_ImoNumber ((?g \<circ> ?f) q) = mp_ImoNumber q" for q by simp
    from that(1,2) obtain a0 b0 where ab: "a0 \<in> set (md_plans d)" "a = (?g \<circ> ?f) a0" "b0 \<in> set (md_plans d)" "b = (?g \<circ> ?f) b0"
      unfolding ps set_map by blast
    with claim [of a0] claim [of b0] that imo [of a0] imo [of b0] one show ?thesis by metis
  qed
  moreover have "confirmed_cover (md_plans d') f" if "f \<in> set (md_fuel d)" for f
  proof (rule confirmed_cover_mono)
    show "confirmed_cover (md_plans d) f" using fuel that by (simp add: fuel_inv_def)
    fix q
    assume q: "q \<in> set (md_plans d)" "mp_ConfirmedBy q \<noteq> None"
    then have "(?g \<circ> ?f) q \<in> set (md_plans d')" unfolding ps by simp
    with q(2) show "\<exists>q'\<in>set (md_plans d'). mp_ImoNumber q' = mp_ImoNumber q \<and> mp_ConfirmedBy q' \<noteq> None
        \<and> mp_Methods q' = mp_Methods q \<and> mp_FuelGrades q' = mp_FuelGrades q"
      by (intro bexI) simp_all
  qed
  ultimately have "plans_inv (md_plans d')" "fuel_inv (md_plans d') (md_fuel d)"
    using dist fuel unfolding plans_inv_def fuel_inv_def by (simp_all only: simp_thms) blast+
  moreover have "md_fuel d' = md_fuel d" "md_reports d' = md_reports d" "md_verifications d' = md_verifications d"
    "md_artifacts d' = md_artifacts d" "md_socs d' = md_socs d" "md_outbox d' = md_outbox d" using t1(1) t2(1) by simp_all
  ultimately show ?thesis using inv by (simp only: mrv_inv_def simp_thms)
qed

lemma fuel_cover:
  assumes "plans_inv (md_plans d)" "plan_covers imo r d" "fu_ImoNumber r = imo"
  shows "confirmed_cover (md_plans d) r"
  using assms by (fastforce simp: plan_covers_def list_ex_iff confirmed_cover_def plans_inv_def plan_ok_def)

lemma reports_inv_map:
  assumes "reports_inv rs ws" "\<And>q. mr_ReportID (g q) = mr_ReportID q"
    and "\<And>q. q \<in> set rs \<Longrightarrow> report_ok (g q) \<and> (mr_SubmittedBy (g q) = None \<or> mr_SubmittedBy (g q) = Some (mr_CompiledBy (g q)))
        \<and> (mr_State (g q) = ReportStateVerified \<longrightarrow> backed vs (g q))"
  shows "reports_inv (map g rs) vs"
  using assms by (simp add: reports_inv_def comp_def)

lemma decide_inv:
  assumes inv: "mrv_inv X S d" and eff: "mrv_effect X S actor (OpDecide reportID dtext reason) d d'"
  shows "mrv_inv X S d'"
proof -
  from eff obtain dec r v d1 d2 d3 where r: "find_report reportID d = Some r"
      "mr_State r = ReportStateSubmitted \<or> mr_State r = ReportStateVerifierReview" "mr_SubmittedBy r \<noteq> Some actor"
    and u1: "if mr_State r = ReportStateSubmitted
        then update_report (\<lambda>q. mr_ReportID q = reportID) (with_state ReportStateVerifierReview) d = Some d1 else d1 = d"
    and u2: "update_report (\<lambda>q. mr_ReportID q = reportID) (with_state (decided_state dec)) d1 = Some d2"
    and v: "insert_verification v d2 = Some d3" "mn_ReportID v = reportID" "mn_Decision v = dec" "mn_Verifier v = actor"
    and ann: "announces X S EventVerification reportID d3 d'"
    unfolding mrv_effect.simps by blast
  note rin = find_report_Some [OF r(1)]
  let ?g = "\<lambda>q. if mr_ReportID q = reportID then with_state (decided_state dec) q else q"
  have d2: "d2 = d\<lparr>md_reports := map ?g (md_reports d)\<rparr>"
  proof (cases "mr_State r = ReportStateSubmitted")
    case True
    then have "update_report (\<lambda>q. mr_ReportID q = reportID) (with_state ReportStateVerifierReview) d = Some d1" using u1 by simp
    from update_report_tables(1) [OF this] update_report_tables(1) [OF u2] show ?thesis by (simp add: with_state_def)
  qed (use u1 update_report_tables(1) [OF u2] in simp)
  have d3: "d3 = d2\<lparr>md_verifications := md_verifications d2 @ [v]\<rparr>"
    using v(1) by (auto simp: insert_verification_def split: if_splits option.splits)
  have okr: "report_ok (with_state (decided_state dec) r)"
  proof -
    have "\<exists>q\<in>set (md_reports d1). mr_ReportID q = reportID \<and> with_state (decided_state dec) q = with_state (decided_state dec) r"
    proof (cases "mr_State r = ReportStateSubmitted")
      case True
      then have "update_report (\<lambda>q. mr_ReportID q = reportID) (with_state ReportStateVerifierReview) d = Some d1" using u1 by simp
      from update_report_tables(1) [OF this] rin have "with_state ReportStateVerifierReview r \<in> set (md_reports d1)" by force
      with rin show ?thesis by (intro bexI) (simp_all add: with_state_def)
    qed (use u1 rin in auto)
    with update_report_tables(2) [OF u2] show ?thesis by metis
  qed
  have one: "q = r" if "q \<in> set (md_reports d)" "mr_ReportID q = reportID" for q
    using report_unique [OF inv that(1)] rin that(2) by blast
  have backed_mono: "backed vs q \<Longrightarrow> backed (vs @ [v]) q" for vs q by (auto simp: backed_def)
  have "reports_inv (map ?g (md_reports d)) (md_verifications d @ [v])"
  proof -
    have "report_ok (?g q) \<and> (mr_SubmittedBy (?g q) = None \<or> mr_SubmittedBy (?g q) = Some (mr_CompiledBy (?g q)))
        \<and> (mr_State (?g q) = ReportStateVerified \<longrightarrow> backed (md_verifications d @ [v]) (?g q))" if q: "q \<in> set (md_reports d)" for q
    proof (cases "mr_ReportID q = reportID")
      case True
      then have "q = r" using one q by blast
      moreover have "backed (md_verifications d @ [v]) (with_state (decided_state dec) r)" if "decided_state dec = ReportStateVerified"
        using that v r(3) rin by (cases dec) (auto simp: backed_def with_state_def)
      ultimately show ?thesis
        using True okr inv q by (auto simp: mrv_inv_def reports_inv_def with_state_def)
    next
      case False
      then show ?thesis using inv q backed_mono by (simp add: mrv_inv_def reports_inv_def)
    qed
    then show ?thesis using inv by (intro reports_inv_map [of _ "md_verifications d"]) (simp_all add: mrv_inv_def with_state_def)
  qed
  moreover have "socs_inv X S (map ?g (md_reports d)) (md_artifacts d) (md_socs d)"
    using inv one r(2) by (intro socs_inv_update) (auto simp: mrv_inv_def)
  ultimately have "mrv_inv X S d3" using inv unfolding d3 d2 by (simp add: mrv_inv_def)
  with ann show ?thesis by (rule mrv_inv_announces)
qed

lemma register_inv:
  assumes "mrv_inv X S d" "mrv_effect X S actor (OpRegister ship) d d'"
  shows "mrv_inv X S d'"
proof -
  from assms(2) obtain s where "insert_ship s d = Some d'" unfolding mrv_effect.simps by blast
  then have "d' = d\<lparr>md_ships := md_ships d @ [s]\<rparr>" by (simp add: insert_ship_def split: if_splits)
  with assms(1) show ?thesis by (simp add: mrv_inv_def)
qed

lemma plan_inv:
  assumes inv: "mrv_inv X S d" and eff: "mrv_effect X S actor (OpPlan imo methods grades) d d'"
  shows "mrv_inv X S d'"
proof -
  from eff obtain p where p: "insert_plan p d = Some d'" "mp_State p = PlanStateDraft" unfolding mrv_effect.simps by blast
  then have d': "d' = d\<lparr>md_plans := md_plans d @ [p]\<rparr>" and fresh: "mp_PlanID p \<notin> mp_PlanID ` set (md_plans d)" and ok: "plan_ok p"
    by (simp_all add: insert_plan_def split: if_splits)
  have "plans_inv (md_plans d)" and fuel: "fuel_inv (md_plans d) (md_fuel d)" using inv by (simp_all add: mrv_inv_def)
  then have "plans_inv (md_plans d @ [p])" using fresh ok p(2) by (auto simp: plans_inv_def)
  moreover have "confirmed_cover (md_plans d @ [p]) f" if "confirmed_cover (md_plans d) f" for f
    using that by (auto simp: confirmed_cover_def)
  then have "fuel_inv (md_plans d @ [p]) (md_fuel d)" using fuel by (simp add: fuel_inv_def)
  ultimately show ?thesis using inv unfolding d' by (simp add: mrv_inv_def)
qed

lemma fuel_inv_step:
  assumes inv: "mrv_inv X S d" and eff: "mrv_effect X S actor (OpFuel imo key report) d d'"
  shows "mrv_inv X S d'"
proof -
  from eff consider "d' = d" | r d1 where "insert_fuel r d = Some d1" "announces X S EventFuelReport imo d1 d'"
      "fu_ImoNumber r = imo" "plan_covers imo r d"
    unfolding mrv_effect.simps by blast
  then show ?thesis
  proof cases
    case (2 r d1)
    then have d1: "d1 = d\<lparr>md_fuel := md_fuel d @ [r]\<rparr>" and fresh: "fu_ExternalRef r \<notin> fu_ExternalRef ` set (md_fuel d)"
      by (simp_all add: insert_fuel_def split: if_splits)
    have "confirmed_cover (md_plans d) r" using inv 2(3,4) by (intro fuel_cover) (simp_all add: mrv_inv_def)
    then have "mrv_inv X S d1" using inv fresh unfolding d1 by (simp add: mrv_inv_def fuel_inv_def)
    with 2(2) show ?thesis by (rule mrv_inv_announces)
  qed (use inv in simp)
qed

lemma voyage_inv:
  assumes "mrv_inv X S d" "mrv_effect X S actor (OpVoyage imo voyage) d d'"
  shows "mrv_inv X S d'"
proof -
  from assms(2) obtain v d1 where v: "insert_voyage v d = Some d1" "announces X S EventVoyage imo d1 d'"
    unfolding mrv_effect.simps by blast
  then have "d1 = d\<lparr>md_voyages := md_voyages d @ [v]\<rparr>" by (simp add: insert_voyage_def split: if_splits)
  with assms(1) have "mrv_inv X S d1" by (simp add: mrv_inv_def)
  with v(2) show ?thesis by (rule mrv_inv_announces)
qed

lemma estimate_inv:
  assumes "mrv_inv X S d" "mrv_effect X S actor (OpEstimate imo t1 t2 labels) d d'"
  shows "mrv_inv X S d'"
  using assms mrv_inv_announces unfolding mrv_effect.simps by blast

lemma compile_inv:
  assumes inv: "mrv_inv X S d" and eff: "mrv_effect X S actor (OpCompile imo year) d d'"
  shows "mrv_inv X S d'"
proof -
  from eff obtain r d1 where r: "draft_report r actor imo year" and ann: "announces X S EventEmissionsAnnual (mr_ReportID r) d1 d'"
    and how: "insert_report r d = Some d1
      \<or> update_report (\<lambda>q. mr_ReportID q = mr_ReportID r \<and> mr_State q = ReportStateDraft) (recompile r) d = Some d1"
    unfolding mrv_effect.simps by blast
  from how have "mrv_inv X S d1"
  proof
    assume "insert_report r d = Some d1"
    then have d1: "d1 = d\<lparr>md_reports := md_reports d @ [r]\<rparr>" and "mr_ReportID r \<notin> mr_ReportID ` set (md_reports d)" "report_ok r"
      by (simp_all add: insert_report_def split: if_splits)
    moreover have "socs_inv X S (md_reports d @ [r]) (md_artifacts d) (md_socs d)"
      using inv by (auto simp: mrv_inv_def socs_inv_def)
    ultimately show ?thesis using inv r by (auto simp: mrv_inv_def reports_inv_def draft_report_def)
  next
    assume u: "update_report (\<lambda>q. mr_ReportID q = mr_ReportID r \<and> mr_State q = ReportStateDraft) (recompile r) d = Some d1"
    have "mr_SubmittedBy q = None" if "q \<in> set (md_reports d)" "mr_State q = ReportStateDraft" for q
      using inv that by (simp add: mrv_inv_def reports_inv_def report_ok_def)
    then show ?thesis by (intro mrv_inv_update_report [OF u inv]) (simp_all add: recompile_def)
  qed
  with ann show ?thesis by (rule mrv_inv_announces)
qed

lemma submit_inv:
  assumes inv: "mrv_inv X S d" and eff: "mrv_effect X S actor (OpSubmit reportID) d d'"
  shows "mrv_inv X S d'"
proof -
  from eff obtain r now d1 where r: "find_report reportID d = Some r" "mr_CompiledBy r = actor"
    and u: "update_report (\<lambda>q. mr_ReportID q = reportID) (submitted actor now) d = Some d1"
    and ann: "announces X S EventEmissionsAnnual (mr_ReportID r) d1 d'"
    unfolding mrv_effect.simps by blast
  note rin = find_report_Some [OF r(1)]
  have "mr_CompiledBy q = actor" if "q \<in> set (md_reports d)" "mr_ReportID q = reportID" for q
    using report_unique [OF inv that(1)] rin that(2) r(2) by blast
  then have "mrv_inv X S d1" by (intro mrv_inv_update_report [OF u inv]) (simp_all add: submitted_def)
  with ann show ?thesis by (rule mrv_inv_announces)
qed

lemma issue_inv:
  assumes inv: "mrv_inv X S d" and eff: "mrv_effect X S actor (OpIssue reportID) d d'"
  shows "mrv_inv X S d'"
proof -
  from eff obtain r a s d1 d2 t where r: "find_report reportID d = Some r" "mr_State r = ReportStateVerified"
    and ia: "insert_artifact a d = Some d1" and so: "insert_soc s d1 = Some d2"
    and ids: "mt_ReportID a = reportID" "mc_ReportID s = reportID" "mc_ArtifactSha256 s = mt_ArtifactSha256 a"
    and art: "buildArtifact X S r t = Inr (mt_ArtifactJSON a, mt_ArtifactSha256 a)"
    and ann: "announces X S EventSoC (mc_SocID s) d2 d'"
    unfolding mrv_effect.simps by blast
  note rin = find_report_Some [OF r(1)]
  have d1: "d1 = d\<lparr>md_artifacts := md_artifacts d @ [a]\<rparr>" using ia by (simp add: insert_artifact_def split: if_splits)
  have d2: "d2 = d1\<lparr>md_socs := md_socs d1 @ [s]\<rparr>" and fresh: "mc_ReportID s \<notin> mc_ReportID ` set (md_socs d1)"
    using so by (auto simp: insert_soc_def split: if_splits option.splits)
  have old: "socs_inv X S (md_reports d) (md_artifacts d @ [a]) (md_socs d)" using inv unfolding mrv_inv_def socs_inv_def by fastforce
  have "\<exists>r\<in>set (md_reports d). \<exists>a'\<in>set (md_artifacts d @ [a]). \<exists>t. mr_ReportID r = mc_ReportID s \<and> mr_State r = ReportStateVerified
      \<and> mt_ReportID a' = mc_ReportID s \<and> mt_ArtifactSha256 a' = mc_ArtifactSha256 s
      \<and> buildArtifact X S r t = Inr (mt_ArtifactJSON a', mt_ArtifactSha256 a')"
    using rin r(2) ids art by (intro bexI [of _ r] bexI [of _ a] exI [of _ t]) simp_all
  with old fresh have "socs_inv X S (md_reports d) (md_artifacts d @ [a]) (md_socs d @ [s])"
    unfolding socs_inv_def d1 by simp
  then have "mrv_inv X S d2" using inv unfolding d2 d1 by (simp add: mrv_inv_def)
  with ann show ?thesis by (rule mrv_inv_announces)
qed

lemma signed_row_published: "signed_row X S (r\<lparr>mo_PublishedAt := p\<rparr>) = signed_row X S r"
  by (simp add: signed_row_def)

lemma drain_inv:
  assumes inv: "mrv_inv X S d" and eff: "mrv_effect X S actor (OpDrain n) d d'"
  shows "mrv_inv X S d'"
proof -
  let ?P = "\<lambda>r r'. \<exists>p. r' = r\<lparr>mo_PublishedAt := p\<rparr>"
  from eff have d': "d' = d\<lparr>md_outbox := md_outbox d'\<rparr>" and "list_all2 (\<lambda>r r'. if mo_EventID r \<in> mo_EventID ` set (pending_rows n d)
      then \<exists>now. r' = r\<lparr>mo_PublishedAt := Some now\<rparr> else r' = r) (md_outbox d) (md_outbox d')"
    unfolding mrv_effect.simps marks_def by blast+
  then have rows: "list_all2 ?P (md_outbox d) (md_outbox d')"
    by (elim list_all2_mono) (metis outbox_row.surjective outbox_row.update_convs(6))
  then have "map mo_EventID (md_outbox d') = map mo_EventID (md_outbox d)"
    by (induction rule: list_all2_induct) auto
  moreover have "\<forall>r\<in>set (md_outbox d'). signed_row X S r" if "\<forall>r\<in>set (md_outbox d). signed_row X S r"
    using rows that by (induction rule: list_all2_induct) (auto simp: signed_row_published)
  ultimately have "outbox_inv X S (md_outbox d')" using inv by (simp add: mrv_inv_def outbox_inv_def)
  then show ?thesis using inv by (subst d') (simp add: mrv_inv_def)
qed

lemma mrv_effect_inv:
  assumes "mrv_inv X S d" "mrv_effect X S actor c d d'"
  shows "mrv_inv X S d'"
  using assms(2)
  by (cases c)
    (auto intro: register_inv [OF assms(1)] plan_inv [OF assms(1)] confirm_inv [OF assms(1)] fuel_inv_step [OF assms(1)]
       voyage_inv [OF assms(1)] estimate_inv [OF assms(1)] compile_inv [OF assms(1)] submit_inv [OF assms(1)] decide_inv [OF assms(1)]
       issue_inv [OF assms(1)] drain_inv [OF assms(1)] simp: mrv_effect.simps(7))

section \<open>Runs\<close>

lemma mrv_step_effect:
  "mrv_effect X S (fst c) (snd c) (mw_db w) (mw_db (mrv_step X S w c)) \<or> mw_db (mrv_step X S w c) = mw_db w"
proof -
  obtain w' z where run: "mrv_call X S (fst c) (snd c) w = (w', z)" by fastforce
  with every_call_has_effect [of X S "fst c" "snd c"] show ?thesis
    by (cases z) (auto simp: has_effect_def mrv_step_def wp_def split: prod.splits dest: spec [of _ w])
qed

interpretation mrv_run: kept_invariant "mrv_step X S" "\<lambda>w. mrv_inv X S (mw_db w)" for X S
  by unfold_locales (metis mrv_step_effect mrv_effect_inv)

section \<open>The bus\<close>

lemma keeps_prod: "(\<And>a b. keeps I (f a b)) \<Longrightarrow> keeps I (case v of (a, b) \<Rightarrow> f a b)"
  by (cases v) simp

lemma bus_frame:
  "keeps (\<lambda>w. mw_kafka w = k) (mrv_asks f)" "keeps (\<lambda>w. mw_kafka w = k) (mrv_uuid X)" "keeps (\<lambda>w. mw_kafka w = k) (mrv_now X)"
  "keeps (\<lambda>w. mw_kafka w = k) (mrv_query X l q)" "keeps (\<lambda>w. mw_kafka w = k) (mrv_exec X l g)"
  "keeps (\<lambda>w. mw_kafka w = k) (mrv_count l m)" "keeps (\<lambda>w. mw_kafka w = k) (row_or_error e v)"
  "keeps (\<lambda>w. mw_kafka w = k) fn \<Longrightarrow> keeps (\<lambda>w. mw_kafka w = k) (withActor X actor fn)"
proof -
  show asks: "keeps (\<lambda>w. mw_kafka w = k) (mrv_asks f)" for f :: "nat \<Rightarrow> 'x" by (simp add: keeps_def mrv_asks_def)
  show "keeps (\<lambda>w. mw_kafka w = k) (mrv_uuid X)" "keeps (\<lambda>w. mw_kafka w = k) (mrv_now X)"
    by (simp_all add: mrv_uuid_def mrv_now_def asks)
  have sql: "keeps (\<lambda>w. mw_kafka w = k) (mrv_sql X l h)" for h :: "mrv_db \<Rightarrow> (mrv_db \<times> 'x) option"
    by (simp add: keeps_def mrv_sql_def Let_def split: option.split)
  then show "keeps (\<lambda>w. mw_kafka w = k) (mrv_query X l q)" "keeps (\<lambda>w. mw_kafka w = k) (mrv_exec X l g)"
    by (simp_all add: mrv_query_def mrv_exec_def)
  show "keeps (\<lambda>w. mw_kafka w = k) (mrv_count l m)" by (simp add: keeps_def mrv_count_def modifies_def)
  show "keeps (\<lambda>w. mw_kafka w = k) (row_or_error e v)" by (simp add: row_or_error_def keeps_ret keeps_raise split: option.split)
  show "keeps (\<lambda>w. mw_kafka w = k) fn \<Longrightarrow> keeps (\<lambda>w. mw_kafka w = k) (withActor X actor fn)"
    by (rule keeps_withActor) simp_all
qed

lemma resolve_bus: "keeps (\<lambda>w. mw_kafka w = k) (ResolveFactor X g gas t)" "keeps (\<lambda>w. mw_kafka w = k) (co2_or_raise n c)"
  unfolding ResolveFactor_def co2_or_raise_def by (auto intro!: keeps_rules bus_frame split: list.split)

lemma enqueue_bus:
  "keeps (\<lambda>w. mw_kafka w = k) (enqueueOutbox X S ty agg corr res t h)"
  "keeps (\<lambda>w. mw_kafka w = k) (enqueueAnnualEvent X S r t)"
proof -
  show enq: "keeps (\<lambda>w. mw_kafka w = k) (enqueueOutbox X S ty agg corr res t h)" for ty agg corr res t h
    unfolding enqueueOutbox_def by (intro keeps_rules bus_frame)
  show "keeps (\<lambda>w. mw_kafka w = k) (enqueueAnnualEvent X S r t)" unfolding enqueueAnnualEvent_def by (intro keeps_rules bus_frame enq)
qed

lemmas bus_rules = keeps_rules keeps_prod bus_frame resolve_bus enqueue_bus

lemma aggregate_bus: "keeps (\<lambda>w. mw_kafka w = k) (aggregate X rows totals factors)"
  by (induction X rows totals factors rule: aggregate.induct) (auto intro!: bus_rules)

lemma allocate_bus: "keeps (\<lambda>w. mw_kafka w = k) (allocate_rows X rows acc)"
  by (induction X rows acc rule: allocate_rows.induct) (auto simp: Let_def intro!: bus_rules)

lemma crosscheck_bus: "keeps (\<lambda>w. mw_kafka w = k) (aisCrosscheck X S r)"
  unfolding aisCrosscheck_def Let_def by (intro bus_rules)

lemma voyage_crosscheck_bus: "keeps (\<lambda>w. mw_kafka w = k) (voyage_crosscheck X S imo ship t1 t2 labels)"
  unfolding voyage_crosscheck_def activityFixes_def estimate_or_raise_def by (intro bus_rules)

lemmas call_bus = bus_rules aggregate_bus allocate_bus crosscheck_bus voyage_crosscheck_bus

lemma VoyageEmissions_bus: "keeps (\<lambda>w. mw_kafka w = k) (VoyageEmissions X S actor imo voyageID labels)"
  unfolding VoyageEmissions_def Let_def by (intro call_bus)

lemma RegisterShip_bus: "keeps (\<lambda>w. mw_kafka w = k) (RegisterShip X S actor ship)"
  unfolding RegisterShip_def Let_def by (intro call_bus)

lemma plans_bus: "keeps (\<lambda>w. mw_kafka w = k) (PutMonitoringPlan X actor imo methods grades)"
  "keeps (\<lambda>w. mw_kafka w = k) (ConfirmMonitoringPlan X actor planID)"
  unfolding PutMonitoringPlan_def ConfirmMonitoringPlan_def Let_def by (intro call_bus)+

lemma SubmitFuelReport_bus: "keeps (\<lambda>w. mw_kafka w = k) (SubmitFuelReport X S actor imo key report)"
  unfolding SubmitFuelReport_def record_fuel_def Let_def by (intro call_bus)

lemma RecordVoyage_bus: "keeps (\<lambda>w. mw_kafka w = k) (RecordVoyage X S actor imo voyage)"
  unfolding RecordVoyage_def store_voyage_def geofenceEvidenceDigests_def Let_def by (intro call_bus)

lemma EstimateActivity_bus: "keeps (\<lambda>w. mw_kafka w = k) (EstimateActivityForShip X S actor imo t1 t2 labels)"
  unfolding EstimateActivityForShip_def activityFixes_def estimate_or_raise_def Let_def by (intro call_bus)

lemma Compile_bus: "keeps (\<lambda>w. mw_kafka w = k) (CompileAnnualReport X S actor imo year)"
  unfolding CompileAnnualReport_def store_report_def Let_def by (intro call_bus)

lemma Submit_bus: "keeps (\<lambda>w. mw_kafka w = k) (SubmitAnnualReport X S actor reportID)"
  unfolding SubmitAnnualReport_def lockReport_def Let_def by (intro call_bus)

lemma Decide_bus: "keeps (\<lambda>w. mw_kafka w = k) (RecordDecision X S actor reportID dtext reason)"
  unfolding RecordDecision_def lockReport_def store_decision_def Let_def by (intro call_bus)

lemma Issue_bus: "keeps (\<lambda>w. mw_kafka w = k) (IssueSoC X S actor reportID)"
  unfolding IssueSoC_def lockReport_def store_soc_def Let_def by (intro call_bus)

lemma call_leaves_bus:
  assumes "\<nexists>n. c = OpDrain n"
  shows "mw_kafka (mrv_step X S w (actor, c)) = mw_kafka w"
proof -
  have "keeps (\<lambda>v. mw_kafka v = mw_kafka w) (mrv_call X S actor c)"
    using assms by (cases c) (simp_all add: ignore_result_def keeps_seq keeps_ret VoyageEmissions_bus RegisterShip_bus plans_bus
      SubmitFuelReport_bus RecordVoyage_bus EstimateActivity_bus Compile_bus Submit_bus Decide_bus Issue_bus)
  then show ?thesis by (simp add: keeps_def mrv_step_def)
qed

section \<open>What is published\<close>

definition bus_inv :: "mrv_externals \<Rightarrow> Service \<Rightarrow> mrv_message list \<Rightarrow> bool" where
  "bus_inv X S ms \<longleftrightarrow> (\<forall>m\<in>set ms. \<exists>r. signed_row X S r \<and> sends [r] [m])"

lemma sends_bus_inv:
  assumes "sends rs ms" "\<forall>r\<in>set rs. signed_row X S r"
  shows "bus_inv X S ms"
  unfolding bus_inv_def
proof
  fix m
  assume "m \<in> set ms"
  then obtain i where i: "i < length ms" "m = ms ! i" by (auto simp: in_set_conv_nth)
  with assms(1) have "sends [rs ! i] [m]" "i < length rs" by (auto simp: sends_def list_all2_conv_all_nth)
  with assms(2) show "\<exists>r. signed_row X S r \<and> sends [r] [m]" by auto
qed

lemma pending_subset: "set (pending_rows n d) \<subseteq> set (md_outbox d)"
  using set_take_subset unfolding pending_rows_def by fastforce

lemma drain_bus:
  assumes "mrv_inv X S (mw_db w)" "bus_inv X S (mw_kafka w)"
  shows "bus_inv X S (mw_kafka (mrv_step X S w (actor, OpDrain n)))"
proof -
  obtain u z where run: "Drain X S n w = (u, z)" by fastforce
  have "\<exists>k ms. sends (take k (pending_rows n (mw_db w))) ms \<and> mw_kafka u = mw_kafka w @ ms"
    using Drain_wp [of X S n w] take_all [of "pending_rows n (mw_db w)"] run
    by (cases z) (auto simp: wp_def intro: exI [of _ "length (pending_rows n (mw_db w))"])
  then obtain k ms where ms: "sends (take k (pending_rows n (mw_db w))) ms" "mw_kafka u = mw_kafka w @ ms" by blast
  have "\<forall>r\<in>set (take k (pending_rows n (mw_db w))). signed_row X S r"
    using assms(1) pending_subset [of n "mw_db w"] set_take_subset [of k "pending_rows n (mw_db w)"]
    unfolding mrv_inv_def outbox_inv_def by blast
  from sends_bus_inv [OF ms(1) this] assms(2) ms(2) run show ?thesis by (auto simp: mrv_step_def bus_inv_def)
qed

lemma bus_step:
  assumes "mrv_inv X S (mw_db w)" "bus_inv X S (mw_kafka w)"
  shows "bus_inv X S (mw_kafka (mrv_step X S w c))"
proof (cases "\<exists>n. snd c = OpDrain n")
  case True
  then show ?thesis using drain_bus [OF assms] by (metis prod.collapse)
next
  case False
  then show ?thesis using call_leaves_bus [of "snd c" X S w "fst c"] assms(2) by simp
qed

interpretation mrv_bus: kept_invariant "mrv_step X S" "\<lambda>w. mrv_inv X S (mw_db w) \<and> bus_inv X S (mw_kafka w)" for X S
  by unfold_locales (metis mrv_run.inv_step bus_step)

text \<open>A world with no emissions data yet: the factor table is seeded, the position plane and the crossings are what they are.\<close>

definition mrv_start :: "FactorRow list \<Rightarrow> position_row list \<Rightarrow> GeofenceEvent list \<Rightarrow> mrv_world" where
  "mrv_start factors positions crossings =
     \<lparr>mw_tick = 0,
      mw_db = \<lparr>md_ships = [], md_plans = [], md_fuel = [], md_voyages = [], md_factors = factors, md_reports = [], md_verifications = [],
               md_socs = [], md_artifacts = [], md_outbox = [], md_positions = positions, md_zone_events = crossings\<rparr>,
      mw_aborted = False, mw_kafka = [], mw_metrics = []\<rparr>"

lemma start_inv: "mrv_inv X S (mw_db (mrv_start fs ps es))" "bus_inv X S (mw_kafka (mrv_start fs ps es))"
  by (simp_all add: mrv_start_def mrv_inv_def plans_inv_def fuel_inv_def reports_inv_def socs_inv_def outbox_inv_def bus_inv_def)

abbreviation mrv_after :: "mrv_externals \<Rightarrow> Service \<Rightarrow> FactorRow list \<Rightarrow> position_row list \<Rightarrow> GeofenceEvent list \<Rightarrow> (string \<times> mrv_op) list \<Rightarrow> mrv_world" where
  "mrv_after X S fs ps es calls \<equiv> run_steps (mrv_step X S) (mrv_start fs ps es) calls"

lemma run_inv: "mrv_inv X S (mw_db (mrv_after X S fs ps es calls))" "bus_inv X S (mw_kafka (mrv_after X S fs ps es calls))"
  using mrv_bus.inv_run [of X S "mrv_start fs ps es" calls] start_inv [of X S fs ps es] by blast+

lemma signed_row_payload:
  assumes "signed_row X S r"
  obtains uu corr c res t h s where "snd (snd uu) = mo_EventID r" "eventContracts (mo_EventType r) = Some c"
    "Sign (mx_crypto X) (sv_Signer S) (mrv_unsigned uu (mo_EventType r) corr c res t (sv_Principal S) h) = Inr s"
    "mo_Payload r = mrv_unsigned uu (mo_EventType r) corr c res t (sv_Principal S) h
        \<lparr>en_Provenance := en_Provenance (mrv_unsigned uu (mo_EventType r) corr c res t (sv_Principal S) h)\<lparr>pv_Signature := s\<rparr>\<rparr>"
proof -
  from assms obtain uu corr res t h where u: "snd (snd uu) = mo_EventID r" and
    "BuildSignedEnvelope (mx_crypto X) (mx_uuid_ok X) uu (mo_EventType r) corr res t (sv_Principal S) h (sv_Signer S) = Inr (mo_Payload r)"
    unfolding signed_row_def by blast
  then obtain c s where "eventContracts (mo_EventType r) = Some c"
    "Sign (mx_crypto X) (sv_Signer S) (mrv_unsigned uu (mo_EventType r) corr c res t (sv_Principal S) h) = Inr s"
    "mo_Payload r = mrv_unsigned uu (mo_EventType r) corr c res t (sv_Principal S) h
        \<lparr>en_Provenance := en_Provenance (mrv_unsigned uu (mo_EventType r) corr c res t (sv_Principal S) h)\<lparr>pv_Signature := s\<rparr>\<rparr>"
    unfolding BuildSignedEnvelope_def Let_def by (auto split: option.splits if_splits sum.splits)
  with u show ?thesis by (rule that)
qed

lemma signed_row_event:
  assumes "signed_row X S r"
  shows "\<exists>c. eventContracts (mo_EventType r) = Some c \<and> en_Classification (mo_Payload r) = ec_classification c"
    and "en_EventType (mo_Payload r) = mo_EventType r" and "en_EventID (mo_Payload r) = mo_EventID r"
  using assms by (rule signed_row_payload, simp add: mrv_unsigned_def)+

lemma signed_row_verifies:
  assumes "crypto_laws (mx_crypto X) (sv_Signer S)" "known_kid (sg_kid (sv_Signer S))" "signed_row X S r"
  shows "Verify (mx_crypto X) (mo_Payload r) (cr_public (mx_crypto X) (sg_privateKey (sv_Signer S))) = None"
  using assms(3)
proof (rule signed_row_payload)
  fix uu corr c res t h s
  assume "Sign (mx_crypto X) (sv_Signer S) (mrv_unsigned uu (mo_EventType r) corr c res t (sv_Principal S) h) = Inr s"
    and p: "mo_Payload r = mrv_unsigned uu (mo_EventType r) corr c res t (sv_Principal S) h
        \<lparr>en_Provenance := en_Provenance (mrv_unsigned uu (mo_EventType r) corr c res t (sv_Principal S) h)\<lparr>pv_Signature := s\<rparr>\<rparr>"
  then show ?thesis unfolding p by (intro Verify_Sign [OF assms(1,2)]) simp
qed

section \<open>The outbox\<close>

text \<open>A row marked as published has its message on the bus.\<close>

definition published_inv :: "outbox_row list \<Rightarrow> mrv_message list \<Rightarrow> bool" where
  "published_inv os ms \<longleftrightarrow> (\<forall>r\<in>set os. mo_PublishedAt r \<noteq> None \<longrightarrow> (\<exists>m\<in>set ms. sends [r] [m]))"

definition outbox_grows :: "mrv_db \<Rightarrow> mrv_db \<Rightarrow> bool" where
  "outbox_grows d d' \<longleftrightarrow> (\<exists>rows. md_outbox d' = md_outbox d @ rows \<and> (\<forall>r\<in>set rows. mo_PublishedAt r = None))"

lemma announces_grows: "announces X S ty agg d1 d' \<Longrightarrow> md_outbox d1 = md_outbox d \<Longrightarrow> outbox_grows d d'"
  by (elim announces_tables) (auto simp: outbox_grows_def)

lemma insert_outbox_same:
  "insert_ship s d = Some d' \<Longrightarrow> md_outbox d' = md_outbox d" "insert_plan p d = Some d' \<Longrightarrow> md_outbox d' = md_outbox d"
  "insert_fuel f d = Some d' \<Longrightarrow> md_outbox d' = md_outbox d" "insert_voyage v d = Some d' \<Longrightarrow> md_outbox d' = md_outbox d"
  "insert_report r d = Some d' \<Longrightarrow> md_outbox d' = md_outbox d" "insert_verification n d = Some d' \<Longrightarrow> md_outbox d' = md_outbox d"
  "insert_artifact a d = Some d' \<Longrightarrow> md_outbox d' = md_outbox d" "insert_soc c d = Some d' \<Longrightarrow> md_outbox d' = md_outbox d"
  "update_report hit f1 d = Some d' \<Longrightarrow> md_outbox d' = md_outbox d" "update_plans hit1 f2 d = Some d' \<Longrightarrow> md_outbox d' = md_outbox d"
  by (auto simp: insert_ship_def insert_plan_def insert_fuel_def insert_voyage_def insert_report_def insert_verification_def
      insert_artifact_def insert_soc_def update_report_def update_plans_def split: if_splits option.splits)

lemma unannounced_grows: "md_outbox d' = md_outbox d \<Longrightarrow> outbox_grows d d'"
  by (simp add: outbox_grows_def)

lemma confirm_grows: "mrv_effect X S actor (OpConfirm planID) d d' \<Longrightarrow> outbox_grows d d'"
  unfolding mrv_effect.simps by (metis unannounced_grows insert_outbox_same(10))

lemma decide_grows: "mrv_effect X S actor (OpDecide reportID dtext reason) d d' \<Longrightarrow> outbox_grows d d'"
  unfolding mrv_effect.simps by (elim exE conjE) (metis announces_grows insert_outbox_same(6,9))

lemma issue_grows: "mrv_effect X S actor (OpIssue reportID) d d' \<Longrightarrow> outbox_grows d d'"
  unfolding mrv_effect.simps by (elim exE conjE) (metis announces_grows insert_outbox_same(7,8))

lemma effect_grows:
  assumes "mrv_effect X S actor c d d'" "\<nexists>n. c = OpDrain n"
  shows "outbox_grows d d'"
proof (cases c)
  case (OpConfirm i)
  then show ?thesis using assms(1) confirm_grows by blast
next
  case (OpDecide i t r)
  then show ?thesis using assms(1) decide_grows by blast
next
  case (OpIssue i)
  then show ?thesis using assms(1) issue_grows by blast
qed (use assms in \<open>auto simp: mrv_effect.simps dest: insert_outbox_same intro: unannounced_grows announces_grows\<close>)

lemma sends_marked: "sends [r\<lparr>mo_PublishedAt := p\<rparr>] ms = sends [r] ms"
  by (auto simp: sends_def list_all2_Cons1 outbox_message_def)

lemma sends_member:
  assumes "sends rs ms" "r \<in> set rs"
  shows "\<exists>m\<in>set ms. sends [r] [m]"
proof -
  from assms(2) obtain i where i: "i < length rs" "rs ! i = r" by (auto simp: in_set_conv_nth)
  with assms(1) have "i < length ms" "sends [r] [ms ! i]" by (auto simp: sends_def list_all2_conv_all_nth)
  then show ?thesis by (auto intro: nth_mem)
qed

lemma marked_published:
  assumes "marks (mo_EventID ` set rs) d d'" "sends rs ms" "published_inv (md_outbox d) ks"
    "distinct (map mo_EventID (md_outbox d))" "set rs \<subseteq> set (md_outbox d)"
  shows "published_inv (md_outbox d') (ks @ ms)"
  unfolding published_inv_def
proof (intro ballI impI)
  fix r'
  assume r': "r' \<in> set (md_outbox d')" "mo_PublishedAt r' \<noteq> None"
  then obtain i where i: "i < length (md_outbox d')" "md_outbox d' ! i = r'" by (auto simp: in_set_conv_nth)
  let ?r = "md_outbox d ! i"
  from assms(1) i have r: "?r \<in> set (md_outbox d)"
    "if mo_EventID ?r \<in> mo_EventID ` set rs then \<exists>now. r' = ?r\<lparr>mo_PublishedAt := Some now\<rparr> else r' = ?r"
    unfolding marks_def by (auto simp: list_all2_conv_all_nth)
  show "\<exists>m\<in>set (ks @ ms). sends [r'] [m]"
  proof (cases "mo_EventID ?r \<in> mo_EventID ` set rs")
    case True
    then obtain q where q: "q \<in> set rs" "mo_EventID q = mo_EventID ?r" by auto
    then have "q = ?r" using assms(4,5) r(1) by (auto simp: distinct_map dest: inj_onD)
    with sends_member [OF assms(2) q(1)] r(2) True show ?thesis by (auto simp: sends_marked)
  next
    case False
    with r have "r' = ?r" by simp
    with assms(3) r r'(2) show ?thesis unfolding published_inv_def by auto
  qed
qed

lemma published_step:
  assumes "mrv_inv X S (mw_db w)" "published_inv (md_outbox (mw_db w)) (mw_kafka w)"
  shows "published_inv (md_outbox (mw_db (mrv_step X S w c))) (mw_kafka (mrv_step X S w c))"
proof (cases "\<exists>n. snd c = OpDrain n")
  case True
  then obtain n where n: "snd c = OpDrain n" by blast
  obtain u z where run: "Drain X S n w = (u, z)" by fastforce
  let ?rs = "pending_rows n (mw_db w)"
  have more: "published_inv os (ks @ ms)" if "published_inv os ks" for os ks ms using that by (auto simp: published_inv_def)
  have "published_inv (md_outbox (mw_db u)) (mw_kafka u)"
  proof (cases z)
    case (Inl e)
    with Drain_wp [of X S n w] run assms(2) show ?thesis by (auto simp: wp_def intro: more)
  next
    case (Inr x)
    with Drain_wp [of X S n w] run obtain ms where "marks (mo_EventID ` set ?rs) (mw_db w) (mw_db u)" "sends ?rs ms" "mw_kafka u = mw_kafka w @ ms"
      by (auto simp: wp_def)
    moreover have "distinct (map mo_EventID (md_outbox (mw_db w)))" using assms(1) by (simp add: mrv_inv_def outbox_inv_def)
    ultimately show ?thesis using marked_published [OF _ _ assms(2) _ pending_subset] by metis
  qed
  then show ?thesis by (simp add: mrv_step_def n run)
next
  case False
  have k: "mw_kafka (mrv_step X S w c) = mw_kafka w" using call_leaves_bus [of "snd c" X S w "fst c"] False by simp
  from mrv_step_effect [of X S c w] False have "outbox_grows (mw_db w) (mw_db (mrv_step X S w c))"
    by (auto dest: effect_grows simp: outbox_grows_def)
  with assms(2) k show ?thesis by (auto simp: outbox_grows_def published_inv_def)
qed

interpretation mrv_outbox: kept_invariant "mrv_step X S"
  "\<lambda>w. mrv_inv X S (mw_db w) \<and> published_inv (md_outbox (mw_db w)) (mw_kafka w)" for X S
  by unfold_locales (metis mrv_run.inv_step published_step)

lemma run_published: "published_inv (md_outbox (mw_db (mrv_after X S fs ps es calls))) (mw_kafka (mrv_after X S fs ps es calls))"
  using mrv_outbox.inv_run [of X S "mrv_start fs ps es" calls] start_inv(1) [of X S fs ps es]
  by (simp add: mrv_start_def published_inv_def)

section \<open>Reports over time\<close>

text \<open>What a call may make of a report: once submitted it is never a draft again and its figures stay.\<close>

definition evolves :: "AnnualReport \<Rightarrow> AnnualReport \<Rightarrow> bool" where
  "evolves r r' \<longleftrightarrow> mr_ReportID r' = mr_ReportID r
     \<and> (mr_State r \<noteq> ReportStateDraft \<longrightarrow> mr_State r' \<noteq> ReportStateDraft \<and> same_figures r r')
     \<and> (mr_State r = ReportStateVerified \<or> mr_State r = ReportStateRejected \<longrightarrow> r' = r)"

definition reports_evolve :: "AnnualReport list \<Rightarrow> AnnualReport list \<Rightarrow> bool" where
  "reports_evolve rs rs' \<longleftrightarrow> (\<forall>r\<in>set rs. \<exists>r'\<in>set rs'. evolves r r')"

lemma evolves_refl: "evolves r r"
  by (simp add: evolves_def same_figures_def)

lemma evolves_trans: "evolves r r1 \<Longrightarrow> evolves r1 r2 \<Longrightarrow> evolves r r2"
  by (auto simp: evolves_def same_figures_def)

lemma reports_evolve_trans: "reports_evolve rs rs1 \<Longrightarrow> reports_evolve rs1 rs2 \<Longrightarrow> reports_evolve rs rs2"
  unfolding reports_evolve_def by (meson evolves_trans)

lemma reports_evolve_refl: "reports_evolve rs rs" "reports_evolve rs (rs @ [r])"
  using evolves_refl by (auto simp: reports_evolve_def)

lemma reports_evolve_map: "(\<And>r. r \<in> set rs \<Longrightarrow> evolves r (g r)) \<Longrightarrow> reports_evolve rs (map g rs)"
  by (auto simp: reports_evolve_def)

lemma update_report_evolves:
  assumes "update_report hit f d = Some d'" "\<And>r. mr_ReportID (f r) = mr_ReportID r"
  shows "reports_evolve (md_reports d) (md_reports d')"
proof -
  note t = update_report_tables [OF assms(1)]
  have "evolves r (f r)" if "r \<in> set (md_reports d)" "hit r" for r
    using t(2) [OF that] assms(2) by (auto simp: evolves_def state_guard_def legal_transition_def)
  then have "evolves r (if hit r then f r else r)" if "r \<in> set (md_reports d)" for r
    using that evolves_refl by simp
  from reports_evolve_map [of "md_reports d", OF this] show ?thesis unfolding t(1) by simp
qed

lemma statements_keep_reports:
  "insert_ship s d = Some d' \<Longrightarrow> md_reports d' = md_reports d" "insert_plan p d = Some d' \<Longrightarrow> md_reports d' = md_reports d"
  "insert_fuel f d = Some d' \<Longrightarrow> md_reports d' = md_reports d" "insert_voyage v d = Some d' \<Longrightarrow> md_reports d' = md_reports d"
  "insert_verification n d = Some d' \<Longrightarrow> md_reports d' = md_reports d"
  "insert_artifact a d = Some d' \<Longrightarrow> md_reports d' = md_reports d" "insert_soc c d = Some d' \<Longrightarrow> md_reports d' = md_reports d"
  "update_plans hit f1 d = Some d' \<Longrightarrow> md_reports d' = md_reports d" "announces X S ty agg d d' \<Longrightarrow> md_reports d' = md_reports d"
  "marks ids d d' \<Longrightarrow> md_reports d' = md_reports d"
  by (auto simp: insert_ship_def insert_plan_def insert_fuel_def insert_voyage_def insert_verification_def
      insert_artifact_def insert_soc_def update_plans_def announces_def insert_outbox_def split: if_splits option.splits)
    (metis marks_def mrv_db.select_convs(6) mrv_db.surjective mrv_db.update_convs(10))

lemma compile_evolves: "mrv_effect X S actor (OpCompile imo year) d d' \<Longrightarrow> reports_evolve (md_reports d) (md_reports d')"
proof -
  assume "mrv_effect X S actor (OpCompile imo year) d d'"
  then obtain r d1 where "md_reports d' = md_reports d1"
    "insert_report r d = Some d1 \<or> update_report (\<lambda>q. mr_ReportID q = mr_ReportID r \<and> mr_State q = ReportStateDraft) (recompile r) d = Some d1"
    unfolding mrv_effect.simps using statements_keep_reports(9) by metis
  then show ?thesis
    by (auto simp: insert_report_def recompile_def intro: reports_evolve_refl update_report_evolves split: if_splits)
qed

lemma decide_evolves: "mrv_effect X S actor (OpDecide reportID dtext reason) d d' \<Longrightarrow> reports_evolve (md_reports d) (md_reports d')"
proof -
  assume "mrv_effect X S actor (OpDecide reportID dtext reason) d d'"
  then obtain st d1 d2 where d: "md_reports d' = md_reports d2" "update_report (\<lambda>q. mr_ReportID q = reportID) (with_state st) d1 = Some d2"
    "update_report (\<lambda>q. mr_ReportID q = reportID) (with_state ReportStateVerifierReview) d = Some d1 \<or> d1 = d"
    unfolding mrv_effect.simps using statements_keep_reports(5,9) by metis
  have "reports_evolve (md_reports d) (md_reports d1)"
    using d(3) by (auto intro: reports_evolve_refl update_report_evolves simp: with_state_def)
  moreover have "reports_evolve (md_reports d1) (md_reports d2)"
    by (rule update_report_evolves [OF d(2)]) (simp add: with_state_def)
  ultimately show ?thesis unfolding d(1) by (rule reports_evolve_trans)
qed

lemma submit_evolves: "mrv_effect X S actor (OpSubmit reportID) d d' \<Longrightarrow> reports_evolve (md_reports d) (md_reports d')"
proof -
  assume "mrv_effect X S actor (OpSubmit reportID) d d'"
  then obtain now d1 where d: "md_reports d' = md_reports d1" "update_report (\<lambda>q. mr_ReportID q = reportID) (submitted actor now) d = Some d1"
    unfolding mrv_effect.simps using statements_keep_reports(9) by metis
  show ?thesis unfolding d(1) by (rule update_report_evolves [OF d(2)]) (simp add: submitted_def)
qed

lemma effect_evolves:
  assumes "mrv_effect X S actor c d d'"
  shows "reports_evolve (md_reports d) (md_reports d')"
proof -
  have same: "reports_evolve (md_reports d) (md_reports d')" if "md_reports d' = md_reports d"
    using that by (simp add: reports_evolve_refl)
  show ?thesis
  proof (cases c)
    case (OpConfirm i)
    then show ?thesis using assms same unfolding OpConfirm mrv_effect.simps by (metis statements_keep_reports(8))
  next
    case (OpFuel imo key r)
    then show ?thesis using assms same unfolding OpFuel mrv_effect.simps by (metis statements_keep_reports(3,9))
  next
    case (OpVoyage imo v)
    then show ?thesis using assms same unfolding OpVoyage mrv_effect.simps by (metis statements_keep_reports(4,9))
  next
    case (OpIssue i)
    then show ?thesis using assms same unfolding OpIssue mrv_effect.simps by (elim exE conjE) (metis statements_keep_reports(6,7,9))
  qed (use assms in \<open>auto simp: mrv_effect.simps(1,2,6,7,12) intro: same compile_evolves decide_evolves submit_evolves dest: statements_keep_reports\<close>)
qed

interpretation report_history: kept_invariant "mrv_step X S" "\<lambda>w. reports_evolve rs (md_reports (mw_db w))" for X S rs
  by unfold_locales (metis mrv_step_effect effect_evolves reports_evolve_trans)

section \<open>Properties\<close>

definition sample_mrv :: mrv_externals where
  "sample_mrv = \<lparr>mx_pg = (\<lambda>n. True), mx_kafka = (\<lambda>n. True), mx_uuid = show_nat, mx_now = (\<lambda>n. 1000 * int (Suc n)), mx_sha = (\<lambda>s. s),
     mx_render = (\<lambda>f. []), mx_json_valid = (\<lambda>s. True), mx_uuid_ok = (\<lambda>s. True), mx_rfc3339 = (\<lambda>t. []), mx_iso_date = (\<lambda>t. []),
     mx_crypto = sample_crypto\<rparr>"

definition sample_service :: Service where
  "sample_service = \<lparr>sv_Signer = sample_signer,
     sv_Principal = \<lparr>pv_PrincipalID = ''p'', pv_PrincipalRole = ''r'', pv_LedgerCommitHash = [], pv_Signature = []\<rparr>,
     sv_CII = None, sv_SoCIssuance = [], sv_ActivityParams = DefaultActivityParams,
     sv_CrosscheckTolerancePermille = 100, sv_DcsGTThreshold = 5000\<rparr>"

definition sample_ship :: Ship where
  "sample_ship = \<lparr>ms_ImoNumber = ''9074729'', ms_MMSI = [], ms_ShipName = ''A'', ms_GT = 6000, ms_DWT = None, ms_ShipType = ''bulk'',
     ms_FlagState = [], ms_InternationalVoyages = True, ms_DcsScope = False, ms_RegisteredBy = [], ms_CreatedAt = 0\<rparr>"

definition sample_voyage :: Voyage where
  "sample_voyage = \<lparr>mv_VoyageID = [], mv_ImoNumber = [], mv_BospAt = Some 1000, mv_BospPort = ''A'', mv_EospAt = Some 9000, mv_EospPort = ''B'',
     mv_CargoTonnesMilli = None, mv_LadenDistanceNmMilli = None, mv_Source = [], mv_GeofenceEvidence = [], mv_RecordedBy = [], mv_CreatedAt = 0\<rparr>"

definition sample_voyage_calls :: "(string \<times> mrv_op) list" where
  "sample_voyage_calls = [(''a'', OpRegister sample_ship), (''a'', OpVoyage ''9074729'' sample_voyage), (''a'', OpDrain 10)]"


lemma sample_published:
  "map mk_key (mw_kafka (mrv_after sample_mrv sample_service [] [] [] sample_voyage_calls)) = [''9074729'']"
  unfolding sample_voyage_calls_def run_steps.simps mrv_step_def fst_conv snd_conv mrv_call.simps by code_simp

text \<open>C2. A statement of compliance is earned. After any sequence of calls by anyone, with any failures in between, starting from
  empty tables: every statement belongs to a report in the state VERIFIED that its compiler submitted, that somebody other than that
  person decided to VERIFY, and whose stored artifact is the one built from that report and has the digest
  the statement carries; and no report has two statements.\<close>

theorem statements_of_compliance_earned:
  "let d = mw_db (mrv_after X S factors positions crossings calls) in
   distinct (map mc_ReportID (md_socs d))
   \<and> list_all (\<lambda>s. list_ex (\<lambda>r. mr_ReportID r = mc_ReportID s \<and> mr_State r = ReportStateVerified \<and> mr_SubmittedBy r = Some (mr_CompiledBy r)
       \<and> list_ex (\<lambda>v. mn_ReportID v = mc_ReportID s \<and> mn_Decision v = DecisionVerify \<and> mn_Verifier v \<noteq> mr_CompiledBy r) (md_verifications d)
       \<and> list_ex (\<lambda>a. mt_ReportID a = mc_ReportID s \<and> mt_ArtifactSha256 a = mc_ArtifactSha256 s
            \<and> (\<exists>t. buildArtifact X S r t = Inr (mt_ArtifactJSON a, mt_ArtifactSha256 a))) (md_artifacts d)) (md_reports d)) (md_socs d)"
proof -
  define d where "d = mw_db (mrv_after X S factors positions crossings calls)"
  have inv: "mrv_inv X S d" unfolding d_def by (rule run_inv)
  then have socs: "socs_inv X S (md_reports d) (md_artifacts d) (md_socs d)" and reports: "reports_inv (md_reports d) (md_verifications d)"
    by (simp_all add: mrv_inv_def)
  have "list_ex (\<lambda>r. mr_ReportID r = mc_ReportID s \<and> mr_State r = ReportStateVerified \<and> mr_SubmittedBy r = Some (mr_CompiledBy r)
       \<and> list_ex (\<lambda>v. mn_ReportID v = mc_ReportID s \<and> mn_Decision v = DecisionVerify \<and> mn_Verifier v \<noteq> mr_CompiledBy r) (md_verifications d)
       \<and> list_ex (\<lambda>a. mt_ReportID a = mc_ReportID s \<and> mt_ArtifactSha256 a = mc_ArtifactSha256 s
            \<and> (\<exists>t. buildArtifact X S r t = Inr (mt_ArtifactJSON a, mt_ArtifactSha256 a))) (md_artifacts d)) (md_reports d)"
    if "s \<in> set (md_socs d)" for s
  proof -
    from socs that obtain r a t where r: "r \<in> set (md_reports d)" "mr_ReportID r = mc_ReportID s" "mr_State r = ReportStateVerified"
      and a: "a \<in> set (md_artifacts d)" "mt_ReportID a = mc_ReportID s" "mt_ArtifactSha256 a = mc_ArtifactSha256 s"
        "buildArtifact X S r t = Inr (mt_ArtifactJSON a, mt_ArtifactSha256 a)"
      unfolding socs_inv_def by blast
    from reports r(1) have "report_ok r" "mr_SubmittedBy r = None \<or> mr_SubmittedBy r = Some (mr_CompiledBy r)" "backed (md_verifications d) r"
      using r(3) unfolding reports_inv_def by blast+
    then have "mr_SubmittedBy r = Some (mr_CompiledBy r)" "backed (md_verifications d) r" using r(3) by (auto simp: report_ok_def)
    then show ?thesis using r a unfolding list_ex_iff backed_def by (metis option.inject)
  qed
  then show ?thesis using socs unfolding d_def [symmetric] Let_def list_all_iff socs_inv_def by blast
qed

text \<open>C16. Every event the emissions service announces is signed: after any sequence of calls from empty tables, every message on
  the bus and every row of the outbox carries an envelope that verifies under the service's public key; a message is on the topic
  and an envelope under the classification of the contract of its event type, and event identifiers are
  unique in the outbox. Relied on: Ed25519 verifies what it signed and the header object decodes to what was encoded.\<close>

theorem mrv_events_signed:
  assumes "crypto_laws (mx_crypto X) (sv_Signer S)" "known_kid (sg_kid (sv_Signer S))"
  shows "let w = mrv_after X S factors positions crossings calls; key = cr_public (mx_crypto X) (sg_privateKey (sv_Signer S)) in
    (\<forall>m\<in>set (mw_kafka w). Verify (mx_crypto X) (mk_value m) key = None
       \<and> (\<exists>c. eventContracts (en_EventType (mk_value m)) = Some c \<and> mk_topic m = ec_topic c
            \<and> en_Classification (mk_value m) = ec_classification c))
    \<and> (\<forall>r\<in>set (md_outbox (mw_db w)). Verify (mx_crypto X) (mo_Payload r) key = None \<and> en_EventID (mo_Payload r) = mo_EventID r
       \<and> en_EventType (mo_Payload r) = mo_EventType r)
    \<and> distinct (map mo_EventID (md_outbox (mw_db w)))"
proof -
  let ?w = "mrv_after X S factors positions crossings calls"
  have bus: "bus_inv X S (mw_kafka ?w)" and inv: "outbox_inv X S (md_outbox (mw_db ?w))"
    using run_inv [of X S factors positions crossings calls] by (simp_all add: mrv_inv_def)
  note row = signed_row_verifies [OF assms] signed_row_event
  have "Verify (mx_crypto X) (mk_value m) (cr_public (mx_crypto X) (sg_privateKey (sv_Signer S))) = None
      \<and> (\<exists>c. eventContracts (en_EventType (mk_value m)) = Some c \<and> mk_topic m = ec_topic c \<and> en_Classification (mk_value m) = ec_classification c)"
    if "m \<in> set (mw_kafka ?w)" for m
  proof -
    from bus that obtain r where r: "signed_row X S r" "sends [r] [m]" unfolding bus_inv_def by blast
    with row(1,2,3) [OF r(1)] show ?thesis by (auto simp: sends_def outbox_message_def)
  qed
  then show ?thesis using inv row unfolding Let_def outbox_inv_def by blast
qed

theorem mrv_events_signed_witness:
  "\<exists>m. mw_kafka (mrv_after sample_mrv sample_service [] [] [] sample_voyage_calls) = [m]
     \<and> Verify sample_crypto (mk_value m) (cr_public sample_crypto (sg_privateKey sample_signer)) = None"
proof -
  have x: "mx_crypto sample_mrv = sample_crypto" "sv_Signer sample_service = sample_signer"
    by (simp_all add: sample_mrv_def sample_service_def)
  note signed = mrv_events_signed [of sample_mrv sample_service "[]" "[]" "[]" sample_voyage_calls, unfolded x, OF sample_crypto_laws, unfolded Let_def]
  from sample_published obtain m where m: "mw_kafka (mrv_after sample_mrv sample_service [] [] [] sample_voyage_calls) = [m]"
    unfolding map_eq_Cons_conv map_is_Nil_conv by blast
  with signed show ?thesis by (simp only: list.set ball_simps) blast
qed


text \<open>C10. A call of the emissions service does one documented thing or nothing. When it succeeds, the tables changed exactly as
  described for it (a ship with its derived scope; a draft plan of the next version; a confirmation by another principal that
  supersedes the confirmed plan; a fuel report covered by the confirmed plan with a factor, or nothing for a replayed key; a voyage; a
  draft report; a submission by the compiler; a decision by another than the submitter, through review; a statement with its artifact
  for a verified report), each with exactly one signed event where it has one; when it fails, they are
  as before. No call but a drain puts anything on the bus.\<close>

theorem mrv_calls_refine_effects:
  "(case mrv_call X S actor c w of
      (w', Inr _) \<Rightarrow> mrv_effect X S actor c (mw_db w) (mw_db w')
    | (w', Inl e) \<Rightarrow> mw_db w' = mw_db w)
   \<and> ((\<exists>n. c = OpDrain n) \<or> mw_kafka (fst (mrv_call X S actor c w)) = mw_kafka w)"
proof -
  have "wp (mrv_call X S actor c) (\<lambda>_ u. mrv_effect X S actor c (mw_db w) (mw_db u)) (\<lambda>e u. mw_db u = mw_db w) w"
    using every_call_has_effect [of X S actor c] by (simp add: has_effect_def)
  moreover have "mw_kafka (fst (mrv_call X S actor c w)) = mw_kafka w" if "\<nexists>n. c = OpDrain n"
    using call_leaves_bus [OF that, of X S w actor] by (simp add: mrv_step_def)
  ultimately show ?thesis unfolding wp_def by (auto split: prod.splits sum.splits)
qed

text \<open>C15. Reported figures are frozen. Whatever is called afterwards, with any failures, a report that has left the draft state is
  still there, never becomes a draft again and keeps its totals, its factor set, its index values and its rating; a verified
  or rejected report never changes at all.\<close>

theorem reported_figures_frozen:
  assumes "r \<in> set (md_reports (mw_db w))" "mr_State r \<noteq> ReportStateDraft"
  shows "\<exists>r'\<in>set (md_reports (mw_db (run_steps (mrv_step X S) w calls))).
     mr_ReportID r' = mr_ReportID r \<and> mr_State r' \<noteq> ReportStateDraft
     \<and> mr_Totals r' = mr_Totals r \<and> mr_FactorSetHash r' = mr_FactorSetHash r \<and> mr_AttainedCiiNano r' = mr_AttainedCiiNano r
     \<and> mr_RequiredCiiNano r' = mr_RequiredCiiNano r \<and> mr_CiiRating r' = mr_CiiRating r
     \<and> (mr_State r \<in> {ReportStateVerified, ReportStateRejected} \<longrightarrow> r' = r)"
proof -
  have "reports_evolve (md_reports (mw_db w)) (md_reports (mw_db (run_steps (mrv_step X S) w calls)))"
    by (rule report_history.inv_run) (rule reports_evolve_refl)
  with assms obtain r' where "r' \<in> set (md_reports (mw_db (run_steps (mrv_step X S) w calls)))" "evolves r r'"
    unfolding reports_evolve_def by blast
  with assms(2) show ?thesis unfolding evolves_def same_figures_def by (intro bexI [of _ r']) auto
qed

definition sample_annual :: AnnualReport where
  "sample_annual = \<lparr>mr_ReportID = ''r1'', mr_ImoNumber = ''9074729'', mr_CalendarYear = 2025, mr_Totals = zero_totals, mr_AttainedCiiNano = None,
     mr_RequiredCiiNano = None, mr_CiiRating = None, mr_FactorSetHash = ''h'', mr_State = ReportStateSubmitted, mr_CompiledBy = ''a'',
     mr_SubmittedBy = Some ''a'', mr_CreatedAt = 0, mr_SubmittedAt = Some 0\<rparr>"

definition submitted_world :: mrv_world where
  "submitted_world = (mrv_start [] [] [])\<lparr>mw_db := (mw_db (mrv_start [] [] []))\<lparr>md_ships := [sample_ship], md_reports := [sample_annual]\<rparr>\<rparr>"

theorem reported_figures_frozen_witness:
  "\<exists>r'\<in>set (md_reports (mw_db (run_steps (mrv_step sample_mrv sample_service) submitted_world
        [(''a'', OpCompile ''9074729'' 2025), (''b'', OpDecide ''r1'' ''VERIFY'' []), (''a'', OpSubmit ''r1'')]))).
     mr_ReportID r' = ''r1'' \<and> mr_State r' \<noteq> ReportStateDraft \<and> mr_FactorSetHash r' = ''h''"
proof -
  have r: "sample_annual \<in> set (md_reports (mw_db submitted_world))" "mr_State sample_annual \<noteq> ReportStateDraft"
    "mr_ReportID sample_annual = ''r1''" "mr_FactorSetHash sample_annual = ''h''"
    by (simp_all add: submitted_world_def sample_annual_def)
  from reported_figures_frozen [OF r(1,2), of sample_mrv sample_service
      "[(''a'', OpCompile ''9074729'' 2025), (''b'', OpDecide ''r1'' ''VERIFY'' []), (''a'', OpSubmit ''r1'')]"]
  show ?thesis unfolding r(3,4) by blast
qed

text \<open>The emissions of a voyage can never be computed: the event it must announce has a type the outbox table refuses, so the
  transaction always fails.\<close>

theorem VoyageEmissions_always_fails: "\<exists>e. snd (VoyageEmissions X S actor imo voyageID labels w) = Inl e"
  using neverD [OF voyage_emissions_never, of X S actor imo voyageID labels w]
  by (auto simp: wp_def split: prod.splits sum.splits)

end
