(* ===== verification/Spec2Isabelle.thy ===== *)
theory Spec2Isabelle
  imports App_Reports Api_Server GT06 Safety_Api Device_Api Mrv_Machine
begin

text \<open>
  \<^bold>\<open>Verification of the maritime geo service.\<close>

  \<^bold>\<open>The program.\<close> The geo service takes vessel positions from AIS receivers, GSM trackers and a mobile application,
  checks them, stores them in PostGIS, watches geofences and publishes signed events on Kafka. A REST server reads what
  was stored, under the tenant and the clearance of the caller, and runs three governed registers: zones and fences, the safety
  modules (inspection, search and rescue, investigation) and the devices of the fleet. A second service keeps the emissions
  register (monitoring, reporting, verification). A position enters through a connector and flows through validation,
  duplicate suppression, the stores, the fence evaluation and the bus; a request enters through the authenticator and
  the role gate and becomes one transaction of a store, followed by one signed event.

  \<^bold>\<open>How the code is modelled.\<close> Every definition keeps the name of the function or type it translates and stands in the
  order of its file. A Go call is a function from the world to the world it leaves and its result, \<open>Inl\<close> the error
  (\<open>Effects\<close>); a struct is a record, an enumeration a datatype, a table a list of rows or a map, and an \<open>INSERT\<close> or \<open>UPDATE\<close> a
  function on the tables that is \<open>None\<close> when a constraint or a trigger of the migrations refuses it. A transaction keeps
  the tables it started from until it commits (\<open>in_tx\<close>, \<open>withActor\<close>); row-level security is a filter by the bound tenant.
  Go's fixed-width integers are \<open>int\<close> with the wrap-around written out (\<open>wrap_int64\<close> and the like) or words (\<open>GT06\<close>); instants are
  nanoseconds; strings are byte strings. What the outside decides is a record of parameters (\<open>externals\<close>, \<open>mrv_externals\<close>,
  \<open>crypto\<close>): whether the n-th call to a service succeeds, the clock, fresh identifiers, SHA-256, Ed25519, JSON canonicalisation and
  decoding, PostGIS intersection. Nothing is assumed of them but what a theorem names (\<open>crypto_laws\<close>, \<open>device_laws\<close>), and its
  witness instantiates them.

  \<^bold>\<open>Theories and sources\<close> (under \<open>src/internal\<close> unless said otherwise).

  \<^item> \<open>Geo_Prelude\<close>: integers, strings, and the interface \<open>kept_invariant\<close> of a state machine, which every register interprets.
    \<open>Effects\<close>: calls, their combinators, and the rules for \<open>wp\<close> and \<open>keeps\<close>. \<open>World\<close>: tables, Redis, topics, metrics and
    the calls that reach them.
  \<^item> \<open>Classification\<close>, \<open>Envelope\<close> (\<open>sign/*.go\<close>): the ladder, event payloads, signing and verification of envelopes.
    \<open>Auth\<close> (\<open>auth/auth.go\<close>): principals from a proxy or a bearer token, the key cache, the role gate.
  \<^item> \<open>Validate\<close> (\<open>validate/*.go\<close>), \<open>Dedup\<close> (\<open>dedup/dedup.go\<close>), \<open>Bus\<close> (\<open>bus/producer.go\<close>), \<open>Fence_Engine\<close> (\<open>fence/*.go\<close>): the filters,
    the retry loop, polygon containment and the enter, exit and dwell machine.
  \<^item> \<open>Store_Tables\<close>, \<open>App_Store\<close>, \<open>Zone_Store\<close>, \<open>Fence_Store\<close> (\<open>store/store.go\<close>, \<open>static.go\<close>, \<open>app.go\<close>, \<open>geofence.go\<close>, \<open>queries.go\<close>,
    \<open>fences.go\<close>): positions, the history of static data, mobile reports and alerts, zones and versioned fences.
  \<^item> \<open>Fence_V2\<close>, \<open>Pipeline\<close>, \<open>GT06\<close>, \<open>App_Reports\<close> (\<open>connectors/*.go\<close>): the ingest path, the tracker protocol, the mobile endpoint.
    \<open>Http\<close>, \<open>Api_Server\<close> (\<open>api/server.go\<close>): the vessel, zone and distress routes.
  \<^item> \<open>Safety_Rows\<close>, \<open>Safety_Store\<close>, \<open>Safety_Machine\<close>, \<open>Safety_Api\<close> (\<open>store/safety.go\<close>, \<open>api/safety.go\<close>, migration 0016): the safety
    modules, every handler included.
  \<^item> \<open>Device_Rows\<close>, \<open>Device_Sign\<close>, \<open>Device_Store\<close>, \<open>Device_Machine\<close>, \<open>Device_Verify\<close>, \<open>Device_Api\<close> (\<open>devices/*.go\<close>, migration 0010): the
    registry, keys and manifests, verification of telemetry, every endpoint.
  \<^item> \<open>Mrv_Math\<close>, \<open>Mrv_Rows\<close>, \<open>Mrv_Service\<close>, \<open>Mrv_Machine\<close> (\<open>mrv/*.go\<close>, migration 0012): emission factors, the intensity index and the activity
    estimate; ships, plans, fuel reports, voyages, annual reports, verification, statements of compliance; the outbox.

  \<^bold>\<open>What is shown.\<close>

  \<^item> \<^emph>\<open>Ingest\<close>: no position is dropped silently; crossings are recorded and announced in order; the checks are sound and complete
    for their bounds; containment is the even-odd rule on exact integers; the engine stays well formed.
  \<^item> \<^emph>\<open>Trackers\<close>: frames are read back as they were written, damage is detected, and the connection loop ends on every stream.
  \<^item> \<^emph>\<open>Registers\<close>: each is a state machine whose invariant holds after any sequence of calls with any failures in between (zones under
    four eyes, alert lifecycle, fence versions, static history, safety tables, device registry, statements of compliance),
    and whose successful calls refine an abstract step while failed ones change nothing (safety, devices, emissions).
  \<^item> \<^emph>\<open>Boundaries\<close>: every request of the modelled routes is answered, role, tenant and clearance are enforced as stated, and an accepted
    request did what its answer says; telemetry is accepted exactly from living devices with a usable key.
  \<^item> \<^emph>\<open>Events\<close>: envelopes verify under the service key; an outbox row is marked as published only when its message is on the bus.
  \<^item> \<^emph>\<open>Divergences\<close>: theorems that show where the code does less than its comments say, such as a crossing, a dead letter or an
    announcement that is lost after a failure, a static record joined past its label, the emissions of a voyage that can never be
    computed (\<open>VoyageEmissions_always_fails\<close>), and a distance estimate a thousand times too large (\<open>honest_distance_discrepant\<close>).

  \<^bold>\<open>Termination and bounds.\<close> Every definition is total; loops are structural recursion on the list, the stream or the number of attempts they
  consume, so no fuel is used. Batch sizes, label sets, windows and lengths are those of the source.

  \<^bold>\<open>Limits of the model.\<close>

  \<^item> Concurrent transactions are serialised: a call runs against the tables as a whole, as under the row locks the code takes. A failed
    \<open>COMMIT\<close> is taken to have rolled back, although a connection lost during it leaves the outcome open.
  \<^item> A failed Kafka write stores nothing and a successful one stores one message; duplicates of the producer's own retries are not
    represented.
  \<^item> Identifiers compare as text. UUID columns also match other spellings of an identifier and refuse a text that is none, which here is a
    missing row. Instants of the static history are whole microseconds, as the column keeps them. The primary key of the position table, a
    fresh identifier and its time, is not checked.
  \<^item> Formats of columns beyond the modelled checks are left to the failures the database may answer with at any statement.
  \<^item> Great-circle distances, the required intensity index and GeoJSON coordinates are over the reals or rationals instead of \<open>float64\<close>. The
    canonical form of JSON is a parameter.

  \<^bold>\<open>Not modelled.\<close> The vector-tile, feed, stream and recommendation APIs, the transit store with its GTFS exports and the density reads,
  which render or aggregate what PostGIS computes; the realtime hub, the AIS sockets and the third-party AIS decoder; smoothing and
  simplification in floating point; the HTTP layer of the emissions service, in front of the modelled operations; configuration,
  telemetry, migrations runner and the main programs, which are wiring.
\<close>

end
